(* ===== verification/Broker_Prelude.thy ===== *)
theory Broker_Prelude
  imports Main "HOL-Library.AList" "HOL-Library.Word"
begin

text \<open>
  Shared vocabulary of the development: the fact collections the component proofs draw on, the
  types the broker's Go code is translated to (bytes, instants, Go maps, error values) and the
  interface of a Go map as a locale, interpreted on association lists.

  A Go \<open>map[string]T\<close> is an association list: the code ranges over some of its maps, so the model
  keeps them enumerable, and every lookup goes through \<^const>\<open>map_of\<close>, every store through
  \<^const>\<open>AList.update\<close> and every \<open>delete\<close> through \<^const>\<open>AList.delete\<close>.

  A \<open>time.Time\<close> is the number of nanoseconds since Go's zero time, so the zero value is \<open>0\<close>,
  \<open>After\<close> is \<open>>\<close> and \<open>Add\<close> is \<open>+\<close>. An \<open>error\<close> is a value of \<open>gerror\<close>, one constructor for each
  sentinel the code compares with \<open>errors.Is\<close>; \<open>nil\<close> is \<^const>\<open>None\<close>.
\<close>

named_theorems go_text \<open>rewriting of Go string operations\<close>
named_theorems store_frame \<open>what an operation leaves unchanged\<close>
named_theorems gf_simps \<open>arithmetic of bytes as elements of GF(256)\<close>

type_synonym u8 = "8 word"
type_synonym time = int
type_synonym 'v gomap = "(string \<times> 'v) list"

abbreviation second :: time where "second \<equiv> 1000000000"
abbreviation minute :: time where "minute \<equiv> 60000000000"

datatype keyError =
    errStoreAlreadyExists | errUnsupportedOSWrapper | errInvalidWrapper | errLegacyWrapper | errWrapperUnavailable
  | errWrapperAccess | errOneTimeRevealMissing | errInvalidBackupArtifact | errInvalidBackupKey | errMissingBackupPath
  | errMissingNewMasterKey | errLifecycleInvalidRequest | errLifecycleAudit | errLifecycleStalePlan | errLifecycleConflict

datatype gerror =
    errLocked | errMissingRef | errInvalidRef | errPolicyDenied | errLockoutActive
  | errIdentityExpired | errIdentityInvalid | errIdentityReplayed | errSourceAuthRequired
  | errBackendDegraded | errRotationConflict
  | errInvalidRecoveryShare | errInsufficientRecoveryShares | errRecoveryShareOutputRequired
  | errRecoveryKeyMismatch | errInvalidRecoveryPolicy | errInvalidMasterKey | errEntropy
  | errKVConflict | errKVDeleted | errKVNotFound
  | errRotationAuditUnavailable
  | errDecommissionAuditUnavailable | errDecommissionDependency | errDecommissionStalePlan
  | errUnsupportedProvider | errProviderAuditUnavailable
  | errAuditChainInvalid | errIO
  | errManagedCreateConflict | errMigrationPlanConflict | errNotExist | errPublished
  | errKey keyError | errWrapped gerror gerror

text \<open>
  \<open>errors.Is\<close>: an error built with two \<open>%w\<close> verbs is each of the errors it wraps. \<open>errPublished\<close> is the
  \<open>privateFilePublishedError\<close> of \<open>atomic_file.go\<close>, \<open>errNotExist\<close> is \<open>os.ErrNotExist\<close>.
\<close>

fun errorIs :: "gerror \<Rightarrow> gerror \<Rightarrow> bool" where
  "errorIs (errWrapped e f) target = (errWrapped e f = target \<or> errorIs e target \<or> errorIs f target)"
| "errorIs e target = (e = target)"

definition privateFileWasPublished :: "gerror \<Rightarrow> bool" where
  "privateFileWasPublished err = errorIs err errPublished"

subsection \<open>Sums as results\<close>

definition is_err :: "'e + 'a \<Rightarrow> bool" where
  "is_err r = (case r of Inl _ \<Rightarrow> True | Inr _ \<Rightarrow> False)"

lemma is_err_simps [simp]: "is_err (Inl e)" "\<not> is_err (Inr a)"
  by (simp_all add: is_err_def)

subsection \<open>Results with a state\<close>

text \<open>
  \<open>x, err := f(); if err != nil { ... }\<close> and \<open>if err := f(); err != nil { ... }\<close>: what to do on an
  error and what otherwise, each in the state the call has left.
\<close>

definition attempt :: "('e + 'a) \<times> 's \<Rightarrow> ('e \<Rightarrow> 's \<Rightarrow> 'r) \<Rightarrow> ('a \<Rightarrow> 's \<Rightarrow> 'r) \<Rightarrow> 'r" where
  "attempt p f g = (case fst p of Inl e \<Rightarrow> f e (snd p) | Inr a \<Rightarrow> g a (snd p))"

definition check :: "'e option \<times> 's \<Rightarrow> ('e \<Rightarrow> 's \<Rightarrow> 'r) \<Rightarrow> ('s \<Rightarrow> 'r) \<Rightarrow> 'r" where
  "check p f g = (case fst p of Some e \<Rightarrow> f e (snd p) | None \<Rightarrow> g (snd p))"

lemma attempt_simps [simp]:
  "fst p = Inl e \<Longrightarrow> attempt p f g = f e (snd p)" "fst p = Inr a \<Longrightarrow> attempt p f g = g a (snd p)"
  by (simp_all add: attempt_def)

lemma check_simps [simp]:
  "fst p = Some e \<Longrightarrow> check p f g = f e (snd p)" "fst p = None \<Longrightarrow> check p f g = g (snd p)"
  by (simp_all add: check_def)

lemma attempt_split:
  "P (attempt p f g) \<longleftrightarrow> (\<forall>e. fst p = Inl e \<longrightarrow> P (f e (snd p))) \<and> (\<forall>a. fst p = Inr a \<longrightarrow> P (g a (snd p)))"
  by (simp add: attempt_def split: sum.split)

lemma check_split:
  "P (check p f g) \<longleftrightarrow> (\<forall>e. fst p = Some e \<longrightarrow> P (f e (snd p))) \<and> (fst p = None \<longrightarrow> P (g (snd p)))"
  by (simp add: check_def split: option.split)

subsection \<open>The interface of a Go map\<close>

locale finite_map =
  fixes look :: "'m \<Rightarrow> 'k \<Rightarrow> 'v option"
    and put :: "'k \<Rightarrow> 'v \<Rightarrow> 'm \<Rightarrow> 'm"
    and del :: "'k \<Rightarrow> 'm \<Rightarrow> 'm"
    and nil :: 'm
  assumes look_nil: "look nil k = None"
    and look_put: "look (put k v m) k' = (if k' = k then Some v else look m k')"
    and look_del: "look (del k m) k' = (if k' = k then None else look m k')"
begin

lemma look_put_same: "look (put k v m) k = Some v"
  by (simp add: look_put)

lemma look_put_other: "k' \<noteq> k \<Longrightarrow> look (put k v m) k' = look m k'"
  by (simp add: look_put)

lemma look_del_other: "k' \<noteq> k \<Longrightarrow> look (del k m) k' = look m k'"
  by (simp add: look_del)

lemma put_put_look: "look (put k v (put k w m)) k' = look (put k v m) k'"
  by (simp add: look_put)

lemma del_put_look: "look (del k (put k v m)) k' = look (del k m) k'"
  by (simp add: look_put look_del)

lemma put_restores: "look m k = Some v \<Longrightarrow> look (put k v (del k m)) k' = look m k'"
  by (simp add: look_put look_del)

end

interpretation gm: finite_map "map_of :: 'v gomap \<Rightarrow> string \<Rightarrow> 'v option" AList.update AList.delete "[]"
  by unfold_locales (simp_all add: update_conv' delete_conv')

lemmas gomap_simps [simp] = gm.look_put gm.look_del

lemma gomap_keys_update [simp]: "set (map fst (AList.update k v m)) = insert k (set (map fst m))"
  by (induction m) auto

lemma gomap_distinct_update: "distinct (map fst m) \<Longrightarrow> distinct (map fst (AList.update k v m))"
  by (rule distinct_update)

lemma gomap_distinct_delete: "distinct (map fst m) \<Longrightarrow> distinct (map fst (AList.delete k m))"
  by (rule distinct_delete)

lemma gomap_mem_delete: "x \<in> set (AList.delete k m) \<longleftrightarrow> x \<in> set m \<and> fst x \<noteq> k"
  by (auto simp: AList.delete_eq)

subsection \<open>Operations that refine a step of an abstract state\<close>

text \<open>
  The contract of a store operation. \<open>view\<close> is the abstract state, \<open>effect\<close> the abstract step. A
  successful run makes exactly the abstract step; a failing one leaves the abstract state as it was,
  or has made the whole step (an error reported after the new file is in place); never anything in
  between.
\<close>

locale atomic_op =
  fixes view :: "'s \<Rightarrow> 'v"
    and run :: "'a \<Rightarrow> 's \<Rightarrow> 'r \<times> 's"
    and ok :: "'r \<Rightarrow> bool"
    and effect :: "'a \<Rightarrow> 'v \<Rightarrow> 'v"
    and inv :: "'s \<Rightarrow> bool"
  assumes run_ok: "inv s \<Longrightarrow> ok (fst (run a s)) \<Longrightarrow> view (snd (run a s)) = effect a (view s)"
    and run_err: "inv s \<Longrightarrow> \<not> ok (fst (run a s)) \<Longrightarrow> view (snd (run a s)) = view s \<or> view (snd (run a s)) = effect a (view s)"
    and run_inv: "inv s \<Longrightarrow> inv (snd (run a s))"
begin

primrec runs :: "'a list \<Rightarrow> 's \<Rightarrow> bool list \<times> 's" where
  "runs [] s = ([], s)"
| "runs (a # as) s = (let (r, s') = run a s; (rs, s'') = runs as s' in (ok r # rs, s''))"

lemma run_atomic: "inv s \<Longrightarrow> view (snd (run a s)) = view s \<or> view (snd (run a s)) = effect a (view s)"
  using run_ok run_err by blast

text \<open>A run of many operations is a run of the abstract steps of a subset that has all successes.\<close>

lemma runs_simulated:
  "inv s \<Longrightarrow> \<exists>bs. length bs = length as \<and> (\<forall>i < length as. fst (runs as s) ! i \<longrightarrow> bs ! i)
     \<and> view (snd (runs as s)) = fold (\<lambda>(a, b) v. if b then effect a v else v) (zip as bs) (view s)"
proof (induction as arbitrary: s)
  case (Cons a as)
  obtain r s' where r: "run a s = (r, s')" by fastforce
  obtain rs s'' where rs: "runs as s' = (rs, s'')" by fastforce
  have inv': "inv s'" using run_inv [OF Cons.prems, of a] r by simp
  from Cons.IH [OF inv'] rs obtain bs where bs: "length bs = length as" "\<forall>i < length as. rs ! i \<longrightarrow> bs ! i"
      "view s'' = fold (\<lambda>(a, b) v. if b then effect a v else v) (zip as bs) (view s')" by auto
  obtain d where d: "ok r \<longrightarrow> d" "view s' = (if d then effect a (view s) else view s)"
    using run_ok [OF Cons.prems, of a] run_err [OF Cons.prems, of a] r by (metis fst_conv snd_conv)
  have "\<forall>i < length (a # as). (ok r # rs) ! i \<longrightarrow> (d # bs) ! i"
    using bs(2) d(1) by (auto simp: nth_Cons split: nat.split)
  then show ?case using bs d r rs by (intro exI [of _ "d # bs"]) simp
qed simp

end

end
