(* ===== verification/Interpolation.thy ===== *)
theory Interpolation
  imports Broker_Prelude
begin

text \<open>
  Polynomials over a field as coefficient lists (constant term first), evaluated by Horner's
  rule, and Lagrange interpolation: a polynomial with \<open>n\<close> coefficients is determined by its
  values at \<open>n\<close> distinct points, and any values at up to \<open>n\<close> points are taken by one. Nothing
  here is about the broker; the theory of the recovery shares rests on these facts.
\<close>

definition peval :: "'a::field list \<Rightarrow> 'a \<Rightarrow> 'a" where
  "peval cs z = foldr (\<lambda>c y. c + z * y) cs 0"

lemma peval_simps [simp]: "peval [] z = 0" "peval (c # cs) z = c + z * peval cs z"
  by (simp_all add: peval_def)

lemma peval_0: "cs \<noteq> [] \<Longrightarrow> peval cs 0 = hd cs"
  by (cases cs) auto

lemma peval_divide:
  "\<exists>qs. length qs = length cs - 1 \<and> (\<forall>z. peval cs z = peval cs a + (z - a) * peval qs z)"
proof (induction cs)
  case Nil
  show ?case by (rule exI [of _ "[]"]) simp
next
  case (Cons c cs)
  show ?case
  proof (cases cs)
    case Nil
    then show ?thesis by simp
  next
    case (Cons d ds)
    from Cons.IH obtain qs where qs: "length qs = length cs - 1"
      "\<And>z. peval cs z = peval cs a + (z - a) * peval qs z" by blast
    have "length (peval cs a # qs) = length (c # cs) - 1" using qs(1) Cons by simp
    moreover have "peval (c # cs) z = peval (c # cs) a + (z - a) * peval (peval cs a # qs) z" for z
      by (simp add: qs(2) [of z] algebra_simps)
    ultimately show ?thesis by blast
  qed
qed

lemma peval_roots:
  assumes "finite X" "length cs \<le> card X" "\<And>x. x \<in> X \<Longrightarrow> peval cs x = 0"
  shows "peval cs z = 0"
  using assms
proof (induction "length cs" arbitrary: cs X z)
  case 0
  then show ?case by simp
next
  case (Suc n)
  then have "card X > 0" by simp
  then obtain a where a: "a \<in> X" by fastforce
  obtain qs where qs: "length qs = length cs - 1" "\<And>z. peval cs z = peval cs a + (z - a) * peval qs z"
    using peval_divide [of cs a] by blast
  have "peval qs x = 0" if "x \<in> X - {a}" for x
    using that Suc.prems(3) [of x] Suc.prems(3) [OF a] qs(2) [of x] by auto
  moreover have "length qs \<le> card (X - {a})" using qs(1) Suc.prems(1,2) a by simp
  moreover have "n = length qs" using qs(1) Suc.hyps(2) by simp
  ultimately have "peval qs z = 0" using Suc.hyps(1) [of qs "X - {a}"] Suc.prems(1) by simp
  then show ?case using qs(2) [of z] Suc.prems(3) [OF a] by simp
qed

definition polyn :: "nat \<Rightarrow> ('a::field \<Rightarrow> 'a) \<Rightarrow> bool" where
  "polyn n f \<longleftrightarrow> (\<exists>cs. length cs = n \<and> (\<forall>z. f z = peval cs z))"

lemma polyn_0: "polyn 0 (\<lambda>z. 0)" by (simp add: polyn_def)
lemma polynI: "(\<And>z. f z = peval cs z) \<Longrightarrow> length cs = n \<Longrightarrow> polyn n f"
  by (auto simp: polyn_def)

lemma polyn_Cons: "polyn n f \<Longrightarrow> polyn (Suc n) (\<lambda>z. c + z * f z)"
proof -
  assume "polyn n f"
  then obtain cs where "length cs = n" "\<And>z. f z = peval cs z" by (auto simp: polyn_def)
  then show ?thesis by (intro polynI [of _ "c # cs"]) auto
qed

lemma polyn_SucE:
  assumes "polyn (Suc n) f" obtains c g where "polyn n g" "f = (\<lambda>z. c + z * g z)"
proof -
  from assms obtain cs where cs: "length cs = Suc n" "\<And>z. f z = peval cs z" by (auto simp: polyn_def)
  then obtain c ds where "cs = c # ds" by (cases cs) auto
  with cs have "polyn n (peval ds)" "f = (\<lambda>z. c + z * peval ds z)" by (auto simp: polyn_def)
  then show ?thesis by (rule that)
qed

lemma polyn_add: "polyn n f \<Longrightarrow> polyn n g \<Longrightarrow> polyn n (\<lambda>z. f z + g z)"
proof (induction n arbitrary: f g)
  case 0
  then show ?case by (auto simp: polyn_def)
next
  case (Suc n)
  obtain c f' d g' where "polyn n f'" "f = (\<lambda>z. c + z * f' z)" "polyn n g'" "g = (\<lambda>z. d + z * g' z)"
    using Suc.prems by (metis polyn_SucE)
  then show ?case
    using polyn_Cons [OF Suc.IH, of f' g' "c + d"] by (simp add: algebra_simps)
qed

lemma polyn_smult: "polyn n f \<Longrightarrow> polyn n (\<lambda>z. a * f z)"
proof (induction n arbitrary: f)
  case 0
  then show ?case by (auto simp: polyn_def)
next
  case (Suc n)
  obtain c f' where "polyn n f'" "f = (\<lambda>z. c + z * f' z)"
    using Suc.prems by (metis polyn_SucE)
  then show ?case
    using polyn_Cons [OF Suc.IH, of f' "a * c"] by (simp add: algebra_simps)
qed

lemma polyn_Suc: "polyn n f \<Longrightarrow> polyn (Suc n) f"
proof (induction n arbitrary: f)
  case 0
  then show ?case using polyn_Cons [OF polyn_0, of 0] by (auto simp: polyn_def)
next
  case (Suc n)
  obtain c f' where "polyn n f'" "f = (\<lambda>z. c + z * f' z)"
    using Suc.prems by (metis polyn_SucE)
  then show ?case using polyn_Cons [OF Suc.IH] by simp
qed

lemma polyn_mono: "polyn m f \<Longrightarrow> m \<le> n \<Longrightarrow> polyn n f"
  by (rule dec_induct [of m n "\<lambda>n. polyn n f"]) (auto intro: polyn_Suc)

lemma polyn_linear: "polyn n f \<Longrightarrow> polyn (Suc n) (\<lambda>z. (z - a) * f z)"
proof -
  assume "polyn n f"
  then have "polyn (Suc n) (\<lambda>z. (0 + z * f z) + (- a) * f z)"
    by (intro polyn_add polyn_Cons polyn_smult polyn_Suc)
  then show ?thesis by (simp add: algebra_simps)
qed

lemma polyn_prod: "finite J \<Longrightarrow> polyn (Suc (card J)) (\<lambda>z. \<Prod>j\<in>J. (z - x j) / d j)"
proof (induction rule: finite_induct)
  case empty
  show ?case using polyn_Cons [OF polyn_0, of 1] by simp
next
  case (insert j J)
  then show ?case using polyn_smult [OF polyn_linear [OF insert.IH, of "x j"], of "1 / d j"] by simp
qed

lemma polyn_sum: "finite I \<Longrightarrow> (\<And>i. i \<in> I \<Longrightarrow> polyn n (f i)) \<Longrightarrow> polyn n (\<lambda>z. \<Sum>i\<in>I. f i z)"
proof (induction rule: finite_induct)
  case empty
  show ?case using polyn_mono [OF polyn_0] by simp
next
  case (insert j J)
  then show ?case by (simp add: polyn_add)
qed

definition lagrange :: "'i set \<Rightarrow> ('i \<Rightarrow> 'a::field) \<Rightarrow> ('i \<Rightarrow> 'a) \<Rightarrow> 'a \<Rightarrow> 'a" where
  "lagrange I x y z = (\<Sum>i\<in>I. y i * (\<Prod>j\<in>I - {i}. (z - x j) / (x i - x j)))"

lemma polyn_lagrange:
  assumes "finite I" shows "polyn (card I) (lagrange I x y)"
proof (cases "I = {}")
  case True
  then show ?thesis by (simp add: lagrange_def [abs_def] polyn_0)
next
  case False
  have "polyn (card I) (\<lambda>z. \<Prod>j\<in>I - {i}. (z - x j) / (x i - x j))" if "i \<in> I" for i
    using polyn_prod [of "I - {i}" x "\<lambda>j. x i - x j"] assms card.remove [OF assms that] by simp
  then show ?thesis unfolding lagrange_def
    by (intro polyn_sum polyn_smult) (use assms in auto)
qed

lemma lagrange_node:
  assumes "finite I" "inj_on x I" "k \<in> I" shows "lagrange I x y (x k) = y k"
proof -
  have "(\<Prod>j\<in>I - {i}. (x k - x j) / (x i - x j)) = (if i = k then 1 else 0)" if "i \<in> I" for i
  proof (cases "i = k")
    case True
    then have "(x k - x j) / (x i - x j) = 1" if "j \<in> I - {i}" for j
      using that assms by (auto simp: inj_on_def)
    then show ?thesis using True by simp
  next
    case False
    then show ?thesis using assms by (auto intro!: prod_zero bexI [of _ k])
  qed
  then have "lagrange I x y (x k) = (\<Sum>i\<in>I. y i * (if i = k then 1 else 0))"
    unfolding lagrange_def by (intro sum.cong) auto
  also have "\<dots> = (\<Sum>i\<in>I. if i = k then y i else 0)"
    by (intro sum.cong) auto
  finally show ?thesis using assms by simp
qed

lemma polyn_peval: "polyn (length cs) (peval cs)" by (auto simp: polyn_def)

theorem lagrange_unique:
  assumes "finite I" "inj_on x I" "length cs \<le> card I" "\<And>i. i \<in> I \<Longrightarrow> peval cs (x i) = y i"
  shows "lagrange I x y z = peval cs z"
proof -
  have "polyn (card I) (\<lambda>z. lagrange I x y z + (-1) * peval cs z)"
    using polyn_add [OF polyn_lagrange [OF assms(1)] polyn_smult [OF polyn_mono [OF polyn_peval assms(3)]]] .
  then obtain ds where ds: "length ds = card I" "\<And>z. lagrange I x y z + (-1) * peval cs z = peval ds z"
    by (auto simp: polyn_def)
  have "peval ds z = 0"
  proof (rule peval_roots [of "x ` I"])
    show "length ds \<le> card (x ` I)" using ds(1) assms(2) by (simp add: card_image)
    fix a assume "a \<in> x ` I"
    then obtain i where "i \<in> I" "a = x i" by blast
    then show "peval ds a = 0" using lagrange_node [OF assms(1,2)] assms(4) ds(2) [of a] by simp
  qed (use assms in simp)
  then show ?thesis using ds(2) [of z] by simp
qed

theorem interpolating_poly:
  assumes "finite I" "inj_on x I" "card I \<le> n"
  shows "\<exists>cs. length cs = n \<and> (\<forall>i\<in>I. peval cs (x i) = y i)"
proof -
  have "polyn n (lagrange I x y)" using polyn_mono [OF polyn_lagrange [OF assms(1)] assms(3)] .
  then obtain cs where "length cs = n" "\<And>z. lagrange I x y z = peval cs z" by (auto simp: polyn_def)
  then show ?thesis using lagrange_node [OF assms(1,2)] by metis
qed

lemma peval_inj:
  assumes "finite X" "length cs = length ds" "length cs \<le> card X" "\<And>x. x \<in> X \<Longrightarrow> peval cs x = peval ds x"
  shows "peval cs z = peval ds z"
  using lagrange_unique [of X "\<lambda>x. x" cs "peval cs" z] lagrange_unique [of X "\<lambda>x. x" ds "peval cs" z] assms by simp

lemma peval_diff:
  "length cs = length ds \<Longrightarrow> peval (map2 (-) cs ds) z = peval cs z - peval ds z"
  by (induction cs ds rule: list_induct2) (simp_all add: right_diff_distrib)

text \<open>In a field with enough elements the coefficients are determined by the values.\<close>

lemma peval_zero_coeffs:
  fixes X :: "'a::field set" and cs :: "'a list"
  assumes "finite X" "0 \<in> X" "length cs \<le> card X" "\<And>z. peval cs z = 0"
  shows "set cs \<subseteq> {0}"
  using assms(3,4)
proof (induction cs)
  case (Cons c cs)
  have c: "c = 0" using Cons.prems(2) [of 0] by simp
  have "peval cs z = 0" if "z \<in> X - {0}" for z
    using that Cons.prems(2) [of z] c by simp
  moreover have "length cs \<le> card (X - {0})" using Cons.prems(1) assms(1,2) by simp
  ultimately have "peval cs z = 0" for z
    using peval_roots [of "X - {0}" cs z] assms(1) by simp
  then show ?case using Cons c by simp
qed simp

lemma peval_coeffs_unique:
  fixes X Y :: "'a::field set"
  assumes "finite X" "0 \<in> X" "length cs = length ds" "length cs \<le> card X"
    and "finite Y" "length cs \<le> card Y" "\<And>y. y \<in> Y \<Longrightarrow> peval cs y = peval ds y"
  shows "cs = ds"
proof -
  have "peval (map2 (-) cs ds) z = 0" for z
    using peval_inj [OF assms(5,3,6,7)] by (simp add: peval_diff [OF assms(3)])
  then have "set (map2 (-) cs ds) \<subseteq> {0}"
    using assms by (intro peval_zero_coeffs [of X]) simp_all
  then have "cs ! i = ds ! i" if "i < length cs" for i
    using that assms(3) by (force simp: set_conv_nth)
  then show ?thesis using assms(3) by (intro nth_equalityI) simp_all
qed

end
