(* ===== verification/GF256.thy ===== *)
theory GF256
  imports Interpolation
begin

unbundle bit_operations_syntax

text \<open>
  The byte arithmetic of the recovery shares (\<open>recovery_shares.go\<close>: \<open>gfMul\<close>, \<open>gfInv\<close>,
  \<open>gfDiv\<close>): the loops on 8-bit words as the code has them, and the proof that with XOR as
  addition they make the 256 bytes a field. The field laws come from linearity: shift-and-add
  multiplication is additive in both arguments, so commutativity and associativity are checked
  on the eight basis bytes only; the inverse \<open>a ^ 254\<close> is right because squaring is additive (so
  \<open>a ^ 256 = a\<close> is again checked on the basis) and 0 and 1 are the only idempotents.
\<close>

subsection \<open>The code's loops\<close>

text \<open>One doubling step of \<open>gfMul\<close>: shift left, reduce by 0x1b when the high bit drops out.\<close>

definition xtime :: "u8 \<Rightarrow> u8" where
  "xtime a = (let high = a AND 0x80; a' = push_bit 1 a in if high \<noteq> 0 then a' XOR 0x1b else a')"

function gfMul_loop :: "u8 \<Rightarrow> u8 \<Rightarrow> u8 \<Rightarrow> u8" where
  "gfMul_loop a b product =
     (if b = 0 then product
      else gfMul_loop (xtime a) (drop_bit 1 b) (if b AND 1 = 1 then product XOR a else product))"
  by pat_completeness auto
termination
proof (relation "measure (\<lambda>(a, b, p). unat b)", goal_cases)
  case (2 a b p)
  then have "0 < unat b" by (simp add: unat_gt_0)
  then show ?case by (simp add: drop_bit_eq_div unat_div)
qed simp

declare gfMul_loop.simps [simp del]

definition gfMul :: "u8 \<Rightarrow> u8 \<Rightarrow> u8" where
  "gfMul a b = gfMul_loop a b 0"

text \<open>Square-and-multiply with the exponent 254, as \<open>gfInv\<close> runs it.\<close>

fun gfInv_loop :: "nat \<Rightarrow> u8 \<Rightarrow> u8 \<Rightarrow> u8" where
  "gfInv_loop pw result base =
     (if pw = 0 then result
      else gfInv_loop (pw div 2) (if odd pw then gfMul result base else result) (gfMul base base))"
declare gfInv_loop.simps [simp del]

definition gfInv :: "u8 \<Rightarrow> u8" where
  "gfInv a = (if a = 0 then 0 else gfInv_loop 254 1 a)"

definition gfDiv :: "u8 \<Rightarrow> u8 \<Rightarrow> u8" where
  "gfDiv a b = (if b = 0 then 0 else gfMul a (gfInv b))"

subsection \<open>Multiplication as a sum over the bits of the second factor\<close>

primrec gfmul_n :: "nat \<Rightarrow> u8 \<Rightarrow> u8 \<Rightarrow> u8" where
  "gfmul_n 0 a b = 0"
| "gfmul_n (Suc n) a b = (if bit b 0 then a else 0) XOR gfmul_n n (xtime a) (drop_bit 1 b)"

lemma and_80: "(a AND 0x80 \<noteq> 0) = bit (a::u8) 7"
proof -
  have "(a AND 0x80) = (if bit a 7 then 0x80 else 0)"
    by (rule bit_word_eqI) (auto simp: bit_simps numeral_eq_Suc less_Suc_eq)
  then show ?thesis by simp
qed

lemma xtime_alt: "xtime a = push_bit 1 a XOR (if bit a 7 then 0x1b else 0)"
  by (simp add: xtime_def Let_def and_80)

lemma xtime_xor: "xtime (a XOR b) = xtime a XOR xtime b"
  unfolding xtime_alt by (auto simp: push_bit_xor bit_xor_iff ac_simps)

lemma xtime_0 [simp]: "xtime 0 = 0" by (simp add: xtime_alt)

lemma gfmul_n_0: "gfmul_n n a 0 = 0" by (induction n arbitrary: a) auto

lemma and_1_bit: "((b::u8) AND 1 = 1) = bit b 0"
  by (simp add: and_one_eq bit_0 odd_iff_mod_2_eq_one)

lemma loop_n: "unat b < 2 ^ n \<Longrightarrow> gfMul_loop a b p = p XOR gfmul_n n a b"
proof (induction n arbitrary: a b p)
  case 0
  then have "b = 0" by (simp add: unat_eq_0)
  then show ?case by (simp add: gfMul_loop.simps)
next
  case (Suc n)
  show ?case
  proof (cases "b = 0")
    case True
    then show ?thesis by (simp add: gfMul_loop.simps gfmul_n_0 del: gfmul_n.simps)
  next
    case False
    have "unat (drop_bit 1 b) < 2 ^ n"
      using Suc.prems by (simp add: drop_bit_eq_div unat_div less_mult_imp_div_less mult.commute)
    from Suc.IH [OF this] False show ?thesis
      by (subst gfMul_loop.simps) (simp add: and_1_bit xor.assoc del: bit_0)
  qed
qed
lemma gfMul_n: "gfMul a b = gfmul_n 8 a b"
proof -
  have "unat b < 2 ^ 8" using unsigned_less [of b, where ?'a = nat] by simp
  from loop_n [OF this, of a 0] show ?thesis by (simp add: gfMul_def)
qed

lemma gfmul_n_xor1: "gfmul_n n (a XOR a') b = gfmul_n n a b XOR gfmul_n n a' b"
  by (induction n arbitrary: a a' b) (auto simp: xtime_xor ac_simps)
lemma gfmul_n_xor2: "gfmul_n n a (b XOR b') = gfmul_n n a b XOR gfmul_n n a b'"
  by (induction n arbitrary: a b b') (auto simp: drop_bit_xor bit_xor_iff ac_simps)
lemma gfmul_n_xtime: "gfmul_n n (xtime a) b = xtime (gfmul_n n a b)"
  by (induction n arbitrary: a b) (auto simp: xtime_xor)

subsection \<open>Additive maps are determined by the basis bytes\<close>

lemma byte_bits:
  "(x::u8) = (if bit x 0 then 1 else 0) XOR (if bit x 1 then 2 else 0) XOR (if bit x 2 then 4 else 0)
     XOR (if bit x 3 then 8 else 0) XOR (if bit x 4 then 16 else 0) XOR (if bit x 5 then 32 else 0)
     XOR (if bit x 6 then 64 else 0) XOR (if bit x 7 then 128 else 0)" (is "_ = ?rhs x")
proof (rule bit_word_eqI)
  fix n assume "n < LENGTH(8)"
  then have "n \<in> {0, 1, 2, 3, 4, 5, 6, 7}" by auto
  then show "bit x n = bit (?rhs x) n"
    by (elim insertE emptyE) simp_all
qed

definition additive :: "(u8 \<Rightarrow> u8) \<Rightarrow> bool" where
  "additive f \<longleftrightarrow> (\<forall>x y. f (x XOR y) = f x XOR f y)"

lemma additive_0: "additive f \<Longrightarrow> f 0 = 0"
proof -
  assume "additive f"
  then have "f (0 XOR 0) = f 0 XOR f 0" unfolding additive_def by blast
  then show ?thesis by simp
qed

lemma additive_eqI:
  assumes f: "additive f" and g: "additive g"
    and "f 1 = g 1" "f 2 = g 2" "f 4 = g 4" "f 8 = g 8" "f 16 = g 16" "f 32 = g 32" "f 64 = g 64" "f 128 = g 128"
  shows "f x = g x"
proof -
  have F: "f (a XOR b) = f a XOR f b" "g (a XOR b) = g a XOR g b" for a b
    using f g unfolding additive_def by blast+
  show ?thesis
    by (subst (1 2) byte_bits [of x]) (simp add: F assms(3-) additive_0 [OF f] additive_0 [OF g])
qed
subsection \<open>The ring laws\<close>

lemma gfMul_xor1: "gfMul (a XOR a') b = gfMul a b XOR gfMul a' b"
  by (simp add: gfMul_n gfmul_n_xor1)
lemma gfMul_xor2: "gfMul a (b XOR b') = gfMul a b XOR gfMul a b'"
  by (simp add: gfMul_n gfmul_n_xor2)
lemma gfMul_xtime1: "gfMul (xtime a) b = xtime (gfMul a b)"
  by (simp add: gfMul_n gfmul_n_xtime)


lemma xtime_pows: "(xtime ^^ 2) a = xtime (xtime a)" "(xtime ^^ 3) a = xtime (xtime (xtime a))"
    "(xtime ^^ 4) a = xtime (xtime (xtime (xtime a)))"
    "(xtime ^^ 5) a = xtime (xtime (xtime (xtime (xtime a))))"
    "(xtime ^^ 6) a = xtime (xtime (xtime (xtime (xtime (xtime a)))))"
    "(xtime ^^ 7) a = xtime (xtime (xtime (xtime (xtime (xtime (xtime a))))))"
  by (simp_all add: numeral_eq_Suc)

lemma gfMul_bits:
  "gfMul a b = (if bit b 0 then a else 0) XOR (if bit b 1 then xtime a else 0)
     XOR (if bit b 2 then (xtime ^^ 2) a else 0) XOR (if bit b 3 then (xtime ^^ 3) a else 0)
     XOR (if bit b 4 then (xtime ^^ 4) a else 0) XOR (if bit b 5 then (xtime ^^ 5) a else 0)
     XOR (if bit b 6 then (xtime ^^ 6) a else 0) XOR (if bit b 7 then (xtime ^^ 7) a else 0)"
proof -
  have "gfMul a b = gfmul_n (Suc (Suc (Suc (Suc (Suc (Suc (Suc (Suc 0)))))))) a b"
    by (simp add: gfMul_n numeral_eq_Suc)
  moreover have "bit b 1 = bit (drop_bit 1 b) 0" "bit b 2 = bit (drop_bit 1 (drop_bit 1 b)) 0"
    "bit b 3 = bit (drop_bit 1 (drop_bit 1 (drop_bit 1 b))) 0"
    "bit b 4 = bit (drop_bit 1 (drop_bit 1 (drop_bit 1 (drop_bit 1 b)))) 0"
    "bit b 5 = bit (drop_bit 1 (drop_bit 1 (drop_bit 1 (drop_bit 1 (drop_bit 1 b))))) 0"
    "bit b 6 = bit (drop_bit 1 (drop_bit 1 (drop_bit 1 (drop_bit 1 (drop_bit 1 (drop_bit 1 b)))))) 0"
    "bit b 7 = bit (drop_bit 1 (drop_bit 1 (drop_bit 1 (drop_bit 1 (drop_bit 1 (drop_bit 1 (drop_bit 1 b))))))) 0"
    by (simp_all add: bit_drop_bit_eq numeral_eq_Suc del: bit_0)
  ultimately show ?thesis by (simp only: gfmul_n.simps xtime_pows xor.assoc xor.right_neutral)
qed

lemma gfMul_basis:
  "gfMul a 1 = a" "gfMul a 2 = xtime a" "gfMul a 4 = (xtime ^^ 2) a" "gfMul a 8 = (xtime ^^ 3) a"
  "gfMul a 16 = (xtime ^^ 4) a" "gfMul a 32 = (xtime ^^ 5) a" "gfMul a 64 = (xtime ^^ 6) a"
  "gfMul a 128 = (xtime ^^ 7) a"
  by (simp_all add: gfMul_bits)

lemma xtime_vals: "xtime 1 = 2" "xtime 2 = 4" "xtime 4 = 8" "xtime 8 = 16" "xtime 16 = 32" "xtime 32 = 64"
   "xtime 64 = 128" "xtime 128 = 0x1b"
  by (simp_all add: xtime_alt)

lemma gfMul_1_left: "gfMul 1 b = b"
  by (rule additive_eqI) (simp_all add: additive_def gfMul_xor2 gfMul_basis xtime_vals xtime_pows)

lemma xtime_pow_gfMul: "gfMul ((xtime ^^ n) a) b = (xtime ^^ n) (gfMul a b)"
  by (induction n) (simp_all add: gfMul_xtime1)

lemma two_powers:
  "2 = xtime 1" "4 = (xtime ^^ 2) 1" "8 = (xtime ^^ 3) 1" "16 = (xtime ^^ 4) 1" "32 = (xtime ^^ 5) 1"
  "64 = (xtime ^^ 6) 1" "128 = (xtime ^^ 7) 1"
  using gfMul_1_left [of 2] gfMul_1_left [of 4] gfMul_1_left [of 8] gfMul_1_left [of 16]
    gfMul_1_left [of 32] gfMul_1_left [of 64] gfMul_1_left [of 128]
  by (simp_all only: gfMul_basis)

lemma gfMul_basis_left:
  "gfMul 1 a = a" "gfMul 2 a = xtime a" "gfMul 4 a = (xtime ^^ 2) a" "gfMul 8 a = (xtime ^^ 3) a"
  "gfMul 16 a = (xtime ^^ 4) a" "gfMul 32 a = (xtime ^^ 5) a" "gfMul 64 a = (xtime ^^ 6) a"
  "gfMul 128 a = (xtime ^^ 7) a"
  by (simp only: gfMul_1_left two_powers xtime_pow_gfMul gfMul_xtime1)+

lemma gfMul_commute: "gfMul a b = gfMul b a"
  by (rule additive_eqI [of "gfMul a" "\<lambda>b. gfMul b a"])
     (simp_all only: additive_def gfMul_xor1 gfMul_xor2 gfMul_basis gfMul_basis_left simp_thms)

lemma gfMul_xtime_pow2: "gfMul a ((xtime ^^ n) b) = (xtime ^^ n) (gfMul a b)"
  by (metis gfMul_commute xtime_pow_gfMul)

lemma gfMul_xtime2: "gfMul a (xtime b) = xtime (gfMul a b)"
  by (metis gfMul_commute gfMul_xtime1)

lemma gfMul_assoc: "gfMul (gfMul a b) c = gfMul a (gfMul b c)"
  by (rule additive_eqI [of "gfMul (gfMul a b)" "\<lambda>c. gfMul a (gfMul b c)"])
     (simp_all only: additive_def gfMul_xor2 gfMul_basis gfMul_xtime_pow2 gfMul_xtime2 simp_thms)

lemma gfMul_0: "gfMul a 0 = 0" "gfMul 0 a = 0"
  by (simp_all add: gfMul_commute [of 0]) (simp_all add: gfMul_n gfmul_n_0)

subsection \<open>Squaring is additive, and the inverse\<close>

fun pow2 :: "nat \<Rightarrow> u8 \<Rightarrow> u8" where
  "pow2 0 a = a" | "pow2 (Suc n) a = (let b = pow2 n a in gfMul b b)"

lemma square_xor: "gfMul (x XOR y) (x XOR y) = gfMul x x XOR gfMul y y"
  by (simp add: gfMul_xor1 gfMul_xor2 gfMul_commute [of x y] ac_simps)

lemma additive_pow2: "additive (pow2 n)"
  by (induction n) (simp_all add: additive_def Let_def square_xor)

lemma additive_bit: "additive (\<lambda>x. if bit x k then c else 0)"
  by (simp add: additive_def bit_xor_iff)
lemma additive_xor: "additive f \<Longrightarrow> additive g \<Longrightarrow> additive (\<lambda>x. f x XOR g x)"
  by (simp add: additive_def ac_simps)

lemma sq_vals: "gfMul x x = (if bit x 0 then 1 else 0) XOR (if bit x 1 then 4 else 0) XOR (if bit x 2 then 16 else 0)
   XOR (if bit x 3 then 64 else 0) XOR (if bit x 4 then 0x1b else 0) XOR (if bit x 5 then 0x6c else 0)
   XOR (if bit x 6 then 0xab else 0) XOR (if bit x 7 then 0x9a else 0)"
proof -
  define S :: "u8 \<Rightarrow> u8" where "S x = (if bit x 0 then 1 else 0) XOR (if bit x 1 then 4 else 0) XOR (if bit x 2 then 16 else 0)
   XOR (if bit x 3 then 64 else 0) XOR (if bit x 4 then 0x1b else 0) XOR (if bit x 5 then 0x6c else 0)
   XOR (if bit x 6 then 0xab else 0) XOR (if bit x 7 then 0x9a else 0)" for x :: u8
  have "additive (\<lambda>x. gfMul x x)" by (simp add: additive_def square_xor)
  moreover have "additive S" 
    unfolding S_def by (intro additive_xor additive_bit)
  ultimately have "gfMul x x = S x"
    by (rule additive_eqI) (simp_all add: S_def gfMul_basis xtime_pows xtime_alt)
  then show ?thesis by (simp add: S_def)
qed
lemma idempotent: 
  assumes "gfMul e e = e" shows "e = 0 \<or> e = 1"
proof -
  have b: "bit (gfMul e e) k = bit e k" for k using assms by simp
  have e: "\<not> bit e 1" "\<not> bit e 2" "\<not> bit e 3" "\<not> bit e 4" "\<not> bit e 5" "\<not> bit e 6" "\<not> bit e 7"
    using b [of 0] b [of 1] b [of 2] b [of 3] b [of 4] b [of 5] b [of 6] b [of 7]
    unfolding sq_vals bit_xor_iff
    by (simp_all add: if_distrib [of "\<lambda>w. bit w _"] cong: if_cong del: bit_0) argo+
  have "e = (if bit e 0 then 1 else 0)"
    by (subst byte_bits [of e]) (simp only: e if_False xor.right_neutral)
  then show ?thesis by metis
qed

primrec gfPow :: "u8 \<Rightarrow> nat \<Rightarrow> u8" where
  "gfPow a 0 = 1" | "gfPow a (Suc n) = gfMul a (gfPow a n)"

lemma gfPow_add: "gfPow a (m + n) = gfMul (gfPow a m) (gfPow a n)"
  by (induction m) (simp_all add: gfMul_1_left gfMul_assoc)

lemma gfPow_sq: "gfPow (gfMul a a) n = gfPow a (2 * n)"
  by (induction n) (simp_all add: gfMul_assoc)

lemma gfInv_loop_pow: "gfInv_loop p r b = gfMul r (gfPow b p)"
proof (induction p r b rule: gfInv_loop.induct)
  case (1 p r b)
  show ?case
  proof (cases "p = 0")
    case True then show ?thesis by (simp add: gfInv_loop.simps gfMul_basis)
  next
    case False
    have "gfInv_loop p r b = gfMul (if odd p then gfMul r b else r) (gfPow b (2 * (p div 2)))"
      using False 1 by (subst gfInv_loop.simps) (simp add: gfPow_sq)
    also have "\<dots> = gfMul r (gfPow b p)"
    proof (cases "odd p")
      case True
      then have "gfPow b p = gfMul b (gfPow b (2 * (p div 2)))"
        by (metis gfPow.simps(2) odd_two_times_div_two_succ Suc_eq_plus1)
      with True show ?thesis by (simp add: gfMul_assoc)
    qed simp
    finally show ?thesis .
  qed
qed

lemma pow2_gfPow: "pow2 n a = gfPow a (2 ^ n)"
  by (induction n) (simp_all add: Let_def gfMul_basis gfPow_add [symmetric] mult_2)

lemma gfPow_256: "gfPow a 256 = a"
proof -
  have "pow2 8 a = id a"
    by (rule additive_eqI [OF additive_pow2]) (simp_all add: additive_def numeral_eq_Suc[of "_::num"] Let_def sq_vals)
  then show ?thesis by (simp add: pow2_gfPow)
qed

lemma gfMul_inv: assumes "a \<noteq> 0" shows "gfMul a (gfInv a) = 1"
proof -
  have i: "gfMul a (gfInv a) = gfPow a 255"
    using assms by (simp add: gfInv_def gfInv_loop_pow gfMul_1_left numeral_eq_Suc [of "_"] flip: gfPow.simps(2))
  have "gfMul (gfPow a 255) (gfPow a 255) = gfMul (gfPow a 256) (gfPow a 254)"
    by (simp flip: gfPow_add)
  also have "\<dots> = gfPow a 255"
    by (simp add: gfPow_256 flip: gfPow.simps(2))
  finally have "gfPow a 255 = 0 \<or> gfPow a 255 = 1" by (rule idempotent)
  moreover have "gfPow a 255 \<noteq> 0"
  proof
    assume "gfPow a 255 = 0"
    then have "gfMul a (gfPow a 255) = 0" by (simp add: gfMul_0)
    then have "gfPow a 256 = 0" by (simp flip: gfPow.simps(2))
    then show False using assms by (simp add: gfPow_256)
  qed
  ultimately show ?thesis using i by simp
qed

subsection \<open>The field of bytes\<close>

text \<open>The 256 bytes as a type of their own, an instance of the library's class of fields.\<close>

typedef gf = "UNIV :: u8 set" morphisms byte_of_gf gf_of_byte ..
setup_lifting type_definition_gf

instantiation gf :: field
begin
lift_definition zero_gf :: gf is "0 :: u8" .
lift_definition one_gf :: gf is "1 :: u8" .
lift_definition plus_gf :: "gf \<Rightarrow> gf \<Rightarrow> gf" is "\<lambda>a b :: u8. a XOR b" .
lift_definition minus_gf :: "gf \<Rightarrow> gf \<Rightarrow> gf" is "\<lambda>a b :: u8. a XOR b" .
lift_definition uminus_gf :: "gf \<Rightarrow> gf" is "\<lambda>a :: u8. a" .
lift_definition times_gf :: "gf \<Rightarrow> gf \<Rightarrow> gf" is gfMul .
lift_definition inverse_gf :: "gf \<Rightarrow> gf" is gfInv .
definition divide_gf :: "gf \<Rightarrow> gf \<Rightarrow> gf" where "divide_gf a b = a * inverse b"
instance
proof
  fix a b c :: gf
  show "a * b * c = a * (b * c)" by transfer (rule gfMul_assoc)
  show "a * b = b * a" by transfer (rule gfMul_commute)
  show "1 * a = a" by transfer (rule gfMul_1_left)
  show "a + b + c = a + (b + c)" by transfer (rule xor.assoc)
  show "a + b = b + a" by transfer (rule xor.commute)
  show "0 + a = a" by transfer simp
  show "- a + a = 0" by transfer simp
  show "a - b = a + - b" by transfer simp
  show "(a + b) * c = a * c + b * c" by transfer (rule gfMul_xor1)
  show "(0::gf) \<noteq> 1" by transfer simp
  show "a \<noteq> 0 \<Longrightarrow> inverse a * a = 1" by transfer (metis gfMul_inv gfMul_commute)
  show "inverse (0::gf) = 0" by transfer (simp add: gfInv_def)
  show "a div b = a * inverse b" by (rule divide_gf_def)
qed
end

lemma gf_add_self [simp]: "a + a = (0::gf)"
  by transfer simp

lemma gf_uminus [simp]: "- a = (a::gf)"
  by transfer simp

lemma gf_minus: "a - b = a + (b::gf)"
  by transfer simp

lemma gf_of_byte_ops [gf_simps]:
  "gf_of_byte (a XOR b) = gf_of_byte a + gf_of_byte b"
  "gf_of_byte (gfMul a b) = gf_of_byte a * gf_of_byte b"
  "gf_of_byte (gfInv a) = inverse (gf_of_byte a)"
  "gf_of_byte 0 = 0" "gf_of_byte 1 = 1"
  by (simp_all add: plus_gf.abs_eq times_gf.abs_eq inverse_gf.abs_eq zero_gf_def one_gf_def)

lemma gf_of_byte_div [gf_simps]: "gf_of_byte (gfDiv a b) = gf_of_byte a / gf_of_byte b"
  by (auto simp: gfDiv_def gf_simps divide_inverse)

lemma gf_byte_eq_iff [simp]: "gf_of_byte a = gf_of_byte b \<longleftrightarrow> a = b"
  by (simp add: gf_of_byte_inject)

lemma byte_of_gf_of_byte [simp]: "byte_of_gf (gf_of_byte a) = a"
  by (simp add: gf_of_byte_inverse)

lemma gf_of_byte_of_gf [simp]: "gf_of_byte (byte_of_gf x) = x"
  by (rule byte_of_gf_inverse)

lemma UNIV_gf: "(UNIV :: gf set) = gf_of_byte ` UNIV"
  by (metis gf_of_byte_of_gf surj_def)

lemma finite_gf [simp]: "finite (UNIV :: gf set)"
  unfolding UNIV_gf by (rule finite_imageI) simp

lemma card_gf: "card (UNIV :: gf set) = 256"
  unfolding UNIV_gf by (subst card_image) (auto simp: inj_on_def card_word)

end
