(* ===== verification/Shamir.thy ===== *)
theory Shamir
  imports GF256
begin

text \<open>
  Splitting a key into recovery shares and combining them (\<open>recovery_shares.go\<close>:
  \<open>splitSecretGF256\<close>, \<open>combineSecretGF256\<close>). The random source is the list of bytes it will
  still deliver; a list too short for \<open>io.ReadFull\<close> is the read error. The definitions keep the
  code's loops: coefficients are drawn byte by byte, shares are arrays filled in place, the
  interpolation at 0 runs over all pairs of shares and can return early.

  Shown here: both functions on every branch, that any threshold-many distinct shares of a split
  give the secret back, that combining never fails once the share checks pass, and that fewer
  shares than the threshold fit every secret.
\<close>

subsection \<open>The code\<close>

record recoverySharePoint =
  spIndex :: int
  spValue :: "u8 list"

definition read_full :: "nat \<Rightarrow> u8 list \<Rightarrow> (u8 list \<times> u8 list) option" where
  "read_full n src = (if length src < n then None else Some (take n src, drop n src))"

definition eval_share :: "u8 list \<Rightarrow> u8 \<Rightarrow> u8" where
  "eval_share coefficients x =
     fold (\<lambda>c y. gfMul y x XOR c) (tl (rev coefficients)) (hd (rev coefficients))"

definition split_byte :: "nat \<Rightarrow> u8 list \<Rightarrow> recoverySharePoint list \<Rightarrow> recoverySharePoint list" where
  "split_byte secretIndex coefficients shares =
     map (\<lambda>share. share\<lparr>spValue := (spValue share)
            [secretIndex := eval_share coefficients (word_of_int (spIndex share))]\<rparr>) shares"

fun split_loop :: "nat \<Rightarrow> nat \<Rightarrow> u8 list \<Rightarrow> u8 list \<Rightarrow> recoverySharePoint list
    \<Rightarrow> gerror + recoverySharePoint list" where
  "split_loop threshold k [] src shares = Inr shares"
| "split_loop threshold k (secretByte # secret) src shares =
     (if threshold > 1 then
        (case read_full (threshold - 1) src of
           None \<Rightarrow> Inl errEntropy
         | Some (coeffs, src') \<Rightarrow>
             split_loop threshold (Suc k) secret src' (split_byte k (secretByte # coeffs) shares))
      else split_loop threshold (Suc k) secret src (split_byte k [secretByte] shares))"

definition splitSecretGF256 :: "u8 list \<Rightarrow> int \<Rightarrow> int \<Rightarrow> u8 list \<Rightarrow> gerror + recoverySharePoint list" where
  "splitSecretGF256 secret threshold shareCount src =
     (if threshold < 1 \<or> threshold > shareCount \<or> shareCount > 255 \<or> length secret = 0
      then Inl errInvalidRecoveryPolicy
      else split_loop (nat threshold) 0 secret src
             (map (\<lambda>i. \<lparr>spIndex = int i + 1, spValue = replicate (length secret) 0\<rparr>) [0..<nat shareCount]))"

fun check_shares :: "nat \<Rightarrow> int list \<Rightarrow> recoverySharePoint list \<Rightarrow> gerror option" where
  "check_shares len seen [] = None"
| "check_shares len seen (share # shares) =
     (if spIndex share < 1 \<or> spIndex share > 255 \<or> length (spValue share) \<noteq> len
      then Some errInvalidRecoveryShare
      else if spIndex share \<in> set seen then Some errInvalidRecoveryShare
      else check_shares len (spIndex share # seen) shares)"

fun basis_loop :: "recoverySharePoint list \<Rightarrow> nat \<Rightarrow> u8 \<Rightarrow> u8 \<Rightarrow> nat list \<Rightarrow> gerror + u8" where
  "basis_loop shares i xi basis [] = Inr basis"
| "basis_loop shares i xi basis (j # js) =
     (if i = j then basis_loop shares i xi basis js
      else let xj = word_of_int (spIndex (shares ! j)); denominator = xi XOR xj
           in if denominator = 0 then Inl errInvalidRecoveryShare
              else basis_loop shares i xi (gfMul basis (gfDiv xj denominator)) js)"

fun value_loop :: "recoverySharePoint list \<Rightarrow> nat \<Rightarrow> u8 \<Rightarrow> nat list \<Rightarrow> gerror + u8" where
  "value_loop shares byteIndex value [] = Inr value"
| "value_loop shares byteIndex value (i # is) =
     (let xi = word_of_int (spIndex (shares ! i))
      in case basis_loop shares i xi 1 [0..<length shares] of
           Inl e \<Rightarrow> Inl e
         | Inr basis \<Rightarrow>
             value_loop shares byteIndex
               (value XOR gfMul (spValue (shares ! i) ! byteIndex) basis) is)"

fun secret_loop :: "recoverySharePoint list \<Rightarrow> nat list \<Rightarrow> gerror + u8 list" where
  "secret_loop shares [] = Inr []"
| "secret_loop shares (k # ks) =
     (case value_loop shares k 0 [0..<length shares] of
        Inl e \<Rightarrow> Inl e
      | Inr v \<Rightarrow> (case secret_loop shares ks of Inl e \<Rightarrow> Inl e | Inr vs \<Rightarrow> Inr (v # vs)))"

definition combineSecretGF256 :: "recoverySharePoint list \<Rightarrow> gerror + u8 list" where
  "combineSecretGF256 shares =
     (case shares of
        [] \<Rightarrow> Inl errInsufficientRecoveryShares
      | first # _ \<Rightarrow>
          let len = length (spValue first)
          in if len = 0 then Inl errInvalidRecoveryShare
             else case check_shares len [] shares of
                    Some e \<Rightarrow> Inl e
                  | None \<Rightarrow> secret_loop shares [0..<len])"

subsection \<open>What splitting computes\<close>

text \<open>The coefficient lists drawn for the bytes of the secret, in order.\<close>

fun drawn_coeffs :: "nat \<Rightarrow> u8 list \<Rightarrow> u8 list \<Rightarrow> u8 list list" where
  "drawn_coeffs t [] src = []"
| "drawn_coeffs t (b # bs) src = (b # take (t - 1) src) # drawn_coeffs t bs (drop (t - 1) src)"

definition share_at :: "u8 list list \<Rightarrow> int \<Rightarrow> recoverySharePoint" where
  "share_at css i = \<lparr>spIndex = i, spValue = map (\<lambda>cs. eval_share cs (word_of_int i)) css\<rparr>"

lemma length_drawn_coeffs [simp]: "length (drawn_coeffs t bs src) = length bs"
  by (induction t bs src rule: drawn_coeffs.induct) auto

lemma drawn_coeffs_nth:
  "\<lbrakk>i < length bs; (t - 1) * length bs \<le> length src; 1 \<le> t\<rbrakk>
    \<Longrightarrow> length (drawn_coeffs t bs src ! i) = t \<and> hd (drawn_coeffs t bs src ! i) = bs ! i"
proof (induction t bs src arbitrary: i rule: drawn_coeffs.induct)
  case (2 t b bs src)
  show ?case
  proof (cases i)
    case 0
    from "2.prems" have "t - 1 \<le> length src" by simp
    with 0 "2.prems" show ?thesis by simp
  next
    case (Suc j)
    with "2.prems" show ?thesis using "2.IH" [of j] by simp
  qed
qed simp

lemma split_byte_fill:
  assumes "\<And>sh. sh \<in> set shares \<Longrightarrow> k < length (spValue sh)"
  shows "map (\<lambda>sh. sh\<lparr>spValue := take (Suc k) (spValue sh) @ f sh\<rparr>) (split_byte k cs shares)
    = map (\<lambda>sh. sh\<lparr>spValue := take k (spValue sh) @ eval_share cs (word_of_int (spIndex sh))
           # f (sh\<lparr>spValue := (spValue sh)[k := eval_share cs (word_of_int (spIndex sh))]\<rparr>)\<rparr>) shares"
  using assms by (auto simp: split_byte_def take_Suc_conv_app_nth)

lemma split_loop_eq:
  assumes "1 \<le> t" "\<And>sh. sh \<in> set shares \<Longrightarrow> length (spValue sh) = k + length bs"
  shows "split_loop t k bs src shares =
    (if (t - 1) * length bs \<le> length src
     then Inr (map (\<lambda>sh. sh\<lparr>spValue := take k (spValue sh)
             @ map (\<lambda>cs. eval_share cs (word_of_int (spIndex sh))) (drawn_coeffs t bs src)\<rparr>) shares)
     else Inl errEntropy)"
  using assms
proof (induction bs arbitrary: k src shares)
  case Nil
  have "map (\<lambda>sh. sh\<lparr>spValue := take k (spValue sh)\<rparr>) shares = shares"
    using Nil.prems(2) by (intro map_idI) simp
  then show ?case by simp
next
  case (Cons b bs)
  let ?cs = "b # take (t - 1) src"
  have IH: "split_loop t (Suc k) bs (drop (t - 1) src) (split_byte k ?cs shares) =
    (if (t - 1) * length bs \<le> length (drop (t - 1) src)
     then Inr (map (\<lambda>sh. sh\<lparr>spValue := take (Suc k) (spValue sh)
             @ map (\<lambda>cs. eval_share cs (word_of_int (spIndex sh)))
                 (drawn_coeffs t bs (drop (t - 1) src))\<rparr>) (split_byte k ?cs shares))
     else Inl errEntropy)"
    using Cons.prems by (intro Cons.IH) (auto simp: split_byte_def)
  have step: "split_loop t k (b # bs) src shares =
    (if t - 1 \<le> length src then split_loop t (Suc k) bs (drop (t - 1) src) (split_byte k ?cs shares)
     else Inl errEntropy)"
    using Cons.prems(1) by (auto simp: read_full_def)
  have len: "(t - 1) * length (b # bs) \<le> length src
    \<longleftrightarrow> t - 1 \<le> length src \<and> (t - 1) * length bs \<le> length (drop (t - 1) src)"
    by auto
  show ?case
    unfolding step IH len
    using Cons.prems by (subst split_byte_fill) auto
qed

lemma splitSecretGF256_eq:
  assumes "1 \<le> threshold" "threshold \<le> shareCount" "shareCount \<le> 255" "secret \<noteq> []"
  shows "splitSecretGF256 secret threshold shareCount src =
    (if (nat threshold - 1) * length secret \<le> length src
     then Inr (map (\<lambda>i. share_at (drawn_coeffs (nat threshold) secret src) (int i + 1)) [0..<nat shareCount])
     else Inl errEntropy)"
  using assms unfolding splitSecretGF256_def
  by (subst split_loop_eq) (auto simp: share_at_def o_def)

lemma splitSecretGF256_cases:
  assumes "splitSecretGF256 secret threshold shareCount src = Inr shares"
  shows "1 \<le> threshold \<and> threshold \<le> shareCount \<and> shareCount \<le> 255 \<and> secret \<noteq> []
    \<and> (nat threshold - 1) * length secret \<le> length src
    \<and> shares = map (\<lambda>i. share_at (drawn_coeffs (nat threshold) secret src) (int i + 1)) [0..<nat shareCount]"
proof -
  have "1 \<le> threshold \<and> threshold \<le> shareCount \<and> shareCount \<le> 255 \<and> secret \<noteq> []"
    using assms by (auto simp: splitSecretGF256_def split: if_splits)
  with assms show ?thesis by (auto simp: splitSecretGF256_eq split: if_splits)
qed

lemma eval_share_peval:
  assumes "cs \<noteq> []"
  shows "gf_of_byte (eval_share cs x) = peval (map gf_of_byte cs) (gf_of_byte x)"
proof -
  have fold: "gf_of_byte (fold (\<lambda>c y. gfMul y x XOR c) ds y)
      = foldr (\<lambda>c y. c + gf_of_byte x * y) (map gf_of_byte (rev ds)) (gf_of_byte y)" for ds y
    by (induction ds arbitrary: y) (simp_all add: gf_simps algebra_simps)
  have "cs = rev (tl (rev cs)) @ [hd (rev cs)]"
    using assms by (metis hd_Cons_tl rev.simps(2) rev_is_Nil_conv rev_rev_ident)
  then obtain ds d where cs: "cs = rev ds @ [d]" and ds: "ds = tl (rev cs)" "d = hd (rev cs)" by metis
  show ?thesis unfolding eval_share_def ds(1,2) [symmetric] fold by (simp add: cs peval_def)
qed

subsection \<open>What combining computes\<close>

lemma word_index_inj:
  "\<lbrakk>1 \<le> i; i \<le> 255; 1 \<le> j; j \<le> 255\<rbrakk> \<Longrightarrow> (word_of_int i :: u8) = word_of_int j \<longleftrightarrow> i = j"
  by (simp add: word_of_int_eq_iff take_bit_eq_mod)

lemma xor_eq_0_byte: "(a XOR b = (0::u8)) \<longleftrightarrow> a = b"
  by (metis xor.right_neutral xor_self_eq xor.assoc xor.commute)

definition usable_shares :: "recoverySharePoint list \<Rightarrow> bool" where
  "usable_shares shares \<longleftrightarrow> shares \<noteq> [] \<and> distinct (map spIndex shares)
     \<and> 0 < length (spValue (hd shares))
     \<and> (\<forall>sh \<in> set shares. 1 \<le> spIndex sh \<and> spIndex sh \<le> 255 \<and> length (spValue sh) = length (spValue (hd shares)))"

lemma check_shares_None:
  "check_shares len seen shares = None \<longleftrightarrow>
     distinct (map spIndex shares) \<and> (\<forall>sh \<in> set shares. spIndex sh \<notin> set seen
        \<and> 1 \<le> spIndex sh \<and> spIndex sh \<le> 255 \<and> length (spValue sh) = len)"
proof (induction len seen shares rule: check_shares.induct)
  case (2 len seen share shares)
  have "spIndex share \<notin> spIndex ` set shares \<longleftrightarrow> (\<forall>sh \<in> set shares. spIndex sh \<noteq> spIndex share)"
    by (metis imageE imageI)
  with 2 show ?case by (simp add: not_less) blast
qed simp

lemma check_shares_Some: "check_shares len seen shares = Some e \<Longrightarrow> e = errInvalidRecoveryShare"
  by (induction len seen shares rule: check_shares.induct) (auto split: if_splits)

abbreviation share_x :: "recoverySharePoint list \<Rightarrow> nat \<Rightarrow> gf" where
  "share_x shares i \<equiv> gf_of_byte (word_of_int (spIndex (shares ! i)))"

lemma share_x_inj:
  assumes "usable_shares shares" shows "inj_on (share_x shares) {..<length shares}"
proof (rule inj_onI)
  fix i j assume ij: "i \<in> {..<length shares}" "j \<in> {..<length shares}" "share_x shares i = share_x shares j"
  then have "spIndex (shares ! i) = spIndex (shares ! j)"
    using assms by (simp add: usable_shares_def word_index_inj)
  then show "i = j" using assms ij by (auto simp: usable_shares_def distinct_conv_nth)
qed

lemma basis_loop_eq:
  assumes "usable_shares shares" "i < length shares" "set js \<subseteq> {..<length shares}" "distinct js"
  shows "\<exists>b'. basis_loop shares i (word_of_int (spIndex (shares ! i))) b js = Inr b'
    \<and> gf_of_byte b' = gf_of_byte b
        * (\<Prod>j\<in>set js - {i}. (0 - share_x shares j) / (share_x shares i - share_x shares j))"
  using assms(3,4)
proof (induction js arbitrary: b)
  case (Cons j js)
  show ?case
  proof (cases "i = j")
    case True
    then show ?thesis using Cons by auto
  next
    case False
    let ?xi = "word_of_int (spIndex (shares ! i)) :: u8" and ?xj = "word_of_int (spIndex (shares ! j)) :: u8"
    have "?xi \<noteq> ?xj"
      using share_x_inj [OF assms(1)] False assms(2) Cons.prems by (auto simp: inj_on_def)
    then have "?xi XOR ?xj \<noteq> 0" by (simp add: xor_eq_0_byte)
    moreover obtain b' where "basis_loop shares i ?xi (gfMul b (gfDiv ?xj (?xi XOR ?xj))) js = Inr b'"
      "gf_of_byte b' = gf_of_byte (gfMul b (gfDiv ?xj (?xi XOR ?xj)))
        * (\<Prod>j\<in>set js - {i}. (0 - share_x shares j) / (share_x shares i - share_x shares j))"
      using Cons.IH Cons.prems by (meson distinct.simps(2) set_subset_Cons subset_trans)
    moreover have "set (j # js) - {i} = insert j (set js - {i})" "j \<notin> set js - {i}"
      using False Cons.prems by auto
    ultimately show ?thesis
      using False by (simp add: gf_simps gf_minus Let_def ac_simps)
  qed
qed simp

lemma value_loop_eq:
  assumes "usable_shares shares" "set is \<subseteq> {..<length shares}" "distinct is"
  shows "\<exists>v'. value_loop shares k v is = Inr v'
    \<and> gf_of_byte v' = gf_of_byte v + (\<Sum>i\<in>set is. gf_of_byte (spValue (shares ! i) ! k)
        * (\<Prod>j\<in>{..<length shares} - {i}. (0 - share_x shares j) / (share_x shares i - share_x shares j)))"
  using assms(2,3)
proof (induction "is" arbitrary: v)
  case (Cons i "is")
  obtain b where b: "basis_loop shares i (word_of_int (spIndex (shares ! i))) 1 [0..<length shares] = Inr b"
    "gf_of_byte b = (\<Prod>j\<in>{..<length shares} - {i}. (0 - share_x shares j) / (share_x shares i - share_x shares j))"
    using basis_loop_eq [OF assms(1), of i "[0..<length shares]" 1] Cons.prems
    by (auto simp: gf_simps atLeast0LessThan)
  from Cons.IH [of "v XOR gfMul (spValue (shares ! i) ! k) b"] Cons.prems
  show ?case by (auto simp: b gf_simps Let_def algebra_simps simp del: value_loop.simps(1))
qed simp

lemma value_loop_lagrange:
  assumes "usable_shares shares"
  shows "\<exists>v. value_loop shares k 0 [0..<length shares] = Inr v
    \<and> gf_of_byte v = lagrange {..<length shares} (share_x shares) (\<lambda>i. gf_of_byte (spValue (shares ! i) ! k)) 0"
proof -
  have sub: "set [0..<length shares] \<subseteq> {..<length shares}" by auto
  obtain v where "value_loop shares k 0 [0..<length shares] = Inr v"
    and v: "gf_of_byte v = gf_of_byte 0 + (\<Sum>i\<in>set [0..<length shares]. gf_of_byte (spValue (shares ! i) ! k)
        * (\<Prod>j\<in>{..<length shares} - {i}. (0 - share_x shares j) / (share_x shares i - share_x shares j)))"
    using value_loop_eq [OF assms sub distinct_upt, of k 0] by blast
  moreover have "gf_of_byte v = lagrange {..<length shares} (share_x shares) (\<lambda>i. gf_of_byte (spValue (shares ! i) ! k)) 0"
    unfolding v lagrange_def by (simp only: gf_of_byte_ops add_0_left set_upt atLeast0LessThan)
  ultimately show ?thesis by blast
qed

lemma secret_loop_eq:
  assumes "\<And>k. k \<in> set ks \<Longrightarrow> value_loop shares k 0 [0..<length shares] = Inr (f k)"
  shows "secret_loop shares ks = Inr (map f ks)"
  using assms by (induction ks) simp_all

lemma combine_usable:
  assumes "usable_shares shares"
  shows "combineSecretGF256 shares = secret_loop shares [0..<length (spValue (hd shares))]"
proof -
  obtain sh shs where "shares = sh # shs" using assms by (cases shares) (auto simp: usable_shares_def)
  moreover have "check_shares (length (spValue (hd shares))) [] shares = None"
    using assms unfolding check_shares_None usable_shares_def by (simp only: list.set empty_iff) blast
  ultimately show ?thesis using assms by (simp add: combineSecretGF256_def usable_shares_def)
qed

lemma combine_lagrange:
  assumes "usable_shares shares"
    and "\<And>k. k < length (spValue (hd shares)) \<Longrightarrow> lagrange {..<length shares} (share_x shares)
           (\<lambda>i. gf_of_byte (spValue (shares ! i) ! k)) 0 = gf_of_byte (f k)"
  shows "combineSecretGF256 shares = Inr (map f [0..<length (spValue (hd shares))])"
  unfolding combine_usable [OF assms(1)]
proof (rule secret_loop_eq)
  fix k assume "k \<in> set [0..<length (spValue (hd shares))]"
  then show "value_loop shares k 0 [0..<length shares] = Inr (f k)"
    using value_loop_lagrange [OF assms(1), of k] assms(2) [of k] by auto
qed

subsection \<open>Recovery\<close>

lemma share_at_index [simp]: "spIndex (share_at css i) = i" "length (spValue (share_at css i)) = length css"
  by (simp_all add: share_at_def)

lemma usable_selection:
  assumes split: "splitSecretGF256 secret t n src = Inr shares"
    and sel: "set sel \<subseteq> set shares" "distinct sel" "t \<le> int (length sel)"
  shows "usable_shares sel" and "length (spValue (hd sel)) = length secret"
proof -
  note s = splitSecretGF256_cases [OF split]
  have sel_at: "\<exists>i. sh = share_at (drawn_coeffs (nat t) secret src) (int i + 1) \<and> i < nat n" if "sh \<in> set sel" for sh
  proof -
    from that sel(1) have "sh \<in> set shares" by blast
    with s show ?thesis by auto
  qed
  have ne: "sel \<noteq> []" using sel(3) s by auto
  then have hd: "hd sel \<in> set sel" by simp
  show len: "length (spValue (hd sel)) = length secret"
    using sel_at [OF hd] by auto
  have "sh = share_at (drawn_coeffs (nat t) secret src) (spIndex sh)" if "sh \<in> set sel" for sh
    using sel_at [OF that] by (metis share_at_index(1))
  then have "inj_on spIndex (set sel)" by (metis inj_onI)
  then have "distinct (map spIndex sel)" using sel(2) by (simp add: distinct_map)
  moreover have "1 \<le> spIndex sh \<and> spIndex sh \<le> 255 \<and> length (spValue sh) = length (spValue (hd sel))"
    if "sh \<in> set sel" for sh
    using sel_at [OF that] s len by auto
  ultimately show "usable_shares sel"
    using ne len s unfolding usable_shares_def by simp
qed

lemma share_value_peval:
  assumes "cs \<in> set css \<longrightarrow> cs \<noteq> []" "k < length css" "css ! k = cs"
  shows "gf_of_byte (spValue (share_at css i) ! k) = peval (map gf_of_byte cs) (gf_of_byte (word_of_int i))"
  using assms by (auto simp: share_at_def eval_share_peval)

lemma combine_split:
  assumes split: "splitSecretGF256 secret t n src = Inr shares"
    and sel: "set sel \<subseteq> set shares" "distinct sel" "t \<le> int (length sel)"
  shows "combineSecretGF256 sel = Inr secret"
proof -
  note s = splitSecretGF256_cases [OF split]
  note u = usable_selection [OF assms]
  have t: "1 \<le> nat t" using s by linarith
  define css where "css = drawn_coeffs (nat t) secret src"
  have "combineSecretGF256 sel = Inr (map (\<lambda>k. secret ! k) [0..<length (spValue (hd sel))])"
  proof (rule combine_lagrange [OF u(1)])
    fix k assume "k < length (spValue (hd sel))"
    then have k: "k < length secret" using u(2) by simp
    have cs: "length (css ! k) = nat t \<and> hd (css ! k) = secret ! k"
      using drawn_coeffs_nth [of k secret "nat t" src] k s t by (simp add: css_def)
    then have ne: "css ! k \<noteq> []" using s by auto
    have "gf_of_byte (spValue (sel ! i) ! k) = peval (map gf_of_byte (css ! k)) (share_x sel i)"
      if "i < length sel" for i
    proof -
      have "sel ! i \<in> set shares" using that sel(1) by (meson nth_mem subsetD)
      then obtain m where m: "sel ! i = share_at css (int m + 1)" using s by (auto simp: css_def)
      show ?thesis unfolding m
        using share_value_peval [of "css ! k" css k "int m + 1"] ne k by (simp add: css_def)
    qed
    then have "lagrange {..<length sel} (share_x sel) (\<lambda>i. gf_of_byte (spValue (sel ! i) ! k)) 0
        = peval (map gf_of_byte (css ! k)) 0"
      using cs sel(3) by (intro lagrange_unique share_x_inj u) auto
    also have "\<dots> = gf_of_byte (secret ! k)" using cs ne by (simp add: peval_0 list.map_sel)
    finally show "lagrange {..<length sel} (share_x sel) (\<lambda>i. gf_of_byte (spValue (sel ! i) ! k)) 0
        = gf_of_byte (secret ! k)" .
  qed
  then show ?thesis by (simp add: u(2) map_nth)
qed

text \<open>The contract a user of the scheme relies on.\<close>

locale threshold_scheme =
  fixes split :: "'s \<Rightarrow> int \<Rightarrow> int \<Rightarrow> 'r \<Rightarrow> 'e + 'p list"
    and combine :: "'p list \<Rightarrow> 'e + 's"
  assumes recovers: "\<lbrakk>split s t n r = Inr ps; set sel \<subseteq> set ps; distinct sel; t \<le> int (length sel)\<rbrakk>
      \<Longrightarrow> combine sel = Inr s"
    and issued: "split s t n r = Inr ps \<Longrightarrow> distinct ps \<and> int (length ps) = n \<and> 1 \<le> t \<and> t \<le> n"
begin

lemma all_shares_recover: "split s t n r = Inr ps \<Longrightarrow> combine ps = Inr s"
  using recovers issued by blast

lemma threshold_prefix_recovers:
  "\<lbrakk>split s t n r = Inr ps; set sel \<subseteq> set ps; distinct sel; t \<le> int (length sel)\<rbrakk>
    \<Longrightarrow> combine (take (nat t) sel) = Inr s"
  using issued [of s t n r ps] set_take_subset [of "nat t" sel]
  by (intro recovers [of s t n r ps]) (auto simp: distinct_take)

lemma secret_determined:
  "\<lbrakk>split s t n r = Inr ps; split s' t n r' = Inr ps'; distinct sel; t \<le> int (length sel);
    set sel \<subseteq> set ps; set sel \<subseteq> set ps'\<rbrakk> \<Longrightarrow> s = s'"
  by (metis recovers sum.inject(2))

end

interpretation shamir: threshold_scheme splitSecretGF256 combineSecretGF256
proof
  fix s :: "u8 list" and t n :: int and r :: "u8 list" and ps
  assume "splitSecretGF256 s t n r = Inr ps"
  then show "distinct ps \<and> int (length ps) = n \<and> 1 \<le> t \<and> t \<le> n"
    using splitSecretGF256_cases [of s t n r ps]
    by (auto simp: distinct_map inj_on_def share_at_def)
qed (rule combine_split)

subsection \<open>Secrecy\<close>

lemma drawn_coeffs_concat:
  assumes "list_all2 (\<lambda>b cs. length cs = t \<and> hd cs = b) bs css" "1 \<le> t"
  shows "drawn_coeffs t bs (concat (map tl css)) = css"
    and "length (concat (map tl css)) = (t - 1) * length bs"
  using assms
proof (induction rule: list_all2_induct)
  case (Cons b bs cs css)
  { case 1 with Cons show ?case by (cases cs) auto }
  { case 2 with Cons show ?case by simp }
qed simp_all

lemma concat_drawn_coeffs:
  "length src = (t - 1) * length bs \<Longrightarrow> concat (map tl (drawn_coeffs t bs src)) = src"
  by (induction t bs src rule: drawn_coeffs.induct) auto

text \<open>The polynomials that carry one byte of a candidate secret through the shares seen.\<close>

definition fits_byte :: "nat \<Rightarrow> (int \<Rightarrow> u8) \<Rightarrow> int set \<Rightarrow> u8 \<Rightarrow> u8 list \<Rightarrow> bool" where
  "fits_byte t y I b cs \<longleftrightarrow> length cs = t \<and> hd cs = b \<and> (\<forall>i \<in> I. eval_share cs (word_of_int i) = y i)"

lemma index_points:
  assumes "finite I" "I \<subseteq> {1..255}"
  shows "inj_on (\<lambda>i. gf_of_byte (word_of_int i)) I" and "0 \<notin> (\<lambda>i. gf_of_byte (word_of_int i)) ` I"
proof -
  show "inj_on (\<lambda>i. gf_of_byte (word_of_int i)) I"
    using assms by (auto simp: inj_on_def word_index_inj subset_iff)
  show "0 \<notin> (\<lambda>i. gf_of_byte (word_of_int i)) ` I"
  proof
    assume "0 \<in> (\<lambda>i. gf_of_byte (word_of_int i)) ` I"
    then obtain i where "i \<in> I" "gf_of_byte (word_of_int i) = gf_of_byte 0" by (auto simp: gf_simps)
    then have "(word_of_int i :: u8) = word_of_int 0" and "1 \<le> i" "i \<le> 255" using assms(2) by auto
    then show False unfolding word_of_int_eq_iff by (simp add: take_bit_eq_mod)
  qed
qed

lemma fits_byte_peval:
  assumes "1 \<le> t"
  shows "fits_byte t y I b cs \<longleftrightarrow> length cs = t \<and> peval (map gf_of_byte cs) 0 = gf_of_byte b
    \<and> (\<forall>i \<in> I. peval (map gf_of_byte cs) (gf_of_byte (word_of_int i)) = gf_of_byte (y i))"
proof (cases cs)
  case Nil
  then show ?thesis using assms by (auto simp: fits_byte_def)
next
  case (Cons c ds)
  then have "peval (map gf_of_byte cs) (gf_of_byte (word_of_int i)) = gf_of_byte (y i)
      \<longleftrightarrow> eval_share cs (word_of_int i) = y i" for i
    by (metis eval_share_peval gf_byte_eq_iff list.distinct(1))
  then show ?thesis using Cons by (auto simp: fits_byte_def)
qed

lemma fits_byte_unique:
  assumes t: "1 \<le> t" "t \<le> 255" and I: "finite I" "I \<subseteq> {1..255}" "card I = t - 1"
  shows "\<exists>!cs. fits_byte t y I b cs"
proof -
  define g where "g i = gf_of_byte (word_of_int i)" for i :: int
  have inj: "inj_on g I" and no0: "0 \<notin> g ` I" using index_points [OF I(1,2)] unfolding g_def by blast+
  define Y where "Y = insert 0 (g ` I)"
  have card: "card Y = t" using inj no0 I(1,3) t by (simp add: Y_def card_image)
  define v where "v x = (if x = 0 then gf_of_byte b else gf_of_byte (y (the_inv_into I g x)))" for x
  have fin: "finite Y" by (simp add: Y_def I(1))
  have "\<exists>cs. length cs = t \<and> (\<forall>x\<in>Y. peval cs x = v x)"
    using interpolating_poly [of Y "\<lambda>x. x" t v] card fin by simp
  then obtain cs where cs: "length cs = t" "\<forall>x\<in>Y. peval cs x = v x" by blast
  have fit: "fits_byte t y I b (map byte_of_gf cs)"
    unfolding fits_byte_peval [OF t(1)]
    using cs no0 inj by (auto simp: o_def Y_def v_def g_def [symmetric] the_inv_into_f_f)
  moreover have "ds = es" if "fits_byte t y I b ds" "fits_byte t y I b es" for ds es
  proof -
    have "map gf_of_byte ds = map gf_of_byte es"
      by (rule peval_coeffs_unique [of UNIV _ _ Y])
         (use that card t fin in \<open>auto simp: fits_byte_peval [OF t(1)] card_gf Y_def g_def\<close>)
    then show ?thesis by (metis (full_types) inj_map_eq_map gf_byte_eq_iff injI)
  qed
  ultimately show ?thesis by blast
qed

lemma share_at_eq_iff:
  assumes "length css = length css'"
  shows "share_at css i = share_at css' i \<longleftrightarrow>
    (\<forall>k < length css. eval_share (css ! k) (word_of_int i) = eval_share (css' ! k) (word_of_int i))"
  using assms by (auto simp: share_at_def list_eq_iff_nth_eq)

lemma secrecy_exact:
  assumes split: "splitSecretGF256 secret t n src = Inr shares"
    and len: "length secret' = length secret"
    and sel: "set sel \<subseteq> set shares" "int (card (set sel)) = t - 1"
  shows "\<exists>!src'. length src' = (nat t - 1) * length secret
    \<and> (\<exists>shares'. splitSecretGF256 secret' t n src' = Inr shares' \<and> set sel \<subseteq> set shares')"
proof -
  note s = splitSecretGF256_cases [OF split]
  define T where "T = nat t"
  define css where "css = drawn_coeffs T secret src"
  define I where "I = spIndex ` set sel"
  have t: "1 \<le> T" "T \<le> 255" using s by (auto simp: T_def)
  have at: "sh = share_at css (spIndex sh) \<and> 1 \<le> spIndex sh \<and> spIndex sh \<le> n" if "sh \<in> set sel" for sh
  proof -
    have "sh \<in> set shares" using that sel(1) by blast
    then show ?thesis using s by (auto simp: css_def T_def)
  qed
  have inj: "inj_on spIndex (set sel)" by (metis at inj_onI)
  have I: "finite I" "I \<subseteq> {1..255}" "card I = T - 1"
    using at s sel(2) inj by (force simp: I_def T_def card_image)+
  have split': "(\<exists>shares'. splitSecretGF256 secret' t n src' = Inr shares' \<and> set sel \<subseteq> set shares') \<longleftrightarrow>
    (\<forall>k < length secret. fits_byte T (\<lambda>i. eval_share (css ! k) (word_of_int i)) I (secret' ! k)
       (drawn_coeffs T secret' src' ! k))" if l: "length src' = (T - 1) * length secret" for src'
  proof -
    let ?css' = "drawn_coeffs T secret' src'"
    have "splitSecretGF256 secret' t n src' = Inr (map (\<lambda>i. share_at ?css' (int i + 1)) [0..<nat n])"
      using s len l by (subst splitSecretGF256_eq) (auto simp: T_def)
    moreover have "sh \<in> set (map (\<lambda>i. share_at ?css' (int i + 1)) [0..<nat n]) \<longleftrightarrow>
        share_at css (spIndex sh) = share_at ?css' (spIndex sh)" if "sh \<in> set sel" for sh
    proof -
      have "sh \<in> set (map (\<lambda>i. share_at ?css' (int i + 1)) [0..<nat n]) \<longleftrightarrow> sh = share_at ?css' (spIndex sh)"
        using at [OF that] by (auto intro!: image_eqI [of _ _ "nat (spIndex sh - 1)"])
      then show ?thesis using at [OF that] by metis
    qed
    moreover have "share_at css i = share_at ?css' i \<longleftrightarrow> (\<forall>k < length secret.
        eval_share (?css' ! k) (word_of_int i) = eval_share (css ! k) (word_of_int i))" for i
      using share_at_eq_iff [of css ?css' i] len by (auto simp: css_def)
    moreover have "length (?css' ! k) = T \<and> hd (?css' ! k) = secret' ! k" if "k < length secret" for k
      using drawn_coeffs_nth [of k secret' T src'] that len l t by simp
    ultimately show ?thesis by (auto simp: fits_byte_def I_def subset_iff)
  qed
  define css' where "css' = map (\<lambda>k. THE cs. fits_byte T (\<lambda>i. eval_share (css ! k) (word_of_int i)) I (secret' ! k) cs)
      [0..<length secret]"
  have css': "fits_byte T (\<lambda>i. eval_share (css ! k) (word_of_int i)) I (secret' ! k) (css' ! k)"
    if "k < length secret" for k
    using theI' [OF fits_byte_unique [OF t I]] that by (simp add: css'_def)
  have "list_all2 (\<lambda>b cs. length cs = T \<and> hd cs = b) secret' css'"
    using css' len by (auto simp: list_all2_conv_all_nth css'_def fits_byte_def)
  note c = drawn_coeffs_concat [OF this t(1)]
  show ?thesis
  proof (rule ex1I [of _ "concat (map tl css')"])
    show "length (concat (map tl css')) = (nat t - 1) * length secret \<and>
      (\<exists>shares'. splitSecretGF256 secret' t n (concat (map tl css')) = Inr shares' \<and> set sel \<subseteq> set shares')"
      using split' [of "concat (map tl css')"] c css' len by (simp add: T_def)
  next
    fix src' assume a: "length src' = (nat t - 1) * length secret \<and>
      (\<exists>shares'. splitSecretGF256 secret' t n src' = Inr shares' \<and> set sel \<subseteq> set shares')"
    then have "drawn_coeffs T secret' src' ! k = css' ! k" if "k < length secret" for k
      using split' [of src'] css' fits_byte_unique [OF t I] that by (metis T_def)
    then have "drawn_coeffs T secret' src' = css'"
      by (intro nth_equalityI) (simp_all add: len css'_def)
    then show "src' = concat (map tl css')"
      using concat_drawn_coeffs [of src' T secret'] a len by (simp add: T_def)
  qed
qed

subsection \<open>Properties\<close>

lemma split_example:
  "splitSecretGF256 [42, 7] 2 3 [9, 200] = Inr
     [\<lparr>spIndex = 1, spValue = [35, 207]\<rparr>, \<lparr>spIndex = 2, spValue = [56, 140]\<rparr>,
      \<lparr>spIndex = 3, spValue = [49, 68]\<rparr>]"
  by code_simp

text \<open>
  Property C1. Any threshold-many distinct shares of a successful split, in any order, combine to
  the secret that was split; so do the first threshold-many of a longer selection, which is what
  the import of recovery shares passes on.
\<close>

theorem shamir_recovers:
  "\<lbrakk>splitSecretGF256 secret t n src = Inr shares; set sel \<subseteq> set shares; distinct sel; t \<le> int (length sel)\<rbrakk>
    \<Longrightarrow> combineSecretGF256 sel = Inr secret \<and> combineSecretGF256 (take (nat t) sel) = Inr secret"
  using shamir.recovers shamir.threshold_prefix_recovers by blast

theorem shamir_recovers_witness:
  "combineSecretGF256 [\<lparr>spIndex = 3, spValue = [49, 68]\<rparr>, \<lparr>spIndex = 1, spValue = [35, 207]\<rparr>] = Inr [42, 7]"
  using shamir_recovers [OF split_example,
      of "[\<lparr>spIndex = 3, spValue = [49, 68]\<rparr>, \<lparr>spIndex = 1, spValue = [35, 207]\<rparr>]"]
  by simp

text \<open>
  Property C2. Fewer shares than the threshold say nothing about the secret: for threshold minus
  one shares of a split and any other secret of the same length, exactly one sequence of random
  bytes makes a split of that other secret issue these same shares.
\<close>

theorem shamir_secrecy:
  "\<lbrakk>splitSecretGF256 secret t n src = Inr shares; length secret' = length secret;
    set sel \<subseteq> set shares; int (card (set sel)) = t - 1\<rbrakk>
   \<Longrightarrow> \<exists>!src'. length src' = (nat t - 1) * length secret
     \<and> (\<exists>shares'. splitSecretGF256 secret' t n src' = Inr shares' \<and> set sel \<subseteq> set shares')"
  by (rule secrecy_exact)

theorem shamir_secrecy_witness:
  "\<exists>!src'. length src' = 2
     \<and> (\<exists>shares'. splitSecretGF256 [0, 255] 2 3 src' = Inr shares'
          \<and> {\<lparr>spIndex = 2, spValue = [56, 140]\<rparr>} \<subseteq> set shares')"
  using shamir_secrecy [OF split_example, of "[0, 255]" "[\<lparr>spIndex = 2, spValue = [56, 140]\<rparr>]"]
  by (simp add: numeral_2_eq_2)

text \<open>
  What combining returns, for every input: the insufficient-shares error exactly for
  no shares, the interpolation at zero exactly when the shares are usable (distinct indices from 1
  to 255, values of one positive length), the invalid-share error otherwise. In particular the
  early return on a zero denominator is never taken.
\<close>

theorem combine_every_input:
  "combineSecretGF256 shares =
     (if shares = [] then Inl errInsufficientRecoveryShares
      else if usable_shares shares then
        Inr (map (\<lambda>k. byte_of_gf (lagrange {..<length shares} (share_x shares)
                    (\<lambda>i. gf_of_byte (spValue (shares ! i) ! k)) 0)) [0..<length (spValue (hd shares))])
      else Inl errInvalidRecoveryShare)"
proof (cases "usable_shares shares")
  case True
  then have "shares \<noteq> []" by (simp add: usable_shares_def)
  moreover have "combineSecretGF256 shares = Inr (map (\<lambda>k. byte_of_gf (lagrange {..<length shares} (share_x shares)
      (\<lambda>i. gf_of_byte (spValue (shares ! i) ! k)) 0)) [0..<length (spValue (hd shares))])"
    by (rule combine_lagrange [OF True]) (simp only: gf_of_byte_of_gf)
  ultimately show ?thesis using True by (simp only: if_True if_False)
next
  case False
  show ?thesis
  proof (cases shares)
    case Nil
    then show ?thesis by (simp add: combineSecretGF256_def)
  next
    case (Cons first rest)
    have "length (spValue first) = 0 \<or> check_shares (length (spValue first)) [] shares \<noteq> None"
      using False Cons unfolding check_shares_None usable_shares_def by (simp only: list.set empty_iff list.sel) blast
    then obtain e where "length (spValue first) = 0 \<or> check_shares (length (spValue first)) [] shares = Some e" by auto
    with False Cons show ?thesis
      by (auto simp: combineSecretGF256_def Let_def simp del: check_shares.simps dest: check_shares_Some)
  qed
qed

text \<open>
  Splitting succeeds exactly for a threshold between 1 and the share count, at most
  255 shares, a non-empty secret and enough random bytes; it then issues one share for each index
  from 1 to the share count, each as long as the secret.
\<close>

theorem split_every_input:
  "case splitSecretGF256 secret t n src of
     Inl e \<Rightarrow> if 1 \<le> t \<and> t \<le> n \<and> n \<le> 255 \<and> secret \<noteq> []
              then e = errEntropy \<and> length src < (nat t - 1) * length secret
              else e = errInvalidRecoveryPolicy
   | Inr shares \<Rightarrow> 1 \<le> t \<and> t \<le> n \<and> n \<le> 255 \<and> secret \<noteq> [] \<and> (nat t - 1) * length secret \<le> length src
              \<and> map spIndex shares = [1..n] \<and> map (length \<circ> spValue) shares = replicate (nat n) (length secret)"
proof (cases "1 \<le> t \<and> t \<le> n \<and> n \<le> 255 \<and> secret \<noteq> []")
  case True
  have "[1..n] = map (\<lambda>i. int i + 1) [0..<nat n]"
    by (simp add: list_eq_iff_nth_eq)
  with True show ?thesis
    by (simp add: splitSecretGF256_eq o_def map_replicate_const not_le)
next
  case False
  then show ?thesis by (auto simp: splitSecretGF256_def)
qed

end
