(* ===== verification/Go_Text.thy ===== *)
theory Go_Text
  imports Broker_Prelude "HOL-Library.Char_ord" "HOL-Library.List_Lexorder"
begin

text \<open>
  The part of Go's string library the broker uses. A Go string is its bytes: a HOL \<^typ>\<open>string\<close>,
  whose characters are the 256 byte values. Operations that Go defines on runes
  (\<open>strings.TrimSpace\<close>, \<open>strings.Fields\<close>, \<open>strings.Map\<close>) first cut the bytes into runes by Go's
  UTF-8 decoding, where a byte that starts no valid encoding stands for itself; Unicode white
  space is recognised by its encodings.
\<close>

subsection \<open>UTF-8\<close>

text \<open>For a leading byte: how many bytes follow it, and the range of the first of them.\<close>

definition utf8_head :: "char \<Rightarrow> (nat \<times> nat \<times> nat) option" where
  "utf8_head b =
     (if \<not> digit7 b then Some (0, 0, 0)
      else let n = (of_char b :: nat) in
        if 0xC2 \<le> n \<and> n \<le> 0xDF then Some (1, 0x80, 0xBF)
        else if n = 0xE0 then Some (2, 0xA0, 0xBF)
        else if n = 0xED then Some (2, 0x80, 0x9F)
        else if 0xE1 \<le> n \<and> n \<le> 0xEF then Some (2, 0x80, 0xBF)
        else if n = 0xF0 then Some (3, 0x90, 0xBF)
        else if 0xF1 \<le> n \<and> n \<le> 0xF3 then Some (3, 0x80, 0xBF)
        else if n = 0xF4 then Some (3, 0x80, 0x8F)
        else None)"

definition utf8_cont :: "nat \<Rightarrow> nat \<Rightarrow> string \<Rightarrow> bool" where
  "utf8_cont lo hi bs =
     (case bs of [] \<Rightarrow> True
      | b # bs' \<Rightarrow> lo \<le> of_char b \<and> of_char b \<le> hi
          \<and> list_all (\<lambda>c. 0x80 \<le> (of_char c :: nat) \<and> (of_char c :: nat) \<le> 0xBF) bs')"

text \<open>The bytes of the rune at the front, 0 when there is none or it is invalid.\<close>

definition utf8_width :: "string \<Rightarrow> nat" where
  "utf8_width s =
     (case s of [] \<Rightarrow> 0
      | b # r \<Rightarrow> (case utf8_head b of None \<Rightarrow> 0
          | Some (k, lo, hi) \<Rightarrow> if k \<le> length r \<and> utf8_cont lo hi (take k r) then Suc k else 0))"

function go_runes :: "string \<Rightarrow> string list" where
  "go_runes [] = []"
| "go_runes (c # s) =
     (let n = max 1 (utf8_width (c # s)) in take n (c # s) # go_runes (drop n (c # s)))"
  by pat_completeness auto
termination by (relation "measure length") auto

lemma utf8_width_stable:
  assumes "0 < utf8_width s" shows "utf8_width (take (utf8_width s) s @ t) = utf8_width s"
proof -
  obtain b r where s: "s = b # r" using assms by (cases s) (auto simp: utf8_width_def)
  with assms obtain k lo hi where k: "utf8_head b = Some (k, lo, hi)" "k \<le> length r" "utf8_cont lo hi (take k r)"
    by (auto simp: utf8_width_def split: option.splits if_splits)
  then show ?thesis by (simp add: s utf8_width_def)
qed

lemma utf8_width_prefix:
  assumes "utf8_width s = 0" shows "utf8_width (take m s) = 0"
proof (cases s)
  case Nil
  then show ?thesis by (simp add: utf8_width_def)
next
  case (Cons b r)
  with assms show ?thesis
    by (cases m) (auto simp: utf8_width_def min_def split: option.splits if_splits)
qed

lemma utf8_width_le: "utf8_width s \<le> length s"
  by (auto simp: utf8_width_def split: list.splits option.splits)

lemma go_runes_concat [simp]: "concat (go_runes s) = s"
proof (induction s rule: go_runes.induct)
  case (2 c s)
  then show ?case using append_take_drop_id [of "max 1 (utf8_width (c # s))" "c # s"]
    by (simp only: go_runes.simps Let_def concat.simps)
qed simp

lemma go_runes_unfold:
  "s \<noteq> [] \<Longrightarrow> go_runes s = take (max 1 (utf8_width s)) s # go_runes (drop (max 1 (utf8_width s)) s)"
  by (cases s) (simp_all only: go_runes.simps Let_def list.distinct simp_thms)

lemma go_runes_nonempty: "r \<in> set (go_runes s) \<Longrightarrow> r \<noteq> []"
  by (induction s rule: go_runes.induct) (auto simp: Let_def)

lemma go_runes_tl: "go_runes s = r # rs \<Longrightarrow> go_runes (concat rs) = rs"
  by (cases s) (auto simp: Let_def)

lemma go_runes_drop: "go_runes (concat (drop n (go_runes s))) = drop n (go_runes s)"
proof (induction n)
  case (Suc n)
  show ?case
  proof (cases "drop n (go_runes s)")
    case (Cons r rs)
    then have "drop (Suc n) (go_runes s) = rs" by (metis drop_Suc list.sel(3) tl_drop)
    with Suc Cons show ?thesis using go_runes_tl [of "concat (drop n (go_runes s))" r rs] by simp
  qed (simp add: drop_eq_Nil)
qed simp

lemma go_runes_take: "go_runes (concat (take n (go_runes s))) = take n (go_runes s)"
proof (induction s arbitrary: n rule: go_runes.induct)
  case (2 c s)
  define w where "w = max 1 (utf8_width (c # s))"
  have w: "1 \<le> w" "w \<le> length (c # s)" using utf8_width_le [of "c # s"] by (auto simp: w_def)
  show ?case
  proof (cases n)
    case (Suc m)
    define t where "t = concat (take m (go_runes (drop w (c # s))))"
    have IH: "go_runes t = take m (go_runes (drop w (c # s)))"
      using 2 [OF w_def] by (simp add: t_def)
    have eq: "concat (take n (go_runes (c # s))) = take w (c # s) @ t"
      by (simp add: Suc t_def w_def Let_def del: take_Cons drop_Cons)
    have "max 1 (utf8_width (take w (c # s) @ t)) = w"
    proof (cases "utf8_width (c # s) = 0")
      case True
      have "\<exists>m. t = take m (drop w (c # s))"
        unfolding t_def by (metis append_eq_conv_conj append_take_drop_id concat_append go_runes_concat)
      then obtain m' where "take w (c # s) @ t = take (w + m') (c # s)" using w by (metis take_add)
      then have "utf8_width (take w (c # s) @ t) = 0" using utf8_width_prefix [OF True] by metis
      then show ?thesis using True by (simp add: w_def)
    next
      case False
      then have "w = utf8_width (c # s)" by (simp add: w_def)
      then show ?thesis using utf8_width_stable [of "c # s" t] False by simp
    qed
    moreover have "take w (c # s) @ t \<noteq> []" "length (take w (c # s)) = w" using w by auto
    ultimately have "go_runes (take w (c # s) @ t) = take w (c # s) # go_runes t"
      using go_runes_unfold [of "take w (c # s) @ t"] by (simp only:) simp
    then show ?thesis unfolding eq IH by (simp add: Suc w_def Let_def)
  qed simp
qed simp

subsection \<open>White space\<close>

definition isSpaceRune :: "string \<Rightarrow> bool" where
  "isSpaceRune r =
     (case r of
        [a] \<Rightarrow> a \<in> {CHR 0x09, CHR 0x0A, CHR 0x0B, CHR 0x0C, CHR 0x0D, CHR 0x20}
      | [a, b] \<Rightarrow> a = CHR 0xC2 \<and> b \<in> {CHR 0x85, CHR 0xA0}
      | [a, b, c] \<Rightarrow>
          (a = CHR 0xE1 \<and> b = CHR 0x9A \<and> c = CHR 0x80)
          \<or> (a = CHR 0xE2 \<and> b = CHR 0x80
              \<and> ((0x80 \<le> (of_char c :: nat) \<and> (of_char c :: nat) \<le> 0x8A)
                 \<or> c \<in> {CHR 0xA8, CHR 0xA9, CHR 0xAF}))
          \<or> (a = CHR 0xE2 \<and> b = CHR 0x81 \<and> c = CHR 0x9F)
          \<or> (a = CHR 0xE3 \<and> b = CHR 0x80 \<and> c = CHR 0x80)
      | _ \<Rightarrow> False)"

definition trimRunes :: "string list \<Rightarrow> string list" where
  "trimRunes rs = rev (dropWhile isSpaceRune (rev (dropWhile isSpaceRune rs)))"

definition trimSpace :: "string \<Rightarrow> string" where
  "trimSpace s = concat (trimRunes (go_runes s))"

fun fieldsLoop :: "string \<Rightarrow> string list \<Rightarrow> string list" where
  "fieldsLoop cur [] = (if cur = [] then [] else [cur])"
| "fieldsLoop cur (r # rs) =
     (if isSpaceRune r then (if cur = [] then fieldsLoop [] rs else cur # fieldsLoop [] rs)
      else fieldsLoop (cur @ r) rs)"

definition goFields :: "string \<Rightarrow> string list" where
  "goFields s = fieldsLoop [] (go_runes s)"

lemma dropWhile_drop: "\<exists>n. dropWhile P xs = drop n xs"
  by (metis append_eq_conv_conj takeWhile_dropWhile_id)

lemma trimRunes_sub: "\<exists>m n. trimRunes rs = take m (drop n rs)"
proof -
  obtain n where n: "dropWhile isSpaceRune rs = drop n rs" using dropWhile_drop by metis
  obtain k where "dropWhile isSpaceRune (rev (drop n rs)) = drop k (rev (drop n rs))" using dropWhile_drop by metis
  moreover have "rev (drop k (rev xs)) = take (length xs - k) xs" for xs :: "string list"
    by (metis rev_drop rev_rev_ident length_rev)
  ultimately have "trimRunes rs = take (length (drop n rs) - k) (drop n rs)"
    by (simp only: trimRunes_def n)
  then show ?thesis by blast
qed

lemma go_runes_trimSpace: "go_runes (trimSpace s) = trimRunes (go_runes s)"
proof -
  obtain m n where mn: "trimRunes (go_runes s) = take m (drop n (go_runes s))" using trimRunes_sub by blast
  have "go_runes (concat (take m (go_runes (concat (drop n (go_runes s))))))
      = take m (go_runes (concat (drop n (go_runes s))))" by (rule go_runes_take)
  then show ?thesis by (simp add: trimSpace_def mn go_runes_drop)
qed

lemma trimRunes_idem: "trimRunes (trimRunes rs) = trimRunes rs"
proof -
  let ?d = "dropWhile isSpaceRune rs"
  let ?t = "rev (dropWhile isSpaceRune (rev ?d))"
  have "dropWhile isSpaceRune ?t = ?t"
  proof (cases ?t)
    case (Cons a as)
    obtain us where "?d = ?t @ us"
      by (metis rev_append rev_rev_ident takeWhile_dropWhile_id)
    then have "hd ?d = a" "?d \<noteq> []" using Cons by auto
    then have "\<not> isSpaceRune a" by (metis hd_dropWhile)
    then show ?thesis by (simp only: Cons dropWhile.simps if_False)
  qed (simp only: dropWhile.simps)
  then show ?thesis by (simp only: trimRunes_def rev_rev_ident dropWhile_idem)
qed

lemma trimSpace_idem [simp]: "trimSpace (trimSpace s) = trimSpace s"
  by (simp add: trimSpace_def [of "trimSpace s"] go_runes_trimSpace trimRunes_idem)
     (simp add: trimSpace_def)

lemma trimSpace_Nil [simp]: "trimSpace [] = []"
  by (simp add: trimSpace_def trimRunes_def)

lemma trimSpace_eq_Nil: "trimSpace s = [] \<longleftrightarrow> (\<forall>r \<in> set (go_runes s). isSpaceRune r)"
proof -
  have "trimRunes rs = [] \<longleftrightarrow> (\<forall>r \<in> set rs. isSpaceRune r)" for rs
    unfolding trimRunes_def by (auto simp: dropWhile_eq_Nil_conv dest: set_dropWhileD)
      (metis (full_types) dropWhile_eq_Nil_conv hd_dropWhile hd_in_set set_dropWhileD)
  moreover have "trimSpace s = [] \<longleftrightarrow> trimRunes (go_runes s) = []"
    by (metis concat.simps(1) go_runes.simps(1) go_runes_trimSpace trimSpace_def)
  ultimately show ?thesis by simp
qed

lemma set_trimSpace: "set (trimSpace s) \<subseteq> set s"
proof -
  obtain m n where "trimRunes (go_runes s) = take m (drop n (go_runes s))" using trimRunes_sub by blast
  then have "set (trimRunes (go_runes s)) \<subseteq> set (go_runes s)"
    by (metis order_trans set_drop_subset set_take_subset)
  then have "set (concat (trimRunes (go_runes s))) \<subseteq> set (concat (go_runes s))"
    unfolding set_concat by (rule UN_mono) simp
  then show ?thesis by (simp only: trimSpace_def go_runes_concat)
qed

text \<open>On ASCII strings every byte is a rune.\<close>

definition ascii :: "string \<Rightarrow> bool" where
  "ascii s \<longleftrightarrow> list_all (\<lambda>c. \<not> digit7 c) s"

lemma utf8_width_ascii: "\<not> digit7 c \<Longrightarrow> utf8_width (c # s) = 1"
  by (simp add: utf8_width_def utf8_head_def utf8_cont_def)

lemma go_runes_ascii_Cons [simp]: "\<not> digit7 c \<Longrightarrow> go_runes (c # s) = [c] # go_runes s"
  by (simp add: utf8_width_ascii)

lemma go_runes_ascii: "ascii s \<Longrightarrow> go_runes s = map (\<lambda>c. [c]) s"
  by (induction s) (auto simp: ascii_def simp del: go_runes.simps(2))

lemma go_runes_code [code]:
  "go_runes [] = []"
  "go_runes (c # s) =
     (if \<not> digit7 c then [c] # go_runes s
      else let n = max 1 (utf8_width (c # s)) in take n (c # s) # go_runes (drop n (c # s)))"
proof -
  show "go_runes (c # s) =
     (if \<not> digit7 c then [c] # go_runes s
      else let n = max 1 (utf8_width (c # s)) in take n (c # s) # go_runes (drop n (c # s)))"
    using go_runes_ascii_Cons [of c s] by (cases "digit7 c") (simp_all only: go_runes.simps simp_thms if_True if_False)
qed (rule go_runes.simps)

declare go_runes.simps(2) [simp del]

subsection \<open>Bytewise operations\<close>

definition trimSlash :: "string \<Rightarrow> string" where
  "trimSlash s = rev (dropWhile (\<lambda>c. c = CHR ''/'') (rev (dropWhile (\<lambda>c. c = CHR ''/'') s)))"

definition hasPrefix :: "string \<Rightarrow> string \<Rightarrow> bool" where
  "hasPrefix s p \<longleftrightarrow> take (length p) s = p"

definition hasSuffix :: "string \<Rightarrow> string \<Rightarrow> bool" where
  "hasSuffix s p \<longleftrightarrow> length p \<le> length s \<and> drop (length s - length p) s = p"

definition trimPrefix :: "string \<Rightarrow> string \<Rightarrow> string" where
  "trimPrefix s p = (if hasPrefix s p then drop (length p) s else s)"

definition trimSuffix :: "string \<Rightarrow> string \<Rightarrow> string" where
  "trimSuffix s p = (if hasSuffix s p then take (length s - length p) s else s)"

fun containsStr :: "string \<Rightarrow> string \<Rightarrow> bool" where
  "containsStr [] p = (p = [])"
| "containsStr (c # s) p = (hasPrefix (c # s) p \<or> containsStr s p)"

definition containsAny :: "string \<Rightarrow> string \<Rightarrow> bool" where
  "containsAny s chars = list_ex (\<lambda>c. c \<in> set chars) s"

fun splitOn :: "char \<Rightarrow> string \<Rightarrow> string list" where
  "splitOn d [] = [[]]"
| "splitOn d (c # s) =
     (if c = d then [] # splitOn d s
      else case splitOn d s of [] \<Rightarrow> [[c]] | p # ps \<Rightarrow> (c # p) # ps)"

fun joinWith :: "string \<Rightarrow> string list \<Rightarrow> string" where
  "joinWith sep [] = []"
| "joinWith sep [s] = s"
| "joinWith sep (s # t # ss) = s @ sep @ joinWith sep (t # ss)"

lemma splitOn_nonempty [simp]: "splitOn d s \<noteq> []"
  by (induction s) (auto split: list.splits)

lemma join_split: "joinWith [d] (splitOn d s) = s"
proof (induction s)
  case (Cons c s)
  obtain p ps where "splitOn d s = p # ps" by (cases "splitOn d s") auto
  with Cons show ?case by (cases ps) auto
qed simp

lemma splitOn_free: "d \<notin> set s \<Longrightarrow> splitOn d s = [s]"
  by (induction s) auto

lemma splitOn_append: "d \<notin> set s \<Longrightarrow> splitOn d (s @ d # u) = s # splitOn d u"
  by (induction s) auto

lemma splitOn_app: "splitOn d (s @ d # u) = splitOn d s @ splitOn d u"
proof (induction s)
  case (Cons c s)
  obtain p ps where "splitOn d s = p # ps" by (cases "splitOn d s") auto
  with Cons show ?case by auto
qed simp

lemma joinWith_append:
  "\<lbrakk>ps \<noteq> []; qs \<noteq> []\<rbrakk> \<Longrightarrow> joinWith sep (ps @ qs) = joinWith sep ps @ sep @ joinWith sep qs"
proof (induction ps)
  case (Cons p ps)
  then show ?case by (cases ps; cases qs) simp_all
qed simp

lemma split_join:
  "\<lbrakk>ps \<noteq> []; \<And>p. p \<in> set ps \<Longrightarrow> d \<notin> set p\<rbrakk> \<Longrightarrow> splitOn d (joinWith [d] ps) = ps"
proof (induction ps)
  case (Cons p ps)
  then show ?case by (cases ps) (simp_all add: splitOn_free splitOn_append)
qed simp

lemma hasPrefix_append [simp]: "hasPrefix (p @ s) p"
  by (simp add: hasPrefix_def)

lemma hasPrefix_iff: "hasPrefix s p \<longleftrightarrow> (\<exists>t. s = p @ t)"
  by (metis append_take_drop_id hasPrefix_append hasPrefix_def)

lemma containsStr_iff: "containsStr s p \<longleftrightarrow> (\<exists>u v. s = u @ p @ v)"
proof (induction s)
  case (Cons c s)
  show ?case
  proof
    assume "containsStr (c # s) p"
    then show "\<exists>u v. c # s = u @ p @ v"
      using Cons by (auto simp: hasPrefix_iff) (metis append_Cons append_Nil)+
  next
    assume "\<exists>u v. c # s = u @ p @ v"
    then obtain u v where uv: "c # s = u @ p @ v" by blast
    show "containsStr (c # s) p"
    proof (cases u)
      case Nil
      then have "hasPrefix (c # s) p" using uv by simp
      then show ?thesis by simp
    next
      case (Cons d u')
      then have "s = u' @ p @ v" using uv by simp
      then show ?thesis using \<open>containsStr s p \<longleftrightarrow> (\<exists>u v. s = u @ p @ v)\<close> by simp blast
    qed
  qed
qed simp

lemma trimSlash_set: "set (trimSlash s) \<subseteq> set s"
proof
  fix c assume "c \<in> set (trimSlash s)"
  then have "c \<in> set (dropWhile (\<lambda>c. c = CHR ''/'') (rev (dropWhile (\<lambda>c. c = CHR ''/'') s)))"
    by (simp add: trimSlash_def)
  from set_dropWhileD [OF this] have "c \<in> set (dropWhile (\<lambda>c. c = CHR ''/'') s)" by simp
  from set_dropWhileD [OF this] show "c \<in> set s" by simp
qed

end
