(* ===== verification/Broker_Text.thy ===== *)
theory Broker_Text
  imports Go_Text
begin

text \<open>
  The broker's own string helpers and the library functions it calls as parameters.

  \<open>golib\<close> collects the library code the broker calls for its effect on bytes only: the hash and
  the MAC, AES-GCM, base64, the Unicode case table and the timestamp format. Every definition
  that needs one of them takes the record as an argument, so a theorem holds for each of them;
  \<open>lib_ok\<close> states what the code relies on, and \<open>toy_lib\<close> is a concrete library that satisfies it.
  Everything else the helpers use (white space trimming, splitting, rune mapping) is defined in
  \<open>Go_Text\<close>.
\<close>

subsection \<open>Library code\<close>

record golib =
  sha256 :: "string \<Rightarrow> string"
  hmacSHA256 :: "string \<Rightarrow> string \<Rightarrow> string"
  gcmSeal :: "string \<Rightarrow> string \<Rightarrow> string \<Rightarrow> string"
  gcmOpen :: "string \<Rightarrow> string \<Rightarrow> string \<Rightarrow> string option"
  b64Encode :: "string \<Rightarrow> string"
  b64Decode :: "string \<Rightarrow> string option"
  b64RawURLEncode :: "string \<Rightarrow> string"
  b64RawURLDecode :: "string \<Rightarrow> string option"
  lowerRune :: "string \<Rightarrow> string"
  foldRune :: "string \<Rightarrow> string"
  formatNano :: "time \<Rightarrow> string"
  parseRFC3339 :: "string \<Rightarrow> time option"

definition lib_ok :: "'z golib_scheme \<Rightarrow> bool" where
  "lib_ok L \<longleftrightarrow>
     (\<forall>k n p. gcmOpen L k n (gcmSeal L k n p) = Some p)
     \<and> (\<forall>s. b64Decode L (b64Encode L s) = Some s)
     \<and> (\<forall>s. b64RawURLDecode L (b64RawURLEncode L s) = Some s)
     \<and> (\<forall>s. length (sha256 L s) = 32)"

lemma lib_okD [simp]:
  assumes "lib_ok L"
  shows "gcmOpen L k n (gcmSeal L k n p) = Some p"
    and "b64Decode L (b64Encode L s) = Some s"
    and "b64RawURLDecode L (b64RawURLEncode L s) = Some s"
    and "length (sha256 L s) = 32"
  using assms by (simp_all add: lib_ok_def)

definition lowerAscii :: "char \<Rightarrow> char" where
  "lowerAscii c = (if 65 \<le> (of_char c :: nat) \<and> (of_char c :: nat) \<le> 90 then char_of ((of_char c :: nat) + 32) else c)"

definition toy_digest :: "string \<Rightarrow> string" where
  "toy_digest s = take 32 (s @ replicate 32 (CHR ''.''))"

definition toy_lib :: golib where
  "toy_lib = \<lparr>sha256 = toy_digest, hmacSHA256 = (\<lambda>k m. toy_digest (k @ m)),
     gcmSeal = (\<lambda>k n p. k @ n @ p),
     gcmOpen = (\<lambda>k n c. if hasPrefix c (k @ n) then Some (drop (length (k @ n)) c) else None),
     b64Encode = (\<lambda>s. s), b64Decode = Some, b64RawURLEncode = (\<lambda>s. s), b64RawURLDecode = Some,
     lowerRune = (\<lambda>r. r), foldRune = map lowerAscii, formatNano = (\<lambda>t. replicate (nat t) (CHR ''i'')),
     parseRFC3339 = (\<lambda>s. if s \<noteq> [] \<and> list_all (\<lambda>c. c = CHR ''i'') s then Some (int (length s)) else None)\<rparr>"

lemma toy_lib_ok [simp]: "lib_ok toy_lib"
  by (auto simp: lib_ok_def toy_lib_def toy_digest_def hasPrefix_def)

definition hexDigit :: "nat \<Rightarrow> char" where
  "hexDigit n = ''0123456789abcdef'' ! (n mod 16)"

definition hexEncode :: "string \<Rightarrow> string" where
  "hexEncode s = concat (map (\<lambda>c. [hexDigit (of_char c div 16), hexDigit (of_char c)]) s)"

lemma hexDigit_inj: "\<lbrakk>hexDigit a = hexDigit b; a < 16; b < 16\<rbrakk> \<Longrightarrow> a = b"
proof -
  assume "hexDigit a = hexDigit b" "a < 16" "b < 16"
  moreover have "distinct ''0123456789abcdef''" by simp
  moreover have "length ''0123456789abcdef'' = 16" by simp
  ultimately show "a = b" unfolding hexDigit_def by (metis mod_less nth_eq_iff_index_eq)
qed

lemma hexEncode_inj: "hexEncode s = hexEncode t \<longleftrightarrow> s = t"
proof
  show "hexEncode s = hexEncode t \<Longrightarrow> s = t"
  proof (induction s arbitrary: t)
    case Nil
    then show ?case by (cases t) (auto simp: hexEncode_def)
  next
    case (Cons c s)
    then obtain d u where t: "t = d # u" by (cases t) (auto simp: hexEncode_def)
    have hi: "(of_char x :: nat) div 16 < 16" for x :: char
      by (rule less_mult_imp_div_less) simp
    from Cons.prems t have eq: "hexDigit (of_char c div 16) = hexDigit (of_char d div 16)"
        "hexDigit (of_char c) = hexDigit (of_char d)" "hexEncode s = hexEncode u"
      by (simp_all add: hexEncode_def)
    have mod: "hexDigit n = hexDigit (n mod 16)" for n by (simp add: hexDigit_def)
    have "(of_char c :: nat) mod 16 = of_char d mod 16"
      using eq(2) hexDigit_inj [of "of_char c mod 16" "of_char d mod 16"] mod [of "of_char c"] mod [of "of_char d"] by simp
    moreover have "(of_char c :: nat) div 16 = of_char d div 16"
      by (rule hexDigit_inj [OF eq(1) hi hi])
    ultimately have "(of_char c :: nat) = of_char d" by (metis div_mult_mod_eq)
    then show ?case using Cons.IH eq(3) t by simp
  qed
qed simp

subsection \<open>Runes\<close>

text \<open>A byte that starts no encoding decodes to U+FFFD, whose encoding has three bytes.\<close>

definition runeError :: string where
  "runeError = [CHR 0xEF, CHR 0xBF, CHR 0xBD]"

definition invalidRune :: "string \<Rightarrow> bool" where
  "invalidRune r = (case r of [c] \<Rightarrow> digit7 c | _ \<Rightarrow> False)"

definition validRune :: "string \<Rightarrow> string" where
  "validRune r = (if invalidRune r then runeError else r)"

definition stringsMap :: "(string \<Rightarrow> string) \<Rightarrow> string \<Rightarrow> string" where
  "stringsMap f s = concat (map (\<lambda>r. f (validRune r)) (go_runes s))"

definition toLower :: "'z golib_scheme \<Rightarrow> string \<Rightarrow> string" where
  "toLower L s = stringsMap (\<lambda>r. case r of [c] \<Rightarrow> [lowerAscii c] | _ \<Rightarrow> lowerRune L r) s"

text \<open>\<open>strings.EqualFold\<close>; \<open>foldRune\<close> gives one representative of each class of runes that fold together.\<close>

definition equalFold :: "'z golib_scheme \<Rightarrow> string \<Rightarrow> string \<Rightarrow> bool" where
  "equalFold L s t \<longleftrightarrow> map (\<lambda>r. foldRune L (validRune r)) (go_runes s) = map (\<lambda>r. foldRune L (validRune r)) (go_runes t)"

text \<open>What \<open>encoding/json\<close> makes of a string on the way out and back: invalid bytes become U+FFFD.\<close>

definition jsonString :: "string \<Rightarrow> string" where
  "jsonString s = stringsMap (\<lambda>r. r) s"

lemma stringsMap_ascii:
  "ascii s \<Longrightarrow> stringsMap f s = concat (map (\<lambda>c. f [c]) s)"
  by (auto simp: stringsMap_def go_runes_ascii validRune_def invalidRune_def ascii_def list_all_iff comp_def
           intro!: arg_cong [where f = concat] map_cong)

lemma jsonString_ascii: "ascii s \<Longrightarrow> jsonString s = s"
  by (simp add: jsonString_def stringsMap_ascii concat_map_singleton)

subsection \<open>Helpers\<close>

text \<open>\<open>if v == "" { v = d }\<close>\<close>

definition orDefault :: "string \<Rightarrow> string \<Rightarrow> string" where
  "orDefault v d = (if v = [] then d else v)"

definition firstNonEmpty :: "string \<Rightarrow> string \<Rightarrow> string" where
  "firstNonEmpty value fallback = (if trimSpace value \<noteq> [] then value else fallback)"

fun safeList :: "string list \<Rightarrow> string list" where
  "safeList [] = []"
| "safeList (v # vs) = (let v' = trimSpace v in if v' \<noteq> [] then v' # safeList vs else safeList vs)"

definition validSecretRef :: "string \<Rightarrow> bool" where
  "validSecretRef r =
     (let ref = trimSpace r in
      if ref = [] \<or> hasPrefix ref ''/'' \<or> hasSuffix ref ''/'' \<or> containsStr ref ''..'' then False
      else if containsAny ref [CHR '' '', CHR 0x09, CHR 0x0D, CHR 0x0A] then False
      else list_all (\<lambda>part. \<not> (part = [] \<or> part = ''.'' \<or> part = ''..'')) (splitOn (CHR ''/'') ref))"

definition ownerFromRef :: "string \<Rightarrow> string" where
  "ownerFromRef ref =
     (let parts = splitOn (CHR ''/'') (trimSlash ref) in
      if length parts \<ge> 2 \<and> parts ! 0 = ''services'' then parts ! 1
      else if length parts \<ge> 1 \<and> hasPrefix (parts ! 0) ''@'' then parts ! 0
      else ''unknown'')"

definition scrubRune :: "string \<Rightarrow> string" where
  "scrubRune r =
     (case r of
        [c] \<Rightarrow> if c \<in> {CHR 0x0D, CHR 0x0A, CHR 0x09} then '' ''
               else if (of_char c :: nat) < 0x20 \<or> c = CHR 0x7F then [] else r
      | _ \<Rightarrow> r)"

definition scrubAuditField :: "string \<Rightarrow> string" where
  "scrubAuditField value =
     (let v = stringsMap scrubRune (trimSpace value) in
      if length v > 256 then take 256 v else joinWith '' '' (goFields v))"

definition hashAuditRef :: "'z golib_scheme \<Rightarrow> string \<Rightarrow> string" where
  "hashAuditRef L ref = ''sha256:'' @ hexEncode (sha256 L ref)"

definition actorKindForAudit :: "string \<Rightarrow> string" where
  "actorKindForAudit svc =
     (let s = trimSpace svc in
      if s = [] then ''system'' else if s = ''@operator'' then ''operator'' else ''service'')"

definition validSafeMetadataID :: "string \<Rightarrow> bool" where
  "validSafeMetadataID v =
     (let value = trimSpace v in
      if value = [] \<or> length value > 128 \<or> containsStr value ''..'' then False
      else list_all (\<lambda>r. case r of [c] \<Rightarrow> \<not> ((of_char c :: nat) \<le> 0x20 \<or> c = CHR 0x7F) | _ \<Rightarrow> True)
             (go_runes value))"

fun hasDuplicate_loop :: "string set \<Rightarrow> string list \<Rightarrow> bool" where
  "hasDuplicate_loop seen [] = False"
| "hasDuplicate_loop seen (v # vs) = (if v \<in> seen then True else hasDuplicate_loop (insert v seen) vs)"

definition hasDuplicate :: "string list \<Rightarrow> bool" where
  "hasDuplicate vs = hasDuplicate_loop {} vs"

definition normalizeSafeFingerprints :: "string list \<Rightarrow> string list" where
  "normalizeSafeFingerprints vs = filter (\<lambda>v. v \<noteq> []) (map scrubAuditField vs)"

definition tokenChar :: "char \<Rightarrow> bool" where
  "tokenChar c \<longleftrightarrow>
     (97 \<le> (of_char c :: nat) \<and> (of_char c :: nat) \<le> 122)
     \<or> (48 \<le> (of_char c :: nat) \<and> (of_char c :: nat) \<le> 57) \<or> c = CHR ''-'' \<or> c = CHR ''_''"

definition trimDashes :: "string \<Rightarrow> string" where
  "trimDashes s = (let d = (\<lambda>c. c = CHR ''-'' \<or> c = CHR ''_'') in rev (dropWhile d (rev (dropWhile d s))))"

definition safeOperationToken :: "'z golib_scheme \<Rightarrow> string \<Rightarrow> string" where
  "safeOperationToken L v =
     trimDashes (concat (map (\<lambda>r. case r of [c] \<Rightarrow> if tokenChar c then [c] else [] | _ \<Rightarrow> [])
       (go_runes (toLower L (trimSpace v)))))"

definition normalizeWritebackOperation :: "string \<Rightarrow> string" where
  "normalizeWritebackOperation op = (let o' = trimSpace op in if o' = [] then ''create'' else o')"

definition validWritebackOperation :: "string \<Rightarrow> bool" where
  "validWritebackOperation op \<longleftrightarrow> op \<in> {''create'', ''update'', ''rotate'', ''delete''}"

fun namespaceAllowed :: "string \<Rightarrow> string list \<Rightarrow> bool" where
  "namespaceAllowed ns [] = False"
| "namespaceAllowed ns (a # as) =
     (let c = trimSpace a in if c = ''*'' \<or> c = ns then True else namespaceAllowed ns as)"

fun operationAllowed :: "string \<Rightarrow> string list \<Rightarrow> bool" where
  "operationAllowed op [] = False"
| "operationAllowed op (a # as) = (if trimSpace a = op then True else operationAllowed op as)"

definition outcomeForError :: "gerror \<Rightarrow> string" where
  "outcomeForError err =
     (case err of
        errInvalidRef \<Rightarrow> ''invalid_ref'' | errLocked \<Rightarrow> ''locked'' | errMissingRef \<Rightarrow> ''missing_ref''
      | errPolicyDenied \<Rightarrow> ''policy_denied'' | errSourceAuthRequired \<Rightarrow> ''source_auth_required''
      | errBackendDegraded \<Rightarrow> ''degraded'' | errRotationConflict \<Rightarrow> ''conflict''
      | errUnsupportedProvider \<Rightarrow> ''unsupported'' | _ \<Rightarrow> ''degraded'')"

definition outcomeError :: "string \<Rightarrow> gerror" where
  "outcomeError outcome =
     (if outcome = ''invalid_ref'' then errInvalidRef
      else if outcome = ''locked'' then errLocked
      else if outcome = ''source_auth_required'' then errSourceAuthRequired
      else if outcome = ''policy_denied'' then errPolicyDenied
      else if outcome = ''missing_ref'' then errMissingRef
      else errBackendDegraded)"

definition nextActionForManagedOutcome :: "string \<Rightarrow> string" where
  "nextActionForManagedOutcome outcome =
     (if outcome = ''locked'' then ''unlock_broker''
      else if outcome = ''missing_ref'' then ''check_ref''
      else if outcome = ''invalid_ref'' then ''fix_ref''
      else if outcome = ''policy_denied'' then ''review_policy_and_reason''
      else if outcome = ''conflict'' then ''refresh_current_version_and_retry''
      else if outcome = ''source_auth_required'' then ''reconnect_source''
      else if outcome \<in> {''source_unavailable'', ''degraded''} then ''retry_or_inspect_source''
      else ''inspect_status'')"

subsection \<open>Facts about the helpers\<close>

lemma orDefault_idem [simp]: "orDefault (orDefault v d) d' = (if d = [] then orDefault v d' else orDefault v d)"
  by (simp add: orDefault_def)

lemma orDefault_P: "P v \<Longrightarrow> P d \<Longrightarrow> P (orDefault v d)"
  by (simp add: orDefault_def)

lemma orDefault_Nil [simp]: "orDefault v d = [] \<longleftrightarrow> v = [] \<and> d = []"
  by (simp add: orDefault_def)

lemma safeList_eq: "safeList vs = filter (\<lambda>v. v \<noteq> []) (map trimSpace vs)"
  by (induction vs) (simp_all add: Let_def)

lemma safeList_idem: "safeList (safeList vs) = safeList vs"
  by (induction vs) (simp_all add: Let_def)

lemma namespaceAllowed_iff: "namespaceAllowed ns as \<longleftrightarrow> (\<exists>a \<in> set as. trimSpace a \<in> {''*'', ns})"
  by (induction as) (auto simp: Let_def)

lemma operationAllowed_iff: "operationAllowed op as \<longleftrightarrow> (\<exists>a \<in> set as. trimSpace a = op)"
  by (induction as) auto

lemma hasDuplicate_loop_iff:
  "hasDuplicate_loop seen vs \<longleftrightarrow> \<not> (distinct vs \<and> set vs \<inter> seen = {})"
  by (induction vs arbitrary: seen) auto

lemma hasDuplicate_iff [simp]: "hasDuplicate vs \<longleftrightarrow> \<not> distinct vs"
  by (simp add: hasDuplicate_def hasDuplicate_loop_iff)

lemma validSecretRef_trim [simp]: "validSecretRef (trimSpace r) = validSecretRef r"
  by (simp add: validSecretRef_def)

lemma validSecretRef_nonempty: "validSecretRef r \<Longrightarrow> trimSpace r \<noteq> []"
  by (auto simp: validSecretRef_def)

lemma validSecretRef_Nil [simp]: "\<not> validSecretRef []"
  by (simp add: validSecretRef_def)

lemma outcome_round_trip:
  "e \<in> {errInvalidRef, errLocked, errSourceAuthRequired, errPolicyDenied, errMissingRef, errBackendDegraded}
   \<Longrightarrow> outcomeError (outcomeForError e) = e"
  by (auto simp: outcomeForError_def outcomeError_def)

lemma trimSlash_id:
  "\<lbrakk>s \<noteq> []; hd s \<noteq> CHR ''/''; last s \<noteq> CHR ''/''\<rbrakk> \<Longrightarrow> trimSlash s = s"
proof -
  have id: "dropWhile (\<lambda>c. c = CHR ''/'') t = t" if "t = [] \<or> hd t \<noteq> CHR ''/''" for t
    using that by (cases t) simp_all
  assume "s \<noteq> []" "hd s \<noteq> CHR ''/''" "last s \<noteq> CHR ''/''"
  then show "trimSlash s = s"
    using id [of s] id [of "rev s"] by (simp add: trimSlash_def hd_rev)
qed

lemma ownerFromRef_service:
  assumes "CHR ''/'' \<notin> set svc" "rest \<noteq> []" "last rest \<noteq> CHR ''/''"
  shows "ownerFromRef (''services/'' @ svc @ ''/'' @ rest) = svc"
proof -
  have "trimSlash (''services/'' @ svc @ ''/'' @ rest) = ''services/'' @ svc @ ''/'' @ rest"
    by (rule trimSlash_id) (use assms in simp_all)
  moreover have "splitOn (CHR ''/'') (''services/'' @ svc @ ''/'' @ rest) = ''services'' # svc # splitOn (CHR ''/'') rest"
    using splitOn_append [of "CHR ''/''" "''services''" "svc @ ''/'' @ rest"] assms(1)
    by (simp add: splitOn_append)
  ultimately show ?thesis by (simp add: ownerFromRef_def)
qed

end
