(* ===== verification/Scrub.thy ===== *)
theory Scrub
  imports Broker_Text
begin

text \<open>
  Stability of \<open>scrubAuditField\<close>. The function is not idempotent: a field of more than 256 bytes
  is cut before its white space is collapsed, so the second application may shorten the result
  again. On ASCII fields the second application is the last that changes anything, which is what
  the hash chain relies on, since an event is scrubbed again each time it is read.
\<close>

definition plainChar :: "char \<Rightarrow> bool" where
  "plainChar c \<longleftrightarrow> 0x20 \<le> (of_char c :: nat) \<and> (of_char c :: nat) < 0x7F"

definition plain :: "string \<Rightarrow> bool" where
  "plain s \<longleftrightarrow> list_all plainChar s \<and> length s \<le> 256"

text \<open>Field values that scrubbing leaves alone.\<close>

definition canonical :: "string \<Rightarrow> bool" where
  "canonical s \<longleftrightarrow> scrubAuditField s = s \<and> ascii s"

lemma digit7_iff: "digit7 c \<longleftrightarrow> 128 \<le> (of_char c :: nat)"
proof (cases c)
  case (Char b0 b1 b2 b3 b4 b5 b6 b7)
  have le: "of_bool b \<le> (1 :: nat)" for b by simp
  have "(of_char c :: nat) = of_bool b0 + 2 * (of_bool b1 + 2 * (of_bool b2 + 2 * (of_bool b3 + 2 * (of_bool b4
      + 2 * (of_bool b5 + 2 * (of_bool b6 + 2 * of_bool b7))))))"
    by (simp add: Char of_char_def)
  then show ?thesis
    using le [of b0] le [of b1] le [of b2] le [of b3] le [of b4] le [of b5] le [of b6]
    unfolding Char by (cases b7) simp_all
qed

lemma ascii_iff: "ascii s \<longleftrightarrow> (\<forall>c \<in> set s. (of_char c :: nat) < 128)"
  by (auto simp: ascii_def list_all_iff digit7_iff not_le)

lemma ascii_simps [simp]:
  "ascii []" "ascii (c # s) \<longleftrightarrow> \<not> digit7 c \<and> ascii s" "ascii (s @ t) \<longleftrightarrow> ascii s \<and> ascii t"
  by (simp_all add: ascii_def)

lemma ascii_take: "ascii s \<Longrightarrow> ascii (take n s)"
  by (auto simp: ascii_iff dest: in_set_takeD)

lemma ascii_hex [simp]: "ascii (hexEncode s)"
proof -
  have "ascii [hexDigit n]" for n
  proof -
    have "n mod 16 < length ''0123456789abcdef''" by simp
    then have "hexDigit n \<in> set ''0123456789abcdef''" unfolding hexDigit_def by (rule nth_mem)
    then show ?thesis by auto
  qed
  then show ?thesis by (induction s) (auto simp: hexEncode_def)
qed

lemma plain_ascii: "list_all plainChar s \<Longrightarrow> ascii s"
  by (auto simp: ascii_iff list_all_iff plainChar_def)

subsection \<open>Words\<close>

lemma fields_trailing: "isSpaceRune r \<Longrightarrow> fieldsLoop cur (rs @ [r]) = fieldsLoop cur rs"
  by (induction rs arbitrary: cur) auto

lemma fields_drop_trailing: "fieldsLoop cur (rev (dropWhile isSpaceRune (rev rs))) = fieldsLoop cur rs"
  by (induction rs rule: rev_induct) (auto simp: fields_trailing)

lemma fields_drop_leading: "fieldsLoop [] (dropWhile isSpaceRune rs) = fieldsLoop [] rs"
  by (induction rs) auto

lemma goFields_trimSpace [simp]: "goFields (trimSpace s) = goFields s"
  by (simp add: goFields_def go_runes_trimSpace trimRunes_def fields_drop_trailing fields_drop_leading)

lemma splitOn_members: "p \<in> set (splitOn d s) \<Longrightarrow> d \<notin> set p \<and> set p \<subseteq> set s"
proof (induction s arbitrary: p)
  case (Cons c s)
  obtain q qs where "splitOn d s = q # qs" by (cases "splitOn d s") auto
  with Cons show ?case by (fastforce split: if_splits)
qed simp

lemma isSpaceRune_plain: "plainChar c \<Longrightarrow> isSpaceRune [c] \<longleftrightarrow> c = CHR '' ''"
  by (auto simp: isSpaceRune_def plainChar_def)

lemma fieldsLoop_plain:
  "list_all plainChar s \<Longrightarrow> fieldsLoop cur (map (\<lambda>c. [c]) s) =
    filter (\<lambda>p. p \<noteq> []) ((cur @ hd (splitOn (CHR '' '') s)) # tl (splitOn (CHR '' '') s))"
proof (induction s arbitrary: cur)
  case (Cons c s)
  obtain q qs where "splitOn (CHR '' '') s = q # qs" by (cases "splitOn (CHR '' '') s") auto
  with Cons show ?case by (auto simp: isSpaceRune_plain)
qed simp

lemma goFields_plain:
  "list_all plainChar s \<Longrightarrow> goFields s = filter (\<lambda>p. p \<noteq> []) (splitOn (CHR '' '') s)"
  using fieldsLoop_plain [of s "[]"]
  by (simp add: goFields_def go_runes_ascii plain_ascii)

lemma plain_join:
  "list_all (list_all plainChar) ps \<Longrightarrow> list_all plainChar (joinWith '' '' ps)"
proof (induction ps)
  case (Cons p ps)
  then show ?case by (cases ps) (simp_all add: plainChar_def)
qed simp

lemma plain_fields: "list_all plainChar s \<Longrightarrow> list_all (list_all plainChar) (goFields s)"
  unfolding list_all_iff goFields_plain [unfolded list_all_iff]
  by (meson filter_is_subset splitOn_members subsetD)

lemma goFields_join:
  assumes "list_all plainChar s" shows "goFields (joinWith '' '' (goFields s)) = goFields s"
proof (cases "goFields s = []")
  case True
  then show ?thesis by (simp add: goFields_def)
next
  case False
  have "CHR '' '' \<notin> set p \<and> p \<noteq> []" if "p \<in> set (goFields s)" for p
    using that splitOn_members by (auto simp: goFields_plain assms)
  with False have "splitOn (CHR '' '') (joinWith [CHR '' ''] (goFields s)) = goFields s"
      "filter (\<lambda>p. p \<noteq> []) (goFields s) = goFields s"
    by (auto intro: split_join filter_True)
  then show ?thesis using goFields_plain [OF plain_join [OF plain_fields [OF assms]]] by simp
qed

lemma length_join_filter:
  "length (joinWith '' '' (filter (\<lambda>p. p \<noteq> []) ps)) \<le> length (joinWith '' '' ps)"
proof (induction ps)
  case (Cons p ps)
  then show ?case
    by (cases ps; cases "filter (\<lambda>p. p \<noteq> []) ps") auto
qed simp

lemma length_join_fields:
  assumes "list_all plainChar s" shows "length (joinWith '' '' (goFields s)) \<le> length s"
  using length_join_filter [of "splitOn (CHR '' '') s"] join_split [of "CHR '' ''" s]
  by (simp add: goFields_plain assms)

subsection \<open>Scrubbing an ASCII field\<close>

lemma scrubRune_ascii: "\<not> digit7 c \<Longrightarrow> list_all plainChar (scrubRune [c])"
proof -
  have "of_char (CHR 0x7F) = (127 :: nat)" by simp
  then have "(of_char c :: nat) = 127 \<Longrightarrow> c = CHR 0x7F" by (metis of_char_eq_iff)
  then show "\<not> digit7 c \<Longrightarrow> list_all plainChar (scrubRune [c])"
    by (fastforce simp: scrubRune_def plainChar_def digit7_iff)
qed

lemma scrubMap_plain: "ascii s \<Longrightarrow> list_all plainChar (stringsMap scrubRune s)"
  using scrubRune_ascii by (auto simp: stringsMap_ascii ascii_def list_all_iff)

lemma scrubMap_id: "list_all plainChar s \<Longrightarrow> stringsMap scrubRune s = s"
proof -
  assume s: "list_all plainChar s"
  have "scrubRune [c] = [c]" if "c \<in> set s" for c
    using s that by (auto simp: list_all_iff plainChar_def scrubRune_def)
  then have "map (\<lambda>c. scrubRune [c]) s = map (\<lambda>c. [c]) s" by (rule map_cong [OF refl])
  then show ?thesis using stringsMap_ascii [OF plain_ascii [OF s], of scrubRune]
    by (simp only: concat_map_singleton list.map_ident)
qed

lemma ascii_trimSpace: "ascii s \<Longrightarrow> ascii (trimSpace s)"
  using set_trimSpace [of s] by (auto simp: ascii_iff)

lemma plainChar_trimSpace: "list_all plainChar s \<Longrightarrow> list_all plainChar (trimSpace s)"
  using set_trimSpace [of s] by (auto simp: list_all_iff)

lemma trimSpace_length: "length (trimSpace s) \<le> length s"
proof -
  obtain m n where mn: "trimRunes (go_runes s) = take m (drop n (go_runes s))" using trimRunes_sub by blast
  have "length (concat (take m (drop n rs))) \<le> length (concat rs)" for rs :: "string list"
    by (metis append_take_drop_id concat_append le_add1 le_add2 le_trans length_append)
  then have "length (trimSpace s) \<le> length (concat (go_runes s))"
    unfolding trimSpace_def mn .
  then show ?thesis by simp
qed

lemma scrub_plain: "ascii s \<Longrightarrow> plain (scrubAuditField s)"
proof -
  assume "ascii s"
  then have p: "list_all plainChar (stringsMap scrubRune (trimSpace s))"
    by (intro scrubMap_plain ascii_trimSpace)
  then show ?thesis
    using length_join_fields [OF p] plain_join [OF plain_fields [OF p]]
    by (auto simp: scrubAuditField_def plain_def Let_def list_all_iff dest: in_set_takeD)
qed

lemma scrub_of_plain: "plain s \<Longrightarrow> scrubAuditField s = joinWith '' '' (goFields s)"
  using trimSpace_length [of s]
  by (simp add: scrubAuditField_def plain_def scrubMap_id plainChar_trimSpace Let_def)

lemma scrub_canonical: "plain s \<Longrightarrow> canonical (scrubAuditField s)"
proof -
  assume s: "plain s"
  then have "list_all plainChar s" by (simp add: plain_def)
  then have "goFields (scrubAuditField s) = goFields s" "plain (scrubAuditField s)" "ascii s"
    using s by (simp_all add: scrub_of_plain goFields_join plain_ascii scrub_plain)
      (metis plain_ascii scrub_of_plain scrub_plain)
  then show ?thesis using s scrub_of_plain
    by (metis canonical_def plain_ascii plain_def)
qed

lemma scrub_stable: "ascii s \<Longrightarrow> scrubAuditField (scrubAuditField (scrubAuditField s)) = scrubAuditField (scrubAuditField s)"
  using scrub_canonical [OF scrub_plain] by (simp add: canonical_def)

lemma canonical_word:
  assumes "list_all plainChar s" "CHR '' '' \<notin> set s" "length s \<le> 256" shows "canonical s"
proof -
  have "goFields s = (if s = [] then [] else [s])" using assms by (simp add: goFields_plain splitOn_free)
  then show ?thesis using assms
    by (simp add: canonical_def scrub_of_plain plain_def plain_ascii split: if_splits)
qed

lemma canonical_Nil [simp]: "canonical []"
  by (rule canonical_word) simp_all

lemma plain_of_canonical: "canonical s \<Longrightarrow> plain s"
  unfolding canonical_def by (metis scrub_plain)

end
