(* ===== verification/Audit_Chain.thy ===== *)
theory Audit_Chain
  imports Scrub
begin

text \<open>
  The audit event, its normal form and the hash chain (\<open>audit_chain.go\<close> and the audit part of
  \<open>local_store.go\<close>). An event is a record with the fields of the Go struct. \<open>auditJSON\<close> is what
  \<open>json.Marshal\<close> writes for it and \<open>auditReload\<close> what \<open>json.Unmarshal\<close> reads back; a log is the
  list of the events its lines decode to.
\<close>

record auditEvent =
  aeTS :: time
  aeRequestID :: string
  aeOperation :: string
  aeServiceID :: string
  aeActorKind :: string
  aeRef :: string
  aeRefHash :: string
  aeProviderID :: string
  aeSourceID :: string
  aePolicyID :: string
  aeKeyID :: string
  aeOutcome :: string
  aeReasonCode :: string
  aeState :: string
  aeAuditStatus :: string
  aePreviousHash :: string
  aeEventHash :: string
  aeChainStatus :: string

definition emptyAuditEvent :: auditEvent where
  "emptyAuditEvent = \<lparr>aeTS = 0, aeRequestID = [], aeOperation = [], aeServiceID = [], aeActorKind = [],
     aeRef = [], aeRefHash = [], aeProviderID = [], aeSourceID = [], aePolicyID = [], aeKeyID = [],
     aeOutcome = [], aeReasonCode = [], aeState = [], aeAuditStatus = [], aePreviousHash = [],
     aeEventHash = [], aeChainStatus = []\<rparr>"

record auditChainVerification =
  cvStatus :: string
  cvVerified :: nat
  cvFailed :: nat
  cvUnchecked :: nat
  cvNextAction :: string

definition auditChainGenesisHash :: string where
  "auditChainGenesisHash = ''genesis''"

subsection \<open>JSON\<close>

definition jsonEscapeByte :: "char \<Rightarrow> string" where
  "jsonEscapeByte c =
     (if c = CHR 0x5C \<or> c = CHR 0x22 then [CHR 0x5C, c]
      else if c = CHR 0x08 then [CHR 0x5C, CHR ''b'']
      else if c = CHR 0x0C then [CHR 0x5C, CHR ''f'']
      else if c = CHR 0x0A then [CHR 0x5C, CHR ''n'']
      else if c = CHR 0x0D then [CHR 0x5C, CHR ''r'']
      else if c = CHR 0x09 then [CHR 0x5C, CHR ''t'']
      else if (of_char c :: nat) < 0x20 \<or> c \<in> {CHR ''<'', CHR ''>'', CHR ''&''}
      then [CHR 0x5C, CHR ''u'', CHR ''0'', CHR ''0'', hexDigit (of_char c div 16), hexDigit (of_char c)]
      else [c])"

definition jsonEscapeRune :: "string \<Rightarrow> string" where
  "jsonEscapeRune r =
     (if invalidRune r then CHR 0x5C # ''ufffd''
      else if r = [CHR 0xE2, CHR 0x80, CHR 0xA8] then CHR 0x5C # ''u2028''
      else if r = [CHR 0xE2, CHR 0x80, CHR 0xA9] then CHR 0x5C # ''u2029''
      else case r of [c] \<Rightarrow> jsonEscapeByte c | _ \<Rightarrow> r)"

definition jsonQuote :: "string \<Rightarrow> string" where
  "jsonQuote s = [CHR 0x22] @ concat (map jsonEscapeRune (go_runes s)) @ [CHR 0x22]"

text \<open>A member of the object: name, whether it has \<open>omitempty\<close>, value.\<close>

definition jsonMember :: "string \<times> bool \<times> string \<Rightarrow> string list" where
  "jsonMember m = (case m of (name, omit, v) \<Rightarrow> if omit \<and> v = [] then [] else [jsonQuote name @ '':'' @ jsonQuote v])"

definition auditJSON :: "'z golib_scheme \<Rightarrow> auditEvent \<Rightarrow> string" where
  "auditJSON L e =
     ''{'' @ joinWith '','' (concat (map jsonMember
       [(''ts'', False, formatNano L (aeTS e)), (''requestId'', True, aeRequestID e),
        (''operation'', False, aeOperation e), (''serviceId'', True, aeServiceID e),
        (''actorKind'', False, aeActorKind e), (''ref'', True, aeRef e), (''refHash'', True, aeRefHash e),
        (''providerId'', True, aeProviderID e), (''sourceId'', True, aeSourceID e),
        (''policyId'', True, aePolicyID e), (''keyId'', True, aeKeyID e),
        (''outcome'', False, aeOutcome e), (''reasonCode'', False, aeReasonCode e),
        (''state'', True, aeState e), (''auditStatus'', False, aeAuditStatus e),
        (''previousHash'', True, aePreviousHash e), (''eventHash'', True, aeEventHash e),
        (''chainStatus'', True, aeChainStatus e)])) @ ''}''"

definition auditReload :: "auditEvent \<Rightarrow> auditEvent" where
  "auditReload e = \<lparr>aeTS = aeTS e, aeRequestID = jsonString (aeRequestID e),
     aeOperation = jsonString (aeOperation e), aeServiceID = jsonString (aeServiceID e),
     aeActorKind = jsonString (aeActorKind e), aeRef = jsonString (aeRef e),
     aeRefHash = jsonString (aeRefHash e), aeProviderID = jsonString (aeProviderID e),
     aeSourceID = jsonString (aeSourceID e), aePolicyID = jsonString (aePolicyID e),
     aeKeyID = jsonString (aeKeyID e), aeOutcome = jsonString (aeOutcome e),
     aeReasonCode = jsonString (aeReasonCode e), aeState = jsonString (aeState e),
     aeAuditStatus = jsonString (aeAuditStatus e), aePreviousHash = jsonString (aePreviousHash e),
     aeEventHash = jsonString (aeEventHash e), aeChainStatus = jsonString (aeChainStatus e)\<rparr>"

subsection \<open>The normal form of an event\<close>

definition scrubAuditEvent :: "auditEvent \<Rightarrow> auditEvent" where
  "scrubAuditEvent e = e\<lparr>aeOperation := scrubAuditField (aeOperation e), aeRef := scrubAuditField (aeRef e),
     aeOutcome := scrubAuditField (aeOutcome e), aeState := scrubAuditField (aeState e),
     aeSourceID := scrubAuditField (aeSourceID e), aePolicyID := scrubAuditField (aePolicyID e),
     aeKeyID := scrubAuditField (aeKeyID e), aeServiceID := scrubAuditField (aeServiceID e),
     aeRequestID := scrubAuditField (aeRequestID e), aeProviderID := scrubAuditField (aeProviderID e),
     aeReasonCode := scrubAuditField (aeReasonCode e), aeActorKind := scrubAuditField (aeActorKind e),
     aeAuditStatus := scrubAuditField (aeAuditStatus e), aePreviousHash := scrubAuditField (aePreviousHash e),
     aeEventHash := scrubAuditField (aeEventHash e), aeChainStatus := scrubAuditField (aeChainStatus e)\<rparr>"

definition fillAuditEvent :: "'z golib_scheme \<Rightarrow> auditEvent \<Rightarrow> auditEvent" where
  "fillAuditEvent L e =
     (let op = orDefault (aeOperation e) ''unknown''; outcome = orDefault (aeOutcome e) ''degraded'' in
      e\<lparr>aeOperation := op,
        aeOutcome := outcome,
        aeReasonCode := orDefault (aeReasonCode e) outcome,
        aeActorKind := orDefault (aeActorKind e) (actorKindForAudit (aeServiceID e)),
        aeAuditStatus := orDefault (aeAuditStatus e) ''audit_recorded'',
        aeRefHash := (if aeRef e = [] then aeRefHash e else orDefault (aeRefHash e) (hashAuditRef L (aeRef e))),
        aeProviderID := (if hasPrefix op ''provider_'' \<and> aeRef e \<noteq> [] then orDefault (aeProviderID e) (aeRef e)
                         else aeProviderID e)\<rparr>)"

definition normalizeAuditEvent :: "'z golib_scheme \<Rightarrow> auditEvent \<Rightarrow> auditEvent" where
  "normalizeAuditEvent L e = fillAuditEvent L (scrubAuditEvent e)"

subsection \<open>The hash chain\<close>

definition hashedPart :: "'z golib_scheme \<Rightarrow> auditEvent \<Rightarrow> auditEvent" where
  "hashedPart L e = (normalizeAuditEvent L e)\<lparr>aeEventHash := [], aeChainStatus := []\<rparr>"

definition auditEventHash :: "'z golib_scheme \<Rightarrow> auditEvent \<Rightarrow> string" where
  "auditEventHash L e = ''sha256:'' @ hexEncode (sha256 L (auditJSON L (hashedPart L e)))"

definition prepareChainedAuditEvent :: "'z golib_scheme \<Rightarrow> auditEvent \<Rightarrow> string \<Rightarrow> auditEvent" where
  "prepareChainedAuditEvent L e previousHash =
     (let e1 = e\<lparr>aePreviousHash := firstNonEmpty previousHash auditChainGenesisHash, aeChainStatus := ''chained''\<rparr>
      in e1\<lparr>aeEventHash := auditEventHash L e1\<rparr>)"

record chainScan =
  scVerified :: nat
  scFailed :: nat
  scUnchecked :: nat
  scLastHash :: string
  scStarted :: bool
  scEvents :: "auditEvent list"

definition verifyStep :: "'z golib_scheme \<Rightarrow> chainScan \<Rightarrow> auditEvent \<Rightarrow> chainScan" where
  "verifyStep L s e0 =
     (let e = normalizeAuditEvent L e0 in
      if aeEventHash e = [] then
        (if scStarted s \<or> aePreviousHash e \<noteq> []
         then s\<lparr>scFailed := scFailed s + 1, scEvents := scEvents s @ [e\<lparr>aeChainStatus := ''invalid''\<rparr>]\<rparr>
         else s\<lparr>scUnchecked := scUnchecked s + 1, scEvents := scEvents s @ [e\<lparr>aeChainStatus := ''unchecked''\<rparr>]\<rparr>)
      else
        (let expectedPrevious = firstNonEmpty (scLastHash s) auditChainGenesisHash;
             expectedHash = auditEventHash L e in
         if aePreviousHash e = expectedPrevious \<and> aeEventHash e = expectedHash
         then s\<lparr>scStarted := True, scVerified := scVerified s + 1, scLastHash := aeEventHash e,
                scEvents := scEvents s @ [e\<lparr>aeChainStatus := ''verified''\<rparr>]\<rparr>
         else s\<lparr>scStarted := True, scFailed := scFailed s + 1, scLastHash := aeEventHash e,
                scEvents := scEvents s @ [e\<lparr>aeChainStatus := ''invalid''\<rparr>]\<rparr>))"

definition chainScan0 :: chainScan where
  "chainScan0 = \<lparr>scVerified = 0, scFailed = 0, scUnchecked = 0, scLastHash = [], scStarted = False, scEvents = []\<rparr>"

definition scanChain :: "'z golib_scheme \<Rightarrow> auditEvent list \<Rightarrow> chainScan" where
  "scanChain L es = foldl (verifyStep L) chainScan0 es"

definition verifyAuditChain :: "'z golib_scheme \<Rightarrow> auditEvent list \<Rightarrow> auditChainVerification \<times> auditEvent list" where
  "verifyAuditChain L es =
     (let s = scanChain L es;
          status = (if scFailed s > 0 then (''invalid'', ''inspect_audit_chain'')
                    else if scVerified s > 0 \<and> scUnchecked s > 0
                    then (''partial'', ''archive_legacy_prefix_and_keep_hash_chain_enabled'')
                    else if scVerified s > 0 then (''verified'', [])
                    else (''not_enabled'', []))
      in (\<lparr>cvStatus = fst status, cvVerified = scVerified s, cvFailed = scFailed s,
            cvUnchecked = scUnchecked s, cvNextAction = snd status\<rparr>, scEvents s))"

definition readAuditEvents :: "'z golib_scheme \<Rightarrow> auditEvent list \<Rightarrow> auditEvent list" where
  "readAuditEvents L log = map (normalizeAuditEvent L) log"

subsection \<open>Normal forms are stable\<close>

definition scrubbedFields :: "auditEvent \<Rightarrow> string list" where
  "scrubbedFields e = [aeOperation e, aeRef e, aeOutcome e, aeState e, aeSourceID e, aePolicyID e, aeKeyID e,
     aeServiceID e, aeRequestID e, aeProviderID e, aeReasonCode e, aeActorKind e, aeAuditStatus e,
     aePreviousHash e, aeEventHash e, aeChainStatus e]"

definition asciiEvent :: "auditEvent \<Rightarrow> bool" where
  "asciiEvent e \<longleftrightarrow> list_all ascii (aeRefHash e # scrubbedFields e)"

lemma scrub_fields: "scrubbedFields (scrubAuditEvent e) = map scrubAuditField (scrubbedFields e)"
  by (simp add: scrubbedFields_def scrubAuditEvent_def)

lemma scrub_event_id: "list_all canonical (scrubbedFields e) \<Longrightarrow> scrubAuditEvent e = e"
  by (simp add: scrubbedFields_def scrubAuditEvent_def canonical_def)

lemma actorKind_nonempty: "actorKindForAudit s \<noteq> []"
  by (simp add: actorKindForAudit_def Let_def)

lemma hashAuditRef_nonempty: "hashAuditRef L r \<noteq> []"
  by (simp add: hashAuditRef_def)

lemma fill_sel [simp]:
  "aeTS (fillAuditEvent L e) = aeTS e"
  "aeOperation (fillAuditEvent L e) = orDefault (aeOperation e) ''unknown''"
  "aeOutcome (fillAuditEvent L e) = orDefault (aeOutcome e) ''degraded''"
  "aeReasonCode (fillAuditEvent L e) = orDefault (aeReasonCode e) (orDefault (aeOutcome e) ''degraded'')"
  "aeActorKind (fillAuditEvent L e) = orDefault (aeActorKind e) (actorKindForAudit (aeServiceID e))"
  "aeAuditStatus (fillAuditEvent L e) = orDefault (aeAuditStatus e) ''audit_recorded''"
  "aeRefHash (fillAuditEvent L e) = (if aeRef e = [] then aeRefHash e else orDefault (aeRefHash e) (hashAuditRef L (aeRef e)))"
  "aeProviderID (fillAuditEvent L e) = (if hasPrefix (orDefault (aeOperation e) ''unknown'') ''provider_'' \<and> aeRef e \<noteq> []
     then orDefault (aeProviderID e) (aeRef e) else aeProviderID e)"
  "aeRef (fillAuditEvent L e) = aeRef e" "aeState (fillAuditEvent L e) = aeState e"
  "aeSourceID (fillAuditEvent L e) = aeSourceID e" "aePolicyID (fillAuditEvent L e) = aePolicyID e"
  "aeKeyID (fillAuditEvent L e) = aeKeyID e" "aeServiceID (fillAuditEvent L e) = aeServiceID e"
  "aeRequestID (fillAuditEvent L e) = aeRequestID e" "aePreviousHash (fillAuditEvent L e) = aePreviousHash e"
  "aeEventHash (fillAuditEvent L e) = aeEventHash e" "aeChainStatus (fillAuditEvent L e) = aeChainStatus e"
  by (simp_all add: fillAuditEvent_def Let_def)

lemma fill_idem: "fillAuditEvent L (fillAuditEvent L e) = fillAuditEvent L e"
  by (rule auditEvent.equality) (simp_all add: actorKind_nonempty hashAuditRef_nonempty)

lemma canonical_words [simp]:
  "canonical ''unknown''" "canonical ''degraded''" "canonical ''audit_recorded''"
  "canonical ''system''" "canonical ''operator''" "canonical ''service''"
  "canonical ''genesis''" "canonical ''chained''"
  by (rule canonical_word; simp add: plainChar_def)+

lemma canonical_actorKind [simp]: "canonical (actorKindForAudit s)"
  by (simp add: actorKindForAudit_def Let_def)

lemma fill_fields:
  assumes "\<And>s. canonical s \<Longrightarrow> P s" "list_all P (scrubbedFields e)"
  shows "list_all P (scrubbedFields (fillAuditEvent L e))"
  using assms(2) by (simp add: scrubbedFields_def assms(1) orDefault_P)

lemma normalize_plain: "asciiEvent e \<Longrightarrow> list_all plain (scrubbedFields (normalizeAuditEvent L e))"
  unfolding normalizeAuditEvent_def
  by (rule fill_fields) (auto simp: scrub_fields asciiEvent_def list_all_iff scrub_plain plain_of_canonical)

lemma normalize_canonical:
  "list_all plain (scrubbedFields e) \<Longrightarrow> list_all canonical (scrubbedFields (normalizeAuditEvent L e))"
  unfolding normalizeAuditEvent_def
  by (rule fill_fields) (auto simp: scrub_fields list_all_iff scrub_canonical)

lemma normalize_fixed:
  assumes "list_all plain (scrubbedFields e)"
  shows "normalizeAuditEvent L (normalizeAuditEvent L e) = normalizeAuditEvent L e"
  using scrub_event_id [OF normalize_canonical [OF assms, of L]]
  by (simp add: normalizeAuditEvent_def fill_idem)

lemma normalize_stable:
  "asciiEvent e \<Longrightarrow> normalizeAuditEvent L (normalizeAuditEvent L (normalizeAuditEvent L e))
     = normalizeAuditEvent L (normalizeAuditEvent L e)"
  by (rule normalize_fixed [OF normalize_plain])

lemma ascii_const: "ascii ''sha256:''" by (simp add: ascii_def)

lemma normalize_refHash_ascii:
  "asciiEvent e \<Longrightarrow> ascii (aeRefHash (normalizeAuditEvent L e))"
  by (simp add: asciiEvent_def normalizeAuditEvent_def scrubAuditEvent_def hashAuditRef_def orDefault_P)

lemma plain_asciiD: "plain s \<Longrightarrow> ascii s"
  by (simp add: plain_def plain_ascii)

lemma normalize_ascii: "asciiEvent e \<Longrightarrow> asciiEvent (normalizeAuditEvent L e)"
  using normalize_plain [of e L] normalize_refHash_ascii [of e L]
  by (auto simp: asciiEvent_def list_all_iff plain_asciiD)

lemma reload_ascii: "asciiEvent e \<Longrightarrow> auditReload e = e"
  by (simp add: asciiEvent_def scrubbedFields_def auditReload_def jsonString_ascii)

subsection \<open>Appending to a chain\<close>

lemma length_hex [simp]: "length (hexEncode s) = 2 * length s"
  by (induction s) (simp_all add: hexEncode_def)

lemma hexDigit_mem: "hexDigit n \<in> set ''0123456789abcdef''"
proof -
  have "n mod 16 < length ''0123456789abcdef''" by simp
  then show ?thesis unfolding hexDigit_def by (rule nth_mem)
qed

lemma hex_chars: "set (hexEncode s) \<subseteq> set ''0123456789abcdef''"
proof (induction s)
  case (Cons c s)
  have "set (hexEncode (c # s)) = {hexDigit (of_char c div 16), hexDigit (of_char c)} \<union> set (hexEncode s)"
    by (auto simp: hexEncode_def)
  moreover have "{hexDigit (of_char c div 16), hexDigit (of_char c)} \<subseteq> set ''0123456789abcdef''"
    using hexDigit_mem by (intro insert_subsetI empty_subsetI)
  ultimately show ?case using Cons by (simp only: Un_subset_iff simp_thms)
qed (simp add: hexEncode_def)

lemma canonical_hash:
  assumes "lib_ok L" shows "canonical (''sha256:'' @ hexEncode (sha256 L x))"
proof (rule canonical_word)
  have "list_all plainChar (hexEncode (sha256 L x))"
    using hex_chars [of "sha256 L x"] by (auto simp: list_all_iff plainChar_def)
  then show "list_all plainChar (''sha256:'' @ hexEncode (sha256 L x))" by (simp add: plainChar_def)
  show "CHR '' '' \<notin> set (''sha256:'' @ hexEncode (sha256 L x))"
    using hex_chars [of "sha256 L x"] by auto
qed (simp add: assms)

lemma firstNonEmpty_word: "\<not> digit7 c \<Longrightarrow> \<not> isSpaceRune [c] \<Longrightarrow> firstNonEmpty (c # s) d = c # s"
  by (simp add: firstNonEmpty_def trimSpace_eq_Nil)

lemma eventHash_facts:
  "aeEventHash (prepareChainedAuditEvent L e prev) \<noteq> []"
  "auditEventHash L e \<noteq> []"
  "firstNonEmpty (auditEventHash L e) d = auditEventHash L e"
  by (simp_all add: prepareChainedAuditEvent_def Let_def auditEventHash_def firstNonEmpty_word isSpaceRune_def)

lemma scrub_sel [simp]:
  "aePreviousHash (scrubAuditEvent e) = scrubAuditField (aePreviousHash e)"
  "aeEventHash (scrubAuditEvent e) = scrubAuditField (aeEventHash e)"
  by (simp_all add: scrubAuditEvent_def)

lemma hashedPart_eventHash: "hashedPart L (e\<lparr>aeEventHash := h\<rparr>) = hashedPart L e"
  unfolding hashedPart_def normalizeAuditEvent_def
  by (rule auditEvent.equality) (simp_all add: scrubAuditEvent_def)

lemma chained_event_facts:
  assumes "lib_ok L" "asciiEvent e" "canonical prev"
  defines "s \<equiv> prepareChainedAuditEvent L (normalizeAuditEvent L e) prev"
  shows "auditReload s = s"
    and "normalizeAuditEvent L (normalizeAuditEvent L s) = normalizeAuditEvent L s"
    and "aeEventHash (normalizeAuditEvent L s) = auditEventHash L (normalizeAuditEvent L s)"
    and "aePreviousHash (normalizeAuditEvent L s) = firstNonEmpty prev auditChainGenesisHash"
proof -
  let ?N = "normalizeAuditEvent L"
  let ?s0 = "(?N e)\<lparr>aePreviousHash := firstNonEmpty prev auditChainGenesisHash, aeChainStatus := ''chained''\<rparr>"
  have s: "s = ?s0\<lparr>aeEventHash := auditEventHash L ?s0\<rparr>"
    by (simp add: s_def prepareChainedAuditEvent_def Let_def)
  have h: "canonical (auditEventHash L x)" for x
    unfolding auditEventHash_def by (rule canonical_hash [OF assms(1)])
  have p: "canonical (firstNonEmpty prev auditChainGenesisHash)"
    using assms(3) by (simp add: firstNonEmpty_def auditChainGenesisHash_def)
  have fields: "list_all plain (scrubbedFields s)"
    using normalize_plain [OF assms(2), of L] plain_of_canonical [OF h] plain_of_canonical [OF p]
    by (simp add: scrubbedFields_def s plain_of_canonical)
  then have "asciiEvent s"
    using normalize_refHash_ascii [OF assms(2), of L]
    by (simp add: asciiEvent_def list_all_iff plain_asciiD) (simp add: s)
  then show "auditReload s = s" by (rule reload_ascii)
  show nn: "?N (?N s) = ?N s" by (rule normalize_fixed [OF fields])
  have "aeEventHash (?N s) = auditEventHash L ?s0"
    using h by (simp add: normalizeAuditEvent_def s canonical_def)
  moreover have "hashedPart L (?N s) = hashedPart L s" by (simp add: hashedPart_def nn)
  moreover have "hashedPart L s = hashedPart L ?s0" unfolding s by (rule hashedPart_eventHash)
  ultimately show "aeEventHash (?N s) = auditEventHash L (?N s)" by (simp add: auditEventHash_def)
  show "aePreviousHash (?N s) = firstNonEmpty prev auditChainGenesisHash"
    using p by (simp add: normalizeAuditEvent_def s canonical_def)
qed

lemma scanChain_snoc: "scanChain L (es @ [e]) = verifyStep L (scanChain L es) e"
  by (simp add: scanChain_def)

text \<open>What the scan knows about a chain in which nothing has failed.\<close>

definition scanInv :: "'z golib_scheme \<Rightarrow> chainScan \<Rightarrow> bool" where
  "scanInv L s \<longleftrightarrow>
     (scStarted s \<longleftrightarrow> 0 < scVerified s)
     \<and> (scVerified s = 0 \<longrightarrow> scLastHash s = [])
     \<and> (0 < scVerified s \<longrightarrow> scEvents s \<noteq> [] \<and> aeEventHash (last (scEvents s)) = scLastHash s
          \<and> (\<exists>x. scLastHash s = auditEventHash L x))"

lemma verifyStep_failed: "scFailed (verifyStep L s e) = 0 \<Longrightarrow> scFailed s = 0"
  by (auto simp: verifyStep_def Let_def split: if_splits)

lemma verifyStep_inv: "scanInv L s \<Longrightarrow> scFailed (verifyStep L s e) = 0 \<Longrightarrow> scanInv L (verifyStep L s e)"
  by (auto simp: verifyStep_def Let_def scanInv_def split: if_splits)

lemma scanChain_inv: "scFailed (scanChain L es) = 0 \<Longrightarrow> scanInv L (scanChain L es)"
proof (induction es rule: rev_induct)
  case Nil
  show ?case by (simp add: scanChain_def chainScan0_def scanInv_def)
next
  case (snoc e es)
  have "scFailed (verifyStep L (scanChain L es) e) = 0" using snoc.prems by (simp only: scanChain_snoc)
  then show ?case unfolding scanChain_snoc using snoc.IH verifyStep_failed verifyStep_inv by metis
qed

lemma chained_step:
  assumes "lib_ok L" "asciiEvent e" "scanInv L s"
    and "prev = (if 0 < scVerified s then scLastHash s else [])"
    and "normalizeAuditEvent L x = normalizeAuditEvent L (prepareChainedAuditEvent L (normalizeAuditEvent L e) prev)"
  shows "scVerified (verifyStep L s x) = scVerified s + 1" "scFailed (verifyStep L s x) = scFailed s"
    "scUnchecked (verifyStep L s x) = scUnchecked s"
proof -
  have "prev = scLastHash s" "canonical prev"
    using assms(3,4) canonical_hash [OF assms(1)] by (auto simp: scanInv_def auditEventHash_def)
  note f = chained_event_facts [OF assms(1,2) this(2)] and p = this(1)
  have "aeEventHash (normalizeAuditEvent L x) \<noteq> []"
      "aePreviousHash (normalizeAuditEvent L x) = firstNonEmpty (scLastHash s) auditChainGenesisHash"
      "aeEventHash (normalizeAuditEvent L x) = auditEventHash L (normalizeAuditEvent L x)"
    unfolding assms(5) using f(3,4) p by (simp_all add: eventHash_facts(2))
  then show "scVerified (verifyStep L s x) = scVerified s + 1" "scFailed (verifyStep L s x) = scFailed s"
    "scUnchecked (verifyStep L s x) = scUnchecked s"
    by (simp_all add: verifyStep_def Let_def)
qed

lemma verifyAuditChain_sel:
  "cvFailed (fst (verifyAuditChain L es)) = scFailed (scanChain L es)"
  "cvVerified (fst (verifyAuditChain L es)) = scVerified (scanChain L es)"
  "cvUnchecked (fst (verifyAuditChain L es)) = scUnchecked (scanChain L es)"
  "snd (verifyAuditChain L es) = scEvents (scanChain L es)"
  "cvStatus (fst (verifyAuditChain L es)) = ''invalid'' \<longleftrightarrow> scFailed (scanChain L es) \<noteq> 0"
  by (simp_all add: verifyAuditChain_def Let_def)

subsection \<open>The last hash commits to the log\<close>

definition committed :: "'z golib_scheme \<Rightarrow> auditEvent \<Rightarrow> auditEvent" where
  "committed L e = hashedPart L (normalizeAuditEvent L e)"

definition noCollision :: "'z golib_scheme \<Rightarrow> auditEvent set \<Rightarrow> bool" where
  "noCollision L E \<longleftrightarrow> inj_on (\<lambda>e. sha256 L (auditJSON L e)) (committed L ` E)"

definition allVerified :: "chainScan \<Rightarrow> bool" where
  "allVerified s \<longleftrightarrow> scFailed s = 0 \<and> scUnchecked s = 0"

lemma step_allVerified:
  assumes "allVerified (verifyStep L s e)"
  shows "allVerified s" "scLastHash (verifyStep L s e) = auditEventHash L (normalizeAuditEvent L e)"
    "aePreviousHash (normalizeAuditEvent L e) = firstNonEmpty (scLastHash s) auditChainGenesisHash"
  using assms by (auto simp: verifyStep_def Let_def allVerified_def split: if_splits)

lemma status_verified: "cvStatus (fst (verifyAuditChain L es)) = ''verified'' \<Longrightarrow> allVerified (scanChain L es)"
  by (auto simp: verifyAuditChain_def Let_def allVerified_def split: if_splits)

lemma committed_previous:
  "aePreviousHash (committed L e) = scrubAuditField (aePreviousHash (normalizeAuditEvent L e))"
  by (simp add: committed_def hashedPart_def normalizeAuditEvent_def)

lemma committed_hash: "auditEventHash L (normalizeAuditEvent L e) = ''sha256:'' @ hexEncode (sha256 L (auditJSON L (committed L e)))"
  by (simp add: auditEventHash_def committed_def)

lemma lastHash_cases:
  "allVerified (scanChain L es) \<Longrightarrow> scLastHash (scanChain L es) = [] \<or> (\<exists>x. scLastHash (scanChain L es) = auditEventHash L x)"
  using scanChain_inv [of L es] by (auto simp: allVerified_def scanInv_def)

lemma previous_inj:
  assumes "lib_ok L" "a = [] \<or> (\<exists>x. a = auditEventHash L x)" "b = [] \<or> (\<exists>x. b = auditEventHash L x)"
    and "scrubAuditField (firstNonEmpty a auditChainGenesisHash) = scrubAuditField (firstNonEmpty b auditChainGenesisHash)"
  shows "a = b"
proof -
  have "canonical (auditEventHash L x)" for x
    unfolding auditEventHash_def by (rule canonical_hash [OF assms(1)])
  then have c: "scrubAuditField (auditEventHash L x) = auditEventHash L x" for x by (simp add: canonical_def)
  have g: "scrubAuditField ''genesis'' = ''genesis''" "firstNonEmpty [] d = d" for d
    using canonical_words(7) by (simp_all add: canonical_def firstNonEmpty_def)
  have "auditEventHash L x \<noteq> ''genesis''" for x by (simp add: auditEventHash_def)
  then show ?thesis using assms(2-4) c g
    by (auto simp: auditChainGenesisHash_def eventHash_facts) (metis g(1))+
qed

lemma chain_commits:
  assumes "lib_ok L"
  shows "\<lbrakk>allVerified (scanChain L xs); allVerified (scanChain L ys); noCollision L (set xs \<union> set ys);
    scLastHash (scanChain L xs) = scLastHash (scanChain L ys)\<rbrakk> \<Longrightarrow> map (committed L) xs = map (committed L) ys"
proof (induction xs arbitrary: ys rule: rev_induct)
  case Nil
  then show ?case
    by (cases ys rule: rev_cases)
       (auto simp: scanChain_snoc step_allVerified(2) eventHash_facts(2) eventHash_facts(2) [symmetric]
          scanChain_def chainScan0_def)
next
  case (snoc x xs)
  from snoc.prems(1) have x: "allVerified (verifyStep L (scanChain L xs) x)" by (simp only: scanChain_snoc)
  obtain ys' y where ys: "ys = ys' @ [y]"
    using snoc.prems(4) step_allVerified(2) [OF x] eventHash_facts(2)
    by (cases ys rule: rev_cases) (auto simp: scanChain_snoc, auto simp: scanChain_def chainScan0_def)
  with snoc.prems(2) have y: "allVerified (verifyStep L (scanChain L ys') y)" by (simp only: scanChain_snoc)
  have "sha256 L (auditJSON L (committed L x)) = sha256 L (auditJSON L (committed L y))"
    using snoc.prems(4) unfolding ys scanChain_snoc step_allVerified(2) [OF x] step_allVerified(2) [OF y] committed_hash
    by (simp add: hexEncode_inj)
  then have eq: "committed L x = committed L y"
    by (rule inj_onD [OF snoc.prems(3) [unfolded noCollision_def]]) (auto simp: ys)
  then have "scLastHash (scanChain L xs) = scLastHash (scanChain L ys')"
    using previous_inj [OF assms lastHash_cases [OF step_allVerified(1) [OF x]] lastHash_cases [OF step_allVerified(1) [OF y]]]
      committed_previous [of L x] committed_previous [of L y] step_allVerified(3) [OF x] step_allVerified(3) [OF y]
    by metis
  moreover have "noCollision L (set xs \<union> set ys')"
    using snoc.prems(3) unfolding ys noCollision_def by (rule inj_on_subset) auto
  ultimately have "map (committed L) xs = map (committed L) ys'"
    using snoc.IH step_allVerified(1) [OF x] step_allVerified(1) [OF y] by blast
  then show ?case using eq ys by simp
qed

lemma verified_head:
  assumes "cvStatus (fst (verifyAuditChain L es)) = ''verified''"
  shows "aeEventHash (last (snd (verifyAuditChain L es))) = scLastHash (scanChain L es)"
proof -
  have "0 < scVerified (scanChain L es)" "scFailed (scanChain L es) = 0"
    using assms by (auto simp: verifyAuditChain_def Let_def split: if_splits)
  then show ?thesis using scanChain_inv [of L es] by (simp add: verifyAuditChain_sel scanInv_def)
qed

definition demoEvent :: auditEvent where
  "demoEvent = emptyAuditEvent\<lparr>aeTS := 3, aeOperation := ''write'', aeOutcome := ''ready''\<rparr>"

definition demoLog :: "auditEvent list" where
  "demoLog = [prepareChainedAuditEvent toy_lib (normalizeAuditEvent toy_lib demoEvent) []]"

lemma demo_ascii: "asciiEvent demoEvent"
  by (simp add: asciiEvent_def scrubbedFields_def demoEvent_def emptyAuditEvent_def)

lemma demo_verified:
  assumes "normalizeAuditEvent toy_lib x = normalizeAuditEvent toy_lib (hd demoLog)"
  shows "cvStatus (fst (verifyAuditChain toy_lib [x])) = ''verified''"
    "aeEventHash (last (snd (verifyAuditChain toy_lib [x]))) = aeEventHash (normalizeAuditEvent toy_lib (hd demoLog))"
proof -
  have i: "scanInv toy_lib chainScan0" by (simp add: scanInv_def chainScan0_def)
  have "scanChain toy_lib [x] = verifyStep toy_lib chainScan0 x" by (simp add: scanChain_def)
  note st = this chained_step [OF toy_lib_ok demo_ascii i, of "[]" x]
  show v: "cvStatus (fst (verifyAuditChain toy_lib [x])) = ''verified''"
    using st assms by (simp add: verifyAuditChain_def Let_def demoLog_def chainScan0_def)
  have "scLastHash (verifyStep toy_lib chainScan0 x) = aeEventHash (normalizeAuditEvent toy_lib x)"
    using st assms step_allVerified(2) [of toy_lib chainScan0 x] status_verified [OF v] verified_head [OF v]
    by (simp add: verifyStep_def Let_def chainScan0_def split: if_splits)
  then show "aeEventHash (last (snd (verifyAuditChain toy_lib [x]))) = aeEventHash (normalizeAuditEvent toy_lib (hd demoLog))"
    using verified_head [OF v] st(1) assms by simp
qed

lemma demo_fixed:
  "normalizeAuditEvent toy_lib (normalizeAuditEvent toy_lib (hd demoLog)) = normalizeAuditEvent toy_lib (hd demoLog)"
  using chained_event_facts(2) [OF toy_lib_ok demo_ascii canonical_Nil] by (simp add: demoLog_def)

text \<open>
  Property C3. The hash chain is tamper evident: if two logs verify and end in the same event hash,
  and the hash has no collision among their events, they hold the same events, field by field (all
  fields the hash covers). In particular no event can be changed, reordered, inserted or dropped
  without changing the last hash.
\<close>

theorem audit_chain_tamper_evident:
  assumes "lib_ok L"
    and "cvStatus (fst (verifyAuditChain L xs)) = ''verified''"
    and "cvStatus (fst (verifyAuditChain L ys)) = ''verified''"
    and "aeEventHash (last (snd (verifyAuditChain L xs))) = aeEventHash (last (snd (verifyAuditChain L ys)))"
    and "noCollision L (set xs \<union> set ys)"
  shows "map (committed L) xs = map (committed L) ys"
  using chain_commits [OF assms(1) status_verified [OF assms(2)] status_verified [OF assms(3)] assms(5)]
    verified_head [OF assms(2)] verified_head [OF assms(3)] assms(4) by metis

theorem audit_chain_tamper_evident_witness:
  "map (committed toy_lib) demoLog = map (committed toy_lib) (readAuditEvents toy_lib demoLog)"
proof (rule audit_chain_tamper_evident [OF toy_lib_ok])
  have l: "demoLog = [hd demoLog]" "readAuditEvents toy_lib demoLog = [normalizeAuditEvent toy_lib (hd demoLog)]"
    by (simp_all add: demoLog_def readAuditEvents_def)
  show "cvStatus (fst (verifyAuditChain toy_lib demoLog)) = ''verified''"
    "cvStatus (fst (verifyAuditChain toy_lib (readAuditEvents toy_lib demoLog))) = ''verified''"
    "aeEventHash (last (snd (verifyAuditChain toy_lib demoLog)))
      = aeEventHash (last (snd (verifyAuditChain toy_lib (readAuditEvents toy_lib demoLog))))"
    using demo_verified [OF refl] demo_verified [OF demo_fixed] l by metis+
  show "noCollision toy_lib (set demoLog \<union> set (readAuditEvents toy_lib demoLog))"
    using l demo_fixed by (simp add: noCollision_def committed_def demoLog_def readAuditEvents_def)
qed

end
