(* ===== verification/Events.thy ===== *)
theory Events
  imports Audit_Chain
begin

text \<open>
  \<open>events.go\<close>: the operational events derived from audit events. The event file is the list of
  events its lines decode to; it keeps the newest 200. The query side filters the list and cuts it
  into pages. \<open>strconv.Atoi\<close> and \<open>strconv.Itoa\<close>, which carry the page cursor, are defined here.
\<close>

subsection \<open>Decimal numbers\<close>

definition isDigit :: "char \<Rightarrow> bool" where
  "isDigit c \<longleftrightarrow> 48 \<le> (of_char c :: nat) \<and> (of_char c :: nat) \<le> 57"

definition digitsValue :: "string \<Rightarrow> int" where
  "digitsValue s = foldl (\<lambda>n c. 10 * n + (int (of_char c) - 48)) 0 s"

definition atoi :: "string \<Rightarrow> int option" where
  "atoi s =
     (let (neg, ds) = (case s of c # r \<Rightarrow> if c = CHR ''-'' then (True, r) else if c = CHR ''+'' then (False, r) else (False, s)
                       | [] \<Rightarrow> (False, []));
          n = (if neg then - digitsValue ds else digitsValue ds)
      in if ds \<noteq> [] \<and> list_all isDigit ds \<and> - (2 ^ 63) \<le> n \<and> n < 2 ^ 63 then Some n else None)"

fun natDigits :: "nat \<Rightarrow> string" where
  "natDigits n = (if n < 10 then [char_of (48 + n)] else natDigits (n div 10) @ [char_of (48 + n mod 10)])"

declare natDigits.simps [simp del]

definition itoa :: "int \<Rightarrow> string" where
  "itoa i = (if i < 0 then CHR ''-'' # natDigits (nat (- i)) else natDigits (nat i))"

subsection \<open>Operational events\<close>

record operationalEvent =
  oeID :: string
  oeTS :: time
  oeFamily :: string
  oeSeverity :: string
  oeOperation :: string
  oeServiceID :: string
  oeProviderID :: string
  oeSourceID :: string
  oePolicyID :: string
  oeKeyID :: string
  oeRefPrefix :: string
  oeRefHash :: string
  oeOutcome :: string
  oeRequestID :: string

definition maxOperationalEventLimit :: int where
  "maxOperationalEventLimit = 200"

definition defaultOperationalEventLimit :: int where
  "defaultOperationalEventLimit = 50"

definition eventSeverity :: "string \<Rightarrow> string" where
  "eventSeverity outcome =
     (if outcome \<in> {''ready'', ''allowed'', ''cleared'', ''not_found''} then ''info''
      else if outcome \<in> {''degraded'', ''invalid_ref'', ''identity_expired''} then ''error''
      else ''warning'')"

definition eventFamily :: "auditEvent \<Rightarrow> string" where
  "eventFamily a =
     (let op = aeOperation a; oc = aeOutcome a in
      if aeAuditStatus a \<noteq> [] \<and> aeAuditStatus a \<noteq> ''audit_recorded'' then ''audit_unavailable''
      else if op = ''local_api_auth'' \<and> oc \<noteq> ''ready'' then ''auth_failure''
      else if op = ''lockout_clear'' then ''lockout_cleared''
      else if containsStr op ''lockout'' then ''lockout_started''
      else if op = ''policy_decision'' then ''policy_decision''
      else if op = ''source_lifecycle'' \<and> oc = ''ready'' then ''source_recovered''
      else if op = ''source_lifecycle'' \<and> oc = ''source_auth_required'' then ''source_auth_required''
      else if op = ''source_lifecycle'' then ''source_unavailable''
      else if hasPrefix op ''provider_'' \<and> oc = ''ready'' then ''provider_recovered''
      else if hasPrefix op ''provider_'' \<and> oc = ''source_auth_required'' then ''source_auth_required''
      else if hasPrefix op ''provider_'' then ''provider_unavailable''
      else if op = ''management_reveal'' then ''management_reveal''
      else if containsStr op ''rotation'' then ''rotation_action''
      else if containsStr op ''delete'' then ''delete_action''
      else if hasPrefix op ''management_'' then ''management_apply''
      else if hasPrefix op ''key_'' then ''key_lifecycle''
      else if hasPrefix op ''recovery_policy_'' then ''key_lifecycle''
      else if hasPrefix op ''backup_'' then ''backup_restore''
      else ''audit_recorded'')"

fun lockoutPrefixName :: "string list \<Rightarrow> string \<Rightarrow> string option" where
  "lockoutPrefixName [] ref = None"
| "lockoutPrefixName (p # ps) ref = (if hasPrefix ref p then Some (trimSuffix p '':'') else lockoutPrefixName ps ref)"

definition safeRefPrefix :: "string \<Rightarrow> string" where
  "safeRefPrefix r =
     (let ref = trimSlash (trimSpace r) in
      if ref = [] then []
      else case lockoutPrefixName [''local_api:'', ''management:'', ''writeback:''] ref of
        Some name \<Rightarrow> name
      | None \<Rightarrow> let parts = splitOn (CHR ''/'') ref in
          if length parts \<le> 2 then joinWith ''/'' parts else joinWith ''/'' (take 2 parts))"

definition operationalEventFromAudit :: "'z golib_scheme \<Rightarrow> auditEvent \<Rightarrow> operationalEvent" where
  "operationalEventFromAudit L audit =
     (let a = normalizeAuditEvent L audit;
          event = \<lparr>oeID = [], oeTS = aeTS a, oeFamily = eventFamily a, oeSeverity = eventSeverity (aeOutcome a),
            oeOperation = aeOperation a, oeServiceID = aeServiceID a, oeProviderID = aeProviderID a,
            oeSourceID = aeSourceID a, oePolicyID = aePolicyID a, oeKeyID = aeKeyID a,
            oeRefPrefix = safeRefPrefix (aeRef a), oeRefHash = aeRefHash a, oeOutcome = aeOutcome a,
            oeRequestID = aeRequestID a\<rparr>
      in event\<lparr>oeID := joinWith '':'' [formatNano L (oeTS event), oeFamily event, oeOperation event, oeOutcome event, oeRefHash event]\<rparr>)"

definition normalizeOperationalEvent :: "operationalEvent \<Rightarrow> operationalEvent" where
  "normalizeOperationalEvent e =
     (let outcome = scrubAuditField (oeOutcome e) in
      e\<lparr>oeFamily := orDefault (scrubAuditField (oeFamily e)) ''audit_recorded'',
        oeSeverity := orDefault (scrubAuditField (oeSeverity e)) (eventSeverity outcome),
        oeOperation := scrubAuditField (oeOperation e),
        oeServiceID := scrubAuditField (oeServiceID e),
        oeProviderID := scrubAuditField (oeProviderID e),
        oeSourceID := scrubAuditField (oeSourceID e),
        oePolicyID := scrubAuditField (oePolicyID e),
        oeKeyID := scrubAuditField (oeKeyID e),
        oeRefPrefix := scrubAuditField (oeRefPrefix e),
        oeRefHash := scrubAuditField (oeRefHash e),
        oeOutcome := orDefault outcome ''degraded'',
        oeRequestID := scrubAuditField (oeRequestID e),
        oeID := scrubAuditField (oeID e)\<rparr>)"

definition operationalReload :: "operationalEvent \<Rightarrow> operationalEvent" where
  "operationalReload e = \<lparr>oeID = jsonString (oeID e), oeTS = oeTS e, oeFamily = jsonString (oeFamily e),
     oeSeverity = jsonString (oeSeverity e), oeOperation = jsonString (oeOperation e),
     oeServiceID = jsonString (oeServiceID e), oeProviderID = jsonString (oeProviderID e),
     oeSourceID = jsonString (oeSourceID e), oePolicyID = jsonString (oePolicyID e),
     oeKeyID = jsonString (oeKeyID e), oeRefPrefix = jsonString (oeRefPrefix e),
     oeRefHash = jsonString (oeRefHash e), oeOutcome = jsonString (oeOutcome e),
     oeRequestID = jsonString (oeRequestID e)\<rparr>"

definition loadOperationalEvents :: "operationalEvent list \<Rightarrow> operationalEvent list" where
  "loadOperationalEvents file = map normalizeOperationalEvent file"

definition saveOperationalEvents :: "operationalEvent list \<Rightarrow> operationalEvent list" where
  "saveOperationalEvents events = map (\<lambda>e. operationalReload (normalizeOperationalEvent e)) events"

text \<open>The new content of the event file after one more audit event.\<close>

definition appendOperationalEvent :: "'z golib_scheme \<Rightarrow> auditEvent \<Rightarrow> operationalEvent list \<Rightarrow> operationalEvent list" where
  "appendOperationalEvent L audit file =
     (let events = loadOperationalEvents file @ [operationalEventFromAudit L audit];
          m = nat maxOperationalEventLimit;
          kept = (if length events > m then drop (length events - m) events else events)
      in saveOperationalEvents kept)"

subsection \<open>Queries\<close>

record eventFilters =
  fSince :: "time option"
  fUntil :: "time option"
  fServiceID :: string
  fProviderID :: string
  fSourceID :: string
  fOperation :: string
  fOutcome :: string
  fSeverity :: string
  fFamily :: string
  fRefPrefix :: string
  fRefHash :: string
  fLimit :: int
  fCursor :: int

datatype eventFilterError = eventFilterError (efField: string) (efMessage: string)

definition valuesGet :: "string list gomap \<Rightarrow> string \<Rightarrow> string" where
  "valuesGet q k = (case map_of q k of Some (v # _) \<Rightarrow> v | _ \<Rightarrow> [])"

definition parseEventTime :: "'z golib_scheme \<Rightarrow> string \<Rightarrow> string \<Rightarrow> eventFilterError + time option" where
  "parseEventTime L v field =
     (let value = trimSpace v in
      if value = [] then Inr None
      else case parseRFC3339 L value of
        None \<Rightarrow> Inl (eventFilterError field ''must be RFC3339'')
      | Some t \<Rightarrow> Inr (Some t))"

definition parseEventLimit :: "string \<Rightarrow> eventFilterError + int" where
  "parseEventLimit v =
     (let raw = trimSpace v in
      if raw = [] then Inr defaultOperationalEventLimit
      else case atoi raw of
        Some limit \<Rightarrow> if limit < 1 \<or> limit > maxOperationalEventLimit
          then Inl (eventFilterError ''limit'' ''must be an integer from 1 to 200'') else Inr limit
      | None \<Rightarrow> Inl (eventFilterError ''limit'' ''must be an integer from 1 to 200''))"

definition parseEventCursor :: "string \<Rightarrow> eventFilterError + int" where
  "parseEventCursor v =
     (let raw = trimSpace v in
      if raw = [] then Inr 0
      else case atoi raw of
        Some cursor \<Rightarrow> if cursor < 0 then Inl (eventFilterError ''cursor'' ''must be a non-negative integer'') else Inr cursor
      | None \<Rightarrow> Inl (eventFilterError ''cursor'' ''must be a non-negative integer''))"

definition parseEventFilters :: "'z golib_scheme \<Rightarrow> string list gomap \<Rightarrow> eventFilterError + eventFilters" where
  "parseEventFilters L q =
     (case parseEventTime L (valuesGet q ''since'') ''since'' of Inl e \<Rightarrow> Inl e | Inr since \<Rightarrow>
      case parseEventTime L (valuesGet q ''until'') ''until'' of Inl e \<Rightarrow> Inl e | Inr until \<Rightarrow>
      if (case (since, until) of (Some s, Some u) \<Rightarrow> s > u | _ \<Rightarrow> False)
      then Inl (eventFilterError ''since'' ''must be before until'')
      else case parseEventLimit (valuesGet q ''limit'') of Inl e \<Rightarrow> Inl e | Inr limit \<Rightarrow>
      case parseEventCursor (valuesGet q ''cursor'') of Inl e \<Rightarrow> Inl e | Inr cursor \<Rightarrow>
      Inr \<lparr>fSince = since, fUntil = until,
        fServiceID = scrubAuditField (valuesGet q ''serviceId''),
        fProviderID = scrubAuditField (valuesGet q ''providerId''),
        fSourceID = scrubAuditField (valuesGet q ''sourceId''),
        fOperation = scrubAuditField (valuesGet q ''operation''),
        fOutcome = scrubAuditField (valuesGet q ''outcome''),
        fSeverity = scrubAuditField (valuesGet q ''severity''),
        fFamily = scrubAuditField (valuesGet q ''family''),
        fRefPrefix = scrubAuditField (valuesGet q ''refPrefix''),
        fRefHash = scrubAuditField (valuesGet q ''refHash''),
        fLimit = limit, fCursor = cursor\<rparr>)"

definition eventMatchesFilters :: "operationalEvent \<Rightarrow> eventFilters \<Rightarrow> bool" where
  "eventMatchesFilters e f =
     (let bad = (\<lambda>want have. want \<noteq> [] \<and> have \<noteq> want) in
      \<not> ((case fSince f of Some t \<Rightarrow> oeTS e < t | None \<Rightarrow> False)
         \<or> (case fUntil f of Some t \<Rightarrow> oeTS e > t | None \<Rightarrow> False)
         \<or> bad (fServiceID f) (oeServiceID e) \<or> bad (fProviderID f) (oeProviderID e)
         \<or> bad (fSourceID f) (oeSourceID e) \<or> bad (fOperation f) (oeOperation e)
         \<or> bad (fOutcome f) (oeOutcome e) \<or> bad (fSeverity f) (oeSeverity e)
         \<or> bad (fFamily f) (oeFamily e) \<or> bad (fRefHash f) (oeRefHash e)
         \<or> (fRefPrefix f \<noteq> [] \<and> \<not> hasPrefix (oeRefPrefix e) (fRefPrefix f))))"

record eventSafety =
  MetadataOnly :: bool
  RawRefIncluded :: bool
  ValueMaterialIncluded :: bool

record eventsResponse =
  erOutcome :: string
  erLimit :: int
  erNextCursor :: string
  erEvents :: "operationalEvent list"
  erSafety :: eventSafety

text \<open>\<open>file\<close> is \<open>None\<close> when the event file cannot be read.\<close>

datatype eventsError = EventsUnreadable | EventsFilter eventFilterError

definition buildEventsResponse ::
  "operationalEvent list option \<Rightarrow> eventFilters \<Rightarrow> eventsResponse \<times> eventsError option" where
  "buildEventsResponse file f =
     (let res = \<lparr>erOutcome = ''ready'', erLimit = fLimit f, erNextCursor = [], erEvents = [],
                 erSafety = \<lparr>MetadataOnly = True, RawRefIncluded = False, ValueMaterialIncluded = False\<rparr>\<rparr>
      in case file of
        None \<Rightarrow> (res\<lparr>erOutcome := ''degraded''\<rparr>, Some EventsUnreadable)
      | Some content \<Rightarrow>
          let filtered = filter (\<lambda>e. eventMatchesFilters e f) (loadOperationalEvents content);
              n = int (length filtered) in
          if fCursor f > n
          then (res, Some (EventsFilter (eventFilterError ''cursor'' ''is beyond the filtered event set'')))
          else let stop = (if fCursor f + fLimit f > n then n else fCursor f + fLimit f) in
            (res\<lparr>erEvents := take (nat (stop - fCursor f)) (drop (nat (fCursor f)) filtered),
                 erNextCursor := (if stop < n then itoa stop else [])\<rparr>, None))"

subsection \<open>Facts\<close>

lemma isDigit_char: "k < 10 \<Longrightarrow> isDigit (char_of (48 + k :: nat))"
  by (simp add: isDigit_def)

lemma natDigits_digits: "list_all isDigit (natDigits n)"
proof (induction n rule: natDigits.induct)
  case (1 n)
  show ?case
  proof (cases "n < 10")
    case True
    then show ?thesis using isDigit_char by (subst natDigits.simps) simp
  next
    case False
    then show ?thesis using 1 isDigit_char [of "n mod 10"] by (subst natDigits.simps) simp
  qed
qed

lemma natDigits_nonempty [simp]: "natDigits n \<noteq> []"
  by (subst natDigits.simps) simp

lemma digitsValue_snoc: "digitsValue (s @ [c]) = 10 * digitsValue s + (int (of_char c) - 48)"
  by (simp add: digitsValue_def)

lemma digitsValue_natDigits: "digitsValue (natDigits n) = int n"
proof (induction n rule: natDigits.induct)
  case (1 n)
  show ?case
  proof (cases "n < 10")
    case True
    then show ?thesis by (subst natDigits.simps) (simp add: digitsValue_def)
  next
    case False
    then have "digitsValue (natDigits (n div 10)) = int (n div 10)" using 1 by simp
    moreover have "10 * int (n div 10) + int (n mod 10) = int n" by (metis mult_div_mod_eq of_nat_add of_nat_mult of_nat_numeral)
    ultimately show ?thesis using False by (subst natDigits.simps) (simp add: digitsValue_snoc)
  qed
qed

lemma atoi_itoa: "0 \<le> n \<Longrightarrow> n < 2 ^ 63 \<Longrightarrow> atoi (itoa n) = Some n"
proof -
  assume n: "0 \<le> n" "n < 2 ^ 63"
  have i: "itoa n = natDigits (nat n)" using n by (simp add: itoa_def)
  obtain c r where cr: "natDigits (nat n) = c # r" by (cases "natDigits (nat n)") auto
  then have "isDigit c" using natDigits_digits [of "nat n"] by simp
  then have "c \<noteq> CHR ''-''" "c \<noteq> CHR ''+''" by (auto simp: isDigit_def)
  then show "atoi (itoa n) = Some n"
    using n natDigits_digits [of "nat n"] digitsValue_natDigits [of "nat n"]
    by (simp add: atoi_def i cr)
qed

lemma trimRunes_none: "list_all (\<lambda>r. \<not> isSpaceRune r) rs \<Longrightarrow> trimRunes rs = rs"
proof -
  assume a: "list_all (\<lambda>r. \<not> isSpaceRune r) rs"
  have "dropWhile isSpaceRune ts = ts" if "list_all (\<lambda>r. \<not> isSpaceRune r) ts" for ts
    using that by (cases ts) simp_all
  from this [of rs] this [of "rev rs"] show ?thesis using a by (simp add: trimRunes_def list_all_iff)
qed

lemma trimSpace_digits: "list_all isDigit s \<Longrightarrow> trimSpace s = s"
proof -
  assume s: "list_all isDigit s"
  then have "list_all plainChar s" by (auto simp: list_all_iff isDigit_def plainChar_def)
  then have r: "go_runes s = map (\<lambda>c. [c]) s" by (intro go_runes_ascii plain_ascii)
  have "list_all (\<lambda>r. \<not> isSpaceRune r) (go_runes s)"
    using s unfolding r by (auto simp: list_all_iff isSpaceRune_def isDigit_def)
  then show ?thesis by (simp add: trimSpace_def trimRunes_none)
qed

lemma cursor_round_trip: "0 \<le> n \<Longrightarrow> n < 2 ^ 63 \<Longrightarrow> parseEventCursor (itoa n) = Inr n"
proof -
  assume n: "0 \<le> n" "n < 2 ^ 63"
  have "trimSpace (itoa n) = itoa n" "itoa n \<noteq> []"
    using n by (simp_all add: itoa_def trimSpace_digits natDigits_digits)
  then show "parseEventCursor (itoa n) = Inr n" using n by (simp add: parseEventCursor_def atoi_itoa)
qed

lemma itoa_nonempty [simp]: "itoa n \<noteq> []"
  by (simp add: itoa_def)

text \<open>A client that follows \<open>nextCursor\<close> from page to page.\<close>

fun collectPages :: "nat \<Rightarrow> operationalEvent list \<Rightarrow> eventFilters \<Rightarrow> operationalEvent list option" where
  "collectPages fuel file f =
     (case buildEventsResponse (Some file) f of
        (res, Some _) \<Rightarrow> None
      | (res, None) \<Rightarrow>
          if erNextCursor res = [] then Some (erEvents res)
          else case fuel of 0 \<Rightarrow> None
          | Suc n \<Rightarrow> (case parseEventCursor (erNextCursor res) of Inl _ \<Rightarrow> None
              | Inr c \<Rightarrow> map_option (\<lambda>es. erEvents res @ es) (collectPages n file (f\<lparr>fCursor := c\<rparr>))))"

declare collectPages.simps [simp del]

definition selectEvents :: "operationalEvent list \<Rightarrow> eventFilters \<Rightarrow> operationalEvent list" where
  "selectEvents file f = filter (\<lambda>e. eventMatchesFilters e f) (loadOperationalEvents file)"

lemma select_cursor [simp]: "selectEvents file (f\<lparr>fCursor := c\<rparr>) = selectEvents file f"
  by (simp add: selectEvents_def eventMatchesFilters_def Let_def)

lemma page:
  assumes "0 \<le> fCursor f" "fCursor f \<le> int (length (selectEvents file f))" "1 \<le> fLimit f"
  shows "snd (buildEventsResponse (Some file) f) = None"
    and "erEvents (fst (buildEventsResponse (Some file) f)) = take (nat (fLimit f)) (drop (nat (fCursor f)) (selectEvents file f))"
    and "erNextCursor (fst (buildEventsResponse (Some file) f)) =
      (if fCursor f + fLimit f < int (length (selectEvents file f)) then itoa (fCursor f + fLimit f) else [])"
proof -
  have eq: "buildEventsResponse (Some file) f =
      (\<lparr>erOutcome = ''ready'', erLimit = fLimit f,
        erNextCursor = (if (if fCursor f + fLimit f > int (length (selectEvents file f)) then int (length (selectEvents file f)) else fCursor f + fLimit f) < int (length (selectEvents file f))
          then itoa (if fCursor f + fLimit f > int (length (selectEvents file f)) then int (length (selectEvents file f)) else fCursor f + fLimit f) else []),
        erEvents = take (nat ((if fCursor f + fLimit f > int (length (selectEvents file f)) then int (length (selectEvents file f)) else fCursor f + fLimit f) - fCursor f))
          (drop (nat (fCursor f)) (selectEvents file f)),
        erSafety = \<lparr>MetadataOnly = True, RawRefIncluded = False, ValueMaterialIncluded = False\<rparr>\<rparr>, None)"
    using assms(2) unfolding buildEventsResponse_def Let_def selectEvents_def by simp
  show "snd (buildEventsResponse (Some file) f) = None" unfolding eq by simp
  define n where "n = int (length (selectEvents file f))"
  show "erEvents (fst (buildEventsResponse (Some file) f)) = take (nat (fLimit f)) (drop (nat (fCursor f)) (selectEvents file f))"
    unfolding eq using assms by (auto simp: nat_diff_distrib nat_add_distrib)
  show "erNextCursor (fst (buildEventsResponse (Some file) f)) =
      (if fCursor f + fLimit f < int (length (selectEvents file f)) then itoa (fCursor f + fLimit f) else [])"
    unfolding eq n_def [symmetric] by simp
qed

lemma collect_step:
  assumes "0 \<le> fCursor f" "fCursor f \<le> int (length (selectEvents file f))" "1 \<le> fLimit f"
  shows "collectPages fuel file f =
    (if fCursor f + fLimit f < int (length (selectEvents file f)) then
       (case fuel of 0 \<Rightarrow> None | Suc n \<Rightarrow> (case parseEventCursor (itoa (fCursor f + fLimit f)) of Inl _ \<Rightarrow> None
          | Inr c \<Rightarrow> map_option (\<lambda>es. take (nat (fLimit f)) (drop (nat (fCursor f)) (selectEvents file f)) @ es)
              (collectPages n file (f\<lparr>fCursor := c\<rparr>))))
     else Some (take (nat (fLimit f)) (drop (nat (fCursor f)) (selectEvents file f))))"
proof -
  obtain res where r: "buildEventsResponse (Some file) f = (res, None)"
    using page(1) [OF assms] by (metis prod.collapse)
  note p = page(2,3) [OF assms, unfolded r fst_conv]
  show ?thesis
    by (subst collectPages.simps, cases "fCursor f + fLimit f < int (length (selectEvents file f))")
       (simp_all add: r p split: nat.split sum.split)
qed

lemma collect_from:
  assumes "1 \<le> fLimit f" "int (length file) < 2 ^ 63"
  shows "\<lbrakk>0 \<le> fCursor f; fCursor f \<le> int (length (selectEvents file f));
    length (selectEvents file f) \<le> fuel + nat (fCursor f)\<rbrakk>
    \<Longrightarrow> collectPages fuel file f = Some (drop (nat (fCursor f)) (selectEvents file f))"
  using assms(1)
proof (induction fuel arbitrary: f)
  case 0
  then have "\<not> fCursor f + fLimit f < int (length (selectEvents file f))"
    "drop (nat (fCursor f)) (selectEvents file f) = []" by (linarith, simp)
  then show ?case using collect_step [OF 0(1,2,4), of 0] by simp
next
  case (Suc m)
  let ?s = "selectEvents file f"
  let ?c = "fCursor f + fLimit f"
  note step = collect_step [OF Suc.prems(1,2,4), of "Suc m"]
  show ?case
  proof (cases "?c < int (length ?s)")
    case False
    then have "length (drop (nat (fCursor f)) ?s) \<le> nat (fLimit f)" using Suc.prems by (simp add: nat_le_iff)
    then show ?thesis using step False by simp
  next
    case True
    have "length ?s \<le> length file"
      unfolding selectEvents_def loadOperationalEvents_def by (metis length_filter_le length_map)
    then have lt: "?c < 2 ^ 63" using True assms(2) by linarith
    have c: "0 \<le> ?c" "nat ?c = nat (fCursor f) + nat (fLimit f)" using Suc.prems by simp_all
    have IH: "collectPages m file (f\<lparr>fCursor := ?c\<rparr>) = Some (drop (nat ?c) ?s)"
      using Suc.IH [of "f\<lparr>fCursor := ?c\<rparr>"] Suc.prems True c by simp
    have "take (nat (fLimit f)) (drop (nat (fCursor f)) ?s) @ drop (nat ?c) ?s = drop (nat (fCursor f)) ?s"
      unfolding c(2) by (metis add.commute append_take_drop_id drop_drop)
    then show ?thesis using True IH cursor_round_trip [OF c(1) lt] step by simp
  qed
qed

text \<open>
  Property C8. Paging is complete: with any limit of at least one, a client that starts at cursor 0
  and sends back every \<open>nextCursor\<close> it receives gets each event that matches the filters exactly
  once and in order, and the walk ends.
\<close>

theorem event_paging_complete:
  assumes "1 \<le> fLimit f" "fCursor f = 0" "int (length file) < 2 ^ 63" "length file \<le> fuel"
  shows "collectPages fuel file f = Some (filter (\<lambda>e. eventMatchesFilters e f) (loadOperationalEvents file))"
proof -
  have "length (selectEvents file f) \<le> length file"
    unfolding selectEvents_def loadOperationalEvents_def by (metis length_filter_le length_map)
  then show ?thesis using collect_from [OF assms(1,3), of fuel] assms(2,4) by (simp add: selectEvents_def)
qed

definition demoFilters :: eventFilters where
  "demoFilters = \<lparr>fSince = None, fUntil = None, fServiceID = [], fProviderID = [], fSourceID = [],
     fOperation = [], fOutcome = [], fSeverity = ''info'', fFamily = [], fRefPrefix = [], fRefHash = [],
     fLimit = 1, fCursor = 0\<rparr>"

definition demoOpEvent :: "string \<Rightarrow> operationalEvent" where
  "demoOpEvent oc = \<lparr>oeID = oc, oeTS = 1, oeFamily = ''audit_recorded'', oeSeverity = eventSeverity oc,
     oeOperation = ''write'', oeServiceID = [], oeProviderID = [], oeSourceID = [], oePolicyID = [],
     oeKeyID = [], oeRefPrefix = [], oeRefHash = [], oeOutcome = oc, oeRequestID = []\<rparr>"

theorem event_paging_complete_witness:
  "collectPages 3 [demoOpEvent ''ready'', demoOpEvent ''locked'', demoOpEvent ''cleared''] demoFilters
    = Some (filter (\<lambda>e. eventMatchesFilters e demoFilters)
        (loadOperationalEvents [demoOpEvent ''ready'', demoOpEvent ''locked'', demoOpEvent ''cleared'']))"
  by (rule event_paging_complete) (simp_all add: demoFilters_def)

lemma take_eq_self_iff: "take n xs = xs \<longleftrightarrow> length xs \<le> n"
proof
  assume "take n xs = xs"
  then have "length xs = min (length xs) n" by (metis length_take)
  then show "length xs \<le> n" by simp
qed simp

lemma split_take_join:
  "0 < n \<Longrightarrow> splitOn d (joinWith [d] (take n (splitOn d s))) = take n (splitOn d s)"
proof (rule split_join)
  show "0 < n \<Longrightarrow> take n (splitOn d s) \<noteq> []" by (cases "splitOn d s") auto
  show "p \<in> set (take n (splitOn d s)) \<Longrightarrow> d \<notin> set p" for p
    using in_set_takeD splitOn_members by metis
qed

text \<open>
  The reference part of an operational event is made of the first two segments of the
  audited reference. It is the whole reference exactly when the reference has at most two segments,
  although the response always says that no raw reference is included.
\<close>

theorem event_ref_is_first_two_segments:
  assumes "trimSlash (trimSpace r) \<noteq> []"
    and "lockoutPrefixName [''local_api:'', ''management:'', ''writeback:''] (trimSlash (trimSpace r)) = None"
  shows "splitOn (CHR ''/'') (safeRefPrefix r) = take 2 (splitOn (CHR ''/'') (trimSlash (trimSpace r)))
    \<and> (safeRefPrefix r = trimSlash (trimSpace r) \<longleftrightarrow> length (splitOn (CHR ''/'') (trimSlash (trimSpace r))) \<le> 2)
    \<and> \<not> RawRefIncluded (erSafety (fst (buildEventsResponse file f)))"
proof -
  let ?ps = "splitOn (CHR ''/'') (trimSlash (trimSpace r))"
  have eq: "safeRefPrefix r = joinWith [CHR ''/''] (take 2 ?ps)"
    using assms by (simp add: safeRefPrefix_def Let_def)
  have seg: "splitOn (CHR ''/'') (safeRefPrefix r) = take 2 ?ps"
    unfolding eq by (rule split_take_join) simp
  moreover have "safeRefPrefix r = trimSlash (trimSpace r) \<longleftrightarrow> take 2 ?ps = ?ps"
    using seg by (metis join_split)
  moreover have "take 2 ?ps = ?ps \<longleftrightarrow> length ?ps \<le> 2" by (rule take_eq_self_iff)
  moreover have "\<not> RawRefIncluded (erSafety (fst (buildEventsResponse file f)))"
    by (simp add: buildEventsResponse_def Let_def split: option.split)
  ultimately show ?thesis by simp
qed

text \<open>
  The event file is a ring of at most 200 events: an append keeps the newest of the
  old events, in order, drops only the oldest, and the new event is the last.
\<close>

theorem event_file_keeps_newest:
  "length (appendOperationalEvent L a file) = min 200 (length file + 1)
   \<and> (\<exists>n. appendOperationalEvent L a file = saveOperationalEvents (drop n (loadOperationalEvents file) @ [operationalEventFromAudit L a])
        \<and> n = length file + 1 - min 200 (length file + 1))"
proof -
  let ?es = "loadOperationalEvents file"
  have len: "length ?es = length file" by (simp add: loadOperationalEvents_def)
  define n where "n = length file + 1 - min 200 (length file + 1)"
  have "appendOperationalEvent L a file = saveOperationalEvents (drop n (?es @ [operationalEventFromAudit L a]))"
    by (simp add: appendOperationalEvent_def maxOperationalEventLimit_def n_def len Let_def)
  moreover have "n \<le> length ?es" by (simp add: n_def len)
  ultimately have eq: "appendOperationalEvent L a file = saveOperationalEvents (drop n ?es @ [operationalEventFromAudit L a])"
    by simp
  moreover have "length (appendOperationalEvent L a file) = min 200 (length file + 1)"
    unfolding eq by (simp add: saveOperationalEvents_def len n_def)
  ultimately show ?thesis using n_def by blast
qed

end
