(* ===== verification/Audit_Log.thy ===== *)
theory Audit_Log
  imports Events "HOL-Library.Sublist"
begin

text \<open>
  The audit log of a running broker: \<open>writeAuditEvent\<close> and its callers in \<open>local_store.go\<close>, with the
  operational event file they feed. \<open>auditState\<close> holds the part of \<open>localBackend\<close> they use: the two
  paths, the hash chain switch, the clock, and the content of the two files. The content of the
  audit file is the list of events its complete lines decode to, and whether a last line is torn.

  Failures of the file system are explicit: each write takes the next element of \<open>bAuditFaults\<close>,
  so a theorem about every state covers a failure at any call. The directory, lock, open and read
  steps before the append fail without effect (\<open>AuditUnavailable\<close>); the append can leave part of
  a line (\<open>AuditTornWrite\<close>) or can fail after the line is written (\<open>AuditSyncFails\<close>); the event
  file can be unreadable or unwritable after that.
\<close>

datatype auditFault = NoFault | AuditUnavailable | AuditTornWrite | AuditSyncFails | EventFileUnreadable | EventFileUnwritable

record auditState =
  bAuditPath :: string
  bEventPath :: string
  bAuditHashChain :: bool
  bNow :: time
  bAuditLog :: "auditEvent list"
  bAuditTorn :: bool
  bEventLog :: "operationalEvent list"
  bAuditFaults :: "auditFault list"

definition nextFault :: "'m auditState_scheme \<Rightarrow> auditFault" where
  "nextFault b = (case bAuditFaults b of [] \<Rightarrow> NoFault | x # _ \<Rightarrow> x)"

definition takeFault :: "'m auditState_scheme \<Rightarrow> 'm auditState_scheme" where
  "takeFault b = b\<lparr>bAuditFaults := tl (bAuditFaults b)\<rparr>"

definition writeOperationalEvent ::
  "'z golib_scheme \<Rightarrow> auditFault \<Rightarrow> auditEvent \<Rightarrow> 'm auditState_scheme \<Rightarrow> gerror option \<times> 'm auditState_scheme" where
  "writeOperationalEvent L fault audit b =
     (if trimSpace (bEventPath b) = [] then (None, b)
      else if fault = EventFileUnreadable then (Some errBackendDegraded, b)
      else if fault = EventFileUnwritable then (Some errIO, b)
      else (None, b\<lparr>bEventLog := appendOperationalEvent L audit (bEventLog b)\<rparr>))"

definition writeAuditEvent ::
  "'z golib_scheme \<Rightarrow> auditEvent \<Rightarrow> 'm auditState_scheme \<Rightarrow> gerror option \<times> 'm auditState_scheme" where
  "writeAuditEvent L event b0 =
     (if trimSpace (bAuditPath b0) = [] then (None, b0)
      else
        let e1 = normalizeAuditEvent L event; fault = nextFault b0; b = takeFault b0 in
        if fault = AuditUnavailable then (Some errIO, b)
        else if bAuditTorn b then (Some errAuditChainInvalid, b)
        else
          let (chain, verified) = verifyAuditChain L (readAuditEvents L (bAuditLog b)) in
          if cvStatus chain = ''invalid'' then (Some errAuditChainInvalid, b)
          else
            let e2 = (if bAuditHashChain b \<or> cvVerified chain > 0
                      then prepareChainedAuditEvent L e1 (if cvVerified chain > 0 then aeEventHash (last verified) else [])
                      else e1) in
            if fault = AuditTornWrite then (Some errIO, b\<lparr>bAuditTorn := True\<rparr>)
            else
              let b1 = b\<lparr>bAuditLog := bAuditLog b @ [auditReload e2]\<rparr> in
              if fault = AuditSyncFails then (Some errIO, b1)
              else writeOperationalEvent L fault e2 b1)"

definition audit ::
  "'z golib_scheme \<Rightarrow> string \<Rightarrow> string \<Rightarrow> string \<Rightarrow> string \<Rightarrow> string \<Rightarrow> 'm auditState_scheme \<Rightarrow> gerror option \<times> 'm auditState_scheme" where
  "audit L operation ref outcome requestServiceID requestID b =
     writeAuditEvent L (emptyAuditEvent\<lparr>aeTS := bNow b, aeOperation := operation, aeRef := ref,
       aeOutcome := outcome, aeServiceID := requestServiceID, aeRequestID := requestID\<rparr>) b"

text \<open>An audit call whose error the code drops (\<open>_ = b.audit(...)\<close>).\<close>

definition audit_ignored ::
  "'z golib_scheme \<Rightarrow> string \<Rightarrow> string \<Rightarrow> string \<Rightarrow> string \<Rightarrow> string \<Rightarrow> 'm auditState_scheme \<Rightarrow> 'm auditState_scheme" where
  "audit_ignored L operation ref outcome svc rid b = snd (audit L operation ref outcome svc rid b)"

subsection \<open>What an audit write leaves alone\<close>

lemma write_keeps [simp, store_frame]:
  "bAuditPath (snd (writeAuditEvent L e b)) = bAuditPath b"
  "bEventPath (snd (writeAuditEvent L e b)) = bEventPath b"
  "bAuditHashChain (snd (writeAuditEvent L e b)) = bAuditHashChain b"
  "bNow (snd (writeAuditEvent L e b)) = bNow b"
  "auditState.more (snd (writeAuditEvent L e b)) = auditState.more b"
  by (simp_all add: writeAuditEvent_def Let_def writeOperationalEvent_def takeFault_def split: prod.split)

lemma writeAuditEvent_frame:
  "\<exists>log torn ev faults. snd (writeAuditEvent L e b) =
     b\<lparr>bAuditLog := log, bAuditTorn := torn, bEventLog := ev, bAuditFaults := faults\<rparr>"
proof (intro exI)
  let ?w = "snd (writeAuditEvent L e b)"
  show "?w = b\<lparr>bAuditLog := bAuditLog ?w, bAuditTorn := bAuditTorn ?w, bEventLog := bEventLog ?w, bAuditFaults := bAuditFaults ?w\<rparr>"
    by (rule auditState.equality) simp_all
qed

lemma audit_frame:
  "\<exists>log torn ev faults. snd (audit L op r oc svc rid b) =
     b\<lparr>bAuditLog := log, bAuditTorn := torn, bEventLog := ev, bAuditFaults := faults\<rparr>"
  unfolding audit_def by (rule writeAuditEvent_frame)

lemma audit_keeps [simp, store_frame]:
  "bAuditPath (snd (audit L op r oc svc rid b)) = bAuditPath b"
  "bEventPath (snd (audit L op r oc svc rid b)) = bEventPath b"
  "bAuditHashChain (snd (audit L op r oc svc rid b)) = bAuditHashChain b"
  "bNow (snd (audit L op r oc svc rid b)) = bNow b"
  "auditState.more (snd (audit L op r oc svc rid b)) = auditState.more b"
  by (simp_all add: audit_def)

subsection \<open>An append-only log\<close>

locale append_only =
  fixes log :: "'s \<Rightarrow> 'e list"
    and record_event :: "'e \<Rightarrow> 's \<Rightarrow> 'r \<times> 's"
  assumes at_most_one: "log (snd (record_event e s)) = log s \<or> (\<exists>x. log (snd (record_event e s)) = log s @ [x])"
begin

primrec record_all :: "'e list \<Rightarrow> 's \<Rightarrow> 's" where
  "record_all [] s = s"
| "record_all (e # es) s = record_all es (snd (record_event e s))"

lemma record_prefix: "prefix (log s) (log (snd (record_event e s)))"
  using at_most_one [of e s] by auto

lemma record_all_prefix: "prefix (log s) (log (record_all es s))"
proof (induction es arbitrary: s)
  case (Cons e es)
  then show ?case using record_prefix [of s e] prefix_order.trans by fastforce
qed simp

lemma record_all_length: "length (log (record_all es s)) \<le> length (log s) + length es"
proof (induction es arbitrary: s)
  case (Cons e es)
  show ?case using at_most_one [of e s] Cons [of "snd (record_event e s)"] by auto
qed simp

end

lemma writeOperationalEvent_log [simp]: "bAuditLog (snd (writeOperationalEvent L f a b)) = bAuditLog b"
  by (simp add: writeOperationalEvent_def)

lemma takeFault_sel [simp]:
  "bAuditLog (takeFault b) = bAuditLog b" "bAuditTorn (takeFault b) = bAuditTorn b"
  "bAuditHashChain (takeFault b) = bAuditHashChain b" "bNow (takeFault b) = bNow b"
  by (simp_all add: takeFault_def)

lemma write_log_cases:
  "bAuditLog (snd (writeAuditEvent L e b)) = bAuditLog b
   \<or> (\<exists>x. bAuditLog (snd (writeAuditEvent L e b)) = bAuditLog b @ [x])"
  by (auto simp: writeAuditEvent_def Let_def split: prod.split)

interpretation alog: append_only bAuditLog "writeAuditEvent L"
  by unfold_locales (rule write_log_cases)

subsection \<open>A successful write keeps the chain whole\<close>

definition chainedEvent :: "'z golib_scheme \<Rightarrow> auditEvent \<Rightarrow> 'm auditState_scheme \<Rightarrow> auditEvent" where
  "chainedEvent L e b =
     (let e1 = normalizeAuditEvent L e; s = scanChain L (readAuditEvents L (bAuditLog b)) in
      if bAuditHashChain b \<or> scVerified s > 0
      then prepareChainedAuditEvent L e1 (if scVerified s > 0 then aeEventHash (last (scEvents s)) else [])
      else e1)"

lemma write_success:
  assumes "trimSpace (bAuditPath b) \<noteq> []" "fst (writeAuditEvent L e b) = None"
  shows "bAuditLog (snd (writeAuditEvent L e b)) = bAuditLog b @ [auditReload (chainedEvent L e b)]"
    and "scFailed (scanChain L (readAuditEvents L (bAuditLog b))) = 0"
proof -
  obtain chain verified where v: "verifyAuditChain L (readAuditEvents L (bAuditLog b)) = (chain, verified)" by fastforce
  note sel = verifyAuditChain_sel [of L "readAuditEvents L (bAuditLog b)", unfolded v fst_conv snd_conv]
  show "bAuditLog (snd (writeAuditEvent L e b)) = bAuditLog b @ [auditReload (chainedEvent L e b)]"
    using assms sel v by (auto simp: writeAuditEvent_def Let_def chainedEvent_def split: if_splits)
  show "scFailed (scanChain L (readAuditEvents L (bAuditLog b))) = 0"
    using assms sel v by (auto simp: writeAuditEvent_def Let_def split: if_splits)
qed

lemma unchained_step:
  assumes "scanInv L s" "scVerified s = 0" "aeEventHash (normalizeAuditEvent L x) = []" "aePreviousHash (normalizeAuditEvent L x) = []"
  shows "scUnchecked (verifyStep L s x) = scUnchecked s + 1" "scFailed (verifyStep L s x) = scFailed s"
    "scVerified (verifyStep L s x) = 0"
  using assms by (simp_all add: verifyStep_def Let_def scanInv_def)

lemma scrub_Nil [simp]: "scrubAuditField [] = []"
  using canonical_Nil by (simp add: canonical_def)

lemma append_scan:
  assumes "lib_ok L" "asciiEvent e" "aeEventHash e = []" "aePreviousHash e = []"
    and "scFailed (scanChain L (readAuditEvents L log)) = 0" "bAuditLog b = log"
  defines "s \<equiv> scanChain L (readAuditEvents L log)"
    and "s' \<equiv> scanChain L (readAuditEvents L (log @ [auditReload (chainedEvent L e b)]))"
  shows "scFailed s' = 0"
    and "scVerified s' = scVerified s + (if bAuditHashChain b \<or> scVerified s > 0 then 1 else 0)"
    and "scUnchecked s' = scUnchecked s + (if bAuditHashChain b \<or> scVerified s > 0 then 0 else 1)"
proof -
  let ?N = "normalizeAuditEvent L"
  let ?x = "?N (auditReload (chainedEvent L e b))"
  have s': "s' = verifyStep L s ?x" by (simp add: s'_def s_def readAuditEvents_def scanChain_snoc)
  have inv: "scanInv L s" "scFailed s = 0" unfolding s_def using assms(5) scanChain_inv by blast+
  have "scFailed s' = 0 \<and> scVerified s' = scVerified s + (if bAuditHashChain b \<or> scVerified s > 0 then 1 else 0)
    \<and> scUnchecked s' = scUnchecked s + (if bAuditHashChain b \<or> scVerified s > 0 then 0 else 1)"
  proof (cases "bAuditHashChain b \<or> scVerified s > 0")
    case True
    define prev where "prev = (if 0 < scVerified s then scLastHash s else [])"
    have c: "canonical prev"
      using inv(1) canonical_hash [OF assms(1)] by (auto simp: prev_def scanInv_def auditEventHash_def)
    have "chainedEvent L e b = prepareChainedAuditEvent L (?N e) prev"
      using True inv(1) assms(6) by (auto simp: chainedEvent_def Let_def prev_def s_def scanInv_def)
    note f = chained_event_facts [OF assms(1,2) c, folded this]
    have "?N ?x = ?N (prepareChainedAuditEvent L (?N e) prev)"
      using f(1,2) \<open>chainedEvent L e b = prepareChainedAuditEvent L (?N e) prev\<close> by simp
    from chained_step [OF assms(1,2) inv(1) prev_def this] show ?thesis using True inv s' by simp
  next
    case False
    then have ce: "chainedEvent L e b = ?N e" using assms(6) by (simp add: chainedEvent_def Let_def s_def)
    have "auditReload (?N e) = ?N e" using reload_ascii [OF normalize_ascii [OF assms(2)]] .
    then have "aeEventHash (?N ?x) = []" "aePreviousHash (?N ?x) = []"
      using assms(3,4) by (simp_all add: ce normalizeAuditEvent_def)
    from unchained_step [OF inv(1) _ this] show ?thesis using False inv s' by simp
  qed
  then show "scFailed s' = 0"
    "scVerified s' = scVerified s + (if bAuditHashChain b \<or> scVerified s > 0 then 1 else 0)"
    "scUnchecked s' = scUnchecked s + (if bAuditHashChain b \<or> scVerified s > 0 then 0 else 1)" by simp_all
qed


definition demoAudit :: auditState where
  "demoAudit = \<lparr>bAuditPath = ''audit.jsonl'', bEventPath = [], bAuditHashChain = True, bNow = 3, bAuditLog = [],
     bAuditTorn = False, bEventLog = [], bAuditFaults = []\<rparr>"

lemma demo_write:
  "writeAuditEvent toy_lib demoEvent demoAudit = (None, demoAudit\<lparr>bAuditLog := [auditReload (chainedEvent toy_lib demoEvent demoAudit)]\<rparr>)"
proof -
  have "trimSpace ''audit.jsonl'' = ''audit.jsonl''" by code_simp
  then show ?thesis
    by (simp add: writeAuditEvent_def demoAudit_def nextFault_def takeFault_def Let_def writeOperationalEvent_def
        verifyAuditChain_def readAuditEvents_def scanChain_def chainScan0_def chainedEvent_def)
qed


end
