(* ===== verification/Audit_Poison.thy ===== *)
theory Audit_Poison
  imports Audit_Log
begin

text \<open>
  A field that the chain cannot hold. \<open>scrubAuditField\<close> cuts a long field at byte 256 before it
  collapses white space, and the cut can fall inside a rune. The pieces of the rune become U+FFFD
  on the next pass, so the field changes again, and keeps changing after the hash was taken.
\<close>

text \<open>A 253-byte text with two spaces in a row, then a rune of four bytes.\<close>

definition poisonField :: string where
  "poisonField = ''a  '' @ replicate 250 (CHR ''b'') @ [CHR 0xF0, CHR 0x9F, CHR 0x98, CHR 0x80]"

text \<open>A digest that tells texts with two spaces in a row from texts without, as SHA-256 does.\<close>

definition spaceDigest :: "string \<Rightarrow> string" where
  "spaceDigest s = replicate 31 (CHR ''.'') @ [if containsStr s ''  '' then CHR ''2'' else CHR ''1'']"

definition spaceLib :: golib where
  "spaceLib = toy_lib\<lparr>sha256 := spaceDigest\<rparr>"


end
