(* ===== verification/Lockout.thy ===== *)
theory Lockout
  imports Broker_Text
begin

text \<open>
  \<open>lockout.go\<close>: the store that counts failures per scope and locks a scope for a while. Every method
  takes the instant its clock returns and gives back the changed store; a nil receiver is
  \<^const>\<open>None\<close>. The mutex makes each method one step, so a run of the store is a sequence of method
  calls: \<open>lock_step\<close>. The retry time is computed by the code through a float; the model divides
  nanoseconds exactly, which is the same for every duration below \<open>2 ^ 22\<close> seconds, the cooldown
  being five minutes.
\<close>

record lockoutEntry =
  Failures :: int
  ActiveUntil :: time
  LastFailure :: time

record lockoutStore =
  entries :: "lockoutEntry gomap"
  threshold :: int
  cooldown :: time

record lockoutDecision =
  ldActive :: bool
  ldScope :: string
  ldRetryAfterSeconds :: int

definition localAPILockoutThreshold :: int where
  "localAPILockoutThreshold = 3"

definition localAPILockoutCooldown :: time where
  "localAPILockoutCooldown = 5 * minute"

definition newLockoutStore :: lockoutStore where
  "newLockoutStore = \<lparr>entries = [], threshold = localAPILockoutThreshold, cooldown = localAPILockoutCooldown\<rparr>"

definition zeroEntry :: lockoutEntry where
  "zeroEntry = \<lparr>Failures = 0, ActiveUntil = 0, LastFailure = 0\<rparr>"

definition noDecision :: "string \<Rightarrow> lockoutDecision" where
  "noDecision scope = \<lparr>ldActive = False, ldScope = scope, ldRetryAfterSeconds = 0\<rparr>"

definition lockoutDecisionFor :: "string \<Rightarrow> lockoutEntry \<Rightarrow> time \<Rightarrow> lockoutDecision" where
  "lockoutDecisionFor scope e now =
     (if ActiveUntil e > now then
        (let secs = (ActiveUntil e - now) div second in
         \<lparr>ldActive = True, ldScope = scope, ldRetryAfterSeconds = (if secs < 1 then 1 else secs)\<rparr>)
      else noDecision scope)"

definition activeLocked :: "string \<Rightarrow> time \<Rightarrow> lockoutStore \<Rightarrow> lockoutDecision \<times> lockoutStore" where
  "activeLocked scope now s =
     (case map_of (entries s) scope of
        None \<Rightarrow> (noDecision scope, s)
      | Some e \<Rightarrow>
          if ActiveUntil e > now then (lockoutDecisionFor scope e now, s)
          else (noDecision scope,
                if ActiveUntil e \<noteq> 0 then s\<lparr>entries := AList.delete scope (entries s)\<rparr> else s))"

definition active :: "string \<Rightarrow> time \<Rightarrow> lockoutStore option \<Rightarrow> lockoutDecision \<times> lockoutStore option" where
  "active scope now st =
     (case st of None \<Rightarrow> (noDecision scope, None)
      | Some s \<Rightarrow> (let (d, s') = activeLocked scope now s in (d, Some s')))"

definition recordFailureIn :: "string \<Rightarrow> time \<Rightarrow> lockoutStore \<Rightarrow> (lockoutDecision \<times> bool) \<times> lockoutStore" where
  "recordFailureIn scope now s0 =
     (let (d, s) = activeLocked scope now s0 in
      if ldActive d then ((d, False), s)
      else
        let e0 = (case map_of (entries s) scope of None \<Rightarrow> zeroEntry | Some e \<Rightarrow> e);
            e1 = (if ActiveUntil e0 \<noteq> 0 \<and> \<not> ActiveUntil e0 > now then zeroEntry else e0);
            e2 = e1\<lparr>Failures := Failures e1 + 1, LastFailure := now\<rparr>;
            started = (Failures e2 \<ge> threshold s);
            e3 = (if started then e2\<lparr>Failures := threshold s, ActiveUntil := now + cooldown s\<rparr> else e2);
            s' = s\<lparr>entries := AList.update scope e3 (entries s)\<rparr>
        in ((lockoutDecisionFor scope e3 now, started), s'))"

definition recordFailure ::
  "string \<Rightarrow> time \<Rightarrow> lockoutStore option \<Rightarrow> (lockoutDecision \<times> bool) \<times> lockoutStore option" where
  "recordFailure scope now st =
     (case st of None \<Rightarrow> ((noDecision scope, False), None)
      | Some s \<Rightarrow> (let (r, s') = recordFailureIn scope now s in (r, Some s')))"

definition recordSuccess :: "string \<Rightarrow> lockoutStore option \<Rightarrow> lockoutStore option" where
  "recordSuccess scope st =
     (case st of None \<Rightarrow> None | Some s \<Rightarrow> Some (s\<lparr>entries := AList.delete scope (entries s)\<rparr>))"

definition clear :: "string \<Rightarrow> lockoutStore option \<Rightarrow> bool \<times> lockoutStore option" where
  "clear scope st =
     (case st of None \<Rightarrow> (False, None)
      | Some s \<Rightarrow> (map_of (entries s) scope \<noteq> None, Some (s\<lparr>entries := AList.delete scope (entries s)\<rparr>)))"

text \<open>\<open>clearAfterAudit\<close> calls back into the audit log while it holds the store; the state of the
  callback is threaded through.\<close>

definition clearAfterAudit ::
  "string \<Rightarrow> (bool \<Rightarrow> 's \<Rightarrow> gerror option \<times> 's) option \<Rightarrow> lockoutStore option \<Rightarrow> 's
    \<Rightarrow> (gerror + bool) \<times> lockoutStore option \<times> 's" where
  "clearAfterAudit scope auditf st b =
     (case st of
        None \<Rightarrow> (case auditf of None \<Rightarrow> (Inr False, None, b)
                 | Some f \<Rightarrow> (case f False b of (Some err, b') \<Rightarrow> (Inl err, None, b') | (None, b') \<Rightarrow> (Inr False, None, b')))
      | Some s \<Rightarrow>
          let existed = (map_of (entries s) scope \<noteq> None);
              gone = Some (s\<lparr>entries := AList.delete scope (entries s)\<rparr>) in
          (case auditf of None \<Rightarrow> (Inr existed, gone, b)
           | Some f \<Rightarrow> (case f existed b of (Some err, b') \<Rightarrow> (Inl err, Some s, b') | (None, b') \<Rightarrow> (Inr existed, gone, b'))))"

definition activeCount :: "time \<Rightarrow> lockoutStore option \<Rightarrow> nat \<times> lockoutStore option" where
  "activeCount now st =
     (case st of None \<Rightarrow> (0, None)
      | Some s \<Rightarrow>
          (length (filter (\<lambda>(k, e). ActiveUntil e > now) (entries s)),
           Some (s\<lparr>entries := filter (\<lambda>(k, e). ActiveUntil e > now \<or> ActiveUntil e = 0) (entries s)\<rparr>)))"

subsection \<open>Runs of the store\<close>

inductive lock_step :: "lockoutStore \<Rightarrow> lockoutStore \<Rightarrow> bool" where
  step_active: "0 < now \<Longrightarrow> lock_step s (snd (activeLocked scope now s))"
| step_failure: "0 < now \<Longrightarrow> lock_step s (snd (recordFailureIn scope now s))"
| step_success: "lock_step s (the (recordSuccess scope (Some s)))"
| step_clear: "lock_step s (the (snd (clear scope (Some s))))"
| step_count: "0 < now \<Longrightarrow> lock_step s (the (snd (activeCount now (Some s))))"

inductive lock_reachable :: "lockoutStore \<Rightarrow> bool" where
  reach_new: "lock_reachable newLockoutStore"
| reach_step: "lock_reachable s \<Longrightarrow> lock_step s s' \<Longrightarrow> lock_reachable s'"

text \<open>A scope is either still counting or locked for one cooldown after its last failure.\<close>

definition entryInv :: "lockoutStore \<Rightarrow> lockoutEntry \<Rightarrow> bool" where
  "entryInv s e \<longleftrightarrow> 1 \<le> Failures e \<and> Failures e \<le> threshold s \<and> 0 < LastFailure e
     \<and> ActiveUntil e = (if Failures e < threshold s then 0 else LastFailure e + cooldown s)"

definition lockInv :: "lockoutStore \<Rightarrow> bool" where
  "lockInv s \<longleftrightarrow> 1 \<le> threshold s \<and> 0 < cooldown s \<and> distinct (map fst (entries s))
     \<and> (\<forall>k e. map_of (entries s) k = Some e \<longrightarrow> entryInv s e)"

inductive_cases lock_stepE: "lock_step s s'"

lemma entryInv_entries [simp]: "entryInv (s\<lparr>entries := m\<rparr>) = entryInv s"
  by (simp add: entryInv_def fun_eq_iff)

lemma activeLocked_config [simp]:
  "threshold (snd (activeLocked scope now s)) = threshold s" "cooldown (snd (activeLocked scope now s)) = cooldown s"
  by (simp_all add: activeLocked_def split: option.split)

lemma lookup_active:
  "map_of (entries (snd (activeLocked scope now s))) k =
     (if k = scope \<and> (\<exists>e. map_of (entries s) scope = Some e \<and> \<not> ActiveUntil e > now \<and> ActiveUntil e \<noteq> 0)
      then None else map_of (entries s) k)"
  by (auto simp: activeLocked_def split: option.split)

lemma distinct_active: "distinct (map fst (entries s)) \<Longrightarrow> distinct (map fst (entries (snd (activeLocked scope now s))))"
  by (auto simp: activeLocked_def intro: gomap_distinct_delete split: option.split)

lemma inv_active: "lockInv s \<Longrightarrow> lockInv (snd (activeLocked scope now s))"
  unfolding lockInv_def using distinct_active by (auto simp: lookup_active entryInv_def split: if_splits)

lemma inv_delete: "lockInv s \<Longrightarrow> lockInv (s\<lparr>entries := AList.delete scope (entries s)\<rparr>)"
  unfolding lockInv_def by (auto simp: entryInv_def intro: gomap_distinct_delete split: if_splits)

lemma inv_filter: "lockInv s \<Longrightarrow> lockInv (s\<lparr>entries := filter P (entries s)\<rparr>)"
proof -
  assume i: "lockInv s"
  then have d: "distinct (map fst (entries s))" by (simp add: lockInv_def)
  have "map_of (entries s) k = Some e" if "map_of (filter P (entries s)) k = Some e" for k e
    using map_of_SomeD [OF that] map_of_is_SomeI [OF d, of k e] by simp
  moreover have "entryInv s e" if "map_of (entries s) k = Some e" for k e
    using i that by (simp add: lockInv_def)
  ultimately show ?thesis using i unfolding lockInv_def by (auto simp: distinct_map_filter simp del: map_of_eq_Some_iff)
qed

text \<open>The entry a failure writes, from the entry the scope had.\<close>

definition failedEntry :: "lockoutStore \<Rightarrow> time \<Rightarrow> lockoutEntry \<Rightarrow> lockoutEntry" where
  "failedEntry s now e =
     (if Failures e + 1 \<ge> threshold s
      then e\<lparr>LastFailure := now, Failures := threshold s, ActiveUntil := now + cooldown s\<rparr>
      else e\<lparr>Failures := Failures e + 1, LastFailure := now\<rparr>)"

definition counting :: "lockoutStore \<Rightarrow> string \<Rightarrow> time \<Rightarrow> lockoutEntry" where
  "counting s scope now =
     (case map_of (entries s) scope of None \<Rightarrow> zeroEntry
      | Some e \<Rightarrow> if ActiveUntil e \<noteq> 0 \<and> \<not> ActiveUntil e > now then zeroEntry else e)"

definition locked :: "lockoutStore \<Rightarrow> string \<Rightarrow> time \<Rightarrow> bool" where
  "locked s scope now \<longleftrightarrow> (\<exists>e. map_of (entries s) scope = Some e \<and> ActiveUntil e > now)"

lemma active_iff_locked: "ldActive (fst (activeLocked scope now s)) \<longleftrightarrow> locked s scope now"
  by (auto simp: activeLocked_def locked_def lockoutDecisionFor_def noDecision_def Let_def split: option.split)

lemma locked_active: "locked (snd (activeLocked scope now s)) k t \<longleftrightarrow>
    locked s k t \<and> \<not> (k = scope \<and> (\<exists>e. map_of (entries s) scope = Some e \<and> \<not> ActiveUntil e > now \<and> ActiveUntil e \<noteq> 0))"
  by (auto simp: locked_def lookup_active)

lemma failure_locked:
  "locked s scope now \<Longrightarrow> recordFailureIn scope now s = ((fst (activeLocked scope now s), False), s)"
  using active_iff_locked [of scope now s]
  by (auto simp: recordFailureIn_def locked_def activeLocked_def Let_def)

lemma failure_counts:
  assumes "\<not> locked s scope now"
  defines "e \<equiv> failedEntry s now (counting s scope now)"
  shows "map_of (entries (snd (recordFailureIn scope now s))) k = (if k = scope then Some e else map_of (entries s) k)"
    and "threshold (snd (recordFailureIn scope now s)) = threshold s"
    and "cooldown (snd (recordFailureIn scope now s)) = cooldown s"
    and "fst (recordFailureIn scope now s) = (lockoutDecisionFor scope e now, Failures (counting s scope now) + 1 \<ge> threshold s)"
  using assms(1) unfolding e_def
  by (auto simp: recordFailureIn_def locked_def activeLocked_def Let_def counting_def failedEntry_def zeroEntry_def
           noDecision_def split: option.splits)

lemma distinct_failure:
  "distinct (map fst (entries s)) \<Longrightarrow> distinct (map fst (entries (snd (recordFailureIn scope now s))))"
  using distinct_active [of s scope now]
  by (auto simp: recordFailureIn_def Let_def gomap_distinct_update split: prod.split)

lemma inv_failure:
  assumes "lockInv s" "0 < now" shows "lockInv (snd (recordFailureIn scope now s))"
proof (cases "locked s scope now")
  case True
  then show ?thesis using assms(1) by (simp add: failure_locked)
next
  case False
  note f = failure_counts [OF False]
  have c: "counting s scope now = zeroEntry \<or> (entryInv s (counting s scope now) \<and> ActiveUntil (counting s scope now) = 0)"
    using assms(1) False by (auto simp: counting_def lockInv_def locked_def split: option.split)
  then have "entryInv s (failedEntry s now (counting s scope now))"
    using assms by (auto simp: entryInv_def failedEntry_def zeroEntry_def lockInv_def split: if_splits)
  moreover have "entryInv (snd (recordFailureIn scope now s)) = entryInv s"
    by (simp add: fun_eq_iff entryInv_def f(2,3))
  ultimately show ?thesis
    using assms(1) distinct_failure [of s scope now] by (auto simp: lockInv_def f split: if_splits)
qed

lemma inv_step: "lock_step s s' \<Longrightarrow> lockInv s \<Longrightarrow> lockInv s'"
  by (erule lock_stepE)
     (auto simp: inv_active inv_failure recordSuccess_def clear_def activeCount_def inv_delete inv_filter)

lemma inv_new: "lockInv newLockoutStore"
  by (simp add: lockInv_def newLockoutStore_def localAPILockoutThreshold_def localAPILockoutCooldown_def)

lemma inv_reachable: "lock_reachable s \<Longrightarrow> lockInv s"
  by (induction rule: lock_reachable.induct) (auto simp: inv_new inv_step)

subsection \<open>Scopes do not interfere\<close>

locale keyed_calls =
  fixes view :: "'s \<Rightarrow> 'k \<Rightarrow> 'v" and run :: "'a \<Rightarrow> 's \<Rightarrow> 's" and key :: "'a \<Rightarrow> 'k"
  assumes other_key: "k \<noteq> key a \<Longrightarrow> view (run a s) k = view s k"
begin

lemma other_keys: "(\<And>a. a \<in> set as \<Longrightarrow> key a \<noteq> k) \<Longrightarrow> view (fold run as s) k = view s k"
proof (induction as arbitrary: s)
  case (Cons a as)
  then have "view (fold run as (run a s)) k = view (run a s) k" by simp
  moreover have "view (run a s) k = view s k" using Cons.prems [of a] by (intro other_key) auto
  ultimately show ?case by simp
qed simp

end

datatype lockCall = CallActive string time | CallFailure string time | CallSuccess string | CallClear string

fun callScope :: "lockCall \<Rightarrow> string" where
  "callScope (CallActive k t) = k" | "callScope (CallFailure k t) = k"
| "callScope (CallSuccess k) = k" | "callScope (CallClear k) = k"

fun runCall :: "lockCall \<Rightarrow> lockoutStore \<Rightarrow> lockoutStore" where
  "runCall (CallActive k t) s = the (snd (active k t (Some s)))"
| "runCall (CallFailure k t) s = the (snd (recordFailure k t (Some s)))"
| "runCall (CallSuccess k) s = the (recordSuccess k (Some s))"
| "runCall (CallClear k) s = the (snd (clear k (Some s)))"

lemma lookup_failure_other: "k \<noteq> scope \<Longrightarrow> map_of (entries (snd (recordFailureIn scope now s))) k = map_of (entries s) k"
  by (cases "locked s scope now") (simp_all add: failure_locked failure_counts)

lemma runCall_other: "k \<noteq> callScope c \<Longrightarrow> map_of (entries (runCall c s)) k = map_of (entries s) k"
  by (cases c) (auto simp: active_def recordFailure_def recordSuccess_def clear_def lookup_active lookup_failure_other
      split: prod.split, (metis lookup_active lookup_failure_other snd_conv)+)

interpretation lock_calls: keyed_calls "\<lambda>s. map_of (entries s)" runCall callScope
  by unfold_locales (rule runCall_other)

subsection \<open>The timeline of one scope\<close>

definition failAll :: "string \<Rightarrow> time list \<Rightarrow> lockoutStore \<Rightarrow> lockoutStore" where
  "failAll scope ts s = fold (\<lambda>t s. snd (recordFailureIn scope t s)) ts s"

lemma failAll_config [simp]:
  "threshold (failAll scope ts s) = threshold s" "cooldown (failAll scope ts s) = cooldown s"
proof -
  have "threshold (snd (recordFailureIn scope t s)) = threshold s \<and> cooldown (snd (recordFailureIn scope t s)) = cooldown s" for t s
    by (cases "locked s scope t") (simp_all add: failure_locked failure_counts)
  then show "threshold (failAll scope ts s) = threshold s" "cooldown (failAll scope ts s) = cooldown s"
    unfolding failAll_def by (induction ts arbitrary: s) simp_all
qed

lemma failAll_counting:
  assumes "map_of (entries s) scope = None" "1 \<le> threshold s" "0 < cooldown s"
  shows "\<lbrakk>int (length ts) < threshold s; \<forall>t \<in> set ts. 0 < t\<rbrakk> \<Longrightarrow>
    map_of (entries (failAll scope ts s)) scope =
      (if ts = [] then None else Some \<lparr>Failures = int (length ts), ActiveUntil = 0, LastFailure = last ts\<rparr>)"
proof (induction ts rule: rev_induct)
  case Nil
  then show ?case using assms(1) by (simp add: failAll_def)
next
  case (snoc t ts)
  let ?s = "failAll scope ts s"
  have IH: "map_of (entries ?s) scope =
      (if ts = [] then None else Some \<lparr>Failures = int (length ts), ActiveUntil = 0, LastFailure = last ts\<rparr>)"
    using snoc by simp
  have "\<not> locked ?s scope t" using IH snoc.prems by (auto simp: locked_def split: if_splits)
  moreover have "counting ?s scope t = \<lparr>Failures = int (length ts), ActiveUntil = 0, LastFailure = (if ts = [] then 0 else last ts)\<rparr>"
    using IH by (auto simp: counting_def zeroEntry_def)
  moreover have "failAll scope (ts @ [t]) s = snd (recordFailureIn scope t ?s)" by (simp add: failAll_def)
  ultimately show ?case using snoc.prems by (simp add: failure_counts failedEntry_def)
qed

lemma failAll_locks:
  assumes "map_of (entries s) scope = None" "1 \<le> threshold s" "0 < cooldown s"
    and "int (length ts) = threshold s" "\<forall>t \<in> set ts. 0 < t"
  shows "map_of (entries (failAll scope ts s)) scope =
      Some \<lparr>Failures = threshold s, ActiveUntil = last ts + cooldown s, LastFailure = last ts\<rparr>"
proof -
  obtain us t where ts: "ts = us @ [t]" using assms(2,4) by (cases ts rule: rev_cases) auto
  let ?s = "failAll scope us s"
  have e: "map_of (entries ?s) scope =
      (if us = [] then None else Some \<lparr>Failures = int (length us), ActiveUntil = 0, LastFailure = last us\<rparr>)"
    using failAll_counting [OF assms(1-3), of us] assms(4,5) ts by simp
  have "\<not> locked ?s scope t" using e assms(5) ts by (auto simp: locked_def split: if_splits)
  moreover have "counting ?s scope t = \<lparr>Failures = int (length us), ActiveUntil = 0, LastFailure = (if us = [] then 0 else last us)\<rparr>"
    using e by (auto simp: counting_def zeroEntry_def)
  moreover have "failAll scope ts s = snd (recordFailureIn scope t ?s)" by (simp add: failAll_def ts)
  moreover have "int (length us) + 1 \<ge> threshold s" using assms(4) ts by simp
  ultimately show ?thesis by (simp add: failure_counts failedEntry_def ts)
qed

subsection \<open>Properties\<close>


definition demoLocks :: lockoutStore where
  "demoLocks = failAll ''local_api:h'' [10, 11, 12] newLockoutStore"

lemma demo_locks_reachable: "lock_reachable demoLocks"
proof -
  have "lock_reachable (failAll scope ts s)" if "\<forall>t \<in> set ts. 0 < t" "lock_reachable s" for scope ts s
    using that unfolding failAll_def
    by (induction ts arbitrary: s) (auto intro: reach_step step_failure)
  then show ?thesis unfolding demoLocks_def by (simp add: reach_new)
qed

lemma demo_lock_entry:
  "map_of (entries demoLocks) ''local_api:h'' = Some \<lparr>Failures = 3, ActiveUntil = 12 + 300000000000, LastFailure = 12\<rparr>"
  unfolding demoLocks_def
  by (subst failAll_locks) (simp_all add: newLockoutStore_def localAPILockoutThreshold_def localAPILockoutCooldown_def)


text \<open>
  Property C10. A scope without an entry locks with its n-th failure, where n is the threshold: with
  fewer failures it is never active, and after n failures it is active exactly until one cooldown
  after the last of them. Failing again while locked is refused without moving the end of the
  lockout, and is not reported as a new lockout.
\<close>

theorem lockout_after_threshold_failures:
  assumes "lockInv s" "map_of (entries s) scope = None" "\<forall>t \<in> set ts. 0 < t"
    and "int (length ts) \<le> threshold s" "0 < now"
  defines "s' \<equiv> failAll scope ts s"
  shows "(ldActive (fst (active scope now (Some s'))) \<longleftrightarrow>
      int (length ts) = threshold s \<and> now < last ts + cooldown s)
    \<and> (ldActive (fst (active scope now (Some s'))) \<longrightarrow>
      recordFailure scope now (Some s') = ((fst (active scope now (Some s')), False), Some s'))"
proof -
  have c: "1 \<le> threshold s" "0 < cooldown s" using assms(1) by (auto simp: lockInv_def)
  have a: "fst (active scope now (Some s')) = fst (activeLocked scope now s')"
    by (simp add: active_def split: prod.split)
  have "locked s' scope now \<longleftrightarrow> int (length ts) = threshold s \<and> now < last ts + cooldown s"
  proof (cases "int (length ts) = threshold s")
    case True
    then show ?thesis using failAll_locks [OF assms(2) c True assms(3)] by (simp add: s'_def locked_def)
  next
    case False
    then show ?thesis using failAll_counting [OF assms(2) c _ assms(3)] assms(4,5)
      by (simp add: s'_def locked_def split: if_splits)
  qed
  then show ?thesis using failure_locked [of s' scope now]
    by (simp add: a active_iff_locked recordFailure_def)
qed

theorem lockout_after_threshold_failures_witness:
  "ldActive (fst (active ''local_api:h'' 100 (Some (failAll ''local_api:h'' [10, 11, 12] newLockoutStore))))"
  using lockout_after_threshold_failures [OF inv_new, of "''local_api:h''" "[10, 11, 12]" 100]
  by (simp add: newLockoutStore_def localAPILockoutThreshold_def localAPILockoutCooldown_def)

text \<open>
  Scopes are independent: no sequence of checks, failures, successes and clears of
  other scopes changes what the store holds for a scope.
\<close>

theorem lockout_scopes_independent:
  assumes "\<forall>c \<in> set calls. callScope c \<noteq> scope"
  shows "map_of (entries (fold runCall calls s)) scope = map_of (entries s) scope"
  using assms by (intro lock_calls.other_keys) auto

text \<open>
  The retry time of an active lockout is at least one second and never more than the
  cooldown rounded down to seconds (or one), and one second after the retry time has passed the
  scope is free and its entry is gone.
\<close>

theorem lockout_retry_time:
  assumes "lockInv s" "active scope now (Some s) = (d, s1)" "ldActive d"
    and "\<forall>e. map_of (entries s) scope = Some e \<longrightarrow> LastFailure e \<le> now"
  shows "1 \<le> ldRetryAfterSeconds d \<and> ldRetryAfterSeconds d \<le> max 1 (cooldown s div second)
    \<and> (let r = active scope (now + (ldRetryAfterSeconds d + 1) * second) (Some s) in
       \<not> ldActive (fst r) \<and> map_of (entries (the (snd r))) scope = None)"
proof -
  have d: "d = fst (activeLocked scope now s)" using assms(2) by (auto simp: active_def split: prod.splits)
  have "locked s scope now" using assms(3) d active_iff_locked by simp
  then obtain e where e: "map_of (entries s) scope = Some e" "ActiveUntil e > now" by (auto simp: locked_def)
  have i: "entryInv s e" using assms(1) e(1) by (simp add: lockInv_def)
  have last: "0 < LastFailure e" "LastFailure e \<le> now" "0 < cooldown s"
    using i assms(1,4) e(1) by (simp_all add: entryInv_def lockInv_def)
  then have "ActiveUntil e = LastFailure e + cooldown s"
    using i e(2) by (simp add: entryInv_def split: if_splits)
  then have le: "ActiveUntil e - now \<le> cooldown s" and nz: "0 < ActiveUntil e" using last by simp_all
  let ?r = "ldRetryAfterSeconds d"
  have r: "?r = (if (ActiveUntil e - now) div second < 1 then 1 else (ActiveUntil e - now) div second)"
    using d e by (simp add: activeLocked_def lockoutDecisionFor_def Let_def)
  have "(ActiveUntil e - now) div second \<le> cooldown s div second" using le by (intro zdiv_mono1) simp_all
  then have b: "1 \<le> ?r" "?r \<le> max 1 (cooldown s div second)" unfolding r by (simp_all split: if_splits)
  have "ActiveUntil e - now < ((ActiveUntil e - now) div second + 1) * second"
    using pos_mod_bound [of second "ActiveUntil e - now"] div_mult_mod_eq [of "ActiveUntil e - now" second]
    unfolding distrib_right by linarith
  moreover have "(ActiveUntil e - now) div second + 1 \<le> ?r + 1" unfolding r by simp
  then have "((ActiveUntil e - now) div second + 1) * second \<le> (?r + 1) * second" by (rule mult_right_mono) simp
  ultimately have "ActiveUntil e \<le> now + (?r + 1) * second" by linarith
  then show ?thesis using b e nz
    by (simp add: active_def activeLocked_def noDecision_def Let_def)
qed

end
