(* ===== verification/Session.thy ===== *)
theory Session
  imports Lockout Audit_Log
begin

text \<open>
  The token check in front of the local API (\<open>session.go\<close>) and the operator's lockout reset
  (\<open>lockout_management.go\<close>). \<open>lockState\<close> adds the two lockout stores to the audit state: the one of
  the API handlers (\<open>security.lockouts\<close>, which \<open>newHandler\<close> also stores as \<open>localAPILockouts\<close>) and the
  one of the backend. Handlers are registered only for a backend, so the receiver is never nil,
  and \<open>security.audit\<close> is the backend's \<open>audit\<close>. A handler is a function from the request and the
  state to the reply it writes and the new state; the decoded body is an argument, since JSON
  decoding of requests is library code.
\<close>

record lockState = auditState +
  bLockouts :: "lockoutStore option"
  bLocalAPILockouts :: "lockoutStore option"

record apiError =
  apiCode :: string
  apiMessage :: string
  apiOutcome :: string
  apiRequestID :: string
  apiNextAction :: string
  apiAffectedRefs :: "string list"
  apiAffectedServices :: "string list"
  apiLockoutActive :: bool
  apiLockoutScope :: string
  apiRetryAfterSeconds :: int

datatype 'r reply = ApiError int apiError | Json int 'r

record httpRequest =
  hMethod :: string
  hRemoteAddr :: string
  hAuthorization :: string
  hToken :: string

datatype 'q decoded = Decoded 'q | BodyTooLarge | BodyMalformed

definition writeAPIError :: "int \<Rightarrow> string \<Rightarrow> string \<Rightarrow> string \<Rightarrow> string \<Rightarrow> 'r reply" where
  "writeAPIError status code message outcome nextAction =
     ApiError status \<lparr>apiCode = code, apiMessage = message, apiOutcome = outcome, apiRequestID = [],
       apiNextAction = nextAction, apiAffectedRefs = [], apiAffectedServices = [], apiLockoutActive = False,
       apiLockoutScope = [], apiRetryAfterSeconds = 0\<rparr>"

definition writeScopedLockoutAPIError :: "string \<Rightarrow> int \<Rightarrow> string \<Rightarrow> 'r reply" where
  "writeScopedLockoutAPIError scope retry message =
     ApiError 423 \<lparr>apiCode = ''lockout_active'',
       apiMessage = (if trimSpace message = [] then ''Operation is temporarily locked for this scope.'' else message),
       apiOutcome = ''policy_denied'', apiRequestID = [], apiNextAction = ''wait_or_clear_lockout'',
       apiAffectedRefs = [], apiAffectedServices = [], apiLockoutActive = True, apiLockoutScope = scope,
       apiRetryAfterSeconds = retry\<rparr>"

definition writeLockoutAPIError :: "lockoutDecision \<Rightarrow> 'r reply" where
  "writeLockoutAPIError d =
     writeScopedLockoutAPIError (ldScope d) (ldRetryAfterSeconds d)
       ''Local API authentication is temporarily locked for this scope.''"

definition writeDecodeError :: "bool \<Rightarrow> 'r reply" where
  "writeDecodeError tooLarge =
     (if tooLarge then writeAPIError 413 ''request_too_large'' ''Request body exceeds the local API size limit.'' ''policy_denied'' ''reduce_request_size''
      else writeAPIError 400 ''invalid_request'' ''Request body is not valid JSON.'' ''invalid_ref'' [])"

subsection \<open>The scope of a request\<close>

fun indexByte :: "char \<Rightarrow> string \<Rightarrow> nat option" where
  "indexByte c [] = None"
| "indexByte c (d # s) = (if d = c then Some 0 else map_option Suc (indexByte c s))"

definition lastIndexByte :: "char \<Rightarrow> string \<Rightarrow> nat option" where
  "lastIndexByte c s = map_option (\<lambda>i. length s - 1 - i) (indexByte c (rev s))"

text \<open>\<open>net.SplitHostPort\<close>; the port is not used.\<close>

definition splitHostPort :: "string \<Rightarrow> string option" where
  "splitHostPort hp =
     (case lastIndexByte (CHR '':'') hp of None \<Rightarrow> None
      | Some i \<Rightarrow>
          if hasPrefix hp ''['' then
            (case indexByte (CHR '']'') hp of None \<Rightarrow> None
             | Some e \<Rightarrow>
                 if e + 1 \<noteq> i then None
                 else if CHR ''['' \<in> set (drop 1 hp) \<or> CHR '']'' \<in> set (drop (e + 1) hp) then None
                 else Some (take (e - 1) (drop 1 hp)))
          else let host = take i hp in
            if CHR '':'' \<in> set host then None
            else if CHR ''['' \<in> set hp \<or> CHR '']'' \<in> set hp then None
            else Some host)"

definition localAPILockoutScope :: "httpRequest \<Rightarrow> string" where
  "localAPILockoutScope r =
     (let host0 = trimSpace (hRemoteAddr r);
          host1 = (case splitHostPort host0 of Some h \<Rightarrow> h | None \<Rightarrow> host0)
      in ''local_api:'' @ (if host1 = [] then ''local'' else host1))"

subsection \<open>Tokens\<close>

definition constantTimeTokenEqual :: "'z golib_scheme \<Rightarrow> string \<Rightarrow> string \<Rightarrow> bool" where
  "constantTimeTokenEqual L got expected =
     (let g = trimSpace got; e = trimSpace expected in
      if g = [] \<or> e = [] then False else sha256 L g = sha256 L e)"

text \<open>\<open>strings.EqualFold\<close> against a word without \<open>k\<close> and \<open>s\<close>, the letters that other runes fold to.\<close>

definition equalFoldAscii :: "string \<Rightarrow> string \<Rightarrow> bool" where
  "equalFoldAscii s t \<longleftrightarrow> map lowerAscii s = map lowerAscii t"

definition bearerToken :: "string \<Rightarrow> string" where
  "bearerToken header =
     (let h = trimSpace header in
      case indexByte (CHR '' '') h of None \<Rightarrow> []
      | Some i \<Rightarrow> if \<not> equalFoldAscii (take i h) ''Bearer'' then [] else trimSpace (drop (i + 1) h))"

definition presentedToken :: "httpRequest \<Rightarrow> string" where
  "presentedToken r = (let got = bearerToken (hAuthorization r) in if got = [] then trimSpace (hToken r) else got)"

record sessionStatusResponse =
  ssServiceID :: string
  ssAPIVersion :: string
  ssConfigured :: bool
  ssSource :: string
  ssState :: string

definition serviceID :: string where "serviceID = ''@secretsbroker''"
definition apiVersion :: string where "apiVersion = ''secretsbroker.local/v1''"

definition sessionStatus :: "string \<Rightarrow> sessionStatusResponse" where
  "sessionStatus token =
     (let configured = (trimSpace token \<noteq> []) in
      \<lparr>ssServiceID = serviceID, ssAPIVersion = apiVersion, ssConfigured = configured,
       ssSource = (if configured then ''flag/env'' else ''none''), ssState = (if configured then ''ready'' else ''locked'')\<rparr>)"

definition auditOutcome ::
  "'z golib_scheme \<Rightarrow> string \<Rightarrow> string \<Rightarrow> 'm auditState_scheme \<Rightarrow> 'm auditState_scheme" where
  "auditOutcome L operation outcome b = audit_ignored L operation [] outcome ''@operator'' [] b"

text \<open>The reply is \<open>None\<close> when the request may go on.\<close>

definition require ::
  "'z golib_scheme \<Rightarrow> string \<Rightarrow> httpRequest \<Rightarrow> 'm lockState_scheme \<Rightarrow> 'r reply option \<times> 'm lockState_scheme" where
  "require L token r b0 =
     (let expected = trimSpace token in
      if expected = [] then
        (Some (writeAPIError 503 ''security_not_configured''
           ''Secret-bearing endpoints require SECRETSBROKER_API_TOKEN or --api-token.'' ''policy_denied'' ''configure_api_token''), b0)
      else
        let scope = localAPILockoutScope r;
            (decision, st) = active scope (bNow b0) (bLocalAPILockouts b0);
            b = b0\<lparr>bLocalAPILockouts := st\<rparr> in
        if ldActive decision then
          (Some (writeLockoutAPIError decision), auditOutcome L ''local_api_lockout'' ''lockout_active'' b)
        else
          let got = presentedToken r in
          if got = [] \<or> \<not> constantTimeTokenEqual L got expected then
            let b1 = auditOutcome L ''local_api_auth'' ''unauthorized'' b;
                ((decision, started), st') = recordFailure scope (bNow b1) (bLocalAPILockouts b1);
                b2 = b1\<lparr>bLocalAPILockouts := st'\<rparr> in
            if started then
              (Some (writeLockoutAPIError decision), auditOutcome L ''local_api_lockout'' ''lockout_active'' b2)
            else
              (Some (writeAPIError 401 ''unauthorized'' ''A valid local API token is required.'' ''policy_denied'' ''authenticate_local_session''), b2)
          else (None, b\<lparr>bLocalAPILockouts := recordSuccess scope (bLocalAPILockouts b)\<rparr>))"

definition requireValidToken ::
  "'z golib_scheme \<Rightarrow> string \<Rightarrow> httpRequest \<Rightarrow> 'm lockState_scheme \<Rightarrow> 'r reply option \<times> 'm lockState_scheme" where
  "requireValidToken L token r b =
     (let expected = trimSpace token in
      if expected = [] then
        (Some (writeAPIError 503 ''security_not_configured''
           ''Secret-bearing endpoints require SECRETSBROKER_API_TOKEN or --api-token.'' ''policy_denied'' ''configure_api_token''), b)
      else
        let got = presentedToken r in
        if got = [] \<or> \<not> constantTimeTokenEqual L got expected then
          (Some (writeAPIError 401 ''unauthorized'' ''A valid local API token is required.'' ''policy_denied'' ''authenticate_local_session''),
           auditOutcome L ''local_api_auth'' ''unauthorized'' b)
        else (None, b))"

subsection \<open>Clearing a lockout\<close>

record lockoutClearRequest =
  lcRequestID :: string
  lcServiceID :: string
  lcScope :: string
  lcReason :: string

record lockoutClearResponse =
  lrServiceID :: string
  lrAPIVersion :: string
  lrRequestID :: string
  lrOperation :: string
  lrOutcome :: string
  lrCleared :: bool
  lrLockoutScope :: string
  lrAuditStatus :: string
  lrNextAction :: string

definition scrubLockoutScope :: "string \<Rightarrow> string" where
  "scrubLockoutScope s =
     (let scope = scrubAuditField s in
      if scope = [] \<or> containsAny scope [CHR '' '', CHR 0x0D, CHR 0x0A, CHR 0x09] then []
      else if list_ex (hasPrefix scope) [''local_api:'', ''management:'', ''writeback:''] then scope else [])"

definition clearTarget :: "string \<Rightarrow> 'm lockState_scheme \<Rightarrow> lockoutStore option" where
  "clearTarget scope b = (if hasPrefix scope ''local_api:'' then bLocalAPILockouts b else bLockouts b)"

definition setClearTarget :: "string \<Rightarrow> lockoutStore option \<Rightarrow> 'm lockState_scheme \<Rightarrow> 'm lockState_scheme" where
  "setClearTarget scope st b = (if hasPrefix scope ''local_api:'' then b\<lparr>bLocalAPILockouts := st\<rparr> else b\<lparr>bLockouts := st\<rparr>)"

definition clearLockout ::
  "'z golib_scheme \<Rightarrow> lockoutClearRequest \<Rightarrow> 'm lockState_scheme \<Rightarrow> (lockoutClearResponse \<times> gerror option) \<times> 'm lockState_scheme" where
  "clearLockout L req b =
     (let scope = scrubLockoutScope (lcScope req);
          reason = scrubAuditField (lcReason req);
          service = firstNonEmpty (lcServiceID req) ''@operator'';
          res = \<lparr>lrServiceID = serviceID, lrAPIVersion = apiVersion, lrRequestID = lcRequestID req,
            lrOperation = ''lockout_clear'', lrOutcome = ''pending'', lrCleared = False, lrLockoutScope = scope,
            lrAuditStatus = ''audit_pending'', lrNextAction = []\<rparr>;
          unavailable = res\<lparr>lrOutcome := ''audit_unavailable'', lrAuditStatus := ''audit_unavailable'',
            lrNextAction := ''restore_audit_and_retry''\<rparr>
      in
      if scope = [] \<or> trimSpace reason = [] then
        (case audit L ''lockout_clear'' scope ''policy_denied'' service (lcRequestID req) b of
           (Some err, b') \<Rightarrow> ((unavailable, Some err), b')
         | (None, b') \<Rightarrow> ((res\<lparr>lrOutcome := ''policy_denied'', lrNextAction := ''provide_scope_and_audit_reason'',
                              lrAuditStatus := ''audit_recorded''\<rparr>, Some errPolicyDenied), b'))
      else
        let auditResult = (\<lambda>cleared b. audit L ''lockout_clear'' scope (if cleared then ''cleared'' else ''not_found'')
                             service (lcRequestID req) b) in
        case clearAfterAudit scope (Some auditResult) (clearTarget scope b) b of
          (Inl err, _, b') \<Rightarrow> ((unavailable, Some err), b')
        | (Inr cleared, st, b') \<Rightarrow>
            ((res\<lparr>lrCleared := cleared, lrAuditStatus := ''audit_recorded'',
                  lrOutcome := (if cleared then ''cleared'' else ''not_found''),
                  lrNextAction := (if cleared then ''retry_operation'' else ''check_lockout_scope'')\<rparr>, None),
             setClearTarget scope st b'))"

definition lockoutClearHandler ::
  "'z golib_scheme \<Rightarrow> string \<Rightarrow> httpRequest \<Rightarrow> lockoutClearRequest decoded \<Rightarrow> 'm lockState_scheme
    \<Rightarrow> lockoutClearResponse reply \<times> 'm lockState_scheme" where
  "lockoutClearHandler L token r body b =
     (if hMethod r \<noteq> ''POST'' then
        (writeAPIError 405 ''method_not_allowed'' ''Use POST /v1/management/lockouts/clear.'' ''invalid_ref'' [], b)
      else case requireValidToken L token r b of
        (Some refusal, b1) \<Rightarrow> (refusal, b1)
      | (None, b1) \<Rightarrow>
          (case body of
             BodyTooLarge \<Rightarrow> (writeDecodeError True, b1)
           | BodyMalformed \<Rightarrow> (writeDecodeError False, b1)
           | Decoded req \<Rightarrow>
               (case clearLockout L req b1 of
                  ((res, Some err), b2) \<Rightarrow> (Json (if err = errPolicyDenied then 403 else 503) res, b2)
                | ((res, None), b2) \<Rightarrow> (Json 200 res, b2))))"

subsection \<open>Facts\<close>

lemma audit_keeps_locks [simp, store_frame]:
  fixes b :: "'m lockState_scheme"
  shows "bLockouts (snd (audit L op r oc svc rid b)) = bLockouts b"
    and "bLocalAPILockouts (snd (audit L op r oc svc rid b)) = bLocalAPILockouts b"
    and "lockState.more (snd (audit L op r oc svc rid b)) = lockState.more b"
  using audit_frame [of L op r oc svc rid b] by auto

lemma auditOutcome_keeps [simp, store_frame]:
  fixes b :: "'m lockState_scheme"
  shows "bLocalAPILockouts (auditOutcome L op oc b) = bLocalAPILockouts b" "bNow (auditOutcome L op oc b) = bNow b"
    "bLockouts (auditOutcome L op oc b) = bLockouts b"
  by (simp_all add: auditOutcome_def audit_ignored_def)

lemma activeLocked_idem: "activeLocked scope now (snd (activeLocked scope now s)) = activeLocked scope now s"
  by (auto simp: activeLocked_def split: option.split)

lemma recordFailure_active: "recordFailureIn scope now (snd (activeLocked scope now s)) = recordFailureIn scope now s"
  by (simp add: recordFailureIn_def activeLocked_idem)

definition tokenAccepted :: "'z golib_scheme \<Rightarrow> string \<Rightarrow> httpRequest \<Rightarrow> bool" where
  "tokenAccepted L token r \<longleftrightarrow> presentedToken r \<noteq> [] \<and> constantTimeTokenEqual L (presentedToken r) (trimSpace token)"

lemma active_Some: "active scope now (Some s) = (fst (activeLocked scope now s), Some (snd (activeLocked scope now s)))"
  by (simp add: active_def split: prod.split)

lemma require_locked:
  assumes "trimSpace token \<noteq> []" "bLocalAPILockouts b = Some s" "locked s (localAPILockoutScope r) (bNow b)"
  shows "fst (require L token r b) = Some (writeLockoutAPIError (fst (activeLocked (localAPILockoutScope r) (bNow b) s)))"
  using assms active_iff_locked [of "localAPILockoutScope r" "bNow b" s]
  by (simp add: require_def Let_def active_Some)

lemma require_wrong:
  assumes "trimSpace token \<noteq> []" "bLocalAPILockouts b = Some s" "\<not> locked s (localAPILockoutScope r) (bNow b)"
    and "\<not> tokenAccepted L token r"
  shows "bLocalAPILockouts (snd (require L token r b)) = Some (snd (recordFailureIn (localAPILockoutScope r) (bNow b) s))"
    and "fst (require L token r b) \<noteq> None" and "bNow (snd (require L token r b)) = bNow b"
  using assms active_iff_locked [of "localAPILockoutScope r" "bNow b" s]
  by (auto simp: require_def Let_def active_Some tokenAccepted_def recordFailure_def recordFailure_active split: prod.split)

lemma require_right:
  assumes "trimSpace token \<noteq> []" "bLocalAPILockouts b = Some s" "\<not> locked s (localAPILockoutScope r) (bNow b)"
    and "tokenAccepted L token r"
  shows "fst (require L token r b) = None"
  using assms active_iff_locked [of "localAPILockoutScope r" "bNow b" s]
  by (simp add: require_def Let_def active_Some tokenAccepted_def)

definition demoLock :: lockState where
  "demoLock = auditState.extend demoAudit \<lparr>bLockouts = Some newLockoutStore, bLocalAPILockouts = Some newLockoutStore\<rparr>"

text \<open>A run of the token check: each request with the instant it arrives.\<close>

definition requireAt ::
  "'z golib_scheme \<Rightarrow> string \<Rightarrow> (httpRequest \<times> time) \<Rightarrow> 'm lockState_scheme \<Rightarrow> 'm lockState_scheme" where
  "requireAt L token rt b = snd (require L token (fst rt) (b\<lparr>bNow := snd rt\<rparr>) :: unit reply option \<times> 'm lockState_scheme)"

lemma requireAt_wrong:
  assumes "trimSpace token \<noteq> []" "bLocalAPILockouts b = Some s" "\<not> locked s (localAPILockoutScope (fst rt)) (snd rt)"
    and "\<not> tokenAccepted L token (fst rt)"
  shows "bLocalAPILockouts (requireAt L token rt b) = Some (snd (recordFailureIn (localAPILockoutScope (fst rt)) (snd rt) s))"
  unfolding requireAt_def using assms by (subst require_wrong(1)) simp_all

lemma wrong_run:
  assumes "trimSpace token \<noteq> []" "\<forall>rt \<in> set rts. localAPILockoutScope (fst rt) = scope \<and> \<not> tokenAccepted L token (fst rt) \<and> 0 < snd rt"
    and "map_of (entries s) scope = None" "1 \<le> threshold s" "0 < cooldown s"
  shows "\<lbrakk>int (length rts) \<le> threshold s; bLocalAPILockouts b = Some s\<rbrakk> \<Longrightarrow>
    bLocalAPILockouts (fold (requireAt L token) rts b) = Some (failAll scope (map snd rts) s)"
  using assms(2)
proof (induction rts rule: rev_induct)
  case Nil
  then show ?case by (simp add: failAll_def)
next
  case (snoc rt rts)
  let ?b = "fold (requireAt L token) rts b"
  let ?s = "failAll scope (map snd rts) s"
  have b: "bLocalAPILockouts ?b = Some ?s" using snoc by simp
  have "map_of (entries ?s) scope = (if rts = [] then None
      else Some \<lparr>Failures = int (length rts), ActiveUntil = 0, LastFailure = last (map snd rts)\<rparr>)"
    using failAll_counting [OF assms(3-5), of "map snd rts"] snoc.prems by simp
  then have "\<not> locked ?s (localAPILockoutScope (fst rt)) (snd rt)"
    using snoc.prems by (auto simp: locked_def split: if_splits)
  from requireAt_wrong [OF assms(1) b this, of L] show ?case
    using snoc.prems by (simp add: failAll_def)
qed

text \<open>
  Property C11. The token check admits a request exactly when a token is configured, the scope of
  the caller is not locked, and the presented token has the hash of the configured one; a token
  with another text is admitted only through a hash collision.
\<close>

theorem token_check_exact:
  fixes ans :: "'r reply option"
  assumes "bLocalAPILockouts b = Some s" "ans = fst (require L token r b)"
  shows "(ans = None \<longleftrightarrow>
      trimSpace token \<noteq> [] \<and> \<not> ldActive (fst (active (localAPILockoutScope r) (bNow b) (Some s)))
      \<and> presentedToken r \<noteq> [] \<and> constantTimeTokenEqual L (presentedToken r) (trimSpace token))
    \<and> (ans = None \<longrightarrow>
      trimSpace (presentedToken r) = trimSpace token
      \<or> \<not> inj_on (sha256 L) {trimSpace (presentedToken r), trimSpace token})"
proof (cases "trimSpace token = []")
  case True
  then show ?thesis by (simp add: assms(2) require_def)
next
  case False
  have c: "locked s (localAPILockoutScope r) (bNow b) \<Longrightarrow> ans \<noteq> None"
    "\<not> locked s (localAPILockoutScope r) (bNow b) \<Longrightarrow> \<not> tokenAccepted L token r \<Longrightarrow> ans \<noteq> None"
    "\<not> locked s (localAPILockoutScope r) (bNow b) \<Longrightarrow> tokenAccepted L token r \<Longrightarrow> ans = None"
    unfolding assms(2)
    by (simp add: require_locked [OF False assms(1)], rule require_wrong(2) [OF False assms(1)], assumption+,
        rule require_right [OF False assms(1)])
  have "ldActive (fst (active (localAPILockoutScope r) (bNow b) (Some s))) \<longleftrightarrow> locked s (localAPILockoutScope r) (bNow b)"
    by (simp add: active_Some active_iff_locked)
  then have iff: "ans = None \<longleftrightarrow>
      \<not> ldActive (fst (active (localAPILockoutScope r) (bNow b) (Some s))) \<and> tokenAccepted L token r"
    using c by auto
  have "sha256 L (trimSpace (presentedToken r)) = sha256 L (trimSpace token)" if "tokenAccepted L token r"
    using that by (auto simp: tokenAccepted_def constantTimeTokenEqual_def Let_def split: if_splits)
  then show ?thesis using iff False by (auto simp: tokenAccepted_def inj_on_def)
qed

theorem token_check_exact_witness:
  "fst (require toy_lib ''sbk_1'' \<lparr>hMethod = ''POST'', hRemoteAddr = ''127.0.0.1:99'', hAuthorization = ''bearer sbk_1'', hToken = []\<rparr> demoLock) = (None :: unit reply option)"
proof -
  have b: "bLocalAPILockouts demoLock = Some newLockoutStore" by (simp add: demoLock_def auditState.defs)
  show ?thesis
    by (rule token_check_exact [OF b refl, THEN conjunct1, THEN iffD2]) code_simp
qed

text \<open>
  Property C12. Guessing tokens is bounded: once a caller has sent as many wrong tokens as the
  threshold allows, every further request from it is answered with the lockout until the cooldown
  has passed, whatever token it presents, so the answer carries nothing about the token.
\<close>

theorem token_guessing_bounded:
  assumes "trimSpace token \<noteq> []" "bLocalAPILockouts b = Some s" "lockInv s" "map_of (entries s) scope = None"
    and "\<forall>rt \<in> set rts. localAPILockoutScope (fst rt) = scope \<and> \<not> tokenAccepted L token (fst rt) \<and> 0 < snd rt"
    and "int (length rts) = threshold s"
    and "localAPILockoutScope r = scope" "now < snd (last rts) + cooldown s"
  shows "\<exists>d. fst (require L token r ((fold (requireAt L token) rts b)\<lparr>bNow := now\<rparr>)) = Some (writeLockoutAPIError d)
    \<and> ldActive d \<and> ldScope d = scope"
proof -
  have c: "1 \<le> threshold s" "0 < cooldown s" using assms(3) by (auto simp: lockInv_def)
  let ?s = "failAll scope (map snd rts) s"
  let ?b = "(fold (requireAt L token) rts b)\<lparr>bNow := now\<rparr>"
  have b: "bLocalAPILockouts ?b = Some ?s"
    using wrong_run [OF assms(1,5,4) c _ assms(2)] assms(6) by simp
  have ne: "rts \<noteq> []" using c assms(6) by auto
  have e: "map_of (entries ?s) scope = Some \<lparr>Failures = threshold s, ActiveUntil = last (map snd rts) + cooldown s, LastFailure = last (map snd rts)\<rparr>"
    using failAll_locks [OF assms(4) c, of "map snd rts"] assms(5,6) by simp
  then have l: "locked ?s (localAPILockoutScope r) (bNow ?b)"
    using assms(7,8) ne by (simp add: locked_def last_map)
  then have "fst (require L token r ?b) = Some (writeLockoutAPIError (fst (activeLocked scope now ?s)))"
    using require_locked [OF assms(1) b l, of L] assms(7) by simp
  moreover have "ldActive (fst (activeLocked scope now ?s))"
    using active_iff_locked l assms(7) by simp
  moreover have "ldScope (fst (activeLocked scope now ?s)) = scope"
    using e by (simp add: activeLocked_def lockoutDecisionFor_def noDecision_def Let_def)
  ultimately show ?thesis by blast
qed

definition demoWrong :: "time \<Rightarrow> httpRequest \<times> time" where
  "demoWrong t = (\<lparr>hMethod = ''POST'', hRemoteAddr = ''127.0.0.1:99'', hAuthorization = [], hToken = ''guess''\<rparr>, t)"

theorem token_guessing_bounded_witness:
  "\<exists>d. fst (require toy_lib ''sbk_1'' (fst (demoWrong 40)\<lparr>hToken := ''sbk_1''\<rparr>)
      ((fold (requireAt toy_lib ''sbk_1'') [demoWrong 10, demoWrong 20, demoWrong 30] demoLock)\<lparr>bNow := 40\<rparr>))
    = Some (writeLockoutAPIError d :: unit reply) \<and> ldActive d \<and> ldScope d = ''local_api:127.0.0.1''"
proof (rule token_guessing_bounded)
  show "trimSpace ''sbk_1'' \<noteq> []" by code_simp
  show "bLocalAPILockouts demoLock = Some newLockoutStore" by (simp add: demoLock_def auditState.defs)
  show "lockInv newLockoutStore" by (rule inv_new)
  show "map_of (entries newLockoutStore) ''local_api:127.0.0.1'' = None" by (simp add: newLockoutStore_def)
  have "localAPILockoutScope (fst (demoWrong t)) = ''local_api:127.0.0.1'' \<and> \<not> tokenAccepted toy_lib ''sbk_1'' (fst (demoWrong t))" for t
    unfolding demoWrong_def fst_conv by code_simp
  then show "\<forall>rt \<in> set [demoWrong 10, demoWrong 20, demoWrong 30].
      localAPILockoutScope (fst rt) = ''local_api:127.0.0.1'' \<and> \<not> tokenAccepted toy_lib ''sbk_1'' (fst rt) \<and> 0 < snd rt"
    by (simp add: demoWrong_def)
  show "int (length [demoWrong 10, demoWrong 20, demoWrong 30]) = threshold newLockoutStore"
    by (simp add: newLockoutStore_def localAPILockoutThreshold_def)
  show "localAPILockoutScope (fst (demoWrong 40)\<lparr>hToken := ''sbk_1''\<rparr>) = ''local_api:127.0.0.1''"
    unfolding demoWrong_def by code_simp
  show "40 < snd (last [demoWrong 10, demoWrong 20, demoWrong 30]) + cooldown newLockoutStore"
    by (simp add: demoWrong_def newLockoutStore_def localAPILockoutCooldown_def)
qed

definition lockEntry :: "lockoutStore option \<Rightarrow> string \<Rightarrow> lockoutEntry option" where
  "lockEntry st k = (case st of None \<Rightarrow> None | Some s \<Rightarrow> map_of (entries s) k)"

lemma clearAfterAudit_facts:
  assumes "clearAfterAudit scope (Some f) st b = (r, st', b')"
  shows "r = Inl err \<Longrightarrow> st' = st"
    and "r = Inr c \<Longrightarrow> c = (lockEntry st scope \<noteq> None) \<and> (\<forall>k. lockEntry st' k = (if k = scope then None else lockEntry st k))"
    and "\<exists>x. b' = snd (f x b)"
  using assms by (auto simp: clearAfterAudit_def lockEntry_def Let_def split: option.splits prod.splits) (metis snd_conv)+

text \<open>
  Clearing a lockout fails closed: without a scope, a reason or a working audit log
  the request is refused and both lockout stores are as before; otherwise exactly the entry of the
  scope is removed, and the answer says whether there was one.
\<close>

theorem clear_lockout_fails_closed:
  assumes "clearLockout L req b = ((res, err), b')"
  defines "scope \<equiv> scrubLockoutScope (lcScope req)"
  shows "(err \<noteq> None \<longrightarrow> \<not> lrCleared res \<and> bLockouts b' = bLockouts b \<and> bLocalAPILockouts b' = bLocalAPILockouts b)
    \<and> (err = None \<longrightarrow> scope \<noteq> [] \<and> lrCleared res = (lockEntry (clearTarget scope b) scope \<noteq> None)
         \<and> (\<forall>k. lockEntry (clearTarget scope b') k = (if k = scope then None else lockEntry (clearTarget scope b) k)))"
proof (cases "scope = [] \<or> trimSpace (scrubAuditField (lcReason req)) = []")
  case True
  obtain e b1 where a: "audit L ''lockout_clear'' scope ''policy_denied'' (firstNonEmpty (lcServiceID req) ''@operator'') (lcRequestID req) b = (e, b1)"
    by fastforce
  then have "bLockouts b1 = bLockouts b" "bLocalAPILockouts b1 = bLocalAPILockouts b"
    using audit_keeps_locks [of L "''lockout_clear''" scope "''policy_denied''" "firstNonEmpty (lcServiceID req) ''@operator''" "lcRequestID req" b]
    by simp_all
  then show ?thesis using assms(1) True a unfolding clearLockout_def scope_def [symmetric]
    by (auto simp: Let_def split: option.splits)
next
  case False
  define f where "f = (\<lambda>cleared. audit L ''lockout_clear'' scope (if cleared then ''cleared'' else ''not_found'')
      (firstNonEmpty (lcServiceID req) ''@operator'') (lcRequestID req) :: 'a lockState_scheme \<Rightarrow> _)"
  obtain r st b1 where c: "clearAfterAudit scope (Some f) (clearTarget scope b) b = (r, st, b1)" by (metis prod_cases3)
  obtain x where "b1 = snd (f x b)" using clearAfterAudit_facts(3) [OF c] by blast
  then have k: "bLockouts b1 = bLockouts b" "bLocalAPILockouts b1 = bLocalAPILockouts b" by (simp_all add: f_def)
  have t: "clearTarget scope (setClearTarget scope st b1) = st" by (simp add: clearTarget_def setClearTarget_def)
  show ?thesis
  proof (cases r)
    case (Inl e)
    then show ?thesis using assms(1) False c k unfolding clearLockout_def scope_def [symmetric] f_def
      by (auto simp: Let_def)
  next
    case (Inr cl)
    then show ?thesis using assms(1) False c t clearAfterAudit_facts(2) [OF c Inr]
      unfolding clearLockout_def scope_def [symmetric] f_def by (auto simp: Let_def)
  qed
qed

end
