(* ===== verification/Store_Types.thy ===== *)
theory Store_Types
  imports Session
begin

text \<open>
  The data the broker keeps on disk: the store file of \<open>local_store.go\<close> with the types of its parts
  from the files that own them. Each Go struct is a record with its fields in order, a pointer is
  an \<open>option\<close>, a map an association list. JSON writes and reads these values without loss as long as
  their strings are valid UTF-8, which strings decoded from JSON requests are, so the model keeps
  the decoded store as the content of the file.
\<close>

record secretPayload =
  spAlg :: string
  spKeyID :: string
  spKeyVersion :: string
  spNonce :: string
  spCiphertext :: string

record SecretMetadata =
  smSourceID :: string
  smVersion :: string
  smCreatedAt :: time
  smUpdatedAt :: time

record kvVersionRecord =
  krVersion :: int
  krCreatedTime :: time
  krDeletionTime :: string
  krDestroyed :: bool
  krPayload :: secretPayload

record kvSecretState =
  ksCurrent :: int
  ksVersions :: "kvVersionRecord list"

record secretEntry =
  seRef :: string
  seMetadata :: SecretMetadata
  sePayload :: secretPayload
  seKV :: "kvSecretState option"

record localSecretTombstone =
  tsRef :: string
  tsState :: string
  tsVersion :: string
  tsDecommissionID :: string
  tsRestoreOperationID :: string
  tsDecommissionedAt :: time
  tsRestoredAt :: time
  tsEntry :: secretEntry

record rotationStoredVersion =
  rvVersionID :: string
  rvOperationID :: string
  rvRequestID :: string
  rvMetadata :: SecretMetadata
  rvPayload :: secretPayload
  rvStagedAt :: time
  rvActivatedAt :: time
  rvRetainedAt :: time

record rotationLedger =
  rlActiveVersionID :: string
  rlPreviousVersionID :: string
  rlLastRollbackOperationID :: string
  rlLastRollbackVersionID :: string
  rlStaged :: "rotationStoredVersion gomap"
  rlRetained :: "rotationStoredVersion gomap"
  rlUpdatedAt :: time

record recoveryPolicyMetadata =
  rpPolicyID :: string
  rpKeyID :: string
  rpKeyVersion :: string
  rpThreshold :: int
  rpShareCount :: int
  rpShareFingerprints :: "string list"
  rpRecipientFingerprints :: "string list"
  rpCreatedAt :: time
  rpRotatedAt :: "time option"
  rpRevokedAt :: "time option"
  rpStatus :: string
  rpNextAction :: string

record localMachineContext =
  mcOS :: string
  mcUsername :: string
  mcMachine :: string

record vaultLossSemantics =
  lsRecoverableWithoutKey :: bool
  lsNextAction :: string
  lsMessage :: string

record vaultRootIdentityMetadata =
  vrVaultID :: string
  vrRootActorID :: string
  vrCreatedAt :: time
  vrBootstrapSource :: string
  vrKeySourceType :: string
  vrKeyID :: string
  vrKeyVersion :: string
  vrLocalMachineContext :: localMachineContext
  vrLossSemantics :: vaultLossSemantics
  vrAuditExpectations :: "string list"

record providerMigrationOperationItem =
  miRef :: string
  miState :: string
  miOutcome :: string
  miWriteApplied :: bool
  miVerified :: bool
  miAttempts :: int
  miVerificationAttempts :: int
  miUpdatedAt :: time

record providerMigrationOperation =
  moOperationID :: string
  moPlanFingerprint :: string
  moSourceProviderID :: string
  moTargetProviderID :: string
  moOutcome :: string
  moItems :: "providerMigrationOperationItem gomap"
  moCreatedAt :: time
  moUpdatedAt :: time

record bulkCampaignItem =
  biRef :: string
  biSourceID :: string
  biProviderKind :: string
  biOwnerServiceID :: string
  biOperation :: string
  biCapabilityResult :: string
  biPolicyResult :: string
  biAuditRequirement :: string
  biRisk :: string
  biExpectedAction :: string
  biOutcome :: string
  biNextAction :: string
  biIdempotencyKey :: string
  biOperationItemID :: string
  biRecovery :: string
  biTargetProviderID :: string
  biTargetPolicy :: string
  biProviderAction :: string
  biApplied :: bool
  biRetrySafe :: bool
  biVerified :: bool
  biAttempts :: int

record bulkCampaignSummary =
  bsSelectedCount :: int
  bsApplicableCount :: int
  bsDeniedCount :: int
  bsUnsupportedCount :: int
  bsAuthRequiredCount :: int
  bsSkippedCount :: int
  bsAppliedCount :: int
  bsFailedCount :: int
  bsStaleCount :: int
  bsHighRiskCount :: int

record bulkCampaignResponse =
  bcServiceID :: string
  bcAPIVersion :: string
  bcRequestID :: string
  bcCampaignID :: string
  bcPlanToken :: string
  bcOperationID :: string
  bcOperation :: string
  bcMode :: string
  bcOutcome :: string
  bcApplied :: bool
  bcRequiresConfirmation :: bool
  bcRequiresAuditReason :: bool
  bcRequiresRevalidation :: bool
  bcAuditStatus :: string
  bcStaleAfterSeconds :: int
  bcNextAction :: string
  bcResults :: "bulkCampaignItem list"
  bcSummary :: bulkCampaignSummary
  bcAffectedRefs :: "string list"
  bcAffectedServices :: "string list"
  bcUnsupportedFamilies :: "string list"
  bcDurable :: bool
  bcMaxConcurrency :: int
  bcBackpressurePolicy :: string
  bcCreatedAt :: time
  bcRevalidatedAt :: "time option"
  bcUpdatedAt :: time

record lifecycleOperationReceipt =
  loKind :: string
  loOperationID :: string
  loBackupID :: string
  loExpectedKeyID :: string
  loExpectedStoreHash :: string
  loOldKeyID :: string
  loNewKeyID :: string
  loKeyVersion :: string
  loSecretCount :: int
  loAppliedAt :: time

record managedCreateReceipt =
  mrKind :: string
  mrOperationID :: string
  mrRef :: string
  mrGenerationMode :: string
  mrVersion :: string
  mrAppliedAt :: time

record localStoreFile =
  stVersion :: int
  stServiceID :: string
  stVaultID :: string
  stKeyID :: string
  stKeyVersion :: string
  stRootIdentity :: "vaultRootIdentityMetadata option"
  stCreatedAt :: time
  stUpdatedAt :: time
  stSecrets :: "secretEntry gomap"
  stTombstones :: "localSecretTombstone gomap"
  stRotations :: "rotationLedger gomap"
  stMigrations :: "providerMigrationOperation gomap"
  stCampaigns :: "bulkCampaignResponse gomap"
  stRecovery :: "recoveryPolicyMetadata option"
  stLifecycleOps :: "lifecycleOperationReceipt gomap"
  stManagementOps :: "managedCreateReceipt gomap"

end
