(* ===== verification/Sources.thy ===== *)
theory Sources
  imports Broker_Text
begin

text \<open>
  The configured external sources (\<open>source_adapters.go\<close>, \<open>source_lifecycle.go\<close>): which source answers
  for a reference, and how its answer is classified. Adapters that read files, run commands or call
  remote services are the parameter \<open>ioResolve\<close> of \<open>sourceIO\<close>; the environment is \<open>getenv\<close>, and
  \<open>goQuote\<close> is the \<open>%q\<close> format.
\<close>

record sourceRefConfig =
  rcEnv :: string
  rcPath :: string
  rcCommand :: string
  rcCommandSHA256 :: string
  rcArgs :: "string list"
  rcMaxBytes :: int
  rcTimeoutMs :: int
  rcMaxStdoutBytes :: int
  rcUnsafeStdout :: bool
  rcField :: string
  rcVersionID :: string
  rcVersionStage :: string

record sourceConfig =
  cfSourceID :: string
  cfKind :: string
  cfDisplayName :: string
  cfEnabled :: bool
  cfCritical :: bool
  cfPriority :: int
  cfNamespaces :: "string list"
  cfTrustedDirs :: "string list"
  cfAllowSymlinkCommand :: bool
  cfAllowExecInProduction :: bool
  cfProduction :: bool
  cfEnableMigrationTarget :: bool
  cfAddress :: string
  cfRegion :: string
  cfAccountID :: string
  cfAccessKeyIDEnv :: string
  cfSecretAccessKeyEnv :: string
  cfSessionTokenEnv :: string
  cfToken :: string
  cfTokenEnv :: string
  cfCredentialRef :: string
  cfMount :: string
  cfRefs :: "sourceRefConfig gomap"

record SourceLifecycle =
  slState :: string
  slOutcome :: string
  slNextAction :: string
  slRetryable :: bool
  slRetryAfterMs :: int

record sourceResolveResult =
  srFound :: bool
  srValue :: string
  srSourceID :: string
  srOutcome :: string
  srMessage :: string
  srLifecycle :: SourceLifecycle

record sourceIO =
  getenv :: "string \<Rightarrow> string"
  ioResolve :: "sourceConfig \<Rightarrow> string \<Rightarrow> sourceRefConfig \<Rightarrow> sourceResolveResult"
  goQuote :: "string \<Rightarrow> string"

definition defaultSourceRetryAfterMs :: int where "defaultSourceRetryAfterMs = 30000"

definition normalizeSourceLifecycle :: "string \<Rightarrow> SourceLifecycle" where
  "normalizeSourceLifecycle oc =
     (let outcome = orDefault (trimSpace oc) ''source_unavailable'';
          plain = (\<lambda>state next. \<lparr>slState = state, slOutcome = outcome, slNextAction = next, slRetryable = False, slRetryAfterMs = 0\<rparr>);
          retry = (\<lambda>next. \<lparr>slState = ''degraded'', slOutcome = outcome, slNextAction = next, slRetryable = True,
                           slRetryAfterMs = defaultSourceRetryAfterMs\<rparr>)
      in if outcome = ''ready'' then plain ''connected'' []
      else if outcome = ''missing_ref'' then plain ''missing'' ''check_ref''
      else if outcome = ''policy_denied'' then plain ''denied'' ''review_policy''
      else if outcome = ''source_auth_required'' then plain ''auth_required'' ''reconnect_source''
      else if outcome = ''identity_expired'' then plain ''revoked'' ''renew_identity''
      else if outcome = ''locked'' then plain ''reconnect_required'' ''unlock_or_unseal_source''
      else if outcome = ''invalid_ref'' then plain ''config_error'' ''fix_source_mapping''
      else if outcome \<in> {''source_unavailable'', ''degraded''} then retry ''retry_or_inspect_source''
      else retry ''inspect_source'')"

definition disabledSourceLifecycle :: SourceLifecycle where
  "disabledSourceLifecycle = \<lparr>slState = ''disabled'', slOutcome = ''disabled'', slNextAction = ''enable_source'',
     slRetryable = False, slRetryAfterMs = 0\<rparr>"

definition zeroLifecycle :: SourceLifecycle where
  "zeroLifecycle = \<lparr>slState = [], slOutcome = [], slNextAction = [], slRetryable = False, slRetryAfterMs = 0\<rparr>"

definition sourceAnswer :: "string \<Rightarrow> string \<Rightarrow> string \<Rightarrow> sourceResolveResult" where
  "sourceAnswer outcome message val =
     \<lparr>srFound = False, srValue = val, srSourceID = [], srOutcome = outcome, srMessage = message, srLifecycle = zeroLifecycle\<rparr>"

definition resolveEnv :: "sourceIO \<Rightarrow> sourceRefConfig \<Rightarrow> sourceResolveResult" where
  "resolveEnv io rc =
     (if trimSpace (rcEnv rc) = [] then sourceAnswer ''invalid_ref'' ''Env source mapping is missing env name.'' []
      else let v = getenv io (rcEnv rc) in
        if trimSpace v = [] then sourceAnswer ''source_unavailable'' ''Mapped environment variable is empty or missing.'' []
        else sourceAnswer ''ready'' [] v)"

definition sourceResolve :: "'z golib_scheme \<Rightarrow> sourceIO \<Rightarrow> sourceConfig \<Rightarrow> string \<Rightarrow> sourceRefConfig \<Rightarrow> sourceResolveResult" where
  "sourceResolve L io s ref rc =
     (let kind = toLower L (trimSpace (cfKind s)) in
      if kind = ''env'' then resolveEnv io rc
      else if kind \<in> {''file'', ''exec'', ''vault'', ''openbao'', ''onepassword-cli'', ''bitwarden-bws'', ''aws-secrets-manager''}
      then ioResolve io s ref rc
      else sourceAnswer ''invalid_ref'' (''Unsupported source kind '' @ goQuote io (cfKind s) @ ''.'') [])"

definition enabledSources :: "sourceConfig list \<Rightarrow> sourceConfig list" where
  "enabledSources cfg = sort_key cfPriority (filter cfEnabled cfg)"

fun resolveMatching_loop ::
  "'z golib_scheme \<Rightarrow> sourceIO \<Rightarrow> string \<Rightarrow> (sourceConfig \<Rightarrow> bool) \<Rightarrow> sourceConfig list \<Rightarrow> sourceResolveResult" where
  "resolveMatching_loop L io ref matches [] =
     (sourceAnswer ''missing_ref'' ''Secret ref was not found.'' [])\<lparr>srLifecycle := normalizeSourceLifecycle ''missing_ref''\<rparr>"
| "resolveMatching_loop L io ref matches (s # ss) =
     (if \<not> matches s then resolveMatching_loop L io ref matches ss
      else case map_of (cfRefs s) ref of
        None \<Rightarrow> resolveMatching_loop L io ref matches ss
      | Some rc \<Rightarrow>
          let result = sourceResolve L io s ref rc in
          result\<lparr>srFound := True, srSourceID := cfSourceID s, srLifecycle := normalizeSourceLifecycle (srOutcome result)\<rparr>)"

definition resolveMatching ::
  "'z golib_scheme \<Rightarrow> sourceIO \<Rightarrow> sourceConfig list \<Rightarrow> string \<Rightarrow> (sourceConfig \<Rightarrow> bool) \<Rightarrow> sourceResolveResult" where
  "resolveMatching L io cfg ref matches = resolveMatching_loop L io ref matches (enabledSources cfg)"

definition resolveSources :: "'z golib_scheme \<Rightarrow> sourceIO \<Rightarrow> sourceConfig list \<Rightarrow> string \<Rightarrow> sourceResolveResult" where
  "resolveSources L io cfg ref = resolveMatching L io cfg ref (\<lambda>_. True)"

definition resolveKind :: "'z golib_scheme \<Rightarrow> sourceIO \<Rightarrow> sourceConfig list \<Rightarrow> string \<Rightarrow> string \<Rightarrow> sourceResolveResult" where
  "resolveKind L io cfg ref kind =
     (let k = toLower L (trimSpace kind) in resolveMatching L io cfg ref (\<lambda>s. toLower L (trimSpace (cfKind s)) = k))"

definition preferredOpenBaoSourceID :: "'z golib_scheme \<Rightarrow> sourceConfig list \<Rightarrow> string" where
  "preferredOpenBaoSourceID L cfg =
     (case find (\<lambda>s. equalFold L (trimSpace (cfKind s)) ''openbao'') (enabledSources cfg) of Some s \<Rightarrow> cfSourceID s | None \<Rightarrow> [])"

definition defaultKVV2SourceID :: "'z golib_scheme \<Rightarrow> sourceConfig list \<Rightarrow> string" where
  "defaultKVV2SourceID L cfg = (let p = preferredOpenBaoSourceID L cfg in if p \<noteq> [] then p else ''local'')"

subsection \<open>Which source answers\<close>

definition answers :: "string \<Rightarrow> (sourceConfig \<Rightarrow> bool) \<Rightarrow> sourceConfig \<Rightarrow> bool" where
  "answers ref matches s \<longleftrightarrow> matches s \<and> map_of (cfRefs s) ref \<noteq> None"

lemma loop_find:
  "resolveMatching_loop L io ref matches ss =
     (case find (answers ref matches) ss of
        None \<Rightarrow> (sourceAnswer ''missing_ref'' ''Secret ref was not found.'' [])\<lparr>srLifecycle := normalizeSourceLifecycle ''missing_ref''\<rparr>
      | Some s \<Rightarrow> let result = sourceResolve L io s ref (the (map_of (cfRefs s) ref)) in
          result\<lparr>srFound := True, srSourceID := cfSourceID s, srLifecycle := normalizeSourceLifecycle (srOutcome result)\<rparr>)"
  by (induction ss) (auto simp: answers_def Let_def split: option.split)

lemma find_sorted:
  "sorted (map f xs) \<Longrightarrow> find P xs = Some x \<Longrightarrow> y \<in> set xs \<Longrightarrow> P y \<Longrightarrow> f x \<le> f y"
  by (induction xs) (auto split: if_splits)

lemma found_iff: "srFound (resolveMatching L io cfg ref matches) \<longleftrightarrow> (\<exists>s \<in> set cfg. cfEnabled s \<and> answers ref matches s)"
proof -
  have "find (answers ref matches) (enabledSources cfg) \<noteq> None \<longleftrightarrow> (\<exists>s \<in> set cfg. cfEnabled s \<and> answers ref matches s)"
    by (auto simp: find_None_iff enabledSources_def)
  then show ?thesis
    by (auto simp: resolveMatching_def loop_find sourceAnswer_def Let_def split: option.split)
qed

lemma find_Some_mem: "find P xs = Some x \<Longrightarrow> x \<in> set xs \<and> P x"
  by (auto simp: find_Some_iff)

text \<open>
  A reference is answered by an enabled source that maps it and has the lowest
  priority number of all such sources; a disabled source is never asked, and without any such
  source the answer is \<open>missing_ref\<close>.
\<close>

theorem source_resolution_order:
  "(\<exists>s \<in> set cfg. cfEnabled s \<and> answers ref matches s
      \<and> (\<forall>t \<in> set cfg. cfEnabled t \<and> answers ref matches t \<longrightarrow> cfPriority s \<le> cfPriority t)
      \<and> srFound (resolveMatching L io cfg ref matches)
      \<and> srSourceID (resolveMatching L io cfg ref matches) = cfSourceID s
      \<and> srOutcome (resolveMatching L io cfg ref matches) = srOutcome (sourceResolve L io s ref (the (map_of (cfRefs s) ref)))
      \<and> srValue (resolveMatching L io cfg ref matches) = srValue (sourceResolve L io s ref (the (map_of (cfRefs s) ref))))
   \<or> ((\<forall>s \<in> set cfg. \<not> (cfEnabled s \<and> answers ref matches s))
      \<and> \<not> srFound (resolveMatching L io cfg ref matches) \<and> srOutcome (resolveMatching L io cfg ref matches) = ''missing_ref'')"
proof (cases "find (answers ref matches) (enabledSources cfg)")
  case None
  then have "\<forall>s \<in> set cfg. \<not> (cfEnabled s \<and> answers ref matches s)" by (auto simp: find_None_iff enabledSources_def)
  with None show ?thesis by (simp add: resolveMatching_def loop_find sourceAnswer_def)
next
  case (Some s)
  have "sorted (map cfPriority (enabledSources cfg))" by (simp add: enabledSources_def)
  from find_sorted [OF this Some] have min: "\<forall>t \<in> set cfg. cfEnabled t \<and> answers ref matches t \<longrightarrow> cfPriority s \<le> cfPriority t"
    by (simp add: enabledSources_def)
  from find_Some_mem [OF Some] have "s \<in> set cfg" "cfEnabled s" "answers ref matches s" by (auto simp: enabledSources_def)
  with Some min show ?thesis by (intro disjI1 bexI [of _ s]) (simp_all add: resolveMatching_def loop_find Let_def)
qed

definition demoIO :: sourceIO where
  "demoIO = \<lparr>getenv = (\<lambda>n. if n = ''DB_PASSWORD'' then ''hunter2'' else []),
     ioResolve = (\<lambda>s ref rc. sourceAnswer ''source_unavailable'' ''Mapped file could not be read.'' []),
     goQuote = (\<lambda>s. [CHR 0x22] @ s @ [CHR 0x22])\<rparr>"

end
