(* ===== verification/Local_Store.thy ===== *)
theory Local_Store
  imports Store_Types Sources
begin

text \<open>
  The encrypted local store (\<open>local_store.go\<close>): loading and saving the store file, sealing and
  opening payloads, and \<open>writeSecret\<close>. \<open>backend\<close> extends the lockout state with the rest of
  \<open>localBackend\<close> that the modelled operations use.

  The file system is explicit, as for the audit log. \<open>bDisk\<close> is the store file: absent, empty,
  unreadable or holding a store. Each save takes the next element of \<open>bSaveFaults\<close>:
  \<open>writePrivateFileAtomically\<close> fails without effect before the rename (\<open>SaveFails\<close>) or reports an
  error although the new file is in place (\<open>SavePublishedFails\<close>). Each nonce takes the next element
  of \<open>bRandom\<close>, \<^const>\<open>None\<close> standing for a failing entropy source. The mutexes make each operation
  atomic with respect to the others.
\<close>

datatype diskState = NoFile | EmptyFile | Unreadable gerror | Stored localStoreFile
datatype saveFault = SaveOk | SaveFails | SavePublishedFails

record backend = lockState +
  bMasterKey :: string
  bDisk :: diskState
  bSaveFaults :: "saveFault list"
  bRandom :: "string option list"
  bProduction :: bool
  bLaunchIdentitySigningKey :: string
  bLaunchIdentityIssuer :: string
  bSeenLaunchLeaseJTI :: "time gomap"
  bCampaigns :: "bulkCampaignResponse gomap"
  bSources :: "sourceConfig list"

record writeSecretRequest =
  wqRef :: string
  wqValue :: string
  wqMetadata :: "string gomap"

record writeSecretResponse =
  wrServiceID :: string
  wrAPIVersion :: string
  wrRef :: string
  wrOutcome :: string
  wrMetadata :: SecretMetadata

definition localStoreSource :: string where "localStoreSource = ''local''"
definition masterKeyVersion :: string where "masterKeyVersion = ''v1''"

definition zeroMetadata :: SecretMetadata where
  "zeroMetadata = \<lparr>smSourceID = [], smVersion = [], smCreatedAt = 0, smUpdatedAt = 0\<rparr>"

definition emptyWriteResponse :: writeSecretResponse where
  "emptyWriteResponse = \<lparr>wrServiceID = [], wrAPIVersion = [], wrRef = [], wrOutcome = [], wrMetadata = zeroMetadata\<rparr>"

definition isLocked :: "'m backend_scheme \<Rightarrow> bool" where
  "isLocked b \<longleftrightarrow> trimSpace (bMasterKey b) = []"

definition masterKeyID :: "'z golib_scheme \<Rightarrow> string \<Rightarrow> string" where
  "masterKeyID L masterKey = ''mk-'' @ take 16 (hexEncode (sha256 L (trimSpace masterKey)))"

subsection \<open>The store file\<close>

definition freshStore :: "time \<Rightarrow> localStoreFile" where
  "freshStore now = \<lparr>stVersion = 1, stServiceID = serviceID, stVaultID = [], stKeyID = [], stKeyVersion = [],
     stRootIdentity = None, stCreatedAt = now, stUpdatedAt = now, stSecrets = [], stTombstones = [],
     stRotations = [], stMigrations = [], stCampaigns = [], stRecovery = None, stLifecycleOps = [],
     stManagementOps = []\<rparr>"

definition loadStore :: "'m backend_scheme \<Rightarrow> gerror + localStoreFile" where
  "loadStore b =
     (case bDisk b of NoFile \<Rightarrow> Inr (freshStore (bNow b)) | EmptyFile \<Rightarrow> Inr (freshStore (bNow b))
      | Unreadable err \<Rightarrow> Inl err | Stored s \<Rightarrow> Inr s)"

definition saveStore :: "localStoreFile \<Rightarrow> 'm backend_scheme \<Rightarrow> gerror option \<times> 'm backend_scheme" where
  "saveStore store b =
     (let b1 = b\<lparr>bSaveFaults := tl (bSaveFaults b)\<rparr> in
      case bSaveFaults b of
        SaveFails # _ \<Rightarrow> (Some errIO, b1)
      | SavePublishedFails # _ \<Rightarrow> (Some errPublished, b1\<lparr>bDisk := Stored store\<rparr>)
      | _ \<Rightarrow> (None, b1\<lparr>bDisk := Stored store\<rparr>))"

subsection \<open>Payloads\<close>

definition gcmNonceSize :: nat where "gcmNonceSize = 12"

definition readNonce :: "'m backend_scheme \<Rightarrow> string option \<times> 'm backend_scheme" where
  "readNonce b =
     ((case bRandom b of [] \<Rightarrow> Some (replicate gcmNonceSize (CHR 0x00))
       | None # _ \<Rightarrow> None
       | Some r # _ \<Rightarrow> Some (take gcmNonceSize (r @ replicate gcmNonceSize (CHR 0x00)))),
      b\<lparr>bRandom := tl (bRandom b)\<rparr>)"

definition encryptWithMasterKey ::
  "'z golib_scheme \<Rightarrow> string \<Rightarrow> string \<Rightarrow> 'm backend_scheme \<Rightarrow> (gerror + secretPayload) \<times> 'm backend_scheme" where
  "encryptWithMasterKey L masterKey value b =
     (case readNonce b of
        (None, b') \<Rightarrow> (Inl errEntropy, b')
      | (Some nonce, b') \<Rightarrow>
          (Inr \<lparr>spAlg = ''AES-256-GCM'', spKeyID = masterKeyID L masterKey, spKeyVersion = masterKeyVersion,
             spNonce = b64Encode L nonce,
             spCiphertext = b64Encode L (gcmSeal L (sha256 L masterKey) nonce value)\<rparr>, b'))"

definition encrypt ::
  "'z golib_scheme \<Rightarrow> string \<Rightarrow> 'm backend_scheme \<Rightarrow> (gerror + secretPayload) \<times> 'm backend_scheme" where
  "encrypt L value b = encryptWithMasterKey L (bMasterKey b) value b"

definition decrypt :: "'z golib_scheme \<Rightarrow> 'm backend_scheme \<Rightarrow> secretPayload \<Rightarrow> gerror + string" where
  "decrypt L b p =
     (if spAlg p \<noteq> ''AES-256-GCM'' then Inl errIO
      else case b64Decode L (spNonce p) of None \<Rightarrow> Inl errIO
      | Some nonce \<Rightarrow> (case b64Decode L (spCiphertext p) of None \<Rightarrow> Inl errIO
          | Some ciphertext \<Rightarrow>
              if length nonce \<noteq> gcmNonceSize then Inl errIO
              else case gcmOpen L (sha256 L (bMasterKey b)) nonce ciphertext of
                None \<Rightarrow> Inl errIO | Some plaintext \<Rightarrow> Inr plaintext))"

subsection \<open>Writing a secret\<close>

definition stampKey :: "'z golib_scheme \<Rightarrow> string \<Rightarrow> localStoreFile \<Rightarrow> localStoreFile" where
  "stampKey L masterKey s =
     s\<lparr>stKeyID := orDefault (stKeyID s) (masterKeyID L masterKey), stKeyVersion := orDefault (stKeyVersion s) masterKeyVersion\<rparr>"

definition entryOf ::
  "'z golib_scheme \<Rightarrow> writeSecretRequest \<Rightarrow> secretPayload \<Rightarrow> localStoreFile \<Rightarrow> time \<Rightarrow> secretEntry" where
  "entryOf L req payload store now =
     (let ref = trimSpace (wqRef req) in
      \<lparr>seRef = ref,
       seMetadata = \<lparr>smSourceID = firstNonEmpty (case map_of (wqMetadata req) ''sourceId'' of Some v \<Rightarrow> v | None \<Rightarrow> []) localStoreSource,
         smVersion = formatNano L now,
         smCreatedAt = (case map_of (stSecrets store) ref of Some e \<Rightarrow> smCreatedAt (seMetadata e) | None \<Rightarrow> now),
         smUpdatedAt = now\<rparr>,
       sePayload = payload, seKV = None\<rparr>)"

definition writeSecret ::
  "'z golib_scheme \<Rightarrow> writeSecretRequest \<Rightarrow> 'm backend_scheme \<Rightarrow> (writeSecretResponse \<times> gerror option) \<times> 'm backend_scheme" where
  "writeSecret L req b =
     (let ref = trimSpace (wqRef req) in
      if \<not> validSecretRef ref then
        ((emptyWriteResponse, Some errInvalidRef), audit_ignored L ''write'' ref ''invalid_ref'' [] [] b)
      else if isLocked b then
        ((emptyWriteResponse, Some errLocked), audit_ignored L ''write'' ref ''locked'' [] [] b)
      else case loadStore b of
        Inl err \<Rightarrow> ((emptyWriteResponse, Some err), b)
      | Inr store0 \<Rightarrow>
          let store = stampKey L (bMasterKey b) store0 in
          attempt (encrypt L (wqValue req) b)
            (\<lambda>err b1. ((emptyWriteResponse, Some err), b1))
            (\<lambda>payload b1.
               let entry = entryOf L req payload store (bNow b) in
               check (saveStore (store\<lparr>stSecrets := AList.update ref entry (stSecrets store), stUpdatedAt := bNow b\<rparr>) b1)
                 (\<lambda>err b2. ((emptyWriteResponse, Some err), b2))
                 (\<lambda>b2. ((\<lparr>wrServiceID = serviceID, wrAPIVersion = apiVersion, wrRef = ref, wrOutcome = ''ready'',
                          wrMetadata = seMetadata entry\<rparr>, None),
                        audit_ignored L ''write'' ref ''ready'' [] [] b2))))"

subsection \<open>What each step leaves alone\<close>

lemma audit_keeps_backend [simp, store_frame]:
  fixes b :: "'m backend_scheme"
  shows "bMasterKey (snd (audit L op r oc svc rid b)) = bMasterKey b"
    and "bDisk (snd (audit L op r oc svc rid b)) = bDisk b"
    and "bSaveFaults (snd (audit L op r oc svc rid b)) = bSaveFaults b"
    and "bRandom (snd (audit L op r oc svc rid b)) = bRandom b"
    and "bProduction (snd (audit L op r oc svc rid b)) = bProduction b"
    and "bLaunchIdentitySigningKey (snd (audit L op r oc svc rid b)) = bLaunchIdentitySigningKey b"
    and "bLaunchIdentityIssuer (snd (audit L op r oc svc rid b)) = bLaunchIdentityIssuer b"
    and "bSeenLaunchLeaseJTI (snd (audit L op r oc svc rid b)) = bSeenLaunchLeaseJTI b"
    and "bCampaigns (snd (audit L op r oc svc rid b)) = bCampaigns b"
    and "bSources (snd (audit L op r oc svc rid b)) = bSources b"
  using audit_frame [of L op r oc svc rid b] by auto

lemma audit_ignored_keeps [simp, store_frame]:
  fixes b :: "'m backend_scheme"
  shows "bMasterKey (audit_ignored L op r oc svc rid b) = bMasterKey b"
    and "bDisk (audit_ignored L op r oc svc rid b) = bDisk b"
    and "bNow (audit_ignored L op r oc svc rid b) = bNow b"
    and "bSaveFaults (audit_ignored L op r oc svc rid b) = bSaveFaults b"
    and "bRandom (audit_ignored L op r oc svc rid b) = bRandom b"
    and "bLockouts (audit_ignored L op r oc svc rid b) = bLockouts b"
    and "bProduction (audit_ignored L op r oc svc rid b) = bProduction b"
    and "bLaunchIdentityIssuer (audit_ignored L op r oc svc rid b) = bLaunchIdentityIssuer b"
    and "bSeenLaunchLeaseJTI (audit_ignored L op r oc svc rid b) = bSeenLaunchLeaseJTI b"
    and "bCampaigns (audit_ignored L op r oc svc rid b) = bCampaigns b"
    and "bSources (audit_ignored L op r oc svc rid b) = bSources b"
  by (simp_all add: audit_ignored_def)

lemma save_keeps [simp, store_frame]:
  "bMasterKey (snd (saveStore s b)) = bMasterKey b" "bNow (snd (saveStore s b)) = bNow b"
  "bRandom (snd (saveStore s b)) = bRandom b" "bLockouts (snd (saveStore s b)) = bLockouts b"
  "bAuditLog (snd (saveStore s b)) = bAuditLog b" "bCampaigns (snd (saveStore s b)) = bCampaigns b"
  "bSeenLaunchLeaseJTI (snd (saveStore s b)) = bSeenLaunchLeaseJTI b" "bSources (snd (saveStore s b)) = bSources b"
  by (simp_all add: saveStore_def Let_def split: list.split saveFault.split)

lemma save_disk:
  "fst (saveStore s b) = None \<Longrightarrow> bDisk (snd (saveStore s b)) = Stored s"
  "bDisk (snd (saveStore s b)) = Stored s \<or> bDisk (snd (saveStore s b)) = bDisk b"
  by (auto simp: saveStore_def Let_def split: list.splits saveFault.splits)

lemma encrypt_keeps [simp, store_frame]:
  "bMasterKey (snd (encrypt L v b)) = bMasterKey b" "bNow (snd (encrypt L v b)) = bNow b"
  "bDisk (snd (encrypt L v b)) = bDisk b" "bSaveFaults (snd (encrypt L v b)) = bSaveFaults b"
  "bLockouts (snd (encrypt L v b)) = bLockouts b" "bAuditLog (snd (encrypt L v b)) = bAuditLog b"
  "bCampaigns (snd (encrypt L v b)) = bCampaigns b" "bSources (snd (encrypt L v b)) = bSources b"
  by (simp_all add: encrypt_def encryptWithMasterKey_def readNonce_def split: list.split option.split)

text \<open>What is sealed under a master key opens under it.\<close>

lemma decrypt_encrypt:
  assumes "lib_ok L" "fst (encrypt L v b) = Inr p" "bMasterKey b' = bMasterKey b"
  shows "decrypt L b' p = Inr v"
proof -
  obtain nonce where "fst (readNonce b) = Some nonce" "length nonce = gcmNonceSize"
    using assms(2) by (auto simp: encrypt_def encryptWithMasterKey_def readNonce_def gcmNonceSize_def split: list.splits option.splits)
  then show ?thesis using assms
    by (auto simp: encrypt_def encryptWithMasterKey_def decrypt_def split: prod.splits option.splits)
qed

subsection \<open>The store as a map from references to values\<close>

definition secretsOf :: "diskState \<Rightarrow> secretEntry gomap" where
  "secretsOf d = (case d of Stored s \<Rightarrow> stSecrets s | _ \<Rightarrow> [])"

definition vault :: "'z golib_scheme \<Rightarrow> 'm backend_scheme \<Rightarrow> string \<Rightarrow> string option" where
  "vault L b ref =
     (case map_of (secretsOf (bDisk b)) ref of None \<Rightarrow> None
      | Some e \<Rightarrow> (case decrypt L b (sePayload e) of Inl _ \<Rightarrow> None | Inr v \<Rightarrow> Some v))"

lemma decrypt_cong: "bMasterKey b = bMasterKey b' \<Longrightarrow> decrypt L b p = decrypt L b' p"
  by (simp add: decrypt_def split: option.split)

lemma vault_cong: "bDisk b = bDisk b' \<Longrightarrow> bMasterKey b = bMasterKey b' \<Longrightarrow> vault L b = vault L b'"
  by (simp add: vault_def fun_eq_iff decrypt_cong [of b b'] split: option.split)

lemma secretsOf_load: "loadStore b = Inr s \<Longrightarrow> stSecrets s = secretsOf (bDisk b)"
  by (auto simp: loadStore_def secretsOf_def freshStore_def split: diskState.splits)

lemma vault_stored:
  assumes "bDisk b' = Stored s'" "bMasterKey b' = bMasterKey b" "stSecrets s' = AList.update ref e (secretsOf (bDisk b))"
    and "decrypt L b (sePayload e) = Inr v"
  shows "vault L b' = (vault L b)(ref \<mapsto> v)"
proof
  fix k
  show "vault L b' k = ((vault L b)(ref \<mapsto> v)) k"
    using assms decrypt_cong [of b' b L "sePayload e"]
    by (auto simp: vault_def secretsOf_def decrypt_cong [of b' b] split: option.split)
qed

subsection \<open>Writing refines the update of the map\<close>

lemma stampKey_secrets [simp]: "stSecrets (stampKey L k s) = stSecrets s"
  by (simp add: stampKey_def)

text \<open>Every path of \<open>writeSecret\<close>: no change to the disk, or one save of the updated store.\<close>

definition storeWith :: "'z golib_scheme \<Rightarrow> writeSecretRequest \<Rightarrow> secretPayload \<Rightarrow> localStoreFile \<Rightarrow> 'm backend_scheme \<Rightarrow> localStoreFile" where
  "storeWith L req p s b =
     (let s' = stampKey L (bMasterKey b) s in
      s'\<lparr>stSecrets := AList.update (trimSpace (wqRef req)) (entryOf L req p s' (bNow b)) (stSecrets s'), stUpdatedAt := bNow b\<rparr>)"

lemma writeSecret_disk:
  obtains (unchanged) "snd (fst (writeSecret L req b)) \<noteq> None" "bDisk (snd (writeSecret L req b)) = bDisk b"
  | (saved) p s where "validSecretRef (wqRef req)" "\<not> isLocked b" "fst (encrypt L (wqValue req) b) = Inr p"
      "loadStore b = Inr s" "bDisk (snd (writeSecret L req b)) = Stored (storeWith L req p s b)"
proof (cases "validSecretRef (wqRef req) \<and> \<not> isLocked b")
  case False
  then show ?thesis using unchanged by (auto simp: writeSecret_def Let_def)
next
  case g: True
  show ?thesis
  proof (cases "loadStore b")
    case (Inl e)
    then show ?thesis using g unchanged by (simp add: writeSecret_def Let_def)
  next
    case s: (Inr s)
    show ?thesis
    proof (cases "fst (encrypt L (wqValue req) b)")
      case (Inl err)
      then show ?thesis using g s unchanged by (simp add: writeSecret_def Let_def)
    next
      case p: (Inr p)
      let ?save = "saveStore (storeWith L req p s b) (snd (encrypt L (wqValue req) b))"
      have d: "bDisk (snd (writeSecret L req b)) = bDisk (snd ?save)" "snd (fst (writeSecret L req b)) = fst ?save"
        using g s p by (simp_all add: writeSecret_def Let_def storeWith_def check_def split: option.split)
      show ?thesis
      proof (cases "bDisk (snd ?save) = Stored (storeWith L req p s b)")
        case True
        then show ?thesis using saved [of p s] g s p d by simp
      next
        case False
        then have "fst ?save \<noteq> None" "bDisk (snd ?save) = bDisk b"
          using save_disk [of "storeWith L req p s b" "snd (encrypt L (wqValue req) b)"] by auto
        then show ?thesis using unchanged d by simp
      qed
    qed
  qed
qed

lemma writeSecret_keeps [simp, store_frame]:
  "bSources (snd (writeSecret L req b)) = bSources b" "bNow (snd (writeSecret L req b)) = bNow b"
  "bLockouts (snd (writeSecret L req b)) = bLockouts b"
  by (simp_all add: writeSecret_def Let_def check_def attempt_def split: sum.split option.split)

lemma writeSecret_masterKey [simp]: "bMasterKey (snd (writeSecret L req b)) = bMasterKey b"
  by (simp add: writeSecret_def Let_def check_def attempt_def split: sum.split option.split)

lemma writeSecret_vault:
  assumes "lib_ok L"
  shows "vault L (snd (writeSecret L req b)) = (vault L b)(trimSpace (wqRef req) \<mapsto> wqValue req)
    \<or> (snd (fst (writeSecret L req b)) \<noteq> None \<and> vault L (snd (writeSecret L req b)) = vault L b)"
proof (rule writeSecret_disk [of L req b])
  assume "snd (fst (writeSecret L req b)) \<noteq> None" "bDisk (snd (writeSecret L req b)) = bDisk b"
  then show ?thesis using vault_cong [of "snd (writeSecret L req b)" b L] by simp
next
  fix p s
  assume a: "fst (encrypt L (wqValue req) b) = Inr p" "loadStore b = Inr s"
    "bDisk (snd (writeSecret L req b)) = Stored (storeWith L req p s b)"
  have "decrypt L b (sePayload (entryOf L req p (stampKey L (bMasterKey b) s) (bNow b))) = Inr (wqValue req)"
    using decrypt_encrypt [OF assms a(1) refl] by (simp add: entryOf_def Let_def)
  from vault_stored [OF a(3) writeSecret_masterKey _ this, where ref = "trimSpace (wqRef req)"] a(2)
  show ?thesis by (simp add: secretsOf_load storeWith_def Let_def)
qed

interpretation write_op: atomic_op "vault L" "writeSecret L" "\<lambda>r. snd r = None"
    "\<lambda>req v. v(trimSpace (wqRef req) \<mapsto> wqValue req)" "\<lambda>_. lib_ok L"
proof
  show "lib_ok L \<Longrightarrow> snd (fst (writeSecret L a s)) = None \<Longrightarrow>
      vault L (snd (writeSecret L a s)) = (vault L s)(trimSpace (wqRef a) \<mapsto> wqValue a)" for a and s :: "'b backend_scheme"
    using writeSecret_vault by metis
  show "lib_ok L \<Longrightarrow> snd (fst (writeSecret L a s)) \<noteq> None \<Longrightarrow> vault L (snd (writeSecret L a s)) = vault L s
      \<or> vault L (snd (writeSecret L a s)) = (vault L s)(trimSpace (wqRef a) \<mapsto> wqValue a)" for a and s :: "'b backend_scheme"
    using writeSecret_vault by metis
qed

subsection \<open>Runs without faults\<close>

text \<open>Without faults of the disk and of the entropy source, writing to an unlocked broker succeeds.\<close>

definition faultless :: "'m backend_scheme \<Rightarrow> bool" where
  "faultless b \<longleftrightarrow> \<not> isLocked b \<and> bSaveFaults b = [] \<and> bRandom b = [] \<and> (\<forall>e. bDisk b \<noteq> Unreadable e)"

lemma load_readable: "\<forall>e. bDisk b \<noteq> Unreadable e \<Longrightarrow> \<exists>s. loadStore b = Inr s"
  by (cases "bDisk b") (simp_all add: loadStore_def)

lemma save_faultless: "bSaveFaults b = [] \<Longrightarrow> fst (saveStore s b) = None" "bSaveFaults b = [] \<Longrightarrow> bSaveFaults (snd (saveStore s b)) = []"
  by (simp_all add: saveStore_def Let_def)

lemma encrypt_faultless: "bRandom b = [] \<Longrightarrow> \<exists>p. fst (encrypt L v b) = Inr p" "bRandom b = [] \<Longrightarrow> bRandom (snd (encrypt L v b)) = []"
  by (simp_all add: encrypt_def encryptWithMasterKey_def readNonce_def)

lemma writeSecret_faultless:
  assumes "faultless b" "validSecretRef (wqRef req)"
  shows "snd (fst (writeSecret L req b)) = None" "faultless (snd (writeSecret L req b))"
proof -
  obtain s where s: "loadStore b = Inr s" using assms(1) load_readable [of b] by (auto simp: faultless_def)
  obtain p where p: "fst (encrypt L (wqValue req) b) = Inr p" using assms(1) encrypt_faultless(1) [of b L "wqValue req"] by (auto simp: faultless_def)
  have f: "bSaveFaults (snd (encrypt L (wqValue req) b)) = []" using assms(1) by (simp add: faultless_def)
  show ok: "snd (fst (writeSecret L req b)) = None"
    using assms s p save_faultless(1) [OF f] by (simp add: writeSecret_def faultless_def Let_def)
  have "bSaveFaults (snd (writeSecret L req b)) = []" "bRandom (snd (writeSecret L req b)) = []"
    using assms s p save_faultless [OF f] encrypt_faultless(2) [of b L "wqValue req"] by (simp_all add: writeSecret_def faultless_def Let_def)
  moreover have "\<forall>e. bDisk (snd (writeSecret L req b)) \<noteq> Unreadable e"
    by (rule writeSecret_disk [of L req b]) (use ok in simp_all)
  ultimately show "faultless (snd (writeSecret L req b))" using assms(1) by (simp add: faultless_def isLocked_def)
qed

end
