(* ===== verification/Access_Policy.thy ===== *)
theory Access_Policy
  imports Broker_Text "HOL-Library.Sublist"
begin

text \<open>
  \<open>policy.go\<close>: whether a service may resolve, write back or manage a secret reference. The policy
  of a service lists patterns per operation class; a nil policy pointer is \<^const>\<open>None\<close>. The
  lemmas give the exact condition for \<open>allowed\<close>, show that patterns end at segment boundaries and
  that no policy lets a service resolve a reference another service owns.
\<close>

record serviceSecretsPolicy =
  Resolve :: "string list"
  Writeback :: "string list"
  Manage :: "string list"

record secretPolicyDecision =
  dServiceID :: string
  dOperation :: string
  dRef :: string
  dOutcome :: string
  dNextAction :: string
  dReasonCode :: string

definition policyPatternsForOperation :: "string \<Rightarrow> serviceSecretsPolicy \<Rightarrow> string list \<times> bool" where
  "policyPatternsForOperation operation policy =
     (if operation = ''resolve'' then (safeList (Resolve policy), True)
      else if operation = ''writeback'' then (safeList (Writeback policy), True)
      else if operation \<in> {''reveal'', ''edit'', ''reset'', ''migration'', ''policy_apply'', ''manage''}
      then (safeList (Manage policy), True)
      else ([], False))"

definition secretPolicyPatternMatches :: "string \<Rightarrow> string \<Rightarrow> bool" where
  "secretPolicyPatternMatches r p =
     (let ref = trimSlash (trimSpace r); pattern = trimSlash (trimSpace p) in
      if ref = [] \<or> pattern = [] \<or> containsStr pattern ''..''
         \<or> containsAny pattern [CHR '' '', CHR 0x09, CHR 0x0D, CHR 0x0A] then False
      else if pattern = ''*'' then True
      else if hasSuffix pattern ''/*'' then
        (let prefix = trimSuffix pattern ''/*'' in ref = prefix \<or> hasPrefix ref (prefix @ ''/''))
      else ref = pattern)"

definition serviceRefOwnerMismatch :: "string \<Rightarrow> string \<Rightarrow> bool" where
  "serviceRefOwnerMismatch svc ref =
     (let owner = ownerFromRef ref in owner \<noteq> [] \<and> owner \<noteq> ''unknown'' \<and> owner \<noteq> svc)"

definition evaluateServiceSecretsPolicy ::
  "string \<Rightarrow> string \<Rightarrow> string \<Rightarrow> serviceSecretsPolicy option \<Rightarrow> secretPolicyDecision" where
  "evaluateServiceSecretsPolicy svc0 op0 ref0 pol =
     (let svc = trimSpace svc0; op = trimSpace op0; ref = trimSlash (trimSpace ref0);
          decision = \<lparr>dServiceID = svc, dOperation = op, dRef = ref, dOutcome = ''unknown'',
            dNextAction = ''provide_service_secret_policy'', dReasonCode = ''policy_missing''\<rparr>
      in
      if svc = [] \<or> op = [] \<or> \<not> validSecretRef ref then
        decision\<lparr>dOutcome := ''denied'', dNextAction := ''provide_valid_service_identity_and_ref'',
          dReasonCode := ''invalid_policy_subject''\<rparr>
      else case pol of
        None \<Rightarrow> decision
      | Some policy \<Rightarrow>
          if (op = ''resolve'' \<or> op = ''writeback'') \<and> serviceRefOwnerMismatch svc ref then
            decision\<lparr>dOutcome := ''denied'', dNextAction := ''use_matching_service_identity'',
              dReasonCode := ''service_id_mismatch''\<rparr>
          else let (patterns, known) = policyPatternsForOperation op policy in
            if \<not> known then
              decision\<lparr>dOutcome := ''unknown'', dNextAction := ''use_supported_policy_operation'',
                dReasonCode := ''policy_operation_unknown''\<rparr>
            else if patterns = [] then
              decision\<lparr>dOutcome := ''denied'', dNextAction := ''add_service_secret_policy_assignment'',
                dReasonCode := ''policy_empty''\<rparr>
            else if list_ex (secretPolicyPatternMatches ref) patterns then
              decision\<lparr>dOutcome := ''allowed'', dNextAction := [], dReasonCode := ''policy_match''\<rparr>
            else
              decision\<lparr>dOutcome := ''denied'', dNextAction := ''add_service_secret_policy_assignment'',
                dReasonCode := ''policy_no_match''\<rparr>)"

subsection \<open>What a decision means\<close>

definition policyPatterns :: "string \<Rightarrow> serviceSecretsPolicy \<Rightarrow> string list" where
  "policyPatterns op policy =
     (if op = ''resolve'' then Resolve policy else if op = ''writeback'' then Writeback policy
      else if op \<in> {''reveal'', ''edit'', ''reset'', ''migration'', ''policy_apply'', ''manage''} then Manage policy
      else [])"

lemma patterns_match_trim:
  "secretPolicyPatternMatches r (trimSpace p) = secretPolicyPatternMatches r p"
  by (simp add: secretPolicyPatternMatches_def)

lemma match_nonempty: "secretPolicyPatternMatches r p \<Longrightarrow> trimSpace p \<noteq> []"
  by (auto simp: secretPolicyPatternMatches_def trimSlash_def)

lemma list_ex_safeList:
  "list_ex (secretPolicyPatternMatches r) (safeList ps) \<longleftrightarrow> (\<exists>p \<in> set ps. secretPolicyPatternMatches r p)"
  by (auto simp: safeList_eq list_ex_iff patterns_match_trim dest: match_nonempty)

lemma known_patterns:
  "snd (policyPatternsForOperation op policy) \<Longrightarrow>
   fst (policyPatternsForOperation op policy) = safeList (policyPatterns op policy)"
  by (auto simp: policyPatternsForOperation_def policyPatterns_def split: if_splits)

lemma unknown_patterns:
  "\<not> snd (policyPatternsForOperation op policy) \<Longrightarrow> policyPatterns op policy = []"
  by (auto simp: policyPatternsForOperation_def policyPatterns_def split: if_splits)

lemma allowed_iff:
  "dOutcome (evaluateServiceSecretsPolicy svc op ref pol) = ''allowed'' \<longleftrightarrow>
     trimSpace svc \<noteq> [] \<and> trimSpace op \<noteq> [] \<and> validSecretRef (trimSlash (trimSpace ref))
     \<and> (\<exists>policy. pol = Some policy
          \<and> (trimSpace op \<in> {''resolve'', ''writeback''}
               \<longrightarrow> \<not> serviceRefOwnerMismatch (trimSpace svc) (trimSlash (trimSpace ref)))
          \<and> (\<exists>p \<in> set (policyPatterns (trimSpace op) policy).
                secretPolicyPatternMatches (trimSlash (trimSpace ref)) p))"
proof (cases pol)
  case None
  then show ?thesis by (simp add: evaluateServiceSecretsPolicy_def Let_def)
next
  case (Some policy)
  obtain ps known where pk: "policyPatternsForOperation (trimSpace op) policy = (ps, known)" by fastforce
  show ?thesis
  proof (cases known)
    case True
    then have "ps = safeList (policyPatterns (trimSpace op) policy)" using known_patterns pk by (metis fst_conv snd_conv)
    then show ?thesis using True Some pk
        list_ex_safeList [of "trimSlash (trimSpace ref)" "policyPatterns (trimSpace op) policy"]
      by (auto simp: evaluateServiceSecretsPolicy_def Let_def)
  next
    case False
    then have "policyPatterns (trimSpace op) policy = []" using unknown_patterns pk by (metis snd_conv)
    then show ?thesis using False Some pk by (auto simp: evaluateServiceSecretsPolicy_def Let_def)
  qed
qed

lemma split_prefix_iff:
  "prefix (splitOn d q) (splitOn d r) \<longleftrightarrow> r = q \<or> hasPrefix r (q @ [d])"
proof
  assume "prefix (splitOn d q) (splitOn d r)"
  then obtain zs where zs: "splitOn d r = splitOn d q @ zs" by (auto simp: prefix_def)
  have "r = joinWith [d] (splitOn d q @ zs)" by (metis join_split zs)
  then show "r = q \<or> hasPrefix r (q @ [d])"
    by (cases "zs = []") (simp_all add: join_split joinWith_append hasPrefix_def)
next
  assume "r = q \<or> hasPrefix r (q @ [d])"
  then show "prefix (splitOn d q) (splitOn d r)"
    by (auto simp: hasPrefix_iff splitOn_app)
qed

lemma hasSuffix_append [simp]: "hasSuffix (s @ p) p"
  by (simp add: hasSuffix_def)

lemma trimSuffix_append [simp]: "trimSuffix (s @ p) p = s"
  by (simp add: trimSuffix_def)

lemma trimSlash_last: "trimSlash s = t \<Longrightarrow> t \<noteq> [] \<Longrightarrow> last t \<noteq> CHR ''/''"
  unfolding trimSlash_def by (metis (mono_tags, lifting) hd_dropWhile last_rev rev_is_Nil_conv)

text \<open>
  Property C6. A request is allowed exactly when the service, the operation and the reference are
  well formed, the service has a policy, the reference is not owned by another service (for
  \<open>resolve\<close> and \<open>writeback\<close>), and some pattern listed for the operation's class matches. Every
  other request is refused, in particular one without a policy, with an empty list of patterns or
  with an operation the code does not know.
\<close>

theorem policy_allowed_exactly:
  "dOutcome (evaluateServiceSecretsPolicy svc op ref pol) = ''allowed'' \<longleftrightarrow>
     trimSpace svc \<noteq> [] \<and> trimSpace op \<noteq> [] \<and> validSecretRef (trimSlash (trimSpace ref))
     \<and> (\<exists>policy. pol = Some policy
          \<and> (trimSpace op \<in> {''resolve'', ''writeback''}
               \<longrightarrow> \<not> serviceRefOwnerMismatch (trimSpace svc) (trimSlash (trimSpace ref)))
          \<and> (\<exists>p \<in> set (policyPatterns (trimSpace op) policy).
                secretPolicyPatternMatches (trimSlash (trimSpace ref)) p))"
  by (rule allowed_iff)

theorem policy_allowed_exactly_witness:
  "dOutcome (evaluateServiceSecretsPolicy '' api '' ''resolve'' ''services/api/db''
     (Some \<lparr>Resolve = ['' services/api/* ''], Writeback = [], Manage = []\<rparr>)) = ''allowed''"
  by (rule policy_allowed_exactly [THEN iffD2],
      intro conjI exI [of _ "\<lparr>Resolve = ['' services/api/* ''], Writeback = [], Manage = []\<rparr>"]; code_simp)

text \<open>
  A pattern that ends in \<open>/*\<close> grants whole path segments: it matches a reference
  exactly when the segments before the star are the first segments of the reference, so
  \<open>services/api/*\<close> never grants \<open>services/api2/key\<close>.
\<close>

theorem pattern_grants_segments:
  assumes "trimSlash (trimSpace p) = q @ ''/*''" "trimSlash (trimSpace r) \<noteq> []"
    and "\<not> containsStr (q @ ''/*'') ''..''"
    and "\<not> containsAny (q @ ''/*'') [CHR '' '', CHR 0x09, CHR 0x0D, CHR 0x0A]"
  shows "secretPolicyPatternMatches r p \<longleftrightarrow>
    prefix (splitOn (CHR ''/'') q) (splitOn (CHR ''/'') (trimSlash (trimSpace r)))"
proof -
  have "q @ ''/*'' \<noteq> ''*''" by (cases q) simp_all
  then show ?thesis using assms by (simp add: secretPolicyPatternMatches_def Let_def split_prefix_iff)
qed



end
