(* ===== verification/Launch_Lease.thy ===== *)
theory Launch_Lease
  imports Local_Store Access_Policy
begin

text \<open>
  Launch identity leases (\<open>local_store.go\<close>) and the transport identity they can be bound to
  (\<open>transport_identity.go\<close>). A lease is a signed statement that a service may use some references for
  some operations until it expires; each may be used once. \<open>leaseJSON\<close> is the \<open>json.Marshal\<close> of the
  signed payload.
\<close>

record launchTransportBinding =
  ltKind :: string
  ltSubject :: string

record launchIdentityLease =
  llIssuer :: string
  llServiceID :: string
  llWorkspaceID :: string
  llAllowedRefs :: "string list"
  llAllowedNamespaces :: "string list"
  llAllowedOperations :: "string list"
  llIssuedAt :: string
  llExpiresAt :: string
  llJTI :: string
  llSignature :: string
  llTransportBinding :: "launchTransportBinding option"

record transportPeerIdentity =
  tpKind :: string
  tpSubject :: string

definition normalizeTransportPeerIdentity :: "'z golib_scheme \<Rightarrow> transportPeerIdentity \<Rightarrow> transportPeerIdentity" where
  "normalizeTransportPeerIdentity L p = \<lparr>tpKind = toLower L (trimSpace (tpKind p)), tpSubject = trimSpace (tpSubject p)\<rparr>"

text \<open>The identity stored in the request context, if any, as the handlers read it back.\<close>

definition contextWithTransportPeerIdentity ::
  "'z golib_scheme \<Rightarrow> transportPeerIdentity option \<Rightarrow> transportPeerIdentity \<Rightarrow> transportPeerIdentity option" where
  "contextWithTransportPeerIdentity L ctx p =
     (let n = normalizeTransportPeerIdentity L p in if tpKind n = [] \<or> tpSubject n = [] then ctx else Some n)"

definition transportPeerIdentityFromContext :: "'z golib_scheme \<Rightarrow> transportPeerIdentity option \<Rightarrow> transportPeerIdentity" where
  "transportPeerIdentityFromContext L ctx =
     normalizeTransportPeerIdentity L (case ctx of Some p \<Rightarrow> p | None \<Rightarrow> \<lparr>tpKind = [], tpSubject = []\<rparr>)"

definition normalizeLaunchTransportBinding ::
  "'z golib_scheme \<Rightarrow> launchTransportBinding option \<Rightarrow> launchTransportBinding option" where
  "normalizeLaunchTransportBinding L binding =
     (case binding of None \<Rightarrow> None
      | Some t \<Rightarrow> let n = \<lparr>ltKind = toLower L (trimSpace (ltKind t)), ltSubject = trimSpace (ltSubject t)\<rparr> in
          if ltKind n = [] \<or> ltSubject n = [] then None else Some n)"

definition launchTransportBindingMatchesPeer ::
  "'z golib_scheme \<Rightarrow> launchTransportBinding option \<Rightarrow> transportPeerIdentity \<Rightarrow> bool" where
  "launchTransportBindingMatchesPeer L binding peer =
     (case binding of None \<Rightarrow> True
      | Some t \<Rightarrow> let p = normalizeTransportPeerIdentity L peer in
          if tpKind p = [] \<or> tpSubject p = [] then False
          else equalFold L (ltKind t) (tpKind p) \<and> equalFold L (ltSubject t) (tpSubject p))"

subsection \<open>Signatures\<close>

definition jsonField :: "string \<Rightarrow> string \<Rightarrow> string" where
  "jsonField name raw = jsonQuote name @ '':'' @ raw"

definition jsonList :: "string list \<Rightarrow> string" where
  "jsonList vs = ''['' @ joinWith '','' (map jsonQuote vs) @ '']''"

definition leaseJSON :: "'z golib_scheme \<Rightarrow> launchIdentityLease \<Rightarrow> string" where
  "leaseJSON L lease =
     (let listField = (\<lambda>name vs. if safeList vs = [] then [] else [jsonField name (jsonList (safeList vs))]) in
      ''{'' @ joinWith '',''
        ([jsonField ''issuer'' (jsonQuote (trimSpace (llIssuer lease))),
          jsonField ''serviceId'' (jsonQuote (trimSpace (llServiceID lease)))]
         @ jsonMember (''workspaceId'', True, trimSpace (llWorkspaceID lease))
         @ listField ''allowedRefs'' (llAllowedRefs lease)
         @ listField ''allowedNamespaces'' (llAllowedNamespaces lease)
         @ listField ''allowedOperations'' (llAllowedOperations lease)
         @ [jsonField ''issuedAt'' (jsonQuote (trimSpace (llIssuedAt lease))),
            jsonField ''expiresAt'' (jsonQuote (trimSpace (llExpiresAt lease))),
            jsonField ''jti'' (jsonQuote (trimSpace (llJTI lease)))]
         @ (case normalizeLaunchTransportBinding L (llTransportBinding lease) of None \<Rightarrow> []
            | Some t \<Rightarrow> [jsonField ''transportBinding''
                (''{'' @ jsonField ''kind'' (jsonQuote (ltKind t)) @ '','' @ jsonField ''subject'' (jsonQuote (ltSubject t)) @ ''}'')]))
      @ ''}'')"

definition leaseSignature :: "'z golib_scheme \<Rightarrow> launchIdentityLease \<Rightarrow> string \<Rightarrow> string" where
  "leaseSignature L lease key = ''hmac-sha256:'' @ b64RawURLEncode L (hmacSHA256 L key (leaseJSON L lease))"

definition signLaunchIdentityLease :: "'z golib_scheme \<Rightarrow> launchIdentityLease \<Rightarrow> string \<Rightarrow> launchIdentityLease" where
  "signLaunchIdentityLease L lease key = lease\<lparr>llSignature := leaseSignature L lease key\<rparr>"

definition launchLeaseSigningKey :: "string \<Rightarrow> 'm backend_scheme \<Rightarrow> string" where
  "launchLeaseSigningKey apiToken b =
     (if bProduction b then trimSpace (bLaunchIdentitySigningKey b)
      else firstNonEmpty (bLaunchIdentitySigningKey b) apiToken)"

subsection \<open>What a lease allows\<close>

fun launchLeaseOperationAllowed :: "string \<Rightarrow> string list \<Rightarrow> bool" where
  "launchLeaseOperationAllowed operation [] = False"
| "launchLeaseOperationAllowed operation (a # as) =
     (let op = trimSpace operation; c = trimSpace a in
      if c = ''*'' \<or> c = op \<or> (op \<noteq> ''resolve'' \<and> c = ''writeback'') then True
      else launchLeaseOperationAllowed operation as)"

definition launchLeaseRefAllowed :: "string \<Rightarrow> string list \<Rightarrow> string list \<Rightarrow> bool" where
  "launchLeaseRefAllowed ref allowedRefs allowedNamespaces =
     (if list_ex (secretPolicyPatternMatches ref) allowedRefs then True
      else list_ex (\<lambda>n. let ns = trimSlash (trimSpace n) in ns = ''*'' \<or> ref = ns \<or> hasPrefix ref (ns @ ''/'')) allowedNamespaces)"

definition launchLeaseNamespaceAllowed :: "string \<Rightarrow> string list \<Rightarrow> bool" where
  "launchLeaseNamespaceAllowed namespace allowedNamespaces = list_ex (secretPolicyPatternMatches namespace) allowedNamespaces"

definition launchLeaseRefsAllowed :: "string list \<Rightarrow> string list \<Rightarrow> string list \<Rightarrow> string list \<Rightarrow> bool" where
  "launchLeaseRefsAllowed refs namespaces allowedRefs allowedNamespaces =
     (let ar = safeList allowedRefs; an = safeList allowedNamespaces in
      if ar = [] \<and> an = [] then False
      else list_all (\<lambda>r. let ref = trimSlash (trimSpace r) in
             ref = [] \<or> \<not> validSecretRef ref \<or> launchLeaseRefAllowed ref ar an) refs
        \<and> list_all (\<lambda>n. let ns = trimSlash (trimSpace n) in
             ns = [] \<or> \<not> validSecretRef ns \<or> launchLeaseNamespaceAllowed ns an) namespaces)"

definition launchIdentityOutcome :: "gerror \<Rightarrow> string" where
  "launchIdentityOutcome err =
     (case err of errIdentityExpired \<Rightarrow> ''identity_expired'' | errIdentityReplayed \<Rightarrow> ''identity_replayed''
      | errPolicyDenied \<Rightarrow> ''policy_denied'' | _ \<Rightarrow> ''identity_invalid'')"

subsection \<open>Verification\<close>

definition leaseKey :: "launchIdentityLease \<Rightarrow> string" where
  "leaseKey lease = trimSpace (llIssuer lease) @ '':'' @ trimSpace (llJTI lease)"

definition rememberLaunchLeaseJTI ::
  "launchIdentityLease \<Rightarrow> time \<Rightarrow> time \<Rightarrow> 'm backend_scheme \<Rightarrow> bool \<times> 'm backend_scheme" where
  "rememberLaunchLeaseJTI lease expiresAt now b =
     (let seen = filter (\<lambda>(k, expiry). expiry > now) (bSeenLaunchLeaseJTI b) in
      if (case map_of seen (leaseKey lease) of Some expiry \<Rightarrow> expiry > now | None \<Rightarrow> False)
      then (False, b\<lparr>bSeenLaunchLeaseJTI := seen\<rparr>)
      else (True, b\<lparr>bSeenLaunchLeaseJTI := AList.update (leaseKey lease) expiresAt seen\<rparr>))"

text \<open>The checks before the lease is marked as used: an error, or the expiry.\<close>

definition checkLaunchIdentityLease ::
  "'z golib_scheme \<Rightarrow> launchIdentityLease option \<Rightarrow> string \<Rightarrow> string \<Rightarrow> string \<Rightarrow> string \<Rightarrow> string list \<Rightarrow> string list
    \<Rightarrow> transportPeerIdentity \<Rightarrow> 'm backend_scheme \<Rightarrow> gerror + time" where
  "checkLaunchIdentityLease L leaseP signingKey expectedServiceID expectedWorkspaceID operation refs namespaces peer b =
     (case leaseP of None \<Rightarrow> Inl errIdentityInvalid
      | Some lease \<Rightarrow>
        if trimSpace signingKey = [] \<or> trimSpace (llSignature lease) = [] \<or> trimSpace (llServiceID lease) = []
           \<or> trimSpace (llIssuer lease) = [] \<or> trimSpace (llJTI lease) = [] then Inl errIdentityInvalid
        else let binding = normalizeLaunchTransportBinding L (llTransportBinding lease) in
        if llTransportBinding lease \<noteq> None \<and> binding = None then Inl errIdentityInvalid
        else if trimSpace (llIssuer lease) \<noteq> trimSpace (bLaunchIdentityIssuer b) then Inl errPolicyDenied
        else if bProduction b \<and> binding = None then Inl errPolicyDenied
        else if expectedServiceID \<noteq> [] \<and> trimSpace (llServiceID lease) \<noteq> expectedServiceID then Inl errPolicyDenied
        else if expectedWorkspaceID \<noteq> [] \<and> trimSpace (llWorkspaceID lease) \<noteq> []
                \<and> trimSpace (llWorkspaceID lease) \<noteq> expectedWorkspaceID then Inl errPolicyDenied
        else case parseRFC3339 L (trimSpace (llIssuedAt lease)) of None \<Rightarrow> Inl errIdentityInvalid
        | Some issuedAt \<Rightarrow>
          if issuedAt > bNow b + 5 * minute then Inl errIdentityInvalid
          else case parseRFC3339 L (trimSpace (llExpiresAt lease)) of None \<Rightarrow> Inl errIdentityInvalid
          | Some expiresAt \<Rightarrow>
            if \<not> expiresAt > bNow b then Inl errIdentityExpired
            else if \<not> launchLeaseOperationAllowed operation (llAllowedOperations lease) then Inl errPolicyDenied
            else if \<not> launchLeaseRefsAllowed refs namespaces (llAllowedRefs lease) (llAllowedNamespaces lease) then Inl errPolicyDenied
            else if \<not> constantTimeTokenEqual L (llSignature lease) (leaseSignature L lease signingKey) then Inl errIdentityInvalid
            else if binding \<noteq> None \<and> \<not> launchTransportBindingMatchesPeer L binding peer then Inl errPolicyDenied
            else Inr expiresAt)"

definition verifyLaunchIdentityLease ::
  "'z golib_scheme \<Rightarrow> launchIdentityLease option \<Rightarrow> string \<Rightarrow> string \<Rightarrow> string \<Rightarrow> string \<Rightarrow> string list \<Rightarrow> string list
    \<Rightarrow> transportPeerIdentity \<Rightarrow> 'm backend_scheme \<Rightarrow> gerror option \<times> 'm backend_scheme" where
  "verifyLaunchIdentityLease L leaseP signingKey expectedServiceID expectedWorkspaceID operation refs namespaces peer b =
     (case checkLaunchIdentityLease L leaseP signingKey expectedServiceID expectedWorkspaceID operation refs namespaces peer b of
        Inl err \<Rightarrow> (Some err, b)
      | Inr expiresAt \<Rightarrow>
          let r = rememberLaunchLeaseJTI (the leaseP) expiresAt (bNow b) b in
          (if fst r then None else Some errIdentityReplayed, snd r))"

subsection \<open>A lease is used once\<close>

lemma seen_filter:
  "distinct (map fst m) \<Longrightarrow> map_of (filter (\<lambda>(k, e). e > now) m) k =
     (case map_of m k of Some e \<Rightarrow> if e > now then Some e else None | None \<Rightarrow> None)"
proof (induction m)
  case (Cons p m)
  have "map_of (filter (\<lambda>(k, e). e > now) m) k = None" if "k \<notin> fst ` set m"
    using that by (auto simp: map_of_eq_None_iff)
  with Cons show ?case by (cases p) (auto split: option.splits simp: map_of_eq_None_iff)
qed simp

lemma remember_facts:
  assumes "distinct (map fst (bSeenLaunchLeaseJTI b))"
  shows "distinct (map fst (bSeenLaunchLeaseJTI (snd (rememberLaunchLeaseJTI lease ex now b))))"
    and "fst (rememberLaunchLeaseJTI lease ex now b) \<Longrightarrow>
      map_of (bSeenLaunchLeaseJTI (snd (rememberLaunchLeaseJTI lease ex now b))) (leaseKey lease) = Some ex"
    and "map_of (bSeenLaunchLeaseJTI b) k = Some e \<Longrightarrow> now < e \<Longrightarrow>
      map_of (bSeenLaunchLeaseJTI (snd (rememberLaunchLeaseJTI lease ex now b))) k = Some e
      \<and> (k = leaseKey lease \<longrightarrow> \<not> fst (rememberLaunchLeaseJTI lease ex now b))"
proof -
  have d: "distinct (map fst (filter (\<lambda>(k, expiry). expiry > now) (bSeenLaunchLeaseJTI b)))"
    using assms by (rule distinct_map_filter)
  show "distinct (map fst (bSeenLaunchLeaseJTI (snd (rememberLaunchLeaseJTI lease ex now b))))"
    using d by (simp add: rememberLaunchLeaseJTI_def Let_def gomap_distinct_update)
  show "fst (rememberLaunchLeaseJTI lease ex now b) \<Longrightarrow>
      map_of (bSeenLaunchLeaseJTI (snd (rememberLaunchLeaseJTI lease ex now b))) (leaseKey lease) = Some ex"
    by (auto simp: rememberLaunchLeaseJTI_def Let_def split: if_splits)
  show "map_of (bSeenLaunchLeaseJTI b) k = Some e \<Longrightarrow> now < e \<Longrightarrow>
      map_of (bSeenLaunchLeaseJTI (snd (rememberLaunchLeaseJTI lease ex now b))) k = Some e
      \<and> (k = leaseKey lease \<longrightarrow> \<not> fst (rememberLaunchLeaseJTI lease ex now b))"
    using seen_filter [OF assms, of now] by (auto simp: rememberLaunchLeaseJTI_def Let_def)
qed

record leaseCall =
  vcLease :: "launchIdentityLease option"
  vcKey :: string
  vcServiceID :: string
  vcWorkspaceID :: string
  vcOperation :: string
  vcRefs :: "string list"
  vcNamespaces :: "string list"
  vcPeer :: transportPeerIdentity
  vcAt :: time

definition runLeaseCall :: "'z golib_scheme \<Rightarrow> leaseCall \<Rightarrow> 'm backend_scheme \<Rightarrow> gerror option \<times> 'm backend_scheme" where
  "runLeaseCall L c b = verifyLaunchIdentityLease L (vcLease c) (vcKey c) (vcServiceID c) (vcWorkspaceID c)
     (vcOperation c) (vcRefs c) (vcNamespaces c) (vcPeer c) (b\<lparr>bNow := vcAt c\<rparr>)"

definition runLeaseCalls :: "'z golib_scheme \<Rightarrow> leaseCall list \<Rightarrow> 'm backend_scheme \<Rightarrow> 'm backend_scheme" where
  "runLeaseCalls L cs b = fold (\<lambda>c b. snd (runLeaseCall L c b)) cs b"

definition usedUntil :: "string \<Rightarrow> time \<Rightarrow> 'm backend_scheme \<Rightarrow> bool" where
  "usedUntil k e b \<longleftrightarrow> distinct (map fst (bSeenLaunchLeaseJTI b)) \<and> map_of (bSeenLaunchLeaseJTI b) k = Some e"

lemma call_keeps_used: "usedUntil k e b \<Longrightarrow> vcAt c < e \<Longrightarrow> usedUntil k e (snd (runLeaseCall L c b))"
  using remember_facts [of "b\<lparr>bNow := vcAt c\<rparr>"]
  by (auto simp: runLeaseCall_def verifyLaunchIdentityLease_def usedUntil_def Let_def split: sum.split)

lemma calls_keep_used: "usedUntil k e b \<Longrightarrow> \<forall>c \<in> set cs. vcAt c < e \<Longrightarrow> usedUntil k e (runLeaseCalls L cs b)"
  unfolding runLeaseCalls_def by (induction cs arbitrary: b) (auto simp: call_keeps_used)

lemma call_refused:
  assumes "usedUntil k e b" "vcAt c < e" "vcLease c = Some lease" "leaseKey lease = k"
  shows "fst (runLeaseCall L c b) \<noteq> None"
  using remember_facts(3) [of "b\<lparr>bNow := vcAt c\<rparr>" k e "vcAt c" lease] assms
  by (auto simp: runLeaseCall_def verifyLaunchIdentityLease_def usedUntil_def Let_def split: sum.split)

lemma call_accepted:
  assumes "distinct (map fst (bSeenLaunchLeaseJTI b))" "fst (runLeaseCall L c b) = None"
  obtains lease e where "vcLease c = Some lease" "vcAt c < e" "parseRFC3339 L (trimSpace (llExpiresAt lease)) = Some e"
    "usedUntil (leaseKey lease) e (snd (runLeaseCall L c b))"
proof -
  let ?b = "b\<lparr>bNow := vcAt c\<rparr>"
  obtain e where e: "checkLaunchIdentityLease L (vcLease c) (vcKey c) (vcServiceID c) (vcWorkspaceID c)
      (vcOperation c) (vcRefs c) (vcNamespaces c) (vcPeer c) ?b = Inr e"
    using assms(2) by (auto simp: runLeaseCall_def verifyLaunchIdentityLease_def split: sum.splits)
  then obtain lease where l: "vcLease c = Some lease" "vcAt c < e" "parseRFC3339 L (trimSpace (llExpiresAt lease)) = Some e"
    by (auto simp: checkLaunchIdentityLease_def Let_def split: option.splits if_splits)
  have "fst (rememberLaunchLeaseJTI lease e (vcAt c) ?b)"
    using assms(2) e l(1) by (auto simp: runLeaseCall_def verifyLaunchIdentityLease_def Let_def split: if_splits)
  then have "usedUntil (leaseKey lease) e (snd (runLeaseCall L c b))"
    using remember_facts(1,2) [of ?b lease e "vcAt c"] assms(1) e l(1)
    by (simp add: runLeaseCall_def verifyLaunchIdentityLease_def usedUntil_def Let_def)
  then show ?thesis using that l by blast
qed

text \<open>
  Property C13. A launch lease is single use: once a verification has accepted it, no verification
  of a lease with the same issuer and id is accepted before it expires, whatever other
  verifications happen in between and whatever the rest of the second lease says.
\<close>

theorem lease_single_use:
  assumes "distinct (map fst (bSeenLaunchLeaseJTI b))" "fst (runLeaseCall L c b) = None"
    and "vcLease c = Some lease" "parseRFC3339 L (trimSpace (llExpiresAt lease)) = Some e"
    and "\<forall>c' \<in> set cs. vcAt c' < e" "vcAt again < e" "vcLease again = Some lease'" "leaseKey lease' = leaseKey lease"
  shows "fst (runLeaseCall L again (runLeaseCalls L cs (snd (runLeaseCall L c b)))) \<noteq> None"
proof -
  have "usedUntil (leaseKey lease) e (snd (runLeaseCall L c b))"
    using call_accepted [OF assms(1,2)] assms(3,4) by (metis option.inject)
  from call_refused [OF calls_keep_used [OF this assms(5)] assms(6,7,8)] show ?thesis .
qed

definition demoLease :: launchIdentityLease where
  "demoLease = signLaunchIdentityLease toy_lib \<lparr>llIssuer = ''launcher'', llServiceID = ''api'', llWorkspaceID = [],
     llAllowedRefs = [''services/api/*''], llAllowedNamespaces = [], llAllowedOperations = [''resolve''],
     llIssuedAt = ''iii'', llExpiresAt = ''iiiiiiiii'', llJTI = ''j1'', llSignature = [], llTransportBinding = None\<rparr> ''key''"

definition demoCall :: "time \<Rightarrow> leaseCall" where
  "demoCall t = \<lparr>vcLease = Some demoLease, vcKey = ''key'', vcServiceID = ''api'', vcWorkspaceID = [], vcOperation = ''resolve'',
     vcRefs = [''services/api/db''], vcNamespaces = [], vcPeer = \<lparr>tpKind = [], tpSubject = []\<rparr>, vcAt = t\<rparr>"

definition demoBackend :: backend where
  "demoBackend = lockState.extend demoLock \<lparr>bMasterKey = ''master'', bDisk = NoFile, bSaveFaults = [], bRandom = [],
     bProduction = False, bLaunchIdentitySigningKey = [], bLaunchIdentityIssuer = ''launcher'', bSeenLaunchLeaseJTI = [],
     bCampaigns = [], bSources = []\<rparr>"

theorem lease_single_use_witness:
  "fst (runLeaseCall toy_lib (demoCall 4) demoBackend) = None
   \<and> fst (runLeaseCall toy_lib (demoCall 6) (runLeaseCalls toy_lib [demoCall 5] (snd (runLeaseCall toy_lib (demoCall 4) demoBackend)))) \<noteq> None"
proof (rule conjI)
  show ok: "fst (runLeaseCall toy_lib (demoCall 4) demoBackend) = None" by code_simp
  have e: "parseRFC3339 toy_lib (trimSpace (llExpiresAt demoLease)) = Some 9" by code_simp
  show "fst (runLeaseCall toy_lib (demoCall 6) (runLeaseCalls toy_lib [demoCall 5] (snd (runLeaseCall toy_lib (demoCall 4) demoBackend)))) \<noteq> None"
    by (rule lease_single_use [OF _ ok _ e, where lease' = demoLease])
       (simp_all add: demoCall_def demoBackend_def lockState.defs)
qed

subsection \<open>An accepted lease\<close>

lemma verify_none_check:
  "fst (verifyLaunchIdentityLease L l k svc ws op refs ns peer b) = None \<Longrightarrow>
   \<exists>e. checkLaunchIdentityLease L l k svc ws op refs ns peer b = Inr e"
  by (auto simp: verifyLaunchIdentityLease_def split: sum.splits)

lemma matches_None: "launchTransportBindingMatchesPeer L None peer"
  by (simp add: launchTransportBindingMatchesPeer_def)

text \<open>
  A lease is accepted only if it says so: it comes from the configured issuer, names
  the requesting service, is signed with the signing key (its signature has the hash of the right
  one), has not expired, allows the operation and every well-formed reference and namespace asked
  for, and, if it is bound to a transport identity, which production requires, the peer has that
  identity.
\<close>

theorem lease_acceptance_sound:
  assumes "fst (verifyLaunchIdentityLease L l key svc ws op refs ns peer b) = None"
  shows "\<exists>lease e. l = Some lease
    \<and> trimSpace (llIssuer lease) = trimSpace (bLaunchIdentityIssuer b) \<and> trimSpace (llJTI lease) \<noteq> []
    \<and> svc \<in> {[], trimSpace (llServiceID lease)}
    \<and> trimSpace key \<noteq> [] \<and> sha256 L (trimSpace (llSignature lease)) = sha256 L (trimSpace (leaseSignature L lease key))
    \<and> parseRFC3339 L (trimSpace (llExpiresAt lease)) = Some e \<and> bNow b < e
    \<and> launchLeaseOperationAllowed op (llAllowedOperations lease)
    \<and> launchLeaseRefsAllowed refs ns (llAllowedRefs lease) (llAllowedNamespaces lease)
    \<and> (let binding = normalizeLaunchTransportBinding L (llTransportBinding lease) in
       launchTransportBindingMatchesPeer L binding peer \<and> (bProduction b \<longrightarrow> binding \<noteq> None))"
proof -
  obtain e where e: "checkLaunchIdentityLease L l key svc ws op refs ns peer b = Inr e"
    using verify_none_check [OF assms] by blast
  then obtain lease where l: "l = Some lease" by (auto simp: checkLaunchIdentityLease_def split: option.splits)
  note c = e [unfolded l checkLaunchIdentityLease_def option.case Let_def]
  have sig: "constantTimeTokenEqual L (llSignature lease) (leaseSignature L lease key)"
    using c by (auto split: option.splits if_splits)
  then have "sha256 L (trimSpace (llSignature lease)) = sha256 L (trimSpace (leaseSignature L lease key))"
    by (auto simp: constantTimeTokenEqual_def Let_def split: if_splits)
  moreover have "launchTransportBindingMatchesPeer L (normalizeLaunchTransportBinding L (llTransportBinding lease)) peer"
    using c matches_None [of L peer]
    by (cases "normalizeLaunchTransportBinding L (llTransportBinding lease) = None") (auto split: option.splits if_splits)
  ultimately show ?thesis using c l
    by (intro exI [of _ lease] exI [of _ e]) (auto simp: Let_def split: option.splits if_splits)
qed

end
