(* ===== verification/KV_Store.thy ===== *)
theory KV_Store
  imports Launch_Lease Events "HOL-Library.List_Lexorder" "HOL-Library.Char_ord"
begin

text \<open>
  The versioned key-value store (\<open>kv_v2.go\<close>): reading, writing and patching a path with
  check-and-set, soft deletion of versions, metadata and listing, and the endpoints.

  \<open>kvlib\<close> adds \<open>decodeObject\<close> to the library functions: \<open>json.Unmarshal\<close> of a text into a
  \<open>map[string]any\<close>, \<^const>\<open>None\<close> when it fails or yields \<open>nil\<close>. A JSON value is kept in the three forms
  \<open>kvStringify\<close> distinguishes: \<open>null\<close>, a string, and anything else with the text \<open>json.Marshal\<close> gives
  for it. Requests forwarded to a remote Vault or OpenBao are the parameter \<open>kvForward\<close>. The field
  \<open>custom_metadata\<close>, which is always \<open>nil\<close>, is left out. Version numbers are unbounded integers: an
  overflow needs \<open>2 ^ 63\<close> writes.
\<close>

datatype anyValue = NilValue | StringValue string | OtherValue string

record kvlib = golib +
  decodeObject :: "string \<Rightarrow> anyValue gomap option"

record kvVersionMetadata =
  kmCreatedTime :: string
  kmDeletionTime :: string
  kmDestroyed :: bool
  kmVersion :: int

record kvDataBody =
  kdData :: "string gomap"
  kdMetadata :: kvVersionMetadata

record kvListedVersion =
  klCreatedTime :: string
  klDeletionTime :: string
  klDestroyed :: bool

record kvMetadataBody =
  kbCASRequired :: bool
  kbCreatedTime :: string
  kbCurrentVersion :: int
  kbDeleteVersionAfter :: string
  kbMaxVersions :: int
  kbOldestVersion :: int
  kbUpdatedTime :: string
  kbVersions :: "kvListedVersion gomap"

definition kvV2MaxVersions :: nat where "kvV2MaxVersions = 10"
definition kvV2DefaultMount :: string where "kvV2DefaultMount = ''secret''"
definition kvV2MaxPathBytes :: nat where "kvV2MaxPathBytes = 2048"

subsection \<open>Payloads\<close>

definition kvStringify :: "anyValue \<Rightarrow> string" where
  "kvStringify v = (case v of NilValue \<Rightarrow> [] | StringValue s \<Rightarrow> s | OtherValue s \<Rightarrow> s)"

definition kvStringMap :: "anyValue gomap \<Rightarrow> string gomap" where
  "kvStringMap m = map (\<lambda>(k, v). (k, kvStringify v)) m"

definition jsonStringMap :: "string gomap \<Rightarrow> string" where
  "jsonStringMap m = ''{'' @ joinWith '','' (map (\<lambda>(k, v). jsonField k (jsonQuote v)) (sort_key fst m)) @ ''}''"

definition kvPayloadPlaintext :: "string gomap \<Rightarrow> string" where
  "kvPayloadPlaintext d =
     (if length d = 1 then case map_of d ''value'' of Some v \<Rightarrow> v | None \<Rightarrow> jsonStringMap d
      else jsonStringMap d)"

definition kvDataFromPlaintext :: "'z kvlib_scheme \<Rightarrow> string \<Rightarrow> string gomap" where
  "kvDataFromPlaintext L plaintext =
     (let trimmed = trimSpace plaintext in
      if hasPrefix trimmed ''{'' then
        case decodeObject L trimmed of Some raw \<Rightarrow> kvStringMap raw | None \<Rightarrow> [(''value'', plaintext)]
      else [(''value'', plaintext)])"

subsection \<open>Versions of an entry\<close>

definition kvMetadataFromRecord :: "'z golib_scheme \<Rightarrow> kvVersionRecord \<Rightarrow> kvVersionMetadata" where
  "kvMetadataFromRecord L record = \<lparr>kmCreatedTime = formatNano L (krCreatedTime record), kmDeletionTime = krDeletionTime record,
     kmDestroyed = krDestroyed record, kmVersion = krVersion record\<rparr>"

definition firstVersion :: "secretEntry \<Rightarrow> kvVersionRecord" where
  "firstVersion entry = \<lparr>krVersion = 1, krCreatedTime = smCreatedAt (seMetadata entry), krDeletionTime = [], krDestroyed = False,
     krPayload = sePayload entry\<rparr>"

definition localKVState :: "secretEntry \<Rightarrow> kvSecretState" where
  "localKVState entry =
     (case seKV entry of
        Some kv \<Rightarrow> if ksVersions kv \<noteq> [] then kv
          else if spCiphertext (sePayload entry) = [] then \<lparr>ksCurrent = 0, ksVersions = []\<rparr>
          else \<lparr>ksCurrent = 1, ksVersions = [firstVersion entry]\<rparr>
      | None \<Rightarrow> if spCiphertext (sePayload entry) = [] then \<lparr>ksCurrent = 0, ksVersions = []\<rparr>
          else \<lparr>ksCurrent = 1, ksVersions = [firstVersion entry]\<rparr>)"

definition localKVVersion ::
  "'z kvlib_scheme \<Rightarrow> 'm backend_scheme \<Rightarrow> secretEntry \<Rightarrow> int \<Rightarrow> gerror + kvVersionRecord \<times> string gomap" where
  "localKVVersion L b entry version0 =
     (let state = localKVState entry; version = (if version0 \<le> 0 then ksCurrent state else version0) in
      case find (\<lambda>record. krVersion record = version) (ksVersions state) of
        Some record \<Rightarrow>
          (case decrypt L b (krPayload record) of Inl err \<Rightarrow> Inl err
           | Inr plaintext \<Rightarrow> Inr (record, kvDataFromPlaintext L plaintext))
      | None \<Rightarrow>
          if version = 1 \<or> (version = 0 \<and> ksCurrent state \<le> 1) then
            case decrypt L b (sePayload entry) of Inl err \<Rightarrow> Inl err
            | Inr plaintext \<Rightarrow> Inr (firstVersion entry, kvDataFromPlaintext L plaintext)
          else Inl errKVNotFound)"

definition zeroPayload :: secretPayload where
  "zeroPayload = \<lparr>spAlg = [], spKeyID = [], spKeyVersion = [], spNonce = [], spCiphertext = []\<rparr>"

definition noSecret :: secretEntry where
  "noSecret = \<lparr>seRef = [], seMetadata = zeroMetadata, sePayload = zeroPayload, seKV = None\<rparr>"

definition lastVersions :: "kvVersionRecord list \<Rightarrow> kvVersionRecord list" where
  "lastVersions vs = (if length vs > kvV2MaxVersions then drop (length vs - kvV2MaxVersions) vs else vs)"

definition newVersion :: "int \<Rightarrow> time \<Rightarrow> secretPayload \<Rightarrow> kvVersionRecord" where
  "newVersion n now payload = \<lparr>krVersion = n, krCreatedTime = now, krDeletionTime = [], krDestroyed = False, krPayload = payload\<rparr>"

definition appendLocalKVVersion :: "secretEntry \<Rightarrow> secretPayload \<Rightarrow> time \<Rightarrow> int option \<Rightarrow> gerror + kvSecretState" where
  "appendLocalKVVersion existing payload now cas =
     (let state = localKVState existing in
      if seRef existing = [] \<and> spCiphertext (sePayload existing) = [] \<and> ksCurrent state = 0 then
        if cas \<noteq> None \<and> cas \<noteq> Some 0 then Inl errKVConflict
        else Inr \<lparr>ksCurrent = 1, ksVersions = [newVersion 1 now payload]\<rparr>
      else if cas \<noteq> None \<and> cas \<noteq> Some (ksCurrent state) then Inl errKVConflict
      else
        let next = ksCurrent state + 1 in
        if next = 1 \<and> spCiphertext (sePayload existing) \<noteq> [] \<and> ksVersions state = [] then
          if cas \<noteq> None \<and> cas \<noteq> Some 1 \<and> cas \<noteq> Some 0 then Inl errKVConflict
          else if cas = Some 0 then Inl errKVConflict
          else Inr \<lparr>ksCurrent = 2, ksVersions = lastVersions [firstVersion existing, newVersion 2 now payload]\<rparr>
        else Inr \<lparr>ksCurrent = next, ksVersions = lastVersions (ksVersions state @ [newVersion next now payload])\<rparr>)"

subsection \<open>Reading\<close>

definition kvGone :: "kvVersionRecord \<Rightarrow> bool" where
  "kvGone record \<longleftrightarrow> trimSpace (krDeletionTime record) \<noteq> [] \<or> krDestroyed record"

definition readLocalKVData :: "'z kvlib_scheme \<Rightarrow> string \<Rightarrow> int \<Rightarrow> 'm backend_scheme \<Rightarrow> gerror + kvDataBody" where
  "readLocalKVData L path version b =
     (if isLocked b then Inl errLocked
      else case loadStore b of Inl err \<Rightarrow> Inl err
      | Inr store \<Rightarrow> (case map_of (stSecrets store) path of None \<Rightarrow> Inl errKVNotFound
          | Some entry \<Rightarrow> (case localKVVersion L b entry version of Inl err \<Rightarrow> Inl err
              | Inr (record, data) \<Rightarrow>
                  if kvGone record then Inl errKVDeleted
                  else Inr \<lparr>kdData = data, kdMetadata = kvMetadataFromRecord L record\<rparr>)))"

definition listedVersion :: "'z golib_scheme \<Rightarrow> kvVersionRecord \<Rightarrow> kvListedVersion" where
  "listedVersion L record = \<lparr>klCreatedTime = formatNano L (krCreatedTime record), klDeletionTime = krDeletionTime record,
     klDestroyed = krDestroyed record\<rparr>"

definition readLocalKVMetadata :: "'z golib_scheme \<Rightarrow> string \<Rightarrow> 'm backend_scheme \<Rightarrow> gerror + kvMetadataBody" where
  "readLocalKVMetadata L path b =
     (if isLocked b then Inl errLocked
      else case loadStore b of Inl err \<Rightarrow> Inl err
      | Inr store \<Rightarrow> (case map_of (stSecrets store) path of None \<Rightarrow> Inl errKVNotFound
          | Some entry \<Rightarrow>
              let state = localKVState entry;
                  versions = fold (\<lambda>record m. AList.update (itoa (krVersion record)) (listedVersion L record) m) (ksVersions state) [];
                  oldest = fold (\<lambda>record o1. if o1 = 0 \<or> krVersion record < o1 then krVersion record else o1) (ksVersions state) 0
              in Inr \<lparr>kbCASRequired = False, kbCreatedTime = formatNano L (smCreatedAt (seMetadata entry)),
                   kbCurrentVersion = ksCurrent state, kbDeleteVersionAfter = ''0s'', kbMaxVersions = int kvV2MaxVersions,
                   kbOldestVersion = oldest, kbUpdatedTime = formatNano L (smUpdatedAt (seMetadata entry)), kbVersions = versions\<rparr>))"

text \<open>\<open>strings.Cut(s, "/")\<close>: the part before the first slash, and whether there is one.\<close>

definition cutSlash :: "string \<Rightarrow> string \<times> bool" where
  "cutSlash s = (takeWhile (\<lambda>c. c \<noteq> CHR ''/'') s, CHR ''/'' \<in> set s)"

definition childKey :: "string \<Rightarrow> string \<Rightarrow> string option" where
  "childKey normalized ref =
     (if normalized \<noteq> [] \<and> \<not> hasPrefix ref normalized then None
      else let rest = trimPrefix ref normalized in
        if rest = [] then None
        else let (name, found) = cutSlash rest in Some (if found then name @ ''/'' else name))"

fun kvChildKeys_loop :: "string \<Rightarrow> string list \<Rightarrow> string list \<Rightarrow> string list" where
  "kvChildKeys_loop normalized [] keys = keys"
| "kvChildKeys_loop normalized (ref # refs) keys =
     kvChildKeys_loop normalized refs
       (case childKey normalized ref of None \<Rightarrow> keys | Some key \<Rightarrow> if key \<in> set keys then keys else keys @ [key])"

definition kvChildKeys :: "string list \<Rightarrow> string \<Rightarrow> string list" where
  "kvChildKeys refs keyPrefix =
     (let p = trimSlash keyPrefix; normalized = (if p \<noteq> [] then p @ ''/'' else []) in sort (kvChildKeys_loop normalized refs []))"

definition listLocalKVKeys :: "string \<Rightarrow> 'm backend_scheme \<Rightarrow> gerror + string list" where
  "listLocalKVKeys keyPrefix b =
     (if isLocked b then Inl errLocked
      else case loadStore b of Inl err \<Rightarrow> Inl err
      | Inr store \<Rightarrow> Inr (kvChildKeys (map fst (stSecrets store)) keyPrefix))"

subsection \<open>Writing\<close>

definition patchFields ::
  "'z kvlib_scheme \<Rightarrow> 'm backend_scheme \<Rightarrow> secretEntry option \<Rightarrow> string gomap \<Rightarrow> gerror + string gomap" where
  "patchFields L b existing data =
     (case existing of None \<Rightarrow> Inl errKVNotFound
      | Some entry \<Rightarrow> (case localKVVersion L b entry 0 of Inl err \<Rightarrow> Inl err
          | Inr (current, currentData) \<Rightarrow>
              if kvGone current then Inl errKVDeleted
              else Inr (fold (\<lambda>(k, v) m. AList.update k v m) data (fold (\<lambda>(k, v) m. AList.update k v m) currentData []))))"

definition kvEntry ::
  "'z golib_scheme \<Rightarrow> string \<Rightarrow> secretEntry option \<Rightarrow> secretPayload \<Rightarrow> kvSecretState \<Rightarrow> time \<Rightarrow> secretEntry" where
  "kvEntry L path existing payload kv now =
     \<lparr>seRef = path,
      seMetadata = \<lparr>smSourceID = localStoreSource, smVersion = formatNano L now,
        smCreatedAt = (case existing of Some e \<Rightarrow> smCreatedAt (seMetadata e) | None \<Rightarrow> now), smUpdatedAt = now\<rparr>,
      sePayload = payload, seKV = Some kv\<rparr>"

definition writeLocalKVData ::
  "'z kvlib_scheme \<Rightarrow> string \<Rightarrow> string gomap \<Rightarrow> int option \<Rightarrow> bool \<Rightarrow> 'm backend_scheme
    \<Rightarrow> (gerror + kvVersionMetadata) \<times> 'm backend_scheme" where
  "writeLocalKVData L path data cas patch b =
     (if isLocked b then (Inl errLocked, b)
      else if \<not> validSecretRef path then (Inl errInvalidRef, b)
      else case loadStore b of Inl err \<Rightarrow> (Inl err, b)
      | Inr store \<Rightarrow>
          let existing = map_of (stSecrets store) path in
          case (if patch then patchFields L b existing data else Inr data) of Inl err \<Rightarrow> (Inl err, b)
          | Inr flds \<Rightarrow>
              attempt (encrypt L (kvPayloadPlaintext flds) b)
                (\<lambda>err b1. (Inl err, b1))
                (\<lambda>payload b1.
                   case appendLocalKVVersion (case existing of Some e \<Rightarrow> e | None \<Rightarrow> noSecret) payload (bNow b) cas of
                     Inl err \<Rightarrow> (Inl err, b1)
                   | Inr kv \<Rightarrow>
                       check (saveStore (store\<lparr>stSecrets := AList.update path (kvEntry L path existing payload kv (bNow b)) (stSecrets store),
                                stUpdatedAt := bNow b\<rparr>) b1)
                         (\<lambda>err b2. (Inl err, b2))
                         (\<lambda>b2. (Inr (kvMetadataFromRecord L (last (ksVersions kv))), b2))))"

definition markVersion :: "'z golib_scheme \<Rightarrow> int list \<Rightarrow> bool \<Rightarrow> time \<Rightarrow> kvVersionRecord \<Rightarrow> kvVersionRecord" where
  "markVersion L selected undelete now record =
     (if krVersion record \<notin> set selected then record
      else if undelete then record\<lparr>krDeletionTime := []\<rparr>
      else if trimSpace (krDeletionTime record) = [] then record\<lparr>krDeletionTime := formatNano L now\<rparr> else record)"

definition mutateLocalKVVersions ::
  "'z golib_scheme \<Rightarrow> string \<Rightarrow> int list \<Rightarrow> bool \<Rightarrow> 'm backend_scheme \<Rightarrow> gerror option \<times> 'm backend_scheme" where
  "mutateLocalKVVersions L path versions0 undelete b =
     (if isLocked b then (Some errLocked, b)
      else if \<not> validSecretRef path then (Some errInvalidRef, b)
      else case loadStore b of Inl err \<Rightarrow> (Some err, b)
      | Inr store \<Rightarrow> (case map_of (stSecrets store) path of None \<Rightarrow> (Some errKVNotFound, b)
          | Some entry \<Rightarrow>
              let state = localKVState entry;
                  versions = (if versions0 = [] then [ksCurrent state] else versions0) in
              if \<not> list_ex (\<lambda>record. krVersion record \<in> set versions) (ksVersions state) then (Some errKVNotFound, b)
              else
                let entry' = entry\<lparr>seKV := Some (state\<lparr>ksVersions := map (markVersion L versions undelete (bNow b)) (ksVersions state)\<rparr>),
                      seMetadata := (seMetadata entry)\<lparr>smUpdatedAt := bNow b\<rparr>\<rparr>
                in saveStore (store\<lparr>stSecrets := AList.update path entry' (stSecrets store), stUpdatedAt := bNow b\<rparr>) b))"

end
