(* ===== verification/KV_Api.thy ===== *)
theory KV_Api
  imports KV_Store
begin

text \<open>
  The endpoints of the key-value store (\<open>kv_v2.go\<close>): request parsing, the choice between the local
  store and a remote source, and the mapping of results to replies. A request extends
  \<open>httpRequest\<close> with the path and query of its URL. \<open>kvForward\<close> stands for \<open>forwardOpenBaoKV\<close>, the HTTP
  call to a remote server, and \<open>jsonValid\<close> for \<open>json.Valid\<close>.
\<close>

record kvRequest = httpRequest +
  kqPath :: string
  kqQuery :: "string list gomap"
  kqHasBody :: bool

record kvWriteEnvelope =
  keData :: "anyValue gomap option"
  keCAS :: "int option option"

record kvIO =
  kvForward :: "sourceConfig \<Rightarrow> string \<Rightarrow> string \<Rightarrow> string \<Rightarrow> string \<Rightarrow> kvRequest \<Rightarrow> gerror + int \<times> string"
  jsonValid :: "string \<Rightarrow> bool"

datatype kvBody = KVData kvDataBody | KVWritten kvVersionMetadata | KVMetadata kvMetadataBody | KVKeys "string list"
  | KVErrorList "string list" | KVRaw string | KVNoContent

type_synonym kvReply = "kvBody reply"

definition writeKVErrors :: "int \<Rightarrow> string list \<Rightarrow> kvReply" where
  "writeKVErrors status messages = Json status (KVErrorList (if messages = [] then [''kv request failed''] else messages))"

definition writeKVStoreError :: "gerror \<Rightarrow> kvReply" where
  "writeKVStoreError err =
     (case err of
        errInvalidRef \<Rightarrow> writeKVErrors 400 [''invalid path'']
      | errKVConflict \<Rightarrow> writeKVErrors 400 [''check-and-set parameter did not match the current version'']
      | errKVNotFound \<Rightarrow> writeKVErrors 404 [''no data found'']
      | errMissingRef \<Rightarrow> writeKVErrors 404 [''no data found'']
      | errKVDeleted \<Rightarrow> writeKVErrors 404 [''no data for version'']
      | errLocked \<Rightarrow> writeAPIError 503 ''locked'' ''Secrets Broker local store is locked.'' ''locked'' ''unlock_broker''
      | errSourceAuthRequired \<Rightarrow> writeAPIError 424 ''source_auth_required'' ''Vault or OpenBao token is missing.'' ''source_auth_required'' ''reconnect_source''
      | _ \<Rightarrow> writeAPIError 503 ''degraded'' ''KV backend is unavailable.'' ''degraded'' ''inspect_sources'')"

subsection \<open>Parsing\<close>

definition kvWantsList :: "'z golib_scheme \<Rightarrow> kvRequest \<Rightarrow> bool" where
  "kvWantsList L r =
     (if equalFold L (hMethod r) ''LIST'' then True
      else let v = trimSpace (valuesGet (kqQuery r) ''list'') in v = ''true'' \<or> v = ''1'')"

definition kvQueryVersion :: "kvRequest \<Rightarrow> int" where
  "kvQueryVersion r =
     (let raw = trimSpace (valuesGet (kqQuery r) ''version'') in
      if raw = [] then 0 else case atoi raw of None \<Rightarrow> 0 | Some version \<Rightarrow> if version < 0 then 0 else version)"

definition mountChar :: "char \<Rightarrow> bool" where
  "mountChar c \<longleftrightarrow> (let n = (of_char c :: nat) in
     97 \<le> n \<and> n \<le> 122 \<or> 65 \<le> n \<and> n \<le> 90 \<or> 48 \<le> n \<and> n \<le> 57 \<or> c = CHR ''-'' \<or> c = CHR ''_'')"

definition validKVMount :: "string \<Rightarrow> bool" where
  "validKVMount mount0 =
     (let mount = trimSpace mount0 in
      if mount = [] \<or> length mount > 64 \<or> containsAny mount [CHR ''/'', CHR 0x5C, CHR ''?'', CHR ''#''] then False
      else list_all mountChar mount)"

text \<open>\<open>strings.ReplaceAll(s, old, "")\<close>\<close>

function removeAll_str :: "string \<Rightarrow> string \<Rightarrow> string" where
  "removeAll_str old [] = []"
| "removeAll_str old (c # s) =
     (if old \<noteq> [] \<and> hasPrefix (c # s) old then removeAll_str old (drop (length old) (c # s)) else c # removeAll_str old s)"
  by pat_completeness auto
termination by (relation "measure (\<lambda>(old, s). length s)") auto

definition parseKVRequest ::
  "'z golib_scheme \<Rightarrow> kvRequest \<Rightarrow> string \<Rightarrow> string \<Rightarrow> gerror + string \<times> string \<times> string" where
  "parseKVRequest L r urlPrefix defaultSourceID =
     (let raw = trimPrefix (kqPath r) (trimSuffix urlPrefix ''/'');
          path0 = trimSlash raw;
          path = (if containsStr path0 ''{path}'' then trimSlash (removeAll_str ''{path}'' path0) else path0) in
      if length path > kvV2MaxPathBytes then Inl errInvalidRef
      else if path \<noteq> [] \<and> \<not> validSecretRef path \<and> \<not> kvWantsList L r then Inl errInvalidRef
      else if path \<noteq> [] \<and> kvWantsList L r \<and> trimSlash path \<noteq> [] \<and> \<not> validSecretRef (trimSlash path) then Inl errInvalidRef
      else
        let path' = (if path \<noteq> [] \<and> kvWantsList L r then trimSlash path else path);
            s0 = trimSpace (valuesGet (kqQuery r) ''source'');
            s1 = (if s0 = [] then trimSpace defaultSourceID else s0);
            sourceID = (if s1 \<in> {[], ''local'', ''local-encrypted-store''} then ''local'' else s1);
            m0 = trimSpace (valuesGet (kqQuery r) ''mount'');
            mount = (if m0 = [] then kvV2DefaultMount else m0) in
        if \<not> validKVMount mount then Inl errInvalidRef else Inr (path', sourceID, mount))"

subsection \<open>Remote sources\<close>

definition kvRemoteSource :: "string \<Rightarrow> sourceConfig list \<Rightarrow> sourceConfig option" where
  "kvRemoteSource sourceID sources = find (\<lambda>s. cfSourceID s = sourceID) sources"

definition proxyRemoteKV ::
  "'z golib_scheme \<Rightarrow> kvIO \<Rightarrow> kvRequest \<Rightarrow> string \<Rightarrow> string \<Rightarrow> string \<Rightarrow> string \<Rightarrow> 'm backend_scheme \<Rightarrow> kvReply option" where
  "proxyRemoteKV L io r sourceID mount op path b =
     (if sourceID = ''local'' then None
      else case kvRemoteSource sourceID (bSources b) of
        None \<Rightarrow> Some (writeKVErrors 400 [''unknown kv source''])
      | Some source \<Rightarrow>
          let kind = toLower L (trimSpace (cfKind source)) in
          if kind \<noteq> ''vault'' \<and> kind \<noteq> ''openbao'' then Some (writeKVErrors 400 [''kv source is not Vault or OpenBao''])
          else if \<not> cfEnabled source then Some (writeKVErrors 400 [''kv source is disabled''])
          else case kvForward io source (hMethod r) mount op path r of
            Inl err \<Rightarrow> Some (writeKVStoreError err)
          | Inr (status, body) \<Rightarrow>
              if \<not> jsonValid io body then Some (writeKVStoreError errBackendDegraded) else Some (Json status (KVRaw body)))"

subsection \<open>The endpoints\<close>

definition kvLocate ::
  "'z golib_scheme \<Rightarrow> kvIO \<Rightarrow> kvRequest \<Rightarrow> string \<Rightarrow> string \<Rightarrow> string option \<Rightarrow> 'm backend_scheme \<Rightarrow> kvReply + string" where
  "kvLocate L io r urlPrefix op required b =
     (case parseKVRequest L r urlPrefix (defaultKVV2SourceID L (bSources b)) of
        Inl err \<Rightarrow> Inl (writeKVErrors 400 [''invalid secret ref''])
      | Inr (path, sourceID, mount) \<Rightarrow>
          if path = [] \<and> required \<noteq> None then Inl (writeKVErrors 400 [the required])
          else case proxyRemoteKV L io r sourceID mount op path b of Some rep \<Rightarrow> Inl rep | None \<Rightarrow> Inr path)"

definition serveKVData ::
  "'z kvlib_scheme \<Rightarrow> kvIO \<Rightarrow> string \<Rightarrow> kvRequest \<Rightarrow> kvWriteEnvelope decoded \<Rightarrow> 'm backend_scheme \<Rightarrow> kvReply \<times> 'm backend_scheme" where
  "serveKVData L io token r body b =
     (if hMethod r \<notin> {''GET'', ''POST'', ''PATCH''} then
        (writeKVErrors 405 [''Use GET, POST, or PATCH /v1/kv/data/{path}.''], b)
      else check (require L token (httpRequest.truncate r) b)
        (\<lambda>refusal b1. (refusal, b1))
        (\<lambda>b1. case kvLocate L io r ''/v1/kv/data/'' ''data'' (Some ''kv data path is required'') b1 of
            Inl rep \<Rightarrow> (rep, b1)
          | Inr path \<Rightarrow>
              if hMethod r = ''GET'' then
                case readLocalKVData L path (kvQueryVersion r) b1 of
                  Inl err \<Rightarrow> (writeKVStoreError err, b1)
                | Inr data \<Rightarrow> (Json 200 (KVData data), audit_ignored L ''kv-read'' path ''ready'' [] [] b1)
              else case body of
                BodyTooLarge \<Rightarrow> (writeDecodeError True, b1)
              | BodyMalformed \<Rightarrow> (writeDecodeError False, b1)
              | Decoded req \<Rightarrow>
                  (case keData req of None \<Rightarrow> (writeKVErrors 400 [''missing data''], b1)
                   | Some data \<Rightarrow>
                       let patch = (hMethod r = ''PATCH'') in
                       attempt (writeLocalKVData L path (kvStringMap data) (case keCAS req of Some cas \<Rightarrow> cas | None \<Rightarrow> None) patch b1)
                         (\<lambda>err b2. (writeKVStoreError err, b2))
                         (\<lambda>meta b2. (Json 200 (KVWritten meta),
                            audit_ignored L (if patch then ''kv-patch'' else ''kv-write'') path ''ready'' [] [] b2)))))"

definition serveKVMetadata ::
  "'z golib_scheme \<Rightarrow> kvIO \<Rightarrow> string \<Rightarrow> kvRequest \<Rightarrow> 'm backend_scheme \<Rightarrow> kvReply \<times> 'm backend_scheme" where
  "serveKVMetadata L io token r b =
     (if hMethod r \<noteq> ''GET'' \<and> \<not> equalFold L (hMethod r) ''LIST'' then
        (writeKVErrors 405 [''Use GET or LIST /v1/kv/metadata/{path}.''], b)
      else check (require L token (httpRequest.truncate r) b)
        (\<lambda>refusal b1. (refusal, b1))
        (\<lambda>b1. case kvLocate L io r ''/v1/kv/metadata/'' ''metadata'' None b1 of
            Inl rep \<Rightarrow> (rep, b1)
          | Inr path \<Rightarrow>
              if kvWantsList L r then
                case listLocalKVKeys path b1 of
                  Inl err \<Rightarrow> (writeKVStoreError err, b1)
                | Inr keys \<Rightarrow>
                    if keys = [] then (writeKVErrors 404 [''no keys found''], b1)
                    else (Json 200 (KVKeys keys), audit_ignored L ''kv-list'' path ''ready'' [] [] b1)
              else if path = [] then (writeKVErrors 400 [''kv metadata path is required''], b1)
              else case readLocalKVMetadata L path b1 of
                Inl err \<Rightarrow> (writeKVStoreError err, b1)
              | Inr data \<Rightarrow> (Json 200 (KVMetadata data), audit_ignored L ''kv-metadata'' path ''ready'' [] [] b1)))"

definition serveKVDelete ::
  "'z golib_scheme \<Rightarrow> kvIO \<Rightarrow> string \<Rightarrow> bool \<Rightarrow> kvRequest \<Rightarrow> int list decoded \<Rightarrow> 'm backend_scheme \<Rightarrow> kvReply \<times> 'm backend_scheme" where
  "serveKVDelete L io token undelete r body b =
     (if hMethod r \<noteq> ''POST'' then
        (writeKVErrors 405 [if undelete then ''Use POST /v1/kv/undelete/{path}.'' else ''Use POST /v1/kv/delete/{path}.''], b)
      else check (require L token (httpRequest.truncate r) b)
        (\<lambda>refusal b1. (refusal, b1))
        (\<lambda>b1. case kvLocate L io r (if undelete then ''/v1/kv/undelete/'' else ''/v1/kv/delete/'') (if undelete then ''undelete'' else ''delete'')
                    (Some ''kv path is required'') b1 of
            Inl rep \<Rightarrow> (rep, b1)
          | Inr path \<Rightarrow>
              (case (if kqHasBody r then body else Decoded []) of
                BodyTooLarge \<Rightarrow> (writeDecodeError True, b1)
              | BodyMalformed \<Rightarrow> (writeDecodeError False, b1)
              | Decoded versions \<Rightarrow>
                  check (mutateLocalKVVersions L path versions undelete b1)
                    (\<lambda>err b2. (writeKVStoreError err, b2))
                    (\<lambda>b2. (Json 204 KVNoContent, audit_ignored L (if undelete then ''kv-undelete'' else ''kv-delete'') path ''ready'' [] [] b2)))))"

end
