(* ===== verification/Resolve.thy ===== *)
theory Resolve
  imports Launch_Lease
begin

text \<open>
  \<open>resolve\<close> of \<open>local_store.go\<close>: the values of a list of references for a service, from the external
  sources and the local store, with the policy decision per reference.
\<close>

record resolveRequest =
  rqRequestID :: string
  rqWorkspaceID :: string
  rqServiceID :: string
  rqIdentityLease :: "launchIdentityLease option"
  rqPurpose :: string
  rqSecrets :: "serviceSecretsPolicy option"
  rqRefs :: "string list"

record resolveResult =
  rrRef :: string
  rrOutcome :: string
  rrValue :: string
  rrMetadata :: "SecretMetadata option"
  rrMessage :: string
  rrPolicyResult :: string
  rrNextAction :: string
  rrReasonCode :: string

record resolveResponse =
  rsServiceID :: string
  rsAPIVersion :: string
  rsRequestID :: string
  rsResults :: "resolveResult list"

definition auditPolicyDecision ::
  "'z golib_scheme \<Rightarrow> string \<Rightarrow> secretPolicyDecision \<Rightarrow> string \<Rightarrow> 'm auditState_scheme \<Rightarrow> gerror option \<times> 'm auditState_scheme" where
  "auditPolicyDecision L ref decision requestID b =
     writeAuditEvent L (emptyAuditEvent\<lparr>aeTS := bNow b, aeOperation := ''policy_decision'', aeRef := ref,
       aeOutcome := dOutcome decision, aeServiceID := dServiceID decision, aeRequestID := requestID,
       aeReasonCode := dReasonCode decision\<rparr>) b"

definition auditSourceLifecycle ::
  "'z golib_scheme \<Rightarrow> string \<Rightarrow> sourceResolveResult \<Rightarrow> string \<Rightarrow> string \<Rightarrow> 'm auditState_scheme \<Rightarrow> gerror option \<times> 'm auditState_scheme" where
  "auditSourceLifecycle L ref result requestServiceID requestID b =
     writeAuditEvent L (emptyAuditEvent\<lparr>aeTS := bNow b, aeOperation := ''source_lifecycle'', aeRef := ref,
       aeOutcome := srOutcome result, aeState := slState (srLifecycle result), aeSourceID := srSourceID result,
       aeServiceID := requestServiceID, aeRequestID := requestID\<rparr>) b"

definition emptyResult :: "string \<Rightarrow> resolveResult" where
  "emptyResult ref = \<lparr>rrRef = ref, rrOutcome = [], rrValue = [], rrMetadata = None, rrMessage = [], rrPolicyResult = [],
     rrNextAction = [], rrReasonCode = []\<rparr>"

definition resolveLocal :: "'z golib_scheme \<Rightarrow> localStoreFile \<Rightarrow> 'm backend_scheme \<Rightarrow> string \<Rightarrow> resolveResult option" where
  "resolveLocal L store b ref =
     (case map_of (stSecrets store) ref of None \<Rightarrow> None
      | Some entry \<Rightarrow> Some
          (case decrypt L b (sePayload entry) of
             Inl _ \<Rightarrow> (emptyResult ref)\<lparr>rrOutcome := ''degraded'', rrMessage := ''Secret payload could not be decrypted.''\<rparr>
           | Inr v \<Rightarrow> (emptyResult ref)\<lparr>rrOutcome := ''ready'', rrValue := v, rrMetadata := Some (seMetadata entry)\<rparr>))"

definition resolveFromSource ::
  "'z golib_scheme \<Rightarrow> resolveRequest \<Rightarrow> sourceResolveResult \<Rightarrow> string \<Rightarrow> 'm backend_scheme \<Rightarrow> resolveResult \<times> 'm backend_scheme" where
  "resolveFromSource L req sr ref b =
     (let res = (emptyResult ref)\<lparr>rrOutcome := srOutcome sr, rrMessage := srMessage sr\<rparr> in
      (if srOutcome sr = ''ready''
       then res\<lparr>rrValue := srValue sr, rrMetadata := Some (zeroMetadata\<lparr>smSourceID := srSourceID sr, smVersion := ''source''\<rparr>)\<rparr>
       else res,
       snd (auditSourceLifecycle L ref sr (rqServiceID req) (rqRequestID req) b)))"

definition resolveDefault ::
  "'z golib_scheme \<Rightarrow> sourceIO \<Rightarrow> resolveRequest \<Rightarrow> localStoreFile \<Rightarrow> string \<Rightarrow> 'm backend_scheme \<Rightarrow> resolveResult \<times> 'm backend_scheme" where
  "resolveDefault L io req store ref b =
     (let preferred = resolveKind L io (bSources b) ref ''openbao'' in
      if srFound preferred then resolveFromSource L req preferred ref b
      else case resolveLocal L store b ref of
        Some res \<Rightarrow> (res, b)
      | None \<Rightarrow>
          let other = resolveSources L io (bSources b) ref in
          if srFound other then resolveFromSource L req other ref b
          else ((emptyResult ref)\<lparr>rrOutcome := ''missing_ref'', rrMessage := ''Secret ref was not found.''\<rparr>, b))"

definition resolveDecision :: "resolveRequest \<Rightarrow> string \<Rightarrow> secretPolicyDecision" where
  "resolveDecision req ref = evaluateServiceSecretsPolicy (rqServiceID req) ''resolve'' ref (rqSecrets req)"

definition resolveOne ::
  "'z golib_scheme \<Rightarrow> sourceIO \<Rightarrow> resolveRequest \<Rightarrow> gerror + localStoreFile \<Rightarrow> string \<Rightarrow> 'm backend_scheme
    \<Rightarrow> resolveResult \<times> 'm backend_scheme" where
  "resolveOne L io req loaded rawRef b =
     (let ref = trimSpace rawRef;
          r = (if \<not> validSecretRef ref then
                 ((emptyResult ref)\<lparr>rrOutcome := ''invalid_ref'', rrMessage := ''Secret ref is invalid.''\<rparr>, b)
               else if rqSecrets req \<noteq> None \<and> dOutcome (resolveDecision req ref) \<noteq> ''allowed'' then
                 let decision = resolveDecision req ref in
                 ((emptyResult ref)\<lparr>rrOutcome := ''policy_denied'', rrMessage := ''Service secret policy denied resolve.'',
                    rrPolicyResult := dOutcome decision, rrNextAction := dNextAction decision, rrReasonCode := dReasonCode decision\<rparr>,
                  snd (auditPolicyDecision L ref decision (rqRequestID req) b))
               else if isLocked b then
                 ((emptyResult ref)\<lparr>rrOutcome := ''locked'', rrMessage := ''Secrets Broker local store is locked.''\<rparr>, b)
               else case loaded of
                 Inl _ \<Rightarrow> ((emptyResult ref)\<lparr>rrOutcome := ''degraded'', rrMessage := ''Local store could not be read.''\<rparr>, b)
               | Inr store \<Rightarrow> resolveDefault L io req store ref b)
      in (fst r, audit_ignored L ''resolve'' ref (rrOutcome (fst r)) (rqServiceID req) (rqRequestID req) (snd r)))"

primrec resolveAll ::
  "'z golib_scheme \<Rightarrow> sourceIO \<Rightarrow> resolveRequest \<Rightarrow> gerror + localStoreFile \<Rightarrow> string list \<Rightarrow> 'm backend_scheme
    \<Rightarrow> resolveResult list \<times> 'm backend_scheme" where
  "resolveAll L io req loaded [] b = ([], b)"
| "resolveAll L io req loaded (r # rs) b =
     (let one = resolveOne L io req loaded r b; rest = resolveAll L io req loaded rs (snd one)
      in (fst one # fst rest, snd rest))"

definition resolve ::
  "'z golib_scheme \<Rightarrow> sourceIO \<Rightarrow> resolveRequest \<Rightarrow> 'm backend_scheme \<Rightarrow> resolveResponse \<times> 'm backend_scheme" where
  "resolve L io req b =
     (let all = resolveAll L io req (loadStore b) (rqRefs req) b in
      (\<lparr>rsServiceID = serviceID, rsAPIVersion = apiVersion, rsRequestID = rqRequestID req, rsResults = fst all\<rparr>, snd all))"

subsection \<open>The endpoint\<close>

definition authorizeResolveLaunchLease ::
  "'z golib_scheme \<Rightarrow> resolveRequest \<Rightarrow> string \<Rightarrow> transportPeerIdentity \<Rightarrow> 'm backend_scheme
    \<Rightarrow> (gerror + resolveRequest) \<times> 'm backend_scheme" where
  "authorizeResolveLaunchLease L req signingKey peer b =
     check (verifyLaunchIdentityLease L (rqIdentityLease req) signingKey (trimSpace (rqServiceID req)) (trimSpace (rqWorkspaceID req))
              ''resolve'' (rqRefs req) [] peer b)
       (\<lambda>err b1. (Inl err, audit_ignored L ''launch_identity'' [] (launchIdentityOutcome err) (trimSpace (rqServiceID req)) (rqRequestID req) b1))
       (\<lambda>b1.
          let lease = the (rqIdentityLease req);
              req' = req\<lparr>rqServiceID := trimSpace (llServiceID lease),
                rqWorkspaceID := (if trimSpace (rqWorkspaceID req) = [] then trimSpace (llWorkspaceID lease) else rqWorkspaceID req),
                rqSecrets := (if rqSecrets req = None \<and> llAllowedRefs lease \<noteq> []
                  then Some \<lparr>Resolve = safeList (llAllowedRefs lease), Writeback = [], Manage = []\<rparr> else rqSecrets req)\<rparr>
          in (Inr req', audit_ignored L ''launch_identity'' [] ''allowed'' (rqServiceID req') (rqRequestID req) b1))"

definition writeLaunchIdentityAPIError :: "gerror \<Rightarrow> 'r reply" where
  "writeLaunchIdentityAPIError err =
     (case err of
        errIdentityExpired \<Rightarrow> writeAPIError 401 ''identity_expired'' ''Launch identity lease is expired.'' ''identity_expired'' ''renew_launch_identity''
      | errIdentityReplayed \<Rightarrow> writeAPIError 401 ''identity_replayed'' ''Launch identity lease has already been used.'' ''identity_replayed'' ''renew_launch_identity''
      | errPolicyDenied \<Rightarrow> writeAPIError 403 ''policy_denied'' ''Launch identity lease does not allow this request.'' ''policy_denied'' ''renew_launch_identity''
      | _ \<Rightarrow> writeAPIError 401 ''identity_invalid'' ''Launch identity lease is missing or invalid.'' ''identity_invalid'' ''renew_launch_identity'')"

definition resolveHandler ::
  "'z golib_scheme \<Rightarrow> sourceIO \<Rightarrow> string \<Rightarrow> transportPeerIdentity option \<Rightarrow> httpRequest \<Rightarrow> resolveRequest decoded \<Rightarrow> 'm backend_scheme
    \<Rightarrow> resolveResponse reply \<times> 'm backend_scheme" where
  "resolveHandler L io token ctx r body b =
     (if hMethod r \<noteq> ''POST'' then
        (writeAPIError 405 ''method_not_allowed'' ''Use POST /v1/resolve.'' ''invalid_ref'' [], b)
      else check (require L token r b)
        (\<lambda>refusal b1. (refusal, b1))
        (\<lambda>b1. case body of
            BodyTooLarge \<Rightarrow> (writeDecodeError True, b1)
          | BodyMalformed \<Rightarrow> (writeDecodeError False, b1)
          | Decoded req \<Rightarrow>
              attempt (authorizeResolveLaunchLease L req (launchLeaseSigningKey token b1) (transportPeerIdentityFromContext L ctx) b1)
                (\<lambda>err b2. (writeLaunchIdentityAPIError err, b2))
                (\<lambda>req' b2. let res = resolve L io req' b2 in (Json 200 (fst res), snd res))))"

subsection \<open>Facts\<close>

lemma write_keeps_backend [simp, store_frame]:
  fixes b :: "'m backend_scheme"
  shows "bMasterKey (snd (writeAuditEvent L e b)) = bMasterKey b" "bDisk (snd (writeAuditEvent L e b)) = bDisk b"
    "bSources (snd (writeAuditEvent L e b)) = bSources b"
  using writeAuditEvent_frame [of L e b] by auto

lemma resolveDefault_keeps [simp, store_frame]:
  "bMasterKey (snd (resolveDefault L io req s ref b)) = bMasterKey b"
  "bDisk (snd (resolveDefault L io req s ref b)) = bDisk b"
  "bSources (snd (resolveDefault L io req s ref b)) = bSources b"
  by (simp_all add: resolveDefault_def resolveFromSource_def auditSourceLifecycle_def Let_def split: option.split)

lemma resolveOne_keeps [simp, store_frame]:
  "bMasterKey (snd (resolveOne L io req ld ref b)) = bMasterKey b"
  "bDisk (snd (resolveOne L io req ld ref b)) = bDisk b"
  "bSources (snd (resolveOne L io req ld ref b)) = bSources b"
  by (simp_all add: resolveOne_def auditPolicyDecision_def Let_def split: sum.split)

lemma resolveAll_keeps [simp, store_frame]:
  "bMasterKey (snd (resolveAll L io req ld rs b)) = bMasterKey b \<and> bDisk (snd (resolveAll L io req ld rs b)) = bDisk b
   \<and> bSources (snd (resolveAll L io req ld rs b)) = bSources b"
  by (induction rs arbitrary: b) (simp_all add: Let_def)

text \<open>The answer for one reference, from the parts of the state it depends on.\<close>

definition answerFor ::
  "'z golib_scheme \<Rightarrow> sourceIO \<Rightarrow> resolveRequest \<Rightarrow> gerror + localStoreFile \<Rightarrow> 'm backend_scheme \<Rightarrow> string \<Rightarrow> resolveResult" where
  "answerFor L io req ld b rawRef = fst (resolveOne L io req ld rawRef b)"

lemma resolveLocal_cong: "bMasterKey b = bMasterKey b' \<Longrightarrow> resolveLocal L s b ref = resolveLocal L s b' ref"
  by (simp add: resolveLocal_def decrypt_cong [of b b'] split: option.split)

lemma answerFor_cong:
  assumes "bMasterKey b = bMasterKey b'" "bSources b = bSources b'"
  shows "answerFor L io req ld b r = answerFor L io req ld b' r"
proof -
  have "fst (resolveDefault L io req s ref b) = fst (resolveDefault L io req s ref b')" for s ref
    using resolveLocal_cong [OF assms(1), of L s ref] assms(2)
    by (simp add: resolveDefault_def resolveFromSource_def Let_def split: option.split)
  then show ?thesis using assms(1)
    by (simp add: answerFor_def resolveOne_def isLocked_def Let_def split: sum.split)
qed

lemma resolveAll_map: "fst (resolveAll L io req ld rs b) = map (answerFor L io req ld b) rs"
proof (induction rs arbitrary: b)
  case (Cons r rs)
  have "answerFor L io req ld (snd (resolveOne L io req ld r b)) x = answerFor L io req ld b x" for x
    by (rule answerFor_cong) simp_all
  then show ?case using Cons by (simp add: Let_def answerFor_def)
qed simp

lemma resolveDefault_ref [simp]: "rrRef (fst (resolveDefault L io req s ref b)) = ref"
  by (simp add: resolveDefault_def resolveFromSource_def resolveLocal_def emptyResult_def Let_def split: option.split sum.split)

lemma resolveDefault_value: "rrValue (fst (resolveDefault L io req s ref b)) \<noteq> [] \<Longrightarrow> rrOutcome (fst (resolveDefault L io req s ref b)) = ''ready''"
  by (auto simp: resolveDefault_def resolveFromSource_def resolveLocal_def emptyResult_def Let_def split: option.splits sum.splits if_splits)

lemma answer_facts:
  "rrRef (answerFor L io req ld b r) = trimSpace r"
  "rrValue (answerFor L io req ld b r) \<noteq> [] \<Longrightarrow> rrOutcome (answerFor L io req ld b r) = ''ready'' \<and> validSecretRef r
     \<and> \<not> isLocked b \<and> (rqSecrets req = None \<or> dOutcome (resolveDecision req (trimSpace r)) = ''allowed'')"
proof -
  show "rrRef (answerFor L io req ld b r) = trimSpace r"
    by (simp add: answerFor_def resolveOne_def Let_def emptyResult_def split: sum.split)
  show "rrValue (answerFor L io req ld b r) \<noteq> [] \<Longrightarrow> rrOutcome (answerFor L io req ld b r) = ''ready'' \<and> validSecretRef r
     \<and> \<not> isLocked b \<and> (rqSecrets req = None \<or> dOutcome (resolveDecision req (trimSpace r)) = ''allowed'')"
    by (auto simp: answerFor_def resolveOne_def Let_def emptyResult_def resolveDefault_value split: sum.splits if_splits)
qed

text \<open>
  Property C14. \<open>resolve\<close> answers each reference of the request once, in order; it reveals a value only
  with the outcome \<open>ready\<close>, for a well-formed reference, from an unlocked broker and, when the
  request carries a policy, only if that policy allows the service to resolve it; and it changes
  neither the store nor the key nor the sources.
\<close>

theorem resolve_reveals_only_allowed:
  "map rrRef (rsResults (fst (resolve L io req b))) = map trimSpace (rqRefs req)
   \<and> (\<forall>res \<in> set (rsResults (fst (resolve L io req b))). rrValue res \<noteq> [] \<longrightarrow>
        rrOutcome res = ''ready'' \<and> validSecretRef (rrRef res) \<and> \<not> isLocked b
        \<and> (rqSecrets req = None \<or> dOutcome (evaluateServiceSecretsPolicy (rqServiceID req) ''resolve'' (rrRef res) (rqSecrets req)) = ''allowed''))
   \<and> bDisk (snd (resolve L io req b)) = bDisk b \<and> bMasterKey (snd (resolve L io req b)) = bMasterKey b
   \<and> bSources (snd (resolve L io req b)) = bSources b"
  using answer_facts [of L io req "loadStore b" b] resolveAll_keeps [of L io req "loadStore b" "rqRefs req" b]
  by (auto simp: resolve_def Let_def resolveAll_map resolveDecision_def)

definition demoResolve :: "string list \<Rightarrow> resolveRequest" where
  "demoResolve refs = \<lparr>rqRequestID = ''r'', rqWorkspaceID = [], rqServiceID = ''api'', rqIdentityLease = None, rqPurpose = [],
     rqSecrets = Some \<lparr>Resolve = [''services/api/*''], Writeback = [], Manage = []\<rparr>, rqRefs = refs\<rparr>"

theorem resolve_reveals_only_allowed_witness:
  "map rrRef (rsResults (fst (resolve toy_lib demoIO (demoResolve ['' services/api/db '', ''services/web/db'']) demoBackend)))
     = [''services/api/db'', ''services/web/db'']
   \<and> bDisk (snd (resolve toy_lib demoIO (demoResolve ['' services/api/db '', ''services/web/db'']) demoBackend)) = NoFile"
proof -
  have t: "map trimSpace ['' services/api/db '', ''services/web/db''] = [''services/api/db'', ''services/web/db'']" by code_simp
  have d: "bDisk demoBackend = NoFile" by (simp add: demoBackend_def lockState.defs)
  show ?thesis
    using resolve_reveals_only_allowed [of toy_lib demoIO "demoResolve ['' services/api/db '', ''services/web/db'']" demoBackend]
    unfolding d by (simp only: demoResolve_def resolveRequest.select_convs t simp_thms)
qed

text \<open>
  Property C15. A secret that was written resolves to the value that was written: after a successful
  write, \<open>resolve\<close> of the same reference returns the value, unless an enabled OpenBao source maps the
  reference, and provided the policy of the request allows it.
\<close>

theorem write_then_resolve:
  assumes "lib_ok L" "writeSecret L w b = ((res, None), b')" "trimSpace r = trimSpace (wqRef w)"
    and "\<not> srFound (resolveKind L io (bSources b) (trimSpace r) ''openbao'')"
    and "rqSecrets req = None \<or> dOutcome (evaluateServiceSecretsPolicy (rqServiceID req) ''resolve'' (trimSpace r) (rqSecrets req)) = ''allowed''"
    and "rqRefs req = [r]"
  shows "map (\<lambda>x. (rrOutcome x, rrValue x)) (rsResults (fst (resolve L io req b'))) = [(''ready'', wqValue w)]"
proof (rule writeSecret_disk [of L w b])
  assume "snd (fst (writeSecret L w b)) \<noteq> None"
  then show ?thesis using assms(2) by simp
next
  fix p s
  assume a: "validSecretRef (wqRef w)" "\<not> isLocked b" "fst (encrypt L (wqValue w) b) = Inr p" "loadStore b = Inr s"
    "bDisk (snd (writeSecret L w b)) = Stored (storeWith L w p s b)"
  let ?e = "entryOf L w p (stampKey L (bMasterKey b) s) (bNow b)"
  have ref: "validSecretRef (trimSpace r)" using a(1) assms(3) by simp
  have b': "b' = snd (writeSecret L w b)" using assms(2) by simp
  then have k: "bMasterKey b' = bMasterKey b" "bSources b' = bSources b" "\<not> isLocked b'"
    using a(2) by (simp_all add: isLocked_def)
  have ld: "loadStore b' = Inr (storeWith L w p s b)" using a(5) b' by (simp add: loadStore_def)
  have m: "map_of (stSecrets (storeWith L w p s b)) (trimSpace r) = Some ?e"
    using assms(3) by (simp add: storeWith_def Let_def)
  have "decrypt L b' (sePayload ?e) = Inr (wqValue w)"
    using decrypt_encrypt [OF assms(1) a(3) k(1)] by (simp add: entryOf_def Let_def)
  then have "resolveLocal L (storeWith L w p s b) b' (trimSpace r)
      = Some ((emptyResult (trimSpace r))\<lparr>rrOutcome := ''ready'', rrValue := wqValue w, rrMetadata := Some (seMetadata ?e)\<rparr>)"
    using m by (simp add: resolveLocal_def)
  then have "fst (resolveDefault L io req (storeWith L w p s b) (trimSpace r) b')
      = (emptyResult (trimSpace r))\<lparr>rrOutcome := ''ready'', rrValue := wqValue w, rrMetadata := Some (seMetadata ?e)\<rparr>"
    using assms(4) k(2) by (simp add: resolveDefault_def Let_def)
  then have "answerFor L io req (loadStore b') b' r
      = (emptyResult (trimSpace r))\<lparr>rrOutcome := ''ready'', rrValue := wqValue w, rrMetadata := Some (seMetadata ?e)\<rparr>"
    using assms(5) k(3) ref ld by (auto simp: answerFor_def resolveOne_def Let_def resolveDecision_def)
  then show ?thesis using assms(6) by (simp add: resolve_def Let_def answerFor_def)
qed

definition demoWrite :: writeSecretRequest where
  "demoWrite = \<lparr>wqRef = '' services/api/db '', wqValue = ''hunter2'', wqMetadata = []\<rparr>"

theorem write_then_resolve_witness:
  "map (\<lambda>x. (rrOutcome x, rrValue x)) (rsResults (fst (resolve toy_lib demoIO (demoResolve [''services/api/db''])
     (snd (writeSecret toy_lib demoWrite demoBackend))))) = [(''ready'', ''hunter2'')]"
proof -
  have w: "writeSecret toy_lib demoWrite demoBackend
      = ((fst (fst (writeSecret toy_lib demoWrite demoBackend)), None), snd (writeSecret toy_lib demoWrite demoBackend))"
    (is "?w = _")
  proof -
    have "snd (fst ?w) = None" by code_simp
    then show ?thesis by (metis prod.collapse)
  qed
  have "map (\<lambda>x. (rrOutcome x, rrValue x)) (rsResults (fst (resolve toy_lib demoIO (demoResolve [''services/api/db''])
     (snd (writeSecret toy_lib demoWrite demoBackend))))) = [(''ready'', wqValue demoWrite)]"
  proof (rule write_then_resolve [OF toy_lib_ok w])
    show "trimSpace ''services/api/db'' = trimSpace (wqRef demoWrite)" by code_simp
    show "\<not> srFound (resolveKind toy_lib demoIO (bSources demoBackend) (trimSpace ''services/api/db'') ''openbao'')" by code_simp
    show "rqSecrets (demoResolve [''services/api/db'']) = None
      \<or> dOutcome (evaluateServiceSecretsPolicy (rqServiceID (demoResolve [''services/api/db''])) ''resolve'' (trimSpace ''services/api/db'')
          (rqSecrets (demoResolve [''services/api/db'']))) = ''allowed''" by code_simp
    show "rqRefs (demoResolve [''services/api/db'']) = [''services/api/db'']" by (simp add: demoResolve_def)
  qed
  then show ?thesis by (simp add: demoWrite_def)
qed

end
