(* ===== verification/Writeback.thy ===== *)
theory Writeback
  imports Resolve
begin

text \<open>
  Capturing a generated secret (\<open>captureGeneratedSecret\<close> of \<open>local_store.go\<close>) and its endpoint. The
  operation passes through a chain of gates (well-formed reference, identity, policy, source
  authentication, unlocked broker), each with a lockout scope of its own, before it writes or
  deletes the secret.
\<close>

record writebackPolicy =
  wpAllowedNamespaces :: "string list"
  wpAllowedOperations :: "string list"

record writebackIdentity =
  wiServiceID :: string
  wiExpiresAt :: string

record generatedSecretCaptureRequest =
  gqRequestID :: string
  gqIdentity :: writebackIdentity
  gqIdentityLease :: "launchIdentityLease option"
  gqPolicy :: writebackPolicy
  gqSecrets :: "serviceSecretsPolicy option"
  gqOperation :: string
  gqNamespace :: string
  gqRef :: string
  gqValue :: string
  gqMetadata :: "string gomap"
  gqRefreshRequired :: bool
  gqReconnectRequired :: bool
  gqInvalidateRefs :: "string list"
  gqSourceAuthRequired :: bool

record generatedSecretCaptureResponse =
  grServiceID :: string
  grAPIVersion :: string
  grRequestID :: string
  grOwnerServiceID :: string
  grOperation :: string
  grNamespace :: string
  grRef :: string
  grOutcome :: string
  grRefreshRequired :: bool
  grReconnectRequired :: bool
  grInvalidatedRefs :: "string list"
  grMetadata :: SecretMetadata
  grLockoutActive :: bool
  grLockoutScope :: string
  grRetryAfterSeconds :: int

definition authorizeWritebackLaunchLease ::
  "'z golib_scheme \<Rightarrow> generatedSecretCaptureRequest \<Rightarrow> string \<Rightarrow> transportPeerIdentity \<Rightarrow> 'm backend_scheme
    \<Rightarrow> (gerror + generatedSecretCaptureRequest) \<times> 'm backend_scheme" where
  "authorizeWritebackLaunchLease L req signingKey peer b =
     (let operation = normalizeWritebackOperation (gqOperation req);
          namespace = trimSlash (trimSpace (gqNamespace req));
          ref = trimSlash (trimSpace (gqRef req));
          fullRef = trimSlash (namespace @ ''/'' @ ref);
          svc = trimSpace (wiServiceID (gqIdentity req)) in
      check (verifyLaunchIdentityLease L (gqIdentityLease req) signingKey svc [] operation [fullRef] [namespace] peer b)
        (\<lambda>err b1. (Inl err, audit_ignored L ''launch_identity'' fullRef (launchIdentityOutcome err) svc (gqRequestID req) b1))
        (\<lambda>b1.
           let lease = the (gqIdentityLease req);
               pol = gqPolicy req;
               req' = req\<lparr>gqIdentity := \<lparr>wiServiceID = trimSpace (llServiceID lease), wiExpiresAt = trimSpace (llExpiresAt lease)\<rparr>,
                 gqPolicy := \<lparr>
                   wpAllowedNamespaces = (if wpAllowedNamespaces pol = [] \<and> llAllowedNamespaces lease \<noteq> []
                     then safeList (llAllowedNamespaces lease) else wpAllowedNamespaces pol),
                   wpAllowedOperations = (if wpAllowedOperations pol = [] \<and> llAllowedOperations lease \<noteq> []
                     then safeList (llAllowedOperations lease) else wpAllowedOperations pol)\<rparr>\<rparr>
           in (Inr req', audit_ignored L ''launch_identity'' fullRef ''allowed'' (wiServiceID (gqIdentity req')) (gqRequestID req) b1)))"

definition writebackLockoutScope :: "string \<Rightarrow> string \<Rightarrow> string \<Rightarrow> string \<Rightarrow> string" where
  "writebackLockoutScope family service operation ref =
     joinWith '':'' [''writeback'', trimSpace family, trimSpace operation, orDefault (trimSpace service) ''unknown'', trimSlash (trimSpace ref)]"

definition activeWritebackLockout :: "string \<Rightarrow> 'm lockState_scheme \<Rightarrow> lockoutDecision \<times> 'm lockState_scheme" where
  "activeWritebackLockout scope b =
     (let r = active scope (bNow b) (bLockouts b) in (fst r, b\<lparr>bLockouts := snd r\<rparr>))"

definition recordWritebackLockoutFailure :: "string \<Rightarrow> 'm lockState_scheme \<Rightarrow> (lockoutDecision \<times> bool) \<times> 'm lockState_scheme" where
  "recordWritebackLockoutFailure scope b =
     (let r = recordFailure scope (bNow b) (bLockouts b) in (fst r, b\<lparr>bLockouts := snd r\<rparr>))"

definition recordWritebackLockoutSuccess :: "string \<Rightarrow> 'm lockState_scheme \<Rightarrow> 'm lockState_scheme" where
  "recordWritebackLockoutSuccess scope b = b\<lparr>bLockouts := recordSuccess scope (bLockouts b)\<rparr>"

definition applyWritebackLockout :: "generatedSecretCaptureResponse \<Rightarrow> lockoutDecision \<Rightarrow> generatedSecretCaptureResponse" where
  "applyWritebackLockout res d = res\<lparr>grLockoutActive := True, grLockoutScope := ldScope d, grRetryAfterSeconds := ldRetryAfterSeconds d\<rparr>"

type_synonym 'm captureResult = "(generatedSecretCaptureResponse \<times> gerror option) \<times> 'm"

definition captureLockedOut ::
  "'z golib_scheme \<Rightarrow> generatedSecretCaptureRequest \<Rightarrow> generatedSecretCaptureResponse \<Rightarrow> lockoutDecision \<Rightarrow> 'm backend_scheme
    \<Rightarrow> 'm backend_scheme captureResult" where
  "captureLockedOut L req res d b =
     ((applyWritebackLockout (res\<lparr>grOutcome := ''lockout_active''\<rparr>) d, Some errLockoutActive),
      audit_ignored L ''writeback_lockout'' (grRef res) ''lockout_active'' (grOwnerServiceID res) (gqRequestID req) b)"

text \<open>A gate that is closed while its scope is locked.\<close>

definition captureUnlessLocked ::
  "'z golib_scheme \<Rightarrow> string \<Rightarrow> generatedSecretCaptureRequest \<Rightarrow> generatedSecretCaptureResponse
    \<Rightarrow> ('m backend_scheme \<Rightarrow> 'm backend_scheme captureResult) \<Rightarrow> 'm backend_scheme \<Rightarrow> 'm backend_scheme captureResult" where
  "captureUnlessLocked L family req res continue b =
     (let r = activeWritebackLockout (writebackLockoutScope family (grOwnerServiceID res) (grOperation res) (grRef res)) b in
      if ldActive (fst r) then captureLockedOut L req res (fst r) (snd r) else continue (snd r))"

text \<open>A refusal that counts as a failure of its family; \<open>strict\<close> also reports a lockout that was
  already active.\<close>

definition captureRefused ::
  "'z golib_scheme \<Rightarrow> bool \<Rightarrow> string \<Rightarrow> string \<Rightarrow> gerror \<Rightarrow> generatedSecretCaptureRequest \<Rightarrow> generatedSecretCaptureResponse
    \<Rightarrow> 'm backend_scheme \<Rightarrow> 'm backend_scheme captureResult" where
  "captureRefused L strict family outcome err req res b =
     (let b1 = audit_ignored L ''writeback_capture'' (grRef res) outcome (grOwnerServiceID res) (gqRequestID req) b;
          r = recordWritebackLockoutFailure (writebackLockoutScope family (grOwnerServiceID res) (grOperation res) (grRef res)) b1;
          decision = fst (fst r); started = snd (fst r) in
      if started \<or> (strict \<and> ldActive decision) then captureLockedOut L req res decision (snd r)
      else ((res\<lparr>grOutcome := outcome\<rparr>, Some err), snd r))"

definition captureAudit ::
  "'z golib_scheme \<Rightarrow> string \<Rightarrow> generatedSecretCaptureRequest \<Rightarrow> generatedSecretCaptureResponse \<Rightarrow> 'm backend_scheme \<Rightarrow> 'm backend_scheme" where
  "captureAudit L outcome req res b =
     audit_ignored L ''writeback_capture'' (grRef res) outcome (grOwnerServiceID res) (gqRequestID req) b"

definition captureDelete ::
  "'z golib_scheme \<Rightarrow> generatedSecretCaptureRequest \<Rightarrow> generatedSecretCaptureResponse \<Rightarrow> 'm backend_scheme \<Rightarrow> 'm backend_scheme captureResult" where
  "captureDelete L req res b =
     (let degraded = (\<lambda>b'. ((res\<lparr>grOutcome := ''degraded''\<rparr>, Some errBackendDegraded), captureAudit L ''degraded'' req res b')) in
      case loadStore b of
        Inl _ \<Rightarrow> degraded b
      | Inr store \<Rightarrow>
          check (saveStore (store\<lparr>stSecrets := AList.delete (grRef res) (stSecrets store), stUpdatedAt := bNow b\<rparr>) b)
            (\<lambda>_ b1. degraded b1)
            (\<lambda>b1. ((res\<lparr>grOutcome := ''ready''\<rparr>, None), captureAudit L ''ready'' req res b1)))"

definition captureWriteRequest :: "generatedSecretCaptureRequest \<Rightarrow> generatedSecretCaptureResponse \<Rightarrow> writeSecretRequest" where
  "captureWriteRequest req res =
     \<lparr>wqRef = grRef res, wqValue = gqValue req,
      wqMetadata = [(''sourceId'', firstNonEmpty (case map_of (gqMetadata req) ''sourceId'' of Some v \<Rightarrow> v | None \<Rightarrow> [])
        (''generated:'' @ grOwnerServiceID res))]\<rparr>"

definition captureWrite ::
  "'z golib_scheme \<Rightarrow> generatedSecretCaptureRequest \<Rightarrow> generatedSecretCaptureResponse \<Rightarrow> 'm backend_scheme \<Rightarrow> 'm backend_scheme captureResult" where
  "captureWrite L req res b =
     (let svc = grOwnerServiceID res; fullRef = grRef res;
          w = writeSecret L (captureWriteRequest req res) b;
          scope = (\<lambda>family. writebackLockoutScope family svc (grOperation res) fullRef) in
      case snd (fst w) of
        Some errLocked \<Rightarrow> ((res\<lparr>grOutcome := ''locked''\<rparr>, Some errLocked), snd w)
      | Some errInvalidRef \<Rightarrow> ((res\<lparr>grOutcome := ''invalid_ref''\<rparr>, Some errInvalidRef), snd w)
      | Some _ \<Rightarrow> ((res\<lparr>grOutcome := ''degraded''\<rparr>, Some errBackendDegraded), captureAudit L ''degraded'' req res (snd w))
      | None \<Rightarrow>
          ((res\<lparr>grOutcome := ''ready'', grMetadata := wrMetadata (fst (fst w))\<rparr>, None),
           recordWritebackLockoutSuccess (scope ''source_auth'')
             (recordWritebackLockoutSuccess (scope ''policy'')
               (recordWritebackLockoutSuccess (scope ''identity'') (captureAudit L ''ready'' req res (snd w))))))"

definition captureStore ::
  "'z golib_scheme \<Rightarrow> generatedSecretCaptureRequest \<Rightarrow> generatedSecretCaptureResponse \<Rightarrow> 'm backend_scheme \<Rightarrow> 'm backend_scheme captureResult" where
  "captureStore L req res b =
     (if isLocked b then ((res\<lparr>grOutcome := ''locked''\<rparr>, Some errLocked), captureAudit L ''locked'' req res b)
      else if grOperation res = ''delete'' then captureDelete L req res b
      else captureWrite L req res b)"

definition captureSourceAuth ::
  "'z golib_scheme \<Rightarrow> generatedSecretCaptureRequest \<Rightarrow> generatedSecretCaptureResponse \<Rightarrow> 'm backend_scheme \<Rightarrow> 'm backend_scheme captureResult" where
  "captureSourceAuth L req res =
     captureUnlessLocked L ''source_auth'' req res
       (\<lambda>b. if gqSourceAuthRequired req
            then captureRefused L True ''source_auth'' ''source_auth_required'' errSourceAuthRequired req res b
            else captureStore L req res b)"

definition captureNamespace ::
  "'z golib_scheme \<Rightarrow> generatedSecretCaptureRequest \<Rightarrow> generatedSecretCaptureResponse \<Rightarrow> 'm backend_scheme \<Rightarrow> 'm backend_scheme captureResult" where
  "captureNamespace L req res b =
     (if \<not> namespaceAllowed (grNamespace res) (wpAllowedNamespaces (gqPolicy req))
         \<or> \<not> operationAllowed (grOperation res) (wpAllowedOperations (gqPolicy req))
      then captureRefused L True ''policy'' ''policy_denied'' errPolicyDenied req res b
      else captureSourceAuth L req res b)"

definition capturePolicy ::
  "'z golib_scheme \<Rightarrow> generatedSecretCaptureRequest \<Rightarrow> generatedSecretCaptureResponse \<Rightarrow> 'm backend_scheme \<Rightarrow> 'm backend_scheme captureResult" where
  "capturePolicy L req res =
     captureUnlessLocked L ''policy'' req res
       (\<lambda>b. if gqSecrets req \<noteq> None then
              let decision = evaluateServiceSecretsPolicy (grOwnerServiceID res) ''writeback'' (grRef res) (gqSecrets req);
                  b1 = audit_ignored L ''policy_decision'' (grRef res) (dOutcome decision) (grOwnerServiceID res) (gqRequestID req) b in
              if dOutcome decision \<noteq> ''allowed''
              then captureRefused L True ''policy'' ''policy_denied'' errPolicyDenied req res b1
              else captureNamespace L req res b1
            else captureNamespace L req res b)"

definition captureIdentity ::
  "'z golib_scheme \<Rightarrow> generatedSecretCaptureRequest \<Rightarrow> generatedSecretCaptureResponse \<Rightarrow> 'm backend_scheme \<Rightarrow> 'm backend_scheme captureResult" where
  "captureIdentity L req res =
     captureUnlessLocked L ''identity'' req res
       (\<lambda>b. if grOwnerServiceID res = [] then
              captureRefused L False ''identity'' ''identity_expired'' errIdentityExpired req res b
            else
              let expires = trimSpace (wiExpiresAt (gqIdentity req)) in
              if expires \<noteq> [] \<and> (case parseRFC3339 L expires of None \<Rightarrow> True | Some t \<Rightarrow> \<not> t > bNow b)
              then captureRefused L False ''identity'' ''identity_expired'' errIdentityExpired req res b
              else capturePolicy L req res b)"

definition captureResponse :: "generatedSecretCaptureRequest \<Rightarrow> generatedSecretCaptureResponse" where
  "captureResponse req =
     (let namespace = trimSpace (gqNamespace req); ref = trimSlash (trimSpace (gqRef req)) in
      \<lparr>grServiceID = serviceID, grAPIVersion = apiVersion, grRequestID = gqRequestID req,
       grOwnerServiceID = trimSpace (wiServiceID (gqIdentity req)),
       grOperation = normalizeWritebackOperation (gqOperation req), grNamespace = namespace,
       grRef = trimSlash (namespace @ ''/'' @ ref), grOutcome = [], grRefreshRequired = gqRefreshRequired req,
       grReconnectRequired = gqReconnectRequired req, grInvalidatedRefs = safeList (gqInvalidateRefs req),
       grMetadata = zeroMetadata, grLockoutActive = False, grLockoutScope = [], grRetryAfterSeconds = 0\<rparr>)"

definition captureGeneratedSecret ::
  "'z golib_scheme \<Rightarrow> generatedSecretCaptureRequest \<Rightarrow> 'm backend_scheme \<Rightarrow> 'm backend_scheme captureResult" where
  "captureGeneratedSecret L req b =
     (let res = captureResponse req; ref = trimSlash (trimSpace (gqRef req)) in
      if grNamespace res = [] \<or> \<not> validSecretRef (grNamespace res) \<or> ref = [] \<or> \<not> validSecretRef (grRef res)
         \<or> \<not> validWritebackOperation (grOperation res)
      then ((res\<lparr>grOutcome := ''invalid_ref''\<rparr>, Some errInvalidRef), captureAudit L ''invalid_ref'' req res b)
      else captureIdentity L req res b)"

definition writebackHandler ::
  "'z golib_scheme \<Rightarrow> string \<Rightarrow> transportPeerIdentity option \<Rightarrow> httpRequest \<Rightarrow> generatedSecretCaptureRequest decoded \<Rightarrow> 'm backend_scheme
    \<Rightarrow> generatedSecretCaptureResponse reply \<times> 'm backend_scheme" where
  "writebackHandler L token ctx r body b =
     (if hMethod r \<noteq> ''POST'' then
        (writeAPIError 405 ''method_not_allowed'' ''Use POST /v1/writeback.'' ''invalid_ref'' [], b)
      else check (require L token r b)
        (\<lambda>refusal b1. (refusal, b1))
        (\<lambda>b1. case body of
            BodyTooLarge \<Rightarrow> (writeDecodeError True, b1)
          | BodyMalformed \<Rightarrow> (writeDecodeError False, b1)
          | Decoded req \<Rightarrow>
              attempt (authorizeWritebackLaunchLease L req (launchLeaseSigningKey token b1) (transportPeerIdentityFromContext L ctx) b1)
                (\<lambda>err b2. (writeLaunchIdentityAPIError err, b2))
                (\<lambda>req' b2.
                   let c = captureGeneratedSecret L req' b2; res = fst (fst c) in
                   (case snd (fst c) of
                      None \<Rightarrow> Json 200 res
                    | Some errInvalidRef \<Rightarrow> writeAPIError 400 ''invalid_ref'' ''Generated secret write-back ref is invalid.'' ''invalid_ref'' []
                    | Some errIdentityExpired \<Rightarrow> writeAPIError 401 ''identity_expired'' ''Launch identity is missing, invalid, or expired.'' ''identity_expired'' ''renew_launch_identity''
                    | Some errPolicyDenied \<Rightarrow> writeAPIError 403 ''policy_denied'' ''Write-back policy denied this generated secret capture.'' ''policy_denied'' ''review_policy''
                    | Some errSourceAuthRequired \<Rightarrow> writeAPIError 424 ''source_auth_required'' ''Source authentication is required before write-back can proceed.'' ''source_auth_required'' ''reconnect_source''
                    | Some errLockoutActive \<Rightarrow> writeScopedLockoutAPIError (grLockoutScope res) (grRetryAfterSeconds res) ''Write-back is temporarily locked for this scope.''
                    | Some errLocked \<Rightarrow> writeAPIError 503 ''locked'' ''Secrets Broker local store is locked.'' ''locked'' ''unlock_broker''
                    | Some _ \<Rightarrow> writeAPIError 503 ''degraded'' ''Write-back backend is degraded.'' ''degraded'' ''inspect_sources'',
                    snd c))))"

definition secretsHandler ::
  "'z golib_scheme \<Rightarrow> string \<Rightarrow> httpRequest \<Rightarrow> writeSecretRequest decoded \<Rightarrow> 'm backend_scheme
    \<Rightarrow> writeSecretResponse reply \<times> 'm backend_scheme" where
  "secretsHandler L token r body b =
     (if hMethod r \<noteq> ''POST'' then
        (writeAPIError 405 ''method_not_allowed'' ''Use POST /v1/secrets.'' ''invalid_ref'' [], b)
      else check (require L token r b)
        (\<lambda>refusal b1. (refusal, b1))
        (\<lambda>b1. case body of
            BodyTooLarge \<Rightarrow> (writeDecodeError True, b1)
          | BodyMalformed \<Rightarrow> (writeDecodeError False, b1)
          | Decoded req \<Rightarrow>
              let w = writeSecret L req b1 in
              (case snd (fst w) of
                 None \<Rightarrow> Json 200 (fst (fst w))
               | Some errInvalidRef \<Rightarrow> writeAPIError 400 ''invalid_ref'' ''Secret ref is invalid.'' ''invalid_ref'' []
               | Some errLocked \<Rightarrow> writeAPIError 503 ''locked'' ''Secrets Broker local store is locked.'' ''locked'' ''unlock_broker''
               | Some _ \<Rightarrow> writeAPIError 500 ''store_error'' ''Local store write failed.'' ''degraded'' ''inspect_sources'',
               snd w)))"

subsection \<open>What a capture does to the store\<close>

text \<open>The abstract step: a deletion or an update of the map from references to values.\<close>

definition captureEffect :: "generatedSecretCaptureRequest \<Rightarrow> (string \<rightharpoonup> string) \<Rightarrow> string \<rightharpoonup> string" where
  "captureEffect req v =
     (let res = captureResponse req in
      if grOperation res = ''delete'' then v(grRef res := None) else v(trimSpace (grRef res) \<mapsto> gqValue req))"

lemma captureAudit_keeps [simp, store_frame]:
  "bDisk (captureAudit L oc req res b) = bDisk b" "bMasterKey (captureAudit L oc req res b) = bMasterKey b"
  "bNow (captureAudit L oc req res b) = bNow b" "bLockouts (captureAudit L oc req res b) = bLockouts b"
  by (simp_all add: captureAudit_def)

lemma lockout_calls_keep [simp, store_frame]:
  fixes b :: "'m backend_scheme"
  shows "bDisk (snd (activeWritebackLockout sc b)) = bDisk b" "bMasterKey (snd (activeWritebackLockout sc b)) = bMasterKey b"
    "bNow (snd (activeWritebackLockout sc b)) = bNow b"
    "bDisk (snd (recordWritebackLockoutFailure sc b)) = bDisk b" "bMasterKey (snd (recordWritebackLockoutFailure sc b)) = bMasterKey b"
    "bNow (snd (recordWritebackLockoutFailure sc b)) = bNow b"
    "bDisk (recordWritebackLockoutSuccess sc b) = bDisk b" "bMasterKey (recordWritebackLockoutSuccess sc b) = bMasterKey b"
  by (simp_all add: activeWritebackLockout_def recordWritebackLockoutFailure_def recordWritebackLockoutSuccess_def Let_def)

lemma refusals_keep [simp, store_frame]:
  "bDisk (snd (captureLockedOut L req res d b)) = bDisk b" "bMasterKey (snd (captureLockedOut L req res d b)) = bMasterKey b"
  "bDisk (snd (captureRefused L strict family oc err req res b)) = bDisk b"
  "bMasterKey (snd (captureRefused L strict family oc err req res b)) = bMasterKey b"
  by (simp_all add: captureLockedOut_def captureRefused_def Let_def)

lemma refusals_fail [simp]:
  "snd (fst (captureLockedOut L req res d b)) = Some errLockoutActive"
  "snd (fst (captureRefused L strict family oc err req res b)) \<in> {Some err, Some errLockoutActive}"
  by (simp_all add: captureLockedOut_def captureRefused_def Let_def)

lemma vault_deleted:
  assumes "bDisk b' = Stored s'" "bMasterKey b' = bMasterKey b" "stSecrets s' = AList.delete ref (secretsOf (bDisk b))"
  shows "vault L b' = (vault L b)(ref := None)"
  using assms by (auto simp: vault_def secretsOf_def decrypt_cong [of b' b] fun_eq_iff split: option.split)

lemma captureDelete_vault:
  "vault L (snd (captureDelete L req res b)) = (vault L b)(grRef res := None)
    \<or> (snd (fst (captureDelete L req res b)) = Some errBackendDegraded \<and> vault L (snd (captureDelete L req res b)) = vault L b)"
  "snd (fst (captureDelete L req res b)) \<in> {None, Some errBackendDegraded}"
  "bMasterKey (snd (captureDelete L req res b)) = bMasterKey b"
proof -
  show "snd (fst (captureDelete L req res b)) \<in> {None, Some errBackendDegraded}"
    "bMasterKey (snd (captureDelete L req res b)) = bMasterKey b"
    by (simp_all add: captureDelete_def Let_def check_def split: sum.split option.split)
  show "vault L (snd (captureDelete L req res b)) = (vault L b)(grRef res := None)
    \<or> (snd (fst (captureDelete L req res b)) = Some errBackendDegraded \<and> vault L (snd (captureDelete L req res b)) = vault L b)"
  proof (cases "loadStore b")
    case (Inl e)
    then show ?thesis using vault_cong [of "snd (captureDelete L req res b)" b L] by (simp add: captureDelete_def Let_def)
  next
    case (Inr s)
    let ?s = "s\<lparr>stSecrets := AList.delete (grRef res) (stSecrets s), stUpdatedAt := bNow b\<rparr>"
    let ?c = "captureDelete L req res b"
    have c: "bDisk (snd ?c) = bDisk (snd (saveStore ?s b))" "bMasterKey (snd ?c) = bMasterKey b"
      "snd (fst ?c) = (if fst (saveStore ?s b) = None then None else Some errBackendDegraded)"
      using Inr by (auto simp: captureDelete_def Let_def check_def split: option.split)
    show ?thesis
    proof (cases "bDisk (snd ?c) = Stored ?s")
      case True
      then show ?thesis using vault_deleted [OF True c(2), of "grRef res" L] Inr by (simp add: secretsOf_load)
    next
      case False
      then show ?thesis using save_disk [of ?s b] c vault_cong [of "snd ?c" b L] by (auto split: if_splits)
    qed
  qed
qed

lemma captureWriteRequest_simps [simp]:
  "wqRef (captureWriteRequest req res) = grRef res" "wqValue (captureWriteRequest req res) = gqValue req"
  by (simp_all add: captureWriteRequest_def)

lemma captureWrite_vault:
  assumes "lib_ok L"
  shows "vault L (snd (captureWrite L req res b)) = (vault L b)(trimSpace (grRef res) \<mapsto> gqValue req)
    \<or> (snd (fst (captureWrite L req res b)) \<noteq> None \<and> vault L (snd (captureWrite L req res b)) = vault L b)"
    and "bMasterKey (snd (captureWrite L req res b)) = bMasterKey b"
proof -
  define w where "w = writeSecret L (captureWriteRequest req res) b"
  have e: "bDisk (snd (captureWrite L req res b)) = bDisk (snd w)" "bMasterKey (snd (captureWrite L req res b)) = bMasterKey b"
    "snd (fst (captureWrite L req res b)) = None \<longleftrightarrow> snd (fst w) = None"
    by (simp_all add: captureWrite_def w_def Let_def split: option.split gerror.split)
  show "bMasterKey (snd (captureWrite L req res b)) = bMasterKey b" by (rule e(2))
  have k: "vault L (snd (captureWrite L req res b)) = vault L (snd w)"
    using e by (intro vault_cong) (simp_all add: w_def)
  show "vault L (snd (captureWrite L req res b)) = (vault L b)(trimSpace (grRef res) \<mapsto> gqValue req)
    \<or> (snd (fst (captureWrite L req res b)) \<noteq> None \<and> vault L (snd (captureWrite L req res b)) = vault L b)"
    using writeSecret_vault [OF assms, of "captureWriteRequest req res" b]
    unfolding k e(3) w_def by simp
qed

subsection \<open>The gates\<close>

text \<open>What the gates have checked when the store is reached.\<close>

definition scopeFree :: "string \<Rightarrow> generatedSecretCaptureResponse \<Rightarrow> 'm backend_scheme \<Rightarrow> bool" where
  "scopeFree family res b \<longleftrightarrow>
     (\<forall>s. bLockouts b = Some s \<longrightarrow> \<not> locked s (writebackLockoutScope family (grOwnerServiceID res) (grOperation res) (grRef res)) (bNow b))"

definition captureAdmitted :: "'z golib_scheme \<Rightarrow> generatedSecretCaptureRequest \<Rightarrow> 'm backend_scheme \<Rightarrow> bool" where
  "captureAdmitted L req b \<longleftrightarrow>
     (let res = captureResponse req; expires = trimSpace (wiExpiresAt (gqIdentity req)) in
      validSecretRef (grNamespace res) \<and> validSecretRef (grRef res) \<and> validWritebackOperation (grOperation res)
      \<and> grOwnerServiceID res \<noteq> [] \<and> (expires = [] \<or> (\<exists>t. parseRFC3339 L expires = Some t \<and> bNow b < t))
      \<and> (gqSecrets req = None
          \<or> dOutcome (evaluateServiceSecretsPolicy (grOwnerServiceID res) ''writeback'' (grRef res) (gqSecrets req)) = ''allowed'')
      \<and> namespaceAllowed (grNamespace res) (wpAllowedNamespaces (gqPolicy req))
      \<and> operationAllowed (grOperation res) (wpAllowedOperations (gqPolicy req))
      \<and> \<not> gqSourceAuthRequired req \<and> scopeFree ''identity'' res b)"

lemma active_frees:
  fixes b :: "'m backend_scheme"
  assumes "\<not> ldActive (fst (activeWritebackLockout (writebackLockoutScope family (grOwnerServiceID res) (grOperation res) (grRef res)) b))"
  shows "scopeFree family res b"
  using assms active_iff_locked
  by (auto simp: scopeFree_def activeWritebackLockout_def active_def Let_def split: prod.splits, metis fst_conv)

text \<open>A capture is refused without effect, or its store step runs in a state with the same store.\<close>

definition refusedCapture :: "'m backend_scheme \<Rightarrow> 'm backend_scheme captureResult \<Rightarrow> bool" where
  "refusedCapture b c \<longleftrightarrow> snd (fst c) \<noteq> None \<and> bDisk (snd c) = bDisk b \<and> bMasterKey (snd c) = bMasterKey b"

lemma refused_simps [simp]:
  "bDisk b1 = bDisk b \<Longrightarrow> bMasterKey b1 = bMasterKey b \<Longrightarrow> refusedCapture b (captureLockedOut L req res d b1)"
  "bDisk b1 = bDisk b \<Longrightarrow> bMasterKey b1 = bMasterKey b \<Longrightarrow> refusedCapture b (captureRefused L strict family oc err req res b1)"
  using refusals_fail(2) [of L strict family oc err req res b1]
  by (auto simp: refusedCapture_def simp del: refusals_fail(2))

lemma captureSourceAuth_cases:
  assumes "captureSourceAuth L req res b = c"
  obtains "refusedCapture b c"
  | b1 where "c = captureStore L req res b1" "bDisk b1 = bDisk b" "bMasterKey b1 = bMasterKey b" "\<not> gqSourceAuthRequired req"
  using assms that by (auto simp: captureSourceAuth_def captureUnlessLocked_def Let_def split: if_splits)

lemma captureNamespace_cases:
  assumes "captureNamespace L req res b = c"
  obtains "refusedCapture b c"
  | b1 where "c = captureStore L req res b1" "bDisk b1 = bDisk b" "bMasterKey b1 = bMasterKey b" "\<not> gqSourceAuthRequired req"
    "namespaceAllowed (grNamespace res) (wpAllowedNamespaces (gqPolicy req))"
    "operationAllowed (grOperation res) (wpAllowedOperations (gqPolicy req))"
  using assms that captureSourceAuth_cases [of L req res b c] by (auto simp: captureNamespace_def split: if_splits)

lemma refused_frame: "bDisk b1 = bDisk b \<Longrightarrow> bMasterKey b1 = bMasterKey b \<Longrightarrow> refusedCapture b1 c = refusedCapture b c"
  by (simp add: refusedCapture_def)

definition policyAdmits :: "generatedSecretCaptureRequest \<Rightarrow> generatedSecretCaptureResponse \<Rightarrow> bool" where
  "policyAdmits req res \<longleftrightarrow>
     (gqSecrets req = None
       \<or> dOutcome (evaluateServiceSecretsPolicy (grOwnerServiceID res) ''writeback'' (grRef res) (gqSecrets req)) = ''allowed'')
     \<and> namespaceAllowed (grNamespace res) (wpAllowedNamespaces (gqPolicy req))
     \<and> operationAllowed (grOperation res) (wpAllowedOperations (gqPolicy req)) \<and> \<not> gqSourceAuthRequired req"

lemma capturePolicy_cases:
  assumes "capturePolicy L req res b = c"
  obtains "refusedCapture b c"
  | b1 where "c = captureStore L req res b1" "bDisk b1 = bDisk b" "bMasterKey b1 = bMasterKey b" "policyAdmits req res"
proof -
  let ?scope = "writebackLockoutScope ''policy'' (grOwnerServiceID res) (grOperation res) (grRef res)"
  let ?a = "activeWritebackLockout ?scope b"
  let ?d = "evaluateServiceSecretsPolicy (grOwnerServiceID res) ''writeback'' (grRef res) (gqSecrets req)"
  let ?b1 = "if gqSecrets req = None then snd ?a
    else audit_ignored L ''policy_decision'' (grRef res) (dOutcome ?d) (grOwnerServiceID res) (gqRequestID req) (snd ?a)"
  have k: "bDisk ?b1 = bDisk b" "bMasterKey ?b1 = bMasterKey b" by simp_all
  show ?thesis
  proof (cases "ldActive (fst ?a) \<or> (gqSecrets req \<noteq> None \<and> dOutcome ?d \<noteq> ''allowed'')")
    case True
    then show ?thesis using assms that(1)
      by (auto simp: capturePolicy_def captureUnlessLocked_def Let_def split: if_splits)
  next
    case False
    then have "captureNamespace L req res ?b1 = c"
      using assms by (auto simp: capturePolicy_def captureUnlessLocked_def Let_def split: if_splits)
    then show ?thesis using that False k refused_frame [OF k]
      by (elim captureNamespace_cases) (auto simp: policyAdmits_def)
  qed
qed

lemma captureIdentity_cases:
  assumes "captureIdentity L req res b = c"
  obtains "refusedCapture b c"
  | b1 where "c = captureStore L req res b1" "bDisk b1 = bDisk b" "bMasterKey b1 = bMasterKey b" "policyAdmits req res"
    "grOwnerServiceID res \<noteq> []" "scopeFree ''identity'' res b"
    "trimSpace (wiExpiresAt (gqIdentity req)) = [] \<or> (\<exists>t. parseRFC3339 L (trimSpace (wiExpiresAt (gqIdentity req))) = Some t \<and> bNow b < t)"
proof -
  let ?a = "activeWritebackLockout (writebackLockoutScope ''identity'' (grOwnerServiceID res) (grOperation res) (grRef res)) b"
  let ?ex = "trimSpace (wiExpiresAt (gqIdentity req))"
  show ?thesis
  proof (cases "ldActive (fst ?a) \<or> grOwnerServiceID res = [] \<or> (?ex \<noteq> [] \<and> (case parseRFC3339 L ?ex of None \<Rightarrow> True | Some t \<Rightarrow> \<not> t > bNow b))")
    case True
    then show ?thesis using assms that(1)
      by (auto simp: captureIdentity_def captureUnlessLocked_def Let_def split: if_splits option.splits)
  next
    case False
    then have "capturePolicy L req res (snd ?a) = c"
      using assms by (auto simp: captureIdentity_def captureUnlessLocked_def Let_def split: if_splits option.splits)
    then show ?thesis using that False active_frees [of "''identity''" res b] refused_frame [of "snd ?a" b]
      by (elim capturePolicy_cases) (auto split: option.splits)
  qed
qed

lemma capture_cases:
  assumes "captureGeneratedSecret L req b = c"
  obtains (refused) "refusedCapture b c"
  | (admitted) b1 where "c = captureStore L req (captureResponse req) b1" "bDisk b1 = bDisk b" "bMasterKey b1 = bMasterKey b"
    "captureAdmitted L req b"
proof -
  let ?res = "captureResponse req"
  let ?bad = "grNamespace ?res = [] \<or> \<not> validSecretRef (grNamespace ?res) \<or> trimSlash (trimSpace (gqRef req)) = []
     \<or> \<not> validSecretRef (grRef ?res) \<or> \<not> validWritebackOperation (grOperation ?res)"
  show ?thesis
  proof (cases ?bad)
    case True
    then show ?thesis using assms refused by (auto simp: captureGeneratedSecret_def refusedCapture_def Let_def)
  next
    case False
    then have "captureIdentity L req ?res b = c" using assms by (simp add: captureGeneratedSecret_def Let_def)
    then show ?thesis
      by (rule captureIdentity_cases)
         (use refused admitted False in \<open>auto simp: captureAdmitted_def policyAdmits_def Let_def\<close>)
  qed
qed

subsection \<open>A capture refines its abstract step\<close>

lemma captureStore_vault:
  assumes "lib_ok L" "captureStore L req (captureResponse req) b = c"
  shows "vault L (snd c) = captureEffect req (vault L b) \<or> (snd (fst c) \<noteq> None \<and> vault L (snd c) = vault L b)"
    and "snd (fst c) = None \<Longrightarrow> \<not> isLocked b" and "bMasterKey (snd c) = bMasterKey b"
proof -
  show "vault L (snd c) = captureEffect req (vault L b) \<or> (snd (fst c) \<noteq> None \<and> vault L (snd c) = vault L b)"
    using captureDelete_vault(1) [of L req "captureResponse req" b] captureWrite_vault(1) [OF assms(1), of req "captureResponse req" b]
      vault_cong [of "captureAudit L ''locked'' req (captureResponse req) b" b L]
    by (auto simp: captureStore_def captureEffect_def Let_def simp flip: assms(2))
  show "snd (fst c) = None \<Longrightarrow> \<not> isLocked b" using assms(2) by (auto simp: captureStore_def)
  show "bMasterKey (snd c) = bMasterKey b"
    using captureDelete_vault(3) captureWrite_vault(2) [OF assms(1)] by (auto simp: captureStore_def simp flip: assms(2))
qed

lemma capture_vault:
  assumes "lib_ok L" "captureGeneratedSecret L req b = c"
  shows "(vault L (snd c) = captureEffect req (vault L b) \<and> captureAdmitted L req b)
    \<or> (snd (fst c) \<noteq> None \<and> vault L (snd c) = vault L b)"
proof (cases rule: capture_cases [OF assms(2), case_names refused admitted])
  case refused
  then show ?thesis using vault_cong [of "snd c" b L] by (simp add: refusedCapture_def)
next
  case (admitted b1)
  then show ?thesis using captureStore_vault(1) [OF assms(1) admitted(1) [symmetric]] vault_cong [of b1 b L] by auto
qed

interpretation capture_op: atomic_op "vault L" "captureGeneratedSecret L" "\<lambda>r. snd r = None" captureEffect "\<lambda>_. lib_ok L"
proof
  show "lib_ok L \<Longrightarrow> snd (fst (captureGeneratedSecret L a s)) = None \<Longrightarrow>
      vault L (snd (captureGeneratedSecret L a s)) = captureEffect a (vault L s)" for a and s :: "'b backend_scheme"
    using capture_vault [OF _ refl, of L a s] by auto
  show "lib_ok L \<Longrightarrow> snd (fst (captureGeneratedSecret L a s)) \<noteq> None \<Longrightarrow>
      vault L (snd (captureGeneratedSecret L a s)) = vault L s
      \<or> vault L (snd (captureGeneratedSecret L a s)) = captureEffect a (vault L s)" for a and s :: "'b backend_scheme"
    using capture_vault [OF _ refl, of L a s] by auto
qed

lemma capture_change:
  assumes "lib_ok L" "captureGeneratedSecret L req b = c" "vault L (snd c) \<noteq> vault L b"
  shows "\<not> isLocked b"
proof (cases rule: capture_cases [OF assms(2), case_names refused admitted])
  case refused
  then show ?thesis using assms(3) vault_cong [of "snd c" b L] by (simp add: refusedCapture_def)
next
  case (admitted b1)
  show ?thesis
  proof
    assume "isLocked b"
    then have "isLocked b1" using admitted(3) by (simp add: isLocked_def)
    then have "vault L (snd c) = vault L b"
      using admitted by (intro vault_cong) (simp_all add: captureStore_def)
    then show False using assms(3) by simp
  qed
qed

text \<open>
  Property C16. Capturing a generated secret refines one step of the map from references to values
  (an update, or a removal for the operation \<open>delete\<close>): a capture that succeeds makes that step, one
  that fails leaves the map or has made the whole step, and the map changes only if the broker is
  unlocked and every gate was passed: well-formed namespace, reference and operation, an identity
  that is present, unexpired and not locked out, a policy, namespace and operation that allow it,
  and no pending source authentication.
\<close>

theorem writeback_refines_vault:
  assumes "lib_ok L" "captureGeneratedSecret L req b = ((res, err), b')"
  shows "(err = None \<longrightarrow> vault L b' = captureEffect req (vault L b))
    \<and> (vault L b' = vault L b \<or> vault L b' = captureEffect req (vault L b))
    \<and> (vault L b' \<noteq> vault L b \<longrightarrow> \<not> isLocked b \<and> captureAdmitted L req b)"
  using capture_vault [OF assms] capture_op.run_atomic [OF assms(1), of req b] capture_change [OF assms] assms(2) by auto

text \<open>With no failures on record and no service policy, an admitted capture reaches the store step.\<close>

lemma active_empty:
  fixes b :: "'m backend_scheme"
  assumes "bLockouts b = Some newLockoutStore"
  shows "activeWritebackLockout scope b = (noDecision scope, b)"
  using assms by (simp add: activeWritebackLockout_def active_def activeLocked_def newLockoutStore_def)

lemma capture_fresh:
  assumes "bLockouts b = Some newLockoutStore" "captureAdmitted L req b" "gqSecrets req = None" "trimSlash (trimSpace (gqRef req)) \<noteq> []"
  shows "captureGeneratedSecret L req b = captureStore L req (captureResponse req) b"
proof -
  have "grNamespace (captureResponse req) \<noteq> []"
    using assms(2) by (auto simp: captureAdmitted_def Let_def validSecretRef_def)
  then show ?thesis using assms(2-)
    by (auto simp: captureGeneratedSecret_def captureIdentity_def capturePolicy_def captureNamespace_def captureSourceAuth_def
        captureUnlessLocked_def active_empty [OF assms(1)] captureAdmitted_def noDecision_def Let_def split: option.splits)
qed

definition demoCapture :: "string \<Rightarrow> string \<Rightarrow> generatedSecretCaptureRequest" where
  "demoCapture op ref = \<lparr>gqRequestID = ''q'', gqIdentity = \<lparr>wiServiceID = ''api'', wiExpiresAt = []\<rparr>, gqIdentityLease = None,
     gqPolicy = \<lparr>wpAllowedNamespaces = [''services/api''], wpAllowedOperations = [''create'', ''delete'']\<rparr>,
     gqSecrets = None, gqOperation = op, gqNamespace = ''services/api'', gqRef = ref, gqValue = ''v1'', gqMetadata = [],
     gqRefreshRequired = False, gqReconnectRequired = False, gqInvalidateRefs = [], gqSourceAuthRequired = False\<rparr>"

lemma demoCapture_none [simp]: "gqSecrets (demoCapture op ref) = None" "gqRef (demoCapture op ref) = ref"
  "gqValue (demoCapture op ref) = ''v1''"
  by (simp_all add: demoCapture_def)

lemma demoBackend_locks: "bLockouts demoBackend = Some newLockoutStore"
  by (simp add: demoBackend_def demoLock_def lockState.defs auditState.defs)

lemma demo_admitted:
  fixes b :: "'m backend_scheme"
  assumes "bLockouts b = Some newLockoutStore" "op \<in> {''create'', ''delete''}" "ref \<in> {''db'', ''k /''}"
  shows "captureAdmitted L (demoCapture op ref) b"
proof -
  have r: "validSecretRef (grNamespace (captureResponse (demoCapture op ref)))"
    "validSecretRef (grRef (captureResponse (demoCapture op ref)))"
    "validWritebackOperation (grOperation (captureResponse (demoCapture op ref)))"
    "grOwnerServiceID (captureResponse (demoCapture op ref)) \<noteq> []"
    "trimSpace (wiExpiresAt (gqIdentity (demoCapture op ref))) = []"
    "namespaceAllowed (grNamespace (captureResponse (demoCapture op ref))) (wpAllowedNamespaces (gqPolicy (demoCapture op ref)))"
    "operationAllowed (grOperation (captureResponse (demoCapture op ref))) (wpAllowedOperations (gqPolicy (demoCapture op ref)))"
    "\<not> gqSourceAuthRequired (demoCapture op ref)"
    using assms(2,3) by (elim insertE emptyE; simp only:; code_simp)+
  moreover have "scopeFree f res b" for f res
    using assms(1) by (simp add: scopeFree_def locked_def newLockoutStore_def)
  ultimately show ?thesis by (simp add: captureAdmitted_def Let_def)
qed

lemma demo_store:
  fixes b :: "'m backend_scheme"
  assumes "bLockouts b = Some newLockoutStore" "op \<in> {''create'', ''delete''}" "ref \<in> {''db'', ''k /''}"
  shows "captureGeneratedSecret L (demoCapture op ref) b = captureStore L (demoCapture op ref) (captureResponse (demoCapture op ref)) b"
proof -
  have "trimSlash (trimSpace ref) \<noteq> []" using assms(3) by (elim insertE emptyE; simp only:; code_simp)
  then show ?thesis using capture_fresh [OF assms(1) demo_admitted [OF assms]] by simp
qed

lemma captureStore_faultless:
  assumes "faultless b" "validSecretRef (grRef res)"
  shows "snd (fst (captureStore L req res b)) = None"
    and "grOperation res \<noteq> ''delete'' \<Longrightarrow> faultless (snd (captureStore L req res b))"
    and "bLockouts b = Some newLockoutStore \<Longrightarrow> bLockouts (snd (captureStore L req res b)) = Some newLockoutStore"
proof -
  obtain s where s: "loadStore b = Inr s" "\<not> isLocked b" "bSaveFaults b = []" using assms(1) load_readable [of b] by (auto simp: faultless_def)
  note w = writeSecret_faultless [OF assms(1), of "captureWriteRequest req res" L]
  show "snd (fst (captureStore L req res b)) = None"
    using s w assms(2) save_faultless(1) [OF s(3)] by (simp add: captureStore_def captureDelete_def captureWrite_def Let_def)
  show "grOperation res \<noteq> ''delete'' \<Longrightarrow> faultless (snd (captureStore L req res b))"
    using s w assms(2)
    by (auto simp: captureStore_def captureWrite_def Let_def faultless_def isLocked_def captureAudit_def
        recordWritebackLockoutSuccess_def)
  show "bLockouts b = Some newLockoutStore \<Longrightarrow> bLockouts (snd (captureStore L req res b)) = Some newLockoutStore"
    using s w assms(2) save_faultless(1) [OF s(3)]
    by (simp add: captureStore_def captureDelete_def captureWrite_def Let_def recordWritebackLockoutSuccess_def recordSuccess_def
        newLockoutStore_def)
qed

lemma demo_faultless: "faultless demoBackend"
proof -
  have "\<not> isLocked demoBackend" by code_simp
  then show ?thesis by (simp add: faultless_def demoBackend_def lockState.defs)
qed

lemma demo_runs:
  fixes b :: "'m backend_scheme"
  assumes "bLockouts b = Some newLockoutStore" "faultless b" "op \<in> {''create'', ''delete''}" "ref \<in> {''db'', ''k /''}"
  shows "captureGeneratedSecret L (demoCapture op ref) b
      = ((fst (fst (captureGeneratedSecret L (demoCapture op ref) b)), None), snd (captureGeneratedSecret L (demoCapture op ref) b))"
    and "op = ''create'' \<Longrightarrow> faultless (snd (captureGeneratedSecret L (demoCapture op ref) b))"
    and "bLockouts (snd (captureGeneratedSecret L (demoCapture op ref) b)) = Some newLockoutStore"
proof -
  have v: "validSecretRef (grRef (captureResponse (demoCapture op ref)))"
    using demo_admitted [OF assms(1,3,4), of L] by (simp add: captureAdmitted_def Let_def)
  note f = captureStore_faultless [OF assms(2) v, of L "demoCapture op ref"]
  show "captureGeneratedSecret L (demoCapture op ref) b
      = ((fst (fst (captureGeneratedSecret L (demoCapture op ref) b)), None), snd (captureGeneratedSecret L (demoCapture op ref) b))"
    using f(1) by (simp add: demo_store [OF assms(1,3,4)] prod_eq_iff)
  have "grOperation (captureResponse (demoCapture ''create'' r)) \<noteq> ''delete''" for r
    by (simp add: captureResponse_def demoCapture_def Let_def) code_simp
  then show "op = ''create'' \<Longrightarrow> faultless (snd (captureGeneratedSecret L (demoCapture op ref) b))"
    unfolding demo_store [OF assms(1,3,4)] using f(2) by simp
  show "bLockouts (snd (captureGeneratedSecret L (demoCapture op ref) b)) = Some newLockoutStore"
    using f(3) assms(1) by (simp add: demo_store [OF assms(1,3,4)])
qed

theorem writeback_refines_vault_witness:
  "vault toy_lib (snd (captureGeneratedSecret toy_lib (demoCapture ''create'' ''db'') demoBackend)) ''services/api/db'' = Some ''v1''"
proof -
  have "captureEffect (demoCapture ''create'' ''db'') (vault toy_lib demoBackend) ''services/api/db'' = Some ''v1''" by code_simp
  then show ?thesis
    using writeback_refines_vault [OF toy_lib_ok demo_runs(1) [OF demoBackend_locks demo_faultless, of "''create''" "''db''" toy_lib]] by simp
qed

text \<open>
  Property C17. A write-back whose reference ends in a space before its trailing slash is stored under
  the trimmed reference, but a deletion with the same namespace and reference removes only the
  untrimmed one: it succeeds and leaves the secret in the store.
\<close>

theorem writeback_delete_misses_padded_ref:
  assumes "lib_ok L" "captureGeneratedSecret L req b = ((res, None), b1)" "grOperation (captureResponse req) \<noteq> ''delete''"
    and "captureGeneratedSecret L del b1 = ((res', None), b2)" "grOperation (captureResponse del) = ''delete''"
    and "gqNamespace del = gqNamespace req" "gqRef del = gqRef req"
    and "trimSpace (grRef (captureResponse req)) \<noteq> grRef (captureResponse req)"
  shows "vault L b2 (trimSpace (grRef (captureResponse req))) = Some (gqValue req)"
proof -
  have "grRef (captureResponse del) = grRef (captureResponse req)"
    using assms(6,7) by (simp add: captureResponse_def Let_def)
  then show ?thesis
    using capture_vault [OF assms(1,2)] capture_vault [OF assms(1,4)] assms(3,5,8) by (auto simp: captureEffect_def Let_def)
qed

theorem writeback_delete_misses_padded_ref_witness:
  "vault toy_lib (snd (captureGeneratedSecret toy_lib (demoCapture ''delete'' ''k /'')
     (snd (captureGeneratedSecret toy_lib (demoCapture ''create'' ''k /'') demoBackend)))) ''services/api/k'' = Some ''v1''"
proof -
  let ?res = "captureResponse (demoCapture ''create'' ''k /'')"
  note w = demo_runs [OF demoBackend_locks demo_faultless, of "''create''" "''k /''" toy_lib]
  note d = demo_runs(1) [OF w(3) w(2), of "''delete''" "''k /''" toy_lib]
  have "vault toy_lib (snd (captureGeneratedSecret toy_lib (demoCapture ''delete'' ''k /'')
     (snd (captureGeneratedSecret toy_lib (demoCapture ''create'' ''k /'') demoBackend)))) (trimSpace (grRef ?res))
     = Some (gqValue (demoCapture ''create'' ''k /''))"
  proof (rule writeback_delete_misses_padded_ref [OF toy_lib_ok w(1) _ d])
    show "grOperation ?res \<noteq> ''delete''" "grOperation (captureResponse (demoCapture ''delete'' ''k /'')) = ''delete''"
      "trimSpace (grRef ?res) \<noteq> grRef ?res" by code_simp+
  qed (simp_all add: demoCapture_def)
  moreover have "trimSpace (grRef ?res) = ''services/api/k''" by code_simp
  ultimately show ?thesis by simp
qed

end
