(* ===== verification/KV_History.thy ===== *)
theory KV_History
  imports KV_Store Writeback
begin

text \<open>
  The history of a path of the key-value store. Every entry that the modelled operations leave in the
  store holds at most ten consecutively numbered versions, the newest of which is the payload that
  \<open>resolve\<close> reads. On top of this invariant: check-and-set, reading back what was written, soft
  deletion, listing, and the fallback for the first version.
\<close>

subsection \<open>The invariant\<close>

definition versionNumbers :: "kvSecretState \<Rightarrow> int list" where
  "versionNumbers s = map krVersion (ksVersions s)"

definition kvStateOk :: "secretPayload \<Rightarrow> kvSecretState \<Rightarrow> bool" where
  "kvStateOk p s \<longleftrightarrow>
     1 \<le> ksCurrent s \<and> int (length (ksVersions s)) = min (int kvV2MaxVersions) (ksCurrent s)
     \<and> versionNumbers s = [ksCurrent s - int (length (ksVersions s)) + 1..ksCurrent s]
     \<and> krPayload (last (ksVersions s)) = p"

definition kvInv :: "secretEntry \<Rightarrow> bool" where
  "kvInv e \<longleftrightarrow> seRef e \<noteq> [] \<and> spCiphertext (sePayload e) \<noteq> [] \<and> kvStateOk (sePayload e) (localKVState e)"

definition kvStoreInv :: "'m backend_scheme \<Rightarrow> bool" where
  "kvStoreInv b \<longleftrightarrow> (\<forall>path e. map_of (secretsOf (bDisk b)) path = Some e \<longrightarrow> kvInv e)"

text \<open>AES-GCM appends a tag and base64 of a non-empty text is not empty.\<close>

definition seals_nonempty :: "'z golib_scheme \<Rightarrow> bool" where
  "seals_nonempty L \<longleftrightarrow> (\<forall>k n p. length n = gcmNonceSize \<longrightarrow> b64Encode L (gcmSeal L k n p) \<noteq> [])"

lemma toy_seals [simp]: "seals_nonempty toy_lib"
  by (auto simp: seals_nonempty_def toy_lib_def gcmNonceSize_def)

lemma kvStateOkD:
  assumes "kvStateOk p s"
  shows "ksVersions s \<noteq> []" "length (ksVersions s) \<le> kvV2MaxVersions" "int (length (ksVersions s)) \<le> ksCurrent s"
  using assms by (auto simp: kvStateOk_def kvV2MaxVersions_def)

lemma encrypt_nonempty:
  assumes "seals_nonempty L" "fst (encrypt L v b) = Inr p" shows "spCiphertext p \<noteq> []"
proof -
  obtain nonce where "fst (readNonce b) = Some nonce" "length nonce = gcmNonceSize"
    using assms(2) by (auto simp: encrypt_def encryptWithMasterKey_def readNonce_def gcmNonceSize_def split: list.splits option.splits)
  then show ?thesis using assms by (auto simp: encrypt_def encryptWithMasterKey_def seals_nonempty_def split: prod.splits option.splits)
qed

subsection \<open>Appending a version\<close>

lemma upto_drop: "int n \<le> j - i + 1 \<Longrightarrow> drop n [i..j] = [i + int n..j]"
proof (induction n arbitrary: i)
  case (Suc n)
  then have "[i..j] = i # [i + 1..j]" by (simp add: upto_rec1)
  then show ?case using Suc.IH [of "i + 1"] Suc.prems by (simp add: algebra_simps)
qed simp

lemma upto_snoc: "i \<le> j + 1 \<Longrightarrow> [i..j] @ [j + 1] = [i..j + 1]"
  using upto_rec2 [of i "j + 1"] by simp

lemma lastVersions_facts:
  "vs \<noteq> [] \<Longrightarrow> lastVersions vs \<noteq> []" "vs \<noteq> [] \<Longrightarrow> last (lastVersions vs) = last vs"
  "length (lastVersions vs) = min kvV2MaxVersions (length vs)"
  "lastVersions vs = drop (length vs - kvV2MaxVersions) vs"
  by (auto simp: lastVersions_def kvV2MaxVersions_def)

lemma kvStateOk_append:
  assumes "kvStateOk p s"
  shows "kvStateOk q \<lparr>ksCurrent = ksCurrent s + 1, ksVersions = lastVersions (ksVersions s @ [newVersion (ksCurrent s + 1) now q])\<rparr>"
proof -
  let ?n = "length (ksVersions s)" and ?c = "ksCurrent s"
  let ?vs = "ksVersions s @ [newVersion (?c + 1) now q]"
  have n: "?n \<le> kvV2MaxVersions" "int ?n \<le> ?c" "map krVersion (ksVersions s) = [?c - int ?n + 1..?c]"
    using assms kvStateOkD [OF assms] by (auto simp: kvStateOk_def versionNumbers_def)
  have l: "int ?n = min (int kvV2MaxVersions) ?c" "1 \<le> ?c" using assms by (auto simp: kvStateOk_def)
  have "map krVersion ?vs = [?c - int ?n + 1..?c + 1]"
    using n upto_snoc [of "?c - int ?n + 1" ?c] by (simp add: newVersion_def)
  then have "drop (length ?vs - kvV2MaxVersions) (map krVersion ?vs) = [?c - int ?n + 1 + int (length ?vs - kvV2MaxVersions)..?c + 1]"
    by (simp only: upto_drop) (rule upto_drop, simp)
  then have "map krVersion (lastVersions ?vs) = [?c - int ?n + 1 + int (length ?vs - kvV2MaxVersions)..?c + 1]"
    by (simp only: lastVersions_facts(4) drop_map)
  moreover have "?c - int ?n + 1 + int (length ?vs - kvV2MaxVersions) = ?c + 1 - int (length (lastVersions ?vs)) + 1"
    using n(1) by (simp add: lastVersions_facts(3) min_def)
  ultimately have "map krVersion (lastVersions ?vs) = [?c + 1 - int (length (lastVersions ?vs)) + 1..?c + 1]" by (simp only:)
  then show ?thesis using n l by (auto simp: kvStateOk_def versionNumbers_def lastVersions_facts(1-3) newVersion_def)
qed

lemma kvStateOk_first: "kvStateOk q \<lparr>ksCurrent = 1, ksVersions = [newVersion 1 now q]\<rparr>"
  by (simp add: kvStateOk_def versionNumbers_def newVersion_def kvV2MaxVersions_def)

lemma localKVState_some: "seKV e = Some s \<Longrightarrow> ksVersions s \<noteq> [] \<Longrightarrow> localKVState e = s"
  by (simp add: localKVState_def)

lemma localKVState_kvEntry [simp]: "kvStateOk q s \<Longrightarrow> localKVState (kvEntry L path ex p s now) = s"
  using kvStateOkD(1) [of q s] by (simp add: localKVState_def kvEntry_def)

lemma localKVState_noSecret [simp]: "localKVState noSecret = \<lparr>ksCurrent = 0, ksVersions = []\<rparr>"
  by (simp add: localKVState_def noSecret_def zeroPayload_def)

text \<open>Appending to an entry that satisfies the invariant, on every branch.\<close>

lemma append_existing:
  assumes "kvInv e"
  shows "appendLocalKVVersion e q now cas =
    (if cas \<noteq> None \<and> cas \<noteq> Some (ksCurrent (localKVState e)) then Inl errKVConflict
     else Inr \<lparr>ksCurrent = ksCurrent (localKVState e) + 1,
       ksVersions = lastVersions (ksVersions (localKVState e) @ [newVersion (ksCurrent (localKVState e) + 1) now q])\<rparr>)"
  using assms kvStateOkD(1) [of "sePayload e" "localKVState e"] by (auto simp: appendLocalKVVersion_def kvInv_def Let_def)

lemma append_new:
  "appendLocalKVVersion noSecret q now cas =
    (if cas \<noteq> None \<and> cas \<noteq> Some 0 then Inl errKVConflict else Inr \<lparr>ksCurrent = 1, ksVersions = [newVersion 1 now q]\<rparr>)"
  by (simp add: appendLocalKVVersion_def Let_def) (simp add: noSecret_def zeroPayload_def)

definition currentVersion :: "secretEntry option \<Rightarrow> int" where
  "currentVersion e = (case e of None \<Rightarrow> 0 | Some e \<Rightarrow> ksCurrent (localKVState e))"

definition pathEntry :: "'m backend_scheme \<Rightarrow> string \<Rightarrow> secretEntry option" where
  "pathEntry b path = map_of (secretsOf (bDisk b)) path"

lemma append_ok:
  assumes "\<forall>e. ex = Some e \<longrightarrow> kvInv e" "appendLocalKVVersion (case ex of Some e \<Rightarrow> e | None \<Rightarrow> noSecret) q now cas = Inr s"
  shows "kvStateOk q s \<and> ksCurrent s = currentVersion ex + 1 \<and> (cas = None \<or> cas = Some (currentVersion ex))
    \<and> last (ksVersions s) = newVersion (ksCurrent s) now q
    \<and> (\<exists>k. ksVersions s = drop k ((case ex of Some e \<Rightarrow> ksVersions (localKVState e) | None \<Rightarrow> []) @ [newVersion (ksCurrent s) now q]))"
proof (cases ex)
  case None
  then show ?thesis
    using assms(2) kvStateOk_first [of q now] by (auto simp: append_new currentVersion_def intro: exI [of _ 0] split: if_splits)
next
  case (Some e)
  have "\<exists>k. lastVersions vs = drop k vs" for vs by (auto simp: lastVersions_facts(4))
  then show ?thesis
    using Some assms kvStateOk_append [of "sePayload e" "localKVState e" q now]
    by (auto simp: append_existing currentVersion_def lastVersions_facts(1-3) kvInv_def simp del: drop_append split: if_splits)
qed

subsection \<open>What a write saves\<close>

definition fieldsFor :: "'z kvlib_scheme \<Rightarrow> bool \<Rightarrow> secretEntry option \<Rightarrow> string gomap \<Rightarrow> 'm backend_scheme \<Rightarrow> gerror + string gomap" where
  "fieldsFor L patch ex data b = (if patch then patchFields L b ex data else Inr data)"

lemma load_secrets: "loadStore b = Inr s \<Longrightarrow> map_of (stSecrets s) path = pathEntry b path"
  by (simp add: pathEntry_def secretsOf_load)

lemma kvWrite_frame [simp, store_frame]:
  "bMasterKey (snd (writeLocalKVData L path data cas patch b)) = bMasterKey b"
  "bNow (snd (writeLocalKVData L path data cas patch b)) = bNow b"
  "bSources (snd (writeLocalKVData L path data cas patch b)) = bSources b"
  by (simp_all add: writeLocalKVData_def Let_def attempt_def check_def split: sum.split option.split)

lemma kvMutate_frame [simp, store_frame]:
  "bMasterKey (snd (mutateLocalKVVersions L path vs u b)) = bMasterKey b"
  "bNow (snd (mutateLocalKVVersions L path vs u b)) = bNow b"
  by (simp_all add: mutateLocalKVVersions_def Let_def split: sum.split option.split)

text \<open>Every path of a write: an error and the disk as it was, or one save with the appended version.\<close>

lemma kvWrite_disk:
  fixes b :: "'m backend_scheme"
  obtains (unchanged) err where "fst (writeLocalKVData L path data cas patch b) = Inl err"
      "bDisk (snd (writeLocalKVData L path data cas patch b)) = bDisk b"
  | (saved) fs p kv s where "\<not> isLocked b" "validSecretRef path" "fieldsFor L patch (pathEntry b path) data b = Inr fs"
      "fst (encrypt L (kvPayloadPlaintext fs) b) = Inr p"
      "appendLocalKVVersion (case pathEntry b path of Some e \<Rightarrow> e | None \<Rightarrow> noSecret) p (bNow b) cas = Inr kv"
      "bDisk (snd (writeLocalKVData L path data cas patch b)) = Stored s"
      "stSecrets s = AList.update path (kvEntry L path (pathEntry b path) p kv (bNow b)) (secretsOf (bDisk b))"
      "\<forall>meta. fst (writeLocalKVData L path data cas patch b) = Inr meta \<longrightarrow> meta = kvMetadataFromRecord L (last (ksVersions kv))"
proof (cases "\<not> isLocked b \<and> validSecretRef path")
  case False
  then show ?thesis by (intro unchanged [of "if isLocked b then errLocked else errInvalidRef"]) (auto simp: writeLocalKVData_def)
next
  case g: True
  show ?thesis
  proof (cases "loadStore b")
    case (Inl e)
    then show ?thesis using g unchanged by (simp add: writeLocalKVData_def)
  next
    case s: (Inr s)
    note ex = load_secrets [OF s, of path]
    show ?thesis
    proof (cases "fieldsFor L patch (pathEntry b path) data b")
      case (Inl e)
      then show ?thesis using g s unchanged by (simp add: writeLocalKVData_def ex Let_def fieldsFor_def)
    next
      case f: (Inr fs)
      show ?thesis
      proof (cases "fst (encrypt L (kvPayloadPlaintext fs) b)")
        case (Inl e)
        then show ?thesis using g s f unchanged by (simp add: writeLocalKVData_def ex Let_def fieldsFor_def)
      next
        case p: (Inr p)
        show ?thesis
        proof (cases "appendLocalKVVersion (case pathEntry b path of Some e \<Rightarrow> e | None \<Rightarrow> noSecret) p (bNow b) cas")
          case (Inl e)
          then show ?thesis using g s f p unchanged by (simp add: writeLocalKVData_def ex Let_def fieldsFor_def)
        next
          case kv: (Inr kv)
          let ?s = "s\<lparr>stSecrets := AList.update path (kvEntry L path (pathEntry b path) p kv (bNow b)) (stSecrets s), stUpdatedAt := bNow b\<rparr>"
          let ?save = "saveStore ?s (snd (encrypt L (kvPayloadPlaintext fs) b))"
          have w: "writeLocalKVData L path data cas patch b = check ?save (\<lambda>err b2. (Inl err, b2))
              (\<lambda>b2. (Inr (kvMetadataFromRecord L (last (ksVersions kv))), b2))"
            using g s f p kv by (simp add: writeLocalKVData_def ex Let_def fieldsFor_def)
          show ?thesis
          proof (cases "bDisk (snd ?save) = Stored ?s")
            case True
            show ?thesis
            proof (rule saved [OF _ _ f p kv])
              show "bDisk (snd (writeLocalKVData L path data cas patch b)) = Stored ?s"
                using True w by (cases "fst ?save") simp_all
              show "\<forall>meta. fst (writeLocalKVData L path data cas patch b) = Inr meta \<longrightarrow> meta = kvMetadataFromRecord L (last (ksVersions kv))"
                using w by (cases "fst ?save") simp_all
            qed (use g s in \<open>simp_all add: secretsOf_load\<close>)
          next
            case False
            then show ?thesis using save_disk [of ?s "snd (encrypt L (kvPayloadPlaintext fs) b)"] w unchanged
              by (cases "fst ?save") simp_all
          qed
        qed
      qed
    qed
  qed
qed

lemma kvWrite_inv:
  assumes "kvStoreInv b" "seals_nonempty L"
  shows "kvStoreInv (snd (writeLocalKVData L path data cas patch b))"
proof (cases rule: kvWrite_disk [of L path data cas patch b, case_names unchanged saved])
  case unchanged
  then show ?thesis using assms(1) by (simp add: kvStoreInv_def)
next
  case (saved fs p kv s)
  have ex: "\<forall>e. pathEntry b path = Some e \<longrightarrow> kvInv e" using assms(1) by (simp add: kvStoreInv_def pathEntry_def)
  have "kvStateOk p kv" using append_ok [OF ex saved(5)] by blast
  moreover have "path \<noteq> []" using saved(2) by (auto simp: validSecretRef_def Let_def)
  ultimately have "kvInv (kvEntry L path (pathEntry b path) p kv (bNow b))"
    using encrypt_nonempty [OF assms(2) saved(4)] by (simp add: kvInv_def) (simp add: kvEntry_def)
  then show ?thesis using assms(1) saved(6,7) by (simp add: kvStoreInv_def secretsOf_def)
qed

text \<open>Every path of a deletion or restoration of versions.\<close>

definition markedEntry :: "'z golib_scheme \<Rightarrow> secretEntry \<Rightarrow> int list \<Rightarrow> bool \<Rightarrow> time \<Rightarrow> secretEntry" where
  "markedEntry L e vs undelete now =
     e\<lparr>seKV := Some ((localKVState e)\<lparr>ksVersions := map (markVersion L vs undelete now) (ksVersions (localKVState e))\<rparr>),
       seMetadata := (seMetadata e)\<lparr>smUpdatedAt := now\<rparr>\<rparr>"

definition chosenVersions :: "secretEntry \<Rightarrow> int list \<Rightarrow> int list" where
  "chosenVersions e vs = (if vs = [] then [ksCurrent (localKVState e)] else vs)"

lemma kvMutate_disk:
  fixes b :: "'m backend_scheme"
  obtains (unchanged) err where "fst (mutateLocalKVVersions L path vs u b) = Some err" "bDisk (snd (mutateLocalKVVersions L path vs u b)) = bDisk b"
  | (saved) e s where "\<not> isLocked b" "pathEntry b path = Some e" "bDisk (snd (mutateLocalKVVersions L path vs u b)) = Stored s"
      "stSecrets s = AList.update path (markedEntry L e (chosenVersions e vs) u (bNow b)) (secretsOf (bDisk b))"
proof (cases "\<not> isLocked b \<and> validSecretRef path")
  case False
  then show ?thesis by (intro unchanged [of "if isLocked b then errLocked else errInvalidRef"]) (auto simp: mutateLocalKVVersions_def)
next
  case g: True
  show ?thesis
  proof (cases "loadStore b")
    case (Inl e)
    then show ?thesis using g unchanged by (simp add: mutateLocalKVVersions_def)
  next
    case s: (Inr s)
    note ex = load_secrets [OF s, of path]
    show ?thesis
    proof (cases "pathEntry b path")
      case None
      then show ?thesis using g s unchanged by (simp add: mutateLocalKVVersions_def ex)
    next
      case e: (Some e)
      let ?s = "s\<lparr>stSecrets := AList.update path (markedEntry L e (chosenVersions e vs) u (bNow b)) (stSecrets s), stUpdatedAt := bNow b\<rparr>"
      show ?thesis
      proof (cases "list_ex (\<lambda>r. krVersion r \<in> set (chosenVersions e vs)) (ksVersions (localKVState e))")
        case False
        then show ?thesis using g s e unchanged by (simp add: mutateLocalKVVersions_def ex Let_def chosenVersions_def)
      next
        case True
        then have m: "mutateLocalKVVersions L path vs u b = saveStore ?s b"
          using g s e by (simp add: mutateLocalKVVersions_def ex Let_def chosenVersions_def markedEntry_def)
        show ?thesis
        proof (cases "bDisk (snd (saveStore ?s b)) = Stored ?s")
          case True
          then show ?thesis using saved [of e ?s] g e s m by (simp add: secretsOf_load)
        next
          case False
          then show ?thesis using save_disk [of ?s b] m unchanged by (cases "fst (saveStore ?s b)") simp_all
        qed
      qed
    qed
  qed
qed

lemma markVersion_keeps [simp]:
  "krVersion (markVersion L vs u now r) = krVersion r" "krPayload (markVersion L vs u now r) = krPayload r"
  "krCreatedTime (markVersion L vs u now r) = krCreatedTime r" "krDestroyed (markVersion L vs u now r) = krDestroyed r"
  by (simp_all add: markVersion_def)

lemma marked_state:
  assumes "kvInv e"
  shows "localKVState (markedEntry L e vs u now) = (localKVState e)\<lparr>ksVersions := map (markVersion L vs u now) (ksVersions (localKVState e))\<rparr>"
    and "sePayload (markedEntry L e vs u now) = sePayload e" and "kvInv (markedEntry L e vs u now)"
proof -
  show st: "localKVState (markedEntry L e vs u now) = (localKVState e)\<lparr>ksVersions := map (markVersion L vs u now) (ksVersions (localKVState e))\<rparr>"
    using assms kvStateOkD(1) [of "sePayload e" "localKVState e"] by (intro localKVState_some) (simp_all add: markedEntry_def kvInv_def)
  show p: "sePayload (markedEntry L e vs u now) = sePayload e" by (simp add: markedEntry_def)
  have "seRef (markedEntry L e vs u now) = seRef e" by (simp add: markedEntry_def)
  then show "kvInv (markedEntry L e vs u now)"
    using assms kvStateOkD(1) [of "sePayload e" "localKVState e"] unfolding kvInv_def st p
    by (auto simp: kvStateOk_def versionNumbers_def last_map comp_def)
qed

lemma kvMutate_inv:
  assumes "kvStoreInv b" shows "kvStoreInv (snd (mutateLocalKVVersions L path vs u b))"
proof (cases rule: kvMutate_disk [of L path vs u b, case_names unchanged saved])
  case unchanged
  then show ?thesis using assms by (simp add: kvStoreInv_def)
next
  case (saved e s)
  have "kvInv e" using assms saved(2) by (simp add: kvStoreInv_def pathEntry_def)
  then show ?thesis using assms saved(3,4) marked_state(3) by (simp add: kvStoreInv_def secretsOf_def)
qed

subsection \<open>Every operation keeps the invariant\<close>

lemma writeSecret_inv:
  assumes "kvStoreInv b" "seals_nonempty L"
  shows "kvStoreInv (snd (writeSecret L req b))"
proof (rule writeSecret_disk [of L req b])
  assume "bDisk (snd (writeSecret L req b)) = bDisk b"
  then show ?thesis using assms(1) by (simp add: kvStoreInv_def)
next
  fix p s
  assume a: "validSecretRef (wqRef req)" "fst (encrypt L (wqValue req) b) = Inr p" "loadStore b = Inr s"
    "bDisk (snd (writeSecret L req b)) = Stored (storeWith L req p s b)"
  let ?e = "entryOf L req p (stampKey L (bMasterKey b) s) (bNow b)"
  have e: "seRef ?e \<noteq> []" "sePayload ?e = p" "seKV ?e = None"
    using a(1) by (auto simp: entryOf_def Let_def validSecretRef_def)
  have "localKVState ?e = \<lparr>ksCurrent = 1, ksVersions = [firstVersion ?e]\<rparr>"
    using encrypt_nonempty [OF assms(2) a(2)] e(2,3) by (simp add: localKVState_def)
  then have "kvInv ?e" using encrypt_nonempty [OF assms(2) a(2)] e(1,2)
    by (simp add: kvInv_def kvStateOk_def versionNumbers_def firstVersion_def kvV2MaxVersions_def)
  then show ?thesis using assms(1) a(3,4)
    by (auto simp: kvStoreInv_def secretsOf_def [of "Stored _"] storeWith_def Let_def secretsOf_load)
qed

lemma capture_inv:
  assumes "kvStoreInv b" "seals_nonempty L"
  shows "kvStoreInv (snd (captureGeneratedSecret L req b))"
proof (cases rule: capture_cases [where L = L and req = req and b = b, OF refl, case_names refused admitted])
  case refused
  then show ?thesis using assms(1) by (simp add: refusedCapture_def kvStoreInv_def)
next
  case (admitted b1)
  let ?res = "captureResponse req"
  have b1: "kvStoreInv b1" using assms(1) admitted(2) by (simp add: kvStoreInv_def)
  have w: "kvStoreInv (snd (writeSecret L (captureWriteRequest req ?res) b1))" using writeSecret_inv [OF b1 assms(2)] .
  have "bDisk (snd (captureWrite L req ?res b1)) = bDisk (snd (writeSecret L (captureWriteRequest req ?res) b1))"
    by (simp add: captureWrite_def Let_def split: option.split gerror.split)
  then have cw: "kvStoreInv (snd (captureWrite L req ?res b1))" using w by (simp add: kvStoreInv_def)
  have cd: "kvStoreInv (snd (captureDelete L req ?res b1))"
  proof (cases "loadStore b1")
    case (Inl e)
    then show ?thesis using b1 by (simp add: captureDelete_def Let_def kvStoreInv_def)
  next
    case (Inr s)
    let ?s = "s\<lparr>stSecrets := AList.delete (grRef ?res) (stSecrets s), stUpdatedAt := bNow b1\<rparr>"
    have "bDisk (snd (captureDelete L req ?res b1)) = bDisk (snd (saveStore ?s b1))"
      using Inr by (simp add: captureDelete_def Let_def check_def split: option.split)
    then show ?thesis using b1 Inr save_disk(2) [of ?s b1]
      by (auto simp: kvStoreInv_def secretsOf_def [of "Stored _"] secretsOf_load split: if_splits)
  qed
  have "kvStoreInv (captureAudit L ''locked'' req ?res b1)" using b1 by (simp add: kvStoreInv_def)
  then show ?thesis using admitted(1) cw cd by (simp add: captureStore_def)
qed

text \<open>
  The store is reached from an empty one by writes, captures and operations on the versions of a
  path, with any change to the rest of the broker's state (clock, faults, lockouts, audit log) in
  between.
\<close>

inductive store_step :: "'z kvlib_scheme \<Rightarrow> 'm backend_scheme \<Rightarrow> 'm backend_scheme \<Rightarrow> bool" for L where
  step_write: "store_step L b (snd (writeSecret L req b))"
| step_capture: "store_step L b (snd (captureGeneratedSecret L cap b))"
| step_kv_write: "store_step L b (snd (writeLocalKVData L path data cas patch b))"
| step_kv_mark: "store_step L b (snd (mutateLocalKVVersions L path vs undelete b))"
| step_other: "bDisk b' = bDisk b \<Longrightarrow> store_step L b b'"

inductive store_reachable :: "'z kvlib_scheme \<Rightarrow> 'm backend_scheme \<Rightarrow> bool" for L where
  reach_start: "bDisk b \<in> {NoFile, EmptyFile} \<Longrightarrow> store_reachable L b"
| reach_step: "store_reachable L b \<Longrightarrow> store_step L b b' \<Longrightarrow> store_reachable L b'"

inductive_cases store_stepE: "store_step L b b'"

lemma store_step_inv: "store_step L b b' \<Longrightarrow> seals_nonempty L \<Longrightarrow> kvStoreInv b \<Longrightarrow> kvStoreInv b'"
  by (erule store_stepE) (auto simp: writeSecret_inv capture_inv kvWrite_inv kvMutate_inv, simp add: kvStoreInv_def)

lemma store_reachable_inv: "store_reachable L b \<Longrightarrow> seals_nonempty L \<Longrightarrow> kvStoreInv b"
  by (induction rule: store_reachable.induct) (auto intro: store_step_inv, auto simp: kvStoreInv_def secretsOf_def)


subsection \<open>Reading versions\<close>

lemma find_version:
  assumes "distinct (map krVersion vs)" "r \<in> set vs"
  shows "find (\<lambda>x. krVersion x = krVersion r) vs = Some r"
  using assms by (induction vs) (auto simp: image_iff)

lemma distinct_versions: "kvStateOk p s \<Longrightarrow> distinct (map krVersion (ksVersions s))"
  by (metis kvStateOk_def versionNumbers_def distinct_upto)

lemma current_is_last:
  assumes "kvStateOk p s" shows "krVersion (last (ksVersions s)) = ksCurrent s"
proof -
  have "last (map krVersion (ksVersions s)) = last [ksCurrent s - int (length (ksVersions s)) + 1..ksCurrent s]"
    using assms by (simp add: kvStateOk_def versionNumbers_def)
  moreover have "ksVersions s \<noteq> []" using kvStateOkD(1) [OF assms] .
  ultimately show ?thesis using upto_rec2 [of "ksCurrent s - int (length (ksVersions s)) + 1" "ksCurrent s"]
    by (simp add: last_map Suc_le_eq)
qed

lemma kvStateOk_member: "kvStateOk p s \<Longrightarrow> v \<in> krVersion ` set (ksVersions s) \<longleftrightarrow> ksCurrent s - int (length (ksVersions s)) < v \<and> v \<le> ksCurrent s"
proof -
  assume "kvStateOk p s"
  then have "set (map krVersion (ksVersions s)) = set [ksCurrent s - int (length (ksVersions s)) + 1..ksCurrent s]"
    by (simp add: kvStateOk_def versionNumbers_def)
  then show ?thesis by auto
qed

text \<open>Reading a record that the entry holds: the outcome depends only on the record.\<close>

definition recordAnswer :: "'z kvlib_scheme \<Rightarrow> 'm backend_scheme \<Rightarrow> kvVersionRecord \<Rightarrow> gerror + kvDataBody" where
  "recordAnswer L b r =
     (case decrypt L b (krPayload r) of Inl err \<Rightarrow> Inl err
      | Inr plaintext \<Rightarrow> if kvGone r then Inl errKVDeleted
          else Inr \<lparr>kdData = kvDataFromPlaintext L plaintext, kdMetadata = kvMetadataFromRecord L r\<rparr>)"

lemma read_record:
  assumes "\<not> isLocked b" "pathEntry b path = Some e" "kvInv e" "r \<in> set (ksVersions (localKVState e))" "0 < krVersion r"
  shows "readLocalKVData L path (krVersion r) b = (case loadStore b of Inl err \<Rightarrow> Inl err | Inr _ \<Rightarrow> recordAnswer L b r)"
proof -
  have "find (\<lambda>x. krVersion x = krVersion r) (ksVersions (localKVState e)) = Some r"
    using assms(3,4) distinct_versions by (intro find_version) (auto simp: kvInv_def)
  then show ?thesis using assms(1,2,5)
    by (simp add: readLocalKVData_def load_secrets localKVVersion_def recordAnswer_def Let_def split: sum.split)
qed

lemma read_current:
  assumes "\<not> isLocked b" "pathEntry b path = Some e" "kvInv e"
  shows "readLocalKVData L path 0 b = readLocalKVData L path (ksCurrent (localKVState e)) b"
  using assms by (simp add: readLocalKVData_def load_secrets localKVVersion_def Let_def split: sum.split)

lemma loads_entry: "pathEntry b path = Some e \<Longrightarrow> \<exists>s. loadStore b = Inr s"
  by (cases "bDisk b") (auto simp: pathEntry_def secretsOf_def loadStore_def)

subsection \<open>Writing\<close>

lemma inv_entry: "kvStoreInv b \<Longrightarrow> pathEntry b path = Some e \<Longrightarrow> kvInv e"
  by (simp add: kvStoreInv_def pathEntry_def)

lemma recordAnswer_cong: "bMasterKey b' = bMasterKey b \<Longrightarrow> recordAnswer L b' r = recordAnswer L b r"
  by (simp add: recordAnswer_def decrypt_cong [of b' b])

lemma pathEntry_saved:
  assumes "bDisk b' = Stored s" "stSecrets s = AList.update path e (secretsOf (bDisk b))"
  shows "pathEntry b' q = (if q = path then Some e else pathEntry b q)"
  using assms by (simp add: pathEntry_def secretsOf_def)

lemma kvWrite_ok:
  assumes "kvStoreInv b" "seals_nonempty L" "writeLocalKVData L path data cas patch b = (Inr meta, b')"
  obtains fs p kv where "\<not> isLocked b" "fieldsFor L patch (pathEntry b path) data b = Inr fs"
    "fst (encrypt L (kvPayloadPlaintext fs) b) = Inr p" "meta = kvMetadataFromRecord L (last (ksVersions kv))"
    "pathEntry b' path = Some (kvEntry L path (pathEntry b path) p kv (bNow b))"
    "\<forall>q. q \<noteq> path \<longrightarrow> pathEntry b' q = pathEntry b q"
    "kvInv (kvEntry L path (pathEntry b path) p kv (bNow b))" "kvStateOk p kv"
    "ksCurrent kv = currentVersion (pathEntry b path) + 1" "cas = None \<or> cas = Some (currentVersion (pathEntry b path))"
    "last (ksVersions kv) = newVersion (ksCurrent kv) (bNow b) p"
    "\<exists>k. ksVersions kv = drop k ((case pathEntry b path of Some e \<Rightarrow> ksVersions (localKVState e) | None \<Rightarrow> []) @ [newVersion (ksCurrent kv) (bNow b) p])"
proof (cases rule: kvWrite_disk [of L path data cas patch b, case_names unchanged saved])
  case unchanged
  then show ?thesis using assms(3) by simp
next
  case (saved fs p kv s)
  have b': "snd (writeLocalKVData L path data cas patch b) = b'" using assms(3) by simp
  have ex: "\<forall>e. pathEntry b path = Some e \<longrightarrow> kvInv e" using assms(1) by (simp add: kvStoreInv_def pathEntry_def)
  note a = append_ok [OF ex saved(5)]
  note pe = pathEntry_saved [of b' s path _ b, OF saved(6) [unfolded b'] saved(7)]
  have "kvStoreInv b'" using kvWrite_inv [OF assms(1,2), of path data cas patch] b' by simp
  then have inv: "kvInv (kvEntry L path (pathEntry b path) p kv (bNow b))" by (rule inv_entry [of _ path]) (simp add: pe)
  show ?thesis by (rule that [OF saved(1,3,4)]) (use saved(8) assms(3) a pe inv in \<open>auto simp del: drop_append\<close>)
qed

lemma isLocked_write: "writeLocalKVData L path data cas patch b = (r, b') \<Longrightarrow> isLocked b' = isLocked b"
  using kvWrite_frame(1) [of L path data cas patch b] by (simp add: isLocked_def)

lemma read_cong:
  assumes "pathEntry b' q = pathEntry b q" "bMasterKey b' = bMasterKey b" "pathEntry b q \<noteq> None \<or> (\<exists>s s'. loadStore b = Inr s \<and> loadStore b' = Inr s')"
  shows "readLocalKVData L q v b' = readLocalKVData L q v b"
proof -
  obtain s s' where s: "loadStore b = Inr s" "loadStore b' = Inr s'" using assms(1,3) loads_entry [of b q] loads_entry [of b' q] by auto
  have "localKVVersion L b' e v = localKVVersion L b e v" for e
    by (simp add: localKVVersion_def Let_def decrypt_cong [OF assms(2)] split: option.split)
  then show ?thesis using s assms(1,2) by (simp add: readLocalKVData_def load_secrets isLocked_def split: option.split)
qed

text \<open>The plain payload of a single field named \<open>value\<close>.\<close>

lemma kv_value_plain: "kvDataFromPlaintext L (kvPayloadPlaintext [(''value'', v)]) =
    (case (if hasPrefix (trimSpace v) ''{'' then decodeObject L (trimSpace v) else None) of
       Some raw \<Rightarrow> kvStringMap raw | None \<Rightarrow> [(''value'', v)])"
  by (simp add: kvPayloadPlaintext_def kvDataFromPlaintext_def Let_def)

lemma kvWrite_read_current:
  assumes "lib_ok L" "kvStateOk p kv" "\<not> isLocked b'" "pathEntry b' path = Some e" "kvInv e" "localKVState e = kv"
    and "last (ksVersions kv) = newVersion (ksCurrent kv) now p" "fst (encrypt L text b) = Inr p" "bMasterKey b' = bMasterKey b"
  shows "readLocalKVData L path (ksCurrent kv) b' =
      Inr \<lparr>kdData = kvDataFromPlaintext L text, kdMetadata = kvMetadataFromRecord L (last (ksVersions kv))\<rparr>"
    and "readLocalKVData L path 0 b' = readLocalKVData L path (ksCurrent kv) b'"
proof -
  obtain s' where s': "loadStore b' = Inr s'" using loads_entry [OF assms(4)] by blast
  have kv1: "1 \<le> ksCurrent kv" "ksVersions kv \<noteq> []" using assms(2) kvStateOkD(1) [OF assms(2)] by (auto simp: kvStateOk_def)
  have "readLocalKVData L path (ksCurrent kv) b' = recordAnswer L b' (last (ksVersions kv))"
    using read_record [OF assms(3-5), of "last (ksVersions kv)" L] assms(6) kv1 s' current_is_last [OF assms(2)] by simp
  moreover have "decrypt L b' p = Inr text" using decrypt_encrypt [OF assms(1,8,9)] .
  ultimately show "readLocalKVData L path (ksCurrent kv) b' =
      Inr \<lparr>kdData = kvDataFromPlaintext L text, kdMetadata = kvMetadataFromRecord L (last (ksVersions kv))\<rparr>"
    using assms(7) by (simp add: recordAnswer_def newVersion_def kvGone_def)
  show "readLocalKVData L path 0 b' = readLocalKVData L path (ksCurrent kv) b'"
    using read_current [OF assms(3-5), of L] assms(6) by simp
qed


subsection \<open>Check and set\<close>

lemma kvWrite_cas_conflict:
  assumes "kvStoreInv b" "seals_nonempty L" "n \<noteq> currentVersion (pathEntry b path)"
  shows "\<exists>err. fst (writeLocalKVData L path data (Some n) patch b) = Inl err"
proof (cases "fst (writeLocalKVData L path data (Some n) patch b)")
  case (Inr meta)
  then have "writeLocalKVData L path data (Some n) patch b = (Inr meta, snd (writeLocalKVData L path data (Some n) patch b))"
    by (metis prod.collapse)
  then show ?thesis by (rule kvWrite_ok [OF assms(1,2)]) (use assms(3) in auto)
qed simp


subsection \<open>Deleting and restoring versions\<close>

lemma chosen_marked: "kvInv e \<Longrightarrow> chosenVersions (markedEntry L e cs u now) vs = chosenVersions e vs"
  by (simp add: chosenVersions_def marked_state(1))

lemma kvMutate_ok:
  assumes "kvStoreInv b" "mutateLocalKVVersions L path vs u b = (None, b')" "pathEntry b path = Some e"
  shows "\<not> isLocked b' \<and> pathEntry b' path = Some (markedEntry L e (chosenVersions e vs) u (bNow b)) \<and> bMasterKey b' = bMasterKey b
    \<and> vault L b' = vault L b"
proof (cases rule: kvMutate_disk [of L path vs u b, case_names unchanged saved])
  case unchanged
  then show ?thesis using assms(2) by simp
next
  case (saved e1 s)
  have [simp]: "e1 = e" using saved(2) assms(3) by simp
  have b': "snd (mutateLocalKVVersions L path vs u b) = b'" using assms(2) by simp
  have key: "bMasterKey b' = bMasterKey b" using kvMutate_frame(1) [of L path vs u b] b' by simp
  note pe = pathEntry_saved [of b' s path _ b, OF saved(3) [unfolded b'] saved(4)]
  have "vault L b' = vault L b"
  proof
    fix q
    show "vault L b' q = vault L b q"
      using pe [of q] assms(3) marked_state(2) [OF inv_entry [OF assms(1,3)], of L "chosenVersions e vs" u "bNow b"] decrypt_cong [OF key, of L]
      by (simp add: vault_def pathEntry_def [symmetric] split: option.split)
  qed
  then show ?thesis using pe [of path] saved(1) key by (simp add: isLocked_def)
qed

text \<open>
  Property C21. Deleting versions of a path hides them and nothing else: a version that was readable
  answers \<open>errKVDeleted\<close> afterwards, restoring the same versions makes it readable again with the same
  data and metadata (the deletion time is empty), and neither changes what \<open>resolve\<close> reads: a deleted current version is still
  resolved.
\<close>

theorem kv_delete_undelete:
  assumes "seals_nonempty L" "store_reachable L b" "pathEntry b path = Some e"
    and "mutateLocalKVVersions L path vs False b = (None, b1)"
    and "mutateLocalKVVersions L path vs True b1 = (None, b2)"
    and "v \<in> set (chosenVersions e vs)" "v \<in> krVersion ` set (ksVersions (localKVState e))" "readLocalKVData L path v b = Inr d"
    and "trimSpace (formatNano L (bNow b)) \<noteq> []"
  shows "readLocalKVData L path v b1 = Inl errKVDeleted
    \<and> readLocalKVData L path v b2 = Inr (d\<lparr>kdMetadata := (kdMetadata d)\<lparr>kmDeletionTime := []\<rparr>\<rparr>)
    \<and> vault L b1 = vault L b \<and> vault L b2 = vault L b"
proof -
  have inv: "kvStoreInv b" using store_reachable_inv [OF assms(2,1)] .
  have inv1: "kvStoreInv b1" using kvMutate_inv [OF inv, of L path vs False] assms(4) by simp
  have inv2: "kvStoreInv b2" using kvMutate_inv [OF inv1, of L path vs True] assms(5) by simp
  let ?cs = "chosenVersions e vs"
  have m1: "\<not> isLocked b1" "pathEntry b1 path = Some (markedEntry L e ?cs False (bNow b))" "bMasterKey b1 = bMasterKey b" "vault L b1 = vault L b"
    using kvMutate_ok [OF inv assms(4,3)] by simp_all
  let ?e1 = "markedEntry L e ?cs False (bNow b)"
  have m2: "\<not> isLocked b2" "pathEntry b2 path = Some (markedEntry L ?e1 (chosenVersions ?e1 vs) True (bNow b1))" "bMasterKey b2 = bMasterKey b1" "vault L b2 = vault L b1"
    using kvMutate_ok [OF inv1 assms(5) m1(2)] by simp_all
  have ie: "kvInv e" using inv_entry [OF inv assms(3)] .
  note st1 = marked_state [OF ie, of L ?cs False "bNow b"]
  note st2 = marked_state(1) [OF st1(3), of L "chosenVersions ?e1 vs" True "bNow b1"]
  have cs: "chosenVersions ?e1 vs = ?cs" using chosen_marked [OF ie] .
  obtain r where r: "r \<in> set (ksVersions (localKVState e))" "krVersion r = v" using assms(7) by blast
  let ?r1 = "markVersion L ?cs False (bNow b) r"
  let ?r2 = "markVersion L ?cs True (bNow b1) ?r1"
  have v: "0 < v" using assms(7) kvStateOk_member [of "sePayload e" "localKVState e" v] kvStateOkD(3) ie by (force simp: kvInv_def)
  have l: "\<not> isLocked b" using assms(8) by (auto simp: readLocalKVData_def)
  have a: "recordAnswer L b r = Inr d"
    using read_record [OF l assms(3) ie r(1), of L] assms(8) r(2) v loads_entry [OF assms(3)] by auto
  have r1: "?r1 \<in> set (ksVersions (localKVState ?e1))" using r(1) st1(1) by simp
  have r2: "?r2 \<in> set (ksVersions (localKVState (markedEntry L ?e1 (chosenVersions ?e1 vs) True (bNow b1))))" using r1 st2 cs by simp
  have "readLocalKVData L path v b1 = recordAnswer L b1 ?r1" "readLocalKVData L path v b2 = recordAnswer L b2 ?r2"
    using read_record [OF m1(1,2) st1(3) r1, of L] read_record [OF m2(1,2) inv_entry [OF inv2 m2(2)] r2, of L] r(2) v
      loads_entry [OF m1(2)] loads_entry [OF m2(2)] by auto
  moreover have "recordAnswer L b1 ?r1 = Inl errKVDeleted"
    using a assms(6,9) r(2) recordAnswer_cong [OF m1(3), of L ?r1]
    by (auto simp: recordAnswer_def markVersion_def kvGone_def split: sum.splits if_splits)
  moreover have "recordAnswer L b2 ?r2 = recordAnswer L b (r\<lparr>krDeletionTime := []\<rparr>)"
    using recordAnswer_cong [OF m2(3) [unfolded m1(3)], of L ?r2] assms(6) r(2) by (simp add: markVersion_def)
  moreover have "recordAnswer L b (r\<lparr>krDeletionTime := []\<rparr>) = Inr (d\<lparr>kdMetadata := (kdMetadata d)\<lparr>kmDeletionTime := []\<rparr>\<rparr>)"
    using a by (auto simp: recordAnswer_def kvGone_def kvMetadataFromRecord_def split: sum.splits if_splits)
  ultimately show ?thesis using m1(4) m2(4) by simp
qed

subsection \<open>The first version after it has been dropped\<close>

text \<open>
  Property C22. Once a path has more than ten versions, asking for version 1 does not fail although
  that version is gone: the answer is the data of the current version under the number 1, even when
  the current version has been deleted and is refused under its own number.
\<close>

theorem kv_dropped_first_version:
  assumes "seals_nonempty L" "store_reachable L b" "pathEntry b path = Some e" "\<not> isLocked b"
    and "10 < ksCurrent (localKVState e)" "decrypt L b (sePayload e) = Inr plaintext"
  shows "readLocalKVData L path 1 b = Inr \<lparr>kdData = kvDataFromPlaintext L plaintext, kdMetadata = kvMetadataFromRecord L (firstVersion e)\<rparr>
    \<and> 1 \<notin> set (map krVersion (ksVersions (localKVState e)))
    \<and> (krDestroyed (last (ksVersions (localKVState e))) \<or> trimSpace (krDeletionTime (last (ksVersions (localKVState e)))) \<noteq> []
        \<longrightarrow> readLocalKVData L path 0 b = Inl errKVDeleted)"
proof -
  have ie: "kvInv e" using inv_entry [OF store_reachable_inv [OF assms(2,1)] assms(3)] .
  let ?s = "localKVState e"
  have st: "kvStateOk (sePayload e) ?s" using ie by (simp add: kvInv_def)
  obtain s where s: "loadStore b = Inr s" using loads_entry [OF assms(3)] by blast
  have one: "1 \<notin> krVersion ` set (ksVersions ?s)"
    using kvStateOk_member [OF st, of 1] st assms(5) by (auto simp: kvStateOk_def kvV2MaxVersions_def)
  then have "find (\<lambda>r. krVersion r = 1) (ksVersions ?s) = None" by (auto simp: find_None_iff)
  then have "readLocalKVData L path 1 b
      = Inr \<lparr>kdData = kvDataFromPlaintext L plaintext, kdMetadata = kvMetadataFromRecord L (firstVersion e)\<rparr>"
    using assms(3,4,6) s by (simp add: readLocalKVData_def load_secrets localKVVersion_def Let_def kvGone_def) (simp add: firstVersion_def)
  moreover have "readLocalKVData L path 0 b = recordAnswer L b (last (ksVersions ?s))"
    using read_current [OF assms(4,3) ie, of L] read_record [OF assms(4,3) ie, of "last (ksVersions ?s)" L] current_is_last [OF st]
      kvStateOkD(1) [OF st] st s by (simp add: kvStateOk_def)
  moreover have "krPayload (last (ksVersions ?s)) = sePayload e" using st by (simp add: kvStateOk_def)
  ultimately show ?thesis using one assms(6) by (auto simp: recordAnswer_def kvGone_def)
qed

subsection \<open>Listing\<close>

lemma childKeys_loop:
  "distinct keys \<Longrightarrow> distinct (kvChildKeys_loop p refs keys)
   \<and> set (kvChildKeys_loop p refs keys) = set keys \<union> {k. \<exists>ref \<in> set refs. childKey p ref = Some k}"
  by (induction p refs keys rule: kvChildKeys_loop.induct) (auto split: option.splits)

definition childName :: "string \<Rightarrow> string \<Rightarrow> bool" where
  "childName rest k \<longleftrightarrow>
     CHR ''/'' \<notin> set rest \<and> k = rest \<or> (\<exists>name below. rest = name @ CHR ''/'' # below \<and> CHR ''/'' \<notin> set name \<and> k = name @ ''/'')"

definition isChild :: "string \<Rightarrow> string list \<Rightarrow> string \<Rightarrow> bool" where
  "isChild dir refs k \<longleftrightarrow> (\<exists>rest. dir @ rest \<in> set refs \<and> rest \<noteq> [] \<and> childName rest k)"

lemma takeWhile_name: "CHR ''/'' \<notin> set name \<Longrightarrow> takeWhile (\<lambda>c. c \<noteq> CHR ''/'') (name @ CHR ''/'' # below) = name"
  by (induction name) auto

lemma childKey_rest:
  "(if CHR ''/'' \<in> set rest then takeWhile (\<lambda>c. c \<noteq> CHR ''/'') rest @ ''/'' else takeWhile (\<lambda>c. c \<noteq> CHR ''/'') rest) = k \<longleftrightarrow>
   childName rest k"
proof (cases "CHR ''/'' \<in> set rest")
  case True
  obtain name below where r: "rest = name @ CHR ''/'' # below" "CHR ''/'' \<notin> set name" using split_list_first [OF True] by blast
  then have tw: "takeWhile (\<lambda>c. c \<noteq> CHR ''/'') rest = name" by (simp add: takeWhile_name)
  have "n = name" if "rest = n @ CHR ''/'' # m" "CHR ''/'' \<notin> set n" for n m
    using that tw takeWhile_name [of n m] by simp
  then have "childName rest k \<longleftrightarrow> k = name @ ''/''" using True r unfolding childName_def by blast
  then show ?thesis using True tw by (simp add: eq_commute)
next
  case False
  have "takeWhile (\<lambda>c. c \<noteq> CHR ''/'') rest = rest" using False by (intro takeWhile_eq_all_conv [THEN iffD2]) auto
  moreover have "childName rest k \<longleftrightarrow> k = rest" using False unfolding childName_def by auto
  ultimately show ?thesis using False by (simp add: eq_commute)
qed

lemma childKey_iff: "childKey dir ref = Some k \<longleftrightarrow> (\<exists>rest. ref = dir @ rest \<and> rest \<noteq> [] \<and> childName rest k)"
proof (cases "take (length dir) ref = dir")
  case True
  then obtain rest where "ref = dir @ rest" by (metis append_take_drop_id)
  then show ?thesis
    using childKey_rest [of rest k] by (simp add: childKey_def hasPrefix_def trimPrefix_def cutSlash_def Let_def)
next
  case False
  then have "dir \<noteq> []" "\<nexists>rest. ref = dir @ rest" by auto
  then show ?thesis using False by (simp add: childKey_def hasPrefix_def)
qed

text \<open>
  Property C23. Listing a directory returns its immediate children, sorted and without repetition: the
  last segment of each path directly below it, and the name of each subdirectory with a trailing
  slash.
\<close>

theorem kv_list_is_children:
  "kvChildKeys refs pre =
     sorted_list_of_set (Collect (isChild (if trimSlash pre = [] then [] else trimSlash pre @ ''/'') refs))"
proof -
  define dir where "dir = (if trimSlash pre = [] then [] else trimSlash pre @ ''/'')"
  have "kvChildKeys refs pre = sort (kvChildKeys_loop dir refs [])"
    by (simp add: kvChildKeys_def Let_def dir_def)
  moreover have "{k. \<exists>ref \<in> set refs. childKey dir ref = Some k} = Collect (isChild dir refs)"
    unfolding childKey_iff isChild_def by blast
  then have "distinct (kvChildKeys_loop dir refs [])" "set (kvChildKeys_loop dir refs []) = Collect (isChild dir refs)"
    using childKeys_loop [of "[]" dir refs] by simp_all
  ultimately show ?thesis
    unfolding dir_def [symmetric] using sorted_list_of_set_sort_remdups [of "kvChildKeys_loop dir refs []"]
    by (simp add: distinct_remdups_id)
qed

subsection \<open>A key-value write as an update of the map\<close>

lemma kvWrite_vault:
  assumes "lib_ok L"
  shows "vault L (snd (writeLocalKVData L path data cas False b)) = (vault L b)(path \<mapsto> kvPayloadPlaintext data)
    \<or> (is_err (fst (writeLocalKVData L path data cas False b)) \<and> vault L (snd (writeLocalKVData L path data cas False b)) = vault L b)"
proof (cases rule: kvWrite_disk [of L path data cas False b, case_names unchanged saved])
  case unchanged
  then show ?thesis using vault_cong [of "snd (writeLocalKVData L path data cas False b)" b L] by simp
next
  case (saved fs p kv s)
  have "fs = data" using saved(3) by (simp add: fieldsFor_def)
  then have "decrypt L b (sePayload (kvEntry L path (pathEntry b path) p kv (bNow b))) = Inr (kvPayloadPlaintext data)"
    using decrypt_encrypt [OF assms saved(4) refl] by (simp add: kvEntry_def)
  from vault_stored [OF saved(6) kvWrite_frame(1) saved(7) this] show ?thesis by simp
qed

interpretation kv_op: atomic_op "vault L" "\<lambda>(path, data, cas). writeLocalKVData L path data cas False" "\<lambda>r. \<not> is_err r"
    "\<lambda>(path, data, cas) v. v(path \<mapsto> kvPayloadPlaintext data)" "\<lambda>_. lib_ok L"
proof (unfold_locales, goal_cases)
  case (1 s a)
  then show ?case using kvWrite_vault [of L "fst a" "fst (snd a)" "snd (snd a)" s] by (auto simp: case_prod_beta)
next
  case (2 s a)
  then show ?case using kvWrite_vault [of L "fst a" "fst (snd a)" "snd (snd a)" s] by (auto simp: case_prod_beta)
qed

subsection \<open>A concrete history\<close>

definition toy_kv :: kvlib where
  "toy_kv = golib.extend toy_lib \<lparr>decodeObject = (\<lambda>_. None)\<rparr>"

lemma toy_kv_ok [simp]: "lib_ok toy_kv" "seals_nonempty toy_kv"
proof -
  have f: "sha256 toy_kv = sha256 toy_lib" "gcmSeal toy_kv = gcmSeal toy_lib" "gcmOpen toy_kv = gcmOpen toy_lib"
    "b64Encode toy_kv = b64Encode toy_lib" "b64Decode toy_kv = b64Decode toy_lib"
    "b64RawURLEncode toy_kv = b64RawURLEncode toy_lib" "b64RawURLDecode toy_kv = b64RawURLDecode toy_lib"
    by (simp_all add: toy_kv_def golib.defs)
  show "lib_ok toy_kv" unfolding lib_ok_def f by (rule toy_lib_ok [unfolded lib_ok_def])
  show "seals_nonempty toy_kv" unfolding seals_nonempty_def f by (rule toy_seals [unfolded seals_nonempty_def])
qed

lemma kvWrite_faultless:
  assumes "faultless b" "validSecretRef path" "cas = None \<or> cas = Some (currentVersion (pathEntry b path))" "kvStoreInv b"
  shows "\<exists>meta. fst (writeLocalKVData L path data cas False b) = Inr meta" "faultless (snd (writeLocalKVData L path data cas False b))"
proof -
  obtain s where s: "loadStore b = Inr s" "\<not> isLocked b" using assms(1) load_readable [of b] by (auto simp: faultless_def)
  obtain p where p: "fst (encrypt L (kvPayloadPlaintext data) b) = Inr p"
    using assms(1) encrypt_faultless(1) [of b L "kvPayloadPlaintext data"] by (auto simp: faultless_def)
  note ex = load_secrets [OF s(1), of path]
  obtain kv where kv: "appendLocalKVVersion (case pathEntry b path of Some e \<Rightarrow> e | None \<Rightarrow> noSecret) p (bNow b) cas = Inr kv"
    using assms(3) inv_entry [OF assms(4), of path]
    by (cases "pathEntry b path") (auto simp: append_new append_existing currentVersion_def split: if_splits)
  let ?b = "snd (encrypt L (kvPayloadPlaintext data) b)"
  have f: "bSaveFaults ?b = []" "bRandom ?b = []" using assms(1) encrypt_faultless(2) [of b L] by (simp_all add: faultless_def)
  let ?s = "s\<lparr>stSecrets := AList.update path (kvEntry L path (pathEntry b path) p kv (bNow b)) (stSecrets s), stUpdatedAt := bNow b\<rparr>"
  have w: "writeLocalKVData L path data cas False b
      = (Inr (kvMetadataFromRecord L (last (ksVersions kv))), snd (saveStore ?s ?b))"
    using assms(2) s p kv save_faultless(1) [OF f(1)] by (simp add: writeLocalKVData_def Let_def ex)
  then show "\<exists>meta. fst (writeLocalKVData L path data cas False b) = Inr meta" by simp
  show "faultless (snd (writeLocalKVData L path data cas False b))"
    unfolding w using f s(2) save_disk(1) [OF save_faultless(1) [OF f(1)], of ?s] save_faultless(2) [OF f(1)]
    by (simp add: faultless_def isLocked_def)
qed

fun demoHistory :: "nat \<Rightarrow> backend" where
  "demoHistory 0 = demoBackend"
| "demoHistory (Suc n) = snd (writeLocalKVData toy_kv ''app/db'' [(''value'', ''s'')] None False (demoHistory n))"

declare demoHistory.simps(2) [simp del]

lemma demo_ref: "validSecretRef ''app/db''" by code_simp

lemma demo_reachable: "store_reachable toy_kv (demoHistory n)"
proof (induction n)
  case 0
  show ?case by (rule reach_start) (simp add: demoBackend_def lockState.defs)
next
  case (Suc n)
  then show ?case unfolding demoHistory.simps(2) by (rule reach_step [OF _ step_kv_write])
qed

lemma demo_inv: "kvStoreInv (demoHistory n)"
  using store_reachable_inv [OF demo_reachable toy_kv_ok(2)] .

lemma demo_history_faultless: "faultless (demoHistory n)"
  by (induction n) (simp_all add: demo_faultless demoHistory.simps(2) kvWrite_faultless(2) [OF _ demo_ref _ demo_inv])

lemma demo_written:
  obtains meta where "writeLocalKVData toy_kv ''app/db'' [(''value'', ''s'')] None False (demoHistory n) = (Inr meta, demoHistory (Suc n))"
  using kvWrite_faultless(1) [OF demo_history_faultless demo_ref _ demo_inv, of None n toy_kv "[(''value'', ''s'')]"]
  by (metis demoHistory.simps(2) prod.collapse)

lemma demo_current: "currentVersion (pathEntry (demoHistory n) ''app/db'') = int n"
proof (induction n)
  case 0
  show ?case by (simp add: pathEntry_def demoBackend_def lockState.defs secretsOf_def currentVersion_def)
next
  case (Suc n)
  obtain meta where w: "writeLocalKVData toy_kv ''app/db'' [(''value'', ''s'')] None False (demoHistory n) = (Inr meta, demoHistory (Suc n))"
    by (rule demo_written)
  show ?case by (rule kvWrite_ok [OF demo_inv toy_kv_ok(2) w]) (simp add: currentVersion_def Suc.IH [unfolded currentVersion_def])
qed

lemma demo_entry:
  obtains e where "pathEntry (demoHistory (Suc n)) ''app/db'' = Some e" "ksCurrent (localKVState e) = int (Suc n)"
    "decrypt toy_kv (demoHistory (Suc n)) (sePayload e) = Inr ''s''"
proof -
  obtain e where e: "pathEntry (demoHistory (Suc n)) ''app/db'' = Some e" "ksCurrent (localKVState e) = int (Suc n)"
    using demo_current [of "Suc n"] by (cases "pathEntry (demoHistory (Suc n)) ''app/db''") (auto simp: currentVersion_def)
  obtain meta where w: "writeLocalKVData toy_kv ''app/db'' [(''value'', ''s'')] None False (demoHistory n) = (Inr meta, demoHistory (Suc n))"
    by (rule demo_written)
  have "vault toy_kv (demoHistory (Suc n)) ''app/db'' = Some ''s''"
    using kvWrite_vault [OF toy_kv_ok(1), of "''app/db''" "[(''value'', ''s'')]" None "demoHistory n"] w
    by (simp add: kvPayloadPlaintext_def)
  then show ?thesis using that e by (auto simp: vault_def pathEntry_def split: sum.splits)
qed




theorem kv_dropped_first_version_witness:
  "\<exists>d. readLocalKVData toy_kv ''app/db'' 1 (demoHistory (Suc 11)) = Inr d \<and> kdData d = [(''value'', ''s'')]"
proof -
  obtain e where e: "pathEntry (demoHistory (Suc 11)) ''app/db'' = Some e" "ksCurrent (localKVState e) = int (Suc 11)"
    "decrypt toy_kv (demoHistory (Suc 11)) (sePayload e) = Inr ''s''" by (rule demo_entry)
  have l: "\<not> isLocked (demoHistory (Suc 11))" using demo_history_faultless [of "Suc 11"] by (simp add: faultless_def)
  have k: "kvDataFromPlaintext toy_kv ''s'' = [(''value'', ''s'')]" by code_simp
  show ?thesis using kv_dropped_first_version [OF toy_kv_ok(2) demo_reachable e(1) l _ e(3)] e(2) k by auto
qed

lemma kvMutate_faultless:
  assumes "faultless b" "validSecretRef path" "pathEntry b path = Some e" "kvInv e"
  shows "fst (mutateLocalKVVersions L path [] u b) = None" "faultless (snd (mutateLocalKVVersions L path [] u b))"
proof -
  obtain s where s: "loadStore b = Inr s" "\<not> isLocked b" "bSaveFaults b = []" using assms(1) load_readable [of b] by (auto simp: faultless_def)
  have st: "kvStateOk (sePayload e) (localKVState e)" using assms(4) by (simp add: kvInv_def)
  have "list_ex (\<lambda>r. krVersion r = ksCurrent (localKVState e)) (ksVersions (localKVState e))"
    using current_is_last [OF st] kvStateOkD(1) [OF st] by (auto simp: list_ex_iff intro!: bexI [of _ "last (ksVersions (localKVState e))"])
  then obtain s2 where m: "mutateLocalKVVersions L path [] u b = saveStore s2 b"
    using assms(2,3) s by (auto simp: mutateLocalKVVersions_def load_secrets [OF s(1)] Let_def)
  show "fst (mutateLocalKVVersions L path [] u b) = None" unfolding m by (rule save_faultless(1) [OF s(3)])
  show "faultless (snd (mutateLocalKVVersions L path [] u b))"
    unfolding m using assms(1) save_disk(1) [OF save_faultless(1) [OF s(3)], of s2] save_faultless(2) [OF s(3)]
    by (simp add: faultless_def isLocked_def)
qed

lemma demo_read: "\<exists>d. readLocalKVData toy_kv ''app/db'' (int (Suc n)) (demoHistory (Suc n)) = Inr d"
proof -
  obtain meta where w: "writeLocalKVData toy_kv ''app/db'' [(''value'', ''s'')] None False (demoHistory n) = (Inr meta, demoHistory (Suc n))"
    by (rule demo_written)
  have key: "bMasterKey (demoHistory (Suc n)) = bMasterKey (demoHistory n)"
    using kvWrite_frame(1) [of toy_kv "''app/db''" "[(''value'', ''s'')]" None False "demoHistory n"] w by simp
  have l: "\<not> isLocked (demoHistory (Suc n))" using demo_history_faultless [of "Suc n"] by (simp add: faultless_def)
  show ?thesis
  proof (rule kvWrite_ok [OF demo_inv toy_kv_ok(2) w])
    fix fs p kv
    assume a: "fst (encrypt toy_kv (kvPayloadPlaintext fs) (demoHistory n)) = Inr p"
      "pathEntry (demoHistory (Suc n)) ''app/db'' = Some (kvEntry toy_kv ''app/db'' (pathEntry (demoHistory n) ''app/db'') p kv (bNow (demoHistory n)))"
      "kvInv (kvEntry toy_kv ''app/db'' (pathEntry (demoHistory n) ''app/db'') p kv (bNow (demoHistory n)))" "kvStateOk p kv"
      "ksCurrent kv = currentVersion (pathEntry (demoHistory n) ''app/db'') + 1"
      "last (ksVersions kv) = newVersion (ksCurrent kv) (bNow (demoHistory n)) p"
    have "ksCurrent kv = int (Suc n)" using a(5) demo_current [of n] by simp
    then show ?thesis
      using kvWrite_read_current(1) [OF toy_kv_ok(1) a(4) l a(2,3) localKVState_kvEntry [OF a(4)] a(6) a(1) key] by (metis (no_types))
  qed
qed

theorem kv_delete_undelete_witness:
  "\<exists>b1 b2. mutateLocalKVVersions toy_kv ''app/db'' [] False (demoHistory (Suc 1)) = (None, b1)
     \<and> mutateLocalKVVersions toy_kv ''app/db'' [] True b1 = (None, b2)
     \<and> readLocalKVData toy_kv ''app/db'' (int (Suc 1)) b1 = Inl errKVDeleted
     \<and> (\<exists>d. readLocalKVData toy_kv ''app/db'' (int (Suc 1)) b2 = Inr d)"
proof -
  let ?b = "demoHistory (Suc 1)"
  obtain e where e: "pathEntry ?b ''app/db'' = Some e" "ksCurrent (localKVState e) = int (Suc 1)" by (rule demo_entry)
  have ie: "kvInv e" using inv_entry [OF demo_inv e(1)] .
  have st: "kvStateOk (sePayload e) (localKVState e)" using ie by (simp add: kvInv_def)
  let ?m1 = "mutateLocalKVVersions toy_kv ''app/db'' [] False ?b"
  let ?m2 = "mutateLocalKVVersions toy_kv ''app/db'' [] True (snd ?m1)"
  note f1 = kvMutate_faultless [OF demo_history_faultless demo_ref e(1) ie, of toy_kv False]
  have m1: "?m1 = (None, snd ?m1)" using f1(1) by (metis prod.collapse)
  note k1 = kvMutate_ok [OF demo_inv m1 e(1)]
  have e1: "pathEntry (snd ?m1) ''app/db'' = Some (markedEntry toy_kv e (chosenVersions e []) False (bNow ?b))" using k1 by simp
  note f2 = kvMutate_faultless(1) [OF f1(2) demo_ref e1 marked_state(3) [OF ie], of toy_kv True]
  have m2: "?m2 = (None, snd ?m2)" using f2 by (metis prod.collapse)
  obtain d where d: "readLocalKVData toy_kv ''app/db'' (int (Suc 1)) ?b = Inr d" using demo_read by blast
  have now: "bNow (demoHistory n) = 3" for n
    by (induction n) (simp_all add: demoHistory.simps(2), simp add: demoBackend_def demoLock_def demoAudit_def lockState.defs auditState.defs)
  have t: "trimSpace (formatNano toy_kv 3) \<noteq> []" by code_simp
  have v: "int (Suc 1) \<in> krVersion ` set (ksVersions (localKVState e))"
    using kvStateOk_member [OF st] st e(2) by (simp add: kvStateOk_def kvV2MaxVersions_def)
  have "readLocalKVData toy_kv ''app/db'' (int (Suc 1)) (snd ?m1) = Inl errKVDeleted \<and> (\<exists>d. readLocalKVData toy_kv ''app/db'' (int (Suc 1)) (snd ?m2) = Inr d)"
    using kv_delete_undelete [OF toy_kv_ok(2) demo_reachable e(1) m1 m2 _ v d] t e(2) by (auto simp: chosenVersions_def now)
  then show ?thesis using m1 m2 by blast
qed

end
