(* ===== verification/Broker_Runs.thy ===== *)
theory Broker_Runs
  imports Local_Store
begin

text \<open>
  Runs of the broker in which no fault of the environment occurs: the audit log can be written, the
  store file can be read and replaced, random bytes are available and the store is unlocked. \<open>ready\<close>
  collects these conditions; audits, saves and encryptions succeed and keep them. The theories of
  the operations use it to show that a request with nothing in its way is carried out.
\<close>

text \<open>An audit log that verifies and can be written; an audit event with ASCII fields keeps it so.\<close>

definition auditCalm :: "'z golib_scheme \<Rightarrow> 'm auditState_scheme \<Rightarrow> bool" where
  "auditCalm L b \<longleftrightarrow> trimSpace (bAuditPath b) \<noteq> [] \<and> bAuditFaults b = [] \<and> \<not> bAuditTorn b
     \<and> scFailed (scanChain L (readAuditEvents L (bAuditLog b))) = 0"

lemma operational_event_calm:
  "fst (writeOperationalEvent L NoFault x b) = None" "bAuditFaults (snd (writeOperationalEvent L NoFault x b)) = bAuditFaults b"
  "bAuditTorn (snd (writeOperationalEvent L NoFault x b)) = bAuditTorn b"
  by (simp_all add: writeOperationalEvent_def)

lemma event_calm:
  assumes "lib_ok L" "auditCalm L b" "asciiEvent e" "aeEventHash e = []" "aePreviousHash e = []"
  shows "fst (writeAuditEvent L e b) = None" "auditCalm L (snd (writeAuditEvent L e b))"
proof -
  have c: "trimSpace (bAuditPath b) \<noteq> []" "bAuditFaults b = []" "\<not> bAuditTorn b" "scFailed (scanChain L (readAuditEvents L (bAuditLog b))) = 0"
    using assms(2) by (auto simp: auditCalm_def)
  obtain chain verified where v: "verifyAuditChain L (readAuditEvents L (bAuditLog b)) = (chain, verified)" by fastforce
  have s: "cvStatus chain \<noteq> ''invalid''" using verifyAuditChain_sel(5) [of L "readAuditEvents L (bAuditLog b)"] c(4) v by simp
  show ok: "fst (writeAuditEvent L e b) = None"
    using c v s by (simp add: writeAuditEvent_def Let_def nextFault_def takeFault_def operational_event_calm)
  note w = write_success [OF c(1) ok]
  have "scFailed (scanChain L (readAuditEvents L (bAuditLog (snd (writeAuditEvent L e b))))) = 0"
    unfolding w(1) by (rule append_scan(1) [OF assms(1,3-5) w(2) refl])
  moreover have "bAuditFaults (snd (writeAuditEvent L e b)) = []" "\<not> bAuditTorn (snd (writeAuditEvent L e b))"
    using c v s by (simp_all add: writeAuditEvent_def Let_def nextFault_def takeFault_def operational_event_calm)
  ultimately show "auditCalm L (snd (writeAuditEvent L e b))" using c(1) by (simp add: auditCalm_def)
qed

lemma audit_calm:
  assumes "lib_ok L" "auditCalm L b" "list_all ascii [op, ref, oc, svc, rid]"
  shows "fst (audit L op ref oc svc rid b) = None" "auditCalm L (snd (audit L op ref oc svc rid b))"
  using assms(3) event_calm [OF assms(1,2)]
  by (simp_all add: audit_def asciiEvent_def scrubbedFields_def emptyAuditEvent_def ascii_def)

definition ready :: "'z golib_scheme \<Rightarrow> 'm backend_scheme \<Rightarrow> bool" where
  "ready L b \<longleftrightarrow> auditCalm L b \<and> faultless b"

lemma audit_ready:
  fixes b :: "'m backend_scheme"
  assumes "lib_ok L" "ready L b" "list_all ascii [op, ref, oc, svc, rid]"
  shows "fst (audit L op ref oc svc rid b) = None" "ready L (snd (audit L op ref oc svc rid b))"
proof -
  note c = audit_calm [OF assms(1) _ assms(3), of b]
  show "fst (audit L op ref oc svc rid b) = None" using c(1) assms(2) by (simp add: ready_def)
  show "ready L (snd (audit L op ref oc svc rid b))" using c(2) assms(2) by (simp add: ready_def faultless_def isLocked_def)
qed

lemma store_ops_calm:
  fixes b :: "'m backend_scheme"
  shows "auditCalm L (snd (saveStore s b)) = auditCalm L b" "auditCalm L (snd (encrypt L' v b)) = auditCalm L b"
  by (simp_all add: auditCalm_def saveStore_def encrypt_def encryptWithMasterKey_def readNonce_def Let_def split: list.split saveFault.split option.split)

lemma save_ready: "ready L b \<Longrightarrow> ready L (snd (saveStore s b))"
  using save_faultless [of b s] save_disk(1) [of s b] by (simp add: ready_def store_ops_calm faultless_def isLocked_def)

lemma encrypt_ready: "ready L b \<Longrightarrow> ready L (snd (encrypt L' v b))"
  using encrypt_faultless(2) [of b L' v] by (simp add: ready_def store_ops_calm faultless_def isLocked_def)

end
