(* ===== verification/Rotation.thy ===== *)
theory Rotation
  imports KV_History Broker_Runs "HOL-Library.Product_Lexorder"
begin

text \<open>
  Rotation of a secret through staged, active and retained versions (\<open>rotation_versions.go\<close>): the
  ledger of each reference, the operations stage, activate, roll back and retire, each guarded by an
  audit event that must be recorded first, and their endpoint. The mutexes make each operation
  atomic. Go iterates over the maps of a ledger in any order; the results the code computes from
  them (a sorted list, a maximum) do not depend on it.
\<close>

record rotationVersionRequest =
  tqRequestID :: string
  tqServiceID :: string
  tqRef :: string
  tqOperationID :: string
  tqVersionID :: string
  tqExpectedCurrentVersion :: string
  tqReason :: string
  tqConfirm :: bool
  tqValue :: string
  tqRetentionLimit :: int

record rotationVersionMetadata =
  tmVersionID :: string
  tmSourceID :: string
  tmState :: string
  tmFingerprint :: string
  tmCreatedAt :: time
  tmUpdatedAt :: time
  tmStagedAt :: time
  tmActivatedAt :: time
  tmRetainedAt :: time
  tmOperationID :: string
  tmAuditStatus :: string
  tmPolicyResult :: string

record rotationVersionResponse =
  trServiceID :: string
  trAPIVersion :: string
  trRequestID :: string
  trRef :: string
  trOperation :: string
  trMode :: string
  trOutcome :: string
  trApplied :: bool
  trRequiresConfirmation :: bool
  trAuditStatus :: string
  trPolicyResult :: string
  trNextAction :: string
  trActiveVersionID :: string
  trPreviousVersionID :: string
  trExpectedCurrentVersion :: string
  trCurrentVersion :: "rotationVersionMetadata option"
  trStagedVersion :: "rotationVersionMetadata option"
  trPreviousVersion :: "rotationVersionMetadata option"
  trVersions :: "rotationVersionMetadata list"
  trAffectedRefs :: "string list"
  trAffectedServices :: "string list"

definition defaultRotationRetentionLimit :: int where "defaultRotationRetentionLimit = 1"

definition noLedger :: rotationLedger where
  "noLedger = \<lparr>rlActiveVersionID = [], rlPreviousVersionID = [], rlLastRollbackOperationID = [], rlLastRollbackVersionID = [],
     rlStaged = [], rlRetained = [], rlUpdatedAt = 0\<rparr>"

subsection \<open>Requests\<close>

definition rotationOperationToken :: "'z golib_scheme \<Rightarrow> rotationVersionRequest \<Rightarrow> string" where
  "rotationOperationToken L req = safeOperationToken L (firstNonEmpty (tqOperationID req) (tqRequestID req))"

definition rotationVersionID :: "'z golib_scheme \<Rightarrow> rotationVersionRequest \<Rightarrow> string" where
  "rotationVersionID L req =
     (let versionID = safeOperationToken L (tqVersionID req) in
      if versionID \<noteq> [] then versionID
      else let token = rotationOperationToken L req in if token = [] then [] else ''rv-'' @ token)"

definition validateRotationSecretBearingRequest :: "'z golib_scheme \<Rightarrow> rotationVersionRequest \<Rightarrow> bool \<Rightarrow> gerror option" where
  "validateRotationSecretBearingRequest L req requireValue =
     (if \<not> validSecretRef (tqRef req) then Some errInvalidRef
      else if trimSpace (tqReason req) = [] then Some errPolicyDenied
      else if requireValue \<and> trimSpace (tqValue req) = [] then Some errPolicyDenied
      else if trimSpace (rotationOperationToken L req) = [] then Some errInvalidRef
      else None)"

definition validateRotationConfirmation :: "'z golib_scheme \<Rightarrow> rotationVersionRequest \<Rightarrow> bool \<Rightarrow> gerror option" where
  "validateRotationConfirmation L req requireExpectedCurrent =
     (case validateRotationSecretBearingRequest L
        \<lparr>tqRequestID = [], tqServiceID = [], tqRef = tqRef req, tqOperationID = firstNonEmpty (tqOperationID req) (tqRequestID req),
         tqVersionID = [], tqExpectedCurrentVersion = [], tqReason = tqReason req, tqConfirm = False, tqValue = ''metadata-only'',
         tqRetentionLimit = 0\<rparr> False of
        Some err \<Rightarrow> Some err
      | None \<Rightarrow>
          if \<not> tqConfirm req then Some errPolicyDenied
          else if requireExpectedCurrent \<and> trimSpace (tqExpectedCurrentVersion req) = [] then Some errRotationConflict
          else None)"

subsection \<open>The ledger\<close>

fun firstNonZeroTime :: "time list \<Rightarrow> time" where
  "firstNonZeroTime [] = 0"
| "firstNonZeroTime (t # ts) = (if t \<noteq> 0 then t else firstNonZeroTime ts)"

definition sortedStoredVersions :: "rotationStoredVersion gomap \<Rightarrow> rotationStoredVersion list" where
  "sortedStoredVersions versions =
     sort_key (\<lambda>v. (firstNonZeroTime [rvRetainedAt v, rvStagedAt v, smUpdatedAt (rvMetadata v)], rvVersionID v)) (map snd versions)"

definition retainedTime :: "rotationStoredVersion \<Rightarrow> time" where
  "retainedTime v = firstNonZeroTime [rvRetainedAt v, smUpdatedAt (rvMetadata v), smCreatedAt (rvMetadata v)]"

definition newestRetainedVersionID :: "rotationLedger \<Rightarrow> string" where
  "newestRetainedVersionID ledger =
     fst (fold (\<lambda>(versionID, retained) (newestID, newestAt).
         if newestID = [] \<or> retainedTime retained > newestAt \<or> (retainedTime retained = newestAt \<and> versionID > newestID)
         then (versionID, retainedTime retained) else (newestID, newestAt)) (rlRetained ledger) ([], 0))"

definition retentionLimit :: "int \<Rightarrow> int" where
  "retentionLimit limit = (let l = (if limit < 0 then 0 else limit) in if l = 0 then defaultRotationRetentionLimit else l)"

definition dropRetained :: "string \<Rightarrow> rotationLedger \<Rightarrow> rotationLedger" where
  "dropRetained versionID ledger =
     (let l = ledger\<lparr>rlRetained := AList.delete versionID (rlRetained ledger)\<rparr> in
      if rlPreviousVersionID ledger = versionID then l\<lparr>rlPreviousVersionID := newestRetainedVersionID l\<rparr> else l)"

fun trimRetained_loop :: "int \<Rightarrow> rotationStoredVersion list \<Rightarrow> rotationLedger \<Rightarrow> bool \<Rightarrow> bool \<times> rotationLedger" where
  "trimRetained_loop limit [] ledger retired = (retired, ledger)"
| "trimRetained_loop limit (v # vs) ledger retired =
     (if int (length (v # vs)) > limit then trimRetained_loop limit vs (dropRetained (rvVersionID v) ledger) True
      else (retired, ledger))"

definition trimRetainedVersions :: "int \<Rightarrow> rotationLedger \<Rightarrow> bool \<times> rotationLedger" where
  "trimRetainedVersions limit ledger =
     (if rlRetained ledger = [] then (False, ledger)
      else trimRetained_loop (retentionLimit limit) (sortedStoredVersions (rlRetained ledger)) ledger False)"

definition retentionPruningRequired :: "rotationLedger \<Rightarrow> int \<Rightarrow> bool" where
  "retentionPruningRequired ledger limit \<longleftrightarrow> int (length (rlRetained ledger)) > retentionLimit limit"

definition loadRotationTarget ::
  "'z golib_scheme \<Rightarrow> string \<Rightarrow> 'm backend_scheme \<Rightarrow> gerror + localStoreFile \<times> secretEntry \<times> rotationLedger" where
  "loadRotationTarget L ref b =
     (if \<not> validSecretRef ref then Inl errInvalidRef
      else if isLocked b then Inl errLocked
      else case loadStore b of Inl _ \<Rightarrow> Inl errBackendDegraded
      | Inr store \<Rightarrow> (case map_of (stSecrets store) ref of None \<Rightarrow> Inl errMissingRef
          | Some entry \<Rightarrow>
              let meta = seMetadata entry;
                  current = (if trimSpace (smVersion meta) = [] then entry\<lparr>seMetadata := meta\<lparr>smVersion := formatNano L (smUpdatedAt meta)\<rparr>\<rparr> else entry);
                  ledger = (case map_of (stRotations store) ref of Some l \<Rightarrow> l | None \<Rightarrow> noLedger)
              in Inr (store, current, ledger\<lparr>rlActiveVersionID := firstNonEmpty (rlActiveVersionID ledger) (smVersion (seMetadata current))\<rparr>)))"

subsection \<open>Responses\<close>

definition rotationFingerprint :: "'z golib_scheme \<Rightarrow> string \<Rightarrow> secretPayload \<Rightarrow> string" where
  "rotationFingerprint L versionID p =
     hashAuditRef L (joinWith '':'' [trimSpace versionID, spAlg p, spKeyID p, spKeyVersion p, spNonce p, spCiphertext p])"

definition rotationMetadataFromEntry :: "'z golib_scheme \<Rightarrow> secretEntry \<Rightarrow> string \<Rightarrow> rotationVersionMetadata" where
  "rotationMetadataFromEntry L entry state = \<lparr>tmVersionID = smVersion (seMetadata entry),
     tmSourceID = firstNonEmpty (smSourceID (seMetadata entry)) localStoreSource, tmState = state,
     tmFingerprint = rotationFingerprint L (smVersion (seMetadata entry)) (sePayload entry),
     tmCreatedAt = smCreatedAt (seMetadata entry), tmUpdatedAt = smUpdatedAt (seMetadata entry), tmStagedAt = 0, tmActivatedAt = 0,
     tmRetainedAt = 0, tmOperationID = [], tmAuditStatus = ''audit_available'', tmPolicyResult = ''allowed''\<rparr>"

definition rotationMetadataFromStored :: "'z golib_scheme \<Rightarrow> rotationStoredVersion \<Rightarrow> string \<Rightarrow> rotationVersionMetadata" where
  "rotationMetadataFromStored L stored state = \<lparr>tmVersionID = rvVersionID stored,
     tmSourceID = firstNonEmpty (smSourceID (rvMetadata stored)) localStoreSource, tmState = state,
     tmFingerprint = rotationFingerprint L (rvVersionID stored) (rvPayload stored),
     tmCreatedAt = smCreatedAt (rvMetadata stored), tmUpdatedAt = smUpdatedAt (rvMetadata stored), tmStagedAt = rvStagedAt stored,
     tmActivatedAt = rvActivatedAt stored, tmRetainedAt = rvRetainedAt stored, tmOperationID = rvOperationID stored,
     tmAuditStatus = ''audit_available'', tmPolicyResult = ''allowed''\<rparr>"

definition baseRotationVersionResponse :: "rotationVersionRequest \<Rightarrow> string \<Rightarrow> string \<Rightarrow> rotationVersionResponse" where
  "baseRotationVersionResponse req operation mode =
     (let ref = trimSpace (tqRef req) in
      \<lparr>trServiceID = serviceID, trAPIVersion = apiVersion, trRequestID = trimSpace (tqRequestID req), trRef = ref, trOperation = operation,
       trMode = mode, trOutcome = ''pending'', trApplied = False, trRequiresConfirmation = (mode \<noteq> ''status''), trAuditStatus = ''audit_pending'',
       trPolicyResult = ''allowed'', trNextAction = [], trActiveVersionID = [], trPreviousVersionID = [],
       trExpectedCurrentVersion = trimSpace (tqExpectedCurrentVersion req), trCurrentVersion = None, trStagedVersion = None,
       trPreviousVersion = None, trVersions = [], trAffectedRefs = safeList [ref],
       trAffectedServices = safeList [firstNonEmpty (tqServiceID req) (ownerFromRef ref)]\<rparr>)"

definition enrichRotationResponse ::
  "'z golib_scheme \<Rightarrow> rotationVersionResponse \<Rightarrow> secretEntry \<Rightarrow> rotationLedger \<Rightarrow> rotationVersionResponse" where
  "enrichRotationResponse L res current ledger =
     (let activeVersionID = firstNonEmpty (rlActiveVersionID ledger) (smVersion (seMetadata current)) in
      res\<lparr>trActiveVersionID := activeVersionID, trPreviousVersionID := rlPreviousVersionID ledger,
        trCurrentVersion := Some ((rotationMetadataFromEntry L current ''active'')\<lparr>tmVersionID := activeVersionID\<rparr>),
        trPreviousVersion := (case map_of (rlRetained ledger) (rlPreviousVersionID ledger) of
            Some previous \<Rightarrow> Some (rotationMetadataFromStored L previous ''previous'') | None \<Rightarrow> trPreviousVersion res),
        trVersions := trVersions res
          @ map (\<lambda>staged. rotationMetadataFromStored L staged ''staged'') (sortedStoredVersions (rlStaged ledger))
          @ map (\<lambda>retained. rotationMetadataFromStored L retained
              (if rvVersionID retained = rlPreviousVersionID ledger then ''previous'' else ''retained'')) (sortedStoredVersions (rlRetained ledger))\<rparr>)"

definition rotationAuditUnavailableResponse ::
  "'z golib_scheme \<Rightarrow> rotationVersionResponse \<Rightarrow> secretEntry \<Rightarrow> rotationLedger \<Rightarrow> rotationVersionResponse" where
  "rotationAuditUnavailableResponse L res current ledger =
     (enrichRotationResponse L res current ledger)\<lparr>trOutcome := ''audit_unavailable'', trApplied := False,
       trAuditStatus := ''audit_unavailable'', trNextAction := ''restore_audit_and_retry''\<rparr>"

subsection \<open>Operations\<close>

type_synonym 'm rotationResult = "(rotationVersionResponse \<times> gerror option) \<times> 'm"

definition requireRotationMutationAudit ::
  "'z golib_scheme \<Rightarrow> string \<Rightarrow> rotationVersionRequest \<Rightarrow> 'm backend_scheme \<Rightarrow> gerror option \<times> 'm backend_scheme" where
  "requireRotationMutationAudit L operation req b =
     (if trimSpace (bAuditPath b) = [] then (Some errRotationAuditUnavailable, b)
      else check (audit L operation (tqRef req) ''ready'' (tqServiceID req) (tqRequestID req) b)
        (\<lambda>_ b1. (Some errRotationAuditUnavailable, b1)) (\<lambda>b1. (None, b1)))"

text \<open>Answering with an outcome: the audit event that records it cannot fail the operation.\<close>

definition rotationAnswer ::
  "'z golib_scheme \<Rightarrow> rotationVersionRequest \<Rightarrow> rotationVersionResponse \<Rightarrow> string \<Rightarrow> string \<Rightarrow> gerror option \<Rightarrow> 'm backend_scheme
    \<Rightarrow> 'm backend_scheme rotationResult" where
  "rotationAnswer L req res outcome next err b =
     ((res\<lparr>trOutcome := outcome, trNextAction := next\<rparr>, err),
      audit_ignored L (trOperation res) (trimSpace (tqRef req)) outcome (tqServiceID req) (tqRequestID req) b)"

definition rotationFailed ::
  "'z golib_scheme \<Rightarrow> rotationVersionRequest \<Rightarrow> rotationVersionResponse \<Rightarrow> gerror \<Rightarrow> 'm backend_scheme \<Rightarrow> 'm backend_scheme rotationResult" where
  "rotationFailed L req res err b =
     rotationAnswer L req res (outcomeForError err) (nextActionForManagedOutcome (outcomeForError err)) (Some err) b"

definition rotationSave ::
  "'z golib_scheme \<Rightarrow> rotationVersionRequest \<Rightarrow> rotationVersionResponse \<Rightarrow> localStoreFile
    \<Rightarrow> ('m backend_scheme \<Rightarrow> 'm backend_scheme rotationResult) \<Rightarrow> 'm backend_scheme \<Rightarrow> 'm backend_scheme rotationResult" where
  "rotationSave L req res store continue b =
     check (saveStore store b)
       (\<lambda>_ b1. rotationAnswer L req res ''degraded'' ''retry_or_inspect_source'' (Some errBackendDegraded) b1)
       continue"

definition rotationStatus :: "'z golib_scheme \<Rightarrow> rotationVersionRequest \<Rightarrow> 'm backend_scheme \<Rightarrow> 'm backend_scheme rotationResult" where
  "rotationStatus L req b =
     (let ref = trimSpace (tqRef req); res = baseRotationVersionResponse req ''rotation_status'' ''status'' in
      if \<not> validSecretRef ref then rotationAnswer L req res ''invalid_ref'' ''fix_ref'' (Some errInvalidRef) b
      else if isLocked b then rotationAnswer L req res ''locked'' ''unlock_broker'' (Some errLocked) b
      else case loadStore b of
        Inl _ \<Rightarrow> rotationAnswer L req res ''degraded'' ''retry_or_inspect_source'' (Some errBackendDegraded) b
      | Inr store \<Rightarrow> (case map_of (stSecrets store) ref of
            None \<Rightarrow> rotationAnswer L req res ''missing_ref'' ''check_ref'' (Some errMissingRef) b
          | Some entry \<Rightarrow>
              let ledger = (case map_of (stRotations store) ref of Some l \<Rightarrow> l | None \<Rightarrow> noLedger) in
              rotationAnswer L req ((enrichRotationResponse L res entry ledger)\<lparr>trAuditStatus := ''audit_available''\<rparr>) ''ready'' [] None b))"

definition stagedVersionOf :: "'z golib_scheme \<Rightarrow> rotationVersionRequest \<Rightarrow> secretPayload \<Rightarrow> time \<Rightarrow> rotationStoredVersion" where
  "stagedVersionOf L req payload now =
     (let ref = trimSpace (tqRef req); versionID = rotationVersionID L req in
      \<lparr>rvVersionID = versionID, rvOperationID = rotationOperationToken L req, rvRequestID = trimSpace (tqRequestID req),
       rvMetadata = \<lparr>smSourceID = ''rotation:staged:'' @ firstNonEmpty (tqServiceID req) (ownerFromRef ref), smVersion = versionID,
         smCreatedAt = now, smUpdatedAt = now\<rparr>,
       rvPayload = payload, rvStagedAt = now, rvActivatedAt = 0, rvRetainedAt = 0\<rparr>)"

definition withLedger :: "string \<Rightarrow> rotationLedger \<Rightarrow> time \<Rightarrow> localStoreFile \<Rightarrow> localStoreFile" where
  "withLedger ref ledger now store = store\<lparr>stRotations := AList.update ref ledger (stRotations store), stUpdatedAt := now\<rparr>"

definition stagedAnswer ::
  "'z golib_scheme \<Rightarrow> rotationVersionRequest \<Rightarrow> rotationVersionResponse \<Rightarrow> secretEntry \<Rightarrow> rotationLedger \<Rightarrow> rotationStoredVersion
    \<Rightarrow> 'm backend_scheme \<Rightarrow> 'm backend_scheme rotationResult" where
  "stagedAnswer L req res current ledger staged b =
     rotationAnswer L req ((enrichRotationResponse L res current ledger)\<lparr>trStagedVersion := Some (rotationMetadataFromStored L staged ''staged''),
         trAuditStatus := ''audit_recorded''\<rparr>)
       ''staged'' ''activate_with_expected_current_version_after_consumer_preflight'' None b"

definition stageLedger :: "'z golib_scheme \<Rightarrow> rotationVersionRequest \<Rightarrow> secretEntry \<Rightarrow> rotationStoredVersion \<Rightarrow> time \<Rightarrow> rotationLedger \<Rightarrow> rotationLedger" where
  "stageLedger L req current staged now ledger =
     ledger\<lparr>rlActiveVersionID := firstNonEmpty (rlActiveVersionID ledger) (smVersion (seMetadata current)),
       rlStaged := AList.update (rotationVersionID L req) staged (rlStaged ledger), rlUpdatedAt := now\<rparr>"

definition stageRotationVersion :: "'z golib_scheme \<Rightarrow> rotationVersionRequest \<Rightarrow> 'm backend_scheme \<Rightarrow> 'm backend_scheme rotationResult" where
  "stageRotationVersion L req b =
     (let ref = trimSpace (tqRef req); res = baseRotationVersionResponse req ''rotation_stage'' ''stage'' in
      if \<not> tqConfirm req then
        rotationAnswer L req res ''policy_denied'' ''confirm_with_audit_reason_and_candidate_value'' (Some errPolicyDenied) b
      else case validateRotationSecretBearingRequest L req True of Some err \<Rightarrow> rotationFailed L req res err b
      | None \<Rightarrow> (case loadRotationTarget L ref b of Inl err \<Rightarrow> rotationFailed L req res err b
          | Inr (store, current, ledger) \<Rightarrow>
              let expected = trimSpace (tqExpectedCurrentVersion req) in
              if expected \<noteq> [] \<and> smVersion (seMetadata current) \<noteq> expected then
                rotationAnswer L req ((enrichRotationResponse L res current ledger)\<lparr>trExpectedCurrentVersion := expected\<rparr>)
                  ''conflict'' ''refresh_current_version_and_retry'' (Some errRotationConflict) b
              else case map_of (rlStaged ledger) (rotationVersionID L req) of
                Some staged \<Rightarrow> stagedAnswer L req res current ledger staged b
              | None \<Rightarrow>
                  check (requireRotationMutationAudit L ''rotation_stage'' req b)
                    (\<lambda>err b1. ((rotationAuditUnavailableResponse L res current ledger, Some err), b1))
                    (\<lambda>b1.
                       attempt (encrypt L (tqValue req) b1)
                         (\<lambda>_ b2. rotationAnswer L req res ''degraded'' ''retry_or_inspect_source'' (Some errBackendDegraded) b2)
                         (\<lambda>payload b2.
                            let staged = stagedVersionOf L req payload (bNow b);
                                ledger' = stageLedger L req current staged (bNow b) ledger in
                            rotationSave L req res (withLedger ref ledger' (bNow b) store)
                              (stagedAnswer L req res current ledger' staged) b2))))"

text \<open>What happens to the current version when another one takes its place.\<close>

definition retiredCurrent :: "rotationVersionRequest \<Rightarrow> secretEntry \<Rightarrow> rotationLedger \<Rightarrow> time \<Rightarrow> rotationStoredVersion" where
  "retiredCurrent req current ledger now =
     \<lparr>rvVersionID = smVersion (seMetadata current), rvOperationID = rlActiveVersionID ledger, rvRequestID = trimSpace (tqRequestID req),
      rvMetadata = seMetadata current, rvPayload = sePayload current, rvStagedAt = 0, rvActivatedAt = 0, rvRetainedAt = now\<rparr>"

definition replaceSecret :: "string \<Rightarrow> SecretMetadata \<Rightarrow> secretPayload \<Rightarrow> rotationLedger \<Rightarrow> time \<Rightarrow> localStoreFile \<Rightarrow> localStoreFile" where
  "replaceSecret ref meta payload ledger now store =
     withLedger ref ledger now
       (store\<lparr>stSecrets := AList.update ref \<lparr>seRef = ref, seMetadata = meta, sePayload = payload, seKV = None\<rparr> (stSecrets store)\<rparr>)"

definition activatedMetadata :: "rotationVersionRequest \<Rightarrow> rotationStoredVersion \<Rightarrow> time \<Rightarrow> SecretMetadata" where
  "activatedMetadata req staged now =
     (let ref = trimSpace (tqRef req) in
      (rvMetadata staged)\<lparr>smSourceID := firstNonEmpty (smSourceID (rvMetadata staged)) (''rotation:active:'' @ firstNonEmpty (tqServiceID req) (ownerFromRef ref)),
        smUpdatedAt := now\<rparr>)"

definition activateLedger ::
  "rotationVersionRequest \<Rightarrow> secretEntry \<Rightarrow> string \<Rightarrow> rotationStoredVersion \<Rightarrow> time \<Rightarrow> rotationLedger \<Rightarrow> rotationLedger" where
  "activateLedger req current versionID staged now ledger =
     (let previous = retiredCurrent req current ledger now in
      ledger\<lparr>rlRetained := AList.update (rvVersionID previous) previous (rlRetained ledger),
        rlStaged := AList.delete versionID (rlStaged ledger),
        rlPreviousVersionID := rvVersionID previous, rlActiveVersionID := rvVersionID staged, rlUpdatedAt := now\<rparr>)"

definition appliedAnswer ::
  "'z golib_scheme \<Rightarrow> rotationVersionRequest \<Rightarrow> rotationVersionResponse \<Rightarrow> secretEntry \<Rightarrow> rotationLedger \<Rightarrow> string \<Rightarrow> bool \<Rightarrow> string
    \<Rightarrow> 'm backend_scheme \<Rightarrow> 'm backend_scheme rotationResult" where
  "appliedAnswer L req res current ledger outcome applied next b =
     rotationAnswer L req ((enrichRotationResponse L res current ledger)\<lparr>trApplied := applied, trAuditStatus := ''audit_recorded''\<rparr>)
       outcome next None b"

definition activateRotationVersion :: "'z golib_scheme \<Rightarrow> rotationVersionRequest \<Rightarrow> 'm backend_scheme \<Rightarrow> 'm backend_scheme rotationResult" where
  "activateRotationVersion L req b =
     (let ref = trimSpace (tqRef req); res = baseRotationVersionResponse req ''rotation_activate'' ''activate'' in
      case validateRotationConfirmation L req True of
        Some err \<Rightarrow> rotationAnswer L req res (outcomeForError err)
          ''confirm_with_audit_reason_expected_current_version_and_staged_version'' (Some err) b
      | None \<Rightarrow> (case loadRotationTarget L ref b of Inl err \<Rightarrow> rotationFailed L req res err b
          | Inr (store, current, ledger) \<Rightarrow>
              let expected = trimSpace (tqExpectedCurrentVersion req) in
              if expected = [] \<or> smVersion (seMetadata current) \<noteq> expected then
                rotationAnswer L req ((enrichRotationResponse L res current ledger)\<lparr>trExpectedCurrentVersion := expected\<rparr>)
                  ''conflict'' ''refresh_current_version_and_retry'' (Some errRotationConflict) b
              else
                let versionID = orDefault (trimSpace (tqVersionID req)) (rotationVersionID L req) in
                case map_of (rlStaged ledger) versionID of
                  None \<Rightarrow> rotationAnswer L req (enrichRotationResponse L res current ledger) ''missing_ref'' ''stage_candidate_version_first'' (Some errMissingRef) b
                | Some staged \<Rightarrow>
                    check (requireRotationMutationAudit L ''rotation_activate'' req b)
                      (\<lambda>err b1. ((rotationAuditUnavailableResponse L res current ledger, Some err), b1))
                      (\<lambda>b1.
                         let meta = activatedMetadata req staged (bNow b);
                             ledger' = activateLedger req current versionID staged (bNow b) ledger in
                         rotationSave L req res (replaceSecret ref meta (rvPayload staged) ledger' (bNow b) store)
                           (appliedAnswer L req res \<lparr>seRef = ref, seMetadata = meta, sePayload = rvPayload staged, seKV = None\<rparr> ledger'
                              ''applied'' True ''record_consumer_convergence_or_rollback'') b1)))"

definition rollbackLedger ::
  "'z golib_scheme \<Rightarrow> rotationVersionRequest \<Rightarrow> secretEntry \<Rightarrow> string \<Rightarrow> rotationStoredVersion \<Rightarrow> time \<Rightarrow> rotationLedger \<Rightarrow> rotationLedger" where
  "rollbackLedger L req current versionID previous now ledger =
     (let rc = retiredCurrent req current ledger now in
      ledger\<lparr>rlRetained := AList.update (rvVersionID rc) rc (AList.delete versionID (rlRetained ledger)),
        rlActiveVersionID := rvVersionID previous, rlPreviousVersionID := rvVersionID rc,
        rlLastRollbackOperationID := rotationOperationToken L req, rlLastRollbackVersionID := rvVersionID previous, rlUpdatedAt := now\<rparr>)"

definition rollbackRotationVersion :: "'z golib_scheme \<Rightarrow> rotationVersionRequest \<Rightarrow> 'm backend_scheme \<Rightarrow> 'm backend_scheme rotationResult" where
  "rollbackRotationVersion L req b =
     (let ref = trimSpace (tqRef req); res = baseRotationVersionResponse req ''rotation_rollback'' ''rollback'' in
      case validateRotationConfirmation L req False of
        Some err \<Rightarrow> rotationAnswer L req res (outcomeForError err) ''confirm_with_audit_reason'' (Some err) b
      | None \<Rightarrow> (case loadRotationTarget L ref b of Inl err \<Rightarrow> rotationFailed L req res err b
          | Inr (store, current, ledger) \<Rightarrow>
              let version = smVersion (seMetadata current);
                  versionID = orDefault (trimSpace (tqVersionID req)) (rlPreviousVersionID ledger);
                  answered = enrichRotationResponse L res current ledger in
              if rotationOperationToken L req = rlLastRollbackOperationID ledger \<and> version = rlLastRollbackVersionID ledger then
                rotationAnswer L req answered ''conflict'' ''already_active'' (Some errRotationConflict) b
              else if versionID = version then
                rotationAnswer L req answered ''conflict'' ''already_active'' (Some errRotationConflict) b
              else case map_of (rlRetained ledger) versionID of
                None \<Rightarrow> rotationAnswer L req answered ''missing_ref'' ''inspect_rotation_status'' (Some errMissingRef) b
              | Some previous \<Rightarrow>
                  check (requireRotationMutationAudit L ''rotation_rollback'' req b)
                    (\<lambda>err b1. ((rotationAuditUnavailableResponse L res current ledger, Some err), b1))
                    (\<lambda>b1.
                       let meta = (rvMetadata previous)\<lparr>smUpdatedAt := bNow b\<rparr>;
                           ledger' = rollbackLedger L req current versionID previous (bNow b) ledger in
                       rotationSave L req res (replaceSecret ref meta (rvPayload previous) ledger' (bNow b) store)
                         (appliedAnswer L req res \<lparr>seRef = ref, seMetadata = meta, sePayload = rvPayload previous, seKV = None\<rparr> ledger'
                            ''rolled_back'' True ''inspect_or_retire_superseded_version_after_convergence'') b1)))"

definition retireLedger :: "rotationVersionRequest \<Rightarrow> rotationLedger \<Rightarrow> bool \<times> rotationLedger" where
  "retireLedger req ledger =
     (let versionID = trimSpace (tqVersionID req) in
      if versionID \<noteq> [] then (True, dropRetained versionID ledger) else trimRetainedVersions (tqRetentionLimit req) ledger)"

definition retireRotationVersion :: "'z golib_scheme \<Rightarrow> rotationVersionRequest \<Rightarrow> 'm backend_scheme \<Rightarrow> 'm backend_scheme rotationResult" where
  "retireRotationVersion L req b =
     (let ref = trimSpace (tqRef req); res = baseRotationVersionResponse req ''rotation_retire'' ''retire'' in
      case validateRotationConfirmation L req False of
        Some err \<Rightarrow> rotationAnswer L req res (outcomeForError err) ''confirm_with_audit_reason'' (Some err) b
      | None \<Rightarrow> (case loadRotationTarget L ref b of Inl err \<Rightarrow> rotationFailed L req res err b
          | Inr (store, current, ledger) \<Rightarrow>
              let versionID = trimSpace (tqVersionID req) in
              if versionID \<noteq> [] \<and> versionID = smVersion (seMetadata current) then
                rotationAnswer L req (enrichRotationResponse L res current ledger) ''conflict'' ''cannot_retire_active_version'' (Some errRotationConflict) b
              else if (if versionID \<noteq> [] then map_of (rlRetained ledger) versionID = None
                       else \<not> retentionPruningRequired ledger (tqRetentionLimit req)) then
                appliedAnswer L req res current ledger ''retired'' False ''inspect_rotation_status'' b
              else
                check (requireRotationMutationAudit L ''rotation_retire'' req b)
                  (\<lambda>err b1. ((rotationAuditUnavailableResponse L res current ledger, Some err), b1))
                  (\<lambda>b1.
                     let (retired, l) = retireLedger req ledger; ledger' = l\<lparr>rlUpdatedAt := bNow b\<rparr> in
                     rotationSave L req res (withLedger ref ledger' (bNow b) store)
                       (appliedAnswer L req res current ledger' ''retired'' retired ''inspect_rotation_status'') b1)))"

subsection \<open>The endpoints\<close>

definition writeRotationVersionError :: "gerror \<Rightarrow> rotationVersionResponse \<Rightarrow> rotationVersionResponse reply" where
  "writeRotationVersionError err res =
     Json (case err of errInvalidRef \<Rightarrow> 400 | errMissingRef \<Rightarrow> 404 | errPolicyDenied \<Rightarrow> 403 | errRotationConflict \<Rightarrow> 409 | _ \<Rightarrow> 503) res"

definition rotationVersionAction ::
  "'z golib_scheme \<Rightarrow> string \<Rightarrow> string \<Rightarrow> (rotationVersionRequest \<Rightarrow> 'm backend_scheme \<Rightarrow> 'm backend_scheme rotationResult)
    \<Rightarrow> httpRequest \<Rightarrow> rotationVersionRequest decoded \<Rightarrow> 'm backend_scheme \<Rightarrow> rotationVersionResponse reply \<times> 'm backend_scheme" where
  "rotationVersionAction L token path handler r body b =
     (if hMethod r \<noteq> ''POST'' then
        (writeAPIError 405 ''method_not_allowed'' (''Use POST '' @ path @ ''.'') ''invalid_ref'' [], b)
      else check (require L token r b)
        (\<lambda>refusal b1. (refusal, b1))
        (\<lambda>b1. case body of
            BodyTooLarge \<Rightarrow> (writeDecodeError True, b1)
          | BodyMalformed \<Rightarrow> (writeDecodeError False, b1)
          | Decoded req \<Rightarrow>
              let h = handler req b1 in
              (case snd (fst h) of Some err \<Rightarrow> writeRotationVersionError err (fst (fst h)) | None \<Rightarrow> Json 200 (fst (fst h)), snd h)))"

definition rotationHandlers ::
  "'z golib_scheme \<Rightarrow> (string \<times> (rotationVersionRequest \<Rightarrow> 'm backend_scheme \<Rightarrow> 'm backend_scheme rotationResult)) list" where
  "rotationHandlers L =
     [(''/v1/management/secrets/rotation/status'', rotationStatus L), (''/v1/management/secrets/rotation/stage'', stageRotationVersion L),
      (''/v1/management/secrets/rotation/activate'', activateRotationVersion L),
      (''/v1/management/secrets/rotation/rollback'', rollbackRotationVersion L),
      (''/v1/management/secrets/rotation/retire'', retireRotationVersion L)]"

end
