(* ===== verification/Rotation_Facts.thy ===== *)
theory Rotation_Facts
  imports Rotation "HOL-Library.Multiset"
begin

text \<open>
  Facts about the rotation operations: what each can do to the store file, that a change is preceded
  by a recorded audit event, that a rotation can be rolled back without loss, and how many versions
  retirement leaves.
\<close>

subsection \<open>Frames\<close>

lemma rotationAnswer_keeps [simp, store_frame]:
  "bDisk (snd (rotationAnswer L req res oc nx err b)) = bDisk b"
  "bMasterKey (snd (rotationAnswer L req res oc nx err b)) = bMasterKey b"
  "snd (fst (rotationAnswer L req res oc nx err b)) = err"
  by (simp_all add: rotationAnswer_def)

lemma rotationAnswers_keep [simp, store_frame]:
  "bDisk (snd (rotationFailed L req res err1 b)) = bDisk b"
  "bMasterKey (snd (rotationFailed L req res err1 b)) = bMasterKey b"
  "snd (fst (rotationFailed L req res err1 b)) = Some err1"
  "bDisk (snd (stagedAnswer L req res cur led st b)) = bDisk b"
  "bMasterKey (snd (stagedAnswer L req res cur led st b)) = bMasterKey b"
  "snd (fst (stagedAnswer L req res cur led st b)) = None"
  "bDisk (snd (appliedAnswer L req res cur led oc ap nx b)) = bDisk b"
  "bMasterKey (snd (appliedAnswer L req res cur led oc ap nx b)) = bMasterKey b"
  "snd (fst (appliedAnswer L req res cur led oc ap nx b)) = None"
  by (simp_all add: rotationFailed_def stagedAnswer_def appliedAnswer_def)

lemma requireAudit_keeps [simp, store_frame]:
  "bDisk (snd (requireRotationMutationAudit L op req b)) = bDisk b"
  "bMasterKey (snd (requireRotationMutationAudit L op req b)) = bMasterKey b"
  "bNow (snd (requireRotationMutationAudit L op req b)) = bNow b"
  by (simp_all add: requireRotationMutationAudit_def check_def split: option.split)

lemma requireAudit_error: "fst (requireRotationMutationAudit L op req b) \<in> {None, Some errRotationAuditUnavailable}"
  by (auto simp: requireRotationMutationAudit_def check_def split: option.split)

text \<open>The audit event that a mutation needs is on record.\<close>

definition audited :: "'z golib_scheme \<Rightarrow> string \<Rightarrow> rotationVersionRequest \<Rightarrow> 'm backend_scheme \<Rightarrow> bool" where
  "audited L op req b \<longleftrightarrow> trimSpace (bAuditPath b) \<noteq> []
     \<and> fst (audit L op (tqRef req) ''ready'' (tqServiceID req) (tqRequestID req) b) = None"

lemma requireAudit_ok: "fst (requireRotationMutationAudit L op req b) = None \<longleftrightarrow> audited L op req b"
  by (auto simp: requireRotationMutationAudit_def audited_def check_def split: option.splits)

lemma rotationSave_cases:
  assumes "\<And>b'. bDisk (snd (k b')) = bDisk b'" "\<And>b'. bMasterKey (snd (k b')) = bMasterKey b'" "\<And>b'. snd (fst (k b')) = None"
  shows "bMasterKey (snd (rotationSave L req res s k b)) = bMasterKey b"
    and "bDisk (snd (rotationSave L req res s k b)) = Stored s
      \<or> (bDisk (snd (rotationSave L req res s k b)) = bDisk b \<and> snd (fst (rotationSave L req res s k b)) = Some errBackendDegraded)"
    and "snd (fst (rotationSave L req res s k b)) \<in> {None, Some errBackendDegraded}"
  using assms save_disk [of s b] by (auto simp: rotationSave_def check_def split: option.split)

text \<open>The outcome of an operation: a failure without effect, an answer without effect, or one save.\<close>

datatype effectOf = NoEffect | Saves localStoreFile

definition rotationOutcome ::
  "'z golib_scheme \<Rightarrow> string \<Rightarrow> rotationVersionRequest \<Rightarrow> effectOf \<Rightarrow> 'm backend_scheme \<Rightarrow> 'm backend_scheme rotationResult \<Rightarrow> bool" where
  "rotationOutcome L op req e b r \<longleftrightarrow>
     bMasterKey (snd r) = bMasterKey b
     \<and> (case e of NoEffect \<Rightarrow> bDisk (snd r) = bDisk b
        | Saves s \<Rightarrow> audited L op req b \<and> (bDisk (snd r) = Stored s \<or> bDisk (snd r) = bDisk b \<and> snd (fst r) = Some errBackendDegraded)
            \<and> snd (fst r) \<in> {None, Some errBackendDegraded})"

lemma rotationOutcome_none [simp]:
  "rotationOutcome L op req NoEffect b r \<longleftrightarrow> bMasterKey (snd r) = bMasterKey b \<and> bDisk (snd r) = bDisk b"
  by (simp add: rotationOutcome_def)

lemma rotationOutcome_save:
  assumes "audited L op req b" "bDisk b1 = bDisk b" "bMasterKey b1 = bMasterKey b"
    and "\<And>b'. bDisk (snd (k b')) = bDisk b'" "\<And>b'. bMasterKey (snd (k b')) = bMasterKey b'" "\<And>b'. snd (fst (k b')) = None"
  shows "rotationOutcome L op req (Saves s) b (rotationSave L req res s k b1)"
  using rotationSave_cases [of k L req res s b1, OF assms(4-6)] assms(1-3) by (auto simp: rotationOutcome_def)

subsection \<open>Every path of each operation\<close>

lemma stage_paths:
  fixes b :: "'m backend_scheme"
  obtains (none) "bMasterKey (snd (stageRotationVersion L req b)) = bMasterKey b" "bDisk (snd (stageRotationVersion L req b)) = bDisk b"
      "snd (fst (stageRotationVersion L req b)) \<noteq> None \<or>
       (\<exists>s cur led. loadRotationTarget L (trimSpace (tqRef req)) b = Inr (s, cur, led) \<and> map_of (rlStaged led) (rotationVersionID L req) \<noteq> None)"
  | (saves) s cur led p where "loadRotationTarget L (trimSpace (tqRef req)) b = Inr (s, cur, led)"
      "fst (encrypt L (tqValue req) (snd (requireRotationMutationAudit L ''rotation_stage'' req b))) = Inr p"
      "rotationOutcome L ''rotation_stage'' req
         (Saves (withLedger (trimSpace (tqRef req)) (stageLedger L req cur (stagedVersionOf L req p (bNow b)) (bNow b) led) (bNow b) s)) b
         (stageRotationVersion L req b)"
proof (cases "tqConfirm req \<and> validateRotationSecretBearingRequest L req True = None")
  case False
  then show ?thesis by (intro none) (auto simp: stageRotationVersion_def Let_def split: option.split)
next
  case g: True
  show ?thesis
  proof (cases "loadRotationTarget L (trimSpace (tqRef req)) b")
    case (Inl err)
    then show ?thesis using g by (intro none) (simp_all add: stageRotationVersion_def Let_def)
  next
    case t: (Inr t)
    obtain s cur led where t': "t = (s, cur, led)" by (cases t)
    let ?a = "requireRotationMutationAudit L ''rotation_stage'' req b"
    let ?conflict = "trimSpace (tqExpectedCurrentVersion req) \<noteq> [] \<and> smVersion (seMetadata cur) \<noteq> trimSpace (tqExpectedCurrentVersion req)"
    show ?thesis
    proof (cases "?conflict \<or> map_of (rlStaged led) (rotationVersionID L req) \<noteq> None \<or> fst ?a \<noteq> None \<or> is_err (fst (encrypt L (tqValue req) (snd ?a)))")
      case True
      then show ?thesis using g t t' by (intro none) (auto simp: stageRotationVersion_def Let_def check_def attempt_def is_err_def split: option.splits sum.splits)
    next
      case False
      then obtain p where p: "fst (encrypt L (tqValue req) (snd ?a)) = Inr p" by (auto simp: is_err_def split: sum.splits)
      from False have a: "fst ?a = None" by simp
      show ?thesis
      proof (rule saves [OF _ p])
        show "loadRotationTarget L (trimSpace (tqRef req)) b = Inr (s, cur, led)" using t t' by simp
        let ?led = "stageLedger L req cur (stagedVersionOf L req p (bNow b)) (bNow b) led"
        let ?res = "baseRotationVersionResponse req ''rotation_stage'' ''stage''"
        have "stageRotationVersion L req b = rotationSave L req ?res (withLedger (trimSpace (tqRef req)) ?led (bNow b) s)
            (stagedAnswer L req ?res cur ?led (stagedVersionOf L req p (bNow b))) (snd (encrypt L (tqValue req) (snd ?a)))"
          using g t t' False p a by (auto simp: stageRotationVersion_def Let_def)
        then show "rotationOutcome L ''rotation_stage'' req (Saves (withLedger (trimSpace (tqRef req)) ?led (bNow b) s)) b (stageRotationVersion L req b)"
          using a by (auto intro!: rotationOutcome_save simp: requireAudit_ok)
      qed
    qed
  qed
qed

lemma activate_paths:
  fixes b :: "'m backend_scheme"
  obtains (none) "bMasterKey (snd (activateRotationVersion L req b)) = bMasterKey b" "bDisk (snd (activateRotationVersion L req b)) = bDisk b"
      "snd (fst (activateRotationVersion L req b)) \<noteq> None"
  | (saves) s cur led vid staged where "loadRotationTarget L (trimSpace (tqRef req)) b = Inr (s, cur, led)"
      "vid = orDefault (trimSpace (tqVersionID req)) (rotationVersionID L req)" "map_of (rlStaged led) vid = Some staged"
      "rotationOutcome L ''rotation_activate'' req
         (Saves (replaceSecret (trimSpace (tqRef req)) (activatedMetadata req staged (bNow b)) (rvPayload staged)
           (activateLedger req cur vid staged (bNow b) led) (bNow b) s)) b (activateRotationVersion L req b)"
proof (cases "validateRotationConfirmation L req True")
  case (Some err)
  then show ?thesis by (intro none) (simp_all add: activateRotationVersion_def Let_def)
next
  case g: None
  show ?thesis
  proof (cases "loadRotationTarget L (trimSpace (tqRef req)) b")
    case (Inl err)
    then show ?thesis using g by (intro none) (simp_all add: activateRotationVersion_def Let_def)
  next
    case t: (Inr t)
    obtain s cur led where t': "t = (s, cur, led)" by (cases t)
    define vid where "vid = orDefault (trimSpace (tqVersionID req)) (rotationVersionID L req)"
    let ?a = "requireRotationMutationAudit L ''rotation_activate'' req b"
    let ?conflict = "trimSpace (tqExpectedCurrentVersion req) = [] \<or> smVersion (seMetadata cur) \<noteq> trimSpace (tqExpectedCurrentVersion req)"
    show ?thesis
    proof (cases "?conflict \<or> map_of (rlStaged led) vid = None \<or> fst ?a \<noteq> None")
      case True
      then show ?thesis using g t t' unfolding vid_def
        by (intro none) (auto simp: activateRotationVersion_def Let_def check_def split: option.splits)
    next
      case False
      then obtain staged where st: "map_of (rlStaged led) vid = Some staged" by auto
      from False have a: "fst ?a = None" by simp
      let ?led = "activateLedger req cur vid staged (bNow b) led"
      let ?res = "baseRotationVersionResponse req ''rotation_activate'' ''activate''"
      let ?meta = "activatedMetadata req staged (bNow b)"
      have "activateRotationVersion L req b = rotationSave L req ?res (replaceSecret (trimSpace (tqRef req)) ?meta (rvPayload staged) ?led (bNow b) s)
          (appliedAnswer L req ?res \<lparr>seRef = trimSpace (tqRef req), seMetadata = ?meta, sePayload = rvPayload staged, seKV = None\<rparr> ?led
             ''applied'' True ''record_consumer_convergence_or_rollback'') (snd ?a)"
        using g t t' False st a unfolding vid_def by (auto simp: activateRotationVersion_def Let_def)
      then show ?thesis using a st t t' by (intro saves [of s cur led vid staged]) (auto intro!: rotationOutcome_save simp: requireAudit_ok vid_def)
    qed
  qed
qed

lemma rollback_paths:
  fixes b :: "'m backend_scheme"
  obtains (none) "bMasterKey (snd (rollbackRotationVersion L req b)) = bMasterKey b" "bDisk (snd (rollbackRotationVersion L req b)) = bDisk b"
      "snd (fst (rollbackRotationVersion L req b)) \<noteq> None"
  | (saves) s cur led vid previous where "loadRotationTarget L (trimSpace (tqRef req)) b = Inr (s, cur, led)"
      "vid = orDefault (trimSpace (tqVersionID req)) (rlPreviousVersionID led)"
      "map_of (rlRetained led) vid = Some previous" "vid \<noteq> smVersion (seMetadata cur)"
      "rotationOutcome L ''rotation_rollback'' req
         (Saves (replaceSecret (trimSpace (tqRef req)) ((rvMetadata previous)\<lparr>smUpdatedAt := bNow b\<rparr>) (rvPayload previous)
           (rollbackLedger L req cur vid previous (bNow b) led) (bNow b) s)) b (rollbackRotationVersion L req b)"
proof (cases "validateRotationConfirmation L req False")
  case (Some err)
  then show ?thesis by (intro none) (simp_all add: rollbackRotationVersion_def Let_def)
next
  case g: None
  show ?thesis
  proof (cases "loadRotationTarget L (trimSpace (tqRef req)) b")
    case (Inl err)
    then show ?thesis using g by (intro none) (simp_all add: rollbackRotationVersion_def Let_def)
  next
    case t: (Inr t)
    obtain s cur led where t': "t = (s, cur, led)" by (cases t)
    define vid where "vid = orDefault (trimSpace (tqVersionID req)) (rlPreviousVersionID led)"
    let ?a = "requireRotationMutationAudit L ''rotation_rollback'' req b"
    let ?again = "rotationOperationToken L req = rlLastRollbackOperationID led \<and> smVersion (seMetadata cur) = rlLastRollbackVersionID led"
    show ?thesis
    proof (cases "?again \<or> vid = smVersion (seMetadata cur) \<or> map_of (rlRetained led) vid = None \<or> fst ?a \<noteq> None")
      case True
      then show ?thesis using g t t' unfolding vid_def
        by (intro none) (auto simp: rollbackRotationVersion_def Let_def check_def split: option.splits)
    next
      case False
      then obtain previous where st: "map_of (rlRetained led) vid = Some previous" by auto
      from False have a: "fst ?a = None" by simp
      let ?led = "rollbackLedger L req cur vid previous (bNow b) led"
      let ?res = "baseRotationVersionResponse req ''rotation_rollback'' ''rollback''"
      let ?meta = "(rvMetadata previous)\<lparr>smUpdatedAt := bNow b\<rparr>"
      have "rollbackRotationVersion L req b = rotationSave L req ?res (replaceSecret (trimSpace (tqRef req)) ?meta (rvPayload previous) ?led (bNow b) s)
          (appliedAnswer L req ?res \<lparr>seRef = trimSpace (tqRef req), seMetadata = ?meta, sePayload = rvPayload previous, seKV = None\<rparr> ?led
             ''rolled_back'' True ''inspect_or_retire_superseded_version_after_convergence'') (snd ?a)"
        using g t t' False st a unfolding vid_def by (auto simp: rollbackRotationVersion_def Let_def)
      then show ?thesis using a st t t' False
        by (intro saves [of s cur led vid previous]) (auto intro!: rotationOutcome_save simp: requireAudit_ok vid_def)
    qed
  qed
qed

lemma retire_paths:
  fixes b :: "'m backend_scheme"
  obtains (none) "bMasterKey (snd (retireRotationVersion L req b)) = bMasterKey b" "bDisk (snd (retireRotationVersion L req b)) = bDisk b"
      "snd (fst (retireRotationVersion L req b)) \<noteq> None
       \<or> (\<exists>s cur led. loadRotationTarget L (trimSpace (tqRef req)) b = Inr (s, cur, led)
            \<and> (trimSpace (tqVersionID req) = [] \<longrightarrow> \<not> retentionPruningRequired led (tqRetentionLimit req)))"
  | (saves) s cur led where "loadRotationTarget L (trimSpace (tqRef req)) b = Inr (s, cur, led)"
      "rotationOutcome L ''rotation_retire'' req
         (Saves (withLedger (trimSpace (tqRef req)) ((snd (retireLedger req led))\<lparr>rlUpdatedAt := bNow b\<rparr>) (bNow b) s)) b
         (retireRotationVersion L req b)"
proof (cases "validateRotationConfirmation L req False")
  case (Some err)
  then show ?thesis by (intro none) (simp_all add: retireRotationVersion_def Let_def)
next
  case g: None
  show ?thesis
  proof (cases "loadRotationTarget L (trimSpace (tqRef req)) b")
    case (Inl err)
    then show ?thesis using g by (intro none) (simp_all add: retireRotationVersion_def Let_def)
  next
    case t: (Inr t)
    obtain s cur led where t': "t = (s, cur, led)" by (cases t)
    define vid where "vid = trimSpace (tqVersionID req)"
    let ?a = "requireRotationMutationAudit L ''rotation_retire'' req b"
    let ?active = "vid \<noteq> [] \<and> vid = smVersion (seMetadata cur)"
    let ?done = "if vid \<noteq> [] then map_of (rlRetained led) vid = None else \<not> retentionPruningRequired led (tqRetentionLimit req)"
    show ?thesis
    proof (cases "?active \<or> ?done \<or> fst ?a \<noteq> None")
      case True
      then show ?thesis using g t t' unfolding vid_def
        by (intro none) (auto simp: retireRotationVersion_def Let_def check_def split: option.splits if_splits)
    next
      case False
      from False have a: "fst ?a = None" by simp
      obtain retired l where r: "retireLedger req led = (retired, l)" by fastforce
      let ?res = "baseRotationVersionResponse req ''rotation_retire'' ''retire''"
      have "retireRotationVersion L req b = rotationSave L req ?res (withLedger (trimSpace (tqRef req)) (l\<lparr>rlUpdatedAt := bNow b\<rparr>) (bNow b) s)
          (appliedAnswer L req ?res cur (l\<lparr>rlUpdatedAt := bNow b\<rparr>) ''retired'' retired ''inspect_rotation_status'') (snd ?a)"
        using g t t' False a r unfolding vid_def by (auto simp: retireRotationVersion_def Let_def split: if_splits)
      then show ?thesis using a t t' r by (intro saves [of s cur led]) (auto intro!: rotationOutcome_save simp: requireAudit_ok)
    qed
  qed
qed

subsection \<open>No change without an audit event\<close>

definition rotationMutations ::
  "'z golib_scheme \<Rightarrow> (string \<times> (rotationVersionRequest \<Rightarrow> 'm backend_scheme \<Rightarrow> 'm backend_scheme rotationResult)) list" where
  "rotationMutations L = [(''rotation_stage'', stageRotationVersion L), (''rotation_activate'', activateRotationVersion L),
     (''rotation_rollback'', rollbackRotationVersion L), (''rotation_retire'', retireRotationVersion L)]"

lemma outcome_audited: "rotationOutcome L op req (Saves s) b r \<Longrightarrow> audited L op req b"
  by (simp add: rotationOutcome_def)

lemma rotation_change_audited:
  fixes b :: "'m backend_scheme"
  shows "bDisk (snd (stageRotationVersion L req b)) = bDisk b \<or> audited L ''rotation_stage'' req b"
    and "bDisk (snd (activateRotationVersion L req b)) = bDisk b \<or> audited L ''rotation_activate'' req b"
    and "bDisk (snd (rollbackRotationVersion L req b)) = bDisk b \<or> audited L ''rotation_rollback'' req b"
    and "bDisk (snd (retireRotationVersion L req b)) = bDisk b \<or> audited L ''rotation_retire'' req b"
proof -
  show "bDisk (snd (stageRotationVersion L req b)) = bDisk b \<or> audited L ''rotation_stage'' req b"
    by (rule stage_paths [of L req b]) (use outcome_audited in blast)+
  show "bDisk (snd (activateRotationVersion L req b)) = bDisk b \<or> audited L ''rotation_activate'' req b"
    by (rule activate_paths [of L req b]) (use outcome_audited in blast)+
  show "bDisk (snd (rollbackRotationVersion L req b)) = bDisk b \<or> audited L ''rotation_rollback'' req b"
    by (rule rollback_paths [of L req b]) (use outcome_audited in blast)+
  show "bDisk (snd (retireRotationVersion L req b)) = bDisk b \<or> audited L ''rotation_retire'' req b"
    by (rule retire_paths [of L req b]) (use outcome_audited in blast)+
qed

text \<open>
  Property C24. Rotation fails closed: staging, activating, rolling back or retiring a version changes
  the store file only if an audit log is configured and the audit event that authorizes the change
  has been recorded in it first.
\<close>

theorem rotation_fails_closed:
  assumes "(op, run) \<in> set (rotationMutations L)" "run req b = ((res, err), b')" "bDisk b' \<noteq> bDisk b"
  shows "trimSpace (bAuditPath b) \<noteq> [] \<and> fst (audit L op (tqRef req) ''ready'' (tqServiceID req) (tqRequestID req) b) = None"
  using assms rotation_change_audited [of L req b] by (auto simp: rotationMutations_def audited_def)

subsection \<open>Rolling back\<close>

definition ledgerOf :: "'m backend_scheme \<Rightarrow> string \<Rightarrow> rotationLedger" where
  "ledgerOf b ref = (case bDisk b of Stored s \<Rightarrow> (case map_of (stRotations s) ref of Some l \<Rightarrow> l | None \<Rightarrow> noLedger) | _ \<Rightarrow> noLedger)"

lemma target_facts:
  assumes "loadRotationTarget L ref b = Inr (s, cur, led)"
  shows "loadStore b = Inr s" "\<not> isLocked b" "validSecretRef ref"
    "\<exists>e. pathEntry b ref = Some e \<and> sePayload cur = sePayload e"
    "rlStaged led = rlStaged (ledgerOf b ref)" "rlRetained led = rlRetained (ledgerOf b ref)"
    "rlPreviousVersionID led = rlPreviousVersionID (ledgerOf b ref)"
proof -
  show s: "loadStore b = Inr s" and "\<not> isLocked b" "validSecretRef ref"
    using assms by (auto simp: loadRotationTarget_def Let_def split: if_splits sum.splits option.splits)
  show "\<exists>e. pathEntry b ref = Some e \<and> sePayload cur = sePayload e"
    using assms load_secrets [OF s, of ref] by (auto simp: loadRotationTarget_def Let_def split: if_splits sum.splits option.splits)
  have "ledgerOf b ref = (case map_of (stRotations s) ref of Some l \<Rightarrow> l | None \<Rightarrow> noLedger)"
    using s by (auto simp: ledgerOf_def loadStore_def freshStore_def split: diskState.splits)
  then show "rlStaged led = rlStaged (ledgerOf b ref)" "rlRetained led = rlRetained (ledgerOf b ref)"
    "rlPreviousVersionID led = rlPreviousVersionID (ledgerOf b ref)"
    using assms by (auto simp: loadRotationTarget_def Let_def split: if_splits sum.splits option.splits)
qed

lemma vault_replaced:
  assumes "bDisk b' = Stored (replaceSecret ref meta p led now s)" "bMasterKey b' = bMasterKey b" "loadStore b = Inr s"
  shows "vault L b' = (vault L b)(ref := (case decrypt L b p of Inr v \<Rightarrow> Some v | Inl _ \<Rightarrow> None))"
    and "ledgerOf b' ref = led" and "\<exists>e. pathEntry b' ref = Some e \<and> sePayload e = p"
    and "pathEntry b' ref = Some \<lparr>seRef = ref, seMetadata = meta, sePayload = p, seKV = None\<rparr>"
proof -
  show "vault L b' = (vault L b)(ref := (case decrypt L b p of Inr v \<Rightarrow> Some v | Inl _ \<Rightarrow> None))"
  proof
    fix k
    show "vault L b' k = ((vault L b)(ref := (case decrypt L b p of Inr v \<Rightarrow> Some v | Inl _ \<Rightarrow> None))) k"
      using assms decrypt_cong [OF assms(2), of L]
      by (simp add: vault_def replaceSecret_def withLedger_def secretsOf_def [of "Stored _"] secretsOf_load split: sum.split option.split)
  qed
  show "ledgerOf b' ref = led" using assms(1) by (simp add: ledgerOf_def replaceSecret_def withLedger_def)
  show "pathEntry b' ref = Some \<lparr>seRef = ref, seMetadata = meta, sePayload = p, seKV = None\<rparr>"
    using assms(1) by (simp add: pathEntry_def secretsOf_def replaceSecret_def withLedger_def)
  then show "\<exists>e. pathEntry b' ref = Some e \<and> sePayload e = p" by simp
qed

lemma vault_relabelled:
  assumes "bDisk b' = Stored (withLedger ref led now s)" "bMasterKey b' = bMasterKey b" "loadStore b = Inr s"
  shows "vault L b' = vault L b" and "ledgerOf b' ref = led" and "pathEntry b' = pathEntry b"
proof -
  have d: "secretsOf (bDisk b') = secretsOf (bDisk b)"
    using assms(1,3) by (simp add: withLedger_def secretsOf_def [of "Stored _"] secretsOf_load)
  show "vault L b' = vault L b" using d decrypt_cong [OF assms(2), of L] by (simp add: fun_eq_iff vault_def split: option.split)
  show "ledgerOf b' ref = led" using assms(1) by (simp add: ledgerOf_def withLedger_def)
  show "pathEntry b' = pathEntry b" using d by (simp add: fun_eq_iff pathEntry_def)
qed

lemma outcome_saved: "rotationOutcome L op req (Saves s) b r \<Longrightarrow> snd (fst r) = None \<Longrightarrow> bDisk (snd r) = Stored s \<and> bMasterKey (snd r) = bMasterKey b"
  by (auto simp: rotationOutcome_def)

text \<open>
  Property C25. A rotation can be completed and undone without loss. Staging a new value leaves every
  secret as it was; activating the staged version makes the reference resolve to exactly the staged
  value and changes no other reference; rolling back to the previous version restores the map from
  references to values that there was before.
\<close>

theorem rotation_lifecycle:
  assumes "lib_ok L"
    and "stageRotationVersion L stage b = ((r1, None), b1)"
    and "map_of (rlStaged (ledgerOf b (trimSpace (tqRef stage)))) (rotationVersionID L stage) = None"
    and "activateRotationVersion L act b1 = ((r2, None), b2)" "trimSpace (tqRef act) = trimSpace (tqRef stage)"
    and "orDefault (trimSpace (tqVersionID act)) (rotationVersionID L act) = rotationVersionID L stage"
    and "rollbackRotationVersion L undo b2 = ((r3, None), b3)" "trimSpace (tqRef undo) = trimSpace (tqRef stage)"
    and "trimSpace (tqVersionID undo) = []"
  shows "vault L b1 = vault L b \<and> vault L b2 = (vault L b)(trimSpace (tqRef stage) \<mapsto> tqValue stage) \<and> vault L b3 = vault L b"
proof -
  let ?ref = "trimSpace (tqRef stage)"
  obtain s cur led p where s1: "loadRotationTarget L ?ref b = Inr (s, cur, led)"
      "fst (encrypt L (tqValue stage) (snd (requireRotationMutationAudit L ''rotation_stage'' stage b))) = Inr p"
      "bDisk b1 = Stored (withLedger ?ref (stageLedger L stage cur (stagedVersionOf L stage p (bNow b)) (bNow b) led) (bNow b) s)"
      "bMasterKey b1 = bMasterKey b"
  proof (rule stage_paths [of L stage b])
    assume "snd (fst (stageRotationVersion L stage b)) \<noteq> None \<or>
       (\<exists>s cur led. loadRotationTarget L ?ref b = Inr (s, cur, led) \<and> map_of (rlStaged led) (rotationVersionID L stage) \<noteq> None)"
    then show ?thesis using assms(2,3) target_facts(5) by fastforce
  qed (use assms(2) that outcome_saved in force)
  note t1 = target_facts [OF s1(1)]
  note v1 = vault_relabelled [OF s1(3,4) t1(1)]
  obtain e where e: "pathEntry b ?ref = Some e" "sePayload cur = sePayload e" using t1(4) by blast
  have dp: "decrypt L b1 p = Inr (tqValue stage)" using decrypt_encrypt [OF assms(1) s1(2)] s1(4) by simp
  obtain s' cur' led' staged where s2: "loadRotationTarget L ?ref b1 = Inr (s', cur', led')"
      "map_of (rlStaged led') (rotationVersionID L stage) = Some staged"
      "bDisk b2 = Stored (replaceSecret ?ref (activatedMetadata act staged (bNow b1)) (rvPayload staged)
         (activateLedger act cur' (rotationVersionID L stage) staged (bNow b1) led') (bNow b1) s')" "bMasterKey b2 = bMasterKey b1"
    by (rule activate_paths [of L act b1]) (use assms(4-6) that outcome_saved in force)+
  note t2 = target_facts [OF s2(1)]
  have "staged = stagedVersionOf L stage p (bNow b)" using s2(2) t2(5) v1(2) by (simp add: stageLedger_def)
  then have staged: "rvPayload staged = p" by (simp add: stagedVersionOf_def Let_def)
  note v2 = vault_replaced [OF s2(3,4) t2(1)]
  have cur': "sePayload cur' = sePayload e" using t2(4) v1(3) e(1) by auto
  obtain s'' cur'' led'' vid previous where s3: "loadRotationTarget L ?ref b2 = Inr (s'', cur'', led'')"
      "vid = rlPreviousVersionID led''" "map_of (rlRetained led'') vid = Some previous"
      "bDisk b3 = Stored (replaceSecret ?ref ((rvMetadata previous)\<lparr>smUpdatedAt := bNow b2\<rparr>) (rvPayload previous)
         (rollbackLedger L undo cur'' vid previous (bNow b2) led'') (bNow b2) s'')" "bMasterKey b3 = bMasterKey b2"
    by (rule rollback_paths [of L undo b2]) (use assms(7-9) that outcome_saved in \<open>force simp: orDefault_def\<close>)+
  note t3 = target_facts [OF s3(1)]
  have "previous = retiredCurrent act cur' led' (bNow b1)" using s3(2,3) t3(6,7) v2(2) by (simp add: activateLedger_def Let_def)
  then have prev: "rvPayload previous = sePayload e" using cur' by (simp add: retiredCurrent_def)
  note v3 = vault_replaced(1) [OF s3(4,5) t3(1), of L]
  have k: "decrypt L b1 q = decrypt L b q" "decrypt L b2 q = decrypt L b q" for q
    using decrypt_cong [of b1 b L q] decrypt_cong [of b2 b L q] s1(4) s2(4) by simp_all
  have v2': "vault L b2 = (vault L b)(?ref \<mapsto> tqValue stage)" using v2(1) [of L] v1(1) [of L] staged dp by simp
  have "vault L b ?ref = (case decrypt L b2 (rvPayload previous) of Inr v \<Rightarrow> Some v | Inl _ \<Rightarrow> None)"
    using prev k(2) e(1) by (simp add: vault_def pathEntry_def split: sum.split)
  then have "vault L b3 = vault L b" using v3 v2' by (simp add: fun_upd_idem)
  then show ?thesis using v1(1) v2' by blast
qed

subsection \<open>Retention\<close>

text \<open>The versions of a ledger are filed under their own ids.\<close>

definition filed :: "rotationStoredVersion gomap \<Rightarrow> bool" where
  "filed m \<longleftrightarrow> distinct (map fst m) \<and> list_all (\<lambda>(k, v). rvVersionID v = k) m"

lemma filed_delete: "filed m \<Longrightarrow> filed (AList.delete k m)"
  by (auto simp: filed_def gomap_distinct_delete list_all_iff gomap_mem_delete)

lemma filed_mem_update:
  "distinct (map fst m) \<Longrightarrow> x \<in> set (AList.update k v m) \<Longrightarrow> x = (k, v) \<or> (x \<in> set m \<and> fst x \<noteq> k)"
  by (induction m) (auto split: if_splits)

lemma filed_update: "filed m \<Longrightarrow> filed (AList.update (rvVersionID v) v m)"
proof -
  assume m: "filed m"
  have "rvVersionID (snd x) = fst x" if "x \<in> set (AList.update (rvVersionID v) v m)" for x
    using filed_mem_update [OF _ that] m by (auto simp: filed_def list_all_iff)
  then show ?thesis using m by (auto simp: filed_def gomap_distinct_update list_all_iff)
qed

lemma filed_ids: "filed m \<Longrightarrow> map rvVersionID (map snd m) = map fst m"
  by (induction m) (auto simp: filed_def)

lemma filed_snd: "filed m \<Longrightarrow> map_of m k = Some v \<longleftrightarrow> v \<in> snd ` set m \<and> rvVersionID v = k"
  by (force simp: filed_def list_all_iff map_of_eq_Some_iff split: prod.splits)

lemma dropRetained_retained [simp]: "rlRetained (dropRetained k l) = AList.delete k (rlRetained l)"
  by (simp add: dropRetained_def Let_def)

text \<open>The loop removes the oldest versions, as many as there are too many.\<close>

lemma trim_loop_retained:
  "rlRetained (snd (trimRetained_loop n vs led retired)) = fold (\<lambda>v m. AList.delete (rvVersionID v) m) (take (nat (int (length vs) - n)) vs) (rlRetained led)"
proof (induction n vs led retired rule: trimRetained_loop.induct)
  case (2 n v vs led retired)
  show ?case
  proof (cases "int (length (v # vs)) > n")
    case True
    then have "nat (int (length (v # vs)) - n) = Suc (nat (int (length vs) - n))" by simp
    then show ?thesis using 2 True by simp
  next
    case False
    then have "nat (int (length (v # vs)) - n) = 0" by simp
    then show ?thesis using False by simp
  qed
qed simp

lemma fold_delete: "map_of (fold (\<lambda>v m. AList.delete (rvVersionID v) m) vs m) k = (if k \<in> rvVersionID ` set vs then None else map_of m k)"
  by (induction vs arbitrary: m) auto

lemma sorted_stored: "set (sortedStoredVersions m) = snd ` set m" "length (sortedStoredVersions m) = length m"
    "mset (map rvVersionID (sortedStoredVersions m)) = mset (map rvVersionID (map snd m))"
  by (simp_all add: sortedStoredVersions_def multiset.map_comp del: firstNonZeroTime.simps)

lemma filed_sorted_distinct: "filed m \<Longrightarrow> distinct (map rvVersionID (sortedStoredVersions m))"
  using sorted_stored(3) [of m] filed_ids [of m] by (metis filed_def mset_eq_imp_distinct_iff)

lemma retentionLimit_pos: "1 \<le> retentionLimit n"
  by (simp add: retentionLimit_def Let_def defaultRotationRetentionLimit_def)

lemma trim_keeps_newest:
  assumes "filed (rlRetained led)"
  shows "map_of (rlRetained (snd (trimRetainedVersions limit led))) k = Some v \<longleftrightarrow>
    v \<in> set (drop (nat (int (length (rlRetained led)) - retentionLimit limit)) (sortedStoredVersions (rlRetained led))) \<and> rvVersionID v = k"
proof (cases "rlRetained led = []")
  case True
  then show ?thesis by (simp add: trimRetainedVersions_def sortedStoredVersions_def)
next
  case False
  let ?vs = "sortedStoredVersions (rlRetained led)"
  define n where "n = nat (int (length (rlRetained led)) - retentionLimit limit)"
  have m: "map_of (rlRetained (snd (trimRetainedVersions limit led))) k
      = (if k \<in> rvVersionID ` set (take n ?vs) then None else map_of (rlRetained led) k)"
    using False by (simp add: trimRetainedVersions_def trim_loop_retained fold_delete sorted_stored(2) n_def)
  have d: "distinct (map rvVersionID (take n ?vs) @ map rvVersionID (drop n ?vs))"
    using filed_sorted_distinct [OF assms] by (metis append_take_drop_id map_append)
  have split: "v \<in> snd ` set (rlRetained led) \<longleftrightarrow> v \<in> set (take n ?vs) \<or> v \<in> set (drop n ?vs)"
    using sorted_stored(1) [of "rlRetained led"] by (metis Un_iff append_take_drop_id set_append)
  have "v \<in> set (drop n ?vs) \<Longrightarrow> rvVersionID v \<notin> rvVersionID ` set (take n ?vs)" using d by auto
  then show ?thesis unfolding n_def [symmetric] m using split filed_snd [OF assms, of k v] by auto
qed

text \<open>Every operation keeps the versions of every reference filed under their ids.\<close>

definition filedLedgers :: "'m backend_scheme \<Rightarrow> bool" where
  "filedLedgers b \<longleftrightarrow> (\<forall>ref. filed (rlStaged (ledgerOf b ref)) \<and> filed (rlRetained (ledgerOf b ref)))"

lemma filed_fold: "filed m \<Longrightarrow> filed (fold (\<lambda>v m. AList.delete (rvVersionID v) m) vs m)"
  by (induction vs arbitrary: m) (auto simp: filed_delete)

lemma trim_loop_staged: "rlStaged (snd (trimRetained_loop n vs led r)) = rlStaged led"
  by (induction n vs led r rule: trimRetained_loop.induct) (auto simp: dropRetained_def Let_def)

lemma retireLedger_filed:
  assumes "filed (rlStaged led)" "filed (rlRetained led)"
  shows "filed (rlStaged (snd (retireLedger req led)))" "filed (rlRetained (snd (retireLedger req led)))"
proof -
  have "rlStaged (dropRetained k led) = rlStaged led" for k by (simp add: dropRetained_def Let_def)
  then show "filed (rlStaged (snd (retireLedger req led)))" "filed (rlRetained (snd (retireLedger req led)))"
    using assms by (simp_all add: retireLedger_def trimRetainedVersions_def trim_loop_staged trim_loop_retained filed_delete filed_fold Let_def filed_def [of "[]"])
qed

lemma filedLedgers_saved:
  assumes "filedLedgers b" "loadStore b = Inr s" "bDisk b' = Stored s'" "stRotations s' = AList.update ref led (stRotations s)"
    and "filed (rlStaged led)" "filed (rlRetained led)"
  shows "filedLedgers b'"
proof -
  have "ledgerOf b q = (case map_of (stRotations s) q of Some l \<Rightarrow> l | None \<Rightarrow> noLedger)" for q
    using assms(2) by (auto simp: ledgerOf_def loadStore_def freshStore_def split: diskState.splits)
  then have "ledgerOf b' q = (if q = ref then led else ledgerOf b q)" for q
    using assms(3,4) by (simp add: ledgerOf_def)
  then show ?thesis using assms(1,5,6) by (simp add: filedLedgers_def)
qed

lemma outcome_filed:
  assumes "rotationOutcome L op req (Saves s') b r" "filedLedgers b" "loadStore b = Inr s"
    and "stRotations s' = AList.update ref led (stRotations s)" "filed (rlStaged led)" "filed (rlRetained led)"
  shows "filedLedgers (snd r)"
proof (cases "bDisk (snd r) = Stored s'")
  case True
  then show ?thesis using filedLedgers_saved [OF assms(2,3) True assms(4-6)] by simp
next
  case False
  then have "ledgerOf (snd r) = ledgerOf b" using assms(1) by (auto simp: rotationOutcome_def fun_eq_iff ledgerOf_def)
  then show ?thesis using assms(2) by (simp add: filedLedgers_def)
qed

lemma filed_frame: "bDisk b' = bDisk b \<Longrightarrow> filedLedgers b' = filedLedgers b"
  by (simp add: filedLedgers_def ledgerOf_def)

lemma rotation_filed:
  fixes b :: "'m backend_scheme"
  assumes f: "filedLedgers b"
  shows "filedLedgers (snd (stageRotationVersion L req b))" "filedLedgers (snd (activateRotationVersion L req b))"
    "filedLedgers (snd (rollbackRotationVersion L req b))" "filedLedgers (snd (retireRotationVersion L req b))"
proof -
  have t: "filed (rlStaged led) \<and> filed (rlRetained led) \<and> loadStore b = Inr s" if "loadRotationTarget L ref b = Inr (s, cur, led)" for ref s cur led
    using target_facts [OF that] f by (simp add: filedLedgers_def)
  have rc: "rvVersionID (retiredCurrent req cur led now) = smVersion (seMetadata cur)" for cur led now by (simp add: retiredCurrent_def)
  show "filedLedgers (snd (stageRotationVersion L req b))"
  proof (cases rule: stage_paths [of L req b, case_names none saves])
    case (saves s cur led p)
    have "rvVersionID (stagedVersionOf L req p (bNow b)) = rotationVersionID L req" by (simp add: stagedVersionOf_def Let_def)
    then have "filed (rlStaged (stageLedger L req cur (stagedVersionOf L req p (bNow b)) (bNow b) led))"
      using t [OF saves(1)] filed_update [of "rlStaged led" "stagedVersionOf L req p (bNow b)"] by (simp add: stageLedger_def)
    then show ?thesis using t [OF saves(1)] by (intro outcome_filed [OF saves(3) f, of s "trimSpace (tqRef req)" "stageLedger L req cur (stagedVersionOf L req p (bNow b)) (bNow b) led"])
         (simp_all add: withLedger_def stageLedger_def)
  qed (use f filed_frame in blast)
  show "filedLedgers (snd (activateRotationVersion L req b))"
  proof (cases rule: activate_paths [of L req b, case_names none saves])
    case (saves s cur led vid staged)
    show ?thesis using t [OF saves(1)] filed_update [of "rlRetained led" "retiredCurrent req cur led (bNow b)"]
      by (intro outcome_filed [OF saves(4) f, of s "trimSpace (tqRef req)" "activateLedger req cur vid staged (bNow b) led"]) (simp_all add: replaceSecret_def withLedger_def activateLedger_def Let_def filed_delete)
  qed (use f filed_frame in blast)
  show "filedLedgers (snd (rollbackRotationVersion L req b))"
  proof (cases rule: rollback_paths [of L req b, case_names none saves])
    case (saves s cur led vid previous)
    show ?thesis using t [OF saves(1)] filed_update [of "AList.delete vid (rlRetained led)" "retiredCurrent req cur led (bNow b)"]
      by (intro outcome_filed [OF saves(5) f, of s "trimSpace (tqRef req)" "rollbackLedger L req cur vid previous (bNow b) led"]) (simp_all add: replaceSecret_def withLedger_def rollbackLedger_def Let_def filed_delete)
  qed (use f filed_frame in blast)
  show "filedLedgers (snd (retireRotationVersion L req b))"
  proof (cases rule: retire_paths [of L req b, case_names none saves])
    case (saves s cur led)
    show ?thesis using t [OF saves(1)] retireLedger_filed [of led req]
      by (intro outcome_filed [OF saves(2) f, of s "trimSpace (tqRef req)" "(snd (retireLedger req led))\<lparr>rlUpdatedAt := bNow b\<rparr>"]) (simp_all add: withLedger_def)
  qed (use f filed_frame in blast)
qed

lemma trim_none:
  assumes "filed m" "int (length m) \<le> n" "1 \<le> n"
  shows "map_of m k = Some v \<longleftrightarrow> v \<in> set (drop (nat (int (length m) - n)) (sortedStoredVersions m)) \<and> rvVersionID v = k"
  using filed_snd [OF assms(1), of k v] assms(2) sorted_stored(1) [of m] by simp


subsection \<open>Runs without faults\<close>

definition asciiRequest :: "rotationVersionRequest \<Rightarrow> bool" where
  "asciiRequest req \<longleftrightarrow> list_all ascii [tqRef req, trimSpace (tqRef req), tqServiceID req, tqRequestID req]"

lemma requireAudit_ready:
  assumes "lib_ok L" "ready L b" "asciiRequest req" "ascii op"
  shows "fst (requireRotationMutationAudit L op req b) = None" "ready L (snd (requireRotationMutationAudit L op req b))"
proof -
  have "list_all ascii [op, tqRef req, ''ready'', tqServiceID req, tqRequestID req]"
    using assms(3,4) by (simp add: asciiRequest_def ascii_def)
  note a = audit_ready [OF assms(1,2) this]
  moreover have "trimSpace (bAuditPath b) \<noteq> []" using assms(2) by (simp add: ready_def auditCalm_def)
  ultimately show "fst (requireRotationMutationAudit L op req b) = None" "ready L (snd (requireRotationMutationAudit L op req b))"
    by (simp_all add: requireRotationMutationAudit_def)
qed

lemma rotationAnswer_ready:
  assumes "lib_ok L" "ready L b" "asciiRequest req" "ascii (trOperation res)" "ascii oc"
  shows "ready L (snd (rotationAnswer L req res oc nx err b))"
  using audit_ready(2) [OF assms(1,2), of "trOperation res" "trimSpace (tqRef req)" oc "tqServiceID req" "tqRequestID req"] assms(3-)
  by (simp add: rotationAnswer_def audit_ignored_def asciiRequest_def)

lemma trOperation_simps [simp]:
  "trOperation (enrichRotationResponse L res cur led) = trOperation res" "trOperation (baseRotationVersionResponse req op mode) = op"
  by (simp_all add: enrichRotationResponse_def baseRotationVersionResponse_def Let_def)

lemma answers_ready:
  assumes "lib_ok L" "ready L b" "asciiRequest req" "ascii op"
  shows "ready L (snd (stagedAnswer L req (baseRotationVersionResponse req op mode) cur led st b))"
    and "ascii oc \<Longrightarrow> ready L (snd (appliedAnswer L req (baseRotationVersionResponse req op mode) cur led oc ap nx b))"
  using assms(4) unfolding stagedAnswer_def appliedAnswer_def
  by (auto intro!: rotationAnswer_ready [OF assms(1-3)] simp: ascii_def)

lemma save_run: "ready L b \<Longrightarrow> rotationSave L req res s k b = k (snd (saveStore s b))"
  using save_faultless(1) [of b s] by (simp add: rotationSave_def ready_def faultless_def)

text \<open>Each operation succeeds when nothing stands in its way.\<close>

lemma stage_runs:
  assumes "lib_ok L" "ready L b" "asciiRequest req" "tqConfirm req" "validateRotationSecretBearingRequest L req True = None"
    and "loadRotationTarget L (trimSpace (tqRef req)) b = Inr (s, cur, led)" "trimSpace (tqExpectedCurrentVersion req) = []"
    and "map_of (rlStaged led) (rotationVersionID L req) = None"
  shows "snd (fst (stageRotationVersion L req b)) = None \<and> ready L (snd (stageRotationVersion L req b))"
proof -
  have op: "ascii ''rotation_stage''" by (simp add: ascii_def)
  note a = requireAudit_ready [OF assms(1-3) op]
  let ?b1 = "snd (requireRotationMutationAudit L ''rotation_stage'' req b)"
  obtain p where p: "fst (encrypt L (tqValue req) ?b1) = Inr p" using encrypt_faultless(1) [of ?b1 L "tqValue req"] a(2) by (auto simp: ready_def faultless_def)
  have e: "ready L (snd (encrypt L (tqValue req) ?b1))" using encrypt_ready [OF a(2)] .
  show ?thesis
    using assms(4-) a p save_run [OF e] answers_ready(1) [OF assms(1) save_ready [OF e] assms(3) op]
    by (simp add: stageRotationVersion_def Let_def)
qed

lemma activate_runs:
  assumes "lib_ok L" "ready L b" "asciiRequest req" "validateRotationConfirmation L req True = None"
    and "loadRotationTarget L (trimSpace (tqRef req)) b = Inr (s, cur, led)"
    and "trimSpace (tqExpectedCurrentVersion req) \<noteq> []" "smVersion (seMetadata cur) = trimSpace (tqExpectedCurrentVersion req)"
    and "map_of (rlStaged led) (orDefault (trimSpace (tqVersionID req)) (rotationVersionID L req)) = Some staged"
  shows "snd (fst (activateRotationVersion L req b)) = None \<and> ready L (snd (activateRotationVersion L req b))"
proof -
  have op: "ascii ''rotation_activate''" "ascii ''applied''" by (simp_all add: ascii_def)
  note a = requireAudit_ready [OF assms(1-3) op(1)]
  show ?thesis
    using assms(4-) a save_run [OF a(2)] answers_ready(2) [OF assms(1) save_ready [OF a(2)] assms(3) op]
    by (simp add: activateRotationVersion_def Let_def)
qed

lemma rollback_runs:
  assumes "lib_ok L" "ready L b" "asciiRequest req" "validateRotationConfirmation L req False = None"
    and "loadRotationTarget L (trimSpace (tqRef req)) b = Inr (s, cur, led)" "rotationOperationToken L req \<noteq> rlLastRollbackOperationID led"
    and "trimSpace (tqVersionID req) = []" "rlPreviousVersionID led \<noteq> smVersion (seMetadata cur)"
    and "map_of (rlRetained led) (rlPreviousVersionID led) = Some previous"
  shows "snd (fst (rollbackRotationVersion L req b)) = None \<and> ready L (snd (rollbackRotationVersion L req b))"
proof -
  have op: "ascii ''rotation_rollback''" "ascii ''rolled_back''" by (simp_all add: ascii_def)
  note a = requireAudit_ready [OF assms(1-3) op(1)]
  show ?thesis
    using assms(4-) a save_run [OF a(2)] answers_ready(2) [OF assms(1) save_ready [OF a(2)] assms(3) op]
    by (simp add: rollbackRotationVersion_def Let_def orDefault_def)
qed

lemma retire_runs:
  assumes "lib_ok L" "ready L b" "asciiRequest req" "validateRotationConfirmation L req False = None"
    and "loadRotationTarget L (trimSpace (tqRef req)) b = Inr (s, cur, led)" "trimSpace (tqVersionID req) = []"
  shows "snd (fst (retireRotationVersion L req b)) = None"
proof -
  have op: "ascii ''rotation_retire''" "ascii ''retired''" by (simp_all add: ascii_def)
  note a = requireAudit_ready [OF assms(1-3) op(1)]
  show ?thesis
    using assms(4-) a save_run [OF a(2)] by (simp add: retireRotationVersion_def Let_def split: prod.split)
qed

subsection \<open>A concrete rotation\<close>

lemma target_of:
  assumes "validSecretRef ref" "\<not> isLocked b" "loadStore b = Inr s" "pathEntry b ref = Some e" "trimSpace (smVersion (seMetadata e)) \<noteq> []"
  shows "loadRotationTarget L ref b = Inr (s, e, (ledgerOf b ref)\<lparr>rlActiveVersionID := firstNonEmpty (rlActiveVersionID (ledgerOf b ref)) (smVersion (seMetadata e))\<rparr>)"
proof -
  have "ledgerOf b ref = (case map_of (stRotations s) ref of Some l \<Rightarrow> l | None \<Rightarrow> noLedger)"
    using assms(3) by (auto simp: ledgerOf_def loadStore_def freshStore_def split: diskState.splits)
  then show ?thesis using assms load_secrets [OF assms(3), of ref] by (simp add: loadRotationTarget_def Let_def)
qed

definition demoEntry :: secretEntry where
  "demoEntry = \<lparr>seRef = ''services/api/db'', seMetadata = \<lparr>smSourceID = ''local'', smVersion = ''v0'', smCreatedAt = 1, smUpdatedAt = 1\<rparr>,
     sePayload = \<lparr>spAlg = ''AES-256-GCM'', spKeyID = [], spKeyVersion = [], spNonce = ''nnnnnnnnnnnn'',
       spCiphertext = gcmSeal toy_lib (sha256 toy_lib ''master'') ''nnnnnnnnnnnn'' ''old''\<rparr>, seKV = None\<rparr>"

definition demoStored :: "nat \<Rightarrow> rotationStoredVersion" where
  "demoStored n = \<lparr>rvVersionID = ''v'' @ natDigits n, rvOperationID = [], rvRequestID = [], rvMetadata = seMetadata demoEntry,
     rvPayload = sePayload demoEntry, rvStagedAt = 0, rvActivatedAt = 0, rvRetainedAt = int n\<rparr>"

definition demoRotations :: "rotationLedger gomap \<Rightarrow> backend" where
  "demoRotations m = demoBackend\<lparr>bDisk := Stored ((freshStore 1)\<lparr>stSecrets := [(''services/api/db'', demoEntry)], stRotations := m\<rparr>)\<rparr>"

definition demoRotate :: "string \<Rightarrow> string \<Rightarrow> string \<Rightarrow> rotationVersionRequest" where
  "demoRotate op vid expected = \<lparr>tqRequestID = ''q'', tqServiceID = ''api'', tqRef = ''services/api/db'', tqOperationID = op, tqVersionID = vid,
     tqExpectedCurrentVersion = expected, tqReason = ''due'', tqConfirm = True, tqValue = ''new'', tqRetentionLimit = 0\<rparr>"

lemma demo_rotations:
  "ready toy_lib (demoRotations m)" "pathEntry (demoRotations m) ''services/api/db'' = Some demoEntry"
  "loadStore (demoRotations m) = Inr ((freshStore 1)\<lparr>stSecrets := [(''services/api/db'', demoEntry)], stRotations := m\<rparr>)"
  "ledgerOf (demoRotations m) ref = (case map_of m ref of Some l \<Rightarrow> l | None \<Rightarrow> noLedger)"
proof -
  have "\<not> isLocked demoBackend" using demo_faultless by (simp add: faultless_def)
  then have "faultless (demoRotations m)"
    by (simp add: faultless_def demoRotations_def isLocked_def) (simp add: demoBackend_def lockState.defs)
  moreover have "trimSpace ''audit.jsonl'' \<noteq> []" by code_simp
  then have "auditCalm toy_lib (demoRotations m)"
    by (simp add: auditCalm_def demoRotations_def demoBackend_def demoLock_def demoAudit_def lockState.defs auditState.defs
        readAuditEvents_def scanChain_def chainScan0_def)
  ultimately show "ready toy_lib (demoRotations m)" by (simp add: ready_def)
qed (simp_all add: demoRotations_def pathEntry_def secretsOf_def loadStore_def ledgerOf_def split: option.split)

lemma demo_rotate: "tqRef (demoRotate op vid ex) = ''services/api/db''" "trimSpace (tqRef (demoRotate op vid ex)) = ''services/api/db''"
  "tqVersionID (demoRotate op vid ex) = vid" "tqExpectedCurrentVersion (demoRotate op vid ex) = ex" "tqConfirm (demoRotate op vid ex)"
  "tqValue (demoRotate op vid ex) = ''new''" "tqRetentionLimit (demoRotate op vid ex) = 0"
  "asciiRequest (demoRotate op vid ex)" "validSecretRef ''services/api/db''"
proof -
  have t: "trimSpace ''services/api/db'' = ''services/api/db''" by code_simp
  then show "trimSpace (tqRef (demoRotate op vid ex)) = ''services/api/db''" by (simp add: demoRotate_def)
  show "asciiRequest (demoRotate op vid ex)" using t by (simp add: asciiRequest_def demoRotate_def ascii_def)
  show "validSecretRef ''services/api/db''" by code_simp
qed (simp_all add: demoRotate_def)

lemma demo_tokens:
  "rotationVersionID toy_lib (demoRotate ''op1'' [] []) = ''rv-op1''" "rotationOperationToken toy_lib (demoRotate ''op3'' [] []) = ''op3''"
  "validateRotationSecretBearingRequest toy_lib (demoRotate ''op1'' [] []) True = None"
  "validateRotationConfirmation toy_lib (demoRotate ''op2'' ''rv-op1'' ''v0'') True = None"
  "validateRotationConfirmation toy_lib (demoRotate ''op3'' [] []) False = None"
  "trimSpace ''v0'' = ''v0''" "trimSpace ''rv-op1'' = ''rv-op1''" "trimSpace (smVersion (seMetadata demoEntry)) \<noteq> []"
  by code_simp+

lemma demo_target:
  "loadRotationTarget toy_lib ''services/api/db'' (demoRotations m) = Inr ((freshStore 1)\<lparr>stSecrets := [(''services/api/db'', demoEntry)], stRotations := m\<rparr>,
     demoEntry, (ledgerOf (demoRotations m) ''services/api/db'')\<lparr>rlActiveVersionID :=
       firstNonEmpty (rlActiveVersionID (ledgerOf (demoRotations m) ''services/api/db'')) ''v0''\<rparr>)"
proof -
  have "\<not> isLocked (demoRotations m)" using demo_rotations(1) by (simp add: ready_def faultless_def)
  from target_of [OF demo_rotate(9) this demo_rotations(3,2) demo_tokens(8)] show ?thesis by (simp add: demoEntry_def)
qed

lemma demo_stage:
  defines "b0 \<equiv> demoRotations []"
  obtains r b1 p where "stageRotationVersion toy_lib (demoRotate ''op1'' [] []) b0 = ((r, None), b1)" "ready toy_lib b1"
    "bDisk b1 \<noteq> bDisk b0" "pathEntry b1 ''services/api/db'' = Some demoEntry"
    "ledgerOf b1 ''services/api/db'' = stageLedger toy_lib (demoRotate ''op1'' [] []) demoEntry
       (stagedVersionOf toy_lib (demoRotate ''op1'' [] []) p (bNow b0)) (bNow b0) (noLedger\<lparr>rlActiveVersionID := ''v0''\<rparr>)"
proof -
  let ?q = "demoRotate ''op1'' [] []"
  let ?r = "stageRotationVersion toy_lib ?q b0"
  have f: "firstNonEmpty [] ''v0'' = ''v0''" by code_simp
  have t: "loadRotationTarget toy_lib (trimSpace (tqRef ?q)) b0 = Inr ((freshStore 1)\<lparr>stSecrets := [(''services/api/db'', demoEntry)], stRotations := []\<rparr>,
      demoEntry, noLedger\<lparr>rlActiveVersionID := ''v0''\<rparr>)"
    using demo_target [of "[]"] f by (simp add: demo_rotate(2) b0_def demo_rotations(4) noLedger_def)
  have ok: "snd (fst ?r) = None" "ready toy_lib (snd ?r)"
    using stage_runs [OF toy_lib_ok demo_rotations(1) demo_rotate(8,5) demo_tokens(3) t [unfolded b0_def]]
    by (simp_all add: demo_rotate(4) demo_tokens(1) noLedger_def b0_def)
  show ?thesis
  proof (rule stage_paths [of toy_lib ?q b0])
    fix s cur led p
    assume a: "loadRotationTarget toy_lib (trimSpace (tqRef ?q)) b0 = Inr (s, cur, led)"
      "rotationOutcome toy_lib ''rotation_stage'' ?q
         (Saves (withLedger (trimSpace (tqRef ?q)) (stageLedger toy_lib ?q cur (stagedVersionOf toy_lib ?q p (bNow b0)) (bNow b0) led) (bNow b0) s)) b0 ?r"
    note d = outcome_saved [OF a(2) ok(1)]
    note v = vault_relabelled [OF conjunct1 [OF d] conjunct2 [OF d] target_facts(1) [OF a(1)]]
    have "bDisk (snd ?r) \<noteq> bDisk b0"
    proof
      assume "bDisk (snd ?r) = bDisk b0"
      then have "withLedger (trimSpace (tqRef ?q)) (stageLedger toy_lib ?q cur (stagedVersionOf toy_lib ?q p (bNow b0)) (bNow b0) led) (bNow b0) s
          = (freshStore 1)\<lparr>stSecrets := [(''services/api/db'', demoEntry)], stRotations := []\<rparr>"
        using d by (simp add: b0_def demoRotations_def)
      from arg_cong [OF this, of stRotations] a(1) t show False by (auto simp: withLedger_def)
    qed
    then show ?thesis using that [of "fst (fst ?r)" "snd ?r" p] ok v(2,3) a(1) t demo_rotations(2) [of "[]"]
      by (simp add: prod_eq_iff demo_rotate(2) b0_def)
  qed (use ok(1) t in \<open>auto simp: noLedger_def\<close>)
qed

theorem rotation_fails_closed_witness:
  "\<exists>r b1. stageRotationVersion toy_lib (demoRotate ''op1'' [] []) (demoRotations []) = ((r, None), b1)
     \<and> fst (audit toy_lib ''rotation_stage'' ''services/api/db'' ''ready'' ''api'' ''q'' (demoRotations [])) = None"
proof -
  obtain r b1 where s: "stageRotationVersion toy_lib (demoRotate ''op1'' [] []) (demoRotations []) = ((r, None), b1)"
      "bDisk b1 \<noteq> bDisk (demoRotations [])" by (rule demo_stage)
  have "(''rotation_stage'', stageRotationVersion toy_lib) \<in> set (rotationMutations toy_lib)" by (simp add: rotationMutations_def)
  from rotation_fails_closed [OF this s] s(1) show ?thesis by (simp add: demoRotate_def)
qed

lemma demo_activate:
  obtains r b1 r2 b2 where "stageRotationVersion toy_lib (demoRotate ''op1'' [] []) (demoRotations []) = ((r, None), b1)"
    "activateRotationVersion toy_lib (demoRotate ''op2'' ''rv-op1'' ''v0'') b1 = ((r2, None), b2)" "ready toy_lib b2"
    "rlPreviousVersionID (ledgerOf b2 ''services/api/db'') = ''v0''" "rlLastRollbackOperationID (ledgerOf b2 ''services/api/db'') = []"
    "\<exists>v. map_of (rlRetained (ledgerOf b2 ''services/api/db'')) ''v0'' = Some v"
    "\<exists>e. pathEntry b2 ''services/api/db'' = Some e \<and> smVersion (seMetadata e) = ''rv-op1''"
proof -
  let ?q = "demoRotate ''op2'' ''rv-op1'' ''v0''"
  obtain r b1 p where s1: "stageRotationVersion toy_lib (demoRotate ''op1'' [] []) (demoRotations []) = ((r, None), b1)" "ready toy_lib b1"
    "pathEntry b1 ''services/api/db'' = Some demoEntry"
    "ledgerOf b1 ''services/api/db'' = stageLedger toy_lib (demoRotate ''op1'' [] []) demoEntry
       (stagedVersionOf toy_lib (demoRotate ''op1'' [] []) p (bNow (demoRotations []))) (bNow (demoRotations [])) (noLedger\<lparr>rlActiveVersionID := ''v0''\<rparr>)"
    by (rule demo_stage)
  have "\<forall>e. bDisk b1 \<noteq> Unreadable e" "\<not> isLocked b1" using s1(2) by (simp_all add: ready_def faultless_def)
  then obtain s where "loadStore b1 = Inr s" using load_readable [of b1] by blast
  note t = target_of [OF demo_rotate(9) \<open>\<not> isLocked b1\<close> this s1(3) demo_tokens(8), of toy_lib, folded demo_rotate(2) [of "''op2''" "''rv-op1''" "''v0''"]]
  have st: "map_of (rlStaged (ledgerOf b1 ''services/api/db'')) ''rv-op1''
      = Some (stagedVersionOf toy_lib (demoRotate ''op1'' [] []) p (bNow (demoRotations [])))"
    by (simp add: s1(4) stageLedger_def demo_tokens(1))
  have v: "smVersion (seMetadata demoEntry) = ''v0''" by (simp add: demoEntry_def)
  note run = activate_runs [OF toy_lib_ok s1(2) demo_rotate(8) demo_tokens(4) t]
  have ok: "snd (fst (activateRotationVersion toy_lib ?q b1)) = None" "ready toy_lib (snd (activateRotationVersion toy_lib ?q b1))"
    using run st by (simp_all add: demo_rotate(2-4) demo_tokens(6,7) v orDefault_def)
  show ?thesis
  proof (rule activate_paths [of toy_lib ?q b1])
    fix s' cur led vid staged
    assume a: "loadRotationTarget toy_lib (trimSpace (tqRef ?q)) b1 = Inr (s', cur, led)"
      "vid = orDefault (trimSpace (tqVersionID ?q)) (rotationVersionID toy_lib ?q)" "map_of (rlStaged led) vid = Some staged"
      "rotationOutcome toy_lib ''rotation_activate'' ?q
         (Saves (replaceSecret (trimSpace (tqRef ?q)) (activatedMetadata ?q staged (bNow b1)) (rvPayload staged)
           (activateLedger ?q cur vid staged (bNow b1) led) (bNow b1) s')) b1 (activateRotationVersion toy_lib ?q b1)"
    note d = outcome_saved [OF a(4) ok(1)]
    note w = vault_replaced(2,4) [OF conjunct1 [OF d] conjunct2 [OF d] target_facts(1) [OF a(1)], unfolded demo_rotate(2)]
    have f: "cur = demoEntry" "led = (ledgerOf b1 ''services/api/db'')\<lparr>rlActiveVersionID := firstNonEmpty (rlActiveVersionID (ledgerOf b1 ''services/api/db'')) ''v0''\<rparr>"
      using a(1) t by (simp_all add: v demo_rotate(2))
    have "vid = ''rv-op1''" by (simp add: a(2) demo_rotate(3) demo_tokens(7) orDefault_def)
    then have g: "staged = stagedVersionOf toy_lib (demoRotate ''op1'' [] []) p (bNow (demoRotations []))" using a(3) st by (simp add: f(2))
    show ?thesis
      using that [of r b1 "fst (fst (activateRotationVersion toy_lib ?q b1))" "snd (activateRotationVersion toy_lib ?q b1)"] s1(1) ok w
      by (simp add: prod_eq_iff f g v activateLedger_def Let_def retiredCurrent_def activatedMetadata_def stagedVersionOf_def
          demo_tokens(1) s1(4) stageLedger_def noLedger_def)
  qed (use ok(1) in simp)
qed

theorem rotation_lifecycle_witness:
  "\<exists>r1 r2 r3 b1 b2 b3. stageRotationVersion toy_lib (demoRotate ''op1'' [] []) (demoRotations []) = ((r1, None), b1)
     \<and> activateRotationVersion toy_lib (demoRotate ''op2'' ''rv-op1'' ''v0'') b1 = ((r2, None), b2)
     \<and> rollbackRotationVersion toy_lib (demoRotate ''op3'' [] []) b2 = ((r3, None), b3)
     \<and> vault toy_lib b2 ''services/api/db'' = Some ''new'' \<and> vault toy_lib b3 = vault toy_lib (demoRotations [])"
proof -
  let ?q = "demoRotate ''op3'' [] []"
  obtain r1 b1 r2 b2 e where s: "stageRotationVersion toy_lib (demoRotate ''op1'' [] []) (demoRotations []) = ((r1, None), b1)"
    "activateRotationVersion toy_lib (demoRotate ''op2'' ''rv-op1'' ''v0'') b1 = ((r2, None), b2)" "ready toy_lib b2"
    "rlPreviousVersionID (ledgerOf b2 ''services/api/db'') = ''v0''" "rlLastRollbackOperationID (ledgerOf b2 ''services/api/db'') = []"
    "\<exists>v. map_of (rlRetained (ledgerOf b2 ''services/api/db'')) ''v0'' = Some v"
    "pathEntry b2 ''services/api/db'' = Some e" "smVersion (seMetadata e) = ''rv-op1''"
    using demo_activate by metis
  have "\<forall>e. bDisk b2 \<noteq> Unreadable e" "\<not> isLocked b2" using s(3) by (simp_all add: ready_def faultless_def)
  then obtain st where l: "loadStore b2 = Inr st" using load_readable [of b2] by blast
  have "trimSpace (smVersion (seMetadata e)) \<noteq> []" by (simp add: s(8) demo_tokens(7))
  note t = target_of [OF demo_rotate(9) \<open>\<not> isLocked b2\<close> l s(7) this, of toy_lib, folded demo_rotate(2) [of "''op3''" "[]" "[]"]]
  have n: "trimSpace [] = []" by code_simp
  note run = rollback_runs [OF toy_lib_ok s(3) demo_rotate(8) demo_tokens(5) t]
  have "snd (fst (rollbackRotationVersion toy_lib ?q b2)) = None"
    using run s(4-6,8) by (auto simp: demo_rotate(2,3) demo_tokens(2) n)
  then have u: "rollbackRotationVersion toy_lib ?q b2 = ((fst (fst (rollbackRotationVersion toy_lib ?q b2)), None), snd (rollbackRotationVersion toy_lib ?q b2))"
    by (simp add: prod_eq_iff)
  have g: "map_of (rlStaged (ledgerOf (demoRotations []) (trimSpace (tqRef (demoRotate ''op1'' [] []))))) (rotationVersionID toy_lib (demoRotate ''op1'' [] [])) = None"
    by (simp add: demo_rotations(4) noLedger_def)
  have o: "orDefault (trimSpace (tqVersionID (demoRotate ''op2'' ''rv-op1'' ''v0''))) (rotationVersionID toy_lib (demoRotate ''op2'' ''rv-op1'' ''v0''))
      = rotationVersionID toy_lib (demoRotate ''op1'' [] [])"
    by (simp add: demo_rotate(3) demo_tokens(1,7) orDefault_def)
  have "vault toy_lib b2 ''services/api/db'' = Some ''new'' \<and> vault toy_lib (snd (rollbackRotationVersion toy_lib ?q b2)) = vault toy_lib (demoRotations [])"
    using rotation_lifecycle [OF toy_lib_ok s(1) g s(2) _ o u] by (simp add: demo_rotate(2,3,6) n)
  with s(1,2) u show ?thesis by metis
qed


end
