(* ===== verification/Recovery_Policy.thy ===== *)
theory Recovery_Policy
  imports Broker_Runs Launch_Lease
begin

text \<open>
  The recovery policy (\<open>recovery_policy.go\<close>): metadata about the recovery shares of the master key,
  kept in the store file. Requests are scrubbed, completed and validated before they replace the
  stored policy; \<open>UTC()\<close> does not change an instant. The decoded body of a POST is an argument, as for
  the other endpoints.
\<close>

record recoveryPolicyRequest =
  pqRequestID :: string
  pqServiceID :: string
  pqPolicyID :: string
  pqKeyID :: string
  pqKeyVersion :: string
  pqThreshold :: int
  pqShareCount :: int
  pqShareFingerprints :: "string list"
  pqRecipientFingerprints :: "string list"
  pqCreatedAt :: "time option"
  pqRotatedAt :: "time option"
  pqRevokedAt :: "time option"
  pqStatus :: string

record recoveryPolicyStatusResponse =
  psServiceID :: string
  psAPIVersion :: string
  psOutcome :: string
  psPolicy :: "recoveryPolicyMetadata option"
  psNextAction :: string

definition policyResponse :: "string \<Rightarrow> recoveryPolicyMetadata option \<Rightarrow> string \<Rightarrow> recoveryPolicyStatusResponse" where
  "policyResponse outcome policy next =
     \<lparr>psServiceID = serviceID, psAPIVersion = apiVersion, psOutcome = outcome, psPolicy = policy, psNextAction = next\<rparr>"

subsection \<open>Validation\<close>

definition validateRecoveryPolicyMetadata :: "recoveryPolicyMetadata \<Rightarrow> gerror option" where
  "validateRecoveryPolicyMetadata policy =
     (if \<not> validSafeMetadataID (rpPolicyID policy) \<or> \<not> validSafeMetadataID (rpKeyID policy) \<or> \<not> validSafeMetadataID (rpKeyVersion policy)
      then Some errInvalidRecoveryPolicy
      else if rpThreshold policy < 1 \<or> rpShareCount policy < 1 \<or> rpThreshold policy > rpShareCount policy then Some errInvalidRecoveryPolicy
      else if int (length (rpShareFingerprints policy)) \<noteq> rpShareCount policy \<or> hasDuplicate (rpShareFingerprints policy)
      then Some errInvalidRecoveryPolicy
      else if \<not> list_all validSafeMetadataID (rpShareFingerprints policy @ rpRecipientFingerprints policy) then Some errInvalidRecoveryPolicy
      else if rpStatus policy \<notin> {''active'', ''rotated'', ''revoked''} then Some errInvalidRecoveryPolicy
      else if rpCreatedAt policy = 0 then Some errInvalidRecoveryPolicy
      else if rpStatus policy = ''rotated'' \<and> rpRotatedAt policy = None then Some errInvalidRecoveryPolicy
      else if rpStatus policy = ''revoked'' \<and> rpRevokedAt policy = None then Some errInvalidRecoveryPolicy
      else None)"

definition nextActionForRecoveryPolicy :: "recoveryPolicyMetadata \<Rightarrow> string" where
  "nextActionForRecoveryPolicy policy =
     (if rpStatus policy = ''active'' then ''monitor_recovery_policy''
      else if rpStatus policy = ''rotated'' then ''verify_new_recovery_material''
      else if rpStatus policy = ''revoked'' then ''enroll_replacement_recovery_policy''
      else ''repair_recovery_policy_metadata'')"

definition completedPolicy :: "recoveryPolicyRequest \<Rightarrow> time \<Rightarrow> recoveryPolicyMetadata" where
  "completedPolicy req now =
     (let keyVersion = scrubAuditField (pqKeyVersion req); status0 = scrubAuditField (pqStatus req);
          status = (if status0 = [] then ''active'' else status0) in
      \<lparr>rpPolicyID = scrubAuditField (pqPolicyID req), rpKeyID = scrubAuditField (pqKeyID req),
       rpKeyVersion = (if keyVersion = [] then masterKeyVersion else keyVersion),
       rpThreshold = pqThreshold req, rpShareCount = pqShareCount req,
       rpShareFingerprints = normalizeSafeFingerprints (pqShareFingerprints req),
       rpRecipientFingerprints = normalizeSafeFingerprints (pqRecipientFingerprints req),
       rpCreatedAt = (case pqCreatedAt req of Some t \<Rightarrow> t | None \<Rightarrow> now),
       rpRotatedAt = (if status = ''rotated'' \<and> pqRotatedAt req = None then Some now else pqRotatedAt req),
       rpRevokedAt = (if status = ''revoked'' \<and> pqRevokedAt req = None then Some now else pqRevokedAt req),
       rpStatus = status, rpNextAction = []\<rparr>)"

definition normalizeRecoveryPolicyRequest :: "recoveryPolicyRequest \<Rightarrow> time \<Rightarrow> gerror + recoveryPolicyMetadata" where
  "normalizeRecoveryPolicyRequest req now =
     (let policy = completedPolicy req now in
      case validateRecoveryPolicyMetadata policy of
        Some err \<Rightarrow> Inl err
      | None \<Rightarrow> Inr (policy\<lparr>rpNextAction := nextActionForRecoveryPolicy policy\<rparr>))"

text \<open>The request that describes a stored policy.\<close>

definition policyRequestOf :: "recoveryPolicyMetadata \<Rightarrow> recoveryPolicyRequest" where
  "policyRequestOf policy =
     \<lparr>pqRequestID = [], pqServiceID = [], pqPolicyID = rpPolicyID policy, pqKeyID = rpKeyID policy, pqKeyVersion = rpKeyVersion policy,
      pqThreshold = rpThreshold policy, pqShareCount = rpShareCount policy, pqShareFingerprints = rpShareFingerprints policy,
      pqRecipientFingerprints = rpRecipientFingerprints policy, pqCreatedAt = Some (rpCreatedAt policy), pqRotatedAt = rpRotatedAt policy,
      pqRevokedAt = rpRevokedAt policy, pqStatus = rpStatus policy\<rparr>"

subsection \<open>Operations\<close>

definition auditRecoveryPolicy ::
  "'z golib_scheme \<Rightarrow> string \<Rightarrow> recoveryPolicyMetadata option \<Rightarrow> string \<Rightarrow> string \<Rightarrow> string \<Rightarrow> 'm auditState_scheme
    \<Rightarrow> gerror option \<times> 'm auditState_scheme" where
  "auditRecoveryPolicy L operation policy outcome requestServiceID requestID b =
     (let event = emptyAuditEvent\<lparr>aeTS := bNow b, aeOperation := operation, aeOutcome := outcome,
            aeServiceID := requestServiceID, aeRequestID := requestID\<rparr> in
      writeAuditEvent L (case policy of None \<Rightarrow> event
        | Some p \<Rightarrow> event\<lparr>aePolicyID := rpPolicyID p, aeKeyID := rpKeyID p, aeState := rpStatus p\<rparr>) b)"

text \<open>Each call below drops the error of the audit event (\<open>_ = b.auditRecoveryPolicy(...)\<close>).\<close>

definition recoveryStep ::
  "'z golib_scheme \<Rightarrow> string \<Rightarrow> recoveryPolicyMetadata option \<Rightarrow> string \<Rightarrow> string \<Rightarrow> string \<Rightarrow> 'm auditState_scheme \<Rightarrow> 'm auditState_scheme" where
  "recoveryStep L operation policy outcome svc rid b = snd (auditRecoveryPolicy L operation policy outcome svc rid b)"

type_synonym 'm policyResult = "(recoveryPolicyStatusResponse \<times> gerror option) \<times> 'm"

definition recoveryPolicyStatus :: "'z golib_scheme \<Rightarrow> 'm backend_scheme \<Rightarrow> 'm backend_scheme policyResult" where
  "recoveryPolicyStatus L b =
     (case loadStore b of
        Inl _ \<Rightarrow> ((policyResponse ''degraded'' None ''inspect_recovery_policy_state'', Some errBackendDegraded),
                  recoveryStep L ''recovery_policy_status'' None ''degraded'' [] [] b)
      | Inr store \<Rightarrow> (case stRecovery store of
            None \<Rightarrow> ((policyResponse ''setup_needed'' None ''enroll_recovery_policy'', None),
                     recoveryStep L ''recovery_policy_status'' None ''setup_needed'' [] [] b)
          | Some stored \<Rightarrow> (case normalizeRecoveryPolicyRequest (policyRequestOf stored) (bNow b) of
                Inl _ \<Rightarrow> ((policyResponse ''degraded'' None ''repair_recovery_policy_metadata'', Some errInvalidRecoveryPolicy),
                          recoveryStep L ''recovery_policy_status'' (Some stored) ''degraded'' [] [] b)
              | Inr policy \<Rightarrow> ((policyResponse (rpStatus policy) (Some policy) (rpNextAction policy), None),
                          recoveryStep L ''recovery_policy_status'' (Some policy) (rpStatus policy) [] [] b))))"

definition keptCreation :: "localStoreFile \<Rightarrow> recoveryPolicyRequest \<Rightarrow> recoveryPolicyRequest" where
  "keptCreation store req =
     (case stRecovery store of
        Some stored \<Rightarrow> if pqCreatedAt req = None \<and> rpPolicyID stored = trimSpace (pqPolicyID req) \<and> rpCreatedAt stored \<noteq> 0
                       then req\<lparr>pqCreatedAt := Some (rpCreatedAt stored)\<rparr> else req
      | None \<Rightarrow> req)"

definition upsertRecoveryPolicy :: "'z golib_scheme \<Rightarrow> recoveryPolicyRequest \<Rightarrow> 'm backend_scheme \<Rightarrow> 'm backend_scheme policyResult" where
  "upsertRecoveryPolicy L req b =
     (case loadStore b of
        Inl _ \<Rightarrow> ((policyResponse ''degraded'' None ''repair_recovery_policy_metadata'', Some errBackendDegraded),
                  recoveryStep L ''recovery_policy_update'' None ''degraded'' (pqServiceID req) (pqRequestID req) b)
      | Inr store \<Rightarrow> (case normalizeRecoveryPolicyRequest (keptCreation store req) (bNow b) of
            Inl err \<Rightarrow> ((policyResponse ''policy_denied'' None ''provide_complete_safe_recovery_metadata'', Some err),
                       recoveryStep L ''recovery_policy_update'' None ''policy_denied'' (pqServiceID req) (pqRequestID req) b)
          | Inr policy \<Rightarrow>
              let operation = (if stRecovery store = None then ''recovery_policy_create'' else ''recovery_policy_update'') in
              check (saveStore (store\<lparr>stRecovery := Some policy, stUpdatedAt := bNow b\<rparr>) b)
                (\<lambda>_ b1. ((policyResponse ''degraded'' None ''repair_recovery_policy_metadata'', Some errBackendDegraded),
                    recoveryStep L operation (Some policy) ''degraded'' (pqServiceID req) (pqRequestID req) b1))
                (\<lambda>b1. ((policyResponse (rpStatus policy) (Some policy) (rpNextAction policy), None),
                    recoveryStep L operation (Some policy) (rpStatus policy) (pqServiceID req) (pqRequestID req) b1))))"

definition revokeRecoveryPolicy ::
  "'z golib_scheme \<Rightarrow> string \<Rightarrow> string \<Rightarrow> string \<Rightarrow> 'm backend_scheme \<Rightarrow> 'm backend_scheme policyResult" where
  "revokeRecoveryPolicy L policyID svc rid b =
     (case loadStore b of
        Inl _ \<Rightarrow> ((policyResponse ''degraded'' None ''inspect_recovery_policy_state'', Some errBackendDegraded),
                  recoveryStep L ''recovery_policy_revoke'' None ''degraded'' svc rid b)
      | Inr store \<Rightarrow>
          (case (if trimSpace policyID = [] then None
                 else case stRecovery store of Some p \<Rightarrow> if rpPolicyID p = trimSpace policyID then Some p else None | None \<Rightarrow> None) of
             None \<Rightarrow> ((policyResponse ''missing_ref'' None ''enroll_recovery_policy'', Some errMissingRef),
                      recoveryStep L ''recovery_policy_revoke'' (stRecovery store) ''missing_ref'' svc rid b)
           | Some stored \<Rightarrow>
               (case normalizeRecoveryPolicyRequest ((policyRequestOf stored)\<lparr>pqRevokedAt := Some (bNow b), pqStatus := ''revoked'',
                       pqServiceID := svc, pqRequestID := rid\<rparr>) (bNow b) of
                  Inl err \<Rightarrow> ((policyResponse ''degraded'' None ''repair_recovery_policy_metadata'', Some err),
                             recoveryStep L ''recovery_policy_revoke'' (Some stored) ''degraded'' svc rid b)
                | Inr policy \<Rightarrow>
                    check (saveStore (store\<lparr>stRecovery := Some policy, stUpdatedAt := bNow b\<rparr>) b)
                      (\<lambda>_ b1. ((policyResponse ''degraded'' None ''inspect_recovery_policy_state'', Some errBackendDegraded),
                          recoveryStep L ''recovery_policy_revoke'' (Some policy) ''degraded'' svc rid b1))
                      (\<lambda>b1. ((policyResponse (rpStatus policy) (Some policy) (rpNextAction policy), None),
                          recoveryStep L ''recovery_policy_revoke'' (Some policy) (rpStatus policy) svc rid b1)))))"

definition recoveryPolicyHandler ::
  "'z golib_scheme \<Rightarrow> string \<Rightarrow> httpRequest \<Rightarrow> recoveryPolicyRequest decoded \<Rightarrow> 'm backend_scheme
    \<Rightarrow> recoveryPolicyStatusResponse reply \<times> 'm backend_scheme" where
  "recoveryPolicyHandler L token r body b =
     (if hMethod r = ''GET'' then
        let h = recoveryPolicyStatus L b in (Json (if snd (fst h) = None then 200 else 503) (fst (fst h)), snd h)
      else if hMethod r = ''POST'' then
        check (require L token r b)
          (\<lambda>refusal b1. (refusal, b1))
          (\<lambda>b1. case body of
              Decoded req \<Rightarrow>
                let h = upsertRecoveryPolicy L req b1 in (Json (if snd (fst h) = None then 200 else 400) (fst (fst h)), snd h)
            | _ \<Rightarrow> (writeAPIError 400 ''invalid_recovery_policy'' ''Recovery policy metadata must use the safe metadata contract.''
                     ''policy_denied'' ''provide_complete_safe_recovery_metadata'', b1))
      else (writeAPIError 405 ''method_not_allowed'' ''Use GET or POST /v1/recovery/policy.'' ''invalid_ref'' [], b))"

subsection \<open>What the operations do\<close>

lemma recoveryStep_keeps [simp, store_frame]:
  fixes b :: "'m backend_scheme"
  shows "bDisk (recoveryStep L op p oc svc rid b) = bDisk b" "bMasterKey (recoveryStep L op p oc svc rid b) = bMasterKey b"
    "bNow (recoveryStep L op p oc svc rid b) = bNow b"
  unfolding recoveryStep_def auditRecoveryPolicy_def Let_def
  using writeAuditEvent_frame [of L "case p of None \<Rightarrow> emptyAuditEvent\<lparr>aeTS := bNow b, aeOperation := op, aeOutcome := oc, aeServiceID := svc, aeRequestID := rid\<rparr>
    | Some p \<Rightarrow> emptyAuditEvent\<lparr>aeTS := bNow b, aeOperation := op, aeOutcome := oc, aeServiceID := svc, aeRequestID := rid,
        aePolicyID := rpPolicyID p, aeKeyID := rpKeyID p, aeState := rpStatus p\<rparr>" b]
  by (auto split: option.splits)

definition policyOk :: "recoveryPolicyMetadata \<Rightarrow> bool" where
  "policyOk p \<longleftrightarrow> validateRecoveryPolicyMetadata p = None \<and> rpNextAction p = nextActionForRecoveryPolicy p"

definition recoveryOf :: "diskState \<Rightarrow> recoveryPolicyMetadata option" where
  "recoveryOf d = (case d of Stored s \<Rightarrow> stRecovery s | _ \<Rightarrow> None)"

lemma validate_next [simp]:
  "validateRecoveryPolicyMetadata (p\<lparr>rpNextAction := a\<rparr>) = validateRecoveryPolicyMetadata p"
  "nextActionForRecoveryPolicy (p\<lparr>rpNextAction := a\<rparr>) = nextActionForRecoveryPolicy p"
  by (simp_all add: validateRecoveryPolicyMetadata_def nextActionForRecoveryPolicy_def)

lemma normalize_ok: "normalizeRecoveryPolicyRequest req now = Inr p \<Longrightarrow> policyOk p"
  by (auto simp: normalizeRecoveryPolicyRequest_def Let_def policyOk_def split: option.splits)

lemma hasDuplicate_distinct: "hasDuplicate vs \<longleftrightarrow> \<not> distinct vs"
  by (induction vs) (auto simp: hasDuplicate_def)

lemma policyOk_facts:
  assumes "policyOk p"
  shows "1 \<le> rpThreshold p" "rpThreshold p \<le> rpShareCount p" "int (length (rpShareFingerprints p)) = rpShareCount p"
    "distinct (rpShareFingerprints p)" "rpStatus p \<in> {''active'', ''rotated'', ''revoked''}"
  using assms by (auto simp: policyOk_def validateRecoveryPolicyMetadata_def hasDuplicate_distinct split: if_splits)

text \<open>Text of at most 256 printable ASCII characters keeps its form when it is scrubbed a second time.\<close>

definition plainRequest :: "recoveryPolicyRequest \<Rightarrow> bool" where
  "plainRequest req \<longleftrightarrow> list_all plain ([pqPolicyID req, pqKeyID req, pqKeyVersion req, pqStatus req]
     @ pqShareFingerprints req @ pqRecipientFingerprints req)"

definition canonicalPolicy :: "recoveryPolicyMetadata \<Rightarrow> bool" where
  "canonicalPolicy p \<longleftrightarrow> list_all canonical ([rpPolicyID p, rpKeyID p, rpKeyVersion p, rpStatus p]
     @ rpShareFingerprints p @ rpRecipientFingerprints p)"

lemma safe_trimmed:
  assumes "canonical s" "validSafeMetadataID s" shows "trimSpace s = s"
proof -
  have a: "ascii s" "scrubAuditField s = s" using assms(1) by (simp_all add: canonical_def)
  then have p: "plain s" using scrub_plain [of s] by simp
  then have pt: "plain (trimSpace s)" using plainChar_trimSpace [of s] trimSpace_length [of s] by (simp add: plain_def)
  have "list_all (\<lambda>r. case r of [c] \<Rightarrow> \<not> ((of_char c :: nat) \<le> 0x20 \<or> c = CHR 0x7F) | _ \<Rightarrow> True) (map (\<lambda>c. [c]) (trimSpace s))"
    using assms(2) by (simp only: validSafeMetadataID_def Let_def go_runes_ascii [OF ascii_trimSpace [OF a(1)]] split: if_split_asm)
  then have "\<forall>c \<in> set (trimSpace s). \<not> (of_char c :: nat) \<le> 0x20" by (simp add: list_all_iff)
  then have "CHR '' '' \<notin> set (trimSpace s)" by fastforce
  then have "scrubAuditField (trimSpace s) = trimSpace s" using canonical_word [of "trimSpace s"] pt by (simp add: plain_def canonical_def)
  then show ?thesis using scrub_of_plain [OF p] scrub_of_plain [OF pt] a(2) by simp
qed

lemma normalized_canonical:
  assumes "normalizeRecoveryPolicyRequest req now = Inr p" "plainRequest req" shows "canonicalPolicy p"
proof -
  have "canonical masterKeyVersion" "canonical ''active''" by code_simp+
  moreover have "p = (completedPolicy req now)\<lparr>rpNextAction := nextActionForRecoveryPolicy (completedPolicy req now)\<rparr>"
    using assms(1) by (auto simp: normalizeRecoveryPolicyRequest_def Let_def split: option.splits)
  ultimately show ?thesis using assms(2) scrub_canonical
    by (auto simp: canonicalPolicy_def completedPolicy_def Let_def plainRequest_def normalizeSafeFingerprints_def list_all_iff)
qed

lemma canonical_fingerprints:
  assumes "list_all canonical vs" "list_all validSafeMetadataID vs" shows "normalizeSafeFingerprints vs = vs"
proof -
  have "map scrubAuditField vs = vs" using assms(1) by (induction vs) (auto simp: canonical_def)
  moreover have "[] \<notin> set vs" using assms(2) by (auto simp: list_all_iff validSafeMetadataID_def)
  ultimately show ?thesis by (auto simp: normalizeSafeFingerprints_def intro: filter_True)
qed

lemma canonical_completed:
  assumes "canonicalPolicy p" "policyOk p"
  shows "completedPolicy (policyRequestOf p) now = p\<lparr>rpNextAction := []\<rparr>"
    and "completedPolicy ((policyRequestOf p)\<lparr>pqRevokedAt := Some t, pqStatus := ''revoked'', pqServiceID := svc, pqRequestID := rid\<rparr>) now
      = p\<lparr>rpRevokedAt := Some t, rpStatus := ''revoked'', rpNextAction := []\<rparr>"
proof -
  have v: "validateRecoveryPolicyMetadata p = None" using assms(2) by (simp add: policyOk_def)
  have f: "normalizeSafeFingerprints (rpShareFingerprints p) = rpShareFingerprints p"
    "normalizeSafeFingerprints (rpRecipientFingerprints p) = rpRecipientFingerprints p"
    using v assms(1) by (auto simp: validateRecoveryPolicyMetadata_def canonicalPolicy_def intro!: canonical_fingerprints split: if_splits)
  have k: "rpKeyVersion p \<noteq> []" "rpStatus p \<noteq> []"
    using v by (auto simp: validateRecoveryPolicyMetadata_def validSafeMetadataID_def Let_def split: if_splits)
  have c: "scrubAuditField (rpPolicyID p) = rpPolicyID p" "scrubAuditField (rpKeyID p) = rpKeyID p"
    "scrubAuditField (rpKeyVersion p) = rpKeyVersion p" "scrubAuditField (rpStatus p) = rpStatus p"
    using assms(1) by (simp_all add: canonicalPolicy_def canonical_def)
  have m: "\<not> (rpStatus p = ''rotated'' \<and> rpRotatedAt p = None)" "\<not> (rpStatus p = ''revoked'' \<and> rpRevokedAt p = None)"
    using v by (auto simp: validateRecoveryPolicyMetadata_def split: if_splits)
  show "completedPolicy (policyRequestOf p) now = p\<lparr>rpNextAction := []\<rparr>"
    by (rule recoveryPolicyMetadata.equality) (use f k c m in \<open>simp_all add: completedPolicy_def policyRequestOf_def Let_def\<close>)
  have "scrubAuditField ''revoked'' = ''revoked''" by code_simp
  then show "completedPolicy ((policyRequestOf p)\<lparr>pqRevokedAt := Some t, pqStatus := ''revoked'', pqServiceID := svc, pqRequestID := rid\<rparr>) now
      = p\<lparr>rpRevokedAt := Some t, rpStatus := ''revoked'', rpNextAction := []\<rparr>"
    by (intro recoveryPolicyMetadata.equality) (use f k c m in \<open>simp_all add: completedPolicy_def policyRequestOf_def Let_def\<close>)
qed

lemma status_of_stored:
  assumes "canonicalPolicy p" "policyOk p" "loadStore b = Inr s" "stRecovery s = Some p"
  shows "fst (recoveryPolicyStatus L b) = (policyResponse (rpStatus p) (Some p) (rpNextAction p), None)"
proof -
  have "normalizeRecoveryPolicyRequest (policyRequestOf p) (bNow b) = Inr p"
    using assms(2) by (simp add: normalizeRecoveryPolicyRequest_def Let_def canonical_completed(1) [OF assms(1,2)] policyOk_def)
  then show ?thesis using assms(3,4) by (simp add: recoveryPolicyStatus_def)
qed

lemma revoked_ok: "policyOk p \<Longrightarrow> validateRecoveryPolicyMetadata (p\<lparr>rpRevokedAt := Some t, rpStatus := ''revoked'', rpNextAction := []\<rparr>) = None"
  by (auto simp: policyOk_def validateRecoveryPolicyMetadata_def split: if_splits)

lemma revoke_runs:
  assumes "canonicalPolicy p" "policyOk p" "loadStore b = Inr s" "stRecovery s = Some p" "bSaveFaults b = []"
  shows "snd (fst (revokeRecoveryPolicy L (rpPolicyID p) svc rid b)) = None"
    and "recoveryOf (bDisk (snd (revokeRecoveryPolicy L (rpPolicyID p) svc rid b)))
      = Some (p\<lparr>rpRevokedAt := Some (bNow b), rpStatus := ''revoked'', rpNextAction := ''enroll_replacement_recovery_policy''\<rparr>)"
proof -
  have id: "trimSpace (rpPolicyID p) = rpPolicyID p" "rpPolicyID p \<noteq> []"
    using assms(1,2) by (auto simp: canonicalPolicy_def policyOk_def validateRecoveryPolicyMetadata_def validSafeMetadataID_def Let_def
        intro!: safe_trimmed split: if_splits)
  show "snd (fst (revokeRecoveryPolicy L (rpPolicyID p) svc rid b)) = None"
    "recoveryOf (bDisk (snd (revokeRecoveryPolicy L (rpPolicyID p) svc rid b)))
      = Some (p\<lparr>rpRevokedAt := Some (bNow b), rpStatus := ''revoked'', rpNextAction := ''enroll_replacement_recovery_policy''\<rparr>)"
    using id assms(3,4) revoked_ok [OF assms(2)] save_faultless(1) [OF assms(5)] save_disk(1) [OF save_faultless(1) [OF assms(5)]]
    by (simp_all add: revokeRecoveryPolicy_def normalizeRecoveryPolicyRequest_def canonical_completed(2) [OF assms(1,2)] Let_def
        recoveryOf_def nextActionForRecoveryPolicy_def)
qed

text \<open>Enrolling stores the normalised policy, or leaves the file alone.\<close>

lemma upsert_saved:
  assumes "upsertRecoveryPolicy L req b = ((res, None), b1)"
  obtains s p where "loadStore b = Inr s" "normalizeRecoveryPolicyRequest (keptCreation s req) (bNow b) = Inr p" "psPolicy res = Some p"
    "bDisk b1 = Stored (s\<lparr>stRecovery := Some p, stUpdatedAt := bNow b\<rparr>)"
proof -
  obtain s where s: "loadStore b = Inr s" using assms by (auto simp: upsertRecoveryPolicy_def split: sum.splits)
  obtain p where p: "normalizeRecoveryPolicyRequest (keptCreation s req) (bNow b) = Inr p"
    using assms s by (auto simp: upsertRecoveryPolicy_def split: sum.splits)
  let ?s = "s\<lparr>stRecovery := Some p, stUpdatedAt := bNow b\<rparr>"
  have ok: "fst (saveStore ?s b) = None"
    using assms s p by (cases "fst (saveStore ?s b)") (simp_all add: upsertRecoveryPolicy_def Let_def)
  have "psPolicy res = Some p" "bDisk b1 = bDisk (snd (saveStore ?s b))"
    using assms s p ok by (auto simp: upsertRecoveryPolicy_def Let_def policyResponse_def)
  then show ?thesis using that s p save_disk(1) [OF ok] by simp
qed

lemma upsert_runs:
  assumes "loadStore b = Inr s" "normalizeRecoveryPolicyRequest (keptCreation s req) (bNow b) = Inr p" "bSaveFaults b = []"
  shows "snd (fst (upsertRecoveryPolicy L req b)) = None"
  using assms save_faultless(1) [OF assms(3)] by (simp add: upsertRecoveryPolicy_def Let_def)

lemma plain_kept: "plainRequest (keptCreation s req) = plainRequest req"
  by (simp add: plainRequest_def keptCreation_def split: option.split)

text \<open>
  A recovery policy that is enrolled is well formed: its threshold lies between one and
  the number of shares, and there are exactly that many fingerprints, all different. Nothing else
  in the store changes but the policy and the time stamp; the status endpoint then answers with
  this policy, and it can be revoked by its id, which changes its status and nothing else. Fields
  have to be printable ASCII of at most 256 bytes.
\<close>

theorem recovery_policy_enrolled:
  assumes "upsertRecoveryPolicy L req b = ((res, None), b1)" "plainRequest req"
  shows "\<exists>s p. loadStore b = Inr s \<and> psPolicy res = Some p \<and> bDisk b1 = Stored (s\<lparr>stRecovery := Some p, stUpdatedAt := bNow b\<rparr>)
    \<and> 1 \<le> rpThreshold p \<and> rpThreshold p \<le> rpShareCount p \<and> int (length (rpShareFingerprints p)) = rpShareCount p \<and> distinct (rpShareFingerprints p)
    \<and> fst (recoveryPolicyStatus L b1) = (policyResponse (rpStatus p) (Some p) (rpNextAction p), None)
    \<and> (bSaveFaults b1 = [] \<longrightarrow> snd (fst (revokeRecoveryPolicy L (rpPolicyID p) svc rid b1)) = None
         \<and> recoveryOf (bDisk (snd (revokeRecoveryPolicy L (rpPolicyID p) svc rid b1)))
             = Some (p\<lparr>rpRevokedAt := Some (bNow b1), rpStatus := ''revoked'', rpNextAction := ''enroll_replacement_recovery_policy''\<rparr>))"
proof -
  obtain s p where p: "loadStore b = Inr s" "normalizeRecoveryPolicyRequest (keptCreation s req) (bNow b) = Inr p" "psPolicy res = Some p"
    "bDisk b1 = Stored (s\<lparr>stRecovery := Some p, stUpdatedAt := bNow b\<rparr>)" using upsert_saved [OF assms(1)] by blast
  have c: "policyOk p" "canonicalPolicy p" using normalize_ok [OF p(2)] normalized_canonical [OF p(2)] assms(2) by (simp_all add: plain_kept)
  have l: "loadStore b1 = Inr (s\<lparr>stRecovery := Some p, stUpdatedAt := bNow b\<rparr>)" using p(4) by (simp add: loadStore_def)
  have "fst (recoveryPolicyStatus L b1) = (policyResponse (rpStatus p) (Some p) (rpNextAction p), None)"
    by (rule status_of_stored [OF c(2,1) l]) simp
  moreover have "bSaveFaults b1 = [] \<longrightarrow> snd (fst (revokeRecoveryPolicy L (rpPolicyID p) svc rid b1)) = None
         \<and> recoveryOf (bDisk (snd (revokeRecoveryPolicy L (rpPolicyID p) svc rid b1)))
             = Some (p\<lparr>rpRevokedAt := Some (bNow b1), rpStatus := ''revoked'', rpNextAction := ''enroll_replacement_recovery_policy''\<rparr>)"
    using revoke_runs [OF c(2,1) l, of L svc rid] by simp
  ultimately show ?thesis using p(1,3,4) policyOk_facts(1-4) [OF c(1)] by blast
qed

end
