(* ===== verification/Key_Lifecycle.thy ===== *)
theory Key_Lifecycle
  imports Broker_Runs Launch_Lease
begin

text \<open>
  The master key of a vault (\<open>key_material.go\<close>, \<open>key_lifecycle.go\<close>, \<open>key_wrapper_provider.go\<close>): where it is
  loaded from, the wrapper file that keeps it protected by the operating system, initialising a
  store, unlocking, enrolling a wrapper, and the completion of an interrupted key rotation.

  \<open>keyHost\<close> extends the backend with the files these operations use. A wrapper file is what
  \<open>json.Unmarshal\<close> makes of it, or the reason it cannot be read. Each call of the operating system or
  of the key provider that can fail, or a run of such calls with no effect between them, takes the
  next element of \<open>kFaults\<close>; an empty list stands for calls that succeed. The provider (DPAPI on
  Windows) is the parameter \<open>keyWrapperProvider\<close>; what the code relies on is \<open>provider_ok\<close>. Host facts
  (\<open>runtime.GOOS\<close>, the user, the machine) are the parameter \<open>platform\<close>. Paths follow Unix.
\<close>

subsection \<open>Data\<close>

record localKeyWrapper =
  lwVersion :: int
  lwServiceID :: string
  lwAPIVersion :: string
  lwKeyID :: string
  lwKeyVersion :: string
  lwWrapperKind :: string
  lwOS :: string
  lwUser :: string
  lwMachine :: string
  lwAlg :: string
  lwCiphertext :: string
  lwCreatedAt :: time
  lwUpdatedAt :: time

datatype wrapperFile = WrapperUnreadable gerror | WrapperGarbage | WrapperFile localKeyWrapper
datatype keyFile = KeyFileUnreadable gerror | KeyFileTooLarge | KeyFileText string

record keyHost = backend +
  kStorePath :: string
  kWrapperPath :: string
  kWrappers :: "wrapperFile gomap"
  kKeyFiles :: "keyFile gomap"
  kFaults :: "gerror option list"

record wrapperContext =
  wcOS :: string
  wcUser :: string
  wcMachine :: string
  wcKind :: string
  wcSupported :: bool
  wcUnsupported :: string

record keyWrapperProvider =
  pvAlgorithm :: string
  pvProtect :: "string \<Rightarrow> string option"
  pvUnprotect :: "string \<Rightarrow> string option"

record platform =
  ptGOOS :: string
  ptUsername :: "(string \<times> string) option"
  ptHostname :: "string option"

record keyMaterial =
  kmValue :: string
  kmSource :: string

record keyStatusResponse =
  keServiceID :: string
  keAPIVersion :: string
  keAvailable :: bool
  keKeyID :: string
  keKeyVersion :: string
  keSource :: string
  keState :: string

record wrapperStatusDetail =
  wdAvailable :: bool
  wdSupported :: bool
  wdWrapperKind :: string
  wdOS :: string
  wdUser :: string
  wdMachine :: string
  wdKeyID :: string
  wdKeyVersion :: string
  wdState :: string
  wdNextAction :: string
  wdFailureReason :: string

record bootstrapKeyMetadata =
  bkKeyID :: string
  bkKeyVersion :: string
  bkSourceType :: string
  bkFingerprint :: string
  bkGenerated :: bool
  bkOneTimeRevealAvailable :: bool
  bkLossSemantics :: vaultLossSemantics

record bootstrapOneTimeReveal =
  brMasterKey :: string
  brWarning :: string

record keyLifecycleResponse =
  klServiceID :: string
  klAPIVersion :: string
  klOutcome :: string
  klState :: string
  klReady :: bool
  klKeyID :: string
  klKeyVersion :: string
  klStorePath :: string
  klWrapperPath :: string
  klWrapper :: "wrapperStatusDetail option"
  klRootIdentity :: "vaultRootIdentityMetadata option"
  klBootstrapKey :: "bootstrapKeyMetadata option"
  klOneTimeReveal :: "bootstrapOneTimeReveal option"
  klSecretCount :: int
  klNextAction :: string
  klRecoveryGuidance :: string

definition emptyKeyResponse :: keyLifecycleResponse where
  "emptyKeyResponse = \<lparr>klServiceID = [], klAPIVersion = [], klOutcome = [], klState = [], klReady = False, klKeyID = [], klKeyVersion = [],
     klStorePath = [], klWrapperPath = [], klWrapper = None, klRootIdentity = None, klBootstrapKey = None, klOneTimeReveal = None,
     klSecretCount = 0, klNextAction = [], klRecoveryGuidance = []\<rparr>"

definition localWrapperVersion :: int where "localWrapperVersion = 2"

definition provider_ok :: "keyWrapperProvider \<Rightarrow> bool" where
  "provider_ok P \<longleftrightarrow> pvAlgorithm P \<noteq> [] \<and> (\<forall>k c. pvProtect P k = Some c \<longrightarrow> c \<noteq> [] \<and> pvUnprotect P c = Some k)"

subsection \<open>Paths\<close>

text \<open>\<open>filepath.Clean\<close> and \<open>filepath.Dir\<close>.\<close>

fun cleanSegments :: "bool \<Rightarrow> string list \<Rightarrow> string list \<Rightarrow> string list" where
  "cleanSegments rooted out [] = rev out"
| "cleanSegments rooted out (s # ss) =
     (if s = [] \<or> s = ''.'' then cleanSegments rooted out ss
      else if s = ''..'' then
        (if out \<noteq> [] \<and> hd out \<noteq> ''..'' then cleanSegments rooted (tl out) ss
         else if rooted then cleanSegments rooted out ss else cleanSegments rooted (s # out) ss)
      else cleanSegments rooted (s # out) ss)"

definition pathClean :: "string \<Rightarrow> string" where
  "pathClean path =
     (let rooted = (path \<noteq> [] \<and> hd path = CHR ''/'');
          joined = joinWith ''/'' (cleanSegments rooted [] (splitOn (CHR ''/'') path)) in
      if rooted then CHR ''/'' # joined else if joined = [] then ''.'' else joined)"

definition pathDir :: "string \<Rightarrow> string" where
  "pathDir path = pathClean (rev (dropWhile (\<lambda>c. c \<noteq> CHR ''/'') (rev path)))"

subsection \<open>Key material\<close>

definition osCall :: "'m keyHost_scheme \<Rightarrow> gerror option \<times> 'm keyHost_scheme" where
  "osCall h = ((case kFaults h of [] \<Rightarrow> None | f # _ \<Rightarrow> f), h\<lparr>kFaults := tl (kFaults h)\<rparr>)"

definition validatePortableMasterKey :: "'z golib_scheme \<Rightarrow> string \<Rightarrow> gerror option" where
  "validatePortableMasterKey L masterKey =
     (if trimSpace masterKey = [] then Some errLocked
      else case b64RawURLDecode L (trimSpace masterKey) of
        None \<Rightarrow> Some errInvalidMasterKey
      | Some decoded \<Rightarrow> if length decoded \<noteq> 32 then Some errInvalidMasterKey else None)"

definition generatePortableMasterKey :: "'z golib_scheme \<Rightarrow> 'm backend_scheme \<Rightarrow> (gerror + string) \<times> 'm backend_scheme" where
  "generatePortableMasterKey L b =
     ((case bRandom b of
         [] \<Rightarrow> Inr (b64RawURLEncode L (replicate 32 (CHR 0x00)))
       | None # _ \<Rightarrow> Inl errEntropy
       | Some r # _ \<Rightarrow> Inr (b64RawURLEncode L (take 32 (r @ replicate 32 (CHR 0x00))))),
      b\<lparr>bRandom := tl (bRandom b)\<rparr>)"

definition loadKeyMaterial :: "string \<Rightarrow> string \<Rightarrow> 'm keyHost_scheme \<Rightarrow> keyMaterial \<times> gerror option" where
  "loadKeyMaterial flagValue filePath h =
     (let none = (\<lparr>kmValue = [], kmSource = ''none''\<rparr>, Some errLocked); failed = \<lparr>kmValue = [], kmSource = []\<rparr> in
      if trimSpace flagValue \<noteq> [] then (\<lparr>kmValue = trimSpace flagValue, kmSource = ''flag/env''\<rparr>, None)
      else if trimSpace filePath \<noteq> [] then
        (case map_of (kKeyFiles h) (trimSpace filePath) of
           None \<Rightarrow> (failed, Some errNotExist)
         | Some (KeyFileUnreadable e) \<Rightarrow> (failed, Some e)
         | Some KeyFileTooLarge \<Rightarrow> (failed, Some errLocked)
         | Some (KeyFileText t) \<Rightarrow>
             if trimSpace t \<noteq> [] then (\<lparr>kmValue = trimSpace t, kmSource = ''file''\<rparr>, None) else none)
      else none)"

definition keyStatus :: "'z golib_scheme \<Rightarrow> keyMaterial \<Rightarrow> keyStatusResponse" where
  "keyStatus L material =
     (let available = (trimSpace (kmValue material) \<noteq> []) in
      \<lparr>keServiceID = serviceID, keAPIVersion = apiVersion, keAvailable = available,
       keKeyID = (if available then masterKeyID L (kmValue material) else []),
       keKeyVersion = (if available then masterKeyVersion else []),
       keSource = (if kmSource material = [] then ''none'' else kmSource material),
       keState = (if available then ''ready'' else ''locked'')\<rparr>)"

subsection \<open>The wrapper file\<close>

definition wrapperContextFor :: "platform \<Rightarrow> string \<Rightarrow> wrapperContext" where
  "wrapperContextFor pt osName =
     (let os = (if trimSpace osName = [] then ptGOOS pt else trimSpace osName);
          supported = (os = ''windows'' \<and> ptGOOS pt = ''windows'') in
      \<lparr>wcOS = os, wcUser = (case ptUsername pt of Some (name, uid) \<Rightarrow> firstNonEmpty name uid | None \<Rightarrow> []),
       wcMachine = (case ptHostname pt of Some host \<Rightarrow> host | None \<Rightarrow> []),
       wcKind = (if supported then ''dpapi-user-scope'' else ''unsupported''), wcSupported = supported,
       wcUnsupported = (if supported then []
         else ''No implemented OS keystore wrapper is available on this host. Use explicit portable-key unlock/import until provider support exists.'')\<rparr>)"

definition readLocalKeyWrapper :: "string \<Rightarrow> 'm keyHost_scheme \<Rightarrow> (gerror + localKeyWrapper) \<times> 'm keyHost_scheme" where
  "readLocalKeyWrapper path h =
     check (osCall h) (\<lambda>e h1. (Inl e, h1))
       (\<lambda>h1. (case map_of (kWrappers h1) (trimSpace path) of
            None \<Rightarrow> Inl errNotExist
          | Some (WrapperUnreadable e) \<Rightarrow> Inl e
          | Some WrapperGarbage \<Rightarrow> Inl (errKey errInvalidWrapper)
          | Some (WrapperFile w) \<Rightarrow>
              if lwVersion w = 1 then Inl (errKey errLegacyWrapper)
              else if lwVersion w \<noteq> localWrapperVersion \<or> lwServiceID w \<noteq> serviceID \<or> lwAPIVersion w \<noteq> apiVersion
                \<or> lwCiphertext w = [] \<or> lwKeyID w = [] \<or> lwAlg w = [] then Inl (errKey errInvalidWrapper)
              else Inr w, h1))"

text \<open>
  \<open>writePrivateWrapperAtomically\<close>: nothing is published before the rename, and a failure to protect
  or validate the published file is reported although the new wrapper is in place. Temporary
  files, which are never read, are not part of the state.
\<close>

definition writePrivateWrapperAtomically :: "string \<Rightarrow> localKeyWrapper \<Rightarrow> 'm keyHost_scheme \<Rightarrow> gerror option \<times> 'm keyHost_scheme" where
  "writePrivateWrapperAtomically path w h =
     (if pathDir path = ''.'' \<or> pathDir path = ''/'' then (Some (errKey errWrapperAccess), h)
      else check (osCall h) (\<lambda>e h1. (Some e, h1))
        (\<lambda>h1. let h2 = h1\<lparr>kWrappers := AList.update path (WrapperFile w) (kWrappers h1)\<rparr> in
           check (osCall h2) (\<lambda>_ h3. (Some (errKey errWrapperAccess), h3)) (\<lambda>h3. (None, h3))))"

definition wrapperOf ::
  "'z golib_scheme \<Rightarrow> keyWrapperProvider \<Rightarrow> string \<Rightarrow> wrapperContext \<Rightarrow> string \<Rightarrow> time \<Rightarrow> time \<Rightarrow> localKeyWrapper" where
  "wrapperOf L P masterKey ctx protected createdAt now =
     \<lparr>lwVersion = localWrapperVersion, lwServiceID = serviceID, lwAPIVersion = apiVersion, lwKeyID = masterKeyID L masterKey,
      lwKeyVersion = masterKeyVersion, lwWrapperKind = wcKind ctx, lwOS = wcOS ctx, lwUser = wcUser ctx, lwMachine = wcMachine ctx,
      lwAlg = pvAlgorithm P, lwCiphertext = b64Encode L protected, lwCreatedAt = createdAt, lwUpdatedAt = now\<rparr>"

text \<open>The creation time of a wrapper that is replaced is kept.\<close>

definition keptCreatedAt :: "string \<Rightarrow> time \<Rightarrow> 'm keyHost_scheme \<Rightarrow> (gerror + time) \<times> 'm keyHost_scheme" where
  "keptCreatedAt path now h =
     check (osCall h) (\<lambda>e h1. (Inl e, h1))
       (\<lambda>h1. if map_of (kWrappers h1) path = None then (Inr now, h1)
          else check (osCall h1) (\<lambda>_ h2. (Inl (errKey errWrapperAccess), h2))
            (\<lambda>h2. attempt (readLocalKeyWrapper path h2) (\<lambda>_ h3. (Inr now, h3))
               (\<lambda>w h3. (Inr (if lwCreatedAt w \<noteq> 0 then lwCreatedAt w else now), h3))))"

definition wrapMasterKeyWithProvider ::
  "'z golib_scheme \<Rightarrow> keyWrapperProvider \<Rightarrow> string \<Rightarrow> string \<Rightarrow> wrapperContext \<Rightarrow> time \<Rightarrow> 'm keyHost_scheme
    \<Rightarrow> (gerror + localKeyWrapper) \<times> 'm keyHost_scheme" where
  "wrapMasterKeyWithProvider L P path masterKey ctx now h =
     (if \<not> wcSupported ctx then (Inl (errKey errUnsupportedOSWrapper), h)
      else case validatePortableMasterKey L masterKey of Some err \<Rightarrow> (Inl err, h)
      | None \<Rightarrow>
          check (osCall h) (\<lambda>e h1. (Inl e, h1))
          (\<lambda>h1. check (osCall h1) (\<lambda>_ h2. (Inl (errKey errWrapperAccess), h2))
          (\<lambda>h2. case pvProtect P (trimSpace masterKey) of None \<Rightarrow> (Inl (errKey errWrapperUnavailable), h2)
          | Some protected \<Rightarrow>
              attempt (keptCreatedAt path now h2) (\<lambda>e h3. (Inl e, h3))
              (\<lambda>createdAt h3.
                 let wrapper = wrapperOf L P masterKey ctx protected createdAt now in
                 check (writePrivateWrapperAtomically path wrapper h3) (\<lambda>e h4. (Inl e, h4)) (\<lambda>h4. (Inr wrapper, h4))))))"

definition openWrapper :: "'z golib_scheme \<Rightarrow> keyWrapperProvider \<Rightarrow> wrapperContext \<Rightarrow> localKeyWrapper \<Rightarrow> gerror + string" where
  "openWrapper L P ctx w =
     (if lwOS w \<noteq> wcOS ctx \<or> lwWrapperKind w \<noteq> wcKind ctx \<or> lwUser w \<noteq> wcUser ctx \<or> lwMachine w \<noteq> wcMachine ctx \<or> lwAlg w \<noteq> pvAlgorithm P
      then Inl (errKey errInvalidWrapper)
      else case b64Decode L (lwCiphertext w) of None \<Rightarrow> Inl (errKey errInvalidWrapper)
      | Some protected \<Rightarrow>
          if protected = [] then Inl (errKey errInvalidWrapper)
          else case pvUnprotect P protected of None \<Rightarrow> Inl (errKey errWrapperUnavailable)
          | Some plaintext \<Rightarrow>
              if validatePortableMasterKey L plaintext \<noteq> None \<or> lwKeyID w \<noteq> masterKeyID L plaintext \<or> lwKeyVersion w \<noteq> masterKeyVersion
              then Inl (errKey errInvalidWrapper) else Inr plaintext)"

definition unwrapMasterKeyWithProvider ::
  "'z golib_scheme \<Rightarrow> keyWrapperProvider \<Rightarrow> string \<Rightarrow> wrapperContext \<Rightarrow> 'm keyHost_scheme \<Rightarrow> (gerror + string) \<times> 'm keyHost_scheme" where
  "unwrapMasterKeyWithProvider L P path ctx h =
     (if \<not> wcSupported ctx then (Inl (errKey errUnsupportedOSWrapper), h)
      else check (osCall h) (\<lambda>e h1. (Inl e, h1))
        (\<lambda>h1. if map_of (kWrappers h1) path = None then (Inl errNotExist, h1)
           else check (osCall h1) (\<lambda>_ h2. (Inl (errKey errWrapperAccess), h2))
             (\<lambda>h2. attempt (readLocalKeyWrapper path h2) (\<lambda>e h3. (Inl e, h3))
                (\<lambda>w h3. (openWrapper L P ctx w, h3)))))"

subsection \<open>Wrapper status\<close>

definition wrapperFailureReason :: "gerror \<Rightarrow> string" where
  "wrapperFailureReason err =
     (if errorIs err (errKey errLegacyWrapper) then ''legacy wrapper must be re-enrolled''
      else if errorIs err (errKey errWrapperAccess) then ''wrapper permissions are not private''
      else if errorIs err (errKey errWrapperUnavailable) then ''wrapper cannot be decrypted by the current user''
      else ''wrapper metadata or protected payload is invalid'')"

definition wrapperDetail :: "localKeyWrapper \<Rightarrow> bool \<Rightarrow> string \<Rightarrow> string \<Rightarrow> wrapperStatusDetail" where
  "wrapperDetail w available state failure =
     \<lparr>wdAvailable = available, wdSupported = True, wdWrapperKind = lwWrapperKind w, wdOS = lwOS w, wdUser = lwUser w, wdMachine = lwMachine w,
      wdKeyID = lwKeyID w, wdKeyVersion = lwKeyVersion w, wdState = state,
      wdNextAction = (if state = ''degraded'' \<or> state = ''locked'' then ''import_portable_key'' else ''operate_normally''), wdFailureReason = failure\<rparr>"

definition degradedDetail :: "wrapperContext \<Rightarrow> string \<Rightarrow> string \<Rightarrow> string \<Rightarrow> wrapperStatusDetail" where
  "degradedDetail ctx keyID keyVersion reason =
     \<lparr>wdAvailable = True, wdSupported = True, wdWrapperKind = wcKind ctx, wdOS = wcOS ctx, wdUser = wcUser ctx, wdMachine = wcMachine ctx,
      wdKeyID = keyID, wdKeyVersion = keyVersion, wdState = ''degraded'', wdNextAction = ''import_portable_key'', wdFailureReason = reason\<rparr>"

definition wrapperStatusWithProvider ::
  "'z golib_scheme \<Rightarrow> keyWrapperProvider \<Rightarrow> string \<Rightarrow> wrapperContext \<Rightarrow> 'm keyHost_scheme \<Rightarrow> wrapperStatusDetail \<times> 'm keyHost_scheme" where
  "wrapperStatusWithProvider L P path ctx h =
     (if \<not> wcSupported ctx then
        (\<lparr>wdAvailable = False, wdSupported = False, wdWrapperKind = wcKind ctx, wdOS = wcOS ctx, wdUser = [], wdMachine = [], wdKeyID = [],
          wdKeyVersion = [], wdState = ''degraded'', wdNextAction = ''use_portable_key_unlock'', wdFailureReason = wcUnsupported ctx\<rparr>, h)
      else check (osCall h) (\<lambda>_ h1. (degradedDetail ctx [] [] ''wrapper metadata could not be read'', h1))
        (\<lambda>h1. if map_of (kWrappers h1) path = None then
            ((degradedDetail ctx [] [] [])\<lparr>wdAvailable := False, wdState := ''locked''\<rparr>, h1)
          else check (osCall h1) (\<lambda>_ h2. (degradedDetail ctx [] [] (wrapperFailureReason (errKey errWrapperAccess)), h2))
            (\<lambda>h2. attempt (readLocalKeyWrapper path h2)
               (\<lambda>_ h3. (degradedDetail ctx [] [] ''wrapper metadata could not be read'', h3))
               (\<lambda>w h3. attempt (unwrapMasterKeyWithProvider L P path ctx h3)
                  (\<lambda>e h4. (degradedDetail ctx (lwKeyID w) (lwKeyVersion w) (wrapperFailureReason e), h4))
                  (\<lambda>_ h4. (wrapperDetail w True ''ready'' [], h4))))))"

definition recoveryGuidanceForWrapper :: "wrapperStatusDetail \<Rightarrow> string" where
  "recoveryGuidanceForWrapper d =
     (if \<not> wdSupported d then ''Use a portable master-key file/env/flag on this OS until a supported wrapper provider is available.''
      else if \<not> wdAvailable d \<or> wdState d = ''locked'' then ''Import the matching portable master key to enroll this machine's local wrapper.''
      else if wdState d = ''degraded'' then ''Re-import the portable master key and re-wrap, or restore wrapper/store metadata from backup.''
      else ''Local wrapper metadata is present. Keep the portable master key stored separately for recovery.'')"

definition wrapperStatusResponse ::
  "'z golib_scheme \<Rightarrow> keyWrapperProvider \<Rightarrow> string \<Rightarrow> wrapperContext \<Rightarrow> 'm keyHost_scheme \<Rightarrow> keyLifecycleResponse \<times> 'm keyHost_scheme" where
  "wrapperStatusResponse L P path ctx h =
     (let st = wrapperStatusWithProvider L P path ctx h; d = fst st in
      (emptyKeyResponse\<lparr>klServiceID := serviceID, klAPIVersion := apiVersion,
         klOutcome := (if \<not> wdSupported d then ''degraded'' else if \<not> wdAvailable d then ''locked'' else wdState d),
         klState := wdState d, klReady := (wdState d = ''ready''), klWrapperPath := path, klWrapper := Some d, klNextAction := wdNextAction d,
         klRecoveryGuidance := recoveryGuidanceForWrapper d\<rparr>, snd st))"

subsection \<open>Initialising and unlocking a store\<close>

fun validatePayloads :: "'z golib_scheme \<Rightarrow> 'm backend_scheme \<Rightarrow> secretEntry list \<Rightarrow> (string \<times> gerror) option" where
  "validatePayloads L b [] = None"
| "validatePayloads L b (entry # rest) =
     (if spKeyID (sePayload entry) \<noteq> [] \<and> spKeyID (sePayload entry) \<noteq> masterKeyID L (bMasterKey b) then Some (''locked'', errKey errInvalidBackupKey)
      else case decrypt L b (sePayload entry) of Inl _ \<Rightarrow> Some (''degraded'', errBackendDegraded) | Inr _ \<Rightarrow> validatePayloads L b rest)"

definition validateStoreForKey :: "'z golib_scheme \<Rightarrow> 'm backend_scheme \<Rightarrow> string \<times> int \<times> gerror option" where
  "validateStoreForKey L b =
     (if isLocked b then (''locked'', 0, Some errLocked)
      else if bDisk b = NoFile then (''setup_needed'', 0, Some errMissingRef)
      else case loadStore b of Inl _ \<Rightarrow> (''degraded'', 0, Some errBackendDegraded)
      | Inr store \<Rightarrow>
          let n = int (length (stSecrets store)) in
          if stKeyID store \<noteq> [] \<and> stKeyID store \<noteq> masterKeyID L (bMasterKey b) then (''locked'', n, Some (errKey errInvalidBackupKey))
          else if stKeyVersion store \<noteq> [] \<and> stKeyVersion store \<noteq> masterKeyVersion then (''locked'', n, Some (errKey errInvalidBackupKey))
          else case validatePayloads L b (map snd (stSecrets store)) of
            Some (state, err) \<Rightarrow> (state, n, Some err)
          | None \<Rightarrow> (''ready'', n, None))"

definition normalizeBootstrapKeySource :: "string \<Rightarrow> string" where
  "normalizeBootstrapKeySource source0 =
     (let source = trimSpace source0 in
      if source = ''generated'' then ''generated''
      else if source = ''file'' then ''supplied_file''
      else if source = ''flag/env'' \<or> source = [] \<or> source = ''none'' then ''supplied''
      else scrubAuditField source)"

definition vaultIDFor :: "'z golib_scheme \<Rightarrow> string \<Rightarrow> string \<Rightarrow> string" where
  "vaultIDFor L keyID storePath = ''vault-'' @ take 16 (hexEncode (sha256 L (serviceID @ '':'' @ trimSpace keyID @ '':'' @ pathClean storePath)))"

definition defaultVaultLossSemantics :: vaultLossSemantics where
  "defaultVaultLossSemantics = \<lparr>lsRecoverableWithoutKey = False, lsNextAction = ''recreate_vault_if_key_and_recovery_are_lost'',
     lsMessage = ''If the vault key is lost and no managed recovery material exists, the vault cannot be unlocked; recreate the vault and old encrypted secrets are not recoverable.''\<rparr>"

definition rootIdentityFor :: "'z golib_scheme \<Rightarrow> platform \<Rightarrow> string \<Rightarrow> string \<Rightarrow> string \<Rightarrow> time \<Rightarrow> vaultRootIdentityMetadata" where
  "rootIdentityFor L pt vaultID keyID keySourceType createdAt =
     (let ctx = wrapperContextFor pt (ptGOOS pt) in
      \<lparr>vrVaultID = vaultID,
       vrRootActorID = ''root-'' @ take 16 (hexEncode (sha256 L (serviceID @ '':root-owner:'' @ vaultID @ '':'' @ keyID))),
       vrCreatedAt = createdAt, vrBootstrapSource = ''key_initialize'', vrKeySourceType = keySourceType, vrKeyID = keyID,
       vrKeyVersion = masterKeyVersion,
       vrLocalMachineContext = \<lparr>mcOS = wcOS ctx, mcUsername = wcUser ctx, mcMachine = wcMachine ctx\<rparr>,
       vrLossSemantics = defaultVaultLossSemantics,
       vrAuditExpectations = [''vault_created'', ''root_identity_created'', ''key_generated'', ''supplied_key_used'', ''setup_completed'', ''vault_unlock_failure'']\<rparr>)"

definition bootstrapKeyFor :: "'z golib_scheme \<Rightarrow> string \<Rightarrow> string \<Rightarrow> bool \<Rightarrow> bootstrapKeyMetadata" where
  "bootstrapKeyFor L masterKey source0 revealAvailable =
     (let source = normalizeBootstrapKeySource source0 in
      \<lparr>bkKeyID = masterKeyID L masterKey, bkKeyVersion = masterKeyVersion, bkSourceType = source, bkFingerprint = masterKeyID L masterKey,
       bkGenerated = (source = ''generated''), bkOneTimeRevealAvailable = (source = ''generated'' \<and> revealAvailable),
       bkLossSemantics = defaultVaultLossSemantics\<rparr>)"

definition keyEvent :: "'z golib_scheme \<Rightarrow> string \<Rightarrow> string \<Rightarrow> string \<Rightarrow> string \<Rightarrow> 'm auditState_scheme \<Rightarrow> 'm auditState_scheme" where
  "keyEvent L operation keyID outcome state b =
     snd (writeAuditEvent L (emptyAuditEvent\<lparr>aeTS := bNow b, aeOperation := operation, aeKeyID := keyID, aeOutcome := outcome, aeState := state\<rparr>) b)"

type_synonym 'm keyResult = "(keyLifecycleResponse \<times> gerror option) \<times> 'm"

definition initializedStore :: "'z golib_scheme \<Rightarrow> platform \<Rightarrow> string \<Rightarrow> string \<Rightarrow> string \<Rightarrow> time \<Rightarrow> localStoreFile" where
  "initializedStore L pt masterKey keySourceType storePath now =
     (let keyID = masterKeyID L masterKey; vaultID = vaultIDFor L keyID storePath in
      (freshStore now)\<lparr>stVaultID := vaultID, stKeyID := keyID, stKeyVersion := masterKeyVersion,
        stRootIdentity := Some (rootIdentityFor L pt vaultID keyID keySourceType now)\<rparr>)"

definition initializeStoreWithSource ::
  "'z golib_scheme \<Rightarrow> platform \<Rightarrow> string \<Rightarrow> string \<Rightarrow> bool \<Rightarrow> 'm keyHost_scheme \<Rightarrow> 'm keyHost_scheme keyResult" where
  "initializeStoreWithSource L pt masterKey keySourceType0 revealGenerated h =
     (let keySourceType = normalizeBootstrapKeySource keySourceType0; keyID = masterKeyID L masterKey;
          store = initializedStore L pt masterKey keySourceType (kStorePath h) (bNow h);
          refuse = (\<lambda>outcome err h1. ((emptyKeyResponse, Some err), audit_ignored L ''key_initialize'' [] outcome [] [] h1)) in
      case validatePortableMasterKey L masterKey of Some err \<Rightarrow> refuse ''locked'' err h
      | None \<Rightarrow>
          check (osCall h) (\<lambda>e h1. refuse ''degraded'' e h1)
          (\<lambda>h1. if bDisk h1 \<noteq> NoFile then refuse ''degraded'' (errKey errStoreAlreadyExists) h1
            else check (saveStore store h1) (\<lambda>_ h2. refuse ''degraded'' errBackendDegraded h2)
              (\<lambda>h2.
                 let h3 = keyEvent L ''key_initialize'' keyID ''ready'' ''ready'' h2;
                     h4 = keyEvent L (if keySourceType = ''generated'' then ''key_generated'' else ''supplied_key_used'') keyID ''ready'' [] h3;
                     h5 = keyEvent L ''vault_created'' keyID ''ready'' ''ready'' h4;
                     h6 = keyEvent L ''root_identity_created'' keyID ''ready'' (vrRootActorID (the (stRootIdentity store))) h5;
                     h7 = keyEvent L ''setup_completed'' keyID ''ready'' ''ready'' h6 in
                 ((emptyKeyResponse\<lparr>klServiceID := serviceID, klAPIVersion := apiVersion, klOutcome := ''ready'', klState := ''ready'',
                    klReady := True, klKeyID := keyID, klKeyVersion := masterKeyVersion, klStorePath := kStorePath h,
                    klRootIdentity := stRootIdentity store, klBootstrapKey := Some (bootstrapKeyFor L masterKey keySourceType revealGenerated),
                    klOneTimeReveal := (if keySourceType = ''generated'' \<and> revealGenerated
                      then Some \<lparr>brMasterKey = trimSpace masterKey,
                        brWarning = ''One-time reveal only. Store this portable vault key now; the broker will not persist or re-reveal it.''\<rparr> else None),
                    klNextAction := ''import_or_rewrap_for_local_os'',
                    klRecoveryGuidance := ''Store the portable master key securely, separately from encrypted store backups. If this key is lost without recovery material, recreate the vault and old encrypted secrets are not recoverable.''\<rparr>,
                   None), h7))))"

definition unlockWithMasterKey :: "'z golib_scheme \<Rightarrow> string \<Rightarrow> 'm keyHost_scheme \<Rightarrow> 'm keyHost_scheme keyResult" where
  "unlockWithMasterKey L masterKey h =
     (case validatePortableMasterKey L masterKey of
        Some err \<Rightarrow> ((emptyKeyResponse, Some err), audit_ignored L ''key_unlock'' [] ''locked'' [] [] h)
      | None \<Rightarrow>
          let h1 = h\<lparr>bMasterKey := trimSpace masterKey\<rparr>; (state, count, result) = validateStoreForKey L h1 in
          (case result of
             Some err \<Rightarrow> ((emptyKeyResponse, Some err),
               keyEvent L ''vault_unlock_failure'' (masterKeyID L masterKey) state state (audit_ignored L ''key_unlock'' [] state [] [] h1))
           | None \<Rightarrow>
               ((emptyKeyResponse\<lparr>klServiceID := serviceID, klAPIVersion := apiVersion, klOutcome := ''ready'', klState := ''ready'', klReady := True,
                  klKeyID := masterKeyID L masterKey, klKeyVersion := masterKeyVersion, klStorePath := kStorePath h, klSecretCount := count,
                  klNextAction := ''operate_or_rewrap_for_local_os'',
                  klRecoveryGuidance := ''If this machine should unlock without manual key entry, run key import or key rewrap for the current OS/user wrapper.''\<rparr>,
                 None), audit_ignored L ''key_unlock'' [] ''ready'' [] [] h1)))"

definition importOrRewrapMasterKeyWithProvider ::
  "'z golib_scheme \<Rightarrow> keyWrapperProvider \<Rightarrow> string \<Rightarrow> string \<Rightarrow> wrapperContext \<Rightarrow> string \<Rightarrow> 'm keyHost_scheme \<Rightarrow> 'm keyHost_scheme keyResult" where
  "importOrRewrapMasterKeyWithProvider L P wrapperPath masterKey ctx operation h =
     (let refuse = (\<lambda>outcome err h1. ((emptyKeyResponse, Some err), audit_ignored L operation [] outcome [] [] h1)) in
      if \<not> wcSupported ctx then refuse ''degraded'' (errKey errUnsupportedOSWrapper) h
      else case validatePortableMasterKey L masterKey of Some err \<Rightarrow> refuse ''locked'' err h
      | None \<Rightarrow>
          let h1 = h\<lparr>bMasterKey := trimSpace masterKey\<rparr>; (state, count, result) = validateStoreForKey L h1 in
          (case result of Some err \<Rightarrow> refuse state err h1
           | None \<Rightarrow>
               attempt (wrapMasterKeyWithProvider L P wrapperPath masterKey ctx (bNow h1) h1)
                 (\<lambda>err h2. refuse ''degraded'' err h2)
                 (\<lambda>wrapper h2.
                    ((emptyKeyResponse\<lparr>klServiceID := serviceID, klAPIVersion := apiVersion, klOutcome := ''ready'', klState := ''ready'',
                       klReady := True, klKeyID := lwKeyID wrapper, klKeyVersion := lwKeyVersion wrapper, klStorePath := kStorePath h,
                       klWrapperPath := wrapperPath, klWrapper := Some (wrapperDetail wrapper True ''ready'' []), klSecretCount := count,
                       klNextAction := ''operate_normally'',
                       klRecoveryGuidance := ''Keep the portable master key in secure offline storage; this wrapper is only for the current OS/user/machine.''\<rparr>,
                      None), audit_ignored L operation [] ''ready'' [] [] h2))))"

subsection \<open>Loading the key of a store\<close>

definition loadKeyMaterialWithWrapperWithProvider ::
  "'z golib_scheme \<Rightarrow> keyWrapperProvider \<Rightarrow> string \<Rightarrow> string \<Rightarrow> string \<Rightarrow> wrapperContext \<Rightarrow> 'm keyHost_scheme
    \<Rightarrow> (keyMaterial \<times> gerror option) \<times> 'm keyHost_scheme" where
  "loadKeyMaterialWithWrapperWithProvider L P flagValue filePath wrapperPath ctx h =
     (let (material, err) = loadKeyMaterial flagValue filePath h; wrapped = \<lparr>kmValue = [], kmSource = ''os-wrapper''\<rparr> in
      if err = None \<or> err \<noteq> Some errLocked \<or> wrapperPath = [] then ((material, err), h)
      else check (osCall h) (\<lambda>e h1. ((wrapped, Some e), h1))
        (\<lambda>h1. if map_of (kWrappers h1) wrapperPath = None then ((material, Some errLocked), h1)
           else attempt (unwrapMasterKeyWithProvider L P wrapperPath ctx h1)
             (\<lambda>e h2. if errorIs e errNotExist then ((material, Some errLocked), h2) else ((wrapped, Some e), h2))
             (\<lambda>plaintext h2. ((\<lparr>kmValue = plaintext, kmSource = ''os-wrapper''\<rparr>, None), h2))))"

definition rotationPendingWrapperPath :: "string \<Rightarrow> string" where
  "rotationPendingWrapperPath wrapperPath = wrapperPath @ ''.rotation-pending''"

text \<open>The key id of the store file; a file that cannot be decoded as a store is taken to have none that can be read.\<close>

definition readStoreKeyID :: "diskState \<Rightarrow> gerror + string" where
  "readStoreKeyID d =
     (case d of NoFile \<Rightarrow> Inl errNotExist | EmptyFile \<Rightarrow> Inl (errKey errInvalidWrapper) | Unreadable _ \<Rightarrow> Inl (errKey errInvalidWrapper)
      | Stored s \<Rightarrow> Inr (trimSpace (stKeyID s)))"

text \<open>A wrapper left by an interrupted rotation is discarded when the current wrapper matches the store, and promoted when it does.\<close>

definition discardPending ::
  "string \<Rightarrow> keyMaterial \<Rightarrow> 'm keyHost_scheme \<Rightarrow> (keyMaterial \<times> gerror option) \<times> 'm keyHost_scheme" where
  "discardPending pendingPath material h =
     (let failed = \<lparr>kmValue = [], kmSource = []\<rparr> in
      if map_of (kWrappers h) pendingPath = None then ((material, None), h)
      else check (osCall h) (\<lambda>_ h1. ((material, None), h1))
        (\<lambda>h1. check (osCall h1) (\<lambda>_ h2. ((failed, Some (errKey errWrapperAccess)), h2))
           (\<lambda>h2. check (osCall h2) (\<lambda>e h3. ((failed, Some e), h3))
              (\<lambda>h3. ((material, None), h3\<lparr>kWrappers := AList.delete pendingPath (kWrappers h3)\<rparr>)))))"

definition movePending :: "string \<Rightarrow> string \<Rightarrow> 'm keyHost_scheme \<Rightarrow> 'm keyHost_scheme" where
  "movePending pendingPath wrapperPath h =
     (case map_of (kWrappers h) pendingPath of None \<Rightarrow> h
      | Some w \<Rightarrow> h\<lparr>kWrappers := AList.update wrapperPath w (AList.delete pendingPath (kWrappers h))\<rparr>)"

definition promotePending ::
  "'z golib_scheme \<Rightarrow> keyWrapperProvider \<Rightarrow> string \<Rightarrow> string \<Rightarrow> wrapperContext \<Rightarrow> string \<Rightarrow> keyMaterial \<times> gerror option \<Rightarrow> 'm keyHost_scheme
    \<Rightarrow> (keyMaterial \<times> gerror option) \<times> 'm keyHost_scheme" where
  "promotePending L P pendingPath wrapperPath ctx storeKeyID loaded h =
     (let failed = \<lparr>kmValue = [], kmSource = []\<rparr> in
      attempt (unwrapMasterKeyWithProvider L P pendingPath ctx h)
        (\<lambda>_ h1. if snd loaded \<noteq> None then (loaded, h1) else ((failed, Some (errKey errInvalidWrapper)), h1))
        (\<lambda>pending h1.
           if masterKeyID L pending \<noteq> storeKeyID then ((failed, Some (errKey errInvalidWrapper)), h1)
           else check (osCall h1) (\<lambda>e h2. ((failed, Some e), h2))
             (\<lambda>h2. let h3 = movePending pendingPath wrapperPath h2 in
                check (osCall h3) (\<lambda>_ h4. ((failed, Some (errKey errWrapperAccess)), h4))
                  (\<lambda>h4. ((\<lparr>kmValue = pending, kmSource = ''os-wrapper-rotation-recovery''\<rparr>, None), h4)))))"

definition loadKeyMaterialForStoreWithProvider ::
  "'z golib_scheme \<Rightarrow> keyWrapperProvider \<Rightarrow> string \<Rightarrow> string \<Rightarrow> string \<Rightarrow> wrapperContext \<Rightarrow> 'm keyHost_scheme
    \<Rightarrow> (keyMaterial \<times> gerror option) \<times> 'm keyHost_scheme" where
  "loadKeyMaterialForStoreWithProvider L P flagValue filePath wrapperPath ctx h =
     (let first = loadKeyMaterialWithWrapperWithProvider L P flagValue filePath wrapperPath ctx h;
          loaded = fst first; h1 = snd first; failed = \<lparr>kmValue = [], kmSource = []\<rparr> in
      case readStoreKeyID (bDisk h1) of
        Inl e \<Rightarrow> if errorIs e errNotExist then (loaded, h1) else ((failed, Some e), h1)
      | Inr storeKeyID \<Rightarrow>
          if storeKeyID = [] then (loaded, h1)
          else
            let pendingPath = rotationPendingWrapperPath wrapperPath in
            if snd loaded = None \<and> masterKeyID L (kmValue (fst loaded)) = storeKeyID then discardPending pendingPath (fst loaded) h1
            else if trimSpace wrapperPath = [] then
              (if snd loaded \<noteq> None then (loaded, h1) else ((failed, Some (errKey errInvalidWrapper)), h1))
            else promotePending L P pendingPath wrapperPath ctx storeKeyID loaded h1)"

end
