(* ===== verification/Recovery_Shares.thy ===== *)
theory Recovery_Shares
  imports Shamir Recovery_Policy Key_Lifecycle
begin

text \<open>
  Recovery share files (\<open>recovery_shares.go\<close>): the master key is split into shares, each written to a file
  of its own, in the clear or sealed to an age recipient, and the policy is enrolled; importing reads
  threshold-many files, checks them against each other, recombines the key and writes a wrapper.

  \<open>agelib\<close> adds the functions of the third-party package \<open>filippo.io/age\<close> that the code calls: whether a recipient
  or an identity parses, encryption to a recipient and decryption with a list of identities.
  \<open>shareHost\<close> adds the share files, the files with recipients or identities and the random bytes for the
  coefficients. A share file is what a strict JSON decoder makes of it, or the reason it cannot be read.
\<close>

subsection \<open>Data\<close>

record recoveryShareEnvelope =
  evFormat :: string
  evRecipientFingerprint :: string
  evCiphertext :: string

record recoveryShareFile =
  shVersion :: int
  shServiceID :: string
  shAPIVersion :: string
  shPolicyID :: string
  shKeyID :: string
  shKeyVersion :: string
  shThreshold :: int
  shShareCount :: int
  shShareIndex :: int
  shAlg :: string
  shShare :: string
  shEnvelope :: "recoveryShareEnvelope option"
  shShareFingerprint :: string
  shCreatedAt :: time

record recoveryShareGenerateRequest =
  rgPolicyID :: string
  rgThreshold :: int
  rgOutputs :: "string list"
  rgAgeRecipients :: "string list"
  rgAgeRecipientFiles :: "string list"
  rgServiceID :: string
  rgRequestID :: string

record recoveryShareImportRequest =
  iqInputs :: "string list"
  iqAgeIdentities :: "string list"
  iqAgeIdentityFiles :: "string list"
  iqWrapperPath :: string
  iqOS :: string
  iqServiceID :: string
  iqRequestID :: string

record recoveryShareFileMetadata =
  fmShareIndex :: int
  fmPath :: string
  fmShareFingerprint :: string
  fmEnvelopeFormat :: string
  fmRecipientFingerprint :: string

record recoveryShareOperationResponse =
  soServiceID :: string
  soAPIVersion :: string
  soOutcome :: string
  soKeyID :: string
  soKeyVersion :: string
  soPolicy :: "recoveryPolicyMetadata option"
  soShares :: "recoveryShareFileMetadata list"
  soStorePath :: string
  soWrapperPath :: string
  soWrapper :: "wrapperStatusDetail option"
  soSecretCount :: int
  soNextAction :: string
  soAuditStatus :: string

datatype shareDisk = ShareUnreadable gerror | ShareMalformed | ShareFile recoveryShareFile

record shareHost = keyHost +
  sShares :: "shareDisk gomap"
  sAgeFiles :: "keyFile gomap"
  sEntropy :: "u8 list"

record agelib = golib +
  ageRecipientOk :: "string \<Rightarrow> bool"
  ageIdentityOk :: "string \<Rightarrow> bool"
  ageEncrypt :: "string \<Rightarrow> string \<Rightarrow> string option"
  ageDecrypt :: "string list \<Rightarrow> string \<Rightarrow> string option"

definition recoveryShareVersion :: int where "recoveryShareVersion = 1"
definition recoveryShareAlg :: string where "recoveryShareAlg = ''shamir-gf256-v1''"
definition recoveryShareEnvelopeAgeX25519V1 :: string where "recoveryShareEnvelopeAgeX25519V1 = ''age-x25519-v1''"

definition toBytes :: "string \<Rightarrow> u8 list" where "toBytes = map (\<lambda>c. of_nat (of_char c))"
definition ofBytes :: "u8 list \<Rightarrow> string" where "ofBytes = map (\<lambda>w. char_of (unat w))"

subsection \<open>Share files\<close>

definition recoveryShareFingerprint :: "'z golib_scheme \<Rightarrow> string \<Rightarrow> string \<Rightarrow> int \<Rightarrow> string \<Rightarrow> string" where
  "recoveryShareFingerprint L policyID keyID shareIndex encodedShare =
     ''share-'' @ take 16 (hexEncode (sha256 L (joinWith ''|'' [policyID, keyID, itoa shareIndex, encodedShare])))"

definition ageRecipientFingerprint :: "'z golib_scheme \<Rightarrow> string \<Rightarrow> string" where
  "ageRecipientFingerprint L recipient = ''age-'' @ take 16 (hexEncode (sha256 L (trimSpace recipient)))"

definition validateRecoveryShareEnvelope :: "recoveryShareEnvelope \<Rightarrow> gerror option" where
  "validateRecoveryShareEnvelope e =
     (if evFormat e \<noteq> recoveryShareEnvelopeAgeX25519V1 then Some errInvalidRecoveryShare
      else if \<not> validSafeMetadataID (evRecipientFingerprint e) \<or> trimSpace (evCiphertext e) = [] then Some errInvalidRecoveryShare
      else None)"

definition validateRecoveryShareHeader :: "recoveryShareFile \<Rightarrow> gerror option" where
  "validateRecoveryShareHeader f =
     (if shVersion f \<noteq> recoveryShareVersion \<or> shServiceID f \<noteq> serviceID \<or> shAPIVersion f \<noteq> apiVersion \<or> shAlg f \<noteq> recoveryShareAlg
      then Some errInvalidRecoveryShare
      else if \<not> validSafeMetadataID (shPolicyID f) \<or> \<not> validSafeMetadataID (shKeyID f) \<or> \<not> validSafeMetadataID (shKeyVersion f)
        \<or> \<not> validSafeMetadataID (shShareFingerprint f) then Some errInvalidRecoveryShare
      else if shThreshold f < 1 \<or> shShareCount f < 1 \<or> shThreshold f > shShareCount f \<or> shShareCount f > 255 \<or> shShareIndex f < 1
        \<or> shShareIndex f > shShareCount f then Some errInvalidRecoveryShare
      else if (trimSpace (shShare f) \<noteq> []) = (shEnvelope f \<noteq> None) \<or> shCreatedAt f = 0 then Some errInvalidRecoveryShare
      else case shEnvelope f of None \<Rightarrow> None
      | Some e \<Rightarrow> if validateRecoveryShareEnvelope e \<noteq> None then Some errInvalidRecoveryShare else None)"

definition recoverySharePlaintext :: "'z agelib_scheme \<Rightarrow> recoveryShareFile \<Rightarrow> string list \<Rightarrow> gerror + string" where
  "recoverySharePlaintext L f identities =
     (if trimSpace (shShare f) \<noteq> [] then Inr (shShare f)
      else case shEnvelope f of None \<Rightarrow> Inl errInvalidRecoveryShare
      | Some e \<Rightarrow>
          if validateRecoveryShareEnvelope e \<noteq> None \<or> identities = [] then Inl errInvalidRecoveryShare
          else case b64RawURLDecode L (evCiphertext e) of None \<Rightarrow> Inl errInvalidRecoveryShare
          | Some ciphertext \<Rightarrow>
              if ciphertext = [] then Inl errInvalidRecoveryShare
              else case ageDecrypt L identities ciphertext of None \<Rightarrow> Inl errInvalidRecoveryShare
              | Some plaintext \<Rightarrow> if take 65536 plaintext = [] then Inl errInvalidRecoveryShare else Inr (trimSpace (take 65536 plaintext)))"

definition writeRecoveryShareFile :: "string \<Rightarrow> recoveryShareFile \<Rightarrow> 'm shareHost_scheme \<Rightarrow> gerror option \<times> 'm shareHost_scheme" where
  "writeRecoveryShareFile path0 share h =
     (let path = trimSpace path0 in
      if path = [] then (Some errRecoveryShareOutputRequired, h)
      else check (osCall h) (\<lambda>e h1. (Some e, h1))
        (\<lambda>h1. if map_of (sShares h1) path \<noteq> None then (Some (errKey errLifecycleConflict), h1)
           else osCall (h1\<lparr>sShares := AList.update path (ShareFile share) (sShares h1)\<rparr>)))"

definition readRecoveryShareFile :: "string \<Rightarrow> 'm shareHost_scheme \<Rightarrow> (gerror + recoveryShareFile) \<times> 'm shareHost_scheme" where
  "readRecoveryShareFile path h =
     check (osCall h) (\<lambda>e h1. (Inl e, h1))
       (\<lambda>h1. (case map_of (sShares h1) (trimSpace path) of
            None \<Rightarrow> Inl errNotExist
          | Some (ShareUnreadable e) \<Rightarrow> Inl e
          | Some ShareMalformed \<Rightarrow> Inl errInvalidRecoveryShare
          | Some (ShareFile f) \<Rightarrow> (case validateRecoveryShareHeader f of Some err \<Rightarrow> Inl err | None \<Rightarrow> Inr f), h1))"

fun validateShares ::
  "'z agelib_scheme \<Rightarrow> recoveryShareFile \<Rightarrow> string list \<Rightarrow> int list \<Rightarrow> recoveryShareFile list \<Rightarrow> gerror + recoverySharePoint list" where
  "validateShares L header identities seen [] = Inr []"
| "validateShares L header identities seen (f # fs) =
     (case validateRecoveryShareHeader f of Some err \<Rightarrow> Inl err
      | None \<Rightarrow>
          if shPolicyID f \<noteq> shPolicyID header \<or> shKeyID f \<noteq> shKeyID header \<or> shKeyVersion f \<noteq> shKeyVersion header
             \<or> shThreshold f \<noteq> shThreshold header \<or> shShareCount f \<noteq> shShareCount header then Inl errInvalidRecoveryShare
          else if shShareIndex f \<in> set seen then Inl errInvalidRecoveryShare
          else case recoverySharePlaintext L f identities of Inl err \<Rightarrow> Inl err
          | Inr encodedShare \<Rightarrow> (case b64RawURLDecode L encodedShare of None \<Rightarrow> Inl errInvalidRecoveryShare
              | Some shareValue \<Rightarrow>
                  if shareValue = [] then Inl errInvalidRecoveryShare
                  else if recoveryShareFingerprint L (shPolicyID f) (shKeyID f) (shShareIndex f) encodedShare \<noteq> shShareFingerprint f
                  then Inl errInvalidRecoveryShare
                  else case validateShares L header identities (shShareIndex f # seen) fs of Inl err \<Rightarrow> Inl err
                  | Inr points \<Rightarrow> Inr (\<lparr>spIndex = shShareIndex f, spValue = toBytes shareValue\<rparr> # points)))"

definition validateRecoveryShareSet ::
  "'z agelib_scheme \<Rightarrow> recoveryShareFile list \<Rightarrow> string list \<Rightarrow> gerror + recoveryShareFile \<times> recoverySharePoint list" where
  "validateRecoveryShareSet L files identities =
     (case files of [] \<Rightarrow> Inl errInsufficientRecoveryShares
      | header # _ \<Rightarrow>
          (case validateRecoveryShareHeader header of Some err \<Rightarrow> Inl err
           | None \<Rightarrow> (case validateShares L header identities [] files of Inl err \<Rightarrow> Inl err | Inr points \<Rightarrow> Inr (header, points))))"

subsection \<open>Recipients and identities\<close>

fun ageFileStrings :: "keyFile gomap \<Rightarrow> string list \<Rightarrow> gerror + string list" where
  "ageFileStrings files [] = Inr []"
| "ageFileStrings files (path0 # paths) =
     (let path = trimSpace path0 in
      if path = [] then ageFileStrings files paths
      else case map_of files path of
        None \<Rightarrow> Inl errNotExist
      | Some (KeyFileUnreadable e) \<Rightarrow> Inl e
      | Some KeyFileTooLarge \<Rightarrow> Inl errIO
      | Some (KeyFileText t) \<Rightarrow>
          (case ageFileStrings files paths of Inl e \<Rightarrow> Inl e
           | Inr rest \<Rightarrow> Inr (filter (\<lambda>line. line \<noteq> [] \<and> \<not> hasPrefix line ''#'') (map trimSpace (splitOn (CHR 0x0A) t)) @ rest)))"

definition loadAgeStrings :: "string list \<Rightarrow> string list \<Rightarrow> 'm shareHost_scheme \<Rightarrow> gerror + string list" where
  "loadAgeStrings inlineValues files h =
     (case ageFileStrings (sAgeFiles h) files of Inl e \<Rightarrow> Inl e | Inr values \<Rightarrow> Inr (safeList inlineValues @ values))"

definition loadAgeRecipients ::
  "'z agelib_scheme \<Rightarrow> string list \<Rightarrow> string list \<Rightarrow> nat \<Rightarrow> 'm shareHost_scheme \<Rightarrow> gerror + (string \<times> string) list" where
  "loadAgeRecipients L inlineRecipients recipientFiles expectedCount h =
     (case loadAgeStrings inlineRecipients recipientFiles h of Inl e \<Rightarrow> Inl e
      | Inr specs \<Rightarrow>
          if specs = [] then Inr []
          else if length specs \<noteq> expectedCount then Inl errInvalidRecoveryPolicy
          else if list_all (ageRecipientOk L) specs then Inr (map (\<lambda>spec. (spec, ageRecipientFingerprint L spec)) specs)
          else Inl errInvalidRecoveryPolicy)"

definition loadAgeIdentities :: "'z agelib_scheme \<Rightarrow> string list \<Rightarrow> string list \<Rightarrow> 'm shareHost_scheme \<Rightarrow> gerror + string list" where
  "loadAgeIdentities L inlineIdentities identityFiles h =
     (case loadAgeStrings inlineIdentities identityFiles h of Inl e \<Rightarrow> Inl e
      | Inr specs \<Rightarrow> if list_all (ageIdentityOk L) specs then Inr specs else Inl errInvalidRecoveryShare)"

definition encryptAgeEnvelope :: "'z agelib_scheme \<Rightarrow> string \<Rightarrow> string \<Rightarrow> gerror + string" where
  "encryptAgeEnvelope L plaintext recipient =
     (case ageEncrypt L recipient plaintext of None \<Rightarrow> Inl errIO | Some sealed \<Rightarrow> Inr (b64RawURLEncode L sealed))"

subsection \<open>Generating shares\<close>

definition auditRecoveryShares ::
  "'z golib_scheme \<Rightarrow> string \<Rightarrow> string \<Rightarrow> string \<Rightarrow> string \<Rightarrow> string \<Rightarrow> 'm auditState_scheme \<Rightarrow> gerror option \<times> 'm auditState_scheme" where
  "auditRecoveryShares L operation policyID outcome requestServiceID requestID b =
     writeAuditEvent L (emptyAuditEvent\<lparr>aeTS := bNow b, aeOperation := operation, aePolicyID := policyID, aeOutcome := outcome,
       aeServiceID := requestServiceID, aeRequestID := requestID\<rparr>) b"

definition shareFileOf :: "'z golib_scheme \<Rightarrow> string \<Rightarrow> string \<Rightarrow> int \<Rightarrow> int \<Rightarrow> time \<Rightarrow> recoverySharePoint \<Rightarrow> recoveryShareFile" where
  "shareFileOf L policyID keyID needed count now share =
     (let encodedShare = b64RawURLEncode L (ofBytes (spValue share)) in
      \<lparr>shVersion = recoveryShareVersion, shServiceID = serviceID, shAPIVersion = apiVersion, shPolicyID = policyID, shKeyID = keyID,
       shKeyVersion = masterKeyVersion, shThreshold = needed, shShareCount = count, shShareIndex = spIndex share, shAlg = recoveryShareAlg,
       shShare = encodedShare, shEnvelope = None, shShareFingerprint = recoveryShareFingerprint L policyID keyID (spIndex share) encodedShare,
       shCreatedAt = now\<rparr>)"

definition sealShareFile :: "'z agelib_scheme \<Rightarrow> (string \<times> string) list \<Rightarrow> recoveryShareFile \<Rightarrow> gerror + recoveryShareFile" where
  "sealShareFile L recipients f =
     (case recipients of [] \<Rightarrow> Inr f
      | (recipient, fingerprint) # _ \<Rightarrow>
          (case encryptAgeEnvelope L (shShare f) recipient of Inl e \<Rightarrow> Inl e
           | Inr ciphertext \<Rightarrow> Inr (f\<lparr>shShare := [], shEnvelope := Some \<lparr>evFormat = recoveryShareEnvelopeAgeX25519V1,
               evRecipientFingerprint = fingerprint, evCiphertext = ciphertext\<rparr>\<rparr>)))"

text \<open>The recipients are none or one for each share, in order.\<close>

fun sealShareFiles :: "'z agelib_scheme \<Rightarrow> (string \<times> string) list \<Rightarrow> recoveryShareFile list \<Rightarrow> gerror + recoveryShareFile list" where
  "sealShareFiles L recipients [] = Inr []"
| "sealShareFiles L recipients (f # fs) =
     (case sealShareFile L recipients f of Inl e \<Rightarrow> Inl e
      | Inr g \<Rightarrow> (case sealShareFiles L (tl recipients) fs of Inl e \<Rightarrow> Inl e | Inr gs \<Rightarrow> Inr (g # gs)))"

definition shareMetadata :: "string \<Rightarrow> recoveryShareFile \<Rightarrow> recoveryShareFileMetadata" where
  "shareMetadata path f =
     \<lparr>fmShareIndex = shShareIndex f, fmPath = path, fmShareFingerprint = shShareFingerprint f,
      fmEnvelopeFormat = (case shEnvelope f of None \<Rightarrow> [] | Some e \<Rightarrow> evFormat e),
      fmRecipientFingerprint = (case shEnvelope f of None \<Rightarrow> [] | Some e \<Rightarrow> evRecipientFingerprint e)\<rparr>"

fun writeShareFiles :: "(string \<times> recoveryShareFile) list \<Rightarrow> 'm shareHost_scheme \<Rightarrow> gerror option \<times> 'm shareHost_scheme" where
  "writeShareFiles [] h = (None, h)"
| "writeShareFiles ((path, f) # rest) h = check (writeRecoveryShareFile path f h) (\<lambda>e h1. (Some e, h1)) (writeShareFiles rest)"

definition shareResponse :: "string \<Rightarrow> string \<Rightarrow> 'm keyHost_scheme \<Rightarrow> recoveryShareOperationResponse" where
  "shareResponse outcome nextAction h =
     \<lparr>soServiceID = serviceID, soAPIVersion = apiVersion, soOutcome = outcome, soKeyID = [], soKeyVersion = [], soPolicy = None, soShares = [],
      soStorePath = kStorePath h, soWrapperPath = [], soWrapper = None, soSecretCount = 0, soNextAction = nextAction, soAuditStatus = ''audit_recorded''\<rparr>"

definition sharePolicyID :: "recoveryShareGenerateRequest \<Rightarrow> string \<Rightarrow> string" where
  "sharePolicyID req keyID = (if scrubAuditField (rgPolicyID req) = [] then ''recovery-'' @ keyID else scrubAuditField (rgPolicyID req))"

definition sharePolicyRequest ::
  "recoveryShareGenerateRequest \<Rightarrow> string \<Rightarrow> string \<Rightarrow> recoveryShareFile list \<Rightarrow> string list \<Rightarrow> time \<Rightarrow> recoveryPolicyRequest" where
  "sharePolicyRequest req policyID keyID files recipientFingerprints now =
     \<lparr>pqRequestID = rgRequestID req, pqServiceID = rgServiceID req, pqPolicyID = policyID, pqKeyID = keyID, pqKeyVersion = masterKeyVersion,
      pqThreshold = rgThreshold req, pqShareCount = int (length files), pqShareFingerprints = map shShareFingerprint files,
      pqRecipientFingerprints = recipientFingerprints, pqCreatedAt = Some now, pqRotatedAt = None, pqRevokedAt = None, pqStatus = ''active''\<rparr>"

type_synonym 'm shareResult = "(recoveryShareOperationResponse \<times> gerror option) \<times> 'm"

text \<open>The shares were made: they are sealed, checked against the policy, written, and the policy is enrolled.\<close>

definition publishShares ::
  "'z agelib_scheme \<Rightarrow> recoveryShareGenerateRequest \<Rightarrow> string list \<Rightarrow> int \<Rightarrow> (string \<times> string) list \<Rightarrow> recoverySharePoint list
    \<Rightarrow> 'm shareHost_scheme \<Rightarrow> 'm shareHost_scheme shareResult" where
  "publishShares L req outputs secretCount recipients shares h =
     (let keyID = masterKeyID L (bMasterKey h);
          policyID = sharePolicyID req keyID;
          res = shareResponse ''degraded'' ''inspect_recovery_share_generation'' h;
          fail = (\<lambda>outcome res1 err h1. ((res1, Some err),
            snd (auditRecoveryShares L ''recovery_share_generate'' policyID outcome (rgServiceID req) (rgRequestID req) h1)));
          plain = map (shareFileOf L policyID keyID (rgThreshold req) (int (length shares)) (bNow h)) shares in
      case sealShareFiles L recipients plain of
        Inl err \<Rightarrow> fail ''degraded'' (res\<lparr>soNextAction := ''retry_recovery_share_envelope_generation''\<rparr>) err h
      | Inr files \<Rightarrow>
          let policy = sharePolicyRequest req policyID keyID files (map snd recipients) (bNow h) in
          (case normalizeRecoveryPolicyRequest policy (bNow h) of
             Inl err \<Rightarrow> fail ''policy_denied'' (res\<lparr>soOutcome := ''policy_denied'', soNextAction := ''provide_valid_recovery_policy_metadata''\<rparr>) err h
           | Inr _ \<Rightarrow>
               check (writeShareFiles (zip outputs files) h)
                 (\<lambda>err h1. fail ''degraded'' (res\<lparr>soNextAction := ''inspect_recovery_share_output_targets''\<rparr>) err h1)
                 (\<lambda>h1.
                    let enrolled = upsertRecoveryPolicy L policy h1 in
                    (case snd (fst enrolled) of Some err \<Rightarrow> fail ''degraded'' res err (snd enrolled)
                     | None \<Rightarrow>
                         ((res\<lparr>soOutcome := ''ready'', soKeyID := keyID, soKeyVersion := masterKeyVersion, soPolicy := psPolicy (fst (fst enrolled)),
                             soShares := map2 shareMetadata outputs files, soSecretCount := secretCount,
                             soNextAction := ''store_recovery_shares_separately_and_verify_recovery_import''\<rparr>, None),
                          snd (auditRecoveryShares L ''recovery_share_generate'' policyID ''ready'' (rgServiceID req) (rgRequestID req) (snd enrolled)))))))"

definition generateRecoveryShares ::
  "'z agelib_scheme \<Rightarrow> recoveryShareGenerateRequest \<Rightarrow> 'm shareHost_scheme \<Rightarrow> 'm shareHost_scheme shareResult" where
  "generateRecoveryShares L req h =
     (let res = shareResponse ''degraded'' ''inspect_recovery_share_generation'' h;
          fail = (\<lambda>outcome res1 err h1. ((res1, Some err),
            snd (auditRecoveryShares L ''recovery_share_generate'' [] outcome (rgServiceID req) (rgRequestID req) h1))) in
      case validatePortableMasterKey L (bMasterKey h) of
        Some err \<Rightarrow> fail ''locked'' (res\<lparr>soOutcome := ''locked'', soNextAction := ''provide_portable_master_key''\<rparr>) err h
      | None \<Rightarrow>
          let h1 = h\<lparr>bMasterKey := trimSpace (bMasterKey h)\<rparr>; (state, secretCount, result) = validateStoreForKey L h1;
              outputs = safeList (rgOutputs req);
              denied = (\<lambda>nextAction err. fail ''policy_denied'' (res\<lparr>soOutcome := ''policy_denied'', soNextAction := nextAction\<rparr>) err h1) in
          (case result of
             Some err \<Rightarrow> fail state (res\<lparr>soOutcome := state, soSecretCount := secretCount, soNextAction := ''verify_store_before_recovery_enrollment''\<rparr>) err h1
           | None \<Rightarrow>
               if outputs = [] then denied ''provide_explicit_share_output_targets'' errRecoveryShareOutputRequired
               else if hasDuplicate outputs then denied ''provide_unique_share_output_targets'' errRecoveryShareOutputRequired
               else if rgThreshold req < 1 \<or> rgThreshold req > int (length outputs) \<or> length outputs > 255 then
                 denied ''provide_valid_threshold_and_share_count'' errInvalidRecoveryPolicy
               else (case b64RawURLDecode L (bMasterKey h1) of
                   None \<Rightarrow> fail ''locked'' (res\<lparr>soOutcome := ''locked'', soNextAction := ''provide_valid_portable_master_key''\<rparr>) errInvalidMasterKey h1
                 | Some keyBytes \<Rightarrow>
                     if length keyBytes \<noteq> 32 then
                       fail ''locked'' (res\<lparr>soOutcome := ''locked'', soNextAction := ''provide_valid_portable_master_key''\<rparr>) errInvalidMasterKey h1
                     else (case splitSecretGF256 (toBytes keyBytes) (rgThreshold req) (int (length outputs)) (sEntropy h1) of
                         Inl err \<Rightarrow> fail ''degraded'' (res\<lparr>soNextAction := ''retry_recovery_share_generation''\<rparr>) err h1
                       | Inr shares \<Rightarrow>
                           (case loadAgeRecipients L (rgAgeRecipients req) (rgAgeRecipientFiles req) (length outputs) h1 of
                              Inl err \<Rightarrow> denied ''provide_valid_age_recipients'' err
                            | Inr recipients \<Rightarrow> publishShares L req outputs secretCount recipients shares h1)))))"

subsection \<open>Importing shares\<close>

fun readShareFiles :: "string list \<Rightarrow> 'm shareHost_scheme \<Rightarrow> (gerror + recoveryShareFile list) \<times> 'm shareHost_scheme" where
  "readShareFiles [] h = (Inr [], h)"
| "readShareFiles (path # paths) h =
     attempt (readRecoveryShareFile path h) (\<lambda>e h1. (Inl e, h1))
       (\<lambda>f h1. attempt (readShareFiles paths h1) (\<lambda>e h2. (Inl e, h2)) (\<lambda>fs h2. (Inr (f # fs), h2)))"

text \<open>The key was recombined: it is checked against the header and the store, and wrapped.\<close>

definition adoptRecoveredKey ::
  "'z agelib_scheme \<Rightarrow> keyWrapperProvider \<Rightarrow> wrapperContext \<Rightarrow> recoveryShareImportRequest \<Rightarrow> recoveryShareFile \<Rightarrow> recoveryShareOperationResponse
    \<Rightarrow> string \<Rightarrow> 'm shareHost_scheme \<Rightarrow> 'm shareHost_scheme shareResult" where
  "adoptRecoveredKey L P ctx req header res recoveredKey h =
     (let done = (\<lambda>outcome res1 err h1. ((res1, err),
            snd (auditRecoveryShares L ''recovery_share_import'' (shPolicyID header) outcome (iqServiceID req) (iqRequestID req) h1))) in
      case validatePortableMasterKey L recoveredKey of
        Some err \<Rightarrow> done ''locked'' (res\<lparr>soNextAction := ''provide_valid_threshold_recovery_shares''\<rparr>) (Some err) h
      | None \<Rightarrow>
          if masterKeyID L recoveredKey \<noteq> shKeyID header then
            done ''locked'' (res\<lparr>soNextAction := ''provide_recovery_shares_for_matching_key''\<rparr>) (Some errRecoveryKeyMismatch) h
          else if \<not> wcSupported ctx then
            done ''degraded'' (res\<lparr>soOutcome := ''degraded'', soNextAction := ''use_portable_key_unlock_until_wrapper_supported''\<rparr>)
              (Some (errKey errUnsupportedOSWrapper)) h
          else
            let h1 = h\<lparr>bMasterKey := recoveredKey\<rparr>; (state, secretCount, result) = validateStoreForKey L h1;
                res1 = res\<lparr>soSecretCount := secretCount\<rparr> in
            (case result of
               Some err \<Rightarrow> done state (res1\<lparr>soOutcome := state, soNextAction := ''inspect_store_before_wrapper_refresh''\<rparr>) (Some err) h1
             | None \<Rightarrow>
                 attempt (wrapMasterKeyWithProvider L P (iqWrapperPath req) recoveredKey ctx (bNow h1) h1)
                   (\<lambda>err h2. done ''degraded'' (res1\<lparr>soOutcome := ''degraded'', soNextAction := ''inspect_wrapper_output_target''\<rparr>) (Some err) h2)
                   (\<lambda>wrapper h2. done ''ready'' (res1\<lparr>soOutcome := ''ready'', soKeyID := lwKeyID wrapper, soKeyVersion := lwKeyVersion wrapper,
                      soWrapper := Some (wrapperDetail wrapper True ''ready'' []), soNextAction := ''operate_normally''\<rparr>) None h2)))"

definition importRecoverySharesWithProvider ::
  "'z agelib_scheme \<Rightarrow> keyWrapperProvider \<Rightarrow> wrapperContext \<Rightarrow> recoveryShareImportRequest \<Rightarrow> 'm shareHost_scheme \<Rightarrow> 'm shareHost_scheme shareResult" where
  "importRecoverySharesWithProvider L P ctx req h =
     (let res = (shareResponse ''locked'' ''provide_threshold_recovery_shares'' h)\<lparr>soWrapperPath := iqWrapperPath req\<rparr>;
          inputs = safeList (iqInputs req);
          fail = (\<lambda>policyID res1 err h1. ((res1, Some err),
            snd (auditRecoveryShares L ''recovery_share_import'' policyID ''locked'' (iqServiceID req) (iqRequestID req) h1))) in
      if inputs = [] then fail [] res errInsufficientRecoveryShares h
      else case loadAgeIdentities L (iqAgeIdentities req) (iqAgeIdentityFiles req) h of
        Inl err \<Rightarrow> fail [] (res\<lparr>soNextAction := ''provide_valid_age_identities''\<rparr>) err h
      | Inr identities \<Rightarrow>
          attempt (readShareFiles inputs h)
            (\<lambda>err h1. fail [] (res\<lparr>soNextAction := ''inspect_recovery_share_files''\<rparr>) err h1)
            (\<lambda>files h1.
               let metadata = map2 shareMetadata inputs files in
               (case validateRecoveryShareSet L files identities of
                  Inl err \<Rightarrow> fail [] (res\<lparr>soShares := metadata, soNextAction := ''provide_valid_threshold_recovery_shares''\<rparr>) err h1
                | Inr (header, points) \<Rightarrow>
                    let res1 = res\<lparr>soKeyID := shKeyID header, soKeyVersion := shKeyVersion header, soShares := metadata\<rparr> in
                    if int (length points) < shThreshold header then
                      fail (shPolicyID header) (res1\<lparr>soNextAction := ''provide_configured_threshold_number_of_shares''\<rparr>) errInsufficientRecoveryShares h1
                    else (case combineSecretGF256 (take (nat (shThreshold header)) points) of
                        Inl err \<Rightarrow> fail (shPolicyID header) (res1\<lparr>soNextAction := ''provide_valid_threshold_recovery_shares''\<rparr>) err h1
                      | Inr recovered \<Rightarrow> adoptRecoveredKey L P ctx req header res1 (b64RawURLEncode L (ofBytes recovered)) h1))))"

definition importRecoveryShares ::
  "'z agelib_scheme \<Rightarrow> keyWrapperProvider \<Rightarrow> platform \<Rightarrow> recoveryShareImportRequest \<Rightarrow> 'm shareHost_scheme \<Rightarrow> 'm shareHost_scheme shareResult" where
  "importRecoveryShares L P pt req h = importRecoverySharesWithProvider L P (wrapperContextFor pt (iqOS req)) req h"

end
