(* ===== verification/Backup_Restore.thy ===== *)
theory Backup_Restore
  imports Key_Lifecycle KV_History
begin

text \<open>
  Master key rotation, backup and restore (\<open>backup_restore.go\<close>). Rotation re-encrypts every payload the
  store holds (secrets, their key-value history, tombstones, staged and retained rotation versions)
  under the new key before the file is replaced. Go visits the maps in any order; the order decides
  only which nonce a payload gets and which error is reported first, and the model takes the order
  of the association lists.

  \<open>backuplib\<close> adds \<open>artifactJSON\<close>, the \<open>json.Marshal\<close> of an artifact, to the library functions. A backup
  file is what \<open>json.Unmarshal\<close> makes of it, or the reason it cannot be read; a file whose store has no
  \<open>secrets\<close> object counts as malformed. \<open>os.WriteFile\<close> is not atomic: when it fails after opening the
  file, what is left is malformed.
\<close>

subsection \<open>Visiting every payload of a store\<close>

type_synonym ('a, 's) visitor = "'a \<Rightarrow> 's \<Rightarrow> (gerror + 'a) \<times> 's"

fun visitAll :: "('a, 's) visitor \<Rightarrow> ('a list, 's) visitor" where
  "visitAll f [] st = (Inr [], st)"
| "visitAll f (x # xs) st =
     attempt (f x st) (\<lambda>e st1. (Inl e, st1))
       (\<lambda>y st1. attempt (visitAll f xs st1) (\<lambda>e st2. (Inl e, st2)) (\<lambda>ys st2. (Inr (y # ys), st2)))"

definition visitPart :: "('w \<Rightarrow> 'p) \<Rightarrow> (('p \<Rightarrow> 'p) \<Rightarrow> 'w \<Rightarrow> 'w) \<Rightarrow> ('p, 's) visitor \<Rightarrow> ('w, 's) visitor" where
  "visitPart get upd f w st = attempt (f (get w) st) (\<lambda>e st1. (Inl e, st1)) (\<lambda>p st1. (Inr (upd (\<lambda>_. p) w), st1))"

definition visitMap :: "('a, 's) visitor \<Rightarrow> ('a gomap, 's) visitor" where
  "visitMap f = visitAll (visitPart snd apsnd f)"

definition emptyPayload :: secretPayload where
  "emptyPayload = \<lparr>spAlg = [], spKeyID = [], spKeyVersion = [], spNonce = [], spCiphertext = []\<rparr>"

definition visitVersion :: "(secretPayload, 's) visitor \<Rightarrow> (kvVersionRecord, 's) visitor" where
  "visitVersion visit v st =
     (if krDestroyed v \<and> krPayload v = emptyPayload then (Inr v, st) else visitPart krPayload krPayload_update visit v st)"

definition visitHistory :: "(secretPayload, 's) visitor \<Rightarrow> (kvSecretState option, 's) visitor" where
  "visitHistory visit kv st =
     (case kv of None \<Rightarrow> (Inr None, st)
      | Some state \<Rightarrow> attempt (visitPart ksVersions ksVersions_update (visitAll (visitVersion visit)) state st)
          (\<lambda>e st1. (Inl e, st1)) (\<lambda>state' st1. (Inr (Some state'), st1)))"

definition visitEntry :: "(secretPayload, 's) visitor \<Rightarrow> (secretEntry, 's) visitor" where
  "visitEntry visit entry st =
     attempt (visitPart sePayload sePayload_update visit entry st) (\<lambda>e st1. (Inl e, st1))
       (\<lambda>entry1 st1. visitPart seKV seKV_update (visitHistory visit) entry1 st1)"

definition visitLedger :: "(secretPayload, 's) visitor \<Rightarrow> (rotationLedger, 's) visitor" where
  "visitLedger visit ledger st =
     attempt (visitPart rlStaged rlStaged_update (visitMap (visitPart rvPayload rvPayload_update visit)) ledger st) (\<lambda>e st1. (Inl e, st1))
       (\<lambda>ledger1 st1. visitPart rlRetained rlRetained_update (visitMap (visitPart rvPayload rvPayload_update visit)) ledger1 st1)"

definition visitStorePayloads :: "(secretPayload, 's) visitor \<Rightarrow> (localStoreFile, 's) visitor" where
  "visitStorePayloads visit store st =
     attempt (visitPart stSecrets stSecrets_update (visitMap (visitEntry visit)) store st) (\<lambda>e st1. (Inl e, st1))
       (\<lambda>store1 st1.
          attempt (visitPart stTombstones stTombstones_update (visitMap (visitPart tsEntry tsEntry_update (visitEntry visit))) store1 st1)
            (\<lambda>e st2. (Inl e, st2))
            (\<lambda>store2 st2. visitPart stRotations stRotations_update (visitMap (visitLedger visit)) store2 st2))"

definition verifyStoreDecryptable :: "'z golib_scheme \<Rightarrow> localStoreFile \<Rightarrow> 'm backend_scheme \<Rightarrow> gerror option" where
  "verifyStoreDecryptable L store b =
     (case fst (visitStorePayloads (\<lambda>p st. (case decrypt L b p of Inl e \<Rightarrow> Inl e | Inr _ \<Rightarrow> Inr p, st)) store ()) of
        Inl e \<Rightarrow> Some e | Inr _ \<Rightarrow> None)"

subsection \<open>Master key rotation\<close>

record keyRotateResponse =
  rkServiceID :: string
  rkAPIVersion :: string
  rkOutcome :: string
  rkRotatedAt :: time
  rkOldKeyID :: string
  rkNewKeyID :: string
  rkStoreKeyVersion :: string
  rkSecretCount :: int

definition emptyRotateResponse :: keyRotateResponse where
  "emptyRotateResponse = \<lparr>rkServiceID = [], rkAPIVersion = [], rkOutcome = [], rkRotatedAt = 0, rkOldKeyID = [], rkNewKeyID = [],
     rkStoreKeyVersion = [], rkSecretCount = 0\<rparr>"

definition reencrypt :: "'z golib_scheme \<Rightarrow> string \<Rightarrow> (secretPayload, 'm backend_scheme) visitor" where
  "reencrypt L newMasterKey p b =
     (case decrypt L b p of Inl _ \<Rightarrow> (Inl (errKey errInvalidBackupKey), b) | Inr value \<Rightarrow> encryptWithMasterKey L newMasterKey value b)"

definition touchEntry :: "time \<Rightarrow> secretEntry \<Rightarrow> secretEntry" where
  "touchEntry now = seMetadata_update (smUpdatedAt_update (\<lambda>_. now))"

definition rekeyedStore :: "'z golib_scheme \<Rightarrow> string \<Rightarrow> lifecycleOperationReceipt option \<Rightarrow> time \<Rightarrow> localStoreFile \<Rightarrow> localStoreFile" where
  "rekeyedStore L newMasterKey receipt now store =
     store\<lparr>stSecrets := map (apsnd (touchEntry now)) (stSecrets store),
       stTombstones := map (apsnd (tsEntry_update (touchEntry now))) (stTombstones store),
       stKeyID := masterKeyID L newMasterKey, stKeyVersion := masterKeyVersion, stUpdatedAt := now,
       stLifecycleOps := (case receipt of None \<Rightarrow> stLifecycleOps store | Some r \<Rightarrow> AList.update (loOperationID r) r (stLifecycleOps store))\<rparr>"

type_synonym 'm saver = "localStoreFile \<Rightarrow> 'm \<Rightarrow> gerror option \<times> 'm"

definition rotateMasterKeyAndSave ::
  "'z golib_scheme \<Rightarrow> string \<Rightarrow> lifecycleOperationReceipt option \<Rightarrow> 'm backend_scheme saver \<Rightarrow> 'm backend_scheme
    \<Rightarrow> (keyRotateResponse \<times> gerror option) \<times> 'm backend_scheme" where
  "rotateMasterKeyAndSave L newMasterKey0 receipt save b =
     (let newMasterKey = trimSpace newMasterKey0;
          refuse = (\<lambda>outcome err b1. ((emptyRotateResponse, Some err), audit_ignored L ''key_rotate'' [] outcome [] [] b1)) in
      if newMasterKey = [] then ((emptyRotateResponse, Some (errKey errMissingNewMasterKey)), b)
      else if isLocked b then refuse ''locked'' errLocked b
      else case loadStore b of Inl _ \<Rightarrow> refuse ''degraded'' errBackendDegraded b
      | Inr store \<Rightarrow>
          attempt (visitStorePayloads (reencrypt L newMasterKey) store b) (\<lambda>err b1. refuse ''degraded'' err b1)
            (\<lambda>staged b1.
               let store' = rekeyedStore L newMasterKey receipt (bNow b1) staged in
               check (save store' b1)
                 (\<lambda>err b2. refuse ''degraded'' (errWrapped errBackendDegraded err)
                    (if privateFileWasPublished err then b2\<lparr>bMasterKey := newMasterKey\<rparr> else b2))
                 (\<lambda>b2. ((\<lparr>rkServiceID = serviceID, rkAPIVersion = apiVersion, rkOutcome = ''ready'', rkRotatedAt = bNow b2,
                          rkOldKeyID = masterKeyID L (bMasterKey b), rkNewKeyID = masterKeyID L newMasterKey,
                          rkStoreKeyVersion = masterKeyVersion, rkSecretCount = int (length (stSecrets store'))\<rparr>, None),
                        audit_ignored L ''key_rotate'' [] ''ready'' [] [] (b2\<lparr>bMasterKey := newMasterKey\<rparr>)))))"

definition rotateMasterKey ::
  "'z golib_scheme \<Rightarrow> string \<Rightarrow> 'm backend_scheme \<Rightarrow> (keyRotateResponse \<times> gerror option) \<times> 'm backend_scheme" where
  "rotateMasterKey L newMasterKey b = rotateMasterKeyAndSave L newMasterKey None saveStore b"

subsection \<open>Backup artifacts\<close>

record backupArtifact =
  baVersion :: int
  baServiceID :: string
  baAPIVersion :: string
  baCreatedAt :: time
  baStoreKeyID :: string
  baStoreKeyVersion :: string
  baSecretCount :: int
  baStore :: localStoreFile
  baIntegrity :: string

datatype backupFile = BackupUnreadable gerror | BackupMalformed | BackupFile backupArtifact

record vaultHost = keyHost +
  vBackupRoot :: string
  vWorkDir :: string
  vBackups :: "backupFile gomap"

record backuplib = golib +
  artifactJSON :: "backupArtifact \<Rightarrow> string"

record backupCreateResponse =
  bcServiceID :: string
  bcAPIVersion :: string
  bcOutcome :: string
  bcPath :: string
  bcCreatedAt :: time
  bcStoreKeyID :: string
  bcStoreKeyVersion :: string
  bcSecretCount :: int
  bcWarning :: string

record backupRestoreResponse =
  bsServiceID :: string
  bsAPIVersion :: string
  bsOutcome :: string
  bsPath :: string
  bsRestoredAt :: time
  bsStoreKeyID :: string
  bsStoreKeyVersion :: string
  bsSecretCount :: int

definition backupArtifactVersion :: int where "backupArtifactVersion = 2"

definition signBackupArtifact :: "'z backuplib_scheme \<Rightarrow> backupArtifact \<Rightarrow> string \<Rightarrow> string" where
  "signBackupArtifact L artifact masterKey =
     ''hmac-sha256:'' @ hexEncode (hmacSHA256 L (sha256 L (''service-lasso:@secretsbroker:backup:v2:'' @ trimSpace masterKey))
       (artifactJSON L (artifact\<lparr>baIntegrity := []\<rparr>)))"

definition verifyBackupArtifactIntegrity :: "'z backuplib_scheme \<Rightarrow> backupArtifact \<Rightarrow> string \<Rightarrow> bool" where
  "verifyBackupArtifactIntegrity L artifact masterKey \<longleftrightarrow> signBackupArtifact L artifact masterKey = trimSpace (baIntegrity artifact)"

definition artifactOf :: "'z backuplib_scheme \<Rightarrow> localStoreFile \<Rightarrow> time \<Rightarrow> string \<Rightarrow> backupArtifact" where
  "artifactOf L store now masterKey =
     (let artifact = \<lparr>baVersion = backupArtifactVersion, baServiceID = serviceID, baAPIVersion = apiVersion, baCreatedAt = now,
            baStoreKeyID = masterKeyID L masterKey, baStoreKeyVersion = masterKeyVersion, baSecretCount = int (length (stSecrets store)),
            baStore = store, baIntegrity = []\<rparr> in
      artifact\<lparr>baIntegrity := signBackupArtifact L artifact masterKey\<rparr>)"

definition writeBackupArtifact :: "string \<Rightarrow> backupArtifact \<Rightarrow> 'm vaultHost_scheme \<Rightarrow> gerror option \<times> 'm vaultHost_scheme" where
  "writeBackupArtifact path artifact h =
     check (osCall h) (\<lambda>e h1. (Some e, h1))
       (\<lambda>h1. check (osCall h1) (\<lambda>e h2. (Some e, h2\<lparr>vBackups := AList.update path BackupMalformed (vBackups h2)\<rparr>))
          (\<lambda>h2. (None, h2\<lparr>vBackups := AList.update path (BackupFile artifact) (vBackups h2)\<rparr>)))"

definition wellFormedArtifact :: "backupArtifact \<Rightarrow> bool" where
  "wellFormedArtifact a \<longleftrightarrow> baVersion a = backupArtifactVersion \<and> baServiceID a = serviceID \<and> baAPIVersion a = apiVersion
     \<and> stVersion (baStore a) = 1 \<and> baIntegrity a \<noteq> [] \<and> baSecretCount a = int (length (stSecrets (baStore a)))"

definition readBackupArtifact :: "string \<Rightarrow> 'm vaultHost_scheme \<Rightarrow> (gerror + backupArtifact) \<times> 'm vaultHost_scheme" where
  "readBackupArtifact path h =
     check (osCall h) (\<lambda>e h1. (Inl e, h1))
       (\<lambda>h1. (case map_of (vBackups h1) path of
            None \<Rightarrow> Inl errNotExist
          | Some (BackupUnreadable e) \<Rightarrow> Inl e
          | Some BackupMalformed \<Rightarrow> Inl (errKey errInvalidBackupArtifact)
          | Some (BackupFile a) \<Rightarrow> if wellFormedArtifact a then Inr a else Inl (errKey errInvalidBackupArtifact), h1))"

definition createBackup ::
  "'z backuplib_scheme \<Rightarrow> string \<Rightarrow> 'm vaultHost_scheme \<Rightarrow> (gerror + backupCreateResponse) \<times> 'm vaultHost_scheme" where
  "createBackup L path0 h =
     (let path = trimSpace path0;
          refuse = (\<lambda>outcome err h1. (Inl err, audit_ignored L ''backup_create'' [] outcome [] [] h1)) in
      if path = [] then (Inl (errKey errMissingBackupPath), h)
      else if isLocked h then refuse ''locked'' errLocked h
      else case loadStore h of Inl _ \<Rightarrow> refuse ''degraded'' errBackendDegraded h
      | Inr store \<Rightarrow>
          if verifyStoreDecryptable L store h \<noteq> None then refuse ''degraded'' (errKey errInvalidBackupKey) h
          else
            let artifact = artifactOf L store (bNow h) (bMasterKey h) in
            check (writeBackupArtifact path artifact h) (\<lambda>err h1. refuse ''degraded'' err h1)
              (\<lambda>h1. (Inr \<lparr>bcServiceID = serviceID, bcAPIVersion = apiVersion, bcOutcome = ''ready'', bcPath = path, bcCreatedAt = bNow h,
                       bcStoreKeyID = baStoreKeyID artifact, bcStoreKeyVersion = baStoreKeyVersion artifact, bcSecretCount = baSecretCount artifact,
                       bcWarning = ''Backup contains encrypted secret payloads only. Keep it with the matching portable master key or recovery material.''\<rparr>,
                     audit_ignored L ''backup_create'' [] ''ready'' [] [] h1)))"

definition restoreBackup ::
  "'z backuplib_scheme \<Rightarrow> string \<Rightarrow> 'm vaultHost_scheme \<Rightarrow> (gerror + backupRestoreResponse) \<times> 'm vaultHost_scheme" where
  "restoreBackup L path0 h =
     (let path = trimSpace path0;
          refuse = (\<lambda>outcome err h1. (Inl err, audit_ignored L ''backup_restore'' [] outcome [] [] h1)) in
      if path = [] then (Inl (errKey errMissingBackupPath), h)
      else if isLocked h then refuse ''locked'' errLocked h
      else attempt (readBackupArtifact path h) (\<lambda>err h1. refuse ''invalid_ref'' err h1)
        (\<lambda>artifact h1.
           if baStoreKeyID artifact \<noteq> [] \<and> baStoreKeyID artifact \<noteq> masterKeyID L (bMasterKey h1) then refuse ''locked'' (errKey errInvalidBackupKey) h1
           else if \<not> verifyBackupArtifactIntegrity L artifact (bMasterKey h1) then refuse ''invalid_ref'' (errKey errInvalidBackupArtifact) h1
           else if verifyStoreDecryptable L (baStore artifact) h1 \<noteq> None then refuse ''locked'' (errKey errInvalidBackupKey) h1
           else check (saveStore ((baStore artifact)\<lparr>stUpdatedAt := bNow h1\<rparr>) h1) (\<lambda>_ h2. refuse ''degraded'' errBackendDegraded h2)
             (\<lambda>h2. (Inr \<lparr>bsServiceID = serviceID, bsAPIVersion = apiVersion, bsOutcome = ''ready'', bsPath = path, bsRestoredAt = bNow h2,
                      bsStoreKeyID = baStoreKeyID artifact, bsStoreKeyVersion = baStoreKeyVersion artifact, bsSecretCount = baSecretCount artifact\<rparr>,
                    audit_ignored L ''backup_restore'' [] ''ready'' [] [] h2))))"

end
