(* ===== verification/Lifecycle.thy ===== *)
theory Lifecycle
  imports Backup_Restore Recovery_Policy
begin

text \<open>
  Managed lifecycle operations (\<open>lifecycle_management.go\<close>): backups with an inventory, restore by a
  signed plan that expires, and rotation of the master key through a pending wrapper, with their
  endpoints. Every mutation is preceded by an audit event that must be recorded. A receipt in the
  store makes restore and rotation idempotent per operation id.

  \<open>lifecyclelib\<close> adds the bytes of a backup file and of the store file (\<open>json.MarshalIndent\<close>), which only
  enter sizes and hashes. The directory of backups is the set of files whose path lies directly
  under the backup root. A store file that cannot be decoded is taken to be unreadable for hashing
  too. \<open>sort.Slice\<close> is not stable; the order of backups with equal creation time is not specified.
\<close>

subsection \<open>Data\<close>

record lifecyclelib = backuplib +
  artifactText :: "backupArtifact \<Rightarrow> string"
  storeText :: "localStoreFile \<Rightarrow> string"

record lifecycleRequestActor =
  laActorID :: string
  laActorKind :: string

record lifecycleOperationRequest =
  lqRequestID :: string
  lqServiceID :: string
  lqOperationID :: string
  lqReason :: string
  lqBackupID :: string
  lqPlanToken :: string
  lqExpectedKeyID :: string
  lqExpectedStoreHash :: string
  lqConfirm :: bool
  lqActor :: "lifecycleRequestActor option"

record managedBackupMetadata =
  mbSchema :: string
  mbBackupID :: string
  mbCreatedAt :: time
  mbStoreKeyID :: string
  mbStoreKeyVersion :: string
  mbSecretCount :: int
  mbSizeBytes :: int
  mbArtifactHash :: string
  mbVerification :: string

record lifecycleKeyStatus =
  lkAvailable :: bool
  lkKeyID :: string
  lkKeyVersion :: string
  lkSecretCount :: int

record lifecycleStatusResponse =
  lvServiceID :: string
  lvAPIVersion :: string
  lvOutcome :: string
  lvKey :: lifecycleKeyStatus
  lvWrapper :: "wrapperStatusDetail option"
  lvRecovery :: "recoveryPolicyStatusResponse option"
  lvBackups :: "managedBackupMetadata list"
  lvAuditStatus :: string
  lvNextAction :: string

record lifecycleBackupResponse =
  lbServiceID :: string
  lbAPIVersion :: string
  lbOutcome :: string
  lbApplied :: bool
  lbBackup :: "managedBackupMetadata option"
  lbBackups :: "managedBackupMetadata list"
  lbAuditStatus :: string
  lbNextAction :: string

record lifecycleRestoreResponse =
  lrServiceID :: string
  lrAPIVersion :: string
  lrOutcome :: string
  lrApplied :: bool
  lrBackup :: "managedBackupMetadata option"
  lrPlanToken :: string
  lrPlanExpiresAt :: "time option"
  lrExpectedKeyID :: string
  lrExpectedStoreHash :: string
  lrRequiresConfirmation :: bool
  lrAuditStatus :: string
  lrNextAction :: string

record lifecycleRotateResponse =
  ltServiceID :: string
  ltAPIVersion :: string
  ltOutcome :: string
  ltApplied :: bool
  ltRotatedAt :: time
  ltOldKeyID :: string
  ltNewKeyID :: string
  ltKeyVersion :: string
  ltSecretCount :: int
  ltRequiresConfirmation :: bool
  ltAuditStatus :: string
  ltNextAction :: string

definition managedBackupSchema :: string where "managedBackupSchema = ''service-lasso.secretsbroker.backup-metadata.v1''"
definition restorePlanTTL :: time where "restorePlanTTL = 5 * minute"

subsection \<open>Requests and plans\<close>

definition lifecycleChar :: "char \<Rightarrow> bool" where
  "lifecycleChar c \<longleftrightarrow> (CHR ''a'' \<le> c \<and> c \<le> CHR ''z'') \<or> (CHR ''A'' \<le> c \<and> c \<le> CHR ''Z'') \<or> (CHR ''0'' \<le> c \<and> c \<le> CHR ''9'')
     \<or> c = CHR ''-'' \<or> c = CHR ''_'' \<or> c = CHR ''.''"

definition validLifecycleID :: "string \<Rightarrow> bool" where
  "validLifecycleID value0 = (let value = trimSpace value0 in value \<noteq> [] \<and> length value \<le> 128 \<and> list_all lifecycleChar value)"

definition validActorText :: "string \<Rightarrow> bool" where
  "validActorText value0 =
     (let value = trimSpace value0 in value \<noteq> [] \<and> length value \<le> 256
        \<and> list_all (\<lambda>c. \<not> ((of_char c :: nat) < 0x20 \<or> c = CHR 0x7F)) value)"

definition validLifecycleActor :: "lifecycleRequestActor option \<Rightarrow> bool" where
  "validLifecycleActor actor = (case actor of None \<Rightarrow> True | Some a \<Rightarrow> validActorText (laActorID a) \<and> validActorText (laActorKind a))"

definition validateLifecycleMutationRequest :: "lifecycleOperationRequest \<Rightarrow> bool \<Rightarrow> gerror option" where
  "validateLifecycleMutationRequest req requireConfirm =
     (if \<not> validLifecycleID (lqOperationID req) \<or> trimSpace (lqReason req) = [] \<or> length (trimSpace (lqReason req)) > 256
         \<or> (requireConfirm \<and> \<not> lqConfirm req) \<or> \<not> validLifecycleActor (lqActor req)
      then Some (errKey errLifecycleInvalidRequest) else None)"

definition signLifecyclePlan :: "'z golib_scheme \<Rightarrow> string \<Rightarrow> string \<Rightarrow> string \<Rightarrow> string \<Rightarrow> string \<Rightarrow> string \<Rightarrow> time \<Rightarrow> string" where
  "signLifecyclePlan L masterKey operation operationID backupID keyID storeHash expiresAt =
     (let payload = joinWith ''\<newline>'' [operation, operationID, backupID, keyID, storeHash, formatNano L expiresAt];
          key = sha256 L (''service-lasso:@secretsbroker:lifecycle-plan:'' @ trimSpace masterKey) in
      b64RawURLEncode L (formatNano L expiresAt) @ ''.'' @ b64RawURLEncode L (hmacSHA256 L key payload))"

definition verifyLifecyclePlan ::
  "'z golib_scheme \<Rightarrow> string \<Rightarrow> string \<Rightarrow> string \<Rightarrow> string \<Rightarrow> string \<Rightarrow> string \<Rightarrow> string \<Rightarrow> time \<Rightarrow> bool" where
  "verifyLifecyclePlan L masterKey token operation operationID backupID keyID storeHash now =
     (case splitOn (CHR ''.'') token of
        [expires, mac] \<Rightarrow>
          (case b64RawURLDecode L expires of None \<Rightarrow> False
           | Some raw \<Rightarrow> (case parseRFC3339 L raw of None \<Rightarrow> False
               | Some expiresAt \<Rightarrow>
                   expiresAt > now \<and> \<not> expiresAt > now + (restorePlanTTL + second)
                   \<and> signLifecyclePlan L masterKey operation operationID backupID keyID storeHash expiresAt = token))
      | _ \<Rightarrow> False)"

definition backupIDForOperation :: "'z golib_scheme \<Rightarrow> string \<Rightarrow> string \<Rightarrow> string" where
  "backupIDForOperation L masterKey operationID =
     ''backup-'' @ take 24 (hexEncode (hmacSHA256 L (sha256 L (''service-lasso:@secretsbroker:backup-id:'' @ trimSpace masterKey)) (trimSpace operationID)))"

definition fileSHA256 :: "'z lifecyclelib_scheme \<Rightarrow> diskState \<Rightarrow> gerror + string" where
  "fileSHA256 L d =
     (case d of NoFile \<Rightarrow> Inl errNotExist | Unreadable e \<Rightarrow> Inl e
      | EmptyFile \<Rightarrow> Inr (''sha256:'' @ hexEncode (sha256 L []))
      | Stored s \<Rightarrow> Inr (''sha256:'' @ hexEncode (sha256 L (storeText L s))))"

text \<open>The hash of a store that does not exist is empty.\<close>

definition currentStoreHash :: "'z lifecyclelib_scheme \<Rightarrow> diskState \<Rightarrow> gerror + string" where
  "currentStoreHash L d = (case fileSHA256 L d of Inl e \<Rightarrow> if errorIs e errNotExist then Inr [] else Inl e | Inr hash \<Rightarrow> Inr hash)"

definition auditLifecycle ::
  "'z golib_scheme \<Rightarrow> string \<Rightarrow> string \<Rightarrow> string \<Rightarrow> string \<Rightarrow> string \<Rightarrow> 'm auditState_scheme \<Rightarrow> gerror option \<times> 'm auditState_scheme" where
  "auditLifecycle L operation subject outcome requestServiceID requestID b =
     writeAuditEvent L (emptyAuditEvent\<lparr>aeTS := bNow b, aeOperation := operation, aeRef := subject, aeOutcome := outcome,
       aeServiceID := requestServiceID, aeRequestID := requestID\<rparr>) b"

subsection \<open>The backup inventory\<close>

definition pathAbs :: "'m vaultHost_scheme \<Rightarrow> string \<Rightarrow> string" where
  "pathAbs h path = (if path \<noteq> [] \<and> hd path = CHR ''/'' then pathClean path else pathClean (vWorkDir h @ ''/'' @ path))"

text \<open>The path of the file relative to the root is its name.\<close>

definition managedBackupPath :: "string \<Rightarrow> 'm vaultHost_scheme \<Rightarrow> gerror + string" where
  "managedBackupPath backupID h =
     (let name = backupID @ ''.json'' in
      if \<not> validLifecycleID backupID \<or> hasPrefix name ''..'' then Inl (errKey errLifecycleInvalidRequest)
      else Inr (pathClean (pathAbs h (vBackupRoot h) @ ''/'' @ name)))"

definition managedArtifactOk :: "'z lifecyclelib_scheme \<Rightarrow> backupArtifact \<Rightarrow> 'm vaultHost_scheme \<Rightarrow> bool" where
  "managedArtifactOk L a h \<longleftrightarrow> baVersion a = backupArtifactVersion \<and> baServiceID a = serviceID \<and> baAPIVersion a = apiVersion
     \<and> stVersion (baStore a) = 1 \<and> baSecretCount a = int (length (stSecrets (baStore a)))
     \<and> verifyBackupArtifactIntegrity L a (bMasterKey h) \<and> baStoreKeyID a = masterKeyID L (bMasterKey h)
     \<and> verifyStoreDecryptable L (baStore a) h = None"

definition managedMetadata :: "'z lifecyclelib_scheme \<Rightarrow> string \<Rightarrow> backupArtifact \<Rightarrow> managedBackupMetadata" where
  "managedMetadata L backupID a =
     \<lparr>mbSchema = managedBackupSchema, mbBackupID = backupID, mbCreatedAt = baCreatedAt a, mbStoreKeyID = baStoreKeyID a,
      mbStoreKeyVersion = baStoreKeyVersion a, mbSecretCount = baSecretCount a, mbSizeBytes = int (length (artifactText L a)),
      mbArtifactHash = ''sha256:'' @ hexEncode (sha256 L (artifactText L a)), mbVerification = ''verified''\<rparr>"

definition loadManagedBackup ::
  "'z lifecyclelib_scheme \<Rightarrow> string \<Rightarrow> 'm vaultHost_scheme \<Rightarrow> (gerror + managedBackupMetadata \<times> backupArtifact) \<times> 'm vaultHost_scheme" where
  "loadManagedBackup L backupID h =
     (case managedBackupPath backupID h of Inl err \<Rightarrow> (Inl err, h)
      | Inr path \<Rightarrow>
          check (osCall h) (\<lambda>_ h1. (Inl (errKey errInvalidBackupArtifact), h1))
            (\<lambda>h1. (case map_of (vBackups h1) path of
                 None \<Rightarrow> Inl (errKey errInvalidBackupArtifact)
               | Some (BackupUnreadable e) \<Rightarrow> Inl e
               | Some BackupMalformed \<Rightarrow> Inl (errKey errInvalidBackupArtifact)
               | Some (BackupFile a) \<Rightarrow>
                   if managedArtifactOk L a h1 then Inr (managedMetadata L backupID a, a) else Inl (errKey errInvalidBackupArtifact), h1)))"

definition inspectManagedBackup ::
  "'z lifecyclelib_scheme \<Rightarrow> string \<Rightarrow> 'm vaultHost_scheme \<Rightarrow> (gerror + managedBackupMetadata) \<times> 'm vaultHost_scheme" where
  "inspectManagedBackup L backupID h = apfst (map_sum (\<lambda>e. e) fst) (loadManagedBackup L backupID h)"

definition invalidMetadata :: "string \<Rightarrow> managedBackupMetadata" where
  "invalidMetadata backupID = \<lparr>mbSchema = managedBackupSchema, mbBackupID = backupID, mbCreatedAt = 0, mbStoreKeyID = [], mbStoreKeyVersion = [],
     mbSecretCount = 0, mbSizeBytes = 0, mbArtifactHash = [], mbVerification = ''invalid''\<rparr>"

fun inspectBackups ::
  "'z lifecyclelib_scheme \<Rightarrow> string list \<Rightarrow> 'm vaultHost_scheme \<Rightarrow> managedBackupMetadata list \<times> 'm vaultHost_scheme" where
  "inspectBackups L [] h = ([], h)"
| "inspectBackups L (backupID # ids) h =
     (let m = inspectManagedBackup L backupID h; rest = inspectBackups L ids (snd m) in
      ((case fst m of Inl _ \<Rightarrow> invalidMetadata backupID | Inr metadata \<Rightarrow> metadata) # fst rest, snd rest))"

text \<open>The names of the files directly under the root that end in \<open>.json\<close>, without the ending.\<close>

definition backupNames :: "'m vaultHost_scheme \<Rightarrow> string list" where
  "backupNames h =
     (let dir = pathAbs h (vBackupRoot h) @ ''/''; names = map (drop (length dir)) (filter (\<lambda>p. hasPrefix p dir) (map fst (vBackups h))) in
      map (\<lambda>n. take (length n - 5) n)
        (sort (remdups (filter (\<lambda>n. CHR ''/'' \<notin> set n \<and> hasPrefix (rev n) (rev ''.json'')) names))))"

definition listManagedBackups ::
  "'z lifecyclelib_scheme \<Rightarrow> 'm vaultHost_scheme \<Rightarrow> (gerror + managedBackupMetadata list) \<times> 'm vaultHost_scheme" where
  "listManagedBackups L h =
     check (osCall h) (\<lambda>e h1. (if errorIs e errNotExist then Inr [] else Inl e, h1))
       (\<lambda>h1. let r = inspectBackups L (backupNames h1) h1 in (Inr (sort_key (\<lambda>m. - mbCreatedAt m) (fst r)), snd r))"

subsection \<open>Status and backups\<close>

type_synonym ('r, 'm) lifecycleResult = "('r \<times> gerror option) \<times> 'm"

definition unreadStatus :: lifecycleStatusResponse where
  "unreadStatus = \<lparr>lvServiceID = serviceID, lvAPIVersion = apiVersion, lvOutcome = ''degraded'',
     lvKey = \<lparr>lkAvailable = False, lkKeyID = [], lkKeyVersion = [], lkSecretCount = 0\<rparr>, lvWrapper = None, lvRecovery = None, lvBackups = [],
     lvAuditStatus = ''audit_unavailable'', lvNextAction = ''repair_broker_store''\<rparr>"

text \<open>
  The error of the recovery policy is shadowed by the one of the backup inventory, read after it: the
  outcome stays degraded, and the error returned is the inventory's.
\<close>

definition lifecycleStatus ::
  "'z lifecyclelib_scheme \<Rightarrow> keyWrapperProvider \<Rightarrow> wrapperContext \<Rightarrow> 'm vaultHost_scheme
    \<Rightarrow> (lifecycleStatusResponse, 'm vaultHost_scheme) lifecycleResult" where
  "lifecycleStatus L P ctx h =
     (case loadStore h of Inl _ \<Rightarrow> ((unreadStatus, Some errBackendDegraded), h)
      | Inr store \<Rightarrow>
          let w = wrapperStatusWithProvider L P (kWrapperPath h) ctx h;
              rec = recoveryPolicyStatus L (snd w);
              recovery = fst (fst rec); recErr = snd (fst rec);
              bk = listManagedBackups L (snd rec);
              bkErr = (case fst bk of Inl e \<Rightarrow> Some e | Inr _ \<Rightarrow> None);
              res = \<lparr>lvServiceID = serviceID, lvAPIVersion = apiVersion,
                lvOutcome = (if recErr \<noteq> None \<or> bkErr \<noteq> None then ''degraded'' else ''ready''),
                lvKey = \<lparr>lkAvailable = \<not> isLocked h, lkKeyID = stKeyID store, lkKeyVersion = stKeyVersion store,
                  lkSecretCount = int (length (stSecrets store))\<rparr>,
                lvWrapper = Some ((fst w)\<lparr>wdUser := [], wdMachine := []\<rparr>), lvRecovery = Some recovery,
                lvBackups = (case fst bk of Inl _ \<Rightarrow> [] | Inr l \<Rightarrow> l), lvAuditStatus = ''audit_recorded'',
                lvNextAction = (if bkErr \<noteq> None then ''repair_backup_inventory''
                  else if recErr \<noteq> None then ''repair_recovery_policy_metadata'' else ''operate_normally'')\<rparr> in
          check (auditLifecycle L ''lifecycle_status'' [] ''ready'' [] [] (snd bk))
            (\<lambda>_ h1. ((res\<lparr>lvAuditStatus := ''audit_unavailable''\<rparr>, Some (errKey errLifecycleAudit)), h1))
            (\<lambda>h1. ((res, bkErr), h1)))"

definition backupResponse :: "string \<Rightarrow> bool \<Rightarrow> managedBackupMetadata option \<Rightarrow> managedBackupMetadata list \<Rightarrow> string \<Rightarrow> string \<Rightarrow> lifecycleBackupResponse" where
  "backupResponse outcome applied backup backups auditStatus nextAction =
     \<lparr>lbServiceID = serviceID, lbAPIVersion = apiVersion, lbOutcome = outcome, lbApplied = applied, lbBackup = backup, lbBackups = backups,
      lbAuditStatus = auditStatus, lbNextAction = nextAction\<rparr>"

text \<open>
  \<open>writePrivateFileExclusive\<close> (\<open>atomic_file.go\<close>): the bytes are written to a temporary file and linked to the
  path, which fails when the path exists. A failure to protect the published file is reported although it is in place.
\<close>

definition writePrivateFileExclusive :: "string \<Rightarrow> backupFile \<Rightarrow> 'm vaultHost_scheme \<Rightarrow> gerror option \<times> 'm vaultHost_scheme" where
  "writePrivateFileExclusive path file h =
     check (osCall h) (\<lambda>e h1. (Some e, h1))
       (\<lambda>h1. if map_of (vBackups h1) path \<noteq> None then (Some (errKey errLifecycleConflict), h1)
          else osCall (h1\<lparr>vBackups := AList.update path file (vBackups h1)\<rparr>))"

definition publishBackup ::
  "'z lifecyclelib_scheme \<Rightarrow> lifecycleOperationRequest \<Rightarrow> string \<Rightarrow> string \<Rightarrow> 'm vaultHost_scheme
    \<Rightarrow> (lifecycleBackupResponse, 'm vaultHost_scheme) lifecycleResult" where
  "publishBackup L req backupID path h =
     (let res = backupResponse ''degraded'' False None [] ''audit_unavailable'' ''restore_audit_and_retry'' in
      case loadStore h of Inl _ \<Rightarrow> ((res, Some errBackendDegraded), h)
      | Inr store \<Rightarrow>
          if verifyStoreDecryptable L store h \<noteq> None then ((res, Some errBackendDegraded), h)
          else
            check (writePrivateFileExclusive path (BackupFile (artifactOf L store (bNow h) (bMasterKey h))) h) (\<lambda>e h1. ((res, Some e), h1))
            (\<lambda>h1. attempt (inspectManagedBackup L backupID h1) (\<lambda>e h2. ((res, Some e), h2))
            (\<lambda>metadata h2.
               check (auditLifecycle L ''backup_create'' backupID ''ready'' (lqServiceID req) (lqRequestID req) h2)
                 (\<lambda>_ h3. ((res, Some (errKey errLifecycleAudit)), h3))
                 (\<lambda>h3. ((backupResponse ''ready'' True (Some metadata) [] ''audit_recorded'' ''retain_backup_separately_from_recovery_material'', None), h3)))))"

definition createManagedBackup ::
  "'z lifecyclelib_scheme \<Rightarrow> lifecycleOperationRequest \<Rightarrow> 'm vaultHost_scheme \<Rightarrow> (lifecycleBackupResponse, 'm vaultHost_scheme) lifecycleResult" where
  "createManagedBackup L req h =
     (let res = backupResponse ''degraded'' False None [] ''audit_unavailable'' ''restore_audit_and_retry'' in
      case validateLifecycleMutationRequest req False of
        Some err \<Rightarrow> ((res\<lparr>lbOutcome := ''policy_denied'', lbNextAction := ''provide_operation_id_and_audit_reason''\<rparr>, Some err), h)
      | None \<Rightarrow>
          check (auditLifecycle L ''backup_create_authorized'' [] ''ready'' (lqServiceID req) (lqRequestID req) h)
            (\<lambda>_ h1. ((res, Some (errKey errLifecycleAudit)), h1))
            (\<lambda>h1. let backupID = backupIDForOperation L (bMasterKey h1) (lqOperationID req) in
               case managedBackupPath backupID h1 of Inl err \<Rightarrow> ((res, Some err), h1)
               | Inr path \<Rightarrow>
                   attempt (inspectManagedBackup L backupID h1)
                     (\<lambda>_ h2. check (osCall h2) (\<lambda>e h3. if errorIs e errNotExist then publishBackup L req backupID path h3 else ((res, Some e), h3))
                        (\<lambda>h3. if map_of (vBackups h3) path \<noteq> None then ((res, Some (errKey errLifecycleConflict)), h3)
                           else publishBackup L req backupID path h3))
                     (\<lambda>existing h2. ((backupResponse ''ready'' False (Some existing) [] ''audit_recorded'' ''backup_already_created'', None), h2))))"

definition verifyManagedBackup ::
  "'z lifecyclelib_scheme \<Rightarrow> lifecycleOperationRequest \<Rightarrow> 'm vaultHost_scheme \<Rightarrow> (lifecycleBackupResponse, 'm vaultHost_scheme) lifecycleResult" where
  "verifyManagedBackup L req h =
     (let res = backupResponse ''invalid_ref'' False None [] ''audit_unavailable'' ''select_valid_backup'' in
      if \<not> validLifecycleID (lqBackupID req) then ((res, Some (errKey errLifecycleInvalidRequest)), h)
      else attempt (inspectManagedBackup L (lqBackupID req) h)
        (\<lambda>err h1. ((res, Some err), snd (auditLifecycle L ''backup_verify'' (lqBackupID req) ''invalid_ref'' (lqServiceID req) (lqRequestID req) h1)))
        (\<lambda>metadata h1.
           check (auditLifecycle L ''backup_verify'' (lqBackupID req) ''ready'' (lqServiceID req) (lqRequestID req) h1)
             (\<lambda>_ h2. ((res\<lparr>lbOutcome := ''degraded'', lbNextAction := ''restore_audit_and_retry''\<rparr>, Some (errKey errLifecycleAudit)), h2))
             (\<lambda>h2. ((backupResponse ''ready'' False (Some metadata) [] ''audit_recorded'' ''backup_verified'', None), h2))))"

subsection \<open>Restore by plan\<close>

definition restoreResponse :: "string \<Rightarrow> string \<Rightarrow> lifecycleRestoreResponse" where
  "restoreResponse outcome nextAction =
     \<lparr>lrServiceID = serviceID, lrAPIVersion = apiVersion, lrOutcome = outcome, lrApplied = False, lrBackup = None, lrPlanToken = [],
      lrPlanExpiresAt = None, lrExpectedKeyID = [], lrExpectedStoreHash = [], lrRequiresConfirmation = True,
      lrAuditStatus = ''audit_unavailable'', lrNextAction = nextAction\<rparr>"

definition restoreManagedBackupPlan ::
  "'z lifecyclelib_scheme \<Rightarrow> lifecycleOperationRequest \<Rightarrow> 'm vaultHost_scheme \<Rightarrow> (lifecycleRestoreResponse, 'm vaultHost_scheme) lifecycleResult" where
  "restoreManagedBackupPlan L req h =
     (let res = restoreResponse ''invalid_ref'' ''select_valid_backup'' in
      if validateLifecycleMutationRequest req False \<noteq> None \<or> \<not> validLifecycleID (lqBackupID req)
      then ((res, Some (errKey errLifecycleInvalidRequest)), h)
      else attempt (inspectManagedBackup L (lqBackupID req) h) (\<lambda>err h1. ((res, Some err), h1))
        (\<lambda>metadata h1. case currentStoreHash L (bDisk h1) of Inl err \<Rightarrow> ((res, Some err), h1)
         | Inr storeHash \<Rightarrow>
             let keyID = masterKeyID L (bMasterKey h1); expiresAt = bNow h1 + restorePlanTTL;
                 plan = signLifecyclePlan L (bMasterKey h1) ''restore'' (lqOperationID req) (lqBackupID req) keyID storeHash expiresAt in
             check (auditLifecycle L ''backup_restore_plan'' (lqBackupID req) ''ready'' (lqServiceID req) (lqRequestID req) h1)
               (\<lambda>_ h2. ((res\<lparr>lrOutcome := ''degraded'', lrNextAction := ''restore_audit_and_retry''\<rparr>, Some (errKey errLifecycleAudit)), h2))
               (\<lambda>h2. ((res\<lparr>lrOutcome := ''ready'', lrBackup := Some metadata, lrPlanToken := plan, lrPlanExpiresAt := Some expiresAt,
                         lrExpectedKeyID := keyID, lrExpectedStoreHash := storeHash, lrAuditStatus := ''audit_recorded'',
                         lrNextAction := ''confirm_exact_restore_plan''\<rparr>, None), h2))))"

definition restoreReceipt :: "lifecycleOperationRequest \<Rightarrow> localStoreFile \<Rightarrow> time \<Rightarrow> lifecycleOperationReceipt" where
  "restoreReceipt req store now =
     \<lparr>loKind = ''restore'', loOperationID = lqOperationID req, loBackupID = lqBackupID req, loExpectedKeyID = lqExpectedKeyID req,
      loExpectedStoreHash = lqExpectedStoreHash req, loOldKeyID = [], loNewKeyID = [], loKeyVersion = [],
      loSecretCount = int (length (stSecrets store)), loAppliedAt = now\<rparr>"

definition restoredStore :: "lifecycleOperationRequest \<Rightarrow> time \<Rightarrow> localStoreFile \<Rightarrow> localStoreFile" where
  "restoredStore req now store =
     store\<lparr>stUpdatedAt := now, stLifecycleOps := AList.update (lqOperationID req) (restoreReceipt req store now) (stLifecycleOps store)\<rparr>"

definition applyRestore ::
  "'z lifecyclelib_scheme \<Rightarrow> lifecycleOperationRequest \<Rightarrow> 'm vaultHost_scheme \<Rightarrow> (lifecycleRestoreResponse, 'm vaultHost_scheme) lifecycleResult" where
  "applyRestore L req h =
     (let res = restoreResponse ''conflict'' ''create_fresh_restore_plan'' in
      if \<not> verifyLifecyclePlan L (bMasterKey h) (lqPlanToken req) ''restore'' (lqOperationID req) (lqBackupID req) (lqExpectedKeyID req)
             (lqExpectedStoreHash req) (bNow h) then ((res, Some (errKey errLifecycleStalePlan)), h)
      else if lqExpectedKeyID req \<noteq> masterKeyID L (bMasterKey h) then ((res, Some (errKey errLifecycleConflict)), h)
      else case currentStoreHash L (bDisk h) of Inl err \<Rightarrow> ((res, Some err), h)
      | Inr currentHash \<Rightarrow>
          if currentHash \<noteq> lqExpectedStoreHash req then ((res, Some (errKey errLifecycleStalePlan)), h)
          else attempt (loadManagedBackup L (lqBackupID req) h) (\<lambda>err h1. ((res, Some err), h1))
            (\<lambda>loaded h1.
               check (auditLifecycle L ''backup_restore_authorized'' (lqBackupID req) ''ready'' (lqServiceID req) (lqRequestID req) h1)
                 (\<lambda>_ h2. ((res, Some (errKey errLifecycleAudit)), h2))
                 (\<lambda>h2. check (saveStore (restoredStore req (bNow h2) (baStore (snd loaded))) h2) (\<lambda>err h3. ((res, Some err), h3))
                    (\<lambda>h3. check (auditLifecycle L ''backup_restore'' (lqBackupID req) ''ready'' (lqServiceID req) (lqRequestID req) h3)
                       (\<lambda>_ h4. ((res, Some (errKey errLifecycleAudit)), h4))
                       (\<lambda>h4. ((res\<lparr>lrOutcome := ''ready'', lrApplied := True, lrBackup := Some (fst loaded), lrRequiresConfirmation := False,
                                 lrAuditStatus := ''audit_recorded'', lrNextAction := ''restart_and_verify_broker''\<rparr>, None), h4))))))"

definition restoreManagedBackupApply ::
  "'z lifecyclelib_scheme \<Rightarrow> lifecycleOperationRequest \<Rightarrow> 'm vaultHost_scheme \<Rightarrow> (lifecycleRestoreResponse, 'm vaultHost_scheme) lifecycleResult" where
  "restoreManagedBackupApply L req h =
     (let res = restoreResponse ''conflict'' ''create_fresh_restore_plan'' in
      if validateLifecycleMutationRequest req True \<noteq> None \<or> \<not> validLifecycleID (lqBackupID req) \<or> \<not> validSafeMetadataID (lqExpectedKeyID req)
         \<or> trimSpace (lqExpectedStoreHash req) = [] then ((res, Some (errKey errLifecycleInvalidRequest)), h)
      else case loadStore h of Inl _ \<Rightarrow> ((res, Some errBackendDegraded), h)
      | Inr currentStore \<Rightarrow> (case map_of (stLifecycleOps currentStore) (lqOperationID req) of
            Some receipt \<Rightarrow>
              if loKind receipt \<noteq> ''restore'' \<or> loBackupID receipt \<noteq> lqBackupID req \<or> loExpectedKeyID receipt \<noteq> lqExpectedKeyID req
                 \<or> loExpectedStoreHash receipt \<noteq> lqExpectedStoreHash req then ((res, Some (errKey errLifecycleConflict)), h)
              else check (auditLifecycle L ''backup_restore_retry'' (lqBackupID req) ''ready'' (lqServiceID req) (lqRequestID req) h)
                (\<lambda>_ h1. ((res, Some (errKey errLifecycleAudit)), h1))
                (\<lambda>h1. ((res\<lparr>lrOutcome := ''ready'', lrRequiresConfirmation := False, lrAuditStatus := ''audit_recorded'',
                          lrNextAction := ''restore_already_applied''\<rparr>, None), h1))
          | None \<Rightarrow> applyRestore L req h))"

subsection \<open>Rotation of the master key\<close>

definition rotateResponse :: "string \<Rightarrow> string \<Rightarrow> lifecycleRotateResponse" where
  "rotateResponse outcome nextAction =
     \<lparr>ltServiceID = serviceID, ltAPIVersion = apiVersion, ltOutcome = outcome, ltApplied = False, ltRotatedAt = 0, ltOldKeyID = [], ltNewKeyID = [],
      ltKeyVersion = [], ltSecretCount = 0, ltRequiresConfirmation = True, ltAuditStatus = ''audit_unavailable'', ltNextAction = nextAction\<rparr>"

definition rotateReceipt :: "'z golib_scheme \<Rightarrow> lifecycleOperationRequest \<Rightarrow> string \<Rightarrow> string \<Rightarrow> localStoreFile \<Rightarrow> time \<Rightarrow> lifecycleOperationReceipt" where
  "rotateReceipt L req oldKey newKey store now =
     \<lparr>loKind = ''rotate'', loOperationID = lqOperationID req, loBackupID = [], loExpectedKeyID = lqExpectedKeyID req, loExpectedStoreHash = [],
      loOldKeyID = masterKeyID L oldKey, loNewKeyID = masterKeyID L newKey, loKeyVersion = masterKeyVersion,
      loSecretCount = int (length (stSecrets store)), loAppliedAt = now\<rparr>"

definition removePending :: "string \<Rightarrow> 'm keyHost_scheme \<Rightarrow> 'm keyHost_scheme" where
  "removePending pendingPath h =
     check (osCall h) (\<lambda>_ h1. h1) (\<lambda>h1. h1\<lparr>kWrappers := AList.delete pendingPath (kWrappers h1)\<rparr>)"

text \<open>The pending wrapper takes the place of the current one, and the rotation is reported.\<close>

definition commitRotation ::
  "'z golib_scheme \<Rightarrow> lifecycleOperationRequest \<Rightarrow> keyRotateResponse \<Rightarrow> 'm keyHost_scheme \<Rightarrow> (lifecycleRotateResponse, 'm keyHost_scheme) lifecycleResult" where
  "commitRotation L req rotated h =
     (let res = rotateResponse ''policy_denied'' ''confirm_key_rotation'';
          conflict = (\<lambda>_ h1. ((res, Some (errKey errLifecycleConflict)), h1)) in
      check (osCall h) conflict
      (\<lambda>h1. check (osCall (movePending (rotationPendingWrapperPath (kWrapperPath h1)) (kWrapperPath h1) h1)) conflict
      (\<lambda>h2. check (osCall h2) conflict
      (\<lambda>h3. check (auditLifecycle L ''key_rotate'' [] ''ready'' (lqServiceID req) (lqRequestID req) h3)
         (\<lambda>_ h4. ((res, Some (errKey errLifecycleAudit)), h4))
         (\<lambda>h4. ((res\<lparr>ltOutcome := ''ready'', ltApplied := True, ltRotatedAt := rkRotatedAt rotated, ltOldKeyID := rkOldKeyID rotated,
                   ltNewKeyID := rkNewKeyID rotated, ltKeyVersion := rkStoreKeyVersion rotated, ltSecretCount := rkSecretCount rotated,
                   ltRequiresConfirmation := False, ltAuditStatus := ''audit_recorded'', ltNextAction := ''create_and_verify_rotated_backup''\<rparr>,
                  None), h4))))))"

definition replaceMasterKey ::
  "'z golib_scheme \<Rightarrow> keyWrapperProvider \<Rightarrow> wrapperContext \<Rightarrow> lifecycleOperationRequest \<Rightarrow> localStoreFile \<Rightarrow> 'm keyHost_scheme saver
    \<Rightarrow> 'm keyHost_scheme \<Rightarrow> (lifecycleRotateResponse, 'm keyHost_scheme) lifecycleResult" where
  "replaceMasterKey L P ctx req store save h =
     (let res = rotateResponse ''policy_denied'' ''confirm_key_rotation''; oldKey = bMasterKey h;
          pendingWrapper = rotationPendingWrapperPath (kWrapperPath h) in
      attempt (generatePortableMasterKey L h) (\<lambda>err h1. ((res, Some err), h1))
      (\<lambda>newKey h1. attempt (wrapMasterKeyWithProvider L P pendingWrapper newKey ctx (bNow h1) h1) (\<lambda>err h2. ((res, Some err), h2))
      (\<lambda>_ h2.
         let out = rotateMasterKeyAndSave L newKey (Some (rotateReceipt L req oldKey newKey store (bNow h2))) save h2 in
         (case snd (fst out) of
            Some err \<Rightarrow> ((res, Some err), if privateFileWasPublished err then snd out else removePending pendingWrapper (snd out))
          | None \<Rightarrow> commitRotation L req (fst (fst out)) (snd out)))))"

definition rotateManagedMasterKeyWithStoreWriter ::
  "'z golib_scheme \<Rightarrow> keyWrapperProvider \<Rightarrow> wrapperContext \<Rightarrow> lifecycleOperationRequest \<Rightarrow> 'm keyHost_scheme saver
    \<Rightarrow> 'm keyHost_scheme \<Rightarrow> (lifecycleRotateResponse, 'm keyHost_scheme) lifecycleResult" where
  "rotateManagedMasterKeyWithStoreWriter L P ctx req save h =
     (let res = rotateResponse ''policy_denied'' ''confirm_key_rotation'' in
      if validateLifecycleMutationRequest req True \<noteq> None \<or> \<not> validSafeMetadataID (lqExpectedKeyID req)
      then ((res, Some (errKey errLifecycleInvalidRequest)), h)
      else
        let loaded = loadKeyMaterialForStoreWithProvider L P [] [] (kWrapperPath h) ctx h; h1 = snd loaded in
        if snd (fst loaded) \<noteq> None then ((res, Some (errKey errLifecycleConflict)), h1)
        else
          let h2 = h1\<lparr>bMasterKey := kmValue (fst (fst loaded))\<rparr> in
          (case loadStore h2 of Inl _ \<Rightarrow> ((res, Some errBackendDegraded), h2)
           | Inr store \<Rightarrow> (case map_of (stLifecycleOps store) (lqOperationID req) of
               Some receipt \<Rightarrow>
                 if loKind receipt \<noteq> ''rotate'' \<or> loExpectedKeyID receipt \<noteq> lqExpectedKeyID req then ((res, Some (errKey errLifecycleConflict)), h2)
                 else check (auditLifecycle L ''key_rotate_retry'' [] ''ready'' (lqServiceID req) (lqRequestID req) h2)
                   (\<lambda>_ h3. ((res, Some (errKey errLifecycleAudit)), h3))
                   (\<lambda>h3. ((res\<lparr>ltOutcome := ''ready'', ltRotatedAt := loAppliedAt receipt, ltOldKeyID := loOldKeyID receipt,
                             ltNewKeyID := loNewKeyID receipt, ltKeyVersion := loKeyVersion receipt, ltSecretCount := loSecretCount receipt,
                             ltRequiresConfirmation := False, ltAuditStatus := ''audit_recorded'', ltNextAction := ''rotation_already_applied''\<rparr>,
                            None), h3))
             | None \<Rightarrow>
                 if lqExpectedKeyID req \<noteq> masterKeyID L (bMasterKey h2) then ((res, Some (errKey errLifecycleConflict)), h2)
                 else check (auditLifecycle L ''key_rotate_authorized'' [] ''ready'' (lqServiceID req) (lqRequestID req) h2)
                   (\<lambda>_ h3. ((res, Some (errKey errLifecycleAudit)), h3))
                   (\<lambda>h3. replaceMasterKey L P ctx req store save h3))))"

definition rotateManagedMasterKey ::
  "'z golib_scheme \<Rightarrow> keyWrapperProvider \<Rightarrow> wrapperContext \<Rightarrow> lifecycleOperationRequest
    \<Rightarrow> 'm keyHost_scheme \<Rightarrow> (lifecycleRotateResponse, 'm keyHost_scheme) lifecycleResult" where
  "rotateManagedMasterKey L P ctx req = rotateManagedMasterKeyWithStoreWriter L P ctx req saveStore"

subsection \<open>Endpoints\<close>

datatype lifecycleAnswer =
    StatusAnswer lifecycleStatusResponse | BackupAnswer lifecycleBackupResponse
  | RestoreAnswer lifecycleRestoreResponse | RotateAnswer lifecycleRotateResponse

definition writeLifecycleResult :: "gerror option \<Rightarrow> 'r \<Rightarrow> 'r reply" where
  "writeLifecycleResult err res =
     Json (case err of None \<Rightarrow> 200
       | Some e \<Rightarrow>
           if errorIs e (errKey errLifecycleInvalidRequest) then 400
           else if errorIs e (errKey errLifecycleStalePlan) \<or> errorIs e (errKey errLifecycleConflict) then 409
           else if errorIs e errNotExist then 404 else 503) res"

definition lifecycleStatusHandler ::
  "'z lifecyclelib_scheme \<Rightarrow> keyWrapperProvider \<Rightarrow> wrapperContext \<Rightarrow> string \<Rightarrow> httpRequest \<Rightarrow> 'm vaultHost_scheme
    \<Rightarrow> lifecycleAnswer reply \<times> 'm vaultHost_scheme" where
  "lifecycleStatusHandler L P ctx token r h =
     (if hMethod r \<noteq> ''GET'' then
        (writeAPIError 405 ''method_not_allowed'' ''Use GET /v1/management/lifecycle/status.'' ''invalid_ref'' [], h)
      else check (require L token r h) (\<lambda>refusal h1. (refusal, h1))
        (\<lambda>h1. let s = lifecycleStatus L P ctx h1 in (Json (if snd (fst s) = None then 200 else 503) (StatusAnswer (fst (fst s))), snd s)))"

definition lifecycleBackupsHandler ::
  "'z lifecyclelib_scheme \<Rightarrow> string \<Rightarrow> httpRequest \<Rightarrow> lifecycleOperationRequest decoded \<Rightarrow> 'm vaultHost_scheme
    \<Rightarrow> lifecycleAnswer reply \<times> 'm vaultHost_scheme" where
  "lifecycleBackupsHandler L token r body h =
     check (require L token r h) (\<lambda>refusal h1. (refusal, h1))
       (\<lambda>h1. if hMethod r = ''GET'' then
            attempt (listManagedBackups L h1)
              (\<lambda>_ h2. (Json 503 (BackupAnswer (backupResponse ''degraded'' False None [] ''audit_unavailable'' ''repair_backup_inventory'')), h2))
              (\<lambda>backups h2.
                 check (auditLifecycle L ''backup_list'' [] ''ready'' [] [] h2)
                   (\<lambda>_ h3. (Json 503 (BackupAnswer (backupResponse ''degraded'' False None backups ''audit_unavailable'' ''restore_audit_and_retry'')), h3))
                   (\<lambda>h3. (Json 200 (BackupAnswer (backupResponse ''ready'' False None backups ''audit_recorded'' ''select_backup_or_create_new'')), h3)))
          else if hMethod r = ''POST'' then
            (case body of BodyTooLarge \<Rightarrow> (writeDecodeError True, h1) | BodyMalformed \<Rightarrow> (writeDecodeError False, h1)
             | Decoded req \<Rightarrow> let s = createManagedBackup L req h1 in (writeLifecycleResult (snd (fst s)) (BackupAnswer (fst (fst s))), snd s))
          else (writeAPIError 405 ''method_not_allowed'' ''Use GET or POST /v1/management/lifecycle/backups.'' ''invalid_ref'' [], h1))"

definition registerLifecycleAction ::
  "'z golib_scheme \<Rightarrow> string \<Rightarrow> string \<Rightarrow> (lifecycleOperationRequest \<Rightarrow> 'm backend_scheme \<Rightarrow> ('r, 'm backend_scheme) lifecycleResult) \<Rightarrow> httpRequest
    \<Rightarrow> lifecycleOperationRequest decoded \<Rightarrow> 'm backend_scheme \<Rightarrow> 'r reply \<times> 'm backend_scheme" where
  "registerLifecycleAction L token path handler r body h =
     (if hMethod r \<noteq> ''POST'' then (writeAPIError 405 ''method_not_allowed'' (''Use POST '' @ path @ ''.'') ''invalid_ref'' [], h)
      else check (require L token r h) (\<lambda>refusal h1. (refusal, h1))
        (\<lambda>h1. case body of BodyTooLarge \<Rightarrow> (writeDecodeError True, h1) | BodyMalformed \<Rightarrow> (writeDecodeError False, h1)
         | Decoded req \<Rightarrow> let s = handler req h1 in (writeLifecycleResult (snd (fst s)) (fst (fst s)), snd s)))"

definition answering :: "('r \<Rightarrow> lifecycleAnswer) \<Rightarrow> ('r, 'm) lifecycleResult \<Rightarrow> (lifecycleAnswer, 'm) lifecycleResult" where
  "answering f out = ((f (fst (fst out)), snd (fst out)), snd out)"

definition lifecycleActions ::
  "'z lifecyclelib_scheme \<Rightarrow> keyWrapperProvider \<Rightarrow> wrapperContext
    \<Rightarrow> (string \<times> (lifecycleOperationRequest \<Rightarrow> 'm vaultHost_scheme \<Rightarrow> (lifecycleAnswer, 'm vaultHost_scheme) lifecycleResult)) list" where
  "lifecycleActions L P ctx =
     [(''/v1/management/lifecycle/backups/verify'', \<lambda>req h. answering BackupAnswer (verifyManagedBackup L req h)),
      (''/v1/management/lifecycle/restore/dry-run'', \<lambda>req h. answering RestoreAnswer (restoreManagedBackupPlan L req h)),
      (''/v1/management/lifecycle/restore/apply'', \<lambda>req h. answering RestoreAnswer (restoreManagedBackupApply L req h)),
      (''/v1/management/lifecycle/key/rotate'', \<lambda>req h. answering RotateAnswer (rotateManagedMasterKey L P ctx req h))]"

end
