(* ===== verification/Backup_Facts.thy ===== *)
theory Backup_Facts
  imports Backup_Restore
begin

text \<open>
  Facts about key rotation and backups. A visitor is \<open>lawful\<close> when it keeps an invariant of the state and
  relates what it is given to what it returns, and its errors are not about a published file; the ways the code composes visitors keep this, so a
  statement about one payload gives a statement about the whole store.
\<close>

subsection \<open>Lawful visitors\<close>

definition lawful :: "('s \<Rightarrow> bool) \<Rightarrow> ('a \<Rightarrow> 'a \<Rightarrow> bool) \<Rightarrow> ('a, 's) visitor \<Rightarrow> bool" where
  "lawful I Q f \<longleftrightarrow> (\<forall>x st. I st \<longrightarrow> I (snd (f x st)) \<and> (\<forall>y. fst (f x st) = Inr y \<longrightarrow> Q x y)
     \<and> (\<forall>e. fst (f x st) = Inl e \<longrightarrow> \<not> privateFileWasPublished e))"

definition partRel :: "('w \<Rightarrow> 'p) \<Rightarrow> (('p \<Rightarrow> 'p) \<Rightarrow> 'w \<Rightarrow> 'w) \<Rightarrow> ('p \<Rightarrow> 'p \<Rightarrow> bool) \<Rightarrow> 'w \<Rightarrow> 'w \<Rightarrow> bool" where
  "partRel get upd Q w w' \<longleftrightarrow> (\<exists>p. w' = upd (\<lambda>_. p) w \<and> Q (get w) p)"

lemma lawfulD: "lawful I Q f \<Longrightarrow> I st \<Longrightarrow> I (snd (f x st))" "lawful I Q f \<Longrightarrow> I st \<Longrightarrow> fst (f x st) = Inr y \<Longrightarrow> Q x y"
  "lawful I Q f \<Longrightarrow> I st \<Longrightarrow> fst (f x st) = Inl e \<Longrightarrow> \<not> privateFileWasPublished e"
  by (auto simp: lawful_def)

lemma lawful_mono: "lawful I Q f \<Longrightarrow> (\<And>x y. Q x y \<Longrightarrow> R x y) \<Longrightarrow> lawful I R f"
  unfolding lawful_def by blast

lemma lawful_all: "lawful I Q f \<Longrightarrow> lawful I (list_all2 Q) (visitAll f)"
proof -
  assume f: "lawful I Q f"
  have "I st \<Longrightarrow> I (snd (visitAll f xs st)) \<and> (\<forall>ys. fst (visitAll f xs st) = Inr ys \<longrightarrow> list_all2 Q xs ys)
      \<and> (\<forall>e. fst (visitAll f xs st) = Inl e \<longrightarrow> \<not> privateFileWasPublished e)" for xs st
  proof (induction xs arbitrary: st)
    case (Cons x xs)
    note a = lawfulD(1) [OF f Cons.prems, of x] and b = lawfulD(2) [OF f Cons.prems, of x]
    show ?case
    proof (cases "fst (f x st)")
      case (Inr y)
      then show ?thesis using a b Cons.IH [OF a] by (cases "fst (visitAll f xs (snd (f x st)))") auto
    qed (use a lawfulD(3) [OF f Cons.prems, of x] in simp)
  qed simp
  then show ?thesis by (simp add: lawful_def)
qed

lemma lawful_part: "lawful I Q f \<Longrightarrow> lawful I (partRel get upd Q) (visitPart get upd f)"
  unfolding lawful_def visitPart_def partRel_def by (auto simp: attempt_def split: sum.splits)

lemma lawful_seq:
  assumes "lawful I Q f" "lawful I R g"
  shows "lawful I (\<lambda>x z. \<exists>y. Q x y \<and> R y z) (\<lambda>x st. attempt (f x st) (\<lambda>e st1. (Inl e, st1)) g)"
  using assms unfolding lawful_def by (auto simp: attempt_def split: sum.splits) blast+

definition keyed :: "('a \<Rightarrow> 'a \<Rightarrow> bool) \<Rightarrow> 'a gomap \<Rightarrow> 'a gomap \<Rightarrow> bool" where
  "keyed Q = list_all2 (partRel snd apsnd Q)"

lemma lawful_map: "lawful I Q f \<Longrightarrow> lawful I (keyed Q) (visitMap f)"
  unfolding visitMap_def keyed_def by (intro lawful_all lawful_part)

lemma keyed_map_of: "keyed Q xs ys \<Longrightarrow> rel_option Q (map_of xs k) (map_of ys k)"
  unfolding keyed_def by (induction xs ys rule: list_all2_induct) (auto simp: partRel_def)

lemma keyed_members: "keyed Q xs ys \<Longrightarrow> (k, x) \<in> set xs \<Longrightarrow> \<exists>y. (k, y) \<in> set ys \<and> Q x y"
  unfolding keyed_def by (induction xs ys rule: list_all2_induct) (auto simp: partRel_def)

lemma keyed_length: "keyed Q xs ys \<Longrightarrow> length ys = length xs"
  by (simp add: keyed_def list_all2_lengthD)

subsection \<open>The same content under two keys\<close>

definition sameValue :: "'z golib_scheme \<Rightarrow> 'm backend_scheme \<Rightarrow> 'n backend_scheme \<Rightarrow> secretPayload \<Rightarrow> secretPayload \<Rightarrow> bool" where
  "sameValue L b b' p q \<longleftrightarrow> (\<exists>v. decrypt L b p = Inr v \<and> decrypt L b' q = Inr v)"

definition sameVersion :: "(secretPayload \<Rightarrow> secretPayload \<Rightarrow> bool) \<Rightarrow> kvVersionRecord \<Rightarrow> kvVersionRecord \<Rightarrow> bool" where
  "sameVersion S v w \<longleftrightarrow> w = v\<lparr>krPayload := krPayload w\<rparr> \<and> (S (krPayload v) (krPayload w) \<or> krDestroyed v \<and> krPayload v = emptyPayload \<and> w = v)"

definition sameHistory :: "(secretPayload \<Rightarrow> secretPayload \<Rightarrow> bool) \<Rightarrow> kvSecretState option \<Rightarrow> kvSecretState option \<Rightarrow> bool" where
  "sameHistory S = rel_option (\<lambda>s t. ksCurrent t = ksCurrent s \<and> list_all2 (sameVersion S) (ksVersions s) (ksVersions t))"

definition sameEntry :: "(secretPayload \<Rightarrow> secretPayload \<Rightarrow> bool) \<Rightarrow> secretEntry \<Rightarrow> secretEntry \<Rightarrow> bool" where
  "sameEntry S e f \<longleftrightarrow> seRef f = seRef e \<and> seMetadata f = (seMetadata e)\<lparr>smUpdatedAt := smUpdatedAt (seMetadata f)\<rparr>
     \<and> S (sePayload e) (sePayload f) \<and> sameHistory S (seKV e) (seKV f)"

definition sameTombstone :: "(secretPayload \<Rightarrow> secretPayload \<Rightarrow> bool) \<Rightarrow> localSecretTombstone \<Rightarrow> localSecretTombstone \<Rightarrow> bool" where
  "sameTombstone S t u \<longleftrightarrow> u = t\<lparr>tsEntry := tsEntry u\<rparr> \<and> sameEntry S (tsEntry t) (tsEntry u)"

definition sameStored :: "(secretPayload \<Rightarrow> secretPayload \<Rightarrow> bool) \<Rightarrow> rotationStoredVersion \<Rightarrow> rotationStoredVersion \<Rightarrow> bool" where
  "sameStored S v w \<longleftrightarrow> w = v\<lparr>rvPayload := rvPayload w\<rparr> \<and> S (rvPayload v) (rvPayload w)"

definition sameLedger :: "(secretPayload \<Rightarrow> secretPayload \<Rightarrow> bool) \<Rightarrow> rotationLedger \<Rightarrow> rotationLedger \<Rightarrow> bool" where
  "sameLedger S l m \<longleftrightarrow> m = l\<lparr>rlStaged := rlStaged m, rlRetained := rlRetained m\<rparr>
     \<and> keyed (sameStored S) (rlStaged l) (rlStaged m) \<and> keyed (sameStored S) (rlRetained l) (rlRetained m)"

lemma lawful_version:
  assumes "lawful I S f" shows "lawful I (sameVersion S) (visitVersion f)"
proof -
  have "lawful I (sameVersion S) (visitPart krPayload krPayload_update f)"
    by (rule lawful_mono [OF lawful_part [OF assms]]) (auto simp: partRel_def sameVersion_def)
  then show ?thesis unfolding lawful_def visitVersion_def by (auto simp: sameVersion_def)
qed

lemma lawful_history:
  assumes "lawful I S f" shows "lawful I (sameHistory S) (visitHistory f)"
proof -
  have p: "lawful I (\<lambda>s t. ksCurrent t = ksCurrent s \<and> list_all2 (sameVersion S) (ksVersions s) (ksVersions t))
      (visitPart ksVersions ksVersions_update (visitAll (visitVersion f)))"
    by (rule lawful_mono [OF lawful_part [OF lawful_all [OF lawful_version [OF assms]]]]) (auto simp: partRel_def)
  show ?thesis unfolding lawful_def
  proof (intro allI impI conjI)
    fix kv st assume i: "I st"
    show "I (snd (visitHistory f kv st))"
      using lawfulD(1) [OF p i] i by (auto simp: visitHistory_def attempt_def split: option.split sum.split)
    fix y assume "fst (visitHistory f kv st) = Inr y"
    then show "sameHistory S kv y"
      by (auto simp: visitHistory_def attempt_def sameHistory_def split: option.splits sum.splits dest: lawfulD(2) [OF p i])
  next
    fix kv st e assume "I st" "fst (visitHistory f kv st) = Inl e"
    then show "\<not> privateFileWasPublished e"
      by (auto simp: visitHistory_def attempt_def split: option.splits sum.splits dest: lawfulD(3) [OF p])
  qed
qed

lemma lawful_entry:
  assumes "lawful I S f" shows "lawful I (sameEntry S) (visitEntry f)"
  unfolding visitEntry_def
  by (rule lawful_mono [OF lawful_seq [OF lawful_part [OF assms] lawful_part [OF lawful_history [OF assms]]]])
     (auto simp: partRel_def sameEntry_def)

lemma lawful_ledger:
  assumes "lawful I S f" shows "lawful I (sameLedger S) (visitLedger f)"
proof -
  have v: "lawful I (sameStored S) (visitPart rvPayload rvPayload_update f)"
    by (rule lawful_mono [OF lawful_part [OF assms]]) (auto simp: partRel_def sameStored_def)
  show ?thesis unfolding visitLedger_def
    by (rule lawful_mono [OF lawful_seq [OF lawful_part [OF lawful_map [OF v]] lawful_part [OF lawful_map [OF v]]]])
       (auto simp: partRel_def sameLedger_def)
qed

text \<open>What a visit of the whole store leaves alone, and how its parts are related.\<close>

definition sameStore :: "(secretPayload \<Rightarrow> secretPayload \<Rightarrow> bool) \<Rightarrow> localStoreFile \<Rightarrow> localStoreFile \<Rightarrow> bool" where
  "sameStore S s t \<longleftrightarrow> t = s\<lparr>stSecrets := stSecrets t, stTombstones := stTombstones t, stRotations := stRotations t\<rparr>
     \<and> keyed (sameEntry S) (stSecrets s) (stSecrets t) \<and> keyed (sameTombstone S) (stTombstones s) (stTombstones t)
     \<and> keyed (sameLedger S) (stRotations s) (stRotations t)"

lemma lawful_store:
  assumes "lawful I S f" shows "lawful I (sameStore S) (visitStorePayloads f)"
proof -
  have t: "lawful I (sameTombstone S) (visitPart tsEntry tsEntry_update (visitEntry f))"
    by (rule lawful_mono [OF lawful_part [OF lawful_entry [OF assms]]]) (auto simp: partRel_def sameTombstone_def)
  show ?thesis unfolding visitStorePayloads_def
    by (rule lawful_mono [OF lawful_seq [OF lawful_part [OF lawful_map [OF lawful_entry [OF assms]]]
          lawful_seq [OF lawful_part [OF lawful_map [OF t]] lawful_part [OF lawful_map [OF lawful_ledger [OF assms]]]]]])
       (auto simp: partRel_def sameStore_def)
qed

subsection \<open>Rotating the master key\<close>

lemma decrypt_under:
  assumes "lib_ok L" "fst (encryptWithMasterKey L k v b) = Inr p" "bMasterKey b' = k"
  shows "decrypt L b' p = Inr v"
  using decrypt_encrypt [OF assms(1), of v "b\<lparr>bMasterKey := k\<rparr>" p b'] assms(2,3)
  by (auto simp: encrypt_def encryptWithMasterKey_def readNonce_def split: list.splits option.splits)

lemma reencrypt_lawful:
  fixes b :: "'m backend_scheme"
  assumes "lib_ok L"
  shows "lawful (\<lambda>st. \<exists>r. st = b\<lparr>bRandom := r\<rparr>) (sameValue L b (b\<lparr>bMasterKey := k\<rparr>)) (reencrypt L k)"
  unfolding lawful_def
proof (intro allI impI conjI)
  fix p and st :: "'m backend_scheme" assume i: "\<exists>r. st = b\<lparr>bRandom := r\<rparr>"
  then show "\<exists>r. snd (reencrypt L k p st) = b\<lparr>bRandom := r\<rparr>"
    by (auto simp: reencrypt_def encryptWithMasterKey_def readNonce_def split: sum.split list.split option.split)
  fix q assume "fst (reencrypt L k p st) = Inr q"
  then obtain v where v: "decrypt L st p = Inr v" "fst (encryptWithMasterKey L k v st) = Inr q"
    by (auto simp: reencrypt_def split: sum.splits)
  have "decrypt L b p = Inr v" using v(1) decrypt_cong [of st b L p] i by auto
  then show "sameValue L b (b\<lparr>bMasterKey := k\<rparr>) p q" using decrypt_under [OF assms v(2), of "b\<lparr>bMasterKey := k\<rparr>"] by (simp add: sameValue_def)
next
  fix p and st :: "'m backend_scheme" and e assume "fst (reencrypt L k p st) = Inl e"
  then show "\<not> privateFileWasPublished e"
    by (auto simp: reencrypt_def encryptWithMasterKey_def readNonce_def privateFileWasPublished_def split: sum.splits list.splits option.splits)
qed

lemma keyed_then: "keyed Q xs ys \<Longrightarrow> (\<And>x y. Q x y \<Longrightarrow> Q x (g y)) \<Longrightarrow> keyed Q xs (map (apsnd g) ys)"
  unfolding keyed_def by (induction xs ys rule: list_all2_induct) (auto simp: partRel_def)

lemma touched_same:
  "sameEntry S e f \<Longrightarrow> sameEntry S e (touchEntry now f)" "sameTombstone S t u \<Longrightarrow> sameTombstone S t (tsEntry_update (touchEntry now) u)"
proof -
  show e: "sameEntry S e f \<Longrightarrow> sameEntry S e (touchEntry now f)" for e f
    unfolding sameEntry_def touchEntry_def by (cases "seMetadata e"; cases "seMetadata f") simp
  show "sameTombstone S t u \<Longrightarrow> sameTombstone S t (tsEntry_update (touchEntry now) u)"
    using e [of "tsEntry t" "tsEntry u"] unfolding sameTombstone_def by (cases t; cases u) simp
qed

lemma keyed_touched:
  "keyed (sameEntry S) xs ys \<Longrightarrow> keyed (sameEntry S) xs (map (apsnd (touchEntry now)) ys)"
  "keyed (sameTombstone S) us vs \<Longrightarrow> keyed (sameTombstone S) us (map (apsnd (tsEntry_update (touchEntry now))) vs)"
  by (erule keyed_then, erule touched_same)+

lemma rekeyed_same:
  assumes "sameStore S s t"
  shows "keyed (sameEntry S) (stSecrets s) (stSecrets (rekeyedStore L k r now t))"
    "keyed (sameTombstone S) (stTombstones s) (stTombstones (rekeyedStore L k r now t))"
    "keyed (sameLedger S) (stRotations s) (stRotations (rekeyedStore L k r now t))"
    "stKeyID (rekeyedStore L k r now t) = masterKeyID L k"
    "stRecovery (rekeyedStore L k r now t) = stRecovery s"
proof -
  have "t = s\<lparr>stSecrets := stSecrets t, stTombstones := stTombstones t, stRotations := stRotations t\<rparr>"
    using assms unfolding sameStore_def by blast
  then have "stRecovery t = stRecovery s" by (metis localStoreFile.select_convs(14) localStoreFile.surjective localStoreFile.update_convs(9-11))
  then show "stRecovery (rekeyedStore L k r now t) = stRecovery s" by (simp add: rekeyedStore_def)
qed (use assms in \<open>simp_all add: sameStore_def rekeyedStore_def keyed_touched\<close>)

lemma save_published:
  "fst (saveStore s b) = Some e \<Longrightarrow> privateFileWasPublished e \<Longrightarrow> bDisk (snd (saveStore s b)) = Stored s"
  "fst (saveStore s b) = Some e \<Longrightarrow> \<not> privateFileWasPublished e \<Longrightarrow> bDisk (snd (saveStore s b)) = bDisk b"
  by (auto simp: saveStore_def Let_def privateFileWasPublished_def split: list.splits saveFault.splits)

text \<open>
  Either nothing changes, or the store is replaced by one with the same content under the new key and
  the broker switches to that key; a failure after the file was published is of the second kind.
\<close>

lemma rotate_cases:
  fixes b :: "'m backend_scheme"
  assumes "lib_ok L"
  obtains (kept) err where "snd (fst (rotateMasterKeyAndSave L k r saveStore b)) = Some err" "\<not> privateFileWasPublished err"
      "bDisk (snd (rotateMasterKeyAndSave L k r saveStore b)) = bDisk b" "bMasterKey (snd (rotateMasterKeyAndSave L k r saveStore b)) = bMasterKey b"
  | (rekeyed) s t where "loadStore b = Inr s" "sameStore (sameValue L b (b\<lparr>bMasterKey := trimSpace k\<rparr>)) s t" "trimSpace k \<noteq> []" "\<not> isLocked b"
      "bDisk (snd (rotateMasterKeyAndSave L k r saveStore b)) = Stored (rekeyedStore L (trimSpace k) r (bNow b) t)"
      "bMasterKey (snd (rotateMasterKeyAndSave L k r saveStore b)) = trimSpace k"
      "\<forall>err. snd (fst (rotateMasterKeyAndSave L k r saveStore b)) = Some err \<longrightarrow> privateFileWasPublished err"
proof (cases "trimSpace k = [] \<or> isLocked b \<or> is_err (loadStore b)")
  case True
  then show ?thesis
    by (intro kept [of "the (snd (fst (rotateMasterKeyAndSave L k r saveStore b)))"])
       (auto simp: rotateMasterKeyAndSave_def Let_def privateFileWasPublished_def is_err_def split: sum.splits)
next
  case False
  then obtain s where s: "trimSpace k \<noteq> []" "\<not> isLocked b" "loadStore b = Inr s" by (cases "loadStore b") auto
  note lw = lawful_store [OF reencrypt_lawful [OF assms, of b "trimSpace k"]]
  let ?v = "visitStorePayloads (reencrypt L (trimSpace k)) s b"
  have b: "\<exists>r. b = b\<lparr>bRandom := r\<rparr>" by (intro exI [of _ "bRandom b"]) simp
  obtain rnd where i: "snd ?v = b\<lparr>bRandom := rnd\<rparr>" using lawfulD(1) [OF lw b] by blast
  show ?thesis
  proof (cases "fst ?v")
    case (Inl e)
    have "\<not> privateFileWasPublished e" by (rule lawfulD(3) [OF lw b Inl])
    then show ?thesis using Inl s i by (intro kept [of e]) (simp_all add: rotateMasterKeyAndSave_def Let_def)
  next
    case (Inr t)
    have t: "sameStore (sameValue L b (b\<lparr>bMasterKey := trimSpace k\<rparr>)) s t" by (rule lawfulD(2) [OF lw b Inr])
    let ?s = "rekeyedStore L (trimSpace k) r (bNow b) t"
    show ?thesis
    proof (cases "fst (saveStore ?s (snd ?v))")
      case None
      then show ?thesis using Inr s i t save_disk(1) [OF None]
        by (intro rekeyed [OF s(3) t s(1,2)]) (simp_all add: rotateMasterKeyAndSave_def Let_def)
    next
      case (Some e)
      show ?thesis
      proof (cases "privateFileWasPublished e")
        case True
        then show ?thesis using Inr s i t Some save_published(1) [OF Some True]
          by (intro rekeyed [OF s(3) t s(1,2)]) (simp_all add: rotateMasterKeyAndSave_def Let_def privateFileWasPublished_def)
      next
        case False
        then show ?thesis using Inr s i t Some save_published(2) [OF Some False]
          by (intro kept [of "errWrapped errBackendDegraded e"]) (simp_all add: rotateMasterKeyAndSave_def Let_def privateFileWasPublished_def)
      qed
    qed
  qed
qed

lemma sameValue_cong: "bMasterKey b = bMasterKey c \<Longrightarrow> bMasterKey b' = bMasterKey c' \<Longrightarrow> sameValue L b b' = sameValue L c c'"
  by (simp add: fun_eq_iff sameValue_def decrypt_cong [of b c] decrypt_cong [of b' c'])

lemma same_vault:
  assumes "loadStore b = Inr s" "bDisk b' = Stored t" "keyed (sameEntry (sameValue L b b')) (stSecrets s) (stSecrets t)"
  shows "vault L b' = vault L b"
proof
  fix ref
  show "vault L b' ref = vault L b ref"
    using keyed_map_of [OF assms(3), of ref] assms(2) secretsOf_load [OF assms(1)]
    by (auto simp: vault_def secretsOf_def [of "Stored _"] sameEntry_def sameValue_def option_rel_Some1 option_rel_Some2 split: option.split)
qed

text \<open>
  Property C27. Rotating the master key loses nothing. When it succeeds the broker works under the new
  key and the store carries its id; every secret resolves to the value it had, and the whole
  content of the store is preserved: each secret with every version of its history, each tombstone
  and each staged or retained rotation version is still there with the same data, and its payload
  opens under the new key to what it opened to under the old one.
\<close>

theorem key_rotation_keeps_content:
  assumes "lib_ok L" "rotateMasterKey L k b = ((res, None), b')"
  shows "bMasterKey b' = trimSpace k \<and> vault L b' = vault L b
    \<and> (\<exists>s t. loadStore b = Inr s \<and> bDisk b' = Stored t \<and> stKeyID t = masterKeyID L (trimSpace k)
         \<and> keyed (sameEntry (sameValue L b b')) (stSecrets s) (stSecrets t)
         \<and> keyed (sameTombstone (sameValue L b b')) (stTombstones s) (stTombstones t)
         \<and> keyed (sameLedger (sameValue L b b')) (stRotations s) (stRotations t))"
proof (rule rotate_cases [OF assms(1), of k None b])
  fix err assume "snd (fst (rotateMasterKeyAndSave L k None saveStore b)) = Some err"
  then show ?thesis using assms(2) by (simp add: rotateMasterKey_def)
next
  fix s t
  assume a: "loadStore b = Inr s" "sameStore (sameValue L b (b\<lparr>bMasterKey := trimSpace k\<rparr>)) s t"
    "bDisk (snd (rotateMasterKeyAndSave L k None saveStore b)) = Stored (rekeyedStore L (trimSpace k) None (bNow b) t)"
    "bMasterKey (snd (rotateMasterKeyAndSave L k None saveStore b)) = trimSpace k"
  then have b': "bDisk b' = Stored (rekeyedStore L (trimSpace k) None (bNow b) t)" "bMasterKey b' = trimSpace k"
    using assms(2) by (simp_all add: rotateMasterKey_def)
  have "sameValue L b (b\<lparr>bMasterKey := trimSpace k\<rparr>) = sameValue L b b'" by (rule sameValue_cong) (simp_all add: b'(2))
  note r = rekeyed_same [OF a(2) [unfolded this], of L "trimSpace k" None "bNow b"]
  show ?thesis using a(1) b' r(1-4) same_vault [OF a(1) b'(1) r(1)] by blast
qed

subsection \<open>Backup and restore\<close>

lemma osCall_sel [simp]:
  "bDisk (snd (osCall h)) = bDisk h" "bMasterKey (snd (osCall h)) = bMasterKey h" "bNow (snd (osCall h)) = bNow h"
  "bSaveFaults (snd (osCall h)) = bSaveFaults h" "kWrappers (snd (osCall h)) = kWrappers h" "kWrapperPath (snd (osCall h)) = kWrapperPath h"
  "vBackups (snd (osCall v)) = vBackups v" "bRandom (snd (osCall h)) = bRandom h"
  by (simp_all add: osCall_def)

lemma osCall_ok: "kFaults h = [] \<Longrightarrow> fst (osCall h) = None" "kFaults h = [] \<Longrightarrow> kFaults (snd (osCall h)) = []"
  by (simp_all add: osCall_def)

lemma audit_keeps_files [simp]:
  "vBackups (audit_ignored L op ref oc svc rid v) = vBackups v"
  "kWrappers (audit_ignored L op ref oc svc rid h) = kWrappers h" "kFaults (audit_ignored L op ref oc svc rid h) = kFaults h"
  "kWrapperPath (audit_ignored L op ref oc svc rid h) = kWrapperPath h"
  using audit_frame [of L op ref oc svc rid v] audit_frame [of L op ref oc svc rid h] by (auto simp: audit_ignored_def)

lemma save_keeps_files [simp]:
  "vBackups (snd (saveStore s v)) = vBackups v" "kWrappers (snd (saveStore s h)) = kWrappers h" "kFaults (snd (saveStore s h)) = kFaults h"
  "kWrapperPath (snd (saveStore s h)) = kWrapperPath h"
  by (simp_all add: saveStore_def Let_def split: list.split saveFault.split)

lemma verify_cong: "bMasterKey b = bMasterKey b' \<Longrightarrow> verifyStoreDecryptable L s b = verifyStoreDecryptable L s b'"
  by (simp add: verifyStoreDecryptable_def decrypt_cong [of b b'])

lemma write_backup_keeps [simp]:
  "bDisk (snd (writeBackupArtifact p a h)) = bDisk h" "bMasterKey (snd (writeBackupArtifact p a h)) = bMasterKey h"
  by (cases "fst (osCall h)"; cases "fst (osCall (snd (osCall h)))"; simp add: writeBackupArtifact_def)+

lemma read_backup:
  assumes "fst (readBackupArtifact p h) = Inr a"
  shows "map_of (vBackups h) p = Some (BackupFile a)" "wellFormedArtifact a" "snd (readBackupArtifact p h) = snd (osCall h)"
  using assms by (cases "fst (osCall h)"; auto simp: readBackupArtifact_def split: option.splits backupFile.splits if_splits)+

lemma backup_written:
  assumes "createBackup L path h = (Inr res, h1)"
  obtains s where "loadStore h = Inr s" "verifyStoreDecryptable L s h = None" "trimSpace path \<noteq> []" "\<not> isLocked h"
    "map_of (vBackups h1) (trimSpace path) = Some (BackupFile (artifactOf L s (bNow h) (bMasterKey h)))" "bMasterKey h1 = bMasterKey h"
    "bDisk h1 = bDisk h"
proof -
  have g: "trimSpace path \<noteq> []" "\<not> isLocked h" using assms by (auto simp: createBackup_def Let_def split: if_splits)
  then obtain s where s: "loadStore h = Inr s" "verifyStoreDecryptable L s h = None"
    using assms by (auto simp: createBackup_def Let_def split: if_splits sum.splits)
  let ?a = "artifactOf L s (bNow h) (bMasterKey h)"
  have w: "fst (writeBackupArtifact (trimSpace path) ?a h) = None"
    using assms g s by (cases "fst (writeBackupArtifact (trimSpace path) ?a h)") (simp_all add: createBackup_def Let_def)
  have f: "map_of (vBackups (snd (writeBackupArtifact (trimSpace path) ?a h))) (trimSpace path) = Some (BackupFile ?a)"
    using w by (cases "fst (osCall h)"; cases "fst (osCall (snd (osCall h)))") (simp_all add: writeBackupArtifact_def)
  have "h1 = audit_ignored L ''backup_create'' [] ''ready'' [] [] (snd (writeBackupArtifact (trimSpace path) ?a h))"
    using assms g s w by (simp add: createBackup_def Let_def)
  then show ?thesis using that [OF s g] f by simp
qed

lemma restore_saved:
  assumes "restoreBackup L path h = (Inr res, h1)"
  obtains a where "map_of (vBackups h) (trimSpace path) = Some (BackupFile a)" "wellFormedArtifact a"
    "verifyBackupArtifactIntegrity L a (bMasterKey h)" "verifyStoreDecryptable L (baStore a) h = None"
    "bDisk h1 = Stored ((baStore a)\<lparr>stUpdatedAt := bNow h\<rparr>)" "bMasterKey h1 = bMasterKey h"
proof -
  let ?p = "trimSpace path" and ?h = "snd (osCall h)"
  have g: "?p \<noteq> []" "\<not> isLocked h" using assms by (auto simp: restoreBackup_def Let_def split: if_splits)
  obtain a where a: "fst (readBackupArtifact ?p h) = Inr a"
    using assms g by (cases "fst (readBackupArtifact ?p h)") (simp_all add: restoreBackup_def Let_def)
  note r = read_backup [OF a]
  have v: "verifyBackupArtifactIntegrity L a (bMasterKey h)" "verifyStoreDecryptable L (baStore a) ?h = None"
    using assms g a r(3) by (auto simp: restoreBackup_def Let_def split: if_splits)
  let ?s = "(baStore a)\<lparr>stUpdatedAt := bNow h\<rparr>"
  have ok: "fst (saveStore ?s ?h) = None"
    using assms g a r(3) v by (cases "fst (saveStore ?s ?h)") (auto simp: restoreBackup_def Let_def split: if_splits)
  have "h1 = audit_ignored L ''backup_restore'' [] ''ready'' [] [] (snd (saveStore ?s ?h))"
    using assms g a r(3) v ok by (auto simp: restoreBackup_def Let_def split: if_splits)
  then show ?thesis using that [OF r(1,2) v(1)] v(2) verify_cong [of ?h h L "baStore a"] save_disk(1) [OF ok] by simp
qed

lemma trimSpace_solid:
  assumes "list_all plainChar s" "CHR '' '' \<notin> set s" shows "trimSpace s = s"
proof -
  have r: "go_runes s = map (\<lambda>c. [c]) s" by (rule go_runes_ascii [OF plain_ascii [OF assms(1)]])
  have "list_all (\<lambda>r. \<not> isSpaceRune r) (go_runes s)" using assms unfolding r by (auto simp: list_all_iff isSpaceRune_plain)
  then show ?thesis by (simp add: trimSpace_def trimRunes_none)
qed

lemma hex_solid: "list_all plainChar (hexEncode x)" "CHR '' '' \<notin> set (hexEncode x)"
proof -
  have "plainChar (hexDigit n) \<and> hexDigit n \<noteq> CHR '' ''" for n
  proof -
    have "n mod 16 < length ''0123456789abcdef''" by simp
    then have "hexDigit n \<in> set ''0123456789abcdef''" unfolding hexDigit_def by (rule nth_mem)
    moreover have "\<forall>c \<in> set ''0123456789abcdef''. plainChar c \<and> c \<noteq> CHR '' ''" by code_simp
    ultimately show ?thesis by blast
  qed
  then show "list_all plainChar (hexEncode x)" "CHR '' '' \<notin> set (hexEncode x)"
    by (auto simp: hexEncode_def list_all_iff) (metis)+
qed

lemma signature_trimmed: "trimSpace (signBackupArtifact L a k) = signBackupArtifact L a k"
proof (rule trimSpace_solid)
  have "list_all plainChar ''hmac-sha256:''" by code_simp
  then show "list_all plainChar (signBackupArtifact L a k)" by (simp add: signBackupArtifact_def hex_solid(1))
qed (simp add: signBackupArtifact_def hex_solid(2))

lemma artifact_sound:
  "verifyBackupArtifactIntegrity L (artifactOf L s now k) k" "stVersion s = 1 \<Longrightarrow> wellFormedArtifact (artifactOf L s now k)"
  "baStore (artifactOf L s now k) = s" "baStoreKeyID (artifactOf L s now k) = masterKeyID L k"
  by (simp_all add: verifyBackupArtifactIntegrity_def artifactOf_def Let_def signature_trimmed wellFormedArtifact_def, simp_all add: signBackupArtifact_def)


subsection \<open>A concrete vault\<close>

definition demoSecret :: secretEntry where
  "demoSecret = \<lparr>seRef = ''services/api/db'', seMetadata = \<lparr>smSourceID = ''local'', smVersion = ''v0'', smCreatedAt = 1, smUpdatedAt = 1\<rparr>,
     sePayload = \<lparr>spAlg = ''AES-256-GCM'', spKeyID = [], spKeyVersion = [], spNonce = ''nnnnnnnnnnnn'',
       spCiphertext = gcmSeal toy_lib (sha256 toy_lib ''master'') ''nnnnnnnnnnnn'' ''old''\<rparr>, seKV = None\<rparr>"

definition demoStoreFile :: localStoreFile where
  "demoStoreFile = (freshStore 1)\<lparr>stSecrets := [(''services/api/db'', demoSecret)]\<rparr>"

definition demoHost :: vaultHost where
  "demoHost = keyHost.extend (backend.extend (demoBackend\<lparr>bDisk := Stored demoStoreFile\<rparr>)
     \<lparr>kStorePath = ''/s/store.json'', kWrapperPath = ''/s/wrapper.json'', kWrappers = [], kKeyFiles = [], kFaults = []\<rparr>)
     \<lparr>vBackupRoot = ''/s/backups'', vWorkDir = ''/s'', vBackups = []\<rparr>"

definition toy_backuplib :: backuplib where
  "toy_backuplib = golib.extend toy_lib \<lparr>artifactJSON = (\<lambda>a. replicate (nat (baSecretCount a)) (CHR ''s''))\<rparr>"

lemma demo_host:
  "bDisk demoHost = Stored demoStoreFile" "bMasterKey demoHost = ''master''" "bSaveFaults demoHost = []" "kFaults demoHost = []"
  "loadStore demoHost = Inr demoStoreFile" "stVersion demoStoreFile = 1" "\<not> isLocked demoHost" "bRandom demoHost = []" "kWrapperPath demoHost = ''/s/wrapper.json''"
proof -
  show d: "bDisk demoHost = Stored demoStoreFile" and k: "bMasterKey demoHost = ''master''" and "bSaveFaults demoHost = []" "kFaults demoHost = []"
    and "bRandom demoHost = []" and "kWrapperPath demoHost = ''/s/wrapper.json''"
    by (simp_all add: demoHost_def keyHost.defs backend.defs demoBackend_def lockState.defs)
  show "loadStore demoHost = Inr demoStoreFile" by (simp add: loadStore_def d)
  show "stVersion demoStoreFile = 1" by (simp add: demoStoreFile_def freshStore_def)
  have "trimSpace ''master'' \<noteq> []" by code_simp
  then show "\<not> isLocked demoHost" by (simp add: isLocked_def k)
qed

lemma rotate_runs:
  assumes "trimSpace k \<noteq> []" "\<not> isLocked b" "loadStore b = Inr s" "\<not> is_err (fst (visitStorePayloads (reencrypt L (trimSpace k)) s b))"
    and "bSaveFaults (snd (visitStorePayloads (reencrypt L (trimSpace k)) s b)) = []"
  shows "snd (fst (rotateMasterKeyAndSave L k r saveStore b)) = None"
  using assms save_faultless(1) [OF assms(5)]
  by (cases "fst (visitStorePayloads (reencrypt L (trimSpace k)) s b)") (simp_all add: rotateMasterKeyAndSave_def Let_def)

lemma visit_demo:
  assumes "decrypt L b (sePayload demoSecret) = Inr v" "fst (encryptWithMasterKey L k v b) = Inr p" "lib_ok L"
  shows "\<not> is_err (fst (visitStorePayloads (reencrypt L k) demoStoreFile b))"
    "\<exists>r. snd (visitStorePayloads (reencrypt L k) demoStoreFile b) = b\<lparr>bRandom := r\<rparr>"
proof -
  show "\<not> is_err (fst (visitStorePayloads (reencrypt L k) demoStoreFile b))"
    using assms(1,2)
    by (simp add: visitStorePayloads_def demoStoreFile_def freshStore_def visitPart_def visitMap_def visitEntry_def visitHistory_def reencrypt_def demoSecret_def)
  show "\<exists>r. snd (visitStorePayloads (reencrypt L k) demoStoreFile b) = b\<lparr>bRandom := r\<rparr>"
    by (rule lawfulD(1) [OF lawful_store [OF reencrypt_lawful [OF assms(3)]]]) (intro exI [of _ "bRandom b"], simp)
qed

lemma demo_decrypt: "bMasterKey b = ''master'' \<Longrightarrow> decrypt toy_lib b (sePayload demoSecret) = Inr ''old''"
proof -
  have "decrypt toy_lib demoBackend (sePayload demoSecret) = Inr ''old''" by code_simp
  moreover have "bMasterKey demoBackend = ''master''" by (simp add: demoBackend_def lockState.defs)
  ultimately show "bMasterKey b = ''master'' \<Longrightarrow> decrypt toy_lib b (sePayload demoSecret) = Inr ''old''"
    using decrypt_cong [of b demoBackend toy_lib] by simp
qed

theorem key_rotation_keeps_content_witness:
  "\<exists>res b'. rotateMasterKey toy_lib ''next'' demoHost = ((res, None), b') \<and> bMasterKey b' = ''next''
     \<and> vault toy_lib b' = vault toy_lib demoHost \<and> vault toy_lib b' ''services/api/db'' = Some ''old''"
proof -
  have n: "trimSpace ''next'' = ''next''" by code_simp
  obtain p where "fst (encryptWithMasterKey toy_lib ''next'' ''old'' demoHost) = Inr p"
    using demo_host(8) by (simp add: encryptWithMasterKey_def readNonce_def)
  note v = visit_demo [OF demo_decrypt [OF demo_host(2)] this toy_lib_ok]
  obtain r where "snd (visitStorePayloads (reencrypt toy_lib ''next'') demoStoreFile demoHost) = demoHost\<lparr>bRandom := r\<rparr>" using v(2) by blast
  then have "snd (fst (rotateMasterKey toy_lib ''next'' demoHost)) = None" unfolding rotateMasterKey_def
    by (intro rotate_runs [OF _ demo_host(7,5)]) (use v(1) demo_host(3) in \<open>simp_all add: n\<close>)
  then obtain res b' where u: "rotateMasterKey toy_lib ''next'' demoHost = ((res, None), b')" by (metis prod.collapse)
  have "vault toy_lib demoHost ''services/api/db'' = Some ''old''"
    using demo_decrypt [OF demo_host(2)] by (simp add: vault_def demo_host(1) secretsOf_def demoStoreFile_def)
  with key_rotation_keeps_content [OF toy_lib_ok u] u show ?thesis by (simp add: n)
qed

lemma create_runs:
  assumes "trimSpace path \<noteq> []" "\<not> isLocked h" "loadStore h = Inr s" "verifyStoreDecryptable L s h = None" "kFaults h = []"
  shows "\<not> is_err (fst (createBackup L path h))" "kFaults (snd (createBackup L path h)) = []" "bSaveFaults (snd (createBackup L path h)) = bSaveFaults h"
proof -
  let ?a = "artifactOf L s (bNow h) (bMasterKey h)"
  note o = osCall_ok(1) [OF assms(5)] osCall_ok [OF osCall_ok(2) [OF assms(5)]]
  have w: "fst (writeBackupArtifact (trimSpace path) ?a h) = None" "kFaults (snd (writeBackupArtifact (trimSpace path) ?a h)) = []"
    "bSaveFaults (snd (writeBackupArtifact (trimSpace path) ?a h)) = bSaveFaults h"
    using o by (simp_all add: writeBackupArtifact_def)
  show "\<not> is_err (fst (createBackup L path h))" "kFaults (snd (createBackup L path h)) = []" "bSaveFaults (snd (createBackup L path h)) = bSaveFaults h"
    using assms w by (simp_all add: createBackup_def Let_def)
qed

lemma verify_demo:
  assumes "decrypt L b (sePayload demoSecret) = Inr v" shows "verifyStoreDecryptable L demoStoreFile b = None"
  using assms by (simp add: verifyStoreDecryptable_def visitStorePayloads_def demoStoreFile_def freshStore_def visitPart_def visitMap_def
      visitEntry_def visitHistory_def demoSecret_def)


end
