(* ===== verification/Lifecycle_Facts.thy ===== *)
theory Lifecycle_Facts
  imports Lifecycle Backup_Facts
begin

text \<open>
  Facts about the managed lifecycle. The wrapper file and the store file are two files that cannot be
  replaced together, so a key rotation writes the new key to a pending wrapper first and a later
  load decides by the key id of the store which of the two wrappers is the right one. \<open>recoverable\<close>
  states what this protocol maintains; loading the key and rotating it keep it under any faults.
\<close>

subsection \<open>Wrappers that hold a key\<close>

definition readableWrapper :: "localKeyWrapper \<Rightarrow> bool" where
  "readableWrapper w \<longleftrightarrow> lwVersion w = localWrapperVersion \<and> lwServiceID w = serviceID \<and> lwAPIVersion w = apiVersion
     \<and> lwCiphertext w \<noteq> [] \<and> lwKeyID w \<noteq> [] \<and> lwAlg w \<noteq> []"

definition wrapperHolds ::
  "'z golib_scheme \<Rightarrow> keyWrapperProvider \<Rightarrow> wrapperContext \<Rightarrow> wrapperFile gomap \<Rightarrow> string \<Rightarrow> string \<Rightarrow> bool" where
  "wrapperHolds L P ctx ws path k \<longleftrightarrow> (\<exists>w. map_of ws path = Some (WrapperFile w) \<and> readableWrapper w \<and> openWrapper L P ctx w = Inr k)"

definition encodes_nonempty :: "'z golib_scheme \<Rightarrow> bool" where
  "encodes_nonempty L \<longleftrightarrow> (\<forall>s. s \<noteq> [] \<longrightarrow> b64Encode L s \<noteq> [])"

definition pathsOk :: "string \<Rightarrow> bool" where
  "pathsOk path \<longleftrightarrow> path \<noteq> [] \<and> trimSpace path = path \<and> trimSpace (rotationPendingWrapperPath path) = rotationPendingWrapperPath path"

lemma pending_differs [simp]: "rotationPendingWrapperPath path \<noteq> path" "path \<noteq> rotationPendingWrapperPath path"
  by (simp_all add: rotationPendingWrapperPath_def)

lemma holds_unique: "wrapperHolds L P ctx ws path k \<Longrightarrow> wrapperHolds L P ctx ws path k' \<Longrightarrow> k' = k"
  by (auto simp: wrapperHolds_def)

lemma holds_update [simp]:
  "path \<noteq> p \<Longrightarrow> wrapperHolds L P ctx (AList.update p w ws) path k = wrapperHolds L P ctx ws path k"
  "path \<noteq> p \<Longrightarrow> wrapperHolds L P ctx (AList.delete p ws) path k = wrapperHolds L P ctx ws path k"
  "\<not> wrapperHolds L P ctx (AList.delete path ws) path k"
  by (simp_all add: wrapperHolds_def update_conv' delete_conv')

lemma masterKeyID_trim [simp]: "masterKeyID L (trimSpace k) = masterKeyID L k"
  by (simp add: masterKeyID_def)

lemma masterKeyID_solid: "masterKeyID L k \<noteq> []" "trimSpace (masterKeyID L k) = masterKeyID L k"
proof -
  have "list_all plainChar ''mk-''" by code_simp
  moreover have "list_all plainChar (take 16 (hexEncode (sha256 L (trimSpace k))))" "CHR '' '' \<notin> set (take 16 (hexEncode (sha256 L (trimSpace k))))"
    using hex_solid [of "sha256 L (trimSpace k)"] by (auto simp: list_all_iff dest: in_set_takeD)
  ultimately show "trimSpace (masterKeyID L k) = masterKeyID L k" unfolding masterKeyID_def by (intro trimSpace_solid) simp_all
qed (simp add: masterKeyID_def)

text \<open>A wrapper written for a key holds that key, trimmed.\<close>

lemma written_holds:
  assumes "lib_ok L" "provider_ok P" "encodes_nonempty L" "pvProtect P (trimSpace k) = Some c" "validatePortableMasterKey L k = None"
  shows "wrapperHolds L P ctx (AList.update path (WrapperFile (wrapperOf L P k ctx c t now)) ws) path (trimSpace k)"
proof -
  have "c \<noteq> []" "pvUnprotect P c = Some (trimSpace k)" "pvAlgorithm P \<noteq> []" using assms(2,4) by (auto simp: provider_ok_def)
  moreover have "validatePortableMasterKey L (trimSpace k) = None" using assms(5) by (simp only: validatePortableMasterKey_def trimSpace_idem)
  moreover have "b64Encode L c \<noteq> []" using assms(3) \<open>c \<noteq> []\<close> by (simp add: encodes_nonempty_def)
  ultimately show ?thesis using assms(1)
    by (simp add: wrapperHolds_def update_conv' readableWrapper_def wrapperOf_def openWrapper_def masterKeyID_solid(1))
qed

subsection \<open>Reading a wrapper\<close>

lemma read_wrapper:
  "fst (readLocalKeyWrapper path h) = Inr w \<Longrightarrow> map_of (kWrappers h) (trimSpace path) = Some (WrapperFile w) \<and> readableWrapper w"
  "map_of (kWrappers h) (trimSpace path) = Some (WrapperFile w) \<Longrightarrow> readableWrapper w \<Longrightarrow> kFaults h = [] \<Longrightarrow> fst (readLocalKeyWrapper path h) = Inr w"
proof -
  show "fst (readLocalKeyWrapper path h) = Inr w \<Longrightarrow> map_of (kWrappers h) (trimSpace path) = Some (WrapperFile w) \<and> readableWrapper w"
    by (cases "fst (osCall h)") (auto simp: readLocalKeyWrapper_def readableWrapper_def split: option.splits wrapperFile.splits if_splits)
  show "map_of (kWrappers h) (trimSpace path) = Some (WrapperFile w) \<Longrightarrow> readableWrapper w \<Longrightarrow> kFaults h = [] \<Longrightarrow> fst (readLocalKeyWrapper path h) = Inr w"
    by (simp add: readLocalKeyWrapper_def osCall_ok readableWrapper_def localWrapperVersion_def)
qed

text \<open>The host without its pending faults: what a call that only reads leaves alone.\<close>

definition still :: "'m keyHost_scheme \<Rightarrow> 'm keyHost_scheme" where "still h = h\<lparr>kFaults := []\<rparr>"

lemma still_os [simp]: "still (snd (osCall h)) = still h" by (simp add: still_def osCall_def)

lemma still_sel:
  "still h' = still h \<Longrightarrow> kWrappers h' = kWrappers h" "still h' = still h \<Longrightarrow> bDisk h' = bDisk h" "still h' = still h \<Longrightarrow> bMasterKey h' = bMasterKey h"
  "still h' = still h \<Longrightarrow> kWrapperPath h' = kWrapperPath h" "still h' = still h \<Longrightarrow> bRandom h' = bRandom h" "still h' = still h \<Longrightarrow> kKeyFiles h' = kKeyFiles h"
  unfolding still_def by (drule arg_cong [of _ _ kWrappers] arg_cong [of _ _ bDisk] arg_cong [of _ _ bMasterKey]
    arg_cong [of _ _ kWrapperPath] arg_cong [of _ _ bRandom] arg_cong [of _ _ kKeyFiles], simp; fail)+

lemma still_read [simp]: "still (snd (readLocalKeyWrapper path h)) = still h"
  by (cases "fst (osCall h)") (simp_all add: readLocalKeyWrapper_def)

lemma still_unwrap [simp]: "still (snd (unwrapMasterKeyWithProvider L P path ctx h)) = still h"
proof -
  let ?r = "readLocalKeyWrapper path (snd (osCall (snd (osCall h))))"
  show ?thesis
    by (cases "fst (osCall h)"; cases "map_of (kWrappers h) path"; cases "fst (osCall (snd (osCall h)))"; cases "fst ?r")
       (simp_all add: unwrapMasterKeyWithProvider_def)
qed

lemma unwrap_result:
  assumes "trimSpace path = path" "fst (unwrapMasterKeyWithProvider L P path ctx h) = Inr k"
  shows "wrapperHolds L P ctx (kWrappers h) path k"
proof -
  have c: "wcSupported ctx" "fst (osCall h) = None" "fst (osCall (snd (osCall h))) = None" "map_of (kWrappers h) path \<noteq> None"
    using assms(2) by (cases "fst (osCall h)"; cases "fst (osCall (snd (osCall h)))"; auto simp: unwrapMasterKeyWithProvider_def split: if_splits)+
  then have e: "fst (attempt (readLocalKeyWrapper path (snd (osCall (snd (osCall h))))) (\<lambda>e h3. (Inl e, h3)) (\<lambda>w h3. (openWrapper L P ctx w, h3))) = Inr k"
    using assms(2) by (auto simp: unwrapMasterKeyWithProvider_def)
  then obtain w where w: "fst (readLocalKeyWrapper path (snd (osCall (snd (osCall h))))) = Inr w" "openWrapper L P ctx w = Inr k"
    by (cases "fst (readLocalKeyWrapper path (snd (osCall (snd (osCall h)))))") auto
  show ?thesis using read_wrapper(1) [OF w(1)] w(2) assms(1) by (auto simp: wrapperHolds_def)
qed

lemma unwrap_runs:
  assumes "trimSpace path = path" "kFaults h = []" "wcSupported ctx" "wrapperHolds L P ctx (kWrappers h) path k"
  shows "fst (unwrapMasterKeyWithProvider L P path ctx h) = Inr k" "kFaults (snd (unwrapMasterKeyWithProvider L P path ctx h)) = []"
proof -
  obtain w where w: "map_of (kWrappers h) path = Some (WrapperFile w)" "readableWrapper w" "openWrapper L P ctx w = Inr k"
    using assms(4) by (auto simp: wrapperHolds_def)
  note o = osCall_ok [OF assms(2)] osCall_ok [OF osCall_ok(2) [OF assms(2)]]
  let ?h = "snd (osCall (snd (osCall h)))"
  have r: "fst (readLocalKeyWrapper path ?h) = Inr w" using w(1,2) o(4) assms(1) by (intro read_wrapper(2)) simp_all
  have f: "kFaults (snd (readLocalKeyWrapper path ?h)) = []" using osCall_ok [OF o(4)] by (simp add: readLocalKeyWrapper_def)
  show "fst (unwrapMasterKeyWithProvider L P path ctx h) = Inr k" "kFaults (snd (unwrapMasterKeyWithProvider L P path ctx h)) = []"
    using o(1,3) w r f assms(3) by (simp_all add: unwrapMasterKeyWithProvider_def)
qed

subsection \<open>What an interrupted rotation leaves\<close>

text \<open>
  The store names the key \<open>k\<close> by its id. Either the wrapper holds \<open>k\<close>, or it holds a key with another id
  and the pending wrapper holds \<open>k\<close>. A pending wrapper whose key has the id of \<open>k\<close> holds \<open>k\<close>.
\<close>

definition wrapsFor ::
  "'z golib_scheme \<Rightarrow> keyWrapperProvider \<Rightarrow> wrapperContext \<Rightarrow> string \<Rightarrow> wrapperFile gomap \<Rightarrow> string \<Rightarrow> bool" where
  "wrapsFor L P ctx path ws k \<longleftrightarrow>
     (wrapperHolds L P ctx ws path k
      \<or> (\<exists>c. wrapperHolds L P ctx ws path c \<and> masterKeyID L c \<noteq> masterKeyID L k) \<and> wrapperHolds L P ctx ws (rotationPendingWrapperPath path) k)
     \<and> (\<forall>c. wrapperHolds L P ctx ws (rotationPendingWrapperPath path) c \<longrightarrow> masterKeyID L c = masterKeyID L k \<longrightarrow> c = k)"

definition recoverable :: "'z golib_scheme \<Rightarrow> keyWrapperProvider \<Rightarrow> wrapperContext \<Rightarrow> string \<Rightarrow> 'm keyHost_scheme \<Rightarrow> bool" where
  "recoverable L P ctx k h \<longleftrightarrow> pathsOk (kWrapperPath h) \<and> wcSupported ctx \<and> wrapsFor L P ctx (kWrapperPath h) (kWrappers h) k
     \<and> (\<exists>s. bDisk h = Stored s \<and> stKeyID s = masterKeyID L k)"

lemma recoverable_still: "still h' = still h \<Longrightarrow> recoverable L P ctx k h' = recoverable L P ctx k h"
  by (simp only: recoverable_def still_sel(1) [of h' h] still_sel(2) [of h' h] still_sel(4) [of h' h])

lemma moved_holds:
  assumes "wrapperHolds L P ctx (kWrappers h) (rotationPendingWrapperPath path) k"
  shows "wrapperHolds L P ctx (kWrappers (movePending (rotationPendingWrapperPath path) path h)) path k"
    "\<not> wrapperHolds L P ctx (kWrappers (movePending (rotationPendingWrapperPath path) path h)) (rotationPendingWrapperPath path) c"
proof -
  obtain w where "map_of (kWrappers h) (rotationPendingWrapperPath path) = Some (WrapperFile w)" using assms by (auto simp: wrapperHolds_def)
  then show "wrapperHolds L P ctx (kWrappers (movePending (rotationPendingWrapperPath path) path h)) path k"
    "\<not> wrapperHolds L P ctx (kWrappers (movePending (rotationPendingWrapperPath path) path h)) (rotationPendingWrapperPath path) c"
    using assms by (simp_all add: movePending_def) (simp add: wrapperHolds_def update_conv')
qed

lemma movePending_sel [simp]:
  "bDisk (movePending p q h) = bDisk h" "kWrapperPath (movePending p q h) = kWrapperPath h" "bMasterKey (movePending p q h) = bMasterKey h"
  "bRandom (movePending p q h) = bRandom h" "kFaults (movePending p q h) = kFaults h"
  by (simp_all add: movePending_def split: option.split)

lemma still_upd: "still (h\<lparr>kWrappers := ws\<rparr>) = (still h)\<lparr>kWrappers := ws\<rparr>" by (simp add: still_def)

lemma still_move: "still h' = still h \<Longrightarrow> still (movePending p q h') = still (movePending p q h)"
  unfolding movePending_def using still_sel(1) [of h' h] by (auto simp: still_upd split: option.split)

lemma wraps_moved:
  "wrapperHolds L P ctx (kWrappers h) (rotationPendingWrapperPath path) k \<Longrightarrow>
   wrapsFor L P ctx path (kWrappers (movePending (rotationPendingWrapperPath path) path h)) k"
  using moved_holds [of L P ctx h path k] by (simp add: wrapsFor_def)

lemma wraps_dropped:
  "wrapperHolds L P ctx ws path k \<Longrightarrow> wrapsFor L P ctx path (AList.delete (rotationPendingWrapperPath path) ws) k"
  by (simp add: wrapsFor_def)

subsection \<open>Loading the key of the store\<close>

lemma first_load:
  fixes h :: "'m keyHost_scheme" and L :: "'z golib_scheme" and P ctx path
  defines "r \<equiv> loadKeyMaterialWithWrapperWithProvider L P [] [] path ctx h"
  shows "still (snd r) = still h"
    and "pathsOk path \<Longrightarrow> snd (fst r) = None \<Longrightarrow> wrapperHolds L P ctx (kWrappers h) path (kmValue (fst (fst r)))"
    and "pathsOk path \<Longrightarrow> kFaults h = [] \<Longrightarrow> wcSupported ctx \<Longrightarrow> wrapperHolds L P ctx (kWrappers h) path k \<Longrightarrow>
      snd (fst r) = None \<and> kmValue (fst (fst r)) = k \<and> kFaults (snd r) = []"
proof -
  have l: "loadKeyMaterial [] [] h = (\<lparr>kmValue = [], kmSource = ''none''\<rparr>, Some errLocked)"
  proof -
    have "trimSpace [] = []" by code_simp
    then show ?thesis by (simp add: loadKeyMaterial_def)
  qed
  let ?u = "unwrapMasterKeyWithProvider L P path ctx (snd (osCall h))"
  show "still (snd r) = still h" unfolding r_def
    by (cases "fst (osCall h)"; cases "map_of (kWrappers h) path"; cases "fst ?u") (simp_all add: loadKeyMaterialWithWrapperWithProvider_def l Let_def)
  show "pathsOk path \<Longrightarrow> snd (fst r) = None \<Longrightarrow> wrapperHolds L P ctx (kWrappers h) path (kmValue (fst (fst r)))" unfolding r_def
    using unwrap_result [of path L P ctx "snd (osCall h)"]
    by (cases "fst (osCall h)"; cases "map_of (kWrappers h) path"; cases "fst ?u")
       (simp_all add: loadKeyMaterialWithWrapperWithProvider_def l Let_def pathsOk_def split: if_splits)
  assume a: "pathsOk path" "kFaults h = []" "wcSupported ctx" "wrapperHolds L P ctx (kWrappers h) path k"
  have "fst ?u = Inr k" "kFaults (snd ?u) = []"
    using unwrap_runs [of path "snd (osCall h)" ctx L P k] a osCall_ok [OF a(2)] by (simp_all add: pathsOk_def)
  moreover have "map_of (kWrappers h) path \<noteq> None" using a(4) by (auto simp: wrapperHolds_def)
  ultimately show "snd (fst r) = None \<and> kmValue (fst (fst r)) = k \<and> kFaults (snd r) = []" unfolding r_def
    using a osCall_ok [OF a(2)] by (auto simp: loadKeyMaterialWithWrapperWithProvider_def l Let_def pathsOk_def)
qed

lemma discard_paths:
  "still (snd (discardPending p m h)) = still h \<or> still (snd (discardPending p m h)) = still (h\<lparr>kWrappers := AList.delete p (kWrappers h)\<rparr>)"
  "snd (fst (discardPending p m h)) = None \<Longrightarrow> fst (fst (discardPending p m h)) = m"
  "kFaults h = [] \<Longrightarrow> snd (fst (discardPending p m h)) = None"
proof -
  let ?o = "snd (osCall h)"
  let ?q = "snd (osCall ?o)"
  have "still (snd (osCall ?q)\<lparr>kWrappers := AList.delete p (kWrappers h)\<rparr>) = still (h\<lparr>kWrappers := AList.delete p (kWrappers h)\<rparr>)"
    by (simp add: still_upd)
  then show "still (snd (discardPending p m h)) = still h \<or> still (snd (discardPending p m h)) = still (h\<lparr>kWrappers := AList.delete p (kWrappers h)\<rparr>)"
    "snd (fst (discardPending p m h)) = None \<Longrightarrow> fst (fst (discardPending p m h)) = m"
    by (cases "map_of (kWrappers h) p"; cases "fst (osCall h)"; cases "fst (osCall ?o)"; cases "fst (osCall ?q)"; simp add: discardPending_def)+
  show "kFaults h = [] \<Longrightarrow> snd (fst (discardPending p m h)) = None"
    by (cases "map_of (kWrappers h) p") (simp_all add: discardPending_def osCall_ok)
qed

lemma promote_paths:
  fixes h :: "'m keyHost_scheme" and L :: "'z golib_scheme" and P ctx path sid loaded
  assumes "pathsOk path"
  defines "r \<equiv> promotePending L P (rotationPendingWrapperPath path) path ctx sid loaded h"
  obtains "still (snd r) = still h" "snd (fst r) \<noteq> None"
  | c where "wrapperHolds L P ctx (kWrappers h) (rotationPendingWrapperPath path) c" "masterKeyID L c = sid"
      "still (snd r) = still (movePending (rotationPendingWrapperPath path) path h)" "snd (fst r) = None \<longrightarrow> kmValue (fst (fst r)) = c"
proof -
  let ?p = "rotationPendingWrapperPath path"
  let ?u = "unwrapMasterKeyWithProvider L P ?p ctx h"
  let ?o = "snd (osCall (snd ?u))"
  let ?m = "movePending ?p path ?o"
  show ?thesis
  proof (cases "fst ?u")
    case (Inl e)
    then show ?thesis by (intro that(1)) (simp_all add: r_def promotePending_def Let_def)
  next
    case (Inr c)
    have c: "wrapperHolds L P ctx (kWrappers h) ?p c" using unwrap_result [OF _ Inr] assms(1) by (simp add: pathsOk_def)
    show ?thesis
    proof (cases "masterKeyID L c = sid \<and> fst (osCall (snd ?u)) = None")
      case True
      have "still ?m = still (movePending ?p path h)" by (rule still_move) simp
      then show ?thesis using Inr True
        by (intro that(2) [OF c]; cases "fst (osCall ?m)") (simp_all add: r_def promotePending_def Let_def)
    next
      case False
      then show ?thesis using Inr by (intro that(1); cases "fst (osCall (snd ?u))") (auto simp: r_def promotePending_def Let_def)
    qed
  qed
qed

lemma store_key:
  "recoverable L P ctx k h \<Longrightarrow> still h' = still h \<Longrightarrow> readStoreKeyID (bDisk h') = Inr (masterKeyID L k)"
  using still_sel(2) [of h' h] by (auto simp: recoverable_def readStoreKeyID_def masterKeyID_solid(2))

lemma wraps_current:
  "wrapsFor L P ctx path ws k \<Longrightarrow> wrapperHolds L P ctx ws path v \<Longrightarrow> masterKeyID L v = masterKeyID L k \<Longrightarrow> v = k"
  by (auto simp: wrapsFor_def dest: holds_unique)

lemma wraps_pending:
  "wrapsFor L P ctx path ws k \<Longrightarrow> wrapperHolds L P ctx ws (rotationPendingWrapperPath path) v \<Longrightarrow> masterKeyID L v = masterKeyID L k \<Longrightarrow> v = k"
  by (auto simp: wrapsFor_def)

lemma recoverableD:
  assumes "recoverable L P ctx k h"
  shows "pathsOk (kWrapperPath h)" "wcSupported ctx" "wrapsFor L P ctx (kWrapperPath h) (kWrappers h) k"
  using assms by (auto simp: recoverable_def)

lemma recoverable_files:
  assumes "recoverable L P ctx k h" "bDisk h' = bDisk h" "kWrapperPath h' = kWrapperPath h" "wrapsFor L P ctx (kWrapperPath h) (kWrappers h') k"
  shows "recoverable L P ctx k h'"
  using assms by (simp add: recoverable_def)

definition sameVault :: "'m keyHost_scheme \<Rightarrow> 'm keyHost_scheme \<Rightarrow> bool" where
  "sameVault h' h \<longleftrightarrow> bDisk h' = bDisk h \<and> kWrapperPath h' = kWrapperPath h \<and> bMasterKey h' = bMasterKey h \<and> bRandom h' = bRandom h"

lemma sameVault_still: "still h' = still h \<Longrightarrow> sameVault h' h"
  using still_sel [of h' h] by (simp add: sameVault_def)

lemma sameVault_trans: "sameVault h2 h1 \<Longrightarrow> sameVault h1 h \<Longrightarrow> sameVault h2 h" by (simp add: sameVault_def)

text \<open>Loading the key keeps the promise under any faults, and gives the key of the store when it succeeds.\<close>

lemma load_keeps:
  fixes h :: "'m keyHost_scheme" and L :: "'z golib_scheme" and P ctx
  assumes "recoverable L P ctx k h"
  defines "r \<equiv> loadKeyMaterialForStoreWithProvider L P [] [] (kWrapperPath h) ctx h"
  shows "recoverable L P ctx k (snd r)" "sameVault (snd r) h"
    "snd (fst r) = None \<Longrightarrow> kmValue (fst (fst r)) = k \<and> wrapperHolds L P ctx (kWrappers (snd r)) (kWrapperPath h) k"
proof -
  let ?W = "kWrapperPath h" and ?p = "rotationPendingWrapperPath (kWrapperPath h)"
  let ?f = "loadKeyMaterialWithWrapperWithProvider L P [] [] ?W ctx h"
  note d = recoverableD [OF assms(1)]
  note st = first_load(1) [of L P ?W ctx h] and sel = still_sel [OF first_load(1) [of L P ?W ctx h]]
  have rec: "recoverable L P ctx k (snd ?f)" using assms(1) recoverable_still [OF st, of L P ctx k] by blast
  have sid: "readStoreKeyID (bDisk (snd ?f)) = Inr (masterKeyID L k)" by (rule store_key [OF assms(1) st])
  have "recoverable L P ctx k (snd r) \<and> sameVault (snd r) h
      \<and> (snd (fst r) = None \<longrightarrow> kmValue (fst (fst r)) = k \<and> wrapperHolds L P ctx (kWrappers (snd r)) ?W k)"
  proof (cases "snd (fst ?f) = None \<and> masterKeyID L (kmValue (fst (fst ?f))) = masterKeyID L k")
    case True
    have h: "wrapperHolds L P ctx (kWrappers h) ?W (kmValue (fst (fst ?f)))" using first_load(2) [OF d(1)] True by blast
    have v: "kmValue (fst (fst ?f)) = k" by (rule wraps_current [OF d(3) h]) (use True in simp)
    let ?d = "discardPending ?p (fst (fst ?f)) (snd ?f)"
    have r: "r = ?d" using sid True masterKeyID_solid(1) [of L k] by (simp add: r_def loadKeyMaterialForStoreWithProvider_def Let_def)
    consider "still (snd ?d) = still (snd ?f)" | "still (snd ?d) = still (snd ?f\<lparr>kWrappers := AList.delete ?p (kWrappers (snd ?f))\<rparr>)"
      using discard_paths(1) by blast
    then show ?thesis
    proof cases
      case 1
      have "recoverable L P ctx k (snd ?d)" using rec recoverable_still [OF 1, of L P ctx k] by blast
      then show ?thesis unfolding r using 1 sameVault_still [of "snd ?d" h] still_sel(1) [of "snd ?d" h] st h v
          discard_paths(2) [of ?p "fst (fst ?f)" "snd ?f"] by simp
    next
      case 2
      note sl = still_sel [OF 2]
      have w: "kWrappers (snd ?d) = AList.delete ?p (kWrappers h)" using sl(1) sel(1) by simp
      have "sameVault (snd ?d) h" using sl sel by (simp add: sameVault_def)
      moreover have "recoverable L P ctx k (snd ?d)"
        by (rule recoverable_files [OF assms(1)]) (use sl sel w wraps_dropped [OF h [unfolded v]] in simp_all)
      ultimately show ?thesis unfolding r using w h v discard_paths(2) [of ?p "fst (fst ?f)" "snd ?f"] by simp
    qed
  next
    case False
    let ?q = "promotePending L P ?p ?W ctx (masterKeyID L k) (fst ?f) (snd ?f)"
    have "trimSpace ?W \<noteq> []" using d(1) by (simp add: pathsOk_def)
    then have r: "r = ?q" using sid False masterKeyID_solid(1) [of L k] by (auto simp: r_def loadKeyMaterialForStoreWithProvider_def Let_def)
    show ?thesis
    proof (rule promote_paths [OF d(1), of L P ctx "masterKeyID L k" "fst ?f" "snd ?f"])
      assume q: "still (snd ?q) = still (snd ?f)" "snd (fst ?q) \<noteq> None"
      have "recoverable L P ctx k (snd ?q)" using rec recoverable_still [OF q(1), of L P ctx k] by blast
      then show ?thesis unfolding r using q sameVault_still [of "snd ?q" h] st by auto
    next
      fix c
      assume q: "wrapperHolds L P ctx (kWrappers (snd ?f)) ?p c" "masterKeyID L c = masterKeyID L k"
        "still (snd ?q) = still (movePending ?p ?W (snd ?f))" "snd (fst ?q) = None \<longrightarrow> kmValue (fst (fst ?q)) = c"
      have c: "c = k" by (rule wraps_pending [OF d(3) _ q(2)]) (use q(1) sel(1) in simp)
      note sl = still_sel [OF q(3)] and m = moved_holds(1) [OF q(1)] wraps_moved [OF q(1)]
      have "sameVault (snd ?q) h" using sl sel by (simp add: sameVault_def)
      moreover have "recoverable L P ctx k (snd ?q)"
        by (rule recoverable_files [OF assms(1)]) (use sl sel m(2) c in simp_all)
      ultimately show ?thesis unfolding r using sl(1) m(1) c q(4) by simp
    qed
  qed
  then show "recoverable L P ctx k (snd r)" "sameVault (snd r) h"
    "snd (fst r) = None \<Longrightarrow> kmValue (fst (fst r)) = k \<and> wrapperHolds L P ctx (kWrappers (snd r)) ?W k" by blast+
qed

lemma load_runs:
  assumes "recoverable L P ctx k h" "kFaults h = []"
  shows "snd (fst (loadKeyMaterialForStoreWithProvider L P [] [] (kWrapperPath h) ctx h)) = None"
proof -
  let ?W = "kWrapperPath h" and ?p = "rotationPendingWrapperPath (kWrapperPath h)"
  let ?f = "loadKeyMaterialWithWrapperWithProvider L P [] [] ?W ctx h"
  note d = recoverableD [OF assms(1)]
  note st = first_load(1) [of L P ?W ctx h] and sel = still_sel [OF first_load(1) [of L P ?W ctx h]]
  note sid = store_key [OF assms(1) st]
  have k: "masterKeyID L k \<noteq> []" by (rule masterKeyID_solid(1))
  consider "wrapperHolds L P ctx (kWrappers h) ?W k"
    | c where "wrapperHolds L P ctx (kWrappers h) ?W c" "masterKeyID L c \<noteq> masterKeyID L k" "wrapperHolds L P ctx (kWrappers h) ?p k"
    using d(3) by (auto simp: wrapsFor_def)
  then show ?thesis
  proof cases
    case 1
    note f = first_load(3) [OF d(1) assms(2) d(2) 1]
    then show ?thesis using sid k discard_paths(3) [of "snd ?f"] by (simp add: loadKeyMaterialForStoreWithProvider_def Let_def)
  next
    case 2
    note f = first_load(3) [OF d(1) assms(2) d(2) 2(1)]
    have u: "fst (unwrapMasterKeyWithProvider L P ?p ctx (snd ?f)) = Inr k" "kFaults (snd (unwrapMasterKeyWithProvider L P ?p ctx (snd ?f))) = []"
      using unwrap_runs [of ?p "snd ?f" ctx L P k] d(1,2) f 2(3) sel(1) by (simp_all add: pathsOk_def)
    have "trimSpace ?W \<noteq> []" using d(1) by (simp add: pathsOk_def)
    then show ?thesis using sid k 2(2) f u osCall_ok [OF u(2)]
      by (simp add: loadKeyMaterialForStoreWithProvider_def Let_def promotePending_def osCall_ok)
  qed
qed

subsection \<open>Rotating under faults\<close>

lemma still_kept [simp]: "still (snd (keptCreatedAt path now h)) = still h"
proof -
  let ?r = "readLocalKeyWrapper path (snd (osCall (snd (osCall h))))"
  show ?thesis
    by (cases "fst (osCall h)"; cases "map_of (kWrappers h) path"; cases "fst (osCall (snd (osCall h)))"; cases "fst ?r")
       (simp_all add: keptCreatedAt_def)
qed

lemma write_paths:
  obtains "still (snd (writePrivateWrapperAtomically path w h)) = still h" "fst (writePrivateWrapperAtomically path w h) \<noteq> None"
  | "still (snd (writePrivateWrapperAtomically path w h)) = still (h\<lparr>kWrappers := AList.update path (WrapperFile w) (kWrappers h)\<rparr>)"
proof -
  let ?o = "snd (osCall h)\<lparr>kWrappers := AList.update path (WrapperFile w) (kWrappers h)\<rparr>"
  show ?thesis
  proof (cases "pathDir path = ''.'' \<or> pathDir path = ''/'' \<or> fst (osCall h) \<noteq> None")
    case True
    then show ?thesis by (intro that(1)) (auto simp: writePrivateWrapperAtomically_def)
  next
    case False
    then show ?thesis
      by (intro that(2); cases "fst (osCall ?o)") (simp_all add: writePrivateWrapperAtomically_def Let_def still_upd)
  qed
qed

lemma wrap_paths:
  fixes h :: "'m keyHost_scheme" and L :: "'z golib_scheme" and P path k ctx now
  defines "r \<equiv> wrapMasterKeyWithProvider L P path k ctx now h"
  obtains "still (snd r) = still h" "is_err (fst r)"
  | c t where "pvProtect P (trimSpace k) = Some c" "validatePortableMasterKey L k = None"
      "still (snd r) = still (h\<lparr>kWrappers := AList.update path (WrapperFile (wrapperOf L P k ctx c t now)) (kWrappers h)\<rparr>)"
proof -
  let ?o = "snd (osCall h)"
  let ?q = "snd (osCall ?o)"
  let ?t = "keptCreatedAt path now ?q"
  show ?thesis
  proof (cases "wcSupported ctx \<and> validatePortableMasterKey L k = None \<and> fst (osCall h) = None \<and> fst (osCall ?o) = None
      \<and> pvProtect P (trimSpace k) \<noteq> None \<and> \<not> is_err (fst ?t)")
    case False
    then show ?thesis
      by (intro that(1); cases "validatePortableMasterKey L k"; cases "fst (osCall h)"; cases "fst (osCall ?o)"; cases "fst ?t"; cases "pvProtect P (trimSpace k)")
         (auto simp: r_def wrapMasterKeyWithProvider_def)
  next
    case True
    then obtain c t where ct: "pvProtect P (trimSpace k) = Some c" "fst ?t = Inr t" by (cases "fst ?t") auto
    let ?w = "wrapperOf L P k ctx c t now"
    let ?a = "writePrivateWrapperAtomically path ?w (snd ?t)"
    have sr: "snd r = snd ?a" "is_err (fst r) \<longleftrightarrow> fst ?a \<noteq> None"
      using True ct by (cases "fst ?a"; simp add: r_def wrapMasterKeyWithProvider_def Let_def)+
    have st: "still (snd ?t) = still h" by simp
    show ?thesis
    proof (rule write_paths [of path ?w "snd ?t"])
      assume "still (snd ?a) = still (snd ?t)" "fst ?a \<noteq> None"
      then show ?thesis using sr by (intro that(1)) simp_all
    next
      assume "still (snd ?a) = still (snd ?t\<lparr>kWrappers := AList.update path (WrapperFile ?w) (kWrappers (snd ?t))\<rparr>)"
      then show ?thesis using sr(1) ct(1) True still_sel(1) [OF st] by (intro that(2)) (simp_all add: still_upd)
    qed
  qed
qed

lemma generate_state:
  "snd (generatePortableMasterKey L b) = b\<lparr>bRandom := tl (bRandom b)\<rparr>" by (simp add: generatePortableMasterKey_def)

lemma generate_random: "bRandom b = bRandom b' \<Longrightarrow> fst (generatePortableMasterKey L b) = fst (generatePortableMasterKey L b')"
  by (simp add: generatePortableMasterKey_def)

lemma auditLifecycle_keeps [simp]:
  fixes h :: "'m keyHost_scheme"
  shows "kWrappers (snd (auditLifecycle L op sub oc svc rid h)) = kWrappers h" "kWrapperPath (snd (auditLifecycle L op sub oc svc rid h)) = kWrapperPath h"
    "kFaults (snd (auditLifecycle L op sub oc svc rid h)) = kFaults h"
  using writeAuditEvent_frame [of L "emptyAuditEvent\<lparr>aeTS := bNow h, aeOperation := op, aeRef := sub, aeOutcome := oc, aeServiceID := svc, aeRequestID := rid\<rparr>" h]
  by (auto simp: auditLifecycle_def)

lemma auditLifecycle_frame [simp, store_frame]:
  fixes b :: "'m backend_scheme"
  shows "bDisk (snd (auditLifecycle L op sub oc svc rid b)) = bDisk b" "bMasterKey (snd (auditLifecycle L op sub oc svc rid b)) = bMasterKey b"
    "bRandom (snd (auditLifecycle L op sub oc svc rid b)) = bRandom b" "bNow (snd (auditLifecycle L op sub oc svc rid b)) = bNow b"
    "bSaveFaults (snd (auditLifecycle L op sub oc svc rid b)) = bSaveFaults b"
  using writeAuditEvent_frame [of L "emptyAuditEvent\<lparr>aeTS := bNow b, aeOperation := op, aeRef := sub, aeOutcome := oc, aeServiceID := svc, aeRequestID := rid\<rparr>" b]
  by (auto simp: auditLifecycle_def)

lemma rotate_keeps_files:
  fixes h :: "'m keyHost_scheme"
  assumes "lib_ok L"
  shows "kWrappers (snd (rotateMasterKeyAndSave L k r saveStore h)) = kWrappers h \<and> kWrapperPath (snd (rotateMasterKeyAndSave L k r saveStore h)) = kWrapperPath h"
proof (cases "trimSpace k = [] \<or> isLocked h \<or> is_err (loadStore h)")
  case True
  then show ?thesis by (auto simp: rotateMasterKeyAndSave_def Let_def is_err_def split: sum.splits)
next
  case False
  then obtain s where s: "trimSpace k \<noteq> []" "\<not> isLocked h" "loadStore h = Inr s" by (cases "loadStore h") auto
  let ?v = "visitStorePayloads (reencrypt L (trimSpace k)) s h"
  have "\<exists>r. h = h\<lparr>bRandom := r\<rparr>" by (intro exI [of _ "bRandom h"]) simp
  then obtain rnd where i: "snd ?v = h\<lparr>bRandom := rnd\<rparr>"
    using lawfulD(1) [OF lawful_store [OF reencrypt_lawful [OF assms, of h "trimSpace k"]]] by blast
  show ?thesis
  proof (cases "fst ?v")
    case (Inr t)
    let ?s = "rekeyedStore L (trimSpace k) r (bNow h) t"
    show ?thesis using Inr s i by (cases "fst (saveStore ?s (snd ?v))") (simp_all add: rotateMasterKeyAndSave_def Let_def)
  qed (use s i in \<open>simp add: rotateMasterKeyAndSave_def Let_def\<close>)
qed

lemma removePending_paths:
  "still (removePending p h) = still h \<or> still (removePending p h) = still (h\<lparr>kWrappers := AList.delete p (kWrappers h)\<rparr>)"
  by (cases "fst (osCall h)") (simp_all add: removePending_def still_upd)

text \<open>
  The outcome of a rotation step: the key of the store, possibly a new one, is recoverable, and opens the
  same secrets as before.
\<close>

definition rotated :: "'z golib_scheme \<Rightarrow> keyWrapperProvider \<Rightarrow> wrapperContext \<Rightarrow> string \<Rightarrow> 'm keyHost_scheme \<Rightarrow> 'm keyHost_scheme \<Rightarrow> bool" where
  "rotated L P ctx k h h' \<longleftrightarrow> kWrapperPath h' = kWrapperPath h \<and> (\<exists>k'. recoverable L P ctx k' h' \<and> vault L (h'\<lparr>bMasterKey := k'\<rparr>) = vault L (h\<lparr>bMasterKey := k\<rparr>))"

lemma rotatedI: "recoverable L P ctx k h' \<Longrightarrow> bDisk h' = bDisk h \<Longrightarrow> kWrapperPath h' = kWrapperPath h \<Longrightarrow> rotated L P ctx k h h'"
  unfolding rotated_def using vault_cong [of "h'\<lparr>bMasterKey := k\<rparr>" "h\<lparr>bMasterKey := k\<rparr>" L] by auto

lemma commit_keeps:
  fixes h :: "'m keyHost_scheme"
  assumes "recoverable L P ctx k h" "wrapperHolds L P ctx (kWrappers h) (rotationPendingWrapperPath (kWrapperPath h)) k"
  shows "recoverable L P ctx k (snd (commitRotation L req res h))" "bDisk (snd (commitRotation L req res h)) = bDisk h"
    "kWrapperPath (snd (commitRotation L req res h)) = kWrapperPath h"
proof -
  let ?W = "kWrapperPath h" and ?p = "rotationPendingWrapperPath (kWrapperPath h)"
  let ?o = "snd (osCall h)"
  let ?m = "movePending ?p ?W ?o"
  let ?r = "snd (commitRotation L req res h)"
  have m: "wrapsFor L P ctx ?W (kWrappers ?m) k" by (rule wraps_moved) (use assms(2) in simp)
  have w: "?r = ?o \<or> kWrappers ?r = kWrappers ?m \<and> bDisk ?r = bDisk h \<and> kWrapperPath ?r = kWrapperPath h"
  proof (cases "fst (osCall h)")
    case None
    let ?a = "auditLifecycle L ''key_rotate'' [] ''ready'' (lqServiceID req) (lqRequestID req) (snd (osCall (snd (osCall ?m))))"
    show ?thesis using None
      by (cases "fst (osCall ?m)"; cases "fst (osCall (snd (osCall ?m)))"; cases "fst ?a") (simp_all add: commitRotation_def Let_def)
  qed (simp add: commitRotation_def Let_def)
  then show "bDisk ?r = bDisk h" "kWrapperPath ?r = kWrapperPath h" by auto
  show "recoverable L P ctx k ?r"
    by (rule recoverable_files [OF assms(1)]) (use w m recoverableD(3) [OF assms(1)] in auto)
qed

lemma rekeyed_vault:
  assumes "loadStore h = Inr s" "sameStore (sameValue L h (h\<lparr>bMasterKey := k\<rparr>)) s t" "bDisk h' = Stored (rekeyedStore L k r now t)"
  shows "vault L (h'\<lparr>bMasterKey := k\<rparr>) = vault L h"
proof -
  have "sameValue L h (h\<lparr>bMasterKey := k\<rparr>) = sameValue L h (h'\<lparr>bMasterKey := k\<rparr>)" by (rule sameValue_cong) simp_all
  note r = rekeyed_same(1) [OF assms(2) [unfolded this]]
  show ?thesis by (rule same_vault [OF assms(1) _ r]) (use assms(3) in simp)
qed

lemma replace_keeps:
  fixes h :: "'m keyHost_scheme"
  assumes "lib_ok L" "provider_ok P" "encodes_nonempty L" and rec: "recoverable L P ctx k h" and key: "bMasterKey h = k"
    and cur: "wrapperHolds L P ctx (kWrappers h) (kWrapperPath h) k"
    and fresh: "\<forall>k'. fst (generatePortableMasterKey L h) = Inr k' \<longrightarrow> masterKeyID L k' \<noteq> masterKeyID L k"
  shows "rotated L P ctx k h (snd (replaceMasterKey L P ctx req store saveStore h))"
proof (cases "fst (generatePortableMasterKey L h)")
  case (Inl e)
  then have "snd (replaceMasterKey L P ctx req store saveStore h) = h\<lparr>bRandom := tl (bRandom h)\<rparr>"
    by (simp add: replaceMasterKey_def Let_def generate_state)
  then show ?thesis using rec by (intro rotatedI recoverable_files [OF rec]) (auto simp: recoverable_def)
next
  case (Inr n)
  let ?W = "kWrapperPath h" and ?p = "rotationPendingWrapperPath (kWrapperPath h)"
  let ?g = "h\<lparr>bRandom := tl (bRandom h)\<rparr>"
  let ?w = "wrapMasterKeyWithProvider L P ?p n ctx (bNow h) ?g"
  let ?rc = "Some (rotateReceipt L req k n store (bNow (snd ?w)))"
  let ?o = "rotateMasterKeyAndSave L n ?rc saveStore (snd ?w)"
  have n: "masterKeyID L n \<noteq> masterKeyID L k" using fresh Inr by blast
  have run: "snd (replaceMasterKey L P ctx req store saveStore h) =
      (if is_err (fst ?w) then snd ?w else case snd (fst ?o) of
         Some err \<Rightarrow> if privateFileWasPublished err then snd ?o else removePending ?p (snd ?o)
       | None \<Rightarrow> snd (commitRotation L req (fst (fst ?o)) (snd ?o)))"
    using Inr key by (cases "fst ?w"; cases "snd (fst ?o)") (simp_all add: replaceMasterKey_def Let_def generate_state)
  show ?thesis
  proof (rule wrap_paths [of L P ?p n ctx "bNow h" ?g])
    assume "still (snd ?w) = still ?g" "is_err (fst ?w)"
    then show ?thesis unfolding run using still_sel [of "snd ?w" ?g] rec
      by (intro rotatedI) (auto simp: recoverable_def)
  next
    fix c t
    let ?ws = "AList.update ?p (WrapperFile (wrapperOf L P n ctx c t (bNow h))) (kWrappers h)"
    assume w: "pvProtect P (trimSpace n) = Some c" "validatePortableMasterKey L n = None" "still (snd ?w) = still (?g\<lparr>kWrappers := AList.update ?p (WrapperFile (wrapperOf L P n ctx c t (bNow h))) (kWrappers ?g)\<rparr>)"
    then have "still (snd ?w) = still (?g\<lparr>kWrappers := ?ws\<rparr>)" by simp
    note sl = still_sel [OF this]
    have pend: "wrapperHolds L P ctx ?ws ?p (trimSpace n)" by (rule written_holds [OF assms(1-3) w(1,2)])
    have hold: "wrapperHolds L P ctx ?ws ?W k" using cur by simp
    have old: "wrapsFor L P ctx ?W ?ws k" unfolding wrapsFor_def using hold n by (auto dest!: holds_unique [OF pend])
    have new: "wrapsFor L P ctx ?W ?ws (trimSpace n)" unfolding wrapsFor_def using hold pend n by (auto dest!: holds_unique [OF pend])
    have keep: "rotated L P ctx k h h'" if "kWrapperPath h' = ?W" "bDisk h' = bDisk h" "wrapsFor L P ctx ?W (kWrappers h') k" for h' :: "'m keyHost_scheme"
      by (rule rotatedI [OF recoverable_files [OF rec that(2,1,3)] that(2,1)])
    show ?thesis
    proof (cases "is_err (fst ?w)")
      case True
      then show ?thesis unfolding run using sl old by (simp add: keep)
    next
      case ok: False
      have f: "kWrappers (snd ?o) = ?ws" "kWrapperPath (snd ?o) = ?W" using rotate_keeps_files [OF assms(1), of n ?rc "snd ?w"] sl by simp_all
      show ?thesis
      proof (rule rotate_cases [OF assms(1), of n ?rc "snd ?w"])
        fix err
        assume o: "snd (fst ?o) = Some err" "\<not> privateFileWasPublished err" "bDisk (snd ?o) = bDisk (snd ?w)"
        have "kWrapperPath (removePending ?p (snd ?o)) = ?W \<and> bDisk (removePending ?p (snd ?o)) = bDisk h
            \<and> wrapsFor L P ctx ?W (kWrappers (removePending ?p (snd ?o))) k"
          using removePending_paths [of ?p "snd ?o"] still_sel [of "removePending ?p (snd ?o)" "snd ?o"]
            still_sel [of "removePending ?p (snd ?o)" "snd ?o\<lparr>kWrappers := AList.delete ?p (kWrappers (snd ?o))\<rparr>"] f o(3) sl(2) old wraps_dropped [OF hold]
          by auto
        then show ?thesis unfolding run using o ok by (simp add: keep)
      next
        fix s t
        assume o: "loadStore (snd ?w) = Inr s" "sameStore (sameValue L (snd ?w) (snd ?w\<lparr>bMasterKey := trimSpace n\<rparr>)) s t"
          "bDisk (snd ?o) = Stored (rekeyedStore L (trimSpace n) ?rc (bNow (snd ?w)) t)"
          "\<forall>err. snd (fst ?o) = Some err \<longrightarrow> privateFileWasPublished err"
        have ro: "recoverable L P ctx (trimSpace n) (snd ?o)"
          using f new rec o(3) by (simp add: recoverable_def rekeyedStore_def)
        let ?r = "snd (replaceMasterKey L P ctx req store saveStore h)"
        have r: "recoverable L P ctx (trimSpace n) ?r \<and> bDisk ?r = bDisk (snd ?o) \<and> kWrapperPath ?r = ?W"
          unfolding run using ok o(4) ro commit_keeps [OF ro, of req "fst (fst ?o)"] pend f by (cases "snd (fst ?o)") simp_all
        have "vault L (?r\<lparr>bMasterKey := trimSpace n\<rparr>) = vault L (snd ?w)" by (rule rekeyed_vault [OF o(1,2)]) (use r o(3) in simp)
        moreover have "vault L (snd ?w) = vault L (h\<lparr>bMasterKey := k\<rparr>)"
          by (rule vault_cong) (use sl(2,3) key in simp_all)
        ultimately show ?thesis unfolding rotated_def using r by auto
      qed
    qed
  qed
qed

lemma managed_keeps:
  fixes h :: "'m keyHost_scheme"
  assumes "lib_ok L" "provider_ok P" "encodes_nonempty L" and rec: "recoverable L P ctx k h"
    and fresh: "\<forall>k'. fst (generatePortableMasterKey L h) = Inr k' \<longrightarrow> masterKeyID L k' \<noteq> masterKeyID L k"
  shows "rotated L P ctx k h (snd (rotateManagedMasterKey L P ctx req h))"
proof -
  let ?l = "loadKeyMaterialForStoreWithProvider L P [] [] (kWrapperPath h) ctx h"
  note l = load_keeps [OF rec]
  have sv: "bDisk (snd ?l) = bDisk h" "kWrapperPath (snd ?l) = kWrapperPath h" "bRandom (snd ?l) = bRandom h" using l(2) by (simp_all add: sameVault_def)
  have keep: "rotated L P ctx k h h'" if "kWrapperPath h' = kWrapperPath h" "bDisk h' = bDisk h" "kWrappers h' = kWrappers (snd ?l)" for h' :: "'m keyHost_scheme"
    by (rule rotatedI [OF recoverable_files [OF l(1)] that(2,1)]) (use that sv recoverableD(3) [OF l(1)] in simp_all)
  show ?thesis
  proof (cases "validateLifecycleMutationRequest req True \<noteq> None \<or> \<not> validSafeMetadataID (lqExpectedKeyID req)")
    case True
    then show ?thesis using rotatedI [OF rec] by (auto simp: rotateManagedMasterKey_def rotateManagedMasterKeyWithStoreWriter_def Let_def)
  next
    case valid: False
    show ?thesis
    proof (cases "snd (fst ?l)")
      case (Some e)
      then show ?thesis using valid sv by (simp add: rotateManagedMasterKey_def rotateManagedMasterKeyWithStoreWriter_def Let_def keep)
    next
      case None
      note v = l(3) [OF None]
      let ?h = "snd ?l\<lparr>bMasterKey := k\<rparr>"
      let ?a = "\<lambda>op. auditLifecycle L op [] ''ready'' (lqServiceID req) (lqRequestID req) ?h"
      let ?b = "snd (?a ''key_rotate_authorized'')"
      have rb: "recoverable L P ctx k ?b" by (rule recoverable_files [OF l(1)]) (use recoverableD(3) [OF l(1)] in simp_all)
      have rep: "rotated L P ctx k h (snd (replaceMasterKey L P ctx req store saveStore ?b))" for store
      proof -
        have "rotated L P ctx k ?b (snd (replaceMasterKey L P ctx req store saveStore ?b))"
          by (rule replace_keeps [OF assms(1-3) rb])
             (use v sv fresh generate_random [of ?b h L] in simp_all)
        then show ?thesis using vault_cong [of "?b\<lparr>bMasterKey := k\<rparr>" "h\<lparr>bMasterKey := k\<rparr>" L] sv by (simp add: rotated_def)
      qed
      show ?thesis
      proof (cases "loadStore ?h")
        case (Inl e)
        then show ?thesis using valid None v sv by (simp add: rotateManagedMasterKey_def rotateManagedMasterKeyWithStoreWriter_def Let_def keep)
      next
        case (Inr store)
        then show ?thesis using valid None v sv
          by (cases "map_of (stLifecycleOps store) (lqOperationID req)"; cases "fst (?a ''key_rotate_authorized'')"; cases "fst (?a ''key_rotate_retry'')")
             (simp_all add: rotateManagedMasterKey_def rotateManagedMasterKeyWithStoreWriter_def Let_def keep rep)
      qed
    qed
  qed
qed

text \<open>
  Property C29. A key rotation can be interrupted anywhere without losing the vault. Start from a host whose
  store names the key \<open>k\<close> and whose wrappers are in the state an earlier rotation, finished or not, may
  have left (\<open>recoverable\<close>), and run a managed key rotation with any request, any sequence of failures of the
  operating system, of the key provider, of the store file and of the audit log, and any outcome. The host is
  again in such a state; and the next load of the key, when its own calls succeed, finds the key of the store,
  under which every secret resolves to the value it had before.
\<close>

theorem key_rotation_survives_faults:
  fixes h :: "'m keyHost_scheme"
  assumes "lib_ok L" "provider_ok P" "encodes_nonempty L" "recoverable L P ctx k h"
    and "\<forall>k'. fst (generatePortableMasterKey L h) = Inr k' \<longrightarrow> masterKeyID L k' \<noteq> masterKeyID L k"
    and "h1 = snd (rotateManagedMasterKey L P ctx req h)" "h2 = h1\<lparr>kFaults := []\<rparr>"
  shows "\<exists>k'. recoverable L P ctx k' h1
    \<and> (\<exists>material h3. loadKeyMaterialForStoreWithProvider L P [] [] (kWrapperPath h) ctx h2 = ((material, None), h3)
         \<and> kmValue material = k' \<and> vault L (h3\<lparr>bMasterKey := k'\<rparr>) = vault L (h\<lparr>bMasterKey := k\<rparr>))"
proof -
  obtain k' where k': "recoverable L P ctx k' h1" "vault L (h1\<lparr>bMasterKey := k'\<rparr>) = vault L (h\<lparr>bMasterKey := k\<rparr>)" "kWrapperPath h1 = kWrapperPath h"
    using managed_keeps [OF assms(1-5)] assms(6) by (auto simp: rotated_def)
  have r2: "recoverable L P ctx k' h2" using k'(1) assms(7) by (simp add: recoverable_def)
  let ?l = "loadKeyMaterialForStoreWithProvider L P [] [] (kWrapperPath h2) ctx h2"
  have n: "snd (fst ?l) = None" by (rule load_runs [OF r2]) (simp add: assms(7))
  have "vault L (snd ?l\<lparr>bMasterKey := k'\<rparr>) = vault L (h1\<lparr>bMasterKey := k'\<rparr>)"
    by (rule vault_cong) (use load_keeps(2) [OF r2] assms(7) in \<open>simp_all add: sameVault_def\<close>)
  then show ?thesis using k' n load_keeps(3) [OF r2 n] by (intro exI [of _ k'] conjI exI [of _ "fst (fst ?l)"] exI [of _ "snd ?l"]) (auto simp: prod_eq_iff assms(7))
qed

subsection \<open>Restoring a store that is gone\<close>

text \<open>
  A plan made while the store file is missing is answered as ready to confirm, with an empty hash of the
  store; applying it is refused as invalid whatever else the request says, because the hash is empty.
\<close>

lemma lost_store_plan_refused:
  assumes "bDisk h = NoFile" "restoreManagedBackupPlan L req h = ((res, None), h1)" "lqExpectedStoreHash req' = lrExpectedStoreHash res"
  shows "lrOutcome res = ''ready'' \<and> snd (fst (restoreManagedBackupApply L req' h2)) = Some (errKey errLifecycleInvalidRequest)"
proof -
  let ?i = "inspectManagedBackup L (lqBackupID req) h"
  have g: "validateLifecycleMutationRequest req False = None" "validLifecycleID (lqBackupID req)"
    using assms(2) by (auto simp: restoreManagedBackupPlan_def Let_def split: if_splits)
  obtain m where m: "fst ?i = Inr m" using assms(2) g by (cases "fst ?i") (simp_all add: restoreManagedBackupPlan_def Let_def)
  have d: "bDisk (snd ?i) = NoFile"
  proof (cases "managedBackupPath (lqBackupID req) h")
    case (Inr p)
    then show ?thesis using assms(1) by (cases "fst (osCall h)") (simp_all add: inspectManagedBackup_def loadManagedBackup_def)
  qed (use assms(1) in \<open>simp add: inspectManagedBackup_def loadManagedBackup_def\<close>)
  let ?a = "auditLifecycle L ''backup_restore_plan'' (lqBackupID req) ''ready'' (lqServiceID req) (lqRequestID req) (snd ?i)"
  have "lrOutcome res = ''ready'' \<and> lrExpectedStoreHash res = []"
    using assms(2) g m d by (cases "fst ?a") (auto simp: restoreManagedBackupPlan_def Let_def currentStoreHash_def fileSHA256_def restoreResponse_def)
  moreover have "trimSpace [] = []" by code_simp
  ultimately show ?thesis using assms(3) by (simp add: restoreManagedBackupApply_def Let_def)
qed

subsection \<open>A concrete host\<close>

definition toyProvider :: keyWrapperProvider where
  "toyProvider = \<lparr>pvAlgorithm = ''toy'', pvProtect = (\<lambda>k. Some (CHR ''#'' # k)), pvUnprotect = (\<lambda>c. case c of [] \<Rightarrow> None | _ # k \<Rightarrow> Some k)\<rparr>"

definition toyContext :: wrapperContext where
  "toyContext = \<lparr>wcOS = ''windows'', wcUser = ''u'', wcMachine = ''m'', wcKind = ''dpapi-user-scope'', wcSupported = True, wcUnsupported = []\<rparr>"

definition toyKey :: string where "toyKey = replicate 32 (CHR ''k'')"

definition rotateRequest :: lifecycleOperationRequest where
  "rotateRequest = \<lparr>lqRequestID = ''r1'', lqServiceID = ''@operator'', lqOperationID = ''op-1'', lqReason = ''scheduled'', lqBackupID = [],
     lqPlanToken = [], lqExpectedKeyID = masterKeyID toy_lib toyKey, lqExpectedStoreHash = [], lqConfirm = True, lqActor = None\<rparr>"

definition sealedStore :: localStoreFile where
  "sealedStore = demoStoreFile\<lparr>stSecrets := [(''services/api/db'', demoSecret\<lparr>sePayload := (sePayload demoSecret)
       \<lparr>spCiphertext := gcmSeal toy_lib (sha256 toy_lib toyKey) ''nnnnnnnnnnnn'' ''old''\<rparr>\<rparr>)], stKeyID := masterKeyID toy_lib toyKey\<rparr>"

text \<open>The store file is replaced, but protecting it then fails: the wrapper is left behind the store.\<close>

definition crashHost :: vaultHost where
  "crashHost = demoHost\<lparr>bDisk := Stored sealedStore, bSaveFaults := [SavePublishedFails],
     kWrappers := [(''/s/wrapper.json'', WrapperFile (wrapperOf toy_lib toyProvider toyKey toyContext (CHR ''#'' # toyKey) 1 1))]\<rparr>"

lemma toy_sound: "provider_ok toyProvider" "encodes_nonempty toy_lib"
  by (auto simp: provider_ok_def toyProvider_def encodes_nonempty_def toy_lib_def)

lemma crash_recoverable: "recoverable toy_lib toyProvider toyContext toyKey crashHost"
proof -
  have w: "kWrapperPath crashHost = ''/s/wrapper.json''" "bDisk crashHost = Stored sealedStore"
    "kWrappers crashHost = AList.update ''/s/wrapper.json'' (WrapperFile (wrapperOf toy_lib toyProvider toyKey toyContext (CHR ''#'' # toyKey) 1 1)) []"
    by (simp_all add: crashHost_def demo_host(9))
  have k: "trimSpace toyKey = toyKey" "validatePortableMasterKey toy_lib toyKey = None" by code_simp+
  have p: "pathsOk ''/s/wrapper.json''" by code_simp
  have "wrapperHolds toy_lib toyProvider toyContext (kWrappers crashHost) ''/s/wrapper.json'' (trimSpace toyKey)"
    unfolding w(3) by (rule written_holds [OF toy_lib_ok toy_sound _ k(2)]) (simp add: k toyProvider_def)
  moreover have "\<not> wrapperHolds toy_lib toyProvider toyContext (kWrappers crashHost) (rotationPendingWrapperPath ''/s/wrapper.json'') c" for c
    unfolding w(3) by (simp add: wrapperHolds_def rotationPendingWrapperPath_def)
  ultimately show ?thesis using w(1,2) p k(1) by (simp add: recoverable_def wrapsFor_def sealedStore_def toyContext_def)
qed

theorem key_rotation_survives_faults_witness:
  "\<exists>material h3. loadKeyMaterialForStoreWithProvider toy_lib toyProvider [] [] ''/s/wrapper.json'' toyContext
       ((snd (rotateManagedMasterKey toy_lib toyProvider toyContext rotateRequest crashHost))\<lparr>kFaults := []\<rparr>) = ((material, None), h3)
     \<and> vault toy_lib (h3\<lparr>bMasterKey := kmValue material\<rparr>) ''services/api/db'' = Some ''old''"
proof -
  have r: "bRandom crashHost = []" by (simp add: crashHost_def demo_host(8))
  have "masterKeyID toy_lib (replicate 32 (CHR 0x00)) \<noteq> masterKeyID toy_lib toyKey" by code_simp
  then have f: "\<forall>k'. fst (generatePortableMasterKey toy_lib crashHost) = Inr k' \<longrightarrow> masterKeyID toy_lib k' \<noteq> masterKeyID toy_lib toyKey"
    using r by (simp add: generatePortableMasterKey_def toy_lib_def)
  have "decrypt toy_lib (demoBackend\<lparr>bMasterKey := toyKey\<rparr>) (sePayload (snd (hd (stSecrets sealedStore)))) = Inr ''old''" by code_simp
  then have "decrypt toy_lib (crashHost\<lparr>bMasterKey := toyKey\<rparr>) (sePayload (snd (hd (stSecrets sealedStore)))) = Inr ''old''"
    using decrypt_cong [of "crashHost\<lparr>bMasterKey := toyKey\<rparr>" "demoBackend\<lparr>bMasterKey := toyKey\<rparr>" toy_lib] by simp
  then have v: "vault toy_lib (crashHost\<lparr>bMasterKey := toyKey\<rparr>) ''services/api/db'' = Some ''old''"
    by (simp add: vault_def crashHost_def secretsOf_def sealedStore_def)
  have p: "kWrapperPath crashHost = ''/s/wrapper.json''" by (simp add: crashHost_def demo_host(9))
  show ?thesis
    using key_rotation_survives_faults [OF toy_lib_ok toy_sound crash_recoverable f refl refl, of rotateRequest] v p by auto
qed

end
