(* ===== verification/Recovery_Facts.thy ===== *)
theory Recovery_Facts
  imports Recovery_Shares Lifecycle_Facts
begin

text \<open>
  Recovery from share files, end to end: what generation writes, threshold-many of the files bring back.
  \<open>b64_ok\<close> and \<open>opens\<close> are what is used of the encoding and of age: encoded text is not empty, has no white space
  around it and at most doubles the length, and the identities open what was sealed to the recipients.
\<close>

definition b64_ok :: "'z golib_scheme \<Rightarrow> bool" where
  "b64_ok L \<longleftrightarrow> (\<forall>s. s \<noteq> [] \<longrightarrow> b64RawURLEncode L s \<noteq> [] \<and> trimSpace (b64RawURLEncode L s) = b64RawURLEncode L s
     \<and> length (b64RawURLEncode L s) \<le> 2 * length s)"

definition opens :: "'z agelib_scheme \<Rightarrow> string list \<Rightarrow> (string \<times> string) list \<Rightarrow> bool" where
  "opens L identities recipients \<longleftrightarrow> (recipients \<noteq> [] \<longrightarrow> identities \<noteq> [])
     \<and> (\<forall>(r, fp) \<in> set recipients. \<forall>p c. p \<noteq> [] \<longrightarrow> ageEncrypt L r p = Some c \<longrightarrow> c \<noteq> [] \<and> ageDecrypt L identities c = Some p)"

lemma bytes_inverse [simp]: "ofBytes (toBytes s) = s" "toBytes (ofBytes ws) = ws" "length (toBytes s) = length s" "length (ofBytes ws) = length ws"
proof -
  have "char_of (unat (of_nat (of_char c) :: u8)) = c" for c
    by (simp add: unat_of_nat)
  then show "ofBytes (toBytes s) = s" by (simp add: ofBytes_def toBytes_def comp_def)
  have "(of_nat (of_char (char_of (unat w))) :: u8) = w" for w :: u8
  proof -
    have "unat w < 256" using unsigned_less [of w, where 'a = nat] by simp
    then show ?thesis by simp
  qed
  then show "toBytes (ofBytes ws) = ws" by (simp add: ofBytes_def toBytes_def comp_def)
qed (simp_all add: ofBytes_def toBytes_def)

subsection \<open>Genuine share files\<close>

definition encodedShare :: "'z golib_scheme \<Rightarrow> recoverySharePoint \<Rightarrow> string" where
  "encodedShare L share = b64RawURLEncode L (ofBytes (spValue share))"

text \<open>The file holds the share: its header is valid and names the policy, the key and the counts, and the identities give the share.\<close>

definition genuine ::
  "'z agelib_scheme \<Rightarrow> string list \<Rightarrow> string \<Rightarrow> string \<Rightarrow> int \<Rightarrow> int \<Rightarrow> recoverySharePoint \<Rightarrow> recoveryShareFile \<Rightarrow> bool" where
  "genuine L identities policyID keyID t n share f \<longleftrightarrow>
     validateRecoveryShareHeader f = None \<and> shPolicyID f = policyID \<and> shKeyID f = keyID \<and> shKeyVersion f = masterKeyVersion
     \<and> shThreshold f = t \<and> shShareCount f = n \<and> shShareIndex f = spIndex share
     \<and> shShareFingerprint f = recoveryShareFingerprint L policyID keyID (spIndex share) (encodedShare L share)
     \<and> recoverySharePlaintext L f identities = Inr (encodedShare L share) \<and> spValue share \<noteq> []"

lemma genuine_points:
  assumes "lib_ok L" "list_all2 (genuine L ids pol key t n) shares files" "distinct (map spIndex shares)" "spIndex ` set shares \<inter> set seen = {}"
    and "shPolicyID header = pol" "shKeyID header = key" "shKeyVersion header = masterKeyVersion" "shThreshold header = t" "shShareCount header = n"
  shows "validateShares L header ids seen files = Inr shares"
  using assms(2-4)
proof (induction shares files arbitrary: seen rule: list_all2_induct)
  case (Cons share shares f files)
  have "b64RawURLDecode L (encodedShare L share) = Some (ofBytes (spValue share))" using assms(1) by (simp add: encodedShare_def)
  moreover have "ofBytes (spValue share) \<noteq> []" using Cons.hyps(1) by (simp add: genuine_def ofBytes_def)
  moreover have "validateShares L header ids (spIndex share # seen) files = Inr shares"
    by (rule Cons.IH) (use Cons.prems in auto)
  ultimately show ?case using Cons.hyps(1) Cons.prems(2) assms(5-9) by (simp add: genuine_def)
qed simp

lemma safe_word:
  assumes "list_all plainChar w" "CHR '' '' \<notin> set w" "CHR ''.'' \<notin> set w" "w \<noteq> []" "length w \<le> 128"
  shows "validSafeMetadataID w"
proof -
  have "\<not> containsStr w ''..''" using assms(3) by (auto simp: containsStr_iff)
  moreover have "\<not> ((of_char c :: nat) \<le> 0x20 \<or> c = CHR 0x7F)" if "c \<in> set w" for c
  proof -
    have "plainChar c" "c \<noteq> CHR '' ''" using assms(1,2) that by (auto simp: list_all_iff)
    moreover have "(of_char c :: nat) \<noteq> of_char (CHR '' '')" using \<open>c \<noteq> CHR '' ''\<close> of_char_eq_iff [where 'a = nat, of c "CHR '' ''"] by simp
    ultimately show ?thesis by (auto simp: plainChar_def)
  qed
  ultimately show ?thesis using assms trimSpace_solid [OF assms(1,2)]
    by (simp add: validSafeMetadataID_def go_runes_ascii [OF plain_ascii [OF assms(1)]] list_all_iff)
qed

lemma safe_hash:
  assumes "list_all plainChar pre" "CHR '' '' \<notin> set pre" "CHR ''.'' \<notin> set pre" "pre \<noteq> []" "length pre \<le> 100"
  shows "validSafeMetadataID (pre @ take 16 (hexEncode x))"
proof (rule safe_word)
  have "CHR ''.'' \<notin> set (hexEncode x)" using hex_chars [of x] by auto
  then show "CHR ''.'' \<notin> set (pre @ take 16 (hexEncode x))" using assms(3) by (auto dest: in_set_takeD)
qed (use assms hex_solid [of x] in \<open>auto simp: list_all_iff dest: in_set_takeD\<close>)

lemma safe_names:
  "validSafeMetadataID (masterKeyID L k)" "validSafeMetadataID (recoveryShareFingerprint L pol key i e)" "validSafeMetadataID (ageRecipientFingerprint L r)"
  "validSafeMetadataID masterKeyVersion" "validSafeMetadataID (''recovery-'' @ masterKeyID L k)"
proof -
  have "validSafeMetadataID (''recovery-mk-'' @ take 16 (hexEncode (sha256 L (trimSpace k))))" by (rule safe_hash; code_simp)
  then show "validSafeMetadataID (''recovery-'' @ masterKeyID L k)" by (simp add: masterKeyID_def)
  show "validSafeMetadataID (masterKeyID L k)" unfolding masterKeyID_def by (rule safe_hash; code_simp)
  show "validSafeMetadataID (recoveryShareFingerprint L pol key i e)" unfolding recoveryShareFingerprint_def by (rule safe_hash; code_simp)
  show "validSafeMetadataID (ageRecipientFingerprint L r)" unfolding ageRecipientFingerprint_def by (rule safe_hash; code_simp)
  show "validSafeMetadataID masterKeyVersion" by code_simp
qed

definition shareOk :: "int \<Rightarrow> int \<Rightarrow> recoverySharePoint \<Rightarrow> bool" where
  "shareOk t n share \<longleftrightarrow> 1 \<le> t \<and> t \<le> n \<and> n \<le> 255 \<and> 1 \<le> spIndex share \<and> spIndex share \<le> n \<and> length (spValue share) = 32"

lemma plain_genuine:
  assumes "b64_ok L" "shareOk t n share" "validSafeMetadataID pol" "now \<noteq> 0"
  shows "genuine L ids pol (masterKeyID L k) t n share (shareFileOf L pol (masterKeyID L k) t n now share)"
proof -
  have v: "ofBytes (spValue share) \<noteq> []" "spValue share \<noteq> []" using assms(2) by (auto simp: shareOk_def ofBytes_def)
  then have e: "encodedShare L share \<noteq> []" "trimSpace (encodedShare L share) = encodedShare L share"
    using assms(1) by (simp_all add: b64_ok_def encodedShare_def)
  show ?thesis using assms(2-4) e v(2)
    by (simp add: genuine_def shareFileOf_def Let_def validateRecoveryShareHeader_def recoverySharePlaintext_def safe_names shareOk_def
        flip: encodedShare_def)
qed

lemma sealed_genuine:
  assumes "lib_ok L" "b64_ok L" "shareOk t n share" "validSafeMetadataID pol" "now \<noteq> 0" "opens L ids (r # rs)" "snd r = ageRecipientFingerprint L (fst r)"
    and "sealShareFile L (r # rs) (shareFileOf L pol (masterKeyID L k) t n now share) = Inr g"
  shows "genuine L ids pol (masterKeyID L k) t n share g"
proof -
  have v: "ofBytes (spValue share) \<noteq> []" "spValue share \<noteq> []" using assms(3) by (auto simp: shareOk_def ofBytes_def)
  then have e: "encodedShare L share \<noteq> []" "trimSpace (encodedShare L share) = encodedShare L share" "length (encodedShare L share) \<le> 64"
    using assms(2,3) by (auto simp: b64_ok_def encodedShare_def shareOk_def dest!: spec [of _ "ofBytes (spValue share)"])
  have sh: "shShare (shareFileOf L pol (masterKeyID L k) t n now share) = encodedShare L share" by (simp add: shareFileOf_def Let_def encodedShare_def)
  obtain c where c: "ageEncrypt L (fst r) (encodedShare L share) = Some c"
    "g = (shareFileOf L pol (masterKeyID L k) t n now share)\<lparr>shShare := [], shEnvelope := Some \<lparr>evFormat = recoveryShareEnvelopeAgeX25519V1,
       evRecipientFingerprint = snd r, evCiphertext = b64RawURLEncode L c\<rparr>\<rparr>"
    using assms(8) sh by (cases r) (auto simp: sealShareFile_def encryptAgeEnvelope_def split: option.splits)
  have o: "c \<noteq> []" "ageDecrypt L ids c = Some (encodedShare L share)" "ids \<noteq> []"
    using assms(6) e(1) c(1) by (cases r; auto simp: opens_def)+
  have env: "validateRecoveryShareEnvelope \<lparr>evFormat = recoveryShareEnvelopeAgeX25519V1, evRecipientFingerprint = snd r, evCiphertext = b64RawURLEncode L c\<rparr> = None"
    using assms(2,7) o(1) by (simp add: validateRecoveryShareEnvelope_def safe_names b64_ok_def)
  have t: "take 65536 (encodedShare L share) = encodedShare L share" using e(3) by simp
  have n: "trimSpace [] = []" by code_simp
  show ?thesis using assms(1,3-5) e o env v(2) t n
    by (simp add: genuine_def c(2) validateRecoveryShareHeader_def recoverySharePlaintext_def safe_names shareOk_def)
       (simp add: shareFileOf_def Let_def encodedShare_def safe_names)
qed

lemma opens_tl: "opens L ids (r # rs) \<Longrightarrow> opens L ids rs"
  by (auto simp: opens_def)

lemma sealed_files:
  assumes "lib_ok L" "b64_ok L" "validSafeMetadataID pol" "now \<noteq> 0" "list_all (shareOk t n) shares" "rs = [] \<or> length rs = length shares"
    and "opens L ids rs" "\<forall>r \<in> set rs. snd r = ageRecipientFingerprint L (fst r)"
    and "sealShareFiles L rs (map (shareFileOf L pol (masterKeyID L k) t n now) shares) = Inr files"
  shows "list_all2 (genuine L ids pol (masterKeyID L k) t n) shares files"
  using assms(5-9)
proof (induction shares arbitrary: rs files)
  case (Cons share shares)
  let ?F = "shareFileOf L pol (masterKeyID L k) t n now"
  obtain g gs where g: "sealShareFile L rs (?F share) = Inr g" "sealShareFiles L (tl rs) (map ?F shares) = Inr gs" "files = g # gs"
    using Cons.prems(5) by (auto split: sum.splits)
  have o: "shareOk t n share" using Cons.prems(1) by simp
  have "genuine L ids pol (masterKeyID L k) t n share g"
  proof (cases rs)
    case Nil
    then have "g = ?F share" using g(1) by (simp add: sealShareFile_def)
    then show ?thesis using plain_genuine [OF assms(2) o assms(3,4)] by simp
  next
    case (Cons r rest)
    show ?thesis by (rule sealed_genuine [OF assms(1,2) o assms(3,4), of ids r rest]) (use Cons Cons.prems(3,4) g(1) in \<open>simp_all\<close>)
  qed
  moreover have "list_all2 (genuine L ids pol (masterKeyID L k) t n) shares gs"
    by (rule Cons.IH [OF _ _ _ _ g(2)]) (use Cons.prems opens_tl [of L ids "hd rs" "tl rs"] in \<open>cases rs; auto\<close>)+
  ultimately show ?case using g(3) by simp
qed simp

subsection \<open>Writing and reading the files\<close>

lemma osCall_shares [simp]: "sShares (snd (osCall h)) = sShares h" "sAgeFiles (snd (osCall h)) = sAgeFiles h" "sEntropy (snd (osCall h)) = sEntropy h"
  by (simp_all add: osCall_def)

lemma written_file:
  assumes "fst (writeRecoveryShareFile p f h) = None"
  shows "sShares (snd (writeRecoveryShareFile p f h)) = AList.update (trimSpace p) (ShareFile f) (sShares h)"
    "bMasterKey (snd (writeRecoveryShareFile p f h)) = bMasterKey h"
  using assms by (cases "fst (osCall h)"; auto simp: writeRecoveryShareFile_def Let_def split: if_splits)+

lemma written_files:
  assumes "fst (writeShareFiles pfs h) = None" "\<forall>p \<in> set (map fst pfs). trimSpace p = p" "distinct (map fst pfs)"
  shows "(\<forall>p f. (p, f) \<in> set pfs \<longrightarrow> map_of (sShares (snd (writeShareFiles pfs h))) p = Some (ShareFile f))
    \<and> (\<forall>p. p \<notin> set (map fst pfs) \<longrightarrow> map_of (sShares (snd (writeShareFiles pfs h))) p = map_of (sShares h) p)
    \<and> bMasterKey (snd (writeShareFiles pfs h)) = bMasterKey h"
  using assms
proof (induction pfs arbitrary: h)
  case (Cons pf pfs)
  obtain p f where pf: "pf = (p, f)" by fastforce
  have w: "fst (writeRecoveryShareFile p f h) = None" using Cons.prems(1) pf by (cases "fst (writeRecoveryShareFile p f h)") simp_all
  let ?h = "snd (writeRecoveryShareFile p f h)"
  have r: "writeShareFiles (pf # pfs) h = writeShareFiles pfs ?h" using w pf by simp
  have IH: "(\<forall>p f. (p, f) \<in> set pfs \<longrightarrow> map_of (sShares (snd (writeShareFiles pfs ?h))) p = Some (ShareFile f))
    \<and> (\<forall>p. p \<notin> set (map fst pfs) \<longrightarrow> map_of (sShares (snd (writeShareFiles pfs ?h))) p = map_of (sShares ?h) p)
    \<and> bMasterKey (snd (writeShareFiles pfs ?h)) = bMasterKey ?h"
    by (rule Cons.IH) (use Cons.prems r in auto)
  have p: "trimSpace p = p" "p \<notin> set (map fst pfs)" using Cons.prems(2,3) pf by auto
  show ?case unfolding r using IH p written_file [OF w] pf by (auto simp: update_conv')
qed simp

lemma read_files:
  assumes "kFaults h = []" "\<forall>p \<in> set ps. trimSpace p = p \<and> map_of (sShares h) p = Some (ShareFile (g p)) \<and> validateRecoveryShareHeader (g p) = None"
  shows "fst (readShareFiles ps h) = Inr (map g ps)" "still (snd (readShareFiles ps h)) = still h" "kFaults (snd (readShareFiles ps h)) = []"
proof -
  have "fst (readShareFiles ps h) = Inr (map g ps) \<and> still (snd (readShareFiles ps h)) = still h \<and> kFaults (snd (readShareFiles ps h)) = []"
    using assms
  proof (induction ps arbitrary: h)
    case (Cons p ps)
    note o = osCall_ok [OF Cons.prems(1)]
    have r: "fst (readRecoveryShareFile p h) = Inr (g p)" "snd (readRecoveryShareFile p h) = snd (osCall h)"
      using Cons.prems(2) o(1) by (simp_all add: readRecoveryShareFile_def)
    have "fst (readShareFiles ps (snd (osCall h))) = Inr (map g ps) \<and> still (snd (readShareFiles ps (snd (osCall h)))) = still (snd (osCall h))
        \<and> kFaults (snd (readShareFiles ps (snd (osCall h)))) = []"
      by (rule Cons.IH [OF o(2)]) (use Cons.prems(2) in simp)
    then show ?case using r by simp
  qed simp
  then show "fst (readShareFiles ps h) = Inr (map g ps)" "still (snd (readShareFiles ps h)) = still h" "kFaults (snd (readShareFiles ps h)) = []" by blast+
qed

lemma audit_shares [simp]:
  fixes h :: "'m shareHost_scheme"
  shows "sShares (snd (auditRecoveryShares L op pol oc svc rid h)) = sShares h" "bMasterKey (snd (auditRecoveryShares L op pol oc svc rid h)) = bMasterKey h"
    "kWrappers (snd (auditRecoveryShares L op pol oc svc rid h)) = kWrappers h" "bDisk (snd (auditRecoveryShares L op pol oc svc rid h)) = bDisk h"
  using writeAuditEvent_frame [of L "emptyAuditEvent\<lparr>aeTS := bNow h, aeOperation := op, aePolicyID := pol, aeOutcome := oc, aeServiceID := svc, aeRequestID := rid\<rparr>" h]
  by (auto simp: auditRecoveryShares_def)

lemma recoveryStep_shares [simp]:
  fixes h :: "'m shareHost_scheme"
  shows "sShares (recoveryStep L op p oc svc rid h) = sShares h"
  unfolding recoveryStep_def auditRecoveryPolicy_def Let_def
  using writeAuditEvent_frame [of L "case p of None \<Rightarrow> emptyAuditEvent\<lparr>aeTS := bNow h, aeOperation := op, aeOutcome := oc, aeServiceID := svc, aeRequestID := rid\<rparr>
    | Some p \<Rightarrow> emptyAuditEvent\<lparr>aeTS := bNow h, aeOperation := op, aeOutcome := oc, aeServiceID := svc, aeRequestID := rid,
        aePolicyID := rpPolicyID p, aeKeyID := rpKeyID p, aeState := rpStatus p\<rparr>" h]
  by (auto split: option.splits)

lemma upsert_shares [simp]:
  fixes h :: "'m shareHost_scheme"
  shows "sShares (snd (upsertRecoveryPolicy L req h)) = sShares h" "bMasterKey (snd (upsertRecoveryPolicy L req h)) = bMasterKey h"
proof -
  have s: "sShares (snd (saveStore x h)) = sShares h" for x by (simp add: saveStore_def Let_def split: list.split saveFault.split)
  show "sShares (snd (upsertRecoveryPolicy L req h)) = sShares h" "bMasterKey (snd (upsertRecoveryPolicy L req h)) = bMasterKey h"
    by (simp_all add: upsertRecoveryPolicy_def Let_def check_def s split: sum.split option.split)
qed

text \<open>What a successful generation leaves: each output names a file, and the files hold the shares of the key.\<close>

lemma generate_issued:
  assumes "lib_ok L" "b64_ok L" "generateRecoveryShares L req h = ((res, None), h1)" "canonical (rgPolicyID req)"
    and "\<forall>rs. loadAgeRecipients L (rgAgeRecipients req) (rgAgeRecipientFiles req) (length (safeList (rgOutputs req))) h = Inr rs \<longrightarrow> opens L ids rs"
  obtains kb shares files pol n src where "b64RawURLDecode L (trimSpace (bMasterKey h)) = Some kb" "bMasterKey h1 = trimSpace (bMasterKey h)"
    "splitSecretGF256 (toBytes kb) (rgThreshold req) n src = Inr shares" "distinct (safeList (rgOutputs req))"
    "length (safeList (rgOutputs req)) = length shares" "length kb = 32"
    "list_all2 (genuine L ids pol (masterKeyID L (bMasterKey h)) (rgThreshold req) n) shares files"
    "\<forall>p f. (p, f) \<in> set (zip (safeList (rgOutputs req)) files) \<longrightarrow> map_of (sShares h1) p = Some (ShareFile f)"
proof -
  let ?h = "h\<lparr>bMasterKey := trimSpace (bMasterKey h)\<rparr>" and ?outs = "safeList (rgOutputs req)" and ?key = "trimSpace (bMasterKey h)" and ?id = "masterKeyID L (bMasterKey h)"
  have v: "validatePortableMasterKey L (bMasterKey h) = None"
    using assms(3) by (auto simp: generateRecoveryShares_def Let_def split: option.splits)
  obtain st cnt where stv: "validateStoreForKey L ?h = (st, cnt, None)"
    using assms(3) v by (cases "validateStoreForKey L ?h"; cases "snd (snd (validateStoreForKey L ?h))") (auto simp: generateRecoveryShares_def Let_def)
  have g: "?outs \<noteq> []" "\<not> hasDuplicate ?outs" "\<not> (rgThreshold req < 1 \<or> rgThreshold req > int (length ?outs) \<or> length ?outs > 255)"
    using assms(3) v stv by (auto simp: generateRecoveryShares_def Let_def split: if_splits)
  obtain kb where kb: "b64RawURLDecode L ?key = Some kb" "length kb = 32"
    using assms(3) v stv g by (auto simp: generateRecoveryShares_def Let_def split: option.splits if_splits)
  obtain shares where sp: "splitSecretGF256 (toBytes kb) (rgThreshold req) (int (length ?outs)) (sEntropy h) = Inr shares"
    using assms(3) v stv g kb by (auto simp: generateRecoveryShares_def Let_def split: sum.splits)
  obtain rs where rs: "loadAgeRecipients L (rgAgeRecipients req) (rgAgeRecipientFiles req) (length ?outs) ?h = Inr rs"
    using assms(3) v stv g kb sp by (auto simp: generateRecoveryShares_def Let_def split: sum.splits)
  have pub: "publishShares L req ?outs cnt rs shares ?h = ((res, None), h1)"
    using assms(3) v stv g kb sp rs by (simp add: generateRecoveryShares_def Let_def)
  let ?pol = "sharePolicyID req ?id"
  let ?plain = "map (shareFileOf L ?pol (?id) (rgThreshold req) (int (length shares)) (bNow h)) shares"
  obtain files where fs: "sealShareFiles L rs ?plain = Inr files"
    using pub by (cases "sealShareFiles L rs ?plain") (simp_all add: publishShares_def Let_def)
  let ?policy = "sharePolicyRequest req ?pol (?id) files (map snd rs) (bNow h)"
  obtain p where p: "normalizeRecoveryPolicyRequest ?policy (bNow h) = Inr p"
    using pub fs by (cases "normalizeRecoveryPolicyRequest ?policy (bNow h)") (simp_all add: publishShares_def Let_def)
  let ?w = "writeShareFiles (zip ?outs files) ?h"
  have w: "fst ?w = None" using pub fs p by (cases "fst ?w") (simp_all add: publishShares_def Let_def)
  let ?e = "upsertRecoveryPolicy L ?policy (snd ?w)"
  have h1: "sShares h1 = sShares (snd ?w)" "bMasterKey h1 = bMasterKey (snd ?w)"
    using pub fs p w by (cases "snd (fst ?e)"; auto simp: publishShares_def Let_def)+
  note issued = shamir.issued [OF sp] and cs = splitSecretGF256_cases [OF sp]
  have n: "length shares = length ?outs" using issued by simp
  have ok: "list_all (shareOk (rgThreshold req) (int (length shares))) shares"
    using cs g(3) kb(2) n by (auto simp: list_all_iff shareOk_def length_drawn_coeffs)
  have val: "validateRecoveryPolicyMetadata (completedPolicy ?policy (bNow h)) = None"
    using p by (auto simp: normalizeRecoveryPolicyRequest_def Let_def split: option.splits)
  have now: "bNow h \<noteq> 0" using val by (auto simp: validateRecoveryPolicyMetadata_def completedPolicy_def sharePolicyRequest_def Let_def split: if_splits)
  have pol: "validSafeMetadataID ?pol"
  proof (cases "scrubAuditField (rgPolicyID req) = []")
    case True
    then show ?thesis using safe_names(5) [of L "bMasterKey h"] by (simp add: sharePolicyID_def)
  next
    case False
    then have "rpPolicyID (completedPolicy ?policy (bNow h)) = ?pol"
      using assms(4) by (simp add: completedPolicy_def sharePolicyRequest_def sharePolicyID_def Let_def canonical_def)
    then show ?thesis using val by (auto simp: validateRecoveryPolicyMetadata_def split: if_splits)
  qed
  have fp: "\<forall>r \<in> set rs. snd r = ageRecipientFingerprint L (fst r)" "rs = [] \<or> length rs = length shares"
    using rs n by (auto simp: loadAgeRecipients_def split: sum.splits if_splits)
  have op: "opens L ids rs"
  proof -
    have "loadAgeRecipients L (rgAgeRecipients req) (rgAgeRecipientFiles req) (length ?outs) h = Inr rs" using rs by (simp add: loadAgeRecipients_def loadAgeStrings_def)
    then show ?thesis using assms(5) by blast
  qed
  have gen: "list_all2 (genuine L ids ?pol (?id) (rgThreshold req) (int (length shares))) shares files"
    by (rule sealed_files [OF assms(1,2) pol now ok fp(2) op fp(1)]) (use fs in simp)
  have dist: "distinct ?outs" using g(2) by (simp add: hasDuplicate_iff)
  have len: "length files = length ?outs" using gen n by (simp add: list_all2_lengthD)
  have tr: "\<forall>p \<in> set ?outs. trimSpace p = p" by (auto simp: safeList_eq)
  have m: "map fst (zip ?outs files) = ?outs" using len by simp
  have "(\<forall>p f. (p, f) \<in> set (zip ?outs files) \<longrightarrow> map_of (sShares (snd ?w)) p = Some (ShareFile f)) \<and> bMasterKey (snd ?w) = bMasterKey ?h"
    using written_files [OF w, unfolded m, OF tr dist] by blast
  then show ?thesis using that [OF kb(1) _ sp dist _ kb(2) gen [unfolded n]] h1 n by simp
qed

subsection \<open>Recovery\<close>

lemma kept_runs: "kFaults h = [] \<Longrightarrow> \<exists>t. fst (keptCreatedAt path now h) = Inr t" "kFaults h = [] \<Longrightarrow> kFaults (snd (keptCreatedAt path now h)) = []"
proof -
  assume f: "kFaults h = []"
  let ?o = "snd (osCall h)"
  note o = osCall_ok [OF f] osCall_ok [OF osCall_ok(2) [OF f]]
  let ?r = "readLocalKeyWrapper path (snd (osCall ?o))"
  have k: "kFaults (snd ?r) = []" using osCall_ok [OF o(4)] by (simp add: readLocalKeyWrapper_def)
  show "\<exists>t. fst (keptCreatedAt path now h) = Inr t" "kFaults (snd (keptCreatedAt path now h)) = []"
    using o k by (cases "map_of (kWrappers h) path"; cases "fst ?r"; simp add: keptCreatedAt_def)+
qed

lemma wrap_runs:
  assumes "lib_ok L" "provider_ok P" "encodes_nonempty L" "kFaults h = []" "wcSupported ctx" "validatePortableMasterKey L k = None"
    and "pvProtect P (trimSpace k) \<noteq> None" "pathDir path \<noteq> ''.''" "pathDir path \<noteq> ''/''"
  shows "\<not> is_err (fst (wrapMasterKeyWithProvider L P path k ctx now h))"
    "wrapperHolds L P ctx (kWrappers (snd (wrapMasterKeyWithProvider L P path k ctx now h))) path (trimSpace k)"
    "bMasterKey (snd (wrapMasterKeyWithProvider L P path k ctx now h)) = bMasterKey h"
proof -
  let ?w = "wrapMasterKeyWithProvider L P path k ctx now h"
  note o = osCall_ok [OF assms(4)] osCall_ok [OF osCall_ok(2) [OF assms(4)]]
  let ?q = "snd (osCall (snd (osCall h)))"
  obtain c where c: "pvProtect P (trimSpace k) = Some c" using assms(7) by blast
  obtain t where t: "fst (keptCreatedAt path now ?q) = Inr t" using kept_runs(1) [OF o(4)] by blast
  note f = kept_runs(2) [OF o(4), of path now]
  let ?a = "writePrivateWrapperAtomically path (wrapperOf L P k ctx c t now) (snd (keptCreatedAt path now ?q))"
  have a: "fst ?a = None"
    using assms(8,9) osCall_ok [OF f] by (simp add: writePrivateWrapperAtomically_def Let_def osCall_ok)
  show n: "\<not> is_err (fst ?w)" using assms(5,6) o c t a by (simp add: wrapMasterKeyWithProvider_def Let_def)
  show "wrapperHolds L P ctx (kWrappers (snd ?w)) path (trimSpace k)" "bMasterKey (snd ?w) = bMasterKey h"
  proof -
    have "wrapperHolds L P ctx (kWrappers (snd ?w)) path (trimSpace k) \<and> bMasterKey (snd ?w) = bMasterKey h"
    proof (rule wrap_paths [of L P path k ctx now h])
      fix c t assume w: "pvProtect P (trimSpace k) = Some c" "validatePortableMasterKey L k = None"
        "still (snd ?w) = still (h\<lparr>kWrappers := AList.update path (WrapperFile (wrapperOf L P k ctx c t now)) (kWrappers h)\<rparr>)"
      show ?thesis using still_sel(1,3) [OF w(3)] written_holds [OF assms(1-3) w(1,2), of ctx path t now "kWrappers h"] by simp
    qed (use n in simp)
    then show "wrapperHolds L P ctx (kWrappers (snd ?w)) path (trimSpace k)" "bMasterKey (snd ?w) = bMasterKey h" by blast+
  qed
qed

lemma import_recombines:
  assumes "lib_ok L" "list_all2 (genuine L ids pol key t n) shares files" "splitSecretGF256 secret t n src = Inr shares"
    and "distinct outs" "length outs = length shares" "distinct ps" "set ps \<subseteq> set outs" "t \<le> int (length ps)"
  defines "g \<equiv> \<lambda>p. the (map_of (zip outs files) p)"
  shows "\<forall>p \<in> set ps. (p, g p) \<in> set (zip outs files) \<and> validateRecoveryShareHeader (g p) = None"
    and "\<exists>points. validateRecoveryShareSet L (map g ps) ids = Inr (g (hd ps), points) \<and> length points = length ps
      \<and> combineSecretGF256 (take (nat t) points) = Inr secret"
    and "shThreshold (g (hd ps)) = t" "shKeyID (g (hd ps)) = key"
proof -
  let ?s = "\<lambda>p. the (map_of (zip outs shares) p)"
  have len: "length files = length shares" using assms(2) by (simp add: list_all2_lengthD)
  have at: "\<exists>i < length outs. p = outs ! i \<and> g p = files ! i \<and> ?s p = shares ! i" if p: "p \<in> set outs" for p
  proof -
    obtain i where i: "i < length outs" "p = outs ! i" using p unfolding in_set_conv_nth by blast
    have "map_of (zip outs files) (outs ! i) = Some (files ! i)" "map_of (zip outs shares) (outs ! i) = Some (shares ! i)"
      using map_of_zip_nth [of outs files i] map_of_zip_nth [of outs shares i] assms(4,5) len i(1) by simp_all
    then have "p = outs ! i \<and> g p = files ! i \<and> ?s p = shares ! i" using i(2) by (simp add: g_def)
    then show ?thesis using i(1) by blast
  qed
  have gen: "genuine L ids pol key t n (?s p) (g p)" if "p \<in> set outs" for p
    using at [OF that] assms(2,5) by (auto dest: list_all2_nthD)
  have mem: "(p, g p) \<in> set (zip outs files)" "?s p \<in> set shares" if "p \<in> set outs" for p
    using at [OF that] len assms(5) by (auto simp: set_zip)
  note issued = shamir.issued [OF assms(3)]
  have inj: "inj_on ?s (set outs)"
  proof (rule inj_onI)
    fix p q assume pq: "p \<in> set outs" "q \<in> set outs" "?s p = ?s q"
    obtain i j where "i < length outs" "p = outs ! i" "?s p = shares ! i" "j < length outs" "q = outs ! j" "?s q = shares ! j"
      using at [OF pq(1)] at [OF pq(2)] by blast
    then show "p = q" using pq(3) issued assms(5) by (metis nth_eq_iff_index_eq)
  qed
  have ds: "distinct (map ?s ps)" using assms(6,7) inj by (simp add: distinct_map inj_on_subset)
  have idx: "inj_on spIndex (set shares)" using splitSecretGF256_cases [OF assms(3)] by (auto simp: inj_on_def)
  have di: "distinct (map spIndex (map ?s ps))"
    using ds idx mem(2) assms(7) by (simp add: distinct_map) (meson comp_inj_on image_subset_iff inj_on_subset subset_iff)
  show one: "\<forall>p \<in> set ps. (p, g p) \<in> set (zip outs files) \<and> validateRecoveryShareHeader (g p) = None"
    using mem(1) gen assms(7) by (auto simp: genuine_def)
  have ps: "ps \<noteq> []" using assms(8) issued by auto
  then have h: "genuine L ids pol key t n (?s (hd ps)) (g (hd ps))" using gen assms(7) by (simp add: subset_iff)
  show "shThreshold (g (hd ps)) = t" "shKeyID (g (hd ps)) = key" using h by (simp_all add: genuine_def)
  have "list_all2 (genuine L ids pol key t n) (map ?s ps) (map g ps)"
    using gen assms(7) by (auto simp: list_all2_map1 list_all2_map2 intro!: list.rel_refl_strong)
  then have v: "validateShares L (g (hd ps)) ids [] (map g ps) = Inr (map ?s ps)"
    by (rule genuine_points [OF assms(1) _ di]) (use h in \<open>simp_all add: genuine_def\<close>)
  have "combineSecretGF256 (take (nat t) (map ?s ps)) = Inr secret"
    by (rule shamir.threshold_prefix_recovers [OF assms(3)]) (use ds mem(2) assms(7,8) in auto)
  then show "\<exists>points. validateRecoveryShareSet L (map g ps) ids = Inr (g (hd ps), points) \<and> length points = length ps
      \<and> combineSecretGF256 (take (nat t) points) = Inr secret"
    using v one ps h by (cases ps) (auto simp: validateRecoveryShareSet_def genuine_def)
qed

lemma still_id: "kFaults h = [] \<Longrightarrow> still h = h"
proof -
  assume f: "kFaults h = []"
  have "h\<lparr>kFaults := kFaults h\<rparr> = h" by simp
  then show ?thesis unfolding still_def f by assumption
qed

lemma import_run:
  fixes h :: "'m shareHost_scheme"
  assumes "loadAgeIdentities L (iqAgeIdentities req) (iqAgeIdentityFiles req) h = Inr ids" "safeList (iqInputs req) \<noteq> []" "kFaults h = []"
    and "\<forall>p \<in> set (safeList (iqInputs req)). map_of (sShares h) p = Some (ShareFile (g p)) \<and> validateRecoveryShareHeader (g p) = None"
    and "validateRecoveryShareSet L (map g (safeList (iqInputs req))) ids = Inr (header, points)" "shThreshold header \<le> int (length points)"
    and "combineSecretGF256 (take (nat (shThreshold header)) points) = Inr (toBytes kb)"
  obtains res where "importRecoverySharesWithProvider L P ctx req h = adoptRecoveredKey L P ctx req header res (b64RawURLEncode L kb) h"
proof -
  let ?ps = "safeList (iqInputs req)"
  have t: "\<forall>p \<in> set ?ps. trimSpace p = p \<and> map_of (sShares h) p = Some (ShareFile (g p)) \<and> validateRecoveryShareHeader (g p) = None"
    using assms(4) by (auto simp: safeList_eq)
  note r = read_files [OF assms(3) t]
  have "snd (readShareFiles ?ps h) = h" using r(2) still_id [OF r(3)] still_id [OF assms(3)] by simp
  then show ?thesis using that assms r(1)
    by (simp add: importRecoverySharesWithProvider_def Let_def)
qed

lemma adopt_runs:
  fixes h :: "'m shareHost_scheme" and res
  assumes "lib_ok L" "b64_ok L" "provider_ok P" "encodes_nonempty L" "length kb = 32" "kFaults h = []" "k = b64RawURLEncode L kb" "shKeyID header = masterKeyID L k"
    and "wcSupported ctx" "snd (snd (validateStoreForKey L (h\<lparr>bMasterKey := k\<rparr>))) = None" "pvProtect P k \<noteq> None"
    and "pathDir (iqWrapperPath req) \<noteq> ''.''" "pathDir (iqWrapperPath req) \<noteq> ''/''"
  defines "r \<equiv> adoptRecoveredKey L P ctx req header res k h"
  shows "snd (fst r) = None" "bMasterKey (snd r) = k" "wrapperHolds L P ctx (kWrappers (snd r)) (iqWrapperPath req) k"
proof -
  let ?h = "h\<lparr>bMasterKey := k\<rparr>"
  have t: "trimSpace k = k" "k \<noteq> []" using assms(2,5,7) by (auto simp: b64_ok_def dest!: spec [of _ kb])
  have v: "validatePortableMasterKey L k = None" using t assms(1,5,7) by (simp add: validatePortableMasterKey_def)
  obtain st n where sv: "validateStoreForKey L ?h = (st, n, None)" using assms(10) by (cases "validateStoreForKey L ?h") auto
  let ?w = "wrapMasterKeyWithProvider L P (iqWrapperPath req) k ctx (bNow h) ?h"
  have w: "\<not> is_err (fst ?w)" "wrapperHolds L P ctx (kWrappers (snd ?w)) (iqWrapperPath req) k" "bMasterKey (snd ?w) = k"
    using wrap_runs [OF assms(1,3,4) _ assms(9) v, of ?h "iqWrapperPath req" "bNow h"] assms(6,11-13) t by simp_all
  then obtain x where x: "fst ?w = Inr x" by (cases "fst ?w") auto
  show "snd (fst r) = None" "bMasterKey (snd r) = k" "wrapperHolds L P ctx (kWrappers (snd r)) (iqWrapperPath req) k"
    using v sv w x assms(8,9) by (simp_all add: r_def adoptRecoveredKey_def Let_def)
qed

text \<open>
  Property C37. The master key survives the loss of everything but enough recovery shares. When shares
  were generated for a policy, in the clear or sealed to age recipients, then importing the files of any
  threshold-many or more of them, in any order, on a host whose store belongs to the key, ends with the
  broker unlocked by exactly that key and a wrapper that holds it, provided the key is written in the form the
  encoder produces. A key that decodes to 32 bytes but is written differently is accepted for generation, yet
  every such import ends in a key mismatch: the shares hold the bytes of the key, and the key is identified by its text.
\<close>

theorem recovery_from_shares:
  fixes h h2 :: "'m shareHost_scheme"
  assumes "lib_ok L" "b64_ok L" "provider_ok P" "encodes_nonempty L"
    and "generateRecoveryShares L req h = ((res, None), h1)" "canonical (rgPolicyID req)"
    and "loadAgeIdentities L (iqAgeIdentities imp) (iqAgeIdentityFiles imp) h2 = Inr ids"
    and "\<forall>rs. loadAgeRecipients L (rgAgeRecipients req) (rgAgeRecipientFiles req) (length (safeList (rgOutputs req))) h = Inr rs \<longrightarrow> opens L ids rs"
    and "distinct (safeList (iqInputs imp))" "set (safeList (iqInputs imp)) \<subseteq> set (safeList (rgOutputs req))"
    and "rgThreshold req \<le> int (length (safeList (iqInputs imp)))"
    and "\<forall>p \<in> set (safeList (iqInputs imp)). map_of (sShares h2) p = map_of (sShares h1) p" "kFaults h2 = []"
    and "k = trimSpace (bMasterKey h)" "b64RawURLDecode L k = Some kb" "out = importRecoverySharesWithProvider L P ctx imp h2"
  shows "(b64RawURLEncode L kb = k \<longrightarrow> wcSupported ctx \<longrightarrow> snd (snd (validateStoreForKey L (h2\<lparr>bMasterKey := k\<rparr>))) = None \<longrightarrow> pvProtect P k \<noteq> None
        \<longrightarrow> pathDir (iqWrapperPath imp) \<notin> {''.'', ''/''}
        \<longrightarrow> snd (fst out) = None \<and> bMasterKey (snd out) = k \<and> wrapperHolds L P ctx (kWrappers (snd out)) (iqWrapperPath imp) k)
    \<and> (masterKeyID L (b64RawURLEncode L kb) \<noteq> masterKeyID L k \<longrightarrow>
         snd (fst out) = Some errRecoveryKeyMismatch \<and> bMasterKey (snd out) = bMasterKey h2)"
proof (rule generate_issued [OF assms(1,2,5,6,8)])
  fix kb' shares files pol n src
  let ?ps = "safeList (iqInputs imp)" and ?outs = "safeList (rgOutputs req)"
  assume i: "b64RawURLDecode L (trimSpace (bMasterKey h)) = Some kb'" "splitSecretGF256 (toBytes kb') (rgThreshold req) n src = Inr shares"
    "distinct ?outs" "length ?outs = length shares" "length kb' = 32"
    "list_all2 (genuine L ids pol (masterKeyID L (bMasterKey h)) (rgThreshold req) n) shares files"
    "\<forall>p f. (p, f) \<in> set (zip ?outs files) \<longrightarrow> map_of (sShares h1) p = Some (ShareFile f)"
  have kb: "kb' = kb" using i(1) assms(14,15) by simp
  let ?g = "\<lambda>p. the (map_of (zip ?outs files) p)"
  note c = import_recombines [OF assms(1) i(6,2,3,4) assms(9-11)]
  obtain points where pts: "validateRecoveryShareSet L (map ?g ?ps) ids = Inr (?g (hd ?ps), points)" "length points = length ?ps"
    "combineSecretGF256 (take (nat (rgThreshold req)) points) = Inr (toBytes kb)" using c(2) kb by auto
  have t: "1 \<le> rgThreshold req" using shamir.issued [OF i(2)] by simp
  then have ne: "?ps \<noteq> []" using assms(11) by auto
  have f: "\<forall>p \<in> set ?ps. map_of (sShares h2) p = Some (ShareFile (?g p)) \<and> validateRecoveryShareHeader (?g p) = None"
    using c(1) i(7) assms(12) by auto
  obtain r where out: "out = adoptRecoveredKey L P ctx imp (?g (hd ?ps)) r (b64RawURLEncode L kb) h2"
  proof (rule import_run [OF assms(7) ne assms(13) f pts(1)])
    show "shThreshold (?g (hd ?ps)) \<le> int (length points)" using c(3) pts(2) assms(11) by simp
    show "combineSecretGF256 (take (nat (shThreshold (?g (hd ?ps)))) points) = Inr (toBytes kb)" using c(3) pts(3) by simp
  qed (use that assms(16) in blast)
  have id: "shKeyID (?g (hd ?ps)) = masterKeyID L k" using c(4) assms(14) by simp
  have l: "length kb = 32" using i(5) kb by simp
  have "snd (fst out) = Some errRecoveryKeyMismatch \<and> bMasterKey (snd out) = bMasterKey h2" if "masterKeyID L (b64RawURLEncode L kb) \<noteq> masterKeyID L k"
  proof -
    have "b64RawURLEncode L kb \<noteq> []" "trimSpace (b64RawURLEncode L kb) = b64RawURLEncode L kb"
      using assms(2) l by (auto simp: b64_ok_def dest!: spec [of _ kb])
    then have "validatePortableMasterKey L (b64RawURLEncode L kb) = None" using assms(1) l by (simp add: validatePortableMasterKey_def)
    then show ?thesis using that id by (simp add: out adoptRecoveredKey_def Let_def)
  qed
  moreover have "snd (fst out) = None \<and> bMasterKey (snd out) = k \<and> wrapperHolds L P ctx (kWrappers (snd out)) (iqWrapperPath imp) k"
    if "b64RawURLEncode L kb = k" "wcSupported ctx" "snd (snd (validateStoreForKey L (h2\<lparr>bMasterKey := k\<rparr>))) = None" "pvProtect P k \<noteq> None"
      "pathDir (iqWrapperPath imp) \<notin> {''.'', ''/''}"
    using adopt_runs [OF assms(1-4) l assms(13) that(1) [symmetric] id that(2-4), of imp r] that(1,5) out by simp
  ultimately show ?thesis by blast
qed

subsection \<open>A concrete recovery\<close>

definition hexValue :: "char \<Rightarrow> nat" where
  "hexValue c = (if (of_char c :: nat) \<le> 57 then of_char c - 48 else of_char c - 87)"

fun hexDecode :: "string \<Rightarrow> string option" where
  "hexDecode (a # b # s) = (case hexDecode s of None \<Rightarrow> None | Some t \<Rightarrow> Some (char_of (16 * hexValue a + hexValue b) # t))"
| "hexDecode [] = Some []"
| "hexDecode [_] = None"

lemma hexDecode_encode: "hexDecode (hexEncode s) = Some s"
proof -
  have v: "hexValue (hexDigit n) = n mod 16" for n
  proof -
    have "n mod 16 < 16" by simp
    then have "n mod 16 \<in> set [0..<16]" by simp
    moreover have "\<forall>m \<in> set [0..<16]. hexValue (''0123456789abcdef'' ! m) = m" by code_simp
    ultimately show ?thesis unfolding hexDigit_def by blast
  qed
  have "char_of (16 * ((of_char c div 16) mod 16) + of_char c mod 16 :: nat) = c" for c
  proof -
    have "(of_char c :: nat) < 256" by (metis of_char_of char_of_char mod_less_divisor zero_less_numeral)
    then have "(of_char c :: nat) div 16 < 16" by (simp add: less_mult_imp_div_less)
    then have "16 * ((of_char c div 16) mod 16) + of_char c mod 16 = (of_char c :: nat)" by (metis mod_less mult_div_mod_eq)
    then show ?thesis by simp
  qed
  then show ?thesis by (induction s) (simp_all add: hexEncode_def v)
qed

text \<open>A library with a hexadecimal text encoding; its hash keeps the first characters.\<close>

definition hexLib :: agelib where
  "hexLib = golib.extend (toy_lib\<lparr>sha256 := (\<lambda>s. take 32 (rev (take 25 s) @ replicate 32 (CHR ''.''))),
       b64RawURLEncode := hexEncode, b64RawURLDecode := hexDecode\<rparr>)
     \<lparr>ageRecipientOk = (\<lambda>_. True), ageIdentityOk = (\<lambda>_. True), ageEncrypt = (\<lambda>r p. Some p), ageDecrypt = (\<lambda>ids c. Some c)\<rparr>"

lemma hexLib_ok: "lib_ok hexLib" "b64_ok hexLib" "encodes_nonempty hexLib"
proof -
  have t: "sha256 hexLib = (\<lambda>s. take 32 (rev (take 25 s) @ replicate 32 (CHR ''.'')))" "b64RawURLEncode hexLib = hexEncode"
    "b64RawURLDecode hexLib = hexDecode" "gcmOpen hexLib = gcmOpen toy_lib" "gcmSeal hexLib = gcmSeal toy_lib" "b64Encode hexLib = b64Encode toy_lib"
    "b64Decode hexLib = b64Decode toy_lib"
    by (simp_all add: hexLib_def golib.defs)
  have "length (take 32 (rev (take 25 s) @ replicate 32 (CHR ''.''))) = 32" for s :: string by simp
  then show "lib_ok hexLib" using toy_lib_ok unfolding lib_ok_def t hexDecode_encode by blast
  have "hexEncode s \<noteq> []" if "s \<noteq> []" for s using that by (cases s) (simp_all add: hexEncode_def)
  moreover have "trimSpace (hexEncode s) = hexEncode s" for s by (rule trimSpace_solid [OF hex_solid])
  moreover have "length (hexEncode s) = 2 * length s" for s by (induction s) (simp_all add: hexEncode_def)
  ultimately show "b64_ok hexLib" by (simp add: b64_ok_def t)
  show "encodes_nonempty hexLib" by (simp add: encodes_nonempty_def t toy_lib_def)
qed

lemma writes_run:
  assumes "kFaults h = []" "\<forall>p \<in> set (map fst pfs). trimSpace p = p \<and> p \<noteq> [] \<and> map_of (sShares h) p = None" "distinct (map fst pfs)"
  shows "fst (writeShareFiles pfs h) = None" "bDisk (snd (writeShareFiles pfs h)) = bDisk h" "bSaveFaults (snd (writeShareFiles pfs h)) = bSaveFaults h"
    "bNow (snd (writeShareFiles pfs h)) = bNow h"
proof -
  have "fst (writeShareFiles pfs h) = None \<and> bDisk (snd (writeShareFiles pfs h)) = bDisk h \<and> bSaveFaults (snd (writeShareFiles pfs h)) = bSaveFaults h
      \<and> bNow (snd (writeShareFiles pfs h)) = bNow h"
    using assms
  proof (induction pfs arbitrary: h)
    case (Cons pf pfs)
    obtain p f where pf: "pf = (p, f)" by fastforce
    note o = osCall_ok [OF Cons.prems(1)]
    let ?h = "snd (osCall h)\<lparr>sShares := AList.update p (ShareFile f) (sShares h)\<rparr>"
    have k: "kFaults ?h = []" using o(2) by simp
    have w: "writeRecoveryShareFile p f h = osCall ?h" using Cons.prems(2) pf o(1) by (simp add: writeRecoveryShareFile_def Let_def)
    have "fst (writeShareFiles pfs (snd (osCall ?h))) = None \<and> bDisk (snd (writeShareFiles pfs (snd (osCall ?h)))) = bDisk (snd (osCall ?h))
      \<and> bSaveFaults (snd (writeShareFiles pfs (snd (osCall ?h)))) = bSaveFaults (snd (osCall ?h))
      \<and> bNow (snd (writeShareFiles pfs (snd (osCall ?h)))) = bNow (snd (osCall ?h))"
      by (rule Cons.IH) (use osCall_ok(2) [OF k] Cons.prems(2,3) pf in \<open>auto simp: update_conv'\<close>)
    then show ?case using w osCall_ok(1) [OF k] pf by simp
  qed simp
  then show "fst (writeShareFiles pfs h) = None" "bDisk (snd (writeShareFiles pfs h)) = bDisk h" "bSaveFaults (snd (writeShareFiles pfs h)) = bSaveFaults h"
    "bNow (snd (writeShareFiles pfs h)) = bNow h" by blast+
qed

lemma seal_none: "sealShareFiles L [] fs = Inr fs"
  by (induction fs) (simp_all add: sealShareFile_def)

text \<open>A generation without recipients succeeds when the share fingerprints make a valid policy and the outputs are new files.\<close>

lemma generate_runs:
  fixes h :: "'m shareHost_scheme" and req :: recoveryShareGenerateRequest
  defines "outs \<equiv> safeList (rgOutputs req)"
  assumes "trimSpace (bMasterKey h) = bMasterKey h" "validatePortableMasterKey L (bMasterKey h) = None" "validateStoreForKey L h = (st, cnt, None)"
    and "outs \<noteq> []" "distinct outs" "1 \<le> rgThreshold req" "rgThreshold req \<le> int (length outs)" "length outs \<le> 255"
    and "loadAgeRecipients L (rgAgeRecipients req) (rgAgeRecipientFiles req) (length outs) h = Inr []"
    and "b64RawURLDecode L (bMasterKey h) = Some kb" "length kb = 32"
    and "splitSecretGF256 (toBytes kb) (rgThreshold req) (int (length outs)) (sEntropy h) = Inr shares"
    and "normalizeRecoveryPolicyRequest (sharePolicyRequest req (sharePolicyID req (masterKeyID L (bMasterKey h))) (masterKeyID L (bMasterKey h))
      (map (shareFileOf L (sharePolicyID req (masterKeyID L (bMasterKey h))) (masterKeyID L (bMasterKey h)) (rgThreshold req) (int (length shares)) (bNow h)) shares)
      [] (bNow h)) (bNow h) = Inr policy"
    and "kFaults h = []" "bSaveFaults h = []" "\<forall>p \<in> set outs. map_of (sShares h) p = None"
  shows "snd (fst (generateRecoveryShares L req h)) = None"
proof -
  let ?id = "masterKeyID L (bMasterKey h)"
  let ?files = "map (shareFileOf L (sharePolicyID req ?id) ?id (rgThreshold req) (int (length shares)) (bNow h)) shares"
  let ?policy = "sharePolicyRequest req (sharePolicyID req ?id) ?id ?files [] (bNow h)"
  have self: "h\<lparr>bMasterKey := bMasterKey h\<rparr> = h" by simp
  have "length ?files = length outs" using shamir.issued [OF assms(13)] by simp
  then have m: "map fst (zip outs ?files) = outs" by simp
  have "\<forall>p \<in> set outs. trimSpace p = p \<and> p \<noteq> [] \<and> map_of (sShares h) p = None" using assms(17) by (auto simp: outs_def safeList_eq)
  note w = writes_run [of h "zip outs ?files", unfolded m, OF assms(15) this assms(6)]
  let ?w = "snd (writeShareFiles (zip outs ?files) h)"
  obtain s where s: "loadStore ?w = Inr s"
  proof -
    have "loadStore ?w = loadStore h" unfolding loadStore_def w(2,4) ..
    moreover have "loadStore h \<noteq> Inl e" for e using assms(4) by (auto simp: validateStoreForKey_def split: if_splits)
    ultimately show ?thesis using that by (cases "loadStore h") auto
  qed
  have "keptCreation s ?policy = ?policy" by (simp add: keptCreation_def sharePolicyRequest_def split: option.split)
  then have "snd (fst (upsertRecoveryPolicy L ?policy ?w)) = None"
    using upsert_runs [OF s _ w(3) [unfolded assms(16)], of ?policy policy L] w(4) assms(14) by simp
  moreover have "\<not> hasDuplicate outs" using assms(6) by (simp add: hasDuplicate_iff)
  ultimately show ?thesis using assms(3-5,7-14) w(1)
    unfolding generateRecoveryShares_def publishShares_def Let_def assms(2) self outs_def [symmetric]
    by (simp add: seal_none)
qed

definition shareKey :: string where "shareKey = replicate 64 (CHR ''6'')"

definition shareDemo :: shareHost where
  "shareDemo = keyHost.extend (backend.extend (demoBackend\<lparr>bDisk := Stored (freshStore 1), bMasterKey := shareKey, bNow := 1\<rparr>)
     \<lparr>kStorePath = ''/s/store.json'', kWrapperPath = ''/s/wrapper.json'', kWrappers = [], kKeyFiles = [], kFaults = []\<rparr>)
     \<lparr>sShares = [], sAgeFiles = [], sEntropy = replicate 32 0\<rparr>"

definition shareRequest :: recoveryShareGenerateRequest where
  "shareRequest = \<lparr>rgPolicyID = ''p1'', rgThreshold = 2, rgOutputs = [''/m/a'', ''/m/b'', ''/m/c''], rgAgeRecipients = [], rgAgeRecipientFiles = [],
     rgServiceID = ''@operator'', rgRequestID = ''r1''\<rparr>"

definition shareImport :: recoveryShareImportRequest where
  "shareImport = \<lparr>iqInputs = [''/m/c'', ''/m/a''], iqAgeIdentities = [], iqAgeIdentityFiles = [], iqWrapperPath = ''/s/wrapper.json'', iqOS = ''windows'',
     iqServiceID = ''@operator'', iqRequestID = ''r2''\<rparr>"

lemma share_demo:
  "bMasterKey shareDemo = shareKey" "bDisk shareDemo = Stored (freshStore 1)" "bNow shareDemo = 1" "kFaults shareDemo = []" "bSaveFaults shareDemo = []"
  "sShares shareDemo = []" "sAgeFiles shareDemo = []" "sEntropy shareDemo = replicate 32 0"
  by (simp_all add: shareDemo_def keyHost.defs backend.defs demoBackend_def lockState.defs)

lemma share_key: "trimSpace shareKey = shareKey" "validatePortableMasterKey hexLib shareKey = None" "b64RawURLDecode hexLib shareKey = Some (replicate 32 (CHR ''f''))"
  "b64RawURLEncode hexLib (replicate 32 (CHR ''f'')) = shareKey" "masterKeyID hexLib shareKey = ''mk-3636363636363636''"
  by code_simp+

lemma share_prints:
  "recoveryShareFingerprint hexLib ''p1'' ''mk-3636363636363636'' 1 e = ''share-7c317c3633363336''"
  "recoveryShareFingerprint hexLib ''p1'' ''mk-3636363636363636'' 2 e = ''share-7c327c3633363336''"
  "recoveryShareFingerprint hexLib ''p1'' ''mk-3636363636363636'' 3 e = ''share-7c337c3633363336''"
proof -
  have i: "itoa 1 = ''1''" "itoa 2 = ''2''" "itoa 3 = ''3''" by code_simp+
  have s: "sha256 hexLib x = take 32 (rev (take 25 x) @ replicate 32 (CHR ''.''))" for x by (simp add: hexLib_def golib.defs)
  show "recoveryShareFingerprint hexLib ''p1'' ''mk-3636363636363636'' 1 e = ''share-7c317c3633363336''"
    "recoveryShareFingerprint hexLib ''p1'' ''mk-3636363636363636'' 2 e = ''share-7c327c3633363336''"
    "recoveryShareFingerprint hexLib ''p1'' ''mk-3636363636363636'' 3 e = ''share-7c337c3633363336''"
    by (simp_all add: recoveryShareFingerprint_def s i hexEncode_def hexDigit_def)
qed

lemma share_demo_runs: "snd (fst (generateRecoveryShares hexLib shareRequest shareDemo)) = None"
proof -
  let ?css = "drawn_coeffs 2 (toBytes (replicate 32 (CHR ''f''))) (replicate 32 0)"
  let ?shares = "[share_at ?css 1, share_at ?css 2, share_at ?css 3]"
  have outs: "safeList (rgOutputs shareRequest) = [''/m/a'', ''/m/b'', ''/m/c'']" "safeList [] = []" by code_simp+
  have pol: "sharePolicyID shareRequest ''mk-3636363636363636'' = ''p1''" by code_simp
  have ready: "validateStoreForKey hexLib shareDemo = (''ready'', 0, None)"
    using share_key(1) by (simp add: validateStoreForKey_def share_demo isLocked_def loadStore_def freshStore_def shareKey_def)
  let ?policy = "sharePolicyRequest shareRequest ''p1'' ''mk-3636363636363636''
    (map (shareFileOf hexLib ''p1'' ''mk-3636363636363636'' 2 3 1) ?shares) [] 1"
  have names: "map shShareFingerprint (map (shareFileOf hexLib ''p1'' ''mk-3636363636363636'' 2 3 1) ?shares)
      = [''share-7c317c3633363336'', ''share-7c327c3633363336'', ''share-7c337c3633363336'']"
    by (simp add: shareFileOf_def Let_def share_prints)
  have "?policy = \<lparr>pqRequestID = ''r1'', pqServiceID = ''@operator'', pqPolicyID = ''p1'', pqKeyID = ''mk-3636363636363636'', pqKeyVersion = masterKeyVersion,
      pqThreshold = 2, pqShareCount = 3, pqShareFingerprints = [''share-7c317c3633363336'', ''share-7c327c3633363336'', ''share-7c337c3633363336''],
      pqRecipientFingerprints = [], pqCreatedAt = Some 1, pqRotatedAt = None, pqRevokedAt = None, pqStatus = ''active''\<rparr>" (is "_ = ?q")
    unfolding sharePolicyRequest_def names by (simp add: shareRequest_def)
  moreover have "is_err (normalizeRecoveryPolicyRequest ?q 1) = False" by code_simp
  ultimately obtain policy where n: "normalizeRecoveryPolicyRequest ?policy 1 = Inr policy"
    by (cases "normalizeRecoveryPolicyRequest ?policy 1") auto
  have t: "rgThreshold shareRequest = 2" "rgAgeRecipients shareRequest = []" "rgAgeRecipientFiles shareRequest = []" by (simp_all add: shareRequest_def)
  have sp: "splitSecretGF256 (toBytes (replicate 32 (CHR ''f''))) 2 3 (replicate 32 0) = Inr ?shares"
  proof -
    have "[0..<nat 3] = [0, 1, 2]" by code_simp
    moreover have "toBytes (replicate 32 (CHR ''f'')) \<noteq> []" by (simp add: toBytes_def)
    ultimately show ?thesis by (simp add: splitSecretGF256_eq)
  qed
  show ?thesis
    by (rule generate_runs [where st = "''ready''" and cnt = 0 and kb = "replicate 32 (CHR ''f'')" and shares = ?shares and policy = policy])
       (use n sp in \<open>simp_all add: outs t pol share_demo share_key ready loadAgeRecipients_def loadAgeStrings_def\<close>)
qed

theorem recovery_from_shares_witness:
  "\<exists>res h1 h2. generateRecoveryShares hexLib shareRequest shareDemo = ((res, None), h1)
     \<and> h2 = snd (importRecoverySharesWithProvider hexLib toyProvider toyContext shareImport (shareDemo\<lparr>sShares := sShares h1, bMasterKey := []\<rparr>))
     \<and> bMasterKey h2 = bMasterKey shareDemo \<and> wrapperHolds hexLib toyProvider toyContext (kWrappers h2) ''/s/wrapper.json'' shareKey"
proof -
  obtain res h1 where g: "generateRecoveryShares hexLib shareRequest shareDemo = ((res, None), h1)" using share_demo_runs by (metis prod.collapse)
  let ?h = "shareDemo\<lparr>sShares := sShares h1, bMasterKey := []\<rparr>"
  have outs: "safeList (rgOutputs shareRequest) = [''/m/a'', ''/m/b'', ''/m/c'']" "safeList (iqInputs shareImport) = [''/m/c'', ''/m/a'']"
    "safeList [] = []" "canonical (rgPolicyID shareRequest)" by code_simp+
  have none: "iqAgeIdentities shareImport = []" "iqAgeIdentityFiles shareImport = []" "rgAgeRecipients shareRequest = []" "rgAgeRecipientFiles shareRequest = []"
    "rgThreshold shareRequest = 2" "iqWrapperPath shareImport = ''/s/wrapper.json''" by (simp_all add: shareImport_def shareRequest_def)
  have ids: "loadAgeIdentities hexLib (iqAgeIdentities shareImport) (iqAgeIdentityFiles shareImport) ?h = Inr []"
    by (simp add: none loadAgeIdentities_def loadAgeStrings_def outs)
  have rs: "\<forall>rs. loadAgeRecipients hexLib (rgAgeRecipients shareRequest) (rgAgeRecipientFiles shareRequest) (length (safeList (rgOutputs shareRequest))) shareDemo = Inr rs
      \<longrightarrow> opens hexLib [] rs"
    by (auto simp: none loadAgeRecipients_def loadAgeStrings_def outs opens_def)
  have ready: "snd (snd (validateStoreForKey hexLib (?h\<lparr>bMasterKey := shareKey\<rparr>))) = None"
    using share_key(1) by (simp add: validateStoreForKey_def share_demo isLocked_def loadStore_def freshStore_def shareKey_def)
  have dir: "pathDir ''/s/wrapper.json'' = ''/s''" by code_simp
  have ok: "wcSupported toyContext" "pvProtect toyProvider shareKey \<noteq> None" by (simp_all add: toyContext_def toyProvider_def)
  have k: "shareKey = trimSpace (bMasterKey shareDemo)" by (simp add: share_demo share_key)
  from recovery_from_shares [OF hexLib_ok(1,2) toy_sound(1) hexLib_ok(3) g outs(4) ids rs _ _ _ _ _ k share_key(3) refl, of toyContext]
  show ?thesis using g share_key(4) ok ready by (auto simp: outs none share_demo dir)
qed

end
