(* ===== verification/Decommission.thy ===== *)
theory Decommission
  imports Broker_Runs Launch_Lease
begin

text \<open>
  Decommissioning of secrets (\<open>decommission.go\<close>): a dry run answers a plan signed with the master key that
  names the reference, the operation, the version seen and an expiry; applying the plan moves the
  encrypted entry to a tombstone, and restoring moves it back. Each mutation is audited before the store
  is changed and a repeated request of the same operation is answered without changing it again.
\<close>

subsection \<open>Data\<close>

record decommissionPlan =
  dpRef :: string
  dpOperationID :: string
  dpExpectedVersion :: string
  dpDependencyStatus :: string
  dpDependencySnapshot :: string
  dpExpiresAt :: time
  dpSignature :: string

record decommissionRequest =
  dqRequestID :: string
  dqServiceID :: string
  dqRef :: string
  dqOperationID :: string
  dqReason :: string
  dqConfirm :: bool
  dqDependencyStatus :: string
  dqDependencySnapshot :: string
  dqDependencies :: "string list"
  dqExpectedVersion :: string
  dqPlan :: "decommissionPlan option"

record decommissionTombstoneMetadata =
  dmState :: string
  dmVersion :: string
  dmDecommissionID :: string
  dmRestoreOperationID :: string
  dmDecommissionedAt :: time
  dmRestoredAt :: time

record decommissionResponse =
  drServiceID :: string
  drAPIVersion :: string
  drRequestID :: string
  drOperationID :: string
  drRef :: string
  drOperation :: string
  drMode :: string
  drOutcome :: string
  drApplied :: bool
  drRequiresConfirmation :: bool
  drAuditStatus :: string
  drPolicyResult :: string
  drNextAction :: string
  drExpectedVersion :: string
  drDependencyStatus :: string
  drDependencySnapshot :: string
  drDependencies :: "string list"
  drRecoverable :: bool
  drPlan :: "decommissionPlan option"
  drTombstone :: "decommissionTombstoneMetadata option"
  drAffectedRefs :: "string list"
  drAffectedServices :: "string list"

definition decommissionPlanTTL :: time where "decommissionPlanTTL = 5 * minute"

subsection \<open>Plans\<close>

text \<open>The \<open>json.Marshal\<close> of a plan whose signature was cleared.\<close>

definition decommissionPlanJSON :: "'z golib_scheme \<Rightarrow> decommissionPlan \<Rightarrow> string" where
  "decommissionPlanJSON L p =
     ''{'' @ joinWith '','' [jsonField ''ref'' (jsonQuote (dpRef p)), jsonField ''operationId'' (jsonQuote (dpOperationID p)),
       jsonField ''expectedVersion'' (jsonQuote (dpExpectedVersion p)), jsonField ''dependencyStatus'' (jsonQuote (dpDependencyStatus p)),
       jsonField ''dependencySnapshot'' (jsonQuote (dpDependencySnapshot p)), jsonField ''expiresAt'' (jsonQuote (formatNano L (dpExpiresAt p))),
       jsonField ''signature'' (jsonQuote (dpSignature p))] @ ''}''"

definition signDecommissionPlan :: "'z golib_scheme \<Rightarrow> decommissionPlan \<Rightarrow> string \<Rightarrow> gerror + decommissionPlan" where
  "signDecommissionPlan L plan key =
     (if trimSpace key = [] then Inl errLocked
      else Inr (plan\<lparr>dpSignature := ''hmac-sha256:'' @ b64RawURLEncode L
        (hmacSHA256 L (''service-lasso:decommission-plan:v1:'' @ key) (decommissionPlanJSON L (plan\<lparr>dpSignature := []\<rparr>)))\<rparr>))"

definition verifyDecommissionPlan :: "'z golib_scheme \<Rightarrow> decommissionPlan \<Rightarrow> string \<Rightarrow> time \<Rightarrow> gerror option" where
  "verifyDecommissionPlan L plan key now =
     (if trimSpace (dpSignature plan) = [] \<or> trimSpace (dpRef plan) = [] \<or> trimSpace (dpOperationID plan) = []
         \<or> trimSpace (dpExpectedVersion plan) = [] \<or> dpDependencyStatus plan \<noteq> ''clear'' \<or> trimSpace (dpDependencySnapshot plan) = []
         \<or> \<not> dpExpiresAt plan > now then Some errDecommissionStalePlan
      else case signDecommissionPlan L plan key of Inl _ \<Rightarrow> Some errDecommissionStalePlan
      | Inr signedPlan \<Rightarrow> if constantTimeTokenEqual L (dpSignature plan) (dpSignature signedPlan) then None else Some errDecommissionStalePlan)"

definition hexChar :: "char \<Rightarrow> bool" where
  "hexChar c \<longleftrightarrow> (CHR ''0'' \<le> c \<and> c \<le> CHR ''9'') \<or> (CHR ''a'' \<le> c \<and> c \<le> CHR ''f'') \<or> (CHR ''A'' \<le> c \<and> c \<le> CHR ''F'')"

definition validDependencySnapshot :: "string \<Rightarrow> bool" where
  "validDependencySnapshot value0 =
     (let value = trimSpace value0 in
      hasPrefix value ''sha256:'' \<and> length value = length ''sha256:'' + 64 \<and> list_all hexChar (drop (length ''sha256:'') value))"

definition safeDecommissionDependencies :: "string list \<Rightarrow> string list" where
  "safeDecommissionDependencies values =
     filter (\<lambda>value. \<not> (length value > 128 \<or> (\<not> hasPrefix value ''@'' \<and> \<not> hasPrefix value ''service:'') \<or> \<not> validSecretRef value))
       (safeList values)"

definition configuredSourceHasRef :: "string \<Rightarrow> 'm backend_scheme \<Rightarrow> bool" where
  "configuredSourceHasRef ref b \<longleftrightarrow> list_ex (\<lambda>source. map_of (cfRefs source) (trimSpace ref) \<noteq> None) (enabledSources (bSources b))"

subsection \<open>Answers\<close>

definition baseDecommissionResponse :: "'z golib_scheme \<Rightarrow> decommissionRequest \<Rightarrow> string \<Rightarrow> string \<Rightarrow> decommissionResponse" where
  "baseDecommissionResponse L req operation mode =
     \<lparr>drServiceID = serviceID, drAPIVersion = apiVersion, drRequestID = trimSpace (dqRequestID req),
      drOperationID = safeOperationToken L (dqOperationID req), drRef = trimSpace (dqRef req), drOperation = operation, drMode = mode,
      drOutcome = ''pending'', drApplied = False, drRequiresConfirmation = (mode \<noteq> ''dry-run''), drAuditStatus = ''audit_pending'',
      drPolicyResult = ''unknown'', drNextAction = [], drExpectedVersion = [], drDependencyStatus = ''unknown'', drDependencySnapshot = [],
      drDependencies = [], drRecoverable = False, drPlan = None, drTombstone = None, drAffectedRefs = safeList [dqRef req],
      drAffectedServices = safeList [firstNonEmpty (dqServiceID req) (ownerFromRef (dqRef req))]\<rparr>"

definition decommissionFailure :: "decommissionResponse \<Rightarrow> string \<Rightarrow> string \<Rightarrow> decommissionResponse" where
  "decommissionFailure res outcome nextAction =
     res\<lparr>drOutcome := outcome, drApplied := False, drNextAction := nextAction,
       drPolicyResult := (if drPolicyResult res = ''unknown'' then ''denied'' else drPolicyResult res)\<rparr>"

type_synonym 'm decommissionResult = "(decommissionResponse \<times> gerror option) \<times> 'm"

definition decommissionFailureWithAudit ::
  "'z golib_scheme \<Rightarrow> string \<Rightarrow> decommissionRequest \<Rightarrow> decommissionResponse \<Rightarrow> string \<Rightarrow> string \<Rightarrow> gerror \<Rightarrow> 'm backend_scheme
    \<Rightarrow> 'm backend_scheme decommissionResult" where
  "decommissionFailureWithAudit L operation req res0 outcome nextAction operationErr b =
     (let res = decommissionFailure res0 outcome nextAction in
      if trimSpace (bAuditPath b) = [] then ((res, Some operationErr), b)
      else check (audit L operation (dqRef req) outcome (dqServiceID req) (dqRequestID req) b)
        (\<lambda>_ b1. ((res\<lparr>drAuditStatus := ''audit_unavailable''\<rparr>, Some operationErr), b1))
        (\<lambda>b1. ((res\<lparr>drAuditStatus := ''audit_recorded''\<rparr>, Some operationErr), b1)))"

definition decommissionAuditUnavailable :: "decommissionResponse \<Rightarrow> decommissionResponse" where
  "decommissionAuditUnavailable res =
     (decommissionFailure res ''audit_unavailable'' ''restore_audit_and_retry'')\<lparr>drAuditStatus := ''audit_unavailable''\<rparr>"

definition requireDecommissionAudit ::
  "'z golib_scheme \<Rightarrow> string \<Rightarrow> decommissionRequest \<Rightarrow> 'm backend_scheme \<Rightarrow> gerror option \<times> 'm backend_scheme" where
  "requireDecommissionAudit L operation req b =
     (if trimSpace (bAuditPath b) = [] then (Some errDecommissionAuditUnavailable, b)
      else check (audit L operation (dqRef req) ''ready'' (dqServiceID req) (dqRequestID req) b)
        (\<lambda>_ b1. (Some errDecommissionAuditUnavailable, b1)) (\<lambda>b1. (None, b1)))"

definition tombstoneMetadata :: "localSecretTombstone \<Rightarrow> decommissionTombstoneMetadata" where
  "tombstoneMetadata t = \<lparr>dmState = tsState t, dmVersion = tsVersion t, dmDecommissionID = tsDecommissionID t,
     dmRestoreOperationID = tsRestoreOperationID t, dmDecommissionedAt = tsDecommissionedAt t, dmRestoredAt = tsRestoredAt t\<rparr>"

definition decommissionAppliedResponse :: "decommissionResponse \<Rightarrow> localSecretTombstone \<Rightarrow> string \<Rightarrow> decommissionResponse" where
  "decommissionAppliedResponse res t nextAction =
     res\<lparr>drOutcome := ''applied'', drApplied := True, drRequiresConfirmation := False, drAuditStatus := ''audit_recorded'',
       drPolicyResult := ''allowed'', drNextAction := nextAction, drRecoverable := True, drTombstone := Some (tombstoneMetadata t)\<rparr>"

definition decommissionRestoredResponse :: "decommissionResponse \<Rightarrow> localSecretTombstone \<Rightarrow> string \<Rightarrow> decommissionResponse" where
  "decommissionRestoredResponse res t nextAction = (decommissionAppliedResponse res t nextAction)\<lparr>drRecoverable := False\<rparr>"

subsection \<open>Dry run\<close>

definition decommissionDryRun :: "'z golib_scheme \<Rightarrow> decommissionRequest \<Rightarrow> 'm backend_scheme \<Rightarrow> 'm backend_scheme decommissionResult" where
  "decommissionDryRun L req b =
     (let res = (baseDecommissionResponse L req ''decommission'' ''dry-run'')\<lparr>drRequiresConfirmation := True\<rparr>;
          fail = decommissionFailureWithAudit L ''management_decommission_dry_run'' req in
      if \<not> validSecretRef (dqRef req) \<or> safeOperationToken L (dqOperationID req) = [] then
        fail res ''invalid_ref'' ''provide_valid_ref_and_operation_id'' errInvalidRef b
      else if isLocked b then fail res ''locked'' ''unlock_broker'' errLocked b
      else case loadStore b of Inl _ \<Rightarrow> fail res ''degraded'' ''inspect_local_store'' errBackendDegraded b
      | Inr store \<Rightarrow> (case map_of (stSecrets store) (trimSpace (dqRef req)) of
          None \<Rightarrow>
            if configuredSourceHasRef (dqRef req) b then
              fail (res\<lparr>drPolicyResult := ''unsupported''\<rparr>) ''unsupported'' ''use_provider_specific_decommission'' errUnsupportedProvider b
            else fail res ''missing_ref'' ''check_ref'' errMissingRef b
        | Some entry \<Rightarrow>
            let status = toLower L (trimSpace (dqDependencyStatus req)); snapshot = trimSpace (dqDependencySnapshot req);
                deps = safeDecommissionDependencies (dqDependencies req);
                res1 = res\<lparr>drExpectedVersion := smVersion (seMetadata entry), drDependencyStatus := status, drDependencies := deps\<rparr> in
            if status \<noteq> ''clear'' \<or> \<not> validDependencySnapshot snapshot \<or> deps \<noteq> [] \<or> length deps \<noteq> length (safeList (dqDependencies req)) then
              fail (res1\<lparr>drPolicyResult := ''denied''\<rparr>) ''dependency_blocked'' ''clear_dependencies_and_refresh_snapshot'' errDecommissionDependency b
            else
              let res2 = res1\<lparr>drDependencySnapshot := snapshot\<rparr>;
                  plan = \<lparr>dpRef = trimSpace (dqRef req), dpOperationID = safeOperationToken L (dqOperationID req),
                    dpExpectedVersion = smVersion (seMetadata entry), dpDependencyStatus = ''clear'', dpDependencySnapshot = snapshot,
                    dpExpiresAt = bNow b + decommissionPlanTTL, dpSignature = []\<rparr> in
              (case signDecommissionPlan L plan (bMasterKey b) of Inl _ \<Rightarrow> fail res2 ''locked'' ''unlock_broker'' errLocked b
               | Inr signedPlan \<Rightarrow>
                   check (audit L ''management_decommission_dry_run'' (dqRef req) ''dry_run_ready'' (dqServiceID req) (dqRequestID req) b)
                     (\<lambda>_ b1. ((decommissionAuditUnavailable res2, Some errDecommissionAuditUnavailable), b1))
                     (\<lambda>b1. ((res2\<lparr>drOutcome := ''dry_run_ready'', drAuditStatus := ''audit_recorded'', drPolicyResult := ''allowed'',
                               drNextAction := ''confirm_signed_plan_before_expiry'', drPlan := Some signedPlan, drRecoverable := True\<rparr>, None), b1)))))"

subsection \<open>Apply\<close>

definition tombstoneOf :: "decommissionPlan \<Rightarrow> secretEntry \<Rightarrow> time \<Rightarrow> localSecretTombstone" where
  "tombstoneOf plan entry now =
     \<lparr>tsRef = dpRef plan, tsState = ''decommissioned'', tsVersion = smVersion (seMetadata entry), tsDecommissionID = dpOperationID plan,
      tsRestoreOperationID = [], tsDecommissionedAt = now, tsRestoredAt = 0, tsEntry = entry\<rparr>"

definition buriedStore :: "decommissionPlan \<Rightarrow> secretEntry \<Rightarrow> time \<Rightarrow> localStoreFile \<Rightarrow> localStoreFile" where
  "buriedStore plan entry now store =
     store\<lparr>stTombstones := AList.update (dpRef plan) (tombstoneOf plan entry now) (stTombstones store),
       stSecrets := AList.delete (dpRef plan) (stSecrets store), stUpdatedAt := now\<rparr>"

definition bury ::
  "'z golib_scheme \<Rightarrow> decommissionRequest \<Rightarrow> decommissionPlan \<Rightarrow> decommissionResponse \<Rightarrow> localStoreFile \<Rightarrow> 'm backend_scheme
    \<Rightarrow> 'm backend_scheme decommissionResult" where
  "bury L req plan res store b =
     (let fail = decommissionFailureWithAudit L ''management_decommission_apply'' req in
      case map_of (stSecrets store) (dpRef plan) of
        None \<Rightarrow> fail res ''missing_ref'' ''check_ref_or_tombstone'' errMissingRef b
      | Some entry \<Rightarrow>
          if smVersion (seMetadata entry) \<noteq> dpExpectedVersion plan then
            fail res ''stale_plan'' ''run_fresh_decommission_dry_run'' errDecommissionStalePlan b
          else check (requireDecommissionAudit L ''management_decommission_apply'' req b)
            (\<lambda>err b1. ((decommissionAuditUnavailable res, Some err), b1))
            (\<lambda>b1. check (saveStore (buriedStore plan entry (bNow b1) store) b1)
               (\<lambda>_ b2. fail res ''degraded'' ''retry_or_restore_store'' errBackendDegraded b2)
               (\<lambda>b2. ((decommissionAppliedResponse res (tombstoneOf plan entry (bNow b1)) ''retain_tombstone_until_recovery_window_expires'', None),
                      audit_ignored L ''management_decommission_apply'' (dpRef plan) ''applied'' (dqServiceID req) (dqRequestID req) b2))))"

definition decommissionApply :: "'z golib_scheme \<Rightarrow> decommissionRequest \<Rightarrow> 'm backend_scheme \<Rightarrow> 'm backend_scheme decommissionResult" where
  "decommissionApply L req b =
     (let res = baseDecommissionResponse L req ''decommission'' ''apply'';
          fail = decommissionFailureWithAudit L ''management_decommission_apply'' req in
      if \<not> validSecretRef (dqRef req) \<or> \<not> dqConfirm req \<or> trimSpace (dqReason req) = [] \<or> dqPlan req = None then
        fail (res\<lparr>drPolicyResult := ''denied''\<rparr>) ''policy_denied'' ''confirm_with_audit_reason_and_fresh_plan'' errPolicyDenied b
      else
        let plan = the (dqPlan req) in
        if verifyDecommissionPlan L plan (bMasterKey b) (bNow b) \<noteq> None \<or> trimSpace (dqRef req) \<noteq> dpRef plan
           \<or> safeOperationToken L (dqOperationID req) \<noteq> dpOperationID plan then
          fail res ''stale_plan'' ''run_fresh_decommission_dry_run'' errDecommissionStalePlan b
        else
          let res1 = res\<lparr>drOperationID := dpOperationID plan, drExpectedVersion := dpExpectedVersion plan,
                drDependencyStatus := dpDependencyStatus plan, drDependencySnapshot := dpDependencySnapshot plan\<rparr> in
          if isLocked b then fail res1 ''locked'' ''unlock_broker'' errLocked b
          else case loadStore b of Inl _ \<Rightarrow> fail res1 ''degraded'' ''inspect_local_store'' errBackendDegraded b
          | Inr store \<Rightarrow> (case map_of (stTombstones store) (dpRef plan) of
              Some tombstone \<Rightarrow>
                if tsState tombstone \<noteq> ''decommissioned'' then bury L req plan res1 store b
                else if tsDecommissionID tombstone \<noteq> dpOperationID plan \<or> tsVersion tombstone \<noteq> dpExpectedVersion plan then
                  fail res1 ''stale_plan'' ''inspect_tombstone_and_run_fresh_plan'' errDecommissionStalePlan b
                else check (audit L ''management_decommission_apply'' (dpRef plan) ''applied'' (dqServiceID req) (dqRequestID req) b)
                  (\<lambda>_ b1. ((decommissionAuditUnavailable res1, Some errDecommissionAuditUnavailable), b1))
                  (\<lambda>b1. ((decommissionAppliedResponse res1 tombstone ''already_decommissioned'', None), b1))
            | None \<Rightarrow> bury L req plan res1 store b))"

subsection \<open>Restore\<close>

definition exhumedStore :: "localSecretTombstone \<Rightarrow> string \<Rightarrow> time \<Rightarrow> localStoreFile \<Rightarrow> localStoreFile" where
  "exhumedStore tombstone operationID now store =
     store\<lparr>stSecrets := AList.update (tsRef tombstone) (tsEntry tombstone) (stSecrets store),
       stTombstones := AList.update (tsRef tombstone) (tombstone\<lparr>tsState := ''restored'', tsRestoreOperationID := operationID, tsRestoredAt := now\<rparr>)
         (stTombstones store), stUpdatedAt := now\<rparr>"

definition decommissionRestore :: "'z golib_scheme \<Rightarrow> decommissionRequest \<Rightarrow> 'm backend_scheme \<Rightarrow> 'm backend_scheme decommissionResult" where
  "decommissionRestore L req b =
     (let res = baseDecommissionResponse L req ''decommission_restore'' ''apply'';
          fail = decommissionFailureWithAudit L ''management_decommission_restore'' req;
          expectedVersion = trimSpace (dqExpectedVersion req); operationID = safeOperationToken L (dqOperationID req) in
      if \<not> validSecretRef (dqRef req) \<or> operationID = [] \<or> \<not> dqConfirm req \<or> trimSpace (dqReason req) = [] \<or> expectedVersion = [] then
        fail (res\<lparr>drPolicyResult := ''denied''\<rparr>) ''policy_denied'' ''confirm_restore_with_operation_id_expected_version_and_audit_reason'' errPolicyDenied b
      else if isLocked b then fail res ''locked'' ''unlock_broker'' errLocked b
      else case loadStore b of Inl _ \<Rightarrow> fail res ''degraded'' ''inspect_local_store'' errBackendDegraded b
      | Inr store \<Rightarrow> (case map_of (stTombstones store) (trimSpace (dqRef req)) of
          None \<Rightarrow> fail res ''stale_plan'' ''inspect_current_tombstone'' errDecommissionStalePlan b
        | Some tombstone \<Rightarrow>
            if tsVersion tombstone \<noteq> expectedVersion then fail res ''stale_plan'' ''inspect_current_tombstone'' errDecommissionStalePlan b
            else
              let res1 = res\<lparr>drExpectedVersion := expectedVersion\<rparr> in
              (case map_of (stSecrets store) (tsRef tombstone) of
                 Some current \<Rightarrow>
                   if tsState tombstone = ''restored'' \<and> tsRestoreOperationID tombstone = operationID
                      \<and> smVersion (seMetadata current) = tsVersion tombstone then
                     check (audit L ''management_decommission_restore'' (tsRef tombstone) ''applied'' (dqServiceID req) (dqRequestID req) b)
                       (\<lambda>_ b1. ((decommissionAuditUnavailable res1, Some errDecommissionAuditUnavailable), b1))
                       (\<lambda>b1. ((decommissionRestoredResponse res1 tombstone ''already_restored'', None), b1))
                   else fail res1 ''stale_plan'' ''inspect_active_secret_before_restore'' errDecommissionStalePlan b
               | None \<Rightarrow>
                   if tsState tombstone \<noteq> ''decommissioned'' then fail res1 ''stale_plan'' ''inspect_current_tombstone'' errDecommissionStalePlan b
                   else check (requireDecommissionAudit L ''management_decommission_restore'' req b)
                     (\<lambda>err b1. ((decommissionAuditUnavailable res1, Some err), b1))
                     (\<lambda>b1. check (saveStore (exhumedStore tombstone operationID (bNow b1) store) b1)
                        (\<lambda>_ b2. fail res1 ''degraded'' ''retry_or_restore_store'' errBackendDegraded b2)
                        (\<lambda>b2. ((decommissionRestoredResponse res1
                                 (tombstone\<lparr>tsState := ''restored'', tsRestoreOperationID := operationID, tsRestoredAt := bNow b1\<rparr>)
                                 ''secret_restored_from_encrypted_tombstone'', None),
                               audit_ignored L ''management_decommission_restore'' (tsRef tombstone) ''applied'' (dqServiceID req) (dqRequestID req) b2))))))"

subsection \<open>Endpoints\<close>

definition writeDecommissionError :: "gerror \<Rightarrow> decommissionResponse \<Rightarrow> decommissionResponse reply" where
  "writeDecommissionError err res =
     Json (if errorIs err errInvalidRef then 400 else if errorIs err errMissingRef then 404
       else if errorIs err errPolicyDenied \<or> errorIs err errUnsupportedProvider then 403
       else if errorIs err errDecommissionDependency \<or> errorIs err errDecommissionStalePlan then 409 else 503) res"

definition registerDecommissionAction ::
  "'z golib_scheme \<Rightarrow> string \<Rightarrow> string \<Rightarrow> (decommissionRequest \<Rightarrow> 'm backend_scheme \<Rightarrow> 'm backend_scheme decommissionResult)
    \<Rightarrow> httpRequest \<Rightarrow> decommissionRequest decoded \<Rightarrow> 'm backend_scheme \<Rightarrow> decommissionResponse reply \<times> 'm backend_scheme" where
  "registerDecommissionAction L token path handler r body b =
     (if hMethod r \<noteq> ''POST'' then (writeAPIError 405 ''method_not_allowed'' (''Use POST '' @ path @ ''.'') ''invalid_ref'' [], b)
      else check (require L token r b) (\<lambda>refusal b1. (refusal, b1))
        (\<lambda>b1. case body of BodyTooLarge \<Rightarrow> (writeDecodeError True, b1) | BodyMalformed \<Rightarrow> (writeDecodeError False, b1)
         | Decoded req \<Rightarrow> let h = handler req b1 in
             (case snd (fst h) of Some err \<Rightarrow> writeDecommissionError err (fst (fst h)) | None \<Rightarrow> Json 200 (fst (fst h)), snd h)))"

definition decommissionHandlers ::
  "'z golib_scheme \<Rightarrow> (string \<times> (decommissionRequest \<Rightarrow> 'm backend_scheme \<Rightarrow> 'm backend_scheme decommissionResult)) list" where
  "decommissionHandlers L =
     [(''/v1/management/secrets/decommission/dry-run'', decommissionDryRun L), (''/v1/management/secrets/decommission/apply'', decommissionApply L),
      (''/v1/management/secrets/decommission/restore'', decommissionRestore L)]"

end
