(* ===== verification/Secret_Create.thy ===== *)
theory Secret_Create
  imports Decommission
begin

text \<open>
  Managed creation of secrets (\<open>secret_create.go\<close>): a dry run on an unused reference answers a plan signed
  with the master key; applying it writes the value the operator supplied, or one the broker generates,
  and a receipt under the operation id. A repeated request of the same operation is recognised by the
  receipt; a reference that is in use, configured at a source or decommissioned is refused.
\<close>

subsection \<open>Data\<close>

record managedCreatePlan =
  cpRef :: string
  cpOperationID :: string
  cpGenerationMode :: string
  cpExpectedState :: string
  cpExpiresAt :: time
  cpSignature :: string

record managedCreateRequest =
  cqRequestID :: string
  cqServiceID :: string
  cqRef :: string
  cqOperationID :: string
  cqGenerationMode :: string
  cqReason :: string
  cqValue :: string
  cqConfirm :: bool
  cqPlan :: "managedCreatePlan option"

record managedCreateResponse =
  crServiceID :: string
  crAPIVersion :: string
  crRequestID :: string
  crOperationID :: string
  crRef :: string
  crOperation :: string
  crMode :: string
  crGenerationMode :: string
  crOutcome :: string
  crApplied :: bool
  crRequiresConfirmation :: bool
  crAuditStatus :: string
  crPolicyResult :: string
  crNextAction :: string
  crPlan :: "managedCreatePlan option"
  crMetadata :: "SecretMetadata option"
  crAffectedRefs :: "string list"
  crAffectedServices :: "string list"

definition managedCreatePlanTTL :: time where "managedCreatePlanTTL = 5 * minute"

definition normalizeManagedCreateMode :: "'z golib_scheme \<Rightarrow> string \<Rightarrow> string" where
  "normalizeManagedCreateMode L value =
     (let mode = toLower L (trimSpace value) in if mode = ''broker_generated'' \<or> mode = ''operator_supplied'' then mode else [])"

definition baseManagedCreateResponse :: "'z golib_scheme \<Rightarrow> managedCreateRequest \<Rightarrow> string \<Rightarrow> managedCreateResponse" where
  "baseManagedCreateResponse L req mode =
     \<lparr>crServiceID = serviceID, crAPIVersion = apiVersion, crRequestID = trimSpace (cqRequestID req),
      crOperationID = safeOperationToken L (cqOperationID req), crRef = trimSpace (cqRef req), crOperation = ''create'', crMode = mode,
      crGenerationMode = normalizeManagedCreateMode L (cqGenerationMode req), crOutcome = ''pending'', crApplied = False,
      crRequiresConfirmation = False, crAuditStatus = ''audit_pending'', crPolicyResult = ''unknown'', crNextAction = [], crPlan = None,
      crMetadata = None, crAffectedRefs = safeList [cqRef req],
      crAffectedServices = safeList [firstNonEmpty (cqServiceID req) (ownerFromRef (cqRef req))]\<rparr>"

subsection \<open>Plans\<close>

definition managedCreatePlanJSON :: "'z golib_scheme \<Rightarrow> managedCreatePlan \<Rightarrow> string" where
  "managedCreatePlanJSON L p =
     ''{'' @ joinWith '','' [jsonField ''ref'' (jsonQuote (cpRef p)), jsonField ''operationId'' (jsonQuote (cpOperationID p)),
       jsonField ''generationMode'' (jsonQuote (cpGenerationMode p)), jsonField ''expectedState'' (jsonQuote (cpExpectedState p)),
       jsonField ''expiresAt'' (jsonQuote (formatNano L (cpExpiresAt p))), jsonField ''signature'' (jsonQuote (cpSignature p))] @ ''}''"

definition signManagedCreatePlan :: "'z golib_scheme \<Rightarrow> managedCreatePlan \<Rightarrow> string \<Rightarrow> gerror + managedCreatePlan" where
  "signManagedCreatePlan L plan key =
     (if trimSpace key = [] then Inl errLocked
      else Inr (plan\<lparr>cpSignature := ''hmac-sha256:'' @ b64RawURLEncode L
        (hmacSHA256 L (''service-lasso:managed-create-plan:v1:'' @ key) (managedCreatePlanJSON L (plan\<lparr>cpSignature := []\<rparr>)))\<rparr>))"

definition verifyManagedCreatePlan :: "'z golib_scheme \<Rightarrow> managedCreatePlan \<Rightarrow> string \<Rightarrow> time \<Rightarrow> gerror option" where
  "verifyManagedCreatePlan L plan key now =
     (if cpSignature plan = [] \<or> \<not> validSecretRef (cpRef plan) \<or> safeOperationToken L (cpOperationID plan) = []
         \<or> normalizeManagedCreateMode L (cpGenerationMode plan) = [] \<or> cpExpectedState plan \<noteq> ''missing'' \<or> \<not> cpExpiresAt plan > now
      then Some errManagedCreateConflict
      else case signManagedCreatePlan L plan key of Inl _ \<Rightarrow> Some errManagedCreateConflict
      | Inr signedPlan \<Rightarrow> if constantTimeTokenEqual L (cpSignature plan) (cpSignature signedPlan) then None else Some errManagedCreateConflict)"

subsection \<open>Answers\<close>

type_synonym 'm createResult = "(managedCreateResponse \<times> gerror option) \<times> 'm"

definition managedCreateFailureWithoutAudit ::
  "managedCreateResponse \<Rightarrow> string \<Rightarrow> string \<Rightarrow> gerror \<Rightarrow> 'm \<Rightarrow> 'm createResult" where
  "managedCreateFailureWithoutAudit res outcome nextAction err b =
     ((res\<lparr>crOutcome := outcome, crApplied := False, crAuditStatus := ''audit_unavailable'', crPolicyResult := ''denied'',
         crNextAction := nextAction\<rparr>, Some err), b)"

definition requireManagedCreateAudit ::
  "'z golib_scheme \<Rightarrow> string \<Rightarrow> managedCreateRequest \<Rightarrow> string \<Rightarrow> 'm backend_scheme \<Rightarrow> gerror option \<times> 'm backend_scheme" where
  "requireManagedCreateAudit L operation req outcome b =
     (if trimSpace (bAuditPath b) = [] then (Some errDecommissionAuditUnavailable, b)
      else check (audit L operation (cqRef req) outcome (cqServiceID req) (cqRequestID req) b)
        (\<lambda>_ b1. (Some errDecommissionAuditUnavailable, b1)) (\<lambda>b1. (None, b1)))"

definition managedCreateFailure ::
  "'z golib_scheme \<Rightarrow> string \<Rightarrow> managedCreateRequest \<Rightarrow> managedCreateResponse \<Rightarrow> string \<Rightarrow> string \<Rightarrow> gerror \<Rightarrow> 'm backend_scheme
    \<Rightarrow> 'm backend_scheme createResult" where
  "managedCreateFailure L operation req res0 outcome nextAction operationErr b =
     (let res = res0\<lparr>crOutcome := outcome, crApplied := False, crPolicyResult := ''denied'', crNextAction := nextAction\<rparr> in
      check (requireManagedCreateAudit L operation req outcome b)
        (\<lambda>err b1. managedCreateFailureWithoutAudit res ''audit_unavailable'' ''restore_audit_and_retry'' err b1)
        (\<lambda>b1. ((res\<lparr>crAuditStatus := ''audit_recorded''\<rparr>, Some operationErr), b1)))"

subsection \<open>Dry run\<close>

definition buriedRef :: "localStoreFile \<Rightarrow> string \<Rightarrow> bool" where
  "buriedRef store ref = (case map_of (stTombstones store) ref of None \<Rightarrow> False | Some t \<Rightarrow> tsState t = ''decommissioned'')"

definition managedCreateDryRun :: "'z golib_scheme \<Rightarrow> managedCreateRequest \<Rightarrow> 'm backend_scheme \<Rightarrow> 'm backend_scheme createResult" where
  "managedCreateDryRun L req b =
     (let res = (baseManagedCreateResponse L req ''dry-run'')\<lparr>crRequiresConfirmation := True\<rparr>; ref = trimSpace (cqRef req);
          fail = managedCreateFailure L ''management_create_dry_run'' req res in
      if \<not> validSecretRef (cqRef req) \<or> safeOperationToken L (cqOperationID req) = [] \<or> trimSpace (cqReason req) = [] \<or> crGenerationMode res = [] then
        fail ''policy_denied'' ''provide_ref_operation_id_generation_mode_and_audit_reason'' errPolicyDenied b
      else if isLocked b then fail ''locked'' ''unlock_broker'' errLocked b
      else case loadStore b of Inl _ \<Rightarrow> fail ''degraded'' ''inspect_local_store'' errBackendDegraded b
      | Inr store \<Rightarrow>
          if map_of (stSecrets store) ref \<noteq> None \<or> configuredSourceHasRef ref b then
            fail ''conflict'' ''choose_unused_ref_or_edit_existing_secret'' errManagedCreateConflict b
          else if buriedRef store ref then fail ''conflict'' ''restore_or_retire_existing_tombstone'' errManagedCreateConflict b
          else (case signManagedCreatePlan L \<lparr>cpRef = ref, cpOperationID = safeOperationToken L (cqOperationID req),
                   cpGenerationMode = crGenerationMode res, cpExpectedState = ''missing'', cpExpiresAt = bNow b + managedCreatePlanTTL,
                   cpSignature = []\<rparr> (bMasterKey b) of
              Inl _ \<Rightarrow> fail ''locked'' ''unlock_broker'' errLocked b
            | Inr plan \<Rightarrow>
                check (requireManagedCreateAudit L ''management_create_dry_run'' req ''dry_run_ready'' b)
                  (\<lambda>err b1. managedCreateFailureWithoutAudit res ''audit_unavailable'' ''restore_audit_and_retry'' err b1)
                  (\<lambda>b1. ((res\<lparr>crOutcome := ''dry_run_ready'', crAuditStatus := ''audit_recorded'', crPolicyResult := ''allowed'',
                            crNextAction := ''confirm_signed_plan_before_expiry'', crPlan := Some plan\<rparr>, None), b1))))"

subsection \<open>Apply\<close>

definition generateManagedSecretValue :: "'z golib_scheme \<Rightarrow> 'm backend_scheme \<Rightarrow> (gerror + string) \<times> 'm backend_scheme" where
  "generateManagedSecretValue L b =
     ((case bRandom b of
         [] \<Rightarrow> Inr (b64RawURLEncode L (replicate 32 (CHR 0x00)))
       | None # _ \<Rightarrow> Inl errEntropy
       | Some r # _ \<Rightarrow> Inr (b64RawURLEncode L (take 32 (r @ replicate 32 (CHR 0x00))))),
      b\<lparr>bRandom := tl (bRandom b)\<rparr>)"

definition createdMetadata :: "'z golib_scheme \<Rightarrow> managedCreatePlan \<Rightarrow> time \<Rightarrow> SecretMetadata" where
  "createdMetadata L plan now = \<lparr>smSourceID = ''management:create:'' @ cpGenerationMode plan, smVersion = formatNano L now, smCreatedAt = now, smUpdatedAt = now\<rparr>"

definition createdStore :: "'z golib_scheme \<Rightarrow> managedCreatePlan \<Rightarrow> secretPayload \<Rightarrow> time \<Rightarrow> localStoreFile \<Rightarrow> localStoreFile" where
  "createdStore L plan payload now store =
     store\<lparr>stSecrets := AList.update (cpRef plan) \<lparr>seRef = cpRef plan, seMetadata = createdMetadata L plan now, sePayload = payload, seKV = None\<rparr>
         (stSecrets store),
       stManagementOps := AList.update (cpOperationID plan) \<lparr>mrKind = ''create'', mrOperationID = cpOperationID plan, mrRef = cpRef plan,
         mrGenerationMode = cpGenerationMode plan, mrVersion = smVersion (createdMetadata L plan now), mrAppliedAt = now\<rparr> (stManagementOps store),
       stUpdatedAt := now\<rparr>"

text \<open>The value is generated or taken from the request, sealed, and saved with the receipt; the plan was checked and the operation audited.\<close>

definition valueFor :: "'z golib_scheme \<Rightarrow> managedCreatePlan \<Rightarrow> string \<Rightarrow> 'm backend_scheme \<Rightarrow> (gerror + string) \<times> 'm backend_scheme" where
  "valueFor L plan supplied b = (if cpGenerationMode plan = ''broker_generated'' then generateManagedSecretValue L b else (Inr supplied, b))"

definition createSecret ::
  "'z golib_scheme \<Rightarrow> managedCreateRequest \<Rightarrow> managedCreatePlan \<Rightarrow> managedCreateResponse \<Rightarrow> localStoreFile \<Rightarrow> 'm backend_scheme
    \<Rightarrow> 'm backend_scheme createResult" where
  "createSecret L req plan res store b =
     attempt (valueFor L plan (cqValue req) b)
       (\<lambda>_ b1. managedCreateFailureWithoutAudit res ''degraded'' ''retry_after_secure_random_source_recovers'' errBackendDegraded b1)
       (\<lambda>value b1. attempt (encrypt L value b1)
          (\<lambda>_ b2. managedCreateFailureWithoutAudit res ''degraded'' ''inspect_encryption_state'' errBackendDegraded b2)
          (\<lambda>payload b2. check (saveStore (createdStore L plan payload (bNow b2) store) b2)
             (\<lambda>_ b3. managedCreateFailureWithoutAudit res ''degraded'' ''retry_exact_operation_or_restore_store'' errBackendDegraded b3)
             (\<lambda>b3. ((res\<lparr>crOutcome := ''applied'', crApplied := True, crAuditStatus := ''audit_recorded'', crPolicyResult := ''allowed'',
                       crNextAction := ''secret_created'', crMetadata := Some (createdMetadata L plan (bNow b2))\<rparr>, None),
                    audit_ignored L ''management_create_apply'' (cpRef plan) ''applied'' (cqServiceID req) (cqRequestID req) b3))))"

definition exactReceipt :: "managedCreatePlan \<Rightarrow> managedCreateReceipt \<Rightarrow> secretEntry option \<Rightarrow> bool" where
  "exactReceipt plan receipt entry \<longleftrightarrow> mrKind receipt = ''create'' \<and> mrRef receipt = cpRef plan \<and> mrGenerationMode receipt = cpGenerationMode plan
     \<and> (case entry of None \<Rightarrow> False | Some e \<Rightarrow> smVersion (seMetadata e) = mrVersion receipt)"

definition applyCreatePlan ::
  "'z golib_scheme \<Rightarrow> managedCreateRequest \<Rightarrow> managedCreatePlan \<Rightarrow> managedCreateResponse \<Rightarrow> 'm backend_scheme \<Rightarrow> 'm backend_scheme createResult" where
  "applyCreatePlan L req plan res b =
     (let fail = managedCreateFailure L ''management_create_apply'' req res;
          unaudited = managedCreateFailureWithoutAudit res ''audit_unavailable'' ''restore_audit_and_retry'' in
      case loadStore b of Inl _ \<Rightarrow> fail ''degraded'' ''inspect_local_store'' errBackendDegraded b
      | Inr store \<Rightarrow> (case map_of (stManagementOps store) (cpOperationID plan) of
          Some receipt \<Rightarrow>
            let entry = map_of (stSecrets store) (mrRef receipt) in
            if exactReceipt plan receipt entry then
              check (requireManagedCreateAudit L ''management_create_apply'' req ''already_applied'' b) unaudited
                (\<lambda>b1. ((res\<lparr>crOutcome := ''already_applied'', crApplied := False, crAuditStatus := ''audit_recorded'', crPolicyResult := ''allowed'',
                          crNextAction := ''secret_already_created_by_exact_operation'', crMetadata := map_option seMetadata entry\<rparr>, None), b1))
            else fail ''conflict'' ''use_new_operation_id_after_inspecting_existing_receipt'' errManagedCreateConflict b
        | None \<Rightarrow>
            if map_of (stSecrets store) (cpRef plan) \<noteq> None \<or> configuredSourceHasRef (cpRef plan) b then
              fail ''conflict'' ''run_fresh_create_dry_run'' errManagedCreateConflict b
            else if buriedRef store (cpRef plan) then fail ''conflict'' ''restore_or_retire_existing_tombstone'' errManagedCreateConflict b
            else check (requireManagedCreateAudit L ''management_create_apply'' req ''authorized'' b) unaudited
              (\<lambda>b1. createSecret L req plan res store b1)))"

definition managedCreateApply :: "'z golib_scheme \<Rightarrow> managedCreateRequest \<Rightarrow> 'm backend_scheme \<Rightarrow> 'm backend_scheme createResult" where
  "managedCreateApply L req b =
     (let res = baseManagedCreateResponse L req ''apply''; fail = managedCreateFailure L ''management_create_apply'' req res in
      if \<not> validSecretRef (cqRef req) \<or> safeOperationToken L (cqOperationID req) = [] \<or> trimSpace (cqReason req) = [] \<or> \<not> cqConfirm req
         \<or> cqPlan req = None \<or> crGenerationMode res = [] then
        fail ''policy_denied'' ''confirm_with_audit_reason_and_fresh_plan'' errPolicyDenied b
      else
        let plan = the (cqPlan req) in
        if verifyManagedCreatePlan L plan (bMasterKey b) (bNow b) \<noteq> None \<or> cpRef plan \<noteq> trimSpace (cqRef req)
           \<or> cpOperationID plan \<noteq> safeOperationToken L (cqOperationID req) \<or> cpGenerationMode plan \<noteq> crGenerationMode res
           \<or> cpExpectedState plan \<noteq> ''missing'' then fail ''stale_plan'' ''run_fresh_create_dry_run'' errManagedCreateConflict b
        else if crGenerationMode res = ''operator_supplied'' \<and> trimSpace (cqValue req) = [] then
          fail ''policy_denied'' ''provide_value_and_confirm_fresh_plan'' errPolicyDenied b
        else if crGenerationMode res = ''broker_generated'' \<and> cqValue req \<noteq> [] then
          fail ''policy_denied'' ''remove_operator_value_for_broker_generated_create'' errPolicyDenied b
        else if isLocked b then fail ''locked'' ''unlock_broker'' errLocked b
        else applyCreatePlan L req plan res b)"

subsection \<open>Endpoints\<close>

definition registerManagedCreateAction ::
  "'z golib_scheme \<Rightarrow> string \<Rightarrow> string \<Rightarrow> (managedCreateRequest \<Rightarrow> 'm backend_scheme \<Rightarrow> 'm backend_scheme createResult)
    \<Rightarrow> httpRequest \<Rightarrow> managedCreateRequest decoded \<Rightarrow> 'm backend_scheme \<Rightarrow> managedCreateResponse reply \<times> 'm backend_scheme" where
  "registerManagedCreateAction L token path handler r body b =
     (if hMethod r \<noteq> ''POST'' then (writeAPIError 405 ''method_not_allowed'' (''Use POST '' @ path @ ''.'') ''invalid_ref'' [], b)
      else check (require L token r b) (\<lambda>refusal b1. (refusal, b1))
        (\<lambda>b1. case body of BodyTooLarge \<Rightarrow> (writeDecodeError True, b1) | BodyMalformed \<Rightarrow> (writeDecodeError False, b1)
         | Decoded req \<Rightarrow> let h = handler req b1 in
             (Json (case snd (fst h) of None \<Rightarrow> 200
                | Some err \<Rightarrow> if errorIs err errInvalidRef \<or> errorIs err errPolicyDenied then 400
                    else if errorIs err errManagedCreateConflict then 409 else 503) (fst (fst h)), snd h)))"

definition managedCreateHandlers ::
  "'z golib_scheme \<Rightarrow> (string \<times> (managedCreateRequest \<Rightarrow> 'm backend_scheme \<Rightarrow> 'm backend_scheme createResult)) list" where
  "managedCreateHandlers L =
     [(''/v1/management/secrets/create/dry-run'', managedCreateDryRun L), (''/v1/management/secrets/create/apply'', managedCreateApply L)]"

end
