(* ===== verification/Managed_Facts.thy ===== *)
theory Managed_Facts
  imports Secret_Create Backup_Facts
begin

text \<open>
  The managed operations as one machine over two shelves. An encrypted entry is active or it lies in a tombstone
  of a decommissioned ref; creating adds an entry to a ref that is on neither shelf, decommissioning and restoring
  move it. Every operation, whatever its request and whatever fails on the way, makes one such move or none.
\<close>

subsection \<open>The shelves\<close>

type_synonym shelves = "(string \<Rightarrow> secretEntry option) \<times> (string \<Rightarrow> secretEntry option)"

inductive shelf_step :: "shelves \<Rightarrow> shelves \<Rightarrow> bool" where
  stays: "shelf_step s s"
| created: "\<lbrakk>a r = None; g r = None\<rbrakk> \<Longrightarrow> shelf_step (a, g) (a(r \<mapsto> e), g)"
| buried: "\<lbrakk>a r = Some e; g r = None\<rbrakk> \<Longrightarrow> shelf_step (a, g) (a(r := None), g(r \<mapsto> e))"
| exhumed: "\<lbrakk>a r = None; g r = Some e\<rbrakk> \<Longrightarrow> shelf_step (a, g) (a(r \<mapsto> e), g(r := None))"

definition holds :: "shelves \<Rightarrow> string \<Rightarrow> secretEntry \<Rightarrow> bool" where
  "holds s r e \<longleftrightarrow> fst s r = Some e \<or> snd s r = Some e"

definition apart :: "shelves \<Rightarrow> bool" where
  "apart s \<longleftrightarrow> dom (fst s) \<inter> dom (snd s) = {}"

lemma step_holds: "shelf_step s s' \<Longrightarrow> holds s r e \<Longrightarrow> holds s' r e"
  by (induction rule: shelf_step.induct) (auto simp: holds_def)

lemma step_apart: "shelf_step s s' \<Longrightarrow> apart s \<Longrightarrow> apart s'"
  by (induction rule: shelf_step.induct) (auto simp: apart_def dom_def split: if_splits)

lemma steps_holds: "shelf_step\<^sup>*\<^sup>* s s' \<Longrightarrow> holds s r e \<Longrightarrow> holds s' r e"
  by (induction rule: rtranclp_induct) (auto intro: step_holds)

lemma steps_apart: "shelf_step\<^sup>*\<^sup>* s s' \<Longrightarrow> apart s \<Longrightarrow> apart s'"
  by (induction rule: rtranclp_induct) (auto intro: step_apart)

text \<open>The interface of a component that keeps secrets on the two shelves: \<open>run\<close> carries out one call.\<close>

locale shelving =
  fixes run :: "'c \<Rightarrow> 's \<Rightarrow> 's"
    and sound :: "'s \<Rightarrow> bool"
    and shelvesOf :: "'s \<Rightarrow> shelves"
  assumes keeps: "sound s \<Longrightarrow> sound (run c s)"
    and moves: "sound s \<Longrightarrow> shelf_step (shelvesOf s) (shelvesOf (run c s))"
begin

lemma run_sound: "sound s \<Longrightarrow> sound (fold run cs s)"
  by (induction cs arbitrary: s) (simp_all add: keeps)

lemma run_steps: "sound s \<Longrightarrow> shelf_step\<^sup>*\<^sup>* (shelvesOf s) (shelvesOf (fold run cs s))"
proof (induction cs arbitrary: s)
  case (Cons c cs)
  then show ?case using moves [OF Cons.prems, of c] keeps [OF Cons.prems, of c] by (simp add: converse_rtranclp_into_rtranclp)
qed simp

lemma never_lost: "sound s \<Longrightarrow> holds (shelvesOf s) r e \<Longrightarrow> holds (shelvesOf (fold run cs s)) r e"
  by (rule steps_holds [OF run_steps])

lemma stays_apart: "sound s \<Longrightarrow> apart (shelvesOf s) \<Longrightarrow> apart (shelvesOf (fold run cs s))"
  by (rule steps_apart [OF run_steps])

end

subsection \<open>The shelves of the store file\<close>

definition tombstonesOf :: "diskState \<Rightarrow> localSecretTombstone gomap" where
  "tombstonesOf d = (case d of Stored s \<Rightarrow> stTombstones s | _ \<Rightarrow> [])"

definition buriedEntry :: "localSecretTombstone \<Rightarrow> secretEntry option" where
  "buriedEntry t = (if tsState t = ''decommissioned'' then Some (tsEntry t) else None)"

definition storeShelves :: "diskState \<Rightarrow> shelves" where
  "storeShelves d = (map_of (secretsOf d), \<lambda>r. Option.bind (map_of (tombstonesOf d) r) buriedEntry)"

definition labelled :: "diskState \<Rightarrow> bool" where
  "labelled d \<longleftrightarrow> (\<forall>(r, t) \<in> set (tombstonesOf d). tsRef t = r)"

lemma loaded: "loadStore b = Inr s \<Longrightarrow> stSecrets s = secretsOf (bDisk b) \<and> stTombstones s = tombstonesOf (bDisk b)"
  by (auto simp: loadStore_def secretsOf_def tombstonesOf_def freshStore_def split: diskState.splits)

lemma labelled_at: "labelled d \<Longrightarrow> map_of (tombstonesOf d) r = Some t \<Longrightarrow> tsRef t = r"
  by (auto simp: labelled_def dest: map_of_SomeD)

lemma labelled_update:
  assumes "labelled d" "tsRef t = r" "stTombstones s = AList.update r t (tombstonesOf d)" shows "labelled (Stored s)"
proof -
  have "set (AList.update r t ts) \<subseteq> insert (r, t) (set ts)" for ts
    by (induction ts) auto
  then have "set (tombstonesOf (Stored s)) \<subseteq> insert (r, t) (set (tombstonesOf d))" using assms(3) by (simp add: tombstonesOf_def [of "Stored s"])
  then show ?thesis using assms(1,2) unfolding labelled_def by blast
qed

subsection \<open>What each operation leaves\<close>

lemma decommissionAudit_keeps [simp, store_frame]:
  "bDisk (snd (requireDecommissionAudit L op req b)) = bDisk b" "bMasterKey (snd (requireDecommissionAudit L op req b)) = bMasterKey b"
  "bNow (snd (requireDecommissionAudit L op req b)) = bNow b" "bSaveFaults (snd (requireDecommissionAudit L op req b)) = bSaveFaults b"
  by (simp_all add: requireDecommissionAudit_def check_def split: option.split)

lemma decommissionFailure_keeps [simp, store_frame]:
  "bDisk (snd (decommissionFailureWithAudit L op req res oc nx err b)) = bDisk b"
  "bMasterKey (snd (decommissionFailureWithAudit L op req res oc nx err b)) = bMasterKey b"
  "snd (fst (decommissionFailureWithAudit L op req res oc nx err b)) = Some err"
  by (simp_all add: decommissionFailureWithAudit_def Let_def check_def split: option.split)

lemma createAudit_keeps [simp, store_frame]:
  "bDisk (snd (requireManagedCreateAudit L op req oc b)) = bDisk b" "bMasterKey (snd (requireManagedCreateAudit L op req oc b)) = bMasterKey b"
  "bNow (snd (requireManagedCreateAudit L op req oc b)) = bNow b" "bSaveFaults (snd (requireManagedCreateAudit L op req oc b)) = bSaveFaults b"
  "bRandom (snd (requireManagedCreateAudit L op req oc b)) = bRandom b"
  by (simp_all add: requireManagedCreateAudit_def check_def split: option.split)

lemma createFailure_keeps [simp, store_frame]:
  "bDisk (snd (managedCreateFailure L op req res oc nx err b)) = bDisk b"
  "bMasterKey (snd (managedCreateFailure L op req res oc nx err b)) = bMasterKey b"
  "snd (fst (managedCreateFailure L op req res oc nx err b)) \<noteq> None"
  by (simp_all add: managedCreateFailure_def managedCreateFailureWithoutAudit_def Let_def check_def split: option.split)

lemma createUnaudited_keeps [simp]:
  "snd (managedCreateFailureWithoutAudit res oc nx err b) = b" "snd (fst (managedCreateFailureWithoutAudit res oc nx err b)) = Some err"
  by (simp_all add: managedCreateFailureWithoutAudit_def)

lemma dryRuns_keep:
  "bDisk (snd (decommissionDryRun L dreq b)) = bDisk b" "bMasterKey (snd (decommissionDryRun L dreq b)) = bMasterKey b"
  "bDisk (snd (managedCreateDryRun L creq b)) = bDisk b" "bMasterKey (snd (managedCreateDryRun L creq b)) = bMasterKey b"
  by (simp_all add: decommissionDryRun_def managedCreateDryRun_def Let_def check_def split: sum.split option.split)

lemma bury_paths:
  assumes "r = bury L req plan res s b"
  obtains (refused) "bDisk (snd r) = bDisk b" "bMasterKey (snd r) = bMasterKey b" "snd (fst r) \<noteq> None"
  | (stored) e where "map_of (stSecrets s) (dpRef plan) = Some e" "smVersion (seMetadata e) = dpExpectedVersion plan"
      "bDisk (snd r) = Stored (buriedStore plan e (bNow b) s)" "bMasterKey (snd r) = bMasterKey b"
proof (cases "\<exists>e. map_of (stSecrets s) (dpRef plan) = Some e \<and> smVersion (seMetadata e) = dpExpectedVersion plan
    \<and> fst (requireDecommissionAudit L ''management_decommission_apply'' req b) = None")
  case True
  then obtain e where e: "map_of (stSecrets s) (dpRef plan) = Some e" "smVersion (seMetadata e) = dpExpectedVersion plan"
    "fst (requireDecommissionAudit L ''management_decommission_apply'' req b) = None" by blast
  let ?b = "snd (requireDecommissionAudit L ''management_decommission_apply'' req b)"
  show ?thesis
  proof (cases "fst (saveStore (buriedStore plan e (bNow b) s) ?b)")
    case None
    then show ?thesis using e save_disk(1) [OF None] by (intro stored [OF e(1,2)]) (simp_all add: assms bury_def)
  next
    case (Some err)
    then have d: "bDisk (snd r) = bDisk (snd (saveStore (buriedStore plan e (bNow b) s) ?b))" "bMasterKey (snd r) = bMasterKey b" "snd (fst r) \<noteq> None"
      using e by (simp_all add: assms bury_def)
    from save_disk(2) [of "buriedStore plan e (bNow b) s" ?b] show ?thesis using d refused stored [OF e(1,2)] by auto
  qed
next
  case False
  then show ?thesis by (intro refused) (auto simp: assms bury_def Let_def check_def split: option.split)
qed

lemma apply_paths:
  assumes "r = decommissionApply L req b"
  obtains (refused) "bDisk (snd r) = bDisk b" "bMasterKey (snd r) = bMasterKey b" "snd (fst r) \<noteq> None"
  | (again) s t plan where "loadStore b = Inr s" "dqPlan req = Some plan" "map_of (stTombstones s) (trimSpace (dqRef req)) = Some t" "tsState t = ''decommissioned''"
      "tsDecommissionID t = dpOperationID plan" "tsVersion t = dpExpectedVersion plan" "bDisk (snd r) = bDisk b" "bMasterKey (snd r) = bMasterKey b"
  | (stored) s e plan where "loadStore b = Inr s" "dqPlan req = Some plan" "dpRef plan = trimSpace (dqRef req)"
      "Option.bind (map_of (stTombstones s) (dpRef plan)) buriedEntry = None"
      "map_of (stSecrets s) (dpRef plan) = Some e" "smVersion (seMetadata e) = dpExpectedVersion plan"
      "bDisk (snd r) = Stored (buriedStore plan e (bNow b) s)" "bMasterKey (snd r) = bMasterKey b"
proof (cases "(\<not> validSecretRef (dqRef req) \<or> \<not> dqConfirm req \<or> trimSpace (dqReason req) = [] \<or> dqPlan req = None)
    \<or> verifyDecommissionPlan L (the (dqPlan req)) (bMasterKey b) (bNow b) \<noteq> None \<or> trimSpace (dqRef req) \<noteq> dpRef (the (dqPlan req))
    \<or> safeOperationToken L (dqOperationID req) \<noteq> dpOperationID (the (dqPlan req)) \<or> isLocked b \<or> is_err (loadStore b)")
  case True
  then show ?thesis by (intro refused; elim disjE; auto simp: assms decommissionApply_def Let_def split: sum.split)
next
  case False
  then obtain plan s where p: "dqPlan req = Some plan" "loadStore b = Inr s" "trimSpace (dqRef req) = dpRef plan" by (cases "loadStore b") auto
  show ?thesis
  proof (cases "\<exists>t. map_of (stTombstones s) (dpRef plan) = Some t \<and> tsState t = ''decommissioned''")
    case True
    then obtain t where t: "map_of (stTombstones s) (dpRef plan) = Some t" "tsState t = ''decommissioned''" by blast
    show ?thesis
    proof (cases "tsDecommissionID t = dpOperationID plan \<and> tsVersion t = dpExpectedVersion plan")
      case same: True
      show ?thesis by (rule again [OF p(2,1) _ t(2)]) (use False p t same in \<open>simp_all add: assms decommissionApply_def Let_def check_def split: option.split\<close>)
    next
      case differs: False
      show ?thesis by (rule refused) (use False p t differs in \<open>auto simp: assms decommissionApply_def Let_def\<close>)
    qed
  next
    case none: False
    obtain res where r: "r = bury L req plan res s b"
      using False p none by (cases "map_of (stTombstones s) (dpRef plan)") (auto simp: assms decommissionApply_def Let_def)
    have g: "Option.bind (map_of (stTombstones s) (dpRef plan)) buriedEntry = None" using none by (cases "map_of (stTombstones s) (dpRef plan)") (auto simp: buriedEntry_def)
    show ?thesis by (rule bury_paths [OF r]; rule refused stored [OF p(2,1) p(3) [symmetric] g]; assumption)
  qed
qed

lemma restore_paths:
  assumes "r = decommissionRestore L req b"
  obtains (same) "bDisk (snd r) = bDisk b" "bMasterKey (snd r) = bMasterKey b"
  | (stored) s t where "loadStore b = Inr s" "map_of (stTombstones s) (trimSpace (dqRef req)) = Some t" "map_of (stSecrets s) (tsRef t) = None"
      "tsState t = ''decommissioned''" "bDisk (snd r) = Stored (exhumedStore t (safeOperationToken L (dqOperationID req)) (bNow b) s)"
      "bMasterKey (snd r) = bMasterKey b"
proof (cases "\<exists>s t. (validSecretRef (dqRef req) \<and> safeOperationToken L (dqOperationID req) \<noteq> [] \<and> dqConfirm req \<and> trimSpace (dqReason req) \<noteq> []
    \<and> trimSpace (dqExpectedVersion req) \<noteq> []) \<and> \<not> isLocked b \<and> loadStore b = Inr s \<and> map_of (stTombstones s) (trimSpace (dqRef req)) = Some t
    \<and> tsVersion t = trimSpace (dqExpectedVersion req) \<and> map_of (stSecrets s) (tsRef t) = None \<and> tsState t = ''decommissioned''
    \<and> fst (requireDecommissionAudit L ''management_decommission_restore'' req b) = None")
  case True
  then obtain s t where p: "validSecretRef (dqRef req) \<and> safeOperationToken L (dqOperationID req) \<noteq> [] \<and> dqConfirm req \<and> trimSpace (dqReason req) \<noteq> []
    \<and> trimSpace (dqExpectedVersion req) \<noteq> []" "\<not> isLocked b" "loadStore b = Inr s" "map_of (stTombstones s) (trimSpace (dqRef req)) = Some t"
    "tsVersion t = trimSpace (dqExpectedVersion req)" "map_of (stSecrets s) (tsRef t) = None" "tsState t = ''decommissioned''"
    "fst (requireDecommissionAudit L ''management_decommission_restore'' req b) = None" by blast
  let ?b = "snd (requireDecommissionAudit L ''management_decommission_restore'' req b)"
  let ?w = "saveStore (exhumedStore t (safeOperationToken L (dqOperationID req)) (bNow b) s) ?b"
  have "bDisk (snd r) = bDisk (snd ?w)" "bMasterKey (snd r) = bMasterKey b"
    using p by (cases "fst ?w"; simp add: assms decommissionRestore_def Let_def)+
  then show ?thesis using save_disk(2) [of "exhumedStore t (safeOperationToken L (dqOperationID req)) (bNow b) s" ?b] p(3,4,6,7) same stored by auto
next
  case False
  show ?thesis
  proof (rule same)
    show "bDisk (snd r) = bDisk b" "bMasterKey (snd r) = bMasterKey b"
      using False unfolding assms decommissionRestore_def Let_def
      by (auto simp: check_def split: sum.split option.split)
  qed
qed

lemma value_keeps [simp, store_frame]:
  "bDisk (snd (valueFor L plan v b)) = bDisk b" "bMasterKey (snd (valueFor L plan v b)) = bMasterKey b" "bNow (snd (valueFor L plan v b)) = bNow b"
  "bSaveFaults (snd (valueFor L plan v b)) = bSaveFaults b"
  by (simp_all add: valueFor_def generateManagedSecretValue_def)

lemma create_paths:
  assumes "r = createSecret L req plan res s b"
  obtains (refused) "bDisk (snd r) = bDisk b" "bMasterKey (snd r) = bMasterKey b" "snd (fst r) \<noteq> None"
  | (stored) v p where "fst (valueFor L plan (cqValue req) b) = Inr v" "fst (encrypt L v (snd (valueFor L plan (cqValue req) b))) = Inr p"
      "bDisk (snd r) = Stored (createdStore L plan p (bNow b) s)" "bMasterKey (snd r) = bMasterKey b"
proof (cases "\<exists>v p. fst (valueFor L plan (cqValue req) b) = Inr v \<and> fst (encrypt L v (snd (valueFor L plan (cqValue req) b))) = Inr p")
  case True
  then obtain v p where v: "fst (valueFor L plan (cqValue req) b) = Inr v" "fst (encrypt L v (snd (valueFor L plan (cqValue req) b))) = Inr p" by blast
  let ?b = "snd (encrypt L v (snd (valueFor L plan (cqValue req) b)))"
  let ?w = "saveStore (createdStore L plan p (bNow b) s) ?b"
  have r: "bDisk (snd r) = bDisk (snd ?w)" "bMasterKey (snd r) = bMasterKey b" "snd (fst r) = None \<longleftrightarrow> fst ?w = None"
    using v by (cases "fst ?w"; simp add: assms createSecret_def)+
  then show ?thesis using save_disk [of "createdStore L plan p (bNow b) s" ?b] refused stored [OF v] by auto
next
  case False
  then show ?thesis by (intro refused) (auto simp: assms createSecret_def attempt_def split: sum.split)
qed

lemma createApply_paths:
  fixes b :: "'m backend_scheme"
  assumes "r = managedCreateApply L req b"
  obtains (same) "bDisk (snd r) = bDisk b" "bMasterKey (snd r) = bMasterKey b"
  | (stored) s plan v p and b0 b1 :: "'m backend_scheme" where "loadStore b = Inr s" "cqPlan req = Some plan" "cpRef plan = trimSpace (cqRef req)"
      "map_of (stSecrets s) (cpRef plan) = None" "Option.bind (map_of (stTombstones s) (cpRef plan)) buriedEntry = None"
      "map_of (stManagementOps s) (cpOperationID plan) = None" "fst (valueFor L plan (cqValue req) b0) = Inr v" "fst (encrypt L v b1) = Inr p" "bMasterKey b1 = bMasterKey b"
      "bDisk (snd r) = Stored (createdStore L plan p (bNow b) s)" "bMasterKey (snd r) = bMasterKey b"
proof (cases "\<exists>s plan. loadStore b = Inr s \<and> cqPlan req = Some plan \<and> cpRef plan = trimSpace (cqRef req) \<and> map_of (stManagementOps s) (cpOperationID plan) = None
    \<and> map_of (stSecrets s) (cpRef plan) = None \<and> \<not> buriedRef s (cpRef plan)
    \<and> (\<exists>res. r = createSecret L req plan res s (snd (requireManagedCreateAudit L ''management_create_apply'' req ''authorized'' b)))")
  case True
  then obtain s plan res where p: "loadStore b = Inr s" "cqPlan req = Some plan" "cpRef plan = trimSpace (cqRef req)"
    "map_of (stManagementOps s) (cpOperationID plan) = None" "map_of (stSecrets s) (cpRef plan) = None" "\<not> buriedRef s (cpRef plan)"
    "r = createSecret L req plan res s (snd (requireManagedCreateAudit L ''management_create_apply'' req ''authorized'' b))" by blast
  have g: "Option.bind (map_of (stTombstones s) (cpRef plan)) buriedEntry = None"
    using p(6) by (auto simp: buriedRef_def buriedEntry_def split: option.splits)
  show ?thesis
  proof (rule create_paths [OF p(7)])
    fix v payload
    assume v: "fst (valueFor L plan (cqValue req) (snd (requireManagedCreateAudit L ''management_create_apply'' req ''authorized'' b))) = Inr v"
      "fst (encrypt L v (snd (valueFor L plan (cqValue req) (snd (requireManagedCreateAudit L ''management_create_apply'' req ''authorized'' b))))) = Inr payload"
      and d: "bDisk (snd r) = Stored (createdStore L plan payload (bNow (snd (requireManagedCreateAudit L ''management_create_apply'' req ''authorized'' b))) s)"
        "bMasterKey (snd r) = bMasterKey (snd (requireManagedCreateAudit L ''management_create_apply'' req ''authorized'' b))"
    show ?thesis by (rule stored [OF p(1-3,5) g p(4) v]) (use d in simp_all)
  qed (auto intro: same)
next
  case False
  have a: "bDisk (snd (applyCreatePlan L req plan res b)) = bDisk b \<and> bMasterKey (snd (applyCreatePlan L req plan res b)) = bMasterKey b"
    if "r = applyCreatePlan L req plan res b" "cqPlan req = Some plan" "cpRef plan = trimSpace (cqRef req)" for plan res
    using False that unfolding applyCreatePlan_def Let_def
    by (auto simp: check_def split: sum.splits option.splits if_splits)
  show ?thesis
  proof (rule same)
    show "bDisk (snd r) = bDisk b" "bMasterKey (snd r) = bMasterKey b"
      using a unfolding assms managedCreateApply_def Let_def by auto
  qed
qed

subsection \<open>The machine\<close>

datatype managedCall = CreatePlan managedCreateRequest | Create managedCreateRequest | BuryPlan decommissionRequest | Bury decommissionRequest
  | Exhume decommissionRequest | Passes time "saveFault list" "string option list"

text \<open>Between the calls time passes, and what the disk and the random source will do is up to them.\<close>

fun managedRun :: "'z golib_scheme \<Rightarrow> managedCall \<Rightarrow> 'm backend_scheme \<Rightarrow> 'm backend_scheme" where
  "managedRun L (CreatePlan req) b = snd (managedCreateDryRun L req b)"
| "managedRun L (Create req) b = snd (managedCreateApply L req b)"
| "managedRun L (BuryPlan req) b = snd (decommissionDryRun L req b)"
| "managedRun L (Bury req) b = snd (decommissionApply L req b)"
| "managedRun L (Exhume req) b = snd (decommissionRestore L req b)"
| "managedRun L (Passes t faults random) b = b\<lparr>bNow := t, bSaveFaults := faults, bRandom := random\<rparr>"

lemma buried_shelves:
  assumes "loadStore b = Inr s"
  shows "storeShelves (Stored (buriedStore plan e now s)) = ((fst (storeShelves (bDisk b)))(dpRef plan := None), (snd (storeShelves (bDisk b)))(dpRef plan \<mapsto> e))"
  using loaded [OF assms]
  by (auto simp: storeShelves_def buriedStore_def secretsOf_def [of "Stored _"] tombstonesOf_def [of "Stored _"] tombstoneOf_def buriedEntry_def fun_eq_iff
      update_conv' delete_conv')

lemma exhumed_shelves:
  assumes "loadStore b = Inr s"
  shows "storeShelves (Stored (exhumedStore t op now s))
    = ((fst (storeShelves (bDisk b)))(tsRef t \<mapsto> tsEntry t), (snd (storeShelves (bDisk b)))(tsRef t := None))"
  using loaded [OF assms]
  by (auto simp: storeShelves_def exhumedStore_def secretsOf_def [of "Stored _"] tombstonesOf_def [of "Stored _"] buriedEntry_def fun_eq_iff update_conv')

lemma created_shelves:
  assumes "loadStore b = Inr s"
  shows "storeShelves (Stored (createdStore L plan p now s))
    = ((fst (storeShelves (bDisk b)))(cpRef plan \<mapsto> \<lparr>seRef = cpRef plan, seMetadata = createdMetadata L plan now, sePayload = p, seKV = None\<rparr>),
       snd (storeShelves (bDisk b)))"
  using loaded [OF assms]
  by (auto simp: storeShelves_def createdStore_def secretsOf_def [of "Stored _"] tombstonesOf_def [of "Stored _"] fun_eq_iff update_conv')

lemma shelves_at:
  assumes "loadStore b = Inr s"
  shows "fst (storeShelves (bDisk b)) r = map_of (stSecrets s) r" "snd (storeShelves (bDisk b)) r = Option.bind (map_of (stTombstones s) r) buriedEntry"
  using loaded [OF assms] by (simp_all add: storeShelves_def)

lemma managed_moves:
  assumes "labelled (bDisk b)"
  shows "labelled (bDisk (managedRun L c b)) \<and> shelf_step (storeShelves (bDisk b)) (storeShelves (bDisk (managedRun L c b)))"
proof (cases c)
  case (Create req)
  show ?thesis unfolding Create managedRun.simps
  proof (cases rule: createApply_paths [of "managedCreateApply L req b" L req b, OF refl])
    case (2 s plan v p b0 b1)
    have "labelled (Stored (createdStore L plan p (bNow b) s))"
      using assms loaded [OF 2(1)] by (simp add: labelled_def tombstonesOf_def [of "Stored _"] createdStore_def)
    moreover have "shelf_step (storeShelves (bDisk b)) (storeShelves (Stored (createdStore L plan p (bNow b) s)))"
      unfolding created_shelves [OF 2(1)] by (subst prod.collapse [symmetric], rule shelf_step.created) (use 2(4,5) shelves_at [OF 2(1)] in simp_all)
    ultimately show "labelled (bDisk (snd (managedCreateApply L req b))) \<and> shelf_step (storeShelves (bDisk b)) (storeShelves (bDisk (snd (managedCreateApply L req b))))"
      using 2(10) by simp
  qed (use assms in \<open>simp add: shelf_step.stays\<close>)
next
  case (Bury req)
  show ?thesis unfolding Bury managedRun.simps
  proof (cases rule: apply_paths [of "decommissionApply L req b" L req b, OF refl])
    case (3 s e plan)
    have "labelled (Stored (buriedStore plan e (bNow b) s))"
      by (rule labelled_update [OF assms, of "tombstoneOf plan e (bNow b)" "dpRef plan"]) (use loaded [OF 3(1)] in \<open>simp_all add: tombstoneOf_def buriedStore_def\<close>)
    moreover have "shelf_step (storeShelves (bDisk b)) (storeShelves (Stored (buriedStore plan e (bNow b) s)))"
      unfolding buried_shelves [OF 3(1)] by (subst prod.collapse [symmetric], rule shelf_step.buried) (use 3(4,5) shelves_at [OF 3(1)] in simp_all)
    ultimately show "labelled (bDisk (snd (decommissionApply L req b))) \<and> shelf_step (storeShelves (bDisk b)) (storeShelves (bDisk (snd (decommissionApply L req b))))"
      using 3(7) by simp
  qed (use assms in \<open>simp_all add: shelf_step.stays\<close>)
next
  case (Exhume req)
  show ?thesis unfolding Exhume managedRun.simps
  proof (cases rule: restore_paths [of "decommissionRestore L req b" L req b, OF refl])
    case (2 s t)
    let ?op = "safeOperationToken L (dqOperationID req)"
    have "tsRef t = trimSpace (dqRef req)" using labelled_at [OF assms] 2(2) loaded [OF 2(1)] by simp
    then have t: "map_of (stTombstones s) (tsRef t) = Some t" using 2(2) by simp
    have "labelled (Stored (exhumedStore t ?op (bNow b) s))"
      by (rule labelled_update [OF assms, of "t\<lparr>tsState := ''restored'', tsRestoreOperationID := ?op, tsRestoredAt := bNow b\<rparr>" "tsRef t"])
         (use loaded [OF 2(1)] in \<open>simp_all add: exhumedStore_def\<close>)
    moreover have "shelf_step (storeShelves (bDisk b)) (storeShelves (Stored (exhumedStore t ?op (bNow b) s)))"
      unfolding exhumed_shelves [OF 2(1)]
      by (subst prod.collapse [symmetric], rule shelf_step.exhumed) (use 2(3,4) t shelves_at [OF 2(1)] in \<open>simp_all add: buriedEntry_def\<close>)
    ultimately show "labelled (bDisk (snd (decommissionRestore L req b))) \<and> shelf_step (storeShelves (bDisk b)) (storeShelves (bDisk (snd (decommissionRestore L req b))))"
      using 2(5) by simp
  qed (use assms in \<open>simp add: shelf_step.stays\<close>)
qed (use assms in \<open>simp_all add: dryRuns_keep shelf_step.stays\<close>)

lemma managed_key: "bMasterKey (managedRun L c b) = bMasterKey b"
proof (cases c)
  case (Create req)
  then show ?thesis by (cases rule: createApply_paths [of "managedCreateApply L req b" L req b, OF refl]) simp_all
next
  case (Bury req)
  then show ?thesis by (cases rule: apply_paths [of "decommissionApply L req b" L req b, OF refl]) simp_all
next
  case (Exhume req)
  then show ?thesis by (cases rule: restore_paths [of "decommissionRestore L req b" L req b, OF refl]) simp_all
qed (simp_all add: dryRuns_keep)

interpretation shelf: shelving "managedRun L" "\<lambda>b. labelled (bDisk b)" "\<lambda>b. storeShelves (bDisk b)" for L
  by unfold_locales (use managed_moves in blast)+

lemma runs_key: "bMasterKey (fold (managedRun L) cs b) = bMasterKey b"
  by (induction cs arbitrary: b) (simp_all add: managed_key)

lemma vault_shelves:
  assumes "bMasterKey b' = bMasterKey b"
  shows "vault L b' r = Option.bind (fst (storeShelves (bDisk b')) r) (\<lambda>e. case decrypt L b (sePayload e) of Inl _ \<Rightarrow> None | Inr v \<Rightarrow> Some v)"
  using decrypt_cong [OF assms, of L] by (simp add: vault_def storeShelves_def split: option.split)

text \<open>
  Property C38. Create, decommission and restore are moves on two shelves, the active secrets and the tombstones:
  any sequence of these calls, with any requests, with any disk and random faults and any time between them, is a
  sequence of such moves. So no entry is ever lost or overwritten (an entry that was active or buried is active or buried
  in the end, and opens to the same value), and no ref comes to be on both shelves.
\<close>

theorem managed_operations_refine:
  fixes b :: "'m backend_scheme"
  assumes "labelled (bDisk b)" "apart (storeShelves (bDisk b))" "b' = fold (managedRun L) calls b"
  shows "shelf_step\<^sup>*\<^sup>* (storeShelves (bDisk b)) (storeShelves (bDisk b')) \<and> labelled (bDisk b') \<and> apart (storeShelves (bDisk b'))
    \<and> (\<forall>r e. holds (storeShelves (bDisk b)) r e \<longrightarrow> holds (storeShelves (bDisk b')) r e)
    \<and> (\<forall>r v. vault L b r = Some v \<longrightarrow>
         vault L b' r = Some v \<or> (\<exists>e. snd (storeShelves (bDisk b')) r = Some e \<and> decrypt L b' (sePayload e) = Inr v))"
proof -
  note lost = shelf.never_lost [of b, OF assms(1)]
  have k: "bMasterKey b' = bMasterKey b" by (simp add: assms(3) runs_key)
  have "vault L b' r = Some v \<or> (\<exists>e. snd (storeShelves (bDisk b')) r = Some e \<and> decrypt L b' (sePayload e) = Inr v)" if v: "vault L b r = Some v" for r v
  proof -
    obtain e where e: "fst (storeShelves (bDisk b)) r = Some e" "decrypt L b (sePayload e) = Inr v"
      using v vault_shelves [of b b L r] by (cases "fst (storeShelves (bDisk b)) r") (auto split: sum.splits)
    then have "holds (storeShelves (bDisk b')) r e" using lost [of r e L calls] assms(3) by (simp add: holds_def)
    then show ?thesis using e(2) vault_shelves [OF k, of L r] decrypt_cong [OF k, of L] by (auto simp: holds_def)
  qed
  then show ?thesis using lost shelf.run_sound [of b, OF assms(1)] shelf.run_steps [of b, OF assms(1)] shelf.stays_apart [of b, OF assms(1,2)]
    unfolding assms(3) by blast
qed

subsection \<open>Decommissioning and restoring\<close>

lemma vault_buried:
  assumes "loadStore b = Inr s" "bDisk b' = Stored (buriedStore plan e now s)" "bMasterKey b' = bMasterKey b"
  shows "vault L b' = (vault L b)(dpRef plan := None)"
  using vault_shelves [OF assms(3), of L] vault_shelves [of b b L] buried_shelves [OF assms(1), of plan e now] assms(2) by (auto simp: fun_eq_iff)

lemma restore_runs:
  assumes "loadStore b = Inr s" "map_of (stTombstones s) r = Some t" "tsState t = ''decommissioned''" "tsRef t = r" "map_of (stSecrets s) r = None" "\<not> isLocked b"
    and "trimSpace (dqRef req) = r" "validSecretRef (dqRef req)" "safeOperationToken L (dqOperationID req) \<noteq> []" "dqConfirm req" "trimSpace (dqReason req) \<noteq> []"
    and "trimSpace (dqExpectedVersion req) \<noteq> []" "trimSpace (dqExpectedVersion req) = tsVersion t"
    and "fst (requireDecommissionAudit L ''management_decommission_restore'' req b) = None" "bSaveFaults b = []"
  shows "snd (fst (decommissionRestore L req b)) = None"
    "bDisk (snd (decommissionRestore L req b)) = Stored (exhumedStore t (safeOperationToken L (dqOperationID req)) (bNow b) s)"
    "bMasterKey (snd (decommissionRestore L req b)) = bMasterKey b"
proof -
  let ?b = "snd (requireDecommissionAudit L ''management_decommission_restore'' req b)"
  let ?w = "saveStore (exhumedStore t (safeOperationToken L (dqOperationID req)) (bNow b) s) ?b"
  have w: "fst ?w = None" using assms(15) by (simp add: save_faultless)
  show "snd (fst (decommissionRestore L req b)) = None" "bMasterKey (snd (decommissionRestore L req b)) = bMasterKey b"
    "bDisk (snd (decommissionRestore L req b)) = Stored (exhumedStore t (safeOperationToken L (dqOperationID req)) (bNow b) s)"
    using assms(1-14) w save_disk(1) [OF w] by (simp_all add: decommissionRestore_def Let_def)
qed

lemma apply_checked:
  assumes "snd (fst (decommissionApply L req b)) = None" "dqPlan req = Some plan"
  shows "\<not> isLocked b" "trimSpace (dpExpectedVersion plan) \<noteq> []"
proof -
  have "verifyDecommissionPlan L plan (bMasterKey b) (bNow b) = None" "\<not> isLocked b"
    using assms by (auto simp: decommissionApply_def Let_def split: if_splits)
  then show "\<not> isLocked b" "trimSpace (dpExpectedVersion plan) \<noteq> []" by (auto simp: verifyDecommissionPlan_def split: if_splits)
qed

text \<open>
  Property C39. Decommissioning can be undone. An accepted plan takes exactly that ref out of the vault, whatever else is
  in it; repeating the request changes nothing further. A confirmed restore with the version of the tombstone then
  succeeds when its audit event can be written and the store saved, and the vault holds again what it held before.
\<close>

theorem decommission_roundtrip:
  fixes b :: "'m backend_scheme"
  assumes "decommissionApply L req b = ((res, None), b1)" "snd (storeShelves (bDisk b)) (trimSpace (dqRef req)) = None"
    and "trimSpace (dqRef req2) = trimSpace (dqRef req)" "validSecretRef (dqRef req2)" "safeOperationToken L (dqOperationID req2) \<noteq> []" "dqConfirm req2"
    and "trimSpace (dqReason req2) \<noteq> []" "dqPlan req = Some plan" "trimSpace (dqExpectedVersion req2) = dpExpectedVersion plan"
    and "fst (requireDecommissionAudit L ''management_decommission_restore'' req2 b1) = None" "bSaveFaults b1 = []"
  shows "vault L b1 = (vault L b)(trimSpace (dqRef req) := None) \<and> bDisk (snd (decommissionApply L req b1)) = bDisk b1
    \<and> snd (fst (decommissionRestore L req2 b1)) = None \<and> vault L (snd (decommissionRestore L req2 b1)) = vault L b"
proof -
  let ?r = "trimSpace (dqRef req)"
  have ok: "\<not> isLocked b" "dpExpectedVersion plan \<noteq> []" using apply_checked [of L req b plan] assms(1,8) by auto
  obtain s e where p: "loadStore b = Inr s" "dpRef plan = ?r" "map_of (stSecrets s) ?r = Some e" "smVersion (seMetadata e) = dpExpectedVersion plan"
    "bDisk b1 = Stored (buriedStore plan e (bNow b) s)" "bMasterKey b1 = bMasterKey b"
  proof (cases rule: apply_paths [of "decommissionApply L req b" L req b, OF refl])
    case (2 s t plan')
    then show ?thesis using assms(2) shelves_at [OF 2(1)] by (simp add: buriedEntry_def)
  qed (use that assms(1,8) in auto)
  have v: "vault L b1 = (vault L b)(?r := None)" using vault_buried [OF p(1,5,6), of L] p(2) by simp
  let ?s = "buriedStore plan e (bNow b) s" and ?t = "tombstoneOf plan e (bNow b)"
  have s1: "loadStore b1 = Inr ?s" by (simp add: loadStore_def p(5))
  have t: "map_of (stTombstones ?s) ?r = Some ?t" "map_of (stSecrets ?s) ?r = None" "tsState ?t = ''decommissioned''" "tsRef ?t = ?r" "tsVersion ?t = dpExpectedVersion plan"
    "tsEntry ?t = e" using p(2,4) by (simp_all add: buriedStore_def tombstoneOf_def delete_conv')
  have again: "bDisk (snd (decommissionApply L req b1)) = bDisk b1"
  proof (cases rule: apply_paths [of "decommissionApply L req b1" L req b1, OF refl])
    case (3 s' e' plan')
    then show ?thesis using s1 t(1,3) by (simp add: buriedEntry_def)
  qed simp_all
  have l: "\<not> isLocked b1" using ok(1) p(6) by (simp add: isLocked_def)
  note run = restore_runs [OF s1 t(1,3,4,2) l assms(3-7) _ _ assms(10,11)]
  have "vault L (snd (decommissionRestore L req2 b1)) = vault L b"
  proof -
    have "fst (storeShelves (bDisk (snd (decommissionRestore L req2 b1)))) = fst (storeShelves (bDisk b))"
      using run(2) assms(9) ok(2) t(4-6) exhumed_shelves [OF s1, of ?t "safeOperationToken L (dqOperationID req2)" "bNow b1"] p(2)
        buried_shelves [OF p(1), of plan e "bNow b"] p(3,5) shelves_at(1) [OF p(1)]
      by (auto simp: fun_eq_iff)
    then show ?thesis using vault_shelves [of "snd (decommissionRestore L req2 b1)" b L] vault_shelves [of b b L] run(3) assms(9) ok(2) t(5) p(6)
      by (simp add: fun_eq_iff)
  qed
  then show ?thesis using v again run(1) assms(9) ok(2) t(5) by simp
qed

subsection \<open>Creating\<close>

lemma trimDashes_set: "set (trimDashes xs) \<subseteq> set xs"
  by (auto simp: trimDashes_def Let_def dest!: set_dropWhileD)

lemma dropWhile_ends:
  "dropWhile P (rev (dropWhile P (rev (dropWhile P xs)))) = rev (dropWhile P (rev (dropWhile P xs)))"
proof (cases "dropWhile P xs")
  case (Cons c zs)
  then have c: "\<not> P c" using hd_dropWhile [of P xs] by simp
  then have "dropWhile P (rev zs @ [c]) = dropWhile P (rev zs) @ [c]" by (induction zs rule: rev_induct) auto
  then show ?thesis using Cons c by simp
next
  case Nil
  show ?thesis unfolding Nil by simp
qed

lemma trimDashes_idem: "trimDashes (trimDashes xs) = trimDashes xs"
  by (simp add: trimDashes_def Let_def dropWhile_ends)

lemma token_chars: "list_all tokenChar (safeOperationToken L v)"
proof -
  have "list_all tokenChar (concat (map (\<lambda>r. case r of [c] \<Rightarrow> if tokenChar c then [c] else [] | _ \<Rightarrow> []) rs))" for rs
    by (induction rs) (auto split: list.splits)
  then show ?thesis using trimDashes_set unfolding safeOperationToken_def list_all_iff by blast
qed

lemma token_of_token:
  assumes "list_all tokenChar t" shows "safeOperationToken L t = trimDashes t"
proof -
  have plain: "list_all plainChar t" "CHR '' '' \<notin> set t" using assms by (auto simp: list_all_iff tokenChar_def plainChar_def)
  have "map lowerAscii t = t" using assms by (intro map_idI) (auto simp: list_all_iff tokenChar_def lowerAscii_def)
  then have low: "toLower L t = t" by (simp add: toLower_def stringsMap_ascii [OF plain_ascii [OF plain(1)]])
  have "concat (map (\<lambda>r. case r of [c] \<Rightarrow> if tokenChar c then [c] else [] | _ \<Rightarrow> []) (map (\<lambda>c. [c]) t)) = t"
    using assms by (induction t) auto
  then show ?thesis by (simp only: safeOperationToken_def trimSpace_solid [OF plain] low go_runes_ascii [OF plain_ascii [OF plain(1)]])
qed

lemma token_again: "safeOperationToken L (safeOperationToken L v) = safeOperationToken L v"
  unfolding token_of_token [OF token_chars] by (simp add: safeOperationToken_def trimDashes_idem)

lemma sign_same: "constantTimeTokenEqual L (''hmac-sha256:'' @ x) (''hmac-sha256:'' @ x)"
proof -
  have "trimSpace (''hmac-sha256:'' @ x) \<noteq> []"
    using trimSpace_eq_Nil [of "''hmac-sha256:'' @ x"] by (simp add: isSpaceRune_def)
  then show ?thesis by (simp add: constantTimeTokenEqual_def Let_def)
qed

lemma mode_fixed: "normalizeManagedCreateMode L m \<noteq> [] \<Longrightarrow> normalizeManagedCreateMode L (normalizeManagedCreateMode L m) = normalizeManagedCreateMode L m"
proof -
  have "toLower L (trimSpace w) = w" if "w \<in> {''broker_generated'', ''operator_supplied''}" for w
  proof -
    have "list_all plainChar w" "CHR '' '' \<notin> set w" "map lowerAscii w = w" using that by (auto; code_simp)+
    then show ?thesis by (simp add: trimSpace_solid toLower_def stringsMap_ascii [OF plain_ascii])
  qed
  then show "normalizeManagedCreateMode L m \<noteq> [] \<Longrightarrow> normalizeManagedCreateMode L (normalizeManagedCreateMode L m) = normalizeManagedCreateMode L m"
    by (auto simp: normalizeManagedCreateMode_def Let_def split: if_splits)
qed

text \<open>What an accepted dry run found, and that its plan verifies for the next five minutes.\<close>

lemma create_planned:
  assumes "managedCreateDryRun L req b = ((res, None), b1)" "crPlan res = Some plan"
  obtains s where "loadStore b = Inr s" "map_of (stSecrets s) (trimSpace (cqRef req)) = None" "\<not> configuredSourceHasRef (trimSpace (cqRef req)) b"
    "\<not> buriedRef s (trimSpace (cqRef req))" "\<not> isLocked b" "validSecretRef (cqRef req)" "safeOperationToken L (cqOperationID req) \<noteq> []" "trimSpace (cqReason req) \<noteq> []"
    "normalizeManagedCreateMode L (cqGenerationMode req) \<noteq> []"
    "signManagedCreatePlan L \<lparr>cpRef = trimSpace (cqRef req), cpOperationID = safeOperationToken L (cqOperationID req),
       cpGenerationMode = normalizeManagedCreateMode L (cqGenerationMode req), cpExpectedState = ''missing'', cpExpiresAt = bNow b + managedCreatePlanTTL,
       cpSignature = []\<rparr> (bMasterKey b) = Inr plan"
proof -
  let ?res = "(baseManagedCreateResponse L req ''dry-run'')\<lparr>crRequiresConfirmation := True\<rparr>"
  have f: "managedCreateFailure L op req r oc nx e b \<noteq> ((res, None), b1)" for op r oc nx e
    using createFailure_keeps(3) [of L op req r oc nx e b] by (metis fst_conv snd_conv)
  have m: "crGenerationMode ?res = normalizeManagedCreateMode L (cqGenerationMode req)" by (simp add: baseManagedCreateResponse_def)
  have c: "validSecretRef (cqRef req)" "safeOperationToken L (cqOperationID req) \<noteq> []" "trimSpace (cqReason req) \<noteq> []"
    "normalizeManagedCreateMode L (cqGenerationMode req) \<noteq> []" "\<not> isLocked b"
    using assms(1) f m by (auto simp: managedCreateDryRun_def Let_def split: if_splits)
  obtain s where s: "loadStore b = Inr s" using assms(1) f c m by (cases "loadStore b") (auto simp: managedCreateDryRun_def Let_def)
  have n: "map_of (stSecrets s) (trimSpace (cqRef req)) = None" "\<not> configuredSourceHasRef (trimSpace (cqRef req)) b" "\<not> buriedRef s (trimSpace (cqRef req))"
    using assms(1) f c s m by (auto simp: managedCreateDryRun_def Let_def split: if_splits)
  let ?sign = "signManagedCreatePlan L \<lparr>cpRef = trimSpace (cqRef req), cpOperationID = safeOperationToken L (cqOperationID req),
       cpGenerationMode = normalizeManagedCreateMode L (cqGenerationMode req), cpExpectedState = ''missing'', cpExpiresAt = bNow b + managedCreatePlanTTL,
       cpSignature = []\<rparr> (bMasterKey b)"
  have "?sign = Inr plan"
  proof (cases ?sign)
    case (Inl e)
    then show ?thesis using assms(1) f c s n m by (simp add: managedCreateDryRun_def Let_def)
  next
    case (Inr p)
    then show ?thesis using assms c s n m
      by (cases "fst (requireManagedCreateAudit L ''management_create_dry_run'' req ''dry_run_ready'' b)")
         (auto simp: managedCreateDryRun_def Let_def managedCreateFailureWithoutAudit_def)
  qed
  then show ?thesis using that s n c by blast
qed

lemma planned_verifies:
  assumes "signManagedCreatePlan L \<lparr>cpRef = trimSpace r, cpOperationID = safeOperationToken L op, cpGenerationMode = normalizeManagedCreateMode L m,
      cpExpectedState = ''missing'', cpExpiresAt = expiry, cpSignature = []\<rparr> key = Inr plan"
    and "validSecretRef r" "safeOperationToken L op \<noteq> []" "normalizeManagedCreateMode L m \<noteq> []" "now < expiry"
  shows "verifyManagedCreatePlan L plan key now = None" "cpRef plan = trimSpace r" "cpOperationID plan = safeOperationToken L op"
    "cpGenerationMode plan = normalizeManagedCreateMode L m" "cpExpectedState plan = ''missing''"
proof -
  have v: "validSecretRef (trimSpace r)" using assms(2) by (simp add: validSecretRef_def)
  show "verifyManagedCreatePlan L plan key now = None" "cpRef plan = trimSpace r" "cpOperationID plan = safeOperationToken L op"
    "cpGenerationMode plan = normalizeManagedCreateMode L m" "cpExpectedState plan = ''missing''"
    using assms v mode_fixed [OF assms(4)] sign_same [of L]
    by (auto simp: signManagedCreatePlan_def verifyManagedCreatePlan_def token_again split: if_splits)
qed

definition createdValue :: "'z golib_scheme \<Rightarrow> managedCreatePlan \<Rightarrow> managedCreateRequest \<Rightarrow> string" where
  "createdValue L plan req = (if cpGenerationMode plan = ''broker_generated'' then b64RawURLEncode L (replicate 32 (CHR 0x00)) else cqValue req)"

lemma value_faultless:
  assumes "bRandom b = []"
  shows "fst (valueFor L plan (cqValue req) b) = Inr (createdValue L plan req)" "bRandom (snd (valueFor L plan (cqValue req) b)) = []"
  using assms by (simp_all add: valueFor_def createdValue_def generateManagedSecretValue_def)

lemma createSecret_runs:
  assumes "bRandom b = []" "bSaveFaults b = []"
  shows "snd (fst (createSecret L req plan res s b)) = None"
    "\<exists>p. fst (encrypt L (createdValue L plan req) (snd (valueFor L plan (cqValue req) b))) = Inr p
       \<and> bDisk (snd (createSecret L req plan res s b)) = Stored (createdStore L plan p (bNow b) s)
       \<and> bMasterKey (snd (createSecret L req plan res s b)) = bMasterKey b"
proof -
  note v = value_faultless [OF assms(1), where L = L and plan = plan and req = req]
  let ?v = "snd (valueFor L plan (cqValue req) b)"
  obtain p where p: "fst (encrypt L (createdValue L plan req) ?v) = Inr p" using encrypt_faultless(1) [OF v(2), of L] by blast
  let ?b = "snd (encrypt L (createdValue L plan req) ?v)"
  have w: "fst (saveStore (createdStore L plan p (bNow b) s) ?b) = None" using assms(2) by (simp add: save_faultless)
  show "snd (fst (createSecret L req plan res s b)) = None"
    "\<exists>p. fst (encrypt L (createdValue L plan req) ?v) = Inr p
       \<and> bDisk (snd (createSecret L req plan res s b)) = Stored (createdStore L plan p (bNow b) s)
       \<and> bMasterKey (snd (createSecret L req plan res s b)) = bMasterKey b"
    using v p w save_disk(1) [OF w] by (simp_all add: createSecret_def)
qed


subsection \<open>A concrete run\<close>

lemma managed_audits_ready:
  assumes "lib_ok L" "ready L b" "trimSpace (bAuditPath b) \<noteq> []"
  shows "list_all ascii [op, cqRef creq, oc, cqServiceID creq, cqRequestID creq] \<Longrightarrow>
      fst (requireManagedCreateAudit L op creq oc b) = None"
    and "list_all ascii [op, dqRef dreq, ''ready'', dqServiceID dreq, dqRequestID dreq] \<Longrightarrow>
      fst (requireDecommissionAudit L op dreq b) = None \<and> ready L (snd (requireDecommissionAudit L op dreq b))"
  using audit_ready [OF assms(1,2)] assms(3)
  by (simp_all add: requireManagedCreateAudit_def requireDecommissionAudit_def)

definition demoVault :: backend where
  "demoVault = demoBackend\<lparr>bDisk := Stored demoStoreFile\<rparr>"

lemma demo_vault:
  "ready toy_lib demoVault" "loadStore demoVault = Inr demoStoreFile" "\<not> isLocked demoVault" "bNow demoVault = 3" "bSources demoVault = []" "bRandom demoVault = []"
  "bSaveFaults demoVault = []" "trimSpace (bAuditPath demoVault) \<noteq> []" "bMasterKey demoVault = ''master''" "labelled (bDisk demoVault)" "apart (storeShelves (bDisk demoVault))"
proof -
  have k: "trimSpace ''master'' \<noteq> []" "trimSpace ''audit.jsonl'' \<noteq> []" "scFailed (scanChain toy_lib (readAuditEvents toy_lib [])) = 0" by code_simp+
  have f: "bAuditPath demoVault = ''audit.jsonl''" "bAuditFaults demoVault = []" "\<not> bAuditTorn demoVault" "bAuditLog demoVault = []" "bMasterKey demoVault = ''master''"
    "bNow demoVault = 3" "bSources demoVault = []" "bRandom demoVault = []" "bSaveFaults demoVault = []" "bDisk demoVault = Stored demoStoreFile"
    by (simp_all add: demoVault_def demoBackend_def demoLock_def demoAudit_def lockState.defs auditState.defs)
  show "ready toy_lib demoVault" "loadStore demoVault = Inr demoStoreFile" "\<not> isLocked demoVault" "trimSpace (bAuditPath demoVault) \<noteq> []"
    using f k by (simp_all add: ready_def auditCalm_def faultless_def isLocked_def loadStore_def)
  show "bNow demoVault = 3" "bSources demoVault = []" "bRandom demoVault = []" "bSaveFaults demoVault = []" "bMasterKey demoVault = ''master''" using f by simp_all
  show "labelled (bDisk demoVault)" "apart (storeShelves (bDisk demoVault))"
    using f by (simp_all add: labelled_def tombstonesOf_def apart_def storeShelves_def demoStoreFile_def freshStore_def)
qed

definition buryPlan :: decommissionPlan where
  "buryPlan = \<lparr>dpRef = ''services/api/db'', dpOperationID = ''op-1'', dpExpectedVersion = ''v0'', dpDependencyStatus = ''clear'', dpDependencySnapshot = ''sha256:00'',
     dpExpiresAt = 9, dpSignature = ''hmac-sha256:'' @ b64RawURLEncode toy_lib (hmacSHA256 toy_lib (''service-lasso:decommission-plan:v1:master'')
       (decommissionPlanJSON toy_lib \<lparr>dpRef = ''services/api/db'', dpOperationID = ''op-1'', dpExpectedVersion = ''v0'', dpDependencyStatus = ''clear'',
         dpDependencySnapshot = ''sha256:00'', dpExpiresAt = 9, dpSignature = []\<rparr>))\<rparr>"

definition buryRequest :: decommissionRequest where
  "buryRequest = \<lparr>dqRequestID = ''r1'', dqServiceID = ''api'', dqRef = ''services/api/db'', dqOperationID = ''op-1'', dqReason = ''unused'', dqConfirm = True,
     dqDependencyStatus = ''clear'', dqDependencySnapshot = ''sha256:00'', dqDependencies = [], dqExpectedVersion = ''v0'', dqPlan = Some buryPlan\<rparr>"

definition exhumeRequest :: decommissionRequest where
  "exhumeRequest = buryRequest\<lparr>dqOperationID := ''op-2'', dqReason := ''needed'', dqPlan := None\<rparr>"

lemma bury_values:
  "validSecretRef ''services/api/db''" "trimSpace ''services/api/db'' = ''services/api/db''" "trimSpace ''unused'' \<noteq> []" "trimSpace ''needed'' \<noteq> []"
  "safeOperationToken toy_lib ''op-1'' = ''op-1''" "safeOperationToken toy_lib ''op-2'' = ''op-2''" "trimSpace ''v0'' = ''v0''" "trimSpace ''op-1'' \<noteq> []"
  "trimSpace ''sha256:00'' \<noteq> []" "trimSpace ''master'' \<noteq> []"
  by code_simp+

lemma demo_buried: "snd (fst (decommissionApply toy_lib buryRequest demoVault)) = None" "dqPlan buryRequest = Some buryPlan"
  "ready toy_lib (snd (decommissionApply toy_lib buryRequest demoVault))"
proof -
  have f: "dqRef buryRequest = ''services/api/db''" "dqConfirm buryRequest" "dqReason buryRequest = ''unused''" "dqOperationID buryRequest = ''op-1''"
    "dqServiceID buryRequest = ''api''" "dqRequestID buryRequest = ''r1''" by (simp_all add: buryRequest_def)
  show p: "dqPlan buryRequest = Some buryPlan" by (simp add: buryRequest_def)
  have sign: "signDecommissionPlan toy_lib buryPlan ''master'' = Inr buryPlan" using bury_values(10) by (simp add: signDecommissionPlan_def buryPlan_def)
  have "trimSpace (dpSignature buryPlan) \<noteq> []"
    using sign_same [of toy_lib "b64RawURLEncode toy_lib (hmacSHA256 toy_lib (''service-lasso:decommission-plan:v1:master'')
       (decommissionPlanJSON toy_lib (buryPlan\<lparr>dpSignature := []\<rparr>)))"] by (auto simp: constantTimeTokenEqual_def Let_def buryPlan_def split: if_splits)
  moreover have "constantTimeTokenEqual toy_lib (dpSignature buryPlan) (dpSignature buryPlan)" using sign_same by (simp only: buryPlan_def decommissionPlan.select_convs)
  moreover have pf: "dpRef buryPlan = ''services/api/db''" "dpOperationID buryPlan = ''op-1''" "dpExpectedVersion buryPlan = ''v0''" "dpDependencyStatus buryPlan = ''clear''"
    "dpDependencySnapshot buryPlan = ''sha256:00''" "dpExpiresAt buryPlan = 9" by (simp_all add: buryPlan_def)
  ultimately have v: "verifyDecommissionPlan toy_lib buryPlan (bMasterKey demoVault) (bNow demoVault) = None"
    using sign bury_values by (simp add: verifyDecommissionPlan_def demo_vault(4,9))
  have s: "map_of (stTombstones demoStoreFile) x = None" "map_of (stSecrets demoStoreFile) ''services/api/db'' = Some demoSecret"
    "smVersion (seMetadata demoSecret) = ''v0''" for x by (simp_all add: demoStoreFile_def freshStore_def demoSecret_def)
  have a: "fst (requireDecommissionAudit toy_lib ''management_decommission_apply'' buryRequest demoVault) = None"
    by (rule managed_audits_ready(2) [OF toy_lib_ok demo_vault(1,8), THEN conjunct1]) (simp add: f ascii_def)
  have w: "fst (saveStore x (snd (requireDecommissionAudit toy_lib ''management_decommission_apply'' buryRequest demoVault))) = None" for x
    by (simp add: save_faultless demo_vault(7))
  have r: "ready toy_lib (audit_ignored toy_lib ''management_decommission_apply'' ''services/api/db'' ''applied'' ''api'' ''r1''
      (snd (saveStore x (snd (requireDecommissionAudit toy_lib ''management_decommission_apply'' buryRequest demoVault)))))" for x
    unfolding audit_ignored_def
    by (intro audit_ready(2) [OF toy_lib_ok] save_ready managed_audits_ready(2) [OF toy_lib_ok demo_vault(1,8), THEN conjunct2]) (simp_all add: f ascii_def)
  show "snd (fst (decommissionApply toy_lib buryRequest demoVault)) = None" "ready toy_lib (snd (decommissionApply toy_lib buryRequest demoVault))"
    using v p f pf s a w r bury_values demo_vault(2,3) by (simp_all add: decommissionApply_def bury_def Let_def)
qed

lemma demo_vault_opens: "vault toy_lib demoVault ''services/api/db'' = Some ''old''"
  using demo_decrypt [OF demo_vault(9)] by (simp add: vault_def demoVault_def secretsOf_def demoStoreFile_def)

theorem managed_operations_refine_witness:
  "vault toy_lib (fold (managedRun toy_lib) [Passes 4 [SavePublishedFails] [], Bury buryRequest, Exhume exhumeRequest] demoVault) ''services/api/db'' = Some ''old''
   \<or> (\<exists>e. snd (storeShelves (bDisk (fold (managedRun toy_lib) [Passes 4 [SavePublishedFails] [], Bury buryRequest, Exhume exhumeRequest] demoVault))) ''services/api/db'' = Some e
        \<and> decrypt toy_lib (fold (managedRun toy_lib) [Passes 4 [SavePublishedFails] [], Bury buryRequest, Exhume exhumeRequest] demoVault) (sePayload e) = Inr ''old'')"
  using managed_operations_refine [OF demo_vault(10,11) refl, of toy_lib "[Passes 4 [SavePublishedFails] [], Bury buryRequest, Exhume exhumeRequest]"]
    demo_vault_opens by blast

theorem decommission_roundtrip_witness:
  "\<exists>res b1. decommissionApply toy_lib buryRequest demoVault = ((res, None), b1) \<and> vault toy_lib b1 ''services/api/db'' = None
     \<and> vault toy_lib (snd (decommissionRestore toy_lib exhumeRequest b1)) ''services/api/db'' = Some ''old''"
proof -
  obtain res b1 where a: "decommissionApply toy_lib buryRequest demoVault = ((res, None), b1)" using demo_buried(1) by (metis prod.collapse)
  have g: "snd (storeShelves (bDisk demoVault)) (trimSpace (dqRef buryRequest)) = None"
    using shelves_at(2) [OF demo_vault(2)] by (simp add: demoStoreFile_def freshStore_def)
  have f: "dqRef exhumeRequest = ''services/api/db''" "dqRef buryRequest = ''services/api/db''" "dqConfirm exhumeRequest" "dqReason exhumeRequest = ''needed''"
    "dqOperationID exhumeRequest = ''op-2''" "dqServiceID exhumeRequest = ''api''" "dqRequestID exhumeRequest = ''r1''" "dqExpectedVersion exhumeRequest = ''v0''"
    by (simp_all add: exhumeRequest_def buryRequest_def)
  have r: "ready toy_lib b1" using demo_buried(3) a by simp
  then have c: "trimSpace (bAuditPath b1) \<noteq> []" "bSaveFaults b1 = []" by (simp_all add: ready_def auditCalm_def faultless_def)
  have "fst (requireDecommissionAudit toy_lib ''management_decommission_restore'' exhumeRequest b1) = None"
    by (rule managed_audits_ready(2) [OF toy_lib_ok r c(1), THEN conjunct1]) (simp add: f ascii_def)
  from decommission_roundtrip [OF a g _ _ _ _ _ demo_buried(2) _ this c(2)]
  have "vault toy_lib b1 = (vault toy_lib demoVault)(''services/api/db'' := None)
      \<and> vault toy_lib (snd (decommissionRestore toy_lib exhumeRequest b1)) = vault toy_lib demoVault"
    using bury_values f by (simp add: buryPlan_def)
  then show ?thesis using a demo_vault_opens by auto
qed

definition newRequest :: managedCreateRequest where
  "newRequest = \<lparr>cqRequestID = ''r1'', cqServiceID = ''api'', cqRef = ''services/api/new'', cqOperationID = ''op-1'', cqGenerationMode = ''broker_generated'',
     cqReason = ''unused'', cqValue = [], cqConfirm = False, cqPlan = None\<rparr>"


subsection \<open>A ref that came back\<close>

text \<open>
  The other writes (capture, import, rotation) do not look at the tombstones. A ref that is written again while its tombstone is
  \<open>decommissioned\<close> is on both shelves, and then it can be neither decommissioned with a fresh plan nor restored.
\<close>

lemma reborn_ref_stuck:
  assumes "loadStore b = Inr s" "map_of (stTombstones s) r = Some t" "tsState t = ''decommissioned''" "tsRef t = r" "map_of (stSecrets s) r = Some e"
    and "trimSpace (dqRef req) = r" "dqPlan req = Some plan" "dpOperationID plan \<noteq> tsDecommissionID t"
  shows "snd (fst (decommissionApply L req b)) \<noteq> None" "snd (fst (decommissionRestore L req b)) \<noteq> None"
proof -
  show "snd (fst (decommissionApply L req b)) \<noteq> None"
    using assms by (auto simp: decommissionApply_def Let_def)
  show "snd (fst (decommissionRestore L req b)) \<noteq> None"
    using assms by (auto simp: decommissionRestore_def Let_def)
qed

end
