(* ===== verification/Source_Registry.thy ===== *)
theory Source_Registry
  imports Local_Store
begin

text \<open>
  The external sources as operators see them: the contracts of the adapters (\<open>adapter_contract.go\<close>), when a
  migration executor can be built for a source (the constructors of \<open>vault_kv_executor.go\<close> and
  \<open>aws_secrets_manager_executor.go\<close>), and the state of every source (\<open>source_registry.go\<close>,
  \<open>source_config_security.go\<close>). \<open>registryIO\<close> adds to the environment what the constructors call: the URL parser,
  the test for a loopback address, and whether an HTTP client with the configured trust roots can be built.
\<close>

unbundle bit_operations_syntax

subsection \<open>Adapter contracts\<close>

datatype AdapterCapability = CapRead | CapReveal | CapWrite | CapRotate | CapPolicy | CapValueSearch | CapAudit | CapMigration

primrec adapterCapabilityName :: "AdapterCapability \<Rightarrow> string" where
  "adapterCapabilityName CapRead = ''read''"
| "adapterCapabilityName CapReveal = ''reveal''"
| "adapterCapabilityName CapWrite = ''write/update''"
| "adapterCapabilityName CapRotate = ''rotate/reset''"
| "adapterCapabilityName CapPolicy = ''policy''"
| "adapterCapabilityName CapValueSearch = ''value-search''"
| "adapterCapabilityName CapAudit = ''audit''"
| "adapterCapabilityName CapMigration = ''migration''"

datatype AdapterAuthModel = AuthLocalKey | AuthToken | AuthExternalCLI | AuthProcess | AuthFilesystem | AuthEnvironment
  | AuthNotApplicable

datatype AdapterFailureState = FailLocked | FailAuthRequired | FailIdentityExpired | FailPolicyDenied | FailMissingRef
  | FailSourceUnavailable | FailDegraded | FailInvalidMapping

record AdapterDiagnosticsSpec =
  asSecretSafeFields :: "string list"
  asForbiddenFields :: "string list"

record AdapterContract =
  acKind :: string
  acDisplayName :: string
  acCapabilities :: "AdapterCapability list"
  acAuthModel :: AdapterAuthModel
  acReconnectModel :: string
  acFailureStates :: "AdapterFailureState list"
  acDefaultTimeoutMs :: int
  acMaxOutputBytes :: int
  acDiagnostics :: AdapterDiagnosticsSpec
  acFixturePolicy :: string
  acFollowUpIssueHint :: string

record AdapterDiagnostic =
  adKind :: string
  adSourceID :: string
  adRef :: string
  adState :: string
  adOutcome :: string
  adNextAction :: string
  adRetryable :: bool
  adRetryAfterMs :: int
  adCapability :: AdapterCapability
  adMessageCode :: string

definition defaultAdapterDiagnosticsSpec :: AdapterDiagnosticsSpec where
  "defaultAdapterDiagnosticsSpec =
     \<lparr>asSecretSafeFields = [''kind'', ''sourceId'', ''ref'', ''state'', ''outcome'', ''nextAction'', ''retryable'', ''retryAfterMs'',
        ''capability'', ''messageCode''],
      asForbiddenFields = [''value'', ''secret'', ''token'', ''password'', ''privateKey'', ''credential'', ''rawOutput'', ''stdout'', ''stderr'']\<rparr>"

definition externalAdapterContracts :: "AdapterContract list" where
  "externalAdapterContracts = [
     \<lparr>acKind = ''local-encrypted-store'', acDisplayName = ''Local encrypted store'',
      acCapabilities = [CapRead, CapReveal, CapWrite, CapRotate, CapAudit, CapMigration],
      acAuthModel = AuthLocalKey, acReconnectModel = ''unlock portable master key or rewrap local store; never expose key material in diagnostics'',
      acFailureStates = [FailLocked, FailMissingRef, FailPolicyDenied, FailDegraded],
      acDefaultTimeoutMs = 1000, acMaxOutputBytes = 0, acDiagnostics = defaultAdapterDiagnosticsSpec,
      acFixturePolicy = ''fake deterministic values only; no live key material or provider tokens'', acFollowUpIssueHint = ''local encrypted store baseline''\<rparr>,
     \<lparr>acKind = ''vault-openbao'', acDisplayName = ''Vault/OpenBao'',
      acCapabilities = [CapRead, CapReveal, CapWrite, CapRotate, CapPolicy, CapAudit, CapMigration],
      acAuthModel = AuthToken, acReconnectModel = ''refresh or reissue token; sealed backends require unseal outside Service Lasso'',
      acFailureStates = [FailAuthRequired, FailLocked, FailPolicyDenied, FailMissingRef, FailSourceUnavailable, FailDegraded, FailInvalidMapping],
      acDefaultTimeoutMs = 3000, acMaxOutputBytes = 65536, acDiagnostics = defaultAdapterDiagnosticsSpec,
      acFixturePolicy = ''httptest JSON fixtures with fake values only; assert diagnostics omit response values and tokens'', acFollowUpIssueHint = ''Vault/OpenBao adapter''\<rparr>,
     \<lparr>acKind = ''aws-secrets-manager'', acDisplayName = ''AWS Secrets Manager'',
      acCapabilities = [CapRead, CapReveal, CapWrite, CapRotate, CapPolicy, CapValueSearch, CapAudit, CapMigration],
      acAuthModel = AuthToken, acReconnectModel = ''refresh AWS identity or profile/session; report account/region metadata only'',
      acFailureStates = [FailAuthRequired, FailIdentityExpired, FailPolicyDenied, FailMissingRef, FailSourceUnavailable, FailDegraded, FailInvalidMapping],
      acDefaultTimeoutMs = 5000, acMaxOutputBytes = 65536, acDiagnostics = defaultAdapterDiagnosticsSpec,
      acFixturePolicy = ''mock SDK responses with fake secret strings only; scrub request/response logs'', acFollowUpIssueHint = ''AWS Secrets Manager adapter''\<rparr>,
     \<lparr>acKind = ''onepassword-cli'', acDisplayName = ''1Password CLI'',
      acCapabilities = [CapRead, CapReveal, CapAudit, CapMigration],
      acAuthModel = AuthExternalCLI, acReconnectModel = ''operator signs in or refreshes CLI session outside durable logs'',
      acFailureStates = [FailAuthRequired, FailIdentityExpired, FailPolicyDenied, FailMissingRef, FailSourceUnavailable, FailInvalidMapping],
      acDefaultTimeoutMs = 5000, acMaxOutputBytes = 32768, acDiagnostics = defaultAdapterDiagnosticsSpec,
      acFixturePolicy = ''fake CLI executable/output protocol only; never run with real account data in tests'', acFollowUpIssueHint = ''1Password CLI adapter''\<rparr>,
     \<lparr>acKind = ''bitwarden-bws'', acDisplayName = ''Bitwarden/BWS'',
      acCapabilities = [CapRead, CapReveal, CapWrite, CapAudit, CapMigration],
      acAuthModel = AuthToken, acReconnectModel = ''refresh access token or unlock CLI/session; report project/vault ids only'',
      acFailureStates = [FailAuthRequired, FailIdentityExpired, FailPolicyDenied, FailMissingRef, FailSourceUnavailable, FailDegraded, FailInvalidMapping],
      acDefaultTimeoutMs = 5000, acMaxOutputBytes = 65536, acDiagnostics = defaultAdapterDiagnosticsSpec,
      acFixturePolicy = ''fake API/CLI fixtures only; assert token and value strings are absent from diagnostics'', acFollowUpIssueHint = ''Bitwarden/BWS adapter''\<rparr>,
     \<lparr>acKind = ''env'', acDisplayName = ''Environment source'',
      acCapabilities = [CapRead, CapReveal, CapMigration],
      acAuthModel = AuthEnvironment, acReconnectModel = ''restart or reconfigure broker process with required environment variables'',
      acFailureStates = [FailMissingRef, FailSourceUnavailable, FailInvalidMapping],
      acDefaultTimeoutMs = 0, acMaxOutputBytes = 0, acDiagnostics = defaultAdapterDiagnosticsSpec,
      acFixturePolicy = ''test-only environment variables with fake values; diagnostics may include env names only'', acFollowUpIssueHint = ''env source adapter''\<rparr>,
     \<lparr>acKind = ''file'', acDisplayName = ''File source'',
      acCapabilities = [CapRead, CapReveal, CapMigration],
      acAuthModel = AuthFilesystem, acReconnectModel = ''fix file path, permissions, mount state, or allowlist policy'',
      acFailureStates = [FailPolicyDenied, FailMissingRef, FailSourceUnavailable, FailInvalidMapping],
      acDefaultTimeoutMs = 0, acMaxOutputBytes = 65536, acDiagnostics = defaultAdapterDiagnosticsSpec,
      acFixturePolicy = ''temporary files containing fake values only; report path metadata without contents'', acFollowUpIssueHint = ''file source adapter''\<rparr>,
     \<lparr>acKind = ''exec'', acDisplayName = ''Exec source'',
      acCapabilities = [CapRead, CapReveal, CapAudit, CapMigration],
      acAuthModel = AuthProcess, acReconnectModel = ''repair trusted command, timeout, output protocol, or external auth backing the command'',
      acFailureStates = [FailAuthRequired, FailPolicyDenied, FailMissingRef, FailSourceUnavailable, FailInvalidMapping],
      acDefaultTimeoutMs = 2000, acMaxOutputBytes = 4096, acDiagnostics = defaultAdapterDiagnosticsSpec,
      acFixturePolicy = ''trusted fake executable only; stdout value is consumed but never echoed in diagnostics'', acFollowUpIssueHint = ''exec source adapter''\<rparr>]"

definition adapterContractsByKind :: "AdapterContract gomap" where
  "adapterContractsByKind =
     (let contracts = fold (\<lambda>c m. AList.update (acKind c) c m) externalAdapterContracts [] in
      case map_of contracts ''vault-openbao'' of None \<Rightarrow> contracts
      | Some contract \<Rightarrow> AList.update ''openbao'' contract (AList.update ''vault'' contract contracts))"

definition adapterContractForKind :: "'z golib_scheme \<Rightarrow> string \<Rightarrow> AdapterContract option" where
  "adapterContractForKind L kind = map_of adapterContractsByKind (toLower L (trimSpace kind))"

definition adapterCapabilityNames :: "AdapterCapability list \<Rightarrow> string list" where
  "adapterCapabilityNames capabilities = map adapterCapabilityName capabilities"

definition adapterHasCapability :: "AdapterContract \<Rightarrow> AdapterCapability \<Rightarrow> bool" where
  "adapterHasCapability contract capability = list_ex (\<lambda>candidate. candidate = capability) (acCapabilities contract)"

definition buildAdapterDiagnostic ::
  "'z golib_scheme \<Rightarrow> sourceConfig \<Rightarrow> string \<Rightarrow> AdapterCapability \<Rightarrow> SourceLifecycle \<Rightarrow> AdapterDiagnostic" where
  "buildAdapterDiagnostic L source ref capability lifecycle =
     \<lparr>adKind = toLower L (trimSpace (cfKind source)), adSourceID = cfSourceID source, adRef = ref, adState = slState lifecycle,
      adOutcome = slOutcome lifecycle, adNextAction = slNextAction lifecycle, adRetryable = slRetryable lifecycle,
      adRetryAfterMs = slRetryAfterMs lifecycle, adCapability = capability, adMessageCode = slOutcome lifecycle\<rparr>"

subsection \<open>Migration executors\<close>

text \<open>What the code reads of a \<open>url.URL\<close>.\<close>

record parsedURL =
  puScheme :: string
  puHost :: string
  puHostname :: string
  puHasUser :: bool
  puPath :: string
  puRawQuery :: string
  puFragment :: string

record registryIO = sourceIO +
  parseURL :: "string \<Rightarrow> parsedURL option"
  isLoopbackIP :: "string \<Rightarrow> bool"
  httpClientBuilds :: "bool \<Rightarrow> bool"

text \<open>The token or the credentials of a source, from its configuration and the environment.\<close>

definition sourceToken :: "registryIO \<Rightarrow> sourceConfig \<Rightarrow> string" where
  "sourceToken io source = trimSpace (firstNonEmpty (cfToken source) (getenv io (cfTokenEnv source)))"

definition loopbackHost :: "'z golib_scheme \<Rightarrow> registryIO \<Rightarrow> string \<Rightarrow> bool" where
  "loopbackHost L io host = (equalFold L (trimSpace host) ''localhost'' \<or> isLoopbackIP io (trimSpace host))"

definition validatedBaseURL :: "'z golib_scheme \<Rightarrow> registryIO \<Rightarrow> string \<Rightarrow> parsedURL option" where
  "validatedBaseURL L io address =
     (case parseURL io address of None \<Rightarrow> None
      | Some p \<Rightarrow>
          if (puScheme p \<noteq> ''http'' \<and> puScheme p \<noteq> ''https'') \<or> puHostname p = [] \<or> puHasUser p \<or> (puPath p \<noteq> [] \<and> puPath p \<noteq> ''/'')
             \<or> puRawQuery p \<noteq> [] \<or> puFragment p \<noteq> [] then None
          else if puScheme p = ''http'' \<and> \<not> loopbackHost L io (puHostname p) then None
          else Some p)"

definition validatedVaultKVBaseURL :: "'z golib_scheme \<Rightarrow> registryIO \<Rightarrow> string \<Rightarrow> parsedURL option" where
  "validatedVaultKVBaseURL L io address =
     map_option (\<lambda>p. p\<lparr>puPath := []\<rparr>) (validatedBaseURL L io (trimSpace address))"

definition validVaultKVMapping :: "sourceRefConfig \<Rightarrow> bool" where
  "validVaultKVMapping mapping =
     (let path = trimSlash (trimSpace (rcPath mapping)); field = trimSpace (rcField mapping) in
      if path = [] \<or> length path > 2048 \<or> field = [] \<or> length field > 256 \<or> containsAny path [CHR 0x5C, CHR ''?'', CHR ''#'', CHR ''%'']
         \<or> containsAny field [CHR 0x0D, CHR 0x0A] then False
      else if \<not> list_all (\<lambda>segment. \<not> (segment = [] \<or> segment = ''.'' \<or> segment = ''..'')) (splitOn (CHR ''/'') path) then False
      else containsStr (''/'' @ path @ ''/'') ''/data/'')"

definition vaultExecutorValid :: "'z golib_scheme \<Rightarrow> registryIO \<Rightarrow> sourceConfig \<Rightarrow> bool" where
  "vaultExecutorValid L io source =
     (let kind = toLower L (trimSpace (cfKind source)) in
      if \<not> cfEnabled source \<or> \<not> cfEnableMigrationTarget source \<or> (kind \<noteq> ''vault'' \<and> kind \<noteq> ''openbao'') then False
      else if validatedVaultKVBaseURL L io (cfAddress source) = None then False
      else if sourceToken io source = [] then False
      else if cfRefs source = [] then False
      else if \<not> list_all (\<lambda>(ref, mapping). validSecretRef ref \<and> validVaultKVMapping mapping) (cfRefs source) then False
      else httpClientBuilds io (cfProduction source))"

definition envNameStart :: "char \<Rightarrow> bool" where
  "envNameStart c \<longleftrightarrow> (CHR ''A'' \<le> c \<and> c \<le> CHR ''Z'') \<or> (CHR ''a'' \<le> c \<and> c \<le> CHR ''z'') \<or> c = CHR ''_''"

text \<open>The pattern \<open>^[A-Za-z_][A-Za-z0-9_]*$\<close>\<close>

definition awsEnvironmentName :: "string \<Rightarrow> bool" where
  "awsEnvironmentName s =
     (case s of [] \<Rightarrow> False
      | c # cs \<Rightarrow> envNameStart c \<and> list_all (\<lambda>d. envNameStart d \<or> (CHR ''0'' \<le> d \<and> d \<le> CHR ''9'')) cs)"

definition awsSecretsManagerCredentialHandlesConfigured :: "sourceConfig \<Rightarrow> bool" where
  "awsSecretsManagerCredentialHandlesConfigured source \<longleftrightarrow>
     awsEnvironmentName (trimSpace (cfAccessKeyIDEnv source)) \<and> awsEnvironmentName (trimSpace (cfSecretAccessKeyEnv source))
     \<and> (trimSpace (cfSessionTokenEnv source) = [] \<or> awsEnvironmentName (trimSpace (cfSessionTokenEnv source)))"

record awsSecretsManagerCredentials =
  wcAccessKeyID :: string
  wcSecretAccessKey :: string
  wcSessionToken :: string

definition awsSecretsManagerCredentialsFromEnvironment :: "registryIO \<Rightarrow> sourceConfig \<Rightarrow> awsSecretsManagerCredentials" where
  "awsSecretsManagerCredentialsFromEnvironment io source =
     \<lparr>wcAccessKeyID = trimSpace (getenv io (trimSpace (cfAccessKeyIDEnv source))),
      wcSecretAccessKey = trimSpace (getenv io (trimSpace (cfSecretAccessKeyEnv source))),
      wcSessionToken = trimSpace (getenv io (trimSpace (cfSessionTokenEnv source)))\<rparr>"

definition awsSecretsManagerCredentialsAvailable :: "registryIO \<Rightarrow> sourceConfig \<Rightarrow> bool" where
  "awsSecretsManagerCredentialsAvailable io source =
     (let credentials = awsSecretsManagerCredentialsFromEnvironment io source in
      wcAccessKeyID credentials \<noteq> [] \<and> wcSecretAccessKey credentials \<noteq> [])"

definition validAWSSecretsManagerRegion :: "string \<Rightarrow> bool" where
  "validAWSSecretsManagerRegion region0 =
     (let region = trimSpace region0 in
      if length region < 3 \<or> length region > 64 then False
      else if \<not> list_all (\<lambda>c. (CHR ''a'' \<le> c \<and> c \<le> CHR ''z'') \<or> (CHR ''0'' \<le> c \<and> c \<le> CHR ''9'') \<or> c = CHR ''-'') region then False
      else \<not> hasPrefix region ''-'' \<and> \<not> hasSuffix region ''-'')"

definition validatedAWSSecretsManagerEndpoint :: "'z golib_scheme \<Rightarrow> registryIO \<Rightarrow> sourceConfig \<Rightarrow> parsedURL option" where
  "validatedAWSSecretsManagerEndpoint L io source =
     (let address = orDefault (trimSpace (cfAddress source)) (''https://secretsmanager.'' @ trimSpace (cfRegion source) @ ''.amazonaws.com'') in
      map_option (\<lambda>p. p\<lparr>puPath := ''/''\<rparr>) (validatedBaseURL L io address))"

definition printable :: "string \<Rightarrow> bool" where
  "printable s = list_all (\<lambda>c. \<not> ((of_char c :: nat) < 0x20 \<or> c = CHR 0x7F)) s"

definition validAWSSecretsManagerMigrationMapping :: "sourceRefConfig \<Rightarrow> bool" where
  "validAWSSecretsManagerMigrationMapping mapping =
     (let path = trimSpace (rcPath mapping); field = trimSpace (rcField mapping); stage = trimSpace (rcVersionStage mapping) in
      if path = [] \<or> length path > 2048 \<or> length field > 256 \<or> trimSpace (rcVersionID mapping) \<noteq> [] then False
      else if stage \<noteq> [] \<and> stage \<noteq> ''AWSCURRENT'' then False
      else printable path \<and> printable field)"

definition awsExecutorValid :: "'z golib_scheme \<Rightarrow> registryIO \<Rightarrow> sourceConfig \<Rightarrow> bool" where
  "awsExecutorValid L io source =
     (if \<not> cfEnabled source \<or> \<not> cfEnableMigrationTarget source \<or> \<not> equalFold L (trimSpace (cfKind source)) ''aws-secrets-manager'' then False
      else if \<not> validAWSSecretsManagerRegion (cfRegion source) then False
      else if validatedAWSSecretsManagerEndpoint L io source = None then False
      else if \<not> awsSecretsManagerCredentialHandlesConfigured source \<or> \<not> awsSecretsManagerCredentialsAvailable io source then False
      else if cfRefs source = [] then False
      else if \<not> list_all (\<lambda>(ref, mapping). validSecretRef ref \<and> validAWSSecretsManagerMigrationMapping mapping) (cfRefs source) then False
      else httpClientBuilds io (cfProduction source))"


subsection \<open>The state of a source\<close>

definition sourceHasCommandMapping :: "sourceConfig \<Rightarrow> bool" where
  "sourceHasCommandMapping source = list_ex (\<lambda>(_, ref). trimSpace (rcCommand ref) \<noteq> []) (cfRefs source)"

definition sourceRegistryLifecycle :: "'z golib_scheme \<Rightarrow> registryIO \<Rightarrow> sourceConfig \<Rightarrow> SourceLifecycle" where
  "sourceRegistryLifecycle L io source =
     (if \<not> cfEnabled source then disabledSourceLifecycle
      else
        let kind = toLower L (trimSpace (cfKind source)) in
        if kind \<in> {''env'', ''file'', ''exec''} then
          (if cfRefs source = [] then normalizeSourceLifecycle ''missing_ref'' else normalizeSourceLifecycle ''ready'')
        else if kind = ''onepassword-cli'' then
          (if cfRefs source = [] then normalizeSourceLifecycle ''missing_ref''
           else if \<not> sourceHasCommandMapping source then normalizeSourceLifecycle ''invalid_ref''
           else normalizeSourceLifecycle ''ready'')
        else if kind \<in> {''vault'', ''openbao''} then
          (if trimSpace (cfAddress source) = [] then normalizeSourceLifecycle ''invalid_ref''
           else if sourceToken io source = [] then normalizeSourceLifecycle ''source_auth_required''
           else if cfEnableMigrationTarget source \<and> \<not> vaultExecutorValid L io source then normalizeSourceLifecycle ''invalid_ref''
           else normalizeSourceLifecycle ''ready'')
        else if kind = ''bitwarden-bws'' then
          (if cfRefs source = [] then normalizeSourceLifecycle ''missing_ref''
           else if trimSpace (cfAddress source) = [] \<and> \<not> sourceHasCommandMapping source then normalizeSourceLifecycle ''invalid_ref''
           else if sourceToken io source = [] then normalizeSourceLifecycle ''source_auth_required''
           else normalizeSourceLifecycle ''ready'')
        else if kind = ''aws-secrets-manager'' then
          (if cfRefs source = [] then normalizeSourceLifecycle ''missing_ref''
           else if trimSpace (cfAddress source) = [] \<and> trimSpace (cfRegion source) = [] then normalizeSourceLifecycle ''invalid_ref''
           else if cfEnableMigrationTarget source then
             (if \<not> awsSecretsManagerCredentialHandlesConfigured source \<or> \<not> awsSecretsManagerCredentialsAvailable io source
              then normalizeSourceLifecycle ''source_auth_required''
              else if \<not> awsExecutorValid L io source then normalizeSourceLifecycle ''invalid_ref''
              else normalizeSourceLifecycle ''ready'')
           else if sourceToken io source = [] then normalizeSourceLifecycle ''source_auth_required''
           else normalizeSourceLifecycle ''ready'')
        else normalizeSourceLifecycle ''invalid_ref'')"

definition capabilitiesForSourceKind :: "'z golib_scheme \<Rightarrow> string \<Rightarrow> string list" where
  "capabilitiesForSourceKind L kind =
     (let known = (\<lambda>fallback. case adapterContractForKind L kind of
            Some contract \<Rightarrow> adapterCapabilityNames (acCapabilities contract) @ [''health'']
          | None \<Rightarrow> fallback);
          k = toLower L (trimSpace kind) in
      if k = ''local-encrypted-store'' then known [''read'', ''reveal'', ''write/update'', ''rotate/reset'', ''audit'', ''migration'', ''health'']
      else if k = ''exec'' then known [''read'', ''reveal'', ''audit'', ''migration'', ''health'']
      else if k = ''env'' then known [''read'', ''reveal'', ''migration'', ''health'']
      else if k = ''file'' then known [''read'', ''reveal'', ''migration'', ''health'']
      else if k = ''bitwarden-bws'' then known [''read'', ''reveal'', ''write/update'', ''audit'', ''migration'', ''health'']
      else if k = ''aws-secrets-manager'' then
        known [''read'', ''reveal'', ''write/update'', ''rotate/reset'', ''policy'', ''value-search'', ''audit'', ''migration'', ''health'']
      else if k = ''onepassword-cli'' then known [''read'', ''reveal'', ''audit'', ''migration'', ''health'']
      else if k \<in> {''vault'', ''openbao''} then
        known [''read'', ''reveal'', ''write/update'', ''rotate/reset'', ''policy'', ''audit'', ''migration'', ''health'']
      else [''health''])"

definition auditStatusForBackend :: "'m auditState_scheme \<Rightarrow> string" where
  "auditStatusForBackend b = (if trimSpace (bAuditPath b) = [] then ''audit_unavailable'' else ''audit_available'')"

subsection \<open>The permissions of the configuration file\<close>

record sourceConfigSecurity =
  scConfigured :: bool
  scChecked :: bool
  scPlatform :: string
  scPathHash :: string
  scMode :: string
  scState :: string
  scOutcome :: string
  scNextAction :: string
  scBroadReadable :: bool
  scBroadWritable :: bool

definition noSecurity :: sourceConfigSecurity where
  "noSecurity = \<lparr>scConfigured = False, scChecked = False, scPlatform = [], scPathHash = [], scMode = [], scState = [], scOutcome = [],
     scNextAction = [], scBroadReadable = False, scBroadWritable = False\<rparr>"

text \<open>The three octal digits of a permission, after a \<open>0\<close>.\<close>

definition octalDigit :: "9 word \<Rightarrow> char" where
  "octalDigit w = ''01234567'' ! unat (w AND 7)"

definition classifySourceConfigMode :: "9 word \<Rightarrow> string \<Rightarrow> sourceConfigSecurity" where
  "classifySourceConfigMode mode platform =
     (let security = noSecurity\<lparr>scMode := ''0'' @ [octalDigit (drop_bit 6 mode), octalDigit (drop_bit 3 mode), octalDigit mode],
            scState := ''protected'', scOutcome := ''ready'', scPlatform := platform\<rparr> in
      if platform = ''windows'' then
        security\<lparr>scState := ''permission_model_unverified'', scOutcome := ''not_verified'', scNextAction := ''review_os_acl''\<rparr>
      else
        let security = security\<lparr>scBroadReadable := (mode AND 36 \<noteq> 0), scBroadWritable := (mode AND 18 \<noteq> 0)\<rparr> in
        if mode AND 63 \<noteq> 0 then
          security\<lparr>scState := ''broad_access'', scOutcome := ''degraded'', scNextAction := ''restrict_source_config_permissions''\<rparr>
        else security)"

text \<open>What \<open>os.Stat\<close> of the file answers.\<close>

datatype statResult = StatMissing | StatFails | StatMode "9 word"

definition inspectSourceConfigSecurity :: "'z golib_scheme \<Rightarrow> string \<Rightarrow> string \<Rightarrow> statResult \<Rightarrow> sourceConfigSecurity" where
  "inspectSourceConfigSecurity L platform path0 stat =
     (let path = trimSpace path0;
          security = noSecurity\<lparr>scConfigured := True, scChecked := True, scPlatform := platform, scPathHash := hashAuditRef L path,
            scState := ''unknown'', scOutcome := ''degraded'', scNextAction := ''inspect_source_config''\<rparr> in
      case stat of
        StatMissing \<Rightarrow> security\<lparr>scState := ''missing'', scOutcome := ''missing_ref'', scNextAction := ''check_sources_path''\<rparr>
      | StatFails \<Rightarrow> security\<lparr>scState := ''unavailable'', scOutcome := ''source_unavailable'', scNextAction := ''check_sources_path_permissions''\<rparr>
      | StatMode mode \<Rightarrow> (classifySourceConfigMode mode platform)\<lparr>scConfigured := True, scChecked := True, scPlatform := platform,
          scPathHash := scPathHash security\<rparr>)"

definition defaultSourceConfigSecurity :: sourceConfigSecurity where
  "defaultSourceConfigSecurity = noSecurity\<lparr>scOutcome := ''not_configured'', scState := ''not_configured''\<rparr>"

definition normalizeSourceConfigSecurity :: "sourceConfigSecurity \<Rightarrow> sourceConfigSecurity" where
  "normalizeSourceConfigSecurity security =
     (if scState security = [] \<and> scOutcome security = [] then defaultSourceConfigSecurity
      else
        let security = (if scState security = [] then security\<lparr>scState := scOutcome security\<rparr> else security) in
        if scOutcome security = [] then security\<lparr>scOutcome := scState security\<rparr> else security)"

subsection \<open>Facts\<close>

text \<open>The contract table answers for the two names of Vault too.\<close>

lemma contract_kinds:
  "map_of adapterContractsByKind k \<noteq> None \<longleftrightarrow>
     k \<in> {''local-encrypted-store'', ''vault-openbao'', ''vault'', ''openbao'', ''aws-secrets-manager'', ''onepassword-cli'', ''bitwarden-bws'',
       ''env'', ''file'', ''exec''}"
  by (simp add: adapterContractsByKind_def externalAdapterContracts_def)

lemma lifecycle_outcome: "slOutcome (normalizeSourceLifecycle oc) = orDefault (trimSpace oc) ''source_unavailable''"
  by (simp add: normalizeSourceLifecycle_def Let_def)

lemma lifecycle_outcomes [simp]:
  "slOutcome (normalizeSourceLifecycle ''ready'') = ''ready''" "slOutcome (normalizeSourceLifecycle ''missing_ref'') = ''missing_ref''"
  "slOutcome (normalizeSourceLifecycle ''invalid_ref'') = ''invalid_ref''" "slOutcome (normalizeSourceLifecycle ''locked'') = ''locked''"
  "slOutcome (normalizeSourceLifecycle ''source_auth_required'') = ''source_auth_required''" "slOutcome disabledSourceLifecycle = ''disabled''"
  unfolding lifecycle_outcome by code_simp+

text \<open>A source that is reported ready as a migration target has an executor.\<close>

lemma ready_target_executor:
  assumes "slOutcome (sourceRegistryLifecycle L io source) = ''ready''" "cfEnableMigrationTarget source"
  shows "toLower L (trimSpace (cfKind source)) \<in> {''vault'', ''openbao''} \<Longrightarrow> vaultExecutorValid L io source"
    and "toLower L (trimSpace (cfKind source)) = ''aws-secrets-manager'' \<Longrightarrow> awsExecutorValid L io source"
  using assms by (auto simp: sourceRegistryLifecycle_def Let_def split: if_splits)

text \<open>A ready source is enabled.\<close>

lemma ready_enabled: "slOutcome (sourceRegistryLifecycle L io source) = ''ready'' \<Longrightarrow> cfEnabled source"
  by (rule ccontr) (simp add: sourceRegistryLifecycle_def)

end
