(* ===== verification/Operation_Manifest.thy ===== *)
theory Operation_Manifest
  imports Source_Registry
begin

text \<open>
  What the broker says it can do (\<open>operation_manifest.go\<close>), and the status of every source with the operations
  it offers (\<open>defaultSourceRegistry\<close> of \<open>source_registry.go\<close>, \<open>connectionProviderOperations\<close> of
  \<open>provider_operation_executor.go\<close>). The migration executors that are registered are given by the list of
  their provider identifiers.
\<close>

definition operationManifestVersion :: string where "operationManifestVersion = ''1.0.0''"
definition contractVersion :: string where "contractVersion = ''1.1.0''"

datatype OperationMaturity = Unavailable | Planned | ReadOnly | DryRun | Executable | Validated
datatype OperationClassification = ReadOperation | Mutation
datatype OperationScope = BrokerLocal | ProviderRemote | SourceBoundary | Mixed
datatype OperationCompletionMode = Synchronous | Asynchronous

record OperationCapability =
  ocOperationID :: string
  ocMethod :: string
  ocPath :: string
  ocMaturity :: OperationMaturity
  ocClassification :: OperationClassification
  ocAuthenticationRequired :: bool
  ocPolicyRequired :: bool
  ocAuditRequired :: bool
  ocScope :: OperationScope
  ocProviderKinds :: "string list"
  ocCompletionMode :: OperationCompletionMode
  ocStatusPath :: string
  ocLimitationCode :: string
  ocReasonCode :: string
  ocNextAction :: string

definition manifestRune :: "char \<Rightarrow> string" where
  "manifestRune c = (if c = CHR ''/'' \<or> c = CHR ''-'' then ''_'' else if c = CHR 0x7B \<or> c = CHR 0x7D then [] else [c])"

definition operationManifestID :: "'z golib_scheme \<Rightarrow> string \<Rightarrow> string \<Rightarrow> string" where
  "operationManifestID L method path =
     (let bar = (\<lambda>c. c = CHR ''_''); s = concat (map manifestRune path) in
      toLower L method @ rev (dropWhile bar (rev (dropWhile bar s))))"

definition supportedProviderKinds :: "string list" where
  "supportedProviderKinds = [''local-encrypted-store'', ''vault'', ''openbao'', ''aws-secrets-manager'', ''env'', ''file'', ''exec'',
     ''bitwarden-bws'', ''onepassword-cli'']"

primrec maturityCodes :: "OperationMaturity \<Rightarrow> string \<times> string" where
  "maturityCodes ReadOnly = (''implemented_read_only'', ''read_when_authorized'')"
| "maturityCodes DryRun = (''implemented_dry_run'', ''review_plan_before_apply'')"
| "maturityCodes Executable = (''implemented_executable'', ''satisfy_runtime_preconditions'')"
| "maturityCodes Validated = (''implemented_and_validated'', ''invoke_with_required_controls'')"
| "maturityCodes Planned = (''planning_only_not_executable'', ''do_not_enable_apply'')"
| "maturityCodes Unavailable = (''operation_not_implemented'', ''do_not_enable_operation'')"

definition manifestOperation ::
  "'z golib_scheme \<Rightarrow> string \<Rightarrow> string \<Rightarrow> OperationMaturity \<Rightarrow> OperationClassification \<Rightarrow> bool \<Rightarrow> bool \<Rightarrow> bool \<Rightarrow> OperationScope
    \<Rightarrow> string list \<Rightarrow> string \<Rightarrow> OperationCapability" where
  "manifestOperation L method path maturity classification authRequired policyRequired auditRequired scope providerKinds limitationCode =
     \<lparr>ocOperationID = operationManifestID L method path, ocMethod = method, ocPath = path, ocMaturity = maturity,
      ocClassification = classification, ocAuthenticationRequired = authRequired, ocPolicyRequired = policyRequired,
      ocAuditRequired = auditRequired, ocScope = scope, ocProviderKinds = providerKinds, ocCompletionMode = Synchronous,
      ocStatusPath = [], ocLimitationCode = limitationCode, ocReasonCode = fst (maturityCodes maturity),
      ocNextAction = snd (maturityCodes maturity)\<rparr>"

definition defaultOperationManifest :: "'z golib_scheme \<Rightarrow> OperationCapability list" where
  "defaultOperationManifest L =
     (let providers = supportedProviderKinds; local = [''local-encrypted-store''];
          localAndAWS = [''local-encrypted-store'', ''aws-secrets-manager'']; localAndVault = [''local-encrypted-store'', ''vault'', ''openbao''] in [
      manifestOperation L ''POST'' ''/v1/file-grants'' Executable Mutation True True True BrokerLocal local ''ram_only_launch_grant'',
      manifestOperation L ''POST'' ''/v1/file-grants/revoke'' Executable Mutation True False False BrokerLocal local ''exact_ram_grant_revocation'',
      manifestOperation L ''GET'' ''/v1/file-grants/status'' ReadOnly ReadOperation True False False BrokerLocal local ''ram_metadata_only'',
      manifestOperation L ''GET'' ''/health'' ReadOnly ReadOperation False False False BrokerLocal [] ''liveness_only'',
      manifestOperation L ''GET'' ''/ready'' ReadOnly ReadOperation False False False BrokerLocal [] ''readiness_only'',
      manifestOperation L ''GET'' ''/status'' ReadOnly ReadOperation False False False BrokerLocal [] ''metadata_only'',
      manifestOperation L ''GET'' ''/state'' ReadOnly ReadOperation False False False BrokerLocal [] ''metadata_only'',
      manifestOperation L ''GET'' ''/capabilities'' ReadOnly ReadOperation False False False BrokerLocal [] ''release_metadata_only'',
      manifestOperation L ''POST'' ''/v1/secrets'' Validated Mutation True True True BrokerLocal local ''local_store_only'',
      manifestOperation L ''POST'' ''/v1/writeback'' Validated Mutation True True True BrokerLocal local ''local_store_only'',
      manifestOperation L ''POST'' ''/v1/resolve'' Validated ReadOperation True True True Mixed providers ''runtime_controls_revalidated'',
      manifestOperation L ''GET'' ''/v1/kv/data/{path}'' Validated ReadOperation True True True Mixed localAndVault ''openbao_kv_v2'',
      manifestOperation L ''POST'' ''/v1/kv/data/{path}'' Validated Mutation True True True Mixed localAndVault ''openbao_kv_v2'',
      manifestOperation L ''PATCH'' ''/v1/kv/data/{path}'' Validated Mutation True True True Mixed localAndVault ''openbao_kv_v2'',
      manifestOperation L ''GET'' ''/v1/kv/metadata/{path}'' Validated ReadOperation True True True Mixed localAndVault ''openbao_kv_v2'',
      manifestOperation L ''POST'' ''/v1/kv/delete/{path}'' Validated Mutation True True True Mixed localAndVault ''openbao_kv_v2'',
      manifestOperation L ''POST'' ''/v1/kv/undelete/{path}'' Validated Mutation True True True Mixed localAndVault ''openbao_kv_v2'',
      manifestOperation L ''GET'' ''/v1/provisioning/status'' ReadOnly ReadOperation True False False Mixed providers ''metadata_only'',
      manifestOperation L ''POST'' ''/v1/provisioning/operations/plan'' DryRun Mutation True True True BrokerLocal local ''no_secret_mutation'',
      manifestOperation L ''POST'' ''/v1/provisioning/operations/apply'' Validated Mutation True True True BrokerLocal local ''broker_generated_local_values_only'',
      manifestOperation L ''GET'' ''/v1/sources/status'' ReadOnly ReadOperation False False False Mixed providers ''metadata_only'',
      manifestOperation L ''GET'' ''/v1/providers/capabilities'' ReadOnly ReadOperation False False False Mixed providers ''provider_family_upper_bound'',
      manifestOperation L ''GET'' ''/v1/providers/config/status'' ReadOnly ReadOperation True False False Mixed providers ''metadata_only'',
      manifestOperation L ''GET'' ''/v1/telemetry'' ReadOnly ReadOperation False False False BrokerLocal [] ''redacted_metadata_only'',
      manifestOperation L ''POST'' ''/v1/telemetry/export'' Executable Mutation False False False ProviderRemote [] ''configured_exporter_only'',
      manifestOperation L ''GET'' ''/v1/events'' ReadOnly ReadOperation False False False BrokerLocal [] ''metadata_only'',
      manifestOperation L ''GET'' ''/v1/recovery/policy'' ReadOnly ReadOperation False False True BrokerLocal local ''recovery_metadata_only'',
      manifestOperation L ''POST'' ''/v1/recovery/policy'' Validated Mutation True True True BrokerLocal local ''metadata_only_no_share_material'',
      manifestOperation L ''GET'' ''/v1/management/lifecycle/status'' ReadOnly ReadOperation True False True BrokerLocal local ''metadata_only'',
      manifestOperation L ''GET'' ''/v1/management/lifecycle/backups'' ReadOnly ReadOperation True False True BrokerLocal local ''broker_owned_backup_inventory'',
      manifestOperation L ''POST'' ''/v1/management/lifecycle/backups'' Validated Mutation True True True BrokerLocal local ''broker_owned_encrypted_backup'',
      manifestOperation L ''POST'' ''/v1/management/lifecycle/backups/verify'' Validated ReadOperation True False True BrokerLocal local ''authenticated_backup_integrity'',
      manifestOperation L ''POST'' ''/v1/management/lifecycle/restore/dry-run'' DryRun Mutation True True True BrokerLocal local ''fresh_signed_store_revision_plan'',
      manifestOperation L ''POST'' ''/v1/management/lifecycle/restore/apply'' Validated Mutation True True True BrokerLocal local ''confirmed_exact_backup_restore'',
      manifestOperation L ''POST'' ''/v1/management/lifecycle/key/rotate'' Validated Mutation True True True BrokerLocal local ''broker_generated_key_and_wrapper_refresh'',
      manifestOperation L ''POST'' ''/v1/management/lockouts/clear'' Validated Mutation True True True BrokerLocal [] ''scoped_lockout_only'',
      manifestOperation L ''POST'' ''/v1/providers/config/validate'' DryRun Mutation True True True Mixed providers ''configuration_validation_only'',
      manifestOperation L ''POST'' ''/v1/providers/config/apply'' Validated Mutation True True True Mixed providers ''persisted_source_registry'',
      manifestOperation L ''POST'' ''/v1/providers/migration/dry-run'' DryRun Mutation True True True Mixed providers ''local_target_only'',
      manifestOperation L ''POST'' ''/v1/providers/migration/apply'' Planned Mutation True True True Mixed providers ''registered_provider_executor_required'',
      manifestOperation L ''GET'' ''/v1/management/secrets'' ReadOnly ReadOperation True False False Mixed providers ''metadata_only'',
      manifestOperation L ''GET'' ''/v1/management/secrets/value-search'' Validated ReadOperation True True True Mixed localAndAWS ''values_never_returned'',
      manifestOperation L ''POST'' ''/v1/management/secrets/create/dry-run'' DryRun Mutation True True True BrokerLocal local ''signed_missing_ref_plan'',
      manifestOperation L ''POST'' ''/v1/management/secrets/create/apply'' Validated Mutation True True True BrokerLocal local ''confirmed_no_overwrite_local_create'',
      manifestOperation L ''POST'' ''/v1/management/secrets/reveal'' Validated ReadOperation True True True Mixed providers ''single_ref_ttl_bounded'',
      manifestOperation L ''POST'' ''/v1/management/secrets/edit/dry-run'' DryRun Mutation True True True Mixed providers ''no_secret_mutation'',
      manifestOperation L ''POST'' ''/v1/management/secrets/edit/apply'' Validated Mutation True True True BrokerLocal local ''local_store_only'',
      manifestOperation L ''POST'' ''/v1/management/secrets/reset/dry-run'' DryRun Mutation True True True Mixed providers ''no_secret_mutation'',
      manifestOperation L ''POST'' ''/v1/management/secrets/reset/apply'' Validated Mutation True True True BrokerLocal local ''local_store_only'',
      manifestOperation L ''POST'' ''/v1/management/secrets/decommission/dry-run'' Validated Mutation True True True BrokerLocal local ''signed_expected_version_dependency_plan'',
      manifestOperation L ''POST'' ''/v1/management/secrets/decommission/apply'' Validated Mutation True True True BrokerLocal local ''encrypted_recoverable_tombstone'',
      manifestOperation L ''POST'' ''/v1/management/secrets/decommission/restore'' Validated Mutation True True True BrokerLocal local ''encrypted_tombstone_restore'',
      manifestOperation L ''POST'' ''/v1/management/secrets/rotation/dry-run'' DryRun Mutation True True True Mixed localAndAWS ''preflight_before_local_version_apply'',
      manifestOperation L ''POST'' ''/v1/management/secrets/rotation/status'' ReadOnly ReadOperation True False False BrokerLocal local ''metadata_only'',
      manifestOperation L ''POST'' ''/v1/management/secrets/rotation/stage'' Validated Mutation True True True BrokerLocal local ''local_store_staged_version_only'',
      manifestOperation L ''POST'' ''/v1/management/secrets/rotation/activate'' Validated Mutation True True True BrokerLocal local ''expected_current_version_required'',
      manifestOperation L ''POST'' ''/v1/management/secrets/rotation/rollback'' Validated Mutation True True True BrokerLocal local ''retained_previous_version_only'',
      manifestOperation L ''POST'' ''/v1/management/secrets/rotation/retire'' Validated Mutation True True True BrokerLocal local ''bounded_retention_cleanup'',
      manifestOperation L ''POST'' ''/v1/management/secrets/campaigns/create'' DryRun Mutation True True True Mixed providers ''plan_state_only'',
      manifestOperation L ''POST'' ''/v1/management/secrets/campaigns/revalidate'' DryRun Mutation True True True Mixed providers ''plan_state_only'',
      manifestOperation L ''POST'' ''/v1/management/secrets/campaigns/apply'' Planned Mutation True True True Mixed providers ''migrate_remap_provider_registered_executor_only'',
      manifestOperation L ''POST'' ''/v1/management/secrets/campaigns/status'' ReadOnly ReadOperation True False False BrokerLocal [] ''durable_campaign_metadata_only'',
      manifestOperation L ''POST'' ''/v1/management/secrets/sync/dry-run'' DryRun Mutation True True True Mixed providers ''no_sync_apply_route'',
      manifestOperation L ''POST'' ''/v1/management/secrets/policy/preview'' DryRun Mutation True True True Mixed providers ''no_policy_mutation'',
      manifestOperation L ''POST'' ''/v1/management/secrets/policy/apply'' Planned Mutation True True True Mixed providers ''policy_binding_not_persisted''])"

definition operationCapabilityForRoute :: "'z golib_scheme \<Rightarrow> string \<Rightarrow> string \<Rightarrow> OperationCapability option" where
  "operationCapabilityForRoute L method path =
     find (\<lambda>operation. ocMethod operation = method \<and> ocPath operation = path) (defaultOperationManifest L)"

subsection \<open>The operations of a provider\<close>

definition providerRoutes :: "(string \<times> string) list" where
  "providerRoutes = [
     (''POST'', ''/v1/resolve''),
     (''GET'', ''/v1/kv/data/{path}''),
     (''POST'', ''/v1/kv/data/{path}''),
     (''PATCH'', ''/v1/kv/data/{path}''),
     (''GET'', ''/v1/kv/metadata/{path}''),
     (''POST'', ''/v1/kv/delete/{path}''),
     (''POST'', ''/v1/kv/undelete/{path}''),
     (''GET'', ''/v1/management/secrets/value-search''),
     (''POST'', ''/v1/management/secrets/reveal''),
     (''POST'', ''/v1/secrets''),
     (''POST'', ''/v1/writeback''),
     (''POST'', ''/v1/provisioning/operations/apply''),
     (''POST'', ''/v1/management/secrets/edit/dry-run''),
     (''POST'', ''/v1/management/secrets/edit/apply''),
     (''POST'', ''/v1/management/secrets/reset/dry-run''),
     (''POST'', ''/v1/management/secrets/reset/apply''),
     (''POST'', ''/v1/management/secrets/decommission/dry-run''),
     (''POST'', ''/v1/management/secrets/decommission/apply''),
     (''POST'', ''/v1/management/secrets/decommission/restore''),
     (''POST'', ''/v1/management/secrets/rotation/dry-run''),
     (''POST'', ''/v1/management/secrets/rotation/status''),
     (''POST'', ''/v1/management/secrets/rotation/stage''),
     (''POST'', ''/v1/management/secrets/rotation/activate''),
     (''POST'', ''/v1/management/secrets/rotation/rollback''),
     (''POST'', ''/v1/management/secrets/rotation/retire''),
     (''POST'', ''/v1/providers/migration/dry-run''),
     (''POST'', ''/v1/providers/migration/apply''),
     (''POST'', ''/v1/management/secrets/sync/dry-run''),
     (''POST'', ''/v1/management/secrets/policy/preview''),
     (''POST'', ''/v1/management/secrets/policy/apply'')]"

definition providerScope :: "string \<Rightarrow> OperationScope" where
  "providerScope kind =
     (if kind = ''local-encrypted-store'' then BrokerLocal
      else if kind = ''env'' \<or> kind = ''file'' \<or> kind = ''exec'' then SourceBoundary else ProviderRemote)"

definition providerOperationMaturity :: "'z golib_scheme \<Rightarrow> string \<Rightarrow> string \<Rightarrow> OperationMaturity" where
  "providerOperationMaturity L kind path =
     (let has = (\<lambda>capability. case adapterContractForKind L kind of None \<Rightarrow> False | Some contract \<Rightarrow> adapterHasCapability contract capability);
          local = (kind = ''local-encrypted-store'');
          kv = local \<or> kind = ''vault'' \<or> kind = ''openbao'' in
      if path = ''/v1/resolve'' then (if has CapRead then Validated else Unavailable)
      else if path \<in> {''/v1/kv/data/{path}'', ''/v1/kv/metadata/{path}''} then (if kv then Validated else Unavailable)
      else if path \<in> {''/v1/kv/delete/{path}'', ''/v1/kv/undelete/{path}''} then (if kv then Validated else Unavailable)
      else if path = ''/v1/management/secrets/reveal'' then (if has CapReveal then Validated else Unavailable)
      else if path = ''/v1/management/secrets/value-search'' then (if local \<or> has CapValueSearch then Validated else Unavailable)
      else if path \<in> {''/v1/secrets'', ''/v1/writeback'', ''/v1/provisioning/operations/apply'', ''/v1/management/secrets/edit/apply'',
          ''/v1/management/secrets/reset/apply'', ''/v1/management/secrets/decommission/apply'', ''/v1/management/secrets/decommission/restore''} then
        (if local then Validated else Unavailable)
      else if path \<in> {''/v1/management/secrets/edit/dry-run'', ''/v1/management/secrets/decommission/dry-run''} then
        (if local \<or> has CapWrite then DryRun else Unavailable)
      else if path \<in> {''/v1/management/secrets/reset/dry-run'', ''/v1/management/secrets/rotation/dry-run''} then
        (if local \<or> kind = ''aws-secrets-manager'' then DryRun else if has CapRotate then Planned else Unavailable)
      else if path = ''/v1/management/secrets/rotation/status'' then (if local then ReadOnly else Unavailable)
      else if path \<in> {''/v1/management/secrets/rotation/stage'', ''/v1/management/secrets/rotation/activate'',
          ''/v1/management/secrets/rotation/rollback'', ''/v1/management/secrets/rotation/retire''} then
        (if local then Validated else Unavailable)
      else if path = ''/v1/providers/migration/dry-run'' then (if has CapMigration then DryRun else Unavailable)
      else if path = ''/v1/providers/migration/apply'' then (if has CapMigration then Planned else Unavailable)
      else if path = ''/v1/management/secrets/sync/dry-run'' then (if has CapRead then DryRun else Unavailable)
      else if path = ''/v1/management/secrets/policy/preview'' then (if local \<or> has CapPolicy then DryRun else Unavailable)
      else if path = ''/v1/management/secrets/policy/apply'' then (if local \<or> has CapPolicy then Planned else Unavailable)
      else Unavailable)"

definition providerOperationLimitation :: "string \<Rightarrow> string \<Rightarrow> OperationMaturity \<Rightarrow> string" where
  "providerOperationLimitation kind path maturity =
     (case maturity of
        Unavailable \<Rightarrow> (if kind = ''local-encrypted-store'' then ''local_operation_not_available'' else ''provider_operation_not_implemented'')
      | Planned \<Rightarrow>
          (if path = ''/v1/providers/migration/apply'' then ''registered_provider_executor_required''
           else if path = ''/v1/management/secrets/policy/apply'' then ''policy_binding_not_persisted''
           else ''provider_apply_path_not_implemented'')
      | DryRun \<Rightarrow> ''planning_only_no_provider_mutation''
      | Validated \<Rightarrow> ''runtime_auth_policy_audit_revalidated''
      | _ \<Rightarrow> ''runtime_preconditions_apply'')"

definition applyConnectionState :: "OperationCapability \<Rightarrow> SourceLifecycle \<Rightarrow> string \<Rightarrow> OperationCapability" where
  "applyConnectionState operation lifecycle auditStatus =
     (if ocMaturity operation = Unavailable \<or> ocMaturity operation = Planned then operation
      else if slOutcome lifecycle \<noteq> ''ready'' then
        operation\<lparr>ocMaturity := Unavailable, ocLimitationCode := firstNonEmpty (slOutcome lifecycle) ''source_not_ready'',
          ocReasonCode := ''source_operation_blocked'', ocNextAction := firstNonEmpty (slNextAction lifecycle) ''inspect_source_status''\<rparr>
      else if ocAuditRequired operation \<and> auditStatus \<noteq> ''audit_available'' \<and> auditStatus \<noteq> ''audit_ready'' \<and> auditStatus \<noteq> ''audit_recorded'' then
        operation\<lparr>ocMaturity := Unavailable, ocLimitationCode := ''audit_unavailable'', ocReasonCode := ''source_operation_blocked'',
          ocNextAction := ''restore_audit''\<rparr>
      else operation\<lparr>ocReasonCode := ''source_operation_available'', ocNextAction := ''invoke_with_required_controls''\<rparr>)"

definition providerOperation ::
  "'z golib_scheme \<Rightarrow> string \<Rightarrow> SourceLifecycle \<Rightarrow> string \<Rightarrow> bool \<Rightarrow> OperationCapability \<Rightarrow> OperationCapability" where
  "providerOperation L kind lifecycle auditStatus connectionScoped op0 =
     (let maturity = providerOperationMaturity L kind (ocPath op0);
          operation = op0\<lparr>ocProviderKinds := [kind], ocScope := providerScope kind, ocMaturity := maturity,
            ocReasonCode := fst (maturityCodes maturity), ocNextAction := snd (maturityCodes maturity),
            ocLimitationCode := providerOperationLimitation kind (ocPath op0) maturity\<rparr> in
      if connectionScoped then applyConnectionState operation lifecycle auditStatus
      else if ocMaturity operation \<noteq> Unavailable then
        operation\<lparr>ocReasonCode := ''provider_family_upper_bound'', ocNextAction := ''inspect_source_or_provider_status''\<rparr>
      else operation)"

definition providerOperationCapabilities ::
  "'z golib_scheme \<Rightarrow> string \<Rightarrow> SourceLifecycle \<Rightarrow> string \<Rightarrow> bool \<Rightarrow> OperationCapability list" where
  "providerOperationCapabilities L kind0 lifecycle auditStatus connectionScoped =
     (let kind = toLower L (trimSpace kind0) in
      concat (map (\<lambda>(method, path). case operationCapabilityForRoute L method path of None \<Rightarrow> []
        | Some operation \<Rightarrow> [providerOperation L kind lifecycle auditStatus connectionScoped operation]) providerRoutes))"

definition providerOperationCapabilitiesForKind :: "'z golib_scheme \<Rightarrow> string \<Rightarrow> OperationCapability list" where
  "providerOperationCapabilitiesForKind L kind =
     providerOperationCapabilities L kind (normalizeSourceLifecycle ''ready'') ''audit_available'' False"

definition providerOperationCapabilitiesForSource ::
  "'z golib_scheme \<Rightarrow> string \<Rightarrow> SourceLifecycle \<Rightarrow> string \<Rightarrow> OperationCapability list" where
  "providerOperationCapabilitiesForSource L kind lifecycle auditStatus = providerOperationCapabilities L kind lifecycle auditStatus True"

definition connectionProviderOperations ::
  "string list \<Rightarrow> string \<Rightarrow> SourceLifecycle \<Rightarrow> string \<Rightarrow> OperationCapability list \<Rightarrow> OperationCapability list" where
  "connectionProviderOperations executors providerID lifecycle auditStatus operations =
     (if trimSpace providerID \<notin> set executors \<or> slOutcome lifecycle \<noteq> ''ready'' \<or> auditStatus \<noteq> ''audit_available'' then operations
      else map (\<lambda>operation. if ocPath operation \<noteq> ''/v1/providers/migration/apply'' then operation
         else operation\<lparr>ocMaturity := Validated, ocReasonCode := fst (maturityCodes Validated),
           ocNextAction := snd (maturityCodes Validated), ocLimitationCode := []\<rparr>) operations)"

subsection \<open>The source registry\<close>

record SourceStatus =
  stSourceID :: string
  stKind :: string
  stDisplayName :: string
  stEnabled :: bool
  stCritical :: bool
  stPriority :: int
  stCapabilities :: "string list"
  stOperations :: "OperationCapability list"
  stNamespaces :: "string list"
  stState :: string
  stOutcome :: string
  stNextAction :: string
  stRetryable :: bool
  stRetryAfterMs :: int
  stLifecycle :: SourceLifecycle
  stAuditStatus :: string
  stAffectedRefs :: "string list"
  stAffectedServices :: "string list"

record SourceRegistry =
  sgSourceConfig :: sourceConfigSecurity
  sgSources :: "SourceStatus list"

definition localSourceStatus :: "'z golib_scheme \<Rightarrow> string list \<Rightarrow> 'm backend_scheme \<Rightarrow> SourceStatus" where
  "localSourceStatus L executors b =
     (let lifecycle = normalizeSourceLifecycle (if isLocked b then ''locked'' else ''ready''); auditStatus = auditStatusForBackend b in
      \<lparr>stSourceID = ''local'', stKind = ''local-encrypted-store'', stDisplayName = ''Local encrypted store'', stEnabled = True,
       stCritical = True, stPriority = 0, stCapabilities = capabilitiesForSourceKind L ''local-encrypted-store'',
       stOperations = connectionProviderOperations executors ''local'' lifecycle auditStatus
         (providerOperationCapabilitiesForSource L ''local-encrypted-store'' lifecycle auditStatus),
       stNamespaces = [''*''], stState = slState lifecycle, stOutcome = slOutcome lifecycle, stNextAction = slNextAction lifecycle,
       stRetryable = slRetryable lifecycle, stRetryAfterMs = slRetryAfterMs lifecycle, stLifecycle = lifecycle,
       stAuditStatus = auditStatus, stAffectedRefs = [], stAffectedServices = []\<rparr>)"

definition configuredSourceStatus ::
  "'z golib_scheme \<Rightarrow> registryIO \<Rightarrow> string list \<Rightarrow> 'm backend_scheme \<Rightarrow> sourceConfig \<Rightarrow> SourceStatus" where
  "configuredSourceStatus L io executors b source =
     (let lifecycle = sourceRegistryLifecycle L io source; auditStatus = auditStatusForBackend b in
      \<lparr>stSourceID = cfSourceID source, stKind = cfKind source, stDisplayName = firstNonEmpty (cfDisplayName source) (cfSourceID source),
       stEnabled = cfEnabled source, stCritical = cfCritical source, stPriority = cfPriority source,
       stCapabilities = capabilitiesForSourceKind L (cfKind source),
       stOperations = connectionProviderOperations executors (cfSourceID source) lifecycle auditStatus
         (providerOperationCapabilitiesForSource L (cfKind source) lifecycle auditStatus),
       stNamespaces = (let ns = safeList (cfNamespaces source) in if ns = [] then [''*''] else ns),
       stState = slState lifecycle, stOutcome = slOutcome lifecycle, stNextAction = slNextAction lifecycle,
       stRetryable = slRetryable lifecycle, stRetryAfterMs = slRetryAfterMs lifecycle, stLifecycle = lifecycle,
       stAuditStatus = auditStatus, stAffectedRefs = [], stAffectedServices = []\<rparr>)"

definition defaultSourceRegistry ::
  "'z golib_scheme \<Rightarrow> registryIO \<Rightarrow> string list \<Rightarrow> sourceConfigSecurity \<Rightarrow> 'm backend_scheme \<Rightarrow> SourceRegistry" where
  "defaultSourceRegistry L io executors security b =
     \<lparr>sgSourceConfig = normalizeSourceConfigSecurity security,
      sgSources = localSourceStatus L executors b # map (configuredSourceStatus L io executors b) (bSources b)\<rparr>"

record sourceStatusResponse =
  suServiceID :: string
  suAPIVersion :: string
  suContractVersion :: string
  suManifestVersion :: string
  suSourceConfig :: sourceConfigSecurity
  suSources :: "SourceStatus list"

definition sourcesStatusHandler ::
  "'z golib_scheme \<Rightarrow> registryIO \<Rightarrow> string list \<Rightarrow> sourceConfigSecurity \<Rightarrow> httpRequest \<Rightarrow> 'm backend_scheme \<Rightarrow> sourceStatusResponse reply" where
  "sourcesStatusHandler L io executors security r b =
     (if hMethod r \<noteq> ''GET'' then writeAPIError 405 ''method_not_allowed'' ''Use GET /v1/sources/status.'' ''invalid_ref'' []
      else let registry = defaultSourceRegistry L io executors security b in
        Json 200 \<lparr>suServiceID = serviceID, suAPIVersion = apiVersion, suContractVersion = contractVersion,
          suManifestVersion = operationManifestVersion, suSourceConfig = sgSourceConfig registry, suSources = sgSources registry\<rparr>)"

subsection \<open>What is advertised\<close>

definition manifestRoutes :: "(string \<times> string) list" where
  "manifestRoutes = [(''POST'', ''/v1/file-grants''), (''POST'', ''/v1/file-grants/revoke''), (''GET'', ''/v1/file-grants/status''), (''GET'',
       ''/health''), (''GET'', ''/ready''), (''GET'', ''/status''), (''GET'', ''/state''), (''GET'', ''/capabilities''), (''POST'',
       ''/v1/secrets''), (''POST'', ''/v1/writeback''), (''POST'', ''/v1/resolve''), (''GET'', ''/v1/kv/data/{path}''), (''POST'',
       ''/v1/kv/data/{path}''), (''PATCH'', ''/v1/kv/data/{path}''), (''GET'', ''/v1/kv/metadata/{path}''), (''POST'',
       ''/v1/kv/delete/{path}''), (''POST'', ''/v1/kv/undelete/{path}''), (''GET'', ''/v1/provisioning/status''), (''POST'',
       ''/v1/provisioning/operations/plan''), (''POST'', ''/v1/provisioning/operations/apply''), (''GET'', ''/v1/sources/status''),
       (''GET'', ''/v1/providers/capabilities''), (''GET'', ''/v1/providers/config/status''), (''GET'', ''/v1/telemetry''), (''POST'',
       ''/v1/telemetry/export''), (''GET'', ''/v1/events''), (''GET'', ''/v1/recovery/policy''), (''POST'', ''/v1/recovery/policy''),
       (''GET'', ''/v1/management/lifecycle/status''), (''GET'', ''/v1/management/lifecycle/backups''), (''POST'',
       ''/v1/management/lifecycle/backups''), (''POST'', ''/v1/management/lifecycle/backups/verify''), (''POST'',
       ''/v1/management/lifecycle/restore/dry-run''), (''POST'', ''/v1/management/lifecycle/restore/apply''), (''POST'',
       ''/v1/management/lifecycle/key/rotate''), (''POST'', ''/v1/management/lockouts/clear''), (''POST'',
       ''/v1/providers/config/validate''), (''POST'', ''/v1/providers/config/apply''), (''POST'', ''/v1/providers/migration/dry-run''),
       (''POST'', ''/v1/providers/migration/apply''), (''GET'', ''/v1/management/secrets''), (''GET'',
       ''/v1/management/secrets/value-search''), (''POST'', ''/v1/management/secrets/create/dry-run''), (''POST'',
       ''/v1/management/secrets/create/apply''), (''POST'', ''/v1/management/secrets/reveal''), (''POST'',
       ''/v1/management/secrets/edit/dry-run''), (''POST'', ''/v1/management/secrets/edit/apply''), (''POST'',
       ''/v1/management/secrets/reset/dry-run''), (''POST'', ''/v1/management/secrets/reset/apply''), (''POST'',
       ''/v1/management/secrets/decommission/dry-run''), (''POST'', ''/v1/management/secrets/decommission/apply''), (''POST'',
       ''/v1/management/secrets/decommission/restore''), (''POST'', ''/v1/management/secrets/rotation/dry-run''), (''POST'',
       ''/v1/management/secrets/rotation/status''), (''POST'', ''/v1/management/secrets/rotation/stage''), (''POST'',
       ''/v1/management/secrets/rotation/activate''), (''POST'', ''/v1/management/secrets/rotation/rollback''), (''POST'',
       ''/v1/management/secrets/rotation/retire''), (''POST'', ''/v1/management/secrets/campaigns/create''), (''POST'',
       ''/v1/management/secrets/campaigns/revalidate''), (''POST'', ''/v1/management/secrets/campaigns/apply''), (''POST'',
       ''/v1/management/secrets/campaigns/status''), (''POST'', ''/v1/management/secrets/sync/dry-run''), (''POST'',
       ''/v1/management/secrets/policy/preview''), (''POST'', ''/v1/management/secrets/policy/apply'')]"

lemma manifest_routes: "map (\<lambda>operation. (ocMethod operation, ocPath operation)) (defaultOperationManifest L) = manifestRoutes"
  by (simp add: defaultOperationManifest_def manifestRoutes_def manifestOperation_def Let_def)

lemma provider_routes_known: "set providerRoutes \<subseteq> set manifestRoutes"
  by code_simp

lemma route_found:
  assumes "(method, path) \<in> set providerRoutes"
  obtains operation where "operationCapabilityForRoute L method path = Some operation" "operation \<in> set (defaultOperationManifest L)"
    "ocMethod operation = method" "ocPath operation = path"
proof -
  have "(method, path) \<in> set manifestRoutes" using assms provider_routes_known by blast
  then have "\<exists>operation \<in> set (defaultOperationManifest L). ocMethod operation = method \<and> ocPath operation = path"
    by (auto simp flip: manifest_routes [of L])
  then have "operationCapabilityForRoute L method path \<noteq> None"
    by (auto simp: operationCapabilityForRoute_def find_None_iff)
  then obtain operation where op: "operationCapabilityForRoute L method path = Some operation" by blast
  show ?thesis
    using that [OF op] find_Some_mem [OF op [unfolded operationCapabilityForRoute_def]] by simp
qed

lemma providerOperation_keeps:
  "ocMethod (providerOperation L kind lc st scoped op) = ocMethod op" "ocPath (providerOperation L kind lc st scoped op) = ocPath op"
  "ocClassification (providerOperation L kind lc st scoped op) = ocClassification op"
  "ocAuditRequired (providerOperation L kind lc st scoped op) = ocAuditRequired op"
  by (simp_all add: providerOperation_def applyConnectionState_def Let_def)

lemma provider_operations_routes:
  "map (\<lambda>operation. (ocMethod operation, ocPath operation)) (providerOperationCapabilities L kind lc st scoped) = providerRoutes"
proof -
  have "map (\<lambda>operation. (ocMethod operation, ocPath operation))
      (case operationCapabilityForRoute L (fst route) (snd route) of None \<Rightarrow> []
       | Some operation \<Rightarrow> [providerOperation L (toLower L (trimSpace kind)) lc st scoped operation]) = [route]"
    if "route \<in> set providerRoutes" for route
  proof -
    have "(fst route, snd route) \<in> set providerRoutes" using that by simp
    then obtain operation where "operationCapabilityForRoute L (fst route) (snd route) = Some operation"
        "ocMethod operation = fst route" "ocPath operation = snd route"
      by (rule route_found)
    then show ?thesis by (simp add: providerOperation_keeps)
  qed
  then have "concat (map (\<lambda>route. map (\<lambda>operation. (ocMethod operation, ocPath operation))
      (case operationCapabilityForRoute L (fst route) (snd route) of None \<Rightarrow> []
       | Some operation \<Rightarrow> [providerOperation L (toLower L (trimSpace kind)) lc st scoped operation])) providerRoutes)
      = concat (map (\<lambda>route. [route]) providerRoutes)"
    by (intro arg_cong [where f = concat] map_cong) simp_all
  then show ?thesis
    by (simp add: providerOperationCapabilities_def map_concat case_prod_unfold comp_def concat_map_singleton)
qed

lemma provider_operation_origin:
  assumes "operation \<in> set (providerOperationCapabilities L kind lc st scoped)"
  obtains op where "op \<in> set (defaultOperationManifest L)" "operation = providerOperation L (toLower L (trimSpace kind)) lc st scoped op"
proof -
  obtain m p op where "Some op = operationCapabilityForRoute L m p"
      "operation = providerOperation L (toLower L (trimSpace kind)) lc st scoped op"
    using assms by (auto simp: providerOperationCapabilities_def Let_def split: option.splits)
  moreover have "op \<in> set (defaultOperationManifest L)"
    using find_Some_mem [OF calculation(1) [symmetric, unfolded operationCapabilityForRoute_def]] by (rule conjunct1)
  ultimately show ?thesis using that by blast
qed

text \<open>The operations that read are validated for other providers too; of those that change something only the key-value ones are.\<close>

lemma validated_paths:
  assumes "providerOperationMaturity L kind path \<in> {Executable, Validated}" "kind \<noteq> ''local-encrypted-store''"
  shows "path \<in> {''/v1/resolve'', ''/v1/management/secrets/reveal'', ''/v1/management/secrets/value-search''}
    \<or> path \<in> {''/v1/kv/data/{path}'', ''/v1/kv/metadata/{path}'', ''/v1/kv/delete/{path}'', ''/v1/kv/undelete/{path}''}
      \<and> kind \<in> {''vault'', ''openbao''}"
  using assms unfolding providerOperationMaturity_def Let_def by (auto split: if_splits)

lemma reading_paths:
  assumes "op \<in> set (defaultOperationManifest L)"
    "ocPath op \<in> {''/v1/resolve'', ''/v1/management/secrets/reveal'', ''/v1/management/secrets/value-search''}"
  shows "ocClassification op = ReadOperation"
proof -
  have "list_all (\<lambda>op. ocPath op \<in> {''/v1/resolve'', ''/v1/management/secrets/reveal'', ''/v1/management/secrets/value-search''}
      \<longrightarrow> ocClassification op = ReadOperation) (defaultOperationManifest L)"
    by (simp add: defaultOperationManifest_def manifestOperation_def Let_def)
  then show ?thesis using assms by (auto simp: list_all_iff)
qed

text \<open>What a source must be like for an operation to be offered: not merely planned, and possible now.\<close>

definition offered :: "OperationCapability \<Rightarrow> bool" where
  "offered operation \<longleftrightarrow> ocMaturity operation \<noteq> Unavailable \<and> ocMaturity operation \<noteq> Planned"

lemma applyConnection_offered:
  assumes "offered (applyConnectionState op lc st)"
  shows "slOutcome lc = ''ready''" "ocAuditRequired op \<Longrightarrow> st \<in> {''audit_available'', ''audit_ready'', ''audit_recorded''}"
    "ocMaturity (applyConnectionState op lc st) = ocMaturity op"
  using assms by (auto simp: applyConnectionState_def offered_def split: if_splits)

lemma source_operation_offered:
  assumes "operation \<in> set (providerOperationCapabilitiesForSource L kind lc st)" "offered operation"
  shows "slOutcome lc = ''ready''" "ocAuditRequired operation \<Longrightarrow> st \<in> {''audit_available'', ''audit_ready'', ''audit_recorded''}"
    "ocClassification operation = Mutation \<Longrightarrow> ocMaturity operation \<in> {Executable, Validated}
      \<Longrightarrow> toLower L (trimSpace kind) \<in> {''local-encrypted-store'', ''vault'', ''openbao''}"
proof -
  obtain op where op: "op \<in> set (defaultOperationManifest L)"
      "operation = providerOperation L (toLower L (trimSpace kind)) lc st True op"
    using assms(1) by (auto simp: providerOperationCapabilitiesForSource_def elim: provider_operation_origin)
  let ?k = "toLower L (trimSpace kind)"
  let ?op = "op\<lparr>ocProviderKinds := [?k], ocScope := providerScope ?k, ocMaturity := providerOperationMaturity L ?k (ocPath op),
    ocReasonCode := fst (maturityCodes (providerOperationMaturity L ?k (ocPath op))),
    ocNextAction := snd (maturityCodes (providerOperationMaturity L ?k (ocPath op))),
    ocLimitationCode := providerOperationLimitation ?k (ocPath op) (providerOperationMaturity L ?k (ocPath op))\<rparr>"
  have eq: "operation = applyConnectionState ?op lc st" using op(2) by (simp add: providerOperation_def Let_def)
  note off = applyConnection_offered [of ?op lc st, folded eq, OF assms(2)]
  show "slOutcome lc = ''ready''" by (rule off(1))
  show "ocAuditRequired operation \<Longrightarrow> st \<in> {''audit_available'', ''audit_ready'', ''audit_recorded''}"
    using off(2) by (simp add: op(2) providerOperation_keeps)
  show "?k \<in> {''local-encrypted-store'', ''vault'', ''openbao''}"
    if c: "ocClassification operation = Mutation" and m: "ocMaturity operation \<in> {Executable, Validated}"
  proof (rule ccontr)
    assume no: "?k \<notin> {''local-encrypted-store'', ''vault'', ''openbao''}"
    have "providerOperationMaturity L ?k (ocPath op) \<in> {Executable, Validated}" using m off(3) by simp
    then have "ocPath op \<in> {''/v1/resolve'', ''/v1/management/secrets/reveal'', ''/v1/management/secrets/value-search''}"
      using validated_paths no by blast
    then show False using reading_paths [OF op(1)] c by (simp add: op(2) providerOperation_keeps)
  qed
qed

lemma auditStatus_available: "auditStatusForBackend b = ''audit_available'' \<longleftrightarrow> trimSpace (bAuditPath b) \<noteq> []"
  by (simp add: auditStatusForBackend_def)

lemma auditStatus_recorded: "auditStatusForBackend b \<in> {''audit_available'', ''audit_ready'', ''audit_recorded''} \<longleftrightarrow> trimSpace (bAuditPath b) \<noteq> []"
  by (simp add: auditStatusForBackend_def)

lemma connection_operations_offered:
  assumes "operation \<in> set (connectionProviderOperations executors pid lc (auditStatusForBackend b)
      (providerOperationCapabilitiesForSource L kind lc (auditStatusForBackend b)))" "offered operation"
  shows "slOutcome lc = ''ready'' \<and> (ocAuditRequired operation \<longrightarrow> trimSpace (bAuditPath b) \<noteq> [])
    \<and> (ocClassification operation = Mutation \<and> ocMaturity operation \<in> {Executable, Validated}
       \<longrightarrow> toLower L (trimSpace kind) \<in> {''local-encrypted-store'', ''vault'', ''openbao''}
         \<or> ocPath operation = ''/v1/providers/migration/apply'' \<and> trimSpace pid \<in> set executors)"
proof (cases "operation \<in> set (providerOperationCapabilitiesForSource L kind lc (auditStatusForBackend b))")
  case True
  show ?thesis using source_operation_offered [OF True assms(2)] auditStatus_recorded [of b] by blast
next
  case False
  then show ?thesis using assms(1)
    by (auto simp: connectionProviderOperations_def auditStatus_available split: if_splits)
qed

text \<open>
  The status page never offers what cannot be done: an operation of a source that is neither unavailable nor
  only planned belongs to a source that is ready, has the audit log it needs, and if it changes something it
  goes to the local store, to the key-value store of Vault or OpenBao, or to a migration target whose executor is registered.
\<close>

lemma registry_offers_only_what_can_run:
  assumes "st \<in> set (sgSources (defaultSourceRegistry L io executors security b))" "operation \<in> set (stOperations st)" "offered operation"
  shows "slOutcome (stLifecycle st) = ''ready'' \<and> (ocAuditRequired operation \<longrightarrow> trimSpace (bAuditPath b) \<noteq> [])
    \<and> (ocClassification operation = Mutation \<and> ocMaturity operation \<in> {Executable, Validated}
       \<longrightarrow> toLower L (trimSpace (stKind st)) \<in> {''local-encrypted-store'', ''vault'', ''openbao''}
         \<or> ocPath operation = ''/v1/providers/migration/apply'' \<and> trimSpace (stSourceID st) \<in> set executors)"
  using assms
  by (auto simp only: defaultSourceRegistry_def SourceRegistry.select_convs list.set set_map insert_iff image_iff localSourceStatus_def
      configuredSourceStatus_def Let_def SourceStatus.select_convs dest!: connection_operations_offered)

end
