(* ===== verification/Managed_Catalog.thy ===== *)
theory Managed_Catalog
  imports Source_Registry Decommission
begin

text \<open>
  The catalogue of secrets (\<open>secrets_management.go\<close>, first half): the records shown for stored, decommissioned
  and externally mapped references, the listing with its two kinds of search, and the provisioning status. Maps are
  visited in the order of their association lists and the result is sorted by reference, as the code sorts it.
\<close>

subsection \<open>Records\<close>

record managedSecretRecord =
  msRef :: string
  msName :: string
  msSourceID :: string
  msProviderKind :: string
  msOwnerServiceID :: string
  msWorkspaceID :: string
  msState :: string
  msOutcome :: string
  msCapabilities :: "string list"
  msPolicy :: string
  msAuditStatus :: string
  msValueSearch :: string
  msUpdatedAt :: "time option"
  msMetadata :: SecretMetadata
  msTombstone :: "decommissionTombstoneMetadata option"

record managedSecretsResponse =
  mlServiceID :: string
  mlAPIVersion :: string
  mlQuery :: string
  mlValueSearch :: bool
  mlOutcome :: string
  mlResults :: "managedSecretRecord list"

record generatedValuePolicyMetadata =
  gvKind :: string
  gvLengthClass :: string
  gvEntropyClass :: string
  gvRotationPolicy :: string

record provisioningStatusRecord =
  psRef :: string
  psNamespace :: string
  psOwnerServiceID :: string
  psSourceID :: string
  psProviderID :: string
  psProviderKind :: string
  psDesiredOperation :: string
  psProvisionedState :: string
  psLastOperationID :: string
  psLastOutcome :: string
  psNextAction :: string
  psAuditStatus :: string
  psPolicyResult :: string
  psGeneratedValuePolicy :: generatedValuePolicyMetadata
  psUpdatedAt :: "time option"

record provisioningStatusResponse =
  peServiceID :: string
  peAPIVersion :: string
  peQuery :: string
  peRef :: string
  peOutcome :: string
  peResults :: "provisioningStatusRecord list"

subsection \<open>Names\<close>

text \<open>\<open>strings.Trim(s, "/")\<close> is \<^const>\<open>trimSlash\<close>; splitting never answers the empty list.\<close>

definition namespaceFromRef :: "string \<Rightarrow> string" where
  "namespaceFromRef ref0 =
     (let ref = trimSlash ref0; parts = splitOn (CHR ''/'') ref in
      if length parts \<le> 1 then ref else joinWith ''/'' (butlast parts))"

definition refName :: "string \<Rightarrow> string" where
  "refName ref = (let parts = splitOn (CHR ''/'') (trimSlash ref) in if length parts = 0 then ref else last parts)"

definition workspaceFromRef :: "string \<Rightarrow> string" where
  "workspaceFromRef ref =
     (let parts = splitOn (CHR ''/'') (trimSlash ref) in
      if length parts \<ge> 3 \<and> parts ! 0 = ''workspaces'' then parts ! 1
      else if length parts \<ge> 1 \<and> parts ! 0 = ''services'' then ''service''
      else ''local'')"

definition defaultGeneratedValuePolicy :: "string \<Rightarrow> generatedValuePolicyMetadata" where
  "defaultGeneratedValuePolicy ref =
     \<lparr>gvKind = ''opaque'', gvLengthClass = ''policy_default'', gvEntropyClass = ''policy_default'', gvRotationPolicy = ''service_policy''\<rparr>"

subsection \<open>Tables\<close>

definition provisioningStateForOutcome :: "string \<Rightarrow> string" where
  "provisioningStateForOutcome outcome =
     (if outcome = ''ready'' then ''pending''
      else if outcome \<in> {''missing_ref'', ''disabled''} then ''not_planned''
      else if outcome \<in> {''policy_denied'', ''source_auth_required'', ''locked'', ''invalid_ref''} then ''blocked''
      else if outcome \<in> {''source_unavailable'', ''degraded''} then ''failed''
      else if outcome = ''stale'' then ''stale''
      else ''blocked'')"

definition policyResultForProvisioningOutcome :: "string \<Rightarrow> string" where
  "policyResultForProvisioningOutcome outcome =
     (if outcome \<in> {''ready'', ''missing_ref'', ''source_auth_required'', ''locked'', ''source_unavailable'', ''degraded'', ''disabled''}
      then ''unknown'' else if outcome = ''policy_denied'' then ''denied'' else ''unknown'')"

definition nextActionForProvisioningOutcome :: "string \<Rightarrow> string" where
  "nextActionForProvisioningOutcome outcome =
     (if outcome = ''ready'' then ''writeback_generated_value_or_mark_ready''
      else if outcome = ''missing_ref'' then ''check_ref''
      else if outcome = ''policy_denied'' then ''review_policy''
      else if outcome = ''source_auth_required'' then ''reconnect_source''
      else if outcome = ''locked'' then ''unlock_broker''
      else if outcome = ''disabled'' then ''enable_source''
      else if outcome \<in> {''source_unavailable'', ''degraded''} then ''retry_or_inspect_source''
      else ''inspect_status'')"

definition managedCapabilitiesForSourceKind :: "'z golib_scheme \<Rightarrow> string \<Rightarrow> string list" where
  "managedCapabilitiesForSourceKind L kind =
     (if toLower L (trimSpace kind) = ''aws-secrets-manager''
      then [''metadata'', ''reveal'', ''edit'', ''reset'', ''policy'', ''rotate/reset'', ''value_search''] else [''metadata'', ''reveal''])"

definition sourceSupportsValueSearch :: "'z golib_scheme \<Rightarrow> string \<Rightarrow> bool" where
  "sourceSupportsValueSearch L kind =
     (case adapterContractForKind L kind of None \<Rightarrow> False | Some contract \<Rightarrow> adapterHasCapability contract CapValueSearch)"

definition valueSearchStatusForSourceKind :: "'z golib_scheme \<Rightarrow> string \<Rightarrow> string" where
  "valueSearchStatusForSourceKind L kind = (if sourceSupportsValueSearch L kind then ''supported'' else ''unsupported'')"

subsection \<open>Records of the three origins\<close>

definition managedRecordFromLocalEntry :: "string \<Rightarrow> secretEntry \<Rightarrow> managedSecretRecord" where
  "managedRecordFromLocalEntry ref entry =
     \<lparr>msRef = ref, msName = refName ref, msSourceID = firstNonEmpty (smSourceID (seMetadata entry)) localStoreSource,
      msProviderKind = ''local-encrypted-store'', msOwnerServiceID = ownerFromRef ref, msWorkspaceID = workspaceFromRef ref,
      msState = ''present'', msOutcome = ''ready'',
      msCapabilities = [''metadata'', ''reveal'', ''edit'', ''reset'', ''rotation'', ''decommission'', ''policy'', ''value_search''],
      msPolicy = ''local-writeback-policy'', msAuditStatus = ''audit_available'', msValueSearch = ''supported'',
      msUpdatedAt = Some (smUpdatedAt (seMetadata entry)), msMetadata = seMetadata entry, msTombstone = None\<rparr>"

definition managedRecordFromTombstone :: "string \<Rightarrow> localSecretTombstone \<Rightarrow> managedSecretRecord" where
  "managedRecordFromTombstone ref t =
     \<lparr>msRef = ref, msName = refName ref, msSourceID = firstNonEmpty (smSourceID (seMetadata (tsEntry t))) localStoreSource,
      msProviderKind = ''local-encrypted-store'', msOwnerServiceID = ownerFromRef ref, msWorkspaceID = workspaceFromRef ref,
      msState = ''decommissioned'', msOutcome = ''decommissioned'', msCapabilities = [''metadata'', ''restore''],
      msPolicy = ''local-writeback-policy'', msAuditStatus = ''audit_available'', msValueSearch = ''unavailable'',
      msUpdatedAt = Some (tsDecommissionedAt t), msMetadata = seMetadata (tsEntry t), msTombstone = Some (tombstoneMetadata t)\<rparr>"

definition managedRecordFromSource :: "'z golib_scheme \<Rightarrow> registryIO \<Rightarrow> string \<Rightarrow> sourceConfig \<Rightarrow> managedSecretRecord" where
  "managedRecordFromSource L io ref source =
     (let lifecycle = sourceRegistryLifecycle L io source in
      \<lparr>msRef = ref, msName = refName ref, msSourceID = cfSourceID source, msProviderKind = cfKind source,
       msOwnerServiceID = ownerFromRef ref, msWorkspaceID = workspaceFromRef ref,
       msState = (if slOutcome lifecycle \<noteq> ''ready'' then slState lifecycle else ''present''), msOutcome = slOutcome lifecycle,
       msCapabilities = managedCapabilitiesForSourceKind L (cfKind source), msPolicy = ''source-read-policy'',
       msAuditStatus = ''audit_available'', msValueSearch = valueSearchStatusForSourceKind L (cfKind source), msUpdatedAt = None,
       msMetadata = zeroMetadata, msTombstone = None\<rparr>)"

definition provisioningRecordFromLocalEntry :: "string \<Rightarrow> secretEntry \<Rightarrow> provisioningStatusRecord" where
  "provisioningRecordFromLocalEntry ref entry =
     (let source = firstNonEmpty (smSourceID (seMetadata entry)) localStoreSource in
      \<lparr>psRef = ref, psNamespace = namespaceFromRef ref, psOwnerServiceID = ownerFromRef ref, psSourceID = source, psProviderID = source,
       psProviderKind = ''local-encrypted-store'', psDesiredOperation = ''none'', psProvisionedState = ''ready'',
       psLastOperationID = smVersion (seMetadata entry), psLastOutcome = ''ready'', psNextAction = [], psAuditStatus = ''audit_available'',
       psPolicyResult = ''allowed'', psGeneratedValuePolicy = defaultGeneratedValuePolicy ref,
       psUpdatedAt = Some (smUpdatedAt (seMetadata entry))\<rparr>)"

definition provisioningRecordFromSource :: "'z golib_scheme \<Rightarrow> registryIO \<Rightarrow> string \<Rightarrow> sourceConfig \<Rightarrow> provisioningStatusRecord" where
  "provisioningRecordFromSource L io ref source =
     (let lifecycle = sourceRegistryLifecycle L io source in
      \<lparr>psRef = ref, psNamespace = namespaceFromRef ref, psOwnerServiceID = ownerFromRef ref, psSourceID = cfSourceID source,
       psProviderID = cfSourceID source, psProviderKind = cfKind source, psDesiredOperation = ''create'',
       psProvisionedState = provisioningStateForOutcome (slOutcome lifecycle), psLastOperationID = [], psLastOutcome = slOutcome lifecycle,
       psNextAction = firstNonEmpty (slNextAction lifecycle) (nextActionForProvisioningOutcome (slOutcome lifecycle)),
       psAuditStatus = ''audit_available'', psPolicyResult = policyResultForProvisioningOutcome (slOutcome lifecycle),
       psGeneratedValuePolicy = defaultGeneratedValuePolicy ref, psUpdatedAt = None\<rparr>)"

definition missingProvisioningRecord :: "string \<Rightarrow> provisioningStatusRecord" where
  "missingProvisioningRecord ref =
     \<lparr>psRef = ref, psNamespace = namespaceFromRef ref, psOwnerServiceID = ownerFromRef ref, psSourceID = localStoreSource,
      psProviderID = localStoreSource, psProviderKind = ''local-encrypted-store'', psDesiredOperation = ''create'',
      psProvisionedState = ''not_planned'', psLastOperationID = [], psLastOutcome = ''missing_ref'',
      psNextAction = ''declare_writeback_or_configure_source_ref'', psAuditStatus = ''audit_available'', psPolicyResult = ''unknown'',
      psGeneratedValuePolicy = defaultGeneratedValuePolicy ref, psUpdatedAt = None\<rparr>"

subsection \<open>Searching\<close>

definition localValueMatches :: "'z golib_scheme \<Rightarrow> 'm backend_scheme \<Rightarrow> secretEntry \<Rightarrow> string \<Rightarrow> bool" where
  "localValueMatches L b entry query0 =
     (let query = toLower L (trimSpace query0) in
      if query = [] then False
      else case decrypt L b (sePayload entry) of Inl _ \<Rightarrow> False | Inr value \<Rightarrow> containsStr (toLower L value) query)"

definition sourceValueMatches :: "'z golib_scheme \<Rightarrow> registryIO \<Rightarrow> sourceConfig \<Rightarrow> string \<Rightarrow> string \<Rightarrow> bool" where
  "sourceValueMatches L io source ref query0 =
     (let query = toLower L (trimSpace query0) in
      if query = [] then False
      else case map_of (cfRefs source) ref of None \<Rightarrow> False
      | Some refCfg \<Rightarrow> let res = sourceResolve L (sourceIO.truncate io) source ref refCfg in
          srOutcome res = ''ready'' \<and> containsStr (toLower L (srValue res)) query)"

definition managedRecordMatches :: "'z golib_scheme \<Rightarrow> managedSecretRecord \<Rightarrow> string \<Rightarrow> bool" where
  "managedRecordMatches L record query0 =
     (let query = toLower L (trimSpace query0) in
      if query = [] then True
      else containsStr (toLower L (joinWith '' '' [msRef record, msName record, msSourceID record, msProviderKind record,
        msOwnerServiceID record, msWorkspaceID record, msState record, msOutcome record, msPolicy record])) query)"

definition provisioningRecordMatches :: "'z golib_scheme \<Rightarrow> provisioningStatusRecord \<Rightarrow> string \<Rightarrow> string \<Rightarrow> bool" where
  "provisioningRecordMatches L record query0 refFilter =
     (if refFilter \<noteq> [] \<and> psRef record \<noteq> refFilter then False
      else let query = toLower L (trimSpace query0) in
        if query = [] then True
        else containsStr (toLower L (joinWith '' '' [psRef record, psNamespace record, psOwnerServiceID record, psSourceID record,
          psProviderID record, psProviderKind record, psDesiredOperation record, psProvisionedState record, psLastOutcome record,
          psPolicyResult record])) query)"

subsection \<open>The listing\<close>

definition localRecords :: "'z golib_scheme \<Rightarrow> 'm backend_scheme \<Rightarrow> localStoreFile \<Rightarrow> string \<Rightarrow> bool \<Rightarrow> managedSecretRecord list" where
  "localRecords L b store query valueSearch =
     concat (map (\<lambda>(ref, entry). let record = managedRecordFromLocalEntry ref entry;
          matches = (if valueSearch then localValueMatches L b entry query else managedRecordMatches L record query) in
        if matches then [record] else []) (stSecrets store))"

definition tombstoneRecords :: "'z golib_scheme \<Rightarrow> localStoreFile \<Rightarrow> string \<Rightarrow> bool \<Rightarrow> managedSecretRecord list" where
  "tombstoneRecords L store query valueSearch =
     (if valueSearch then []
      else concat (map (\<lambda>(ref, t). if tsState t \<noteq> ''decommissioned'' then []
             else let record = managedRecordFromTombstone ref t in if managedRecordMatches L record query then [record] else [])
        (stTombstones store)))"

definition sourceRecords ::
  "'z golib_scheme \<Rightarrow> registryIO \<Rightarrow> localStoreFile \<Rightarrow> string \<Rightarrow> bool \<Rightarrow> sourceConfig \<Rightarrow> managedSecretRecord list" where
  "sourceRecords L io store query valueSearch source =
     concat (map (\<lambda>(ref, _). if map_of (stSecrets store) ref \<noteq> None then []
        else let record = managedRecordFromSource L io ref source in
          if \<not> valueSearch \<and> managedRecordMatches L record query then [record]
          else if valueSearch \<and> sourceSupportsValueSearch L (cfKind source) \<and> sourceValueMatches L io source ref query then [record]
          else []) (cfRefs source))"

definition listManagedSecrets ::
  "'z golib_scheme \<Rightarrow> registryIO \<Rightarrow> string \<Rightarrow> bool \<Rightarrow> 'm backend_scheme \<Rightarrow> managedSecretsResponse \<times> gerror option" where
  "listManagedSecrets L io query valueSearch b =
     (let answer = (\<lambda>outcome results. \<lparr>mlServiceID = serviceID, mlAPIVersion = apiVersion, mlQuery = query, mlValueSearch = valueSearch,
            mlOutcome = outcome, mlResults = results\<rparr>) in
      if isLocked b then (answer ''locked'' [], Some errLocked)
      else case loadStore b of Inl _ \<Rightarrow> (answer ''degraded'' [], Some errBackendDegraded)
      | Inr store \<Rightarrow>
          (answer ''ready'' (sort_key msRef (localRecords L b store query valueSearch @ tombstoneRecords L store query valueSearch
             @ concat (map (sourceRecords L io store query valueSearch) (enabledSources (bSources b))))), None))"

definition managedRecord :: "'z golib_scheme \<Rightarrow> registryIO \<Rightarrow> string \<Rightarrow> 'm backend_scheme \<Rightarrow> gerror + managedSecretRecord" where
  "managedRecord L io ref b =
     (if \<not> validSecretRef ref then Inl errInvalidRef
      else if isLocked b then Inl errLocked
      else case loadStore b of Inl _ \<Rightarrow> Inl errBackendDegraded
      | Inr store \<Rightarrow> (case map_of (stSecrets store) ref of
          Some entry \<Rightarrow> Inr (managedRecordFromLocalEntry ref entry)
        | None \<Rightarrow> (case find (\<lambda>source. map_of (cfRefs source) ref \<noteq> None) (enabledSources (bSources b)) of
            Some source \<Rightarrow> Inr (managedRecordFromSource L io ref source)
          | None \<Rightarrow> Inl errMissingRef)))"

subsection \<open>Provisioning status\<close>

text \<open>The references of the enabled sources, in the order they are visited; a reference that was seen is skipped.\<close>

definition sourcePairs :: "sourceConfig list \<Rightarrow> (string \<times> sourceConfig) list" where
  "sourcePairs sources = concat (map (\<lambda>source. map (\<lambda>(ref, _). (ref, source)) (cfRefs source)) sources)"

fun provisioningFromSources ::
  "'z golib_scheme \<Rightarrow> registryIO \<Rightarrow> string \<Rightarrow> string \<Rightarrow> string list \<Rightarrow> (string \<times> sourceConfig) list
    \<Rightarrow> provisioningStatusRecord list \<times> string list" where
  "provisioningFromSources L io query refFilter seen [] = ([], seen)"
| "provisioningFromSources L io query refFilter seen ((ref, source) # rest) =
     (if ref \<in> set seen then provisioningFromSources L io query refFilter seen rest
      else let record = provisioningRecordFromSource L io ref source;
               r = provisioningFromSources L io query refFilter (ref # seen) rest in
        ((if provisioningRecordMatches L record query refFilter then [record] else []) @ fst r, snd r))"

definition listProvisioningStatus ::
  "'z golib_scheme \<Rightarrow> registryIO \<Rightarrow> string \<Rightarrow> string \<Rightarrow> 'm backend_scheme \<Rightarrow> provisioningStatusResponse \<times> gerror option" where
  "listProvisioningStatus L io query0 refFilter0 b =
     (let query = trimSpace query0; refFilter = trimSpace refFilter0;
          res = \<lparr>peServiceID = serviceID, peAPIVersion = apiVersion, peQuery = query, peRef = refFilter, peOutcome = ''ready'', peResults = []\<rparr> in
      if refFilter \<noteq> [] \<and> \<not> validSecretRef refFilter then (res\<lparr>peOutcome := ''invalid_ref''\<rparr>, Some errInvalidRef)
      else if isLocked b then (res\<lparr>peOutcome := ''locked''\<rparr>, Some errLocked)
      else case loadStore b of Inl _ \<Rightarrow> (res\<lparr>peOutcome := ''degraded''\<rparr>, Some errBackendDegraded)
      | Inr store \<Rightarrow>
          let local = filter (\<lambda>record. provisioningRecordMatches L record query refFilter)
                (map (\<lambda>(ref, entry). provisioningRecordFromLocalEntry ref entry) (stSecrets store));
              (fromSources, seen) = provisioningFromSources L io query refFilter (map fst (stSecrets store))
                (sourcePairs (enabledSources (bSources b)));
              missing = (if refFilter \<noteq> [] \<and> refFilter \<notin> set seen then [missingProvisioningRecord refFilter] else []) in
          (res\<lparr>peResults := sort_key psRef (local @ fromSources @ missing)\<rparr>, None))"

end
