(* ===== verification/Secrets_Management.thy ===== *)
theory Secrets_Management
  imports Managed_Catalog Writeback
begin

text \<open>
  Operations on managed secrets (\<open>secrets_management.go\<close>, second half): revealing a value, editing and resetting
  it, previewing and applying policies, and provisioning a secret, each with its endpoint. Revealing and writing
  are guarded by a lockout scope of their own per service and reference.
\<close>

subsection \<open>Requests and answers\<close>

record provisioningOperationRequest =
  poRequestID :: string
  poServiceID :: string
  poRef :: string
  poOperation :: string
  poGenerationMode :: string
  poReason :: string
  poConfirm :: bool
  poIdentity :: writebackIdentity
  poIdentityLease :: "launchIdentityLease option"
  poPolicy :: writebackPolicy
  poSecrets :: "serviceSecretsPolicy option"
  poGeneratedValuePolicy :: generatedValuePolicyMetadata
  poRequiresWriteback :: bool
  poRequireBrokerGenerate :: bool

record provisioningOperationResponse =
  pnServiceID :: string
  pnAPIVersion :: string
  pnRequestID :: string
  pnOwnerServiceID :: string
  pnNamespace :: string
  pnRef :: string
  pnOperation :: string
  pnMode :: string
  pnGenerationMode :: string
  pnOutcome :: string
  pnApplied :: bool
  pnRequiresConfirmation :: bool
  pnWritebackEndpoint :: string
  pnNextAction :: string
  pnAuditStatus :: string
  pnPolicyResult :: string
  pnProvisionedState :: string
  pnLastOutcome :: string
  pnGeneratedValuePolicy :: generatedValuePolicyMetadata
  pnUnsupportedCapability :: string
  pnAffectedRefs :: "string list"
  pnAffectedServices :: "string list"

record managedSecretActionRequest =
  maRequestID :: string
  maServiceID :: string
  maRef :: string
  maReason :: string
  maValue :: string
  maPolicy :: string
  maConfirm :: bool

record managedSecretActionResponse =
  mxServiceID :: string
  mxAPIVersion :: string
  mxRequestID :: string
  mxRef :: string
  mxOperation :: string
  mxMode :: string
  mxOutcome :: string
  mxApplied :: bool
  mxRequiresConfirmation :: bool
  mxAuditStatus :: string
  mxNextAction :: string
  mxValue :: string
  mxTTLSeconds :: int
  mxMetadata :: "SecretMetadata option"
  mxRecord :: "managedSecretRecord option"
  mxAffectedRefs :: "string list"
  mxAffectedServices :: "string list"
  mxUnsupportedCapability :: string
  mxLockoutActive :: bool
  mxLockoutScope :: string
  mxRetryAfterSeconds :: int

definition revealTTLSeconds :: int where "revealTTLSeconds = 60"

type_synonym 'm actionResult = "(managedSecretActionResponse \<times> gerror option) \<times> 'm"
type_synonym 'm provisioningResult = "(provisioningOperationResponse \<times> gerror option) \<times> 'm"

subsection \<open>Lockouts of the management operations\<close>

definition baseManagedActionResponse :: "managedSecretActionRequest \<Rightarrow> string \<Rightarrow> string \<Rightarrow> managedSecretActionResponse" where
  "baseManagedActionResponse req operation mode =
     \<lparr>mxServiceID = serviceID, mxAPIVersion = apiVersion, mxRequestID = maRequestID req, mxRef = trimSpace (maRef req), mxOperation = operation,
      mxMode = mode, mxOutcome = ''pending'', mxApplied = False, mxRequiresConfirmation = False, mxAuditStatus = ''audit_pending'',
      mxNextAction = [], mxValue = [], mxTTLSeconds = 0, mxMetadata = None, mxRecord = None, mxAffectedRefs = safeList [maRef req],
      mxAffectedServices = safeList [maServiceID req], mxUnsupportedCapability = [], mxLockoutActive = False, mxLockoutScope = [],
      mxRetryAfterSeconds = 0\<rparr>"

definition managementLockoutScope :: "managedSecretActionRequest \<Rightarrow> string \<Rightarrow> string" where
  "managementLockoutScope req operation =
     (let service = orDefault (trimSpace (maServiceID req)) ''@operator'';
          ref = trimSpace (maRef req) in
      joinWith '':'' [''management'', trimSpace operation, service, if ref = [] \<or> \<not> validSecretRef ref then ''unknown'' else ref])"

definition applyManagementLockout :: "managedSecretActionResponse \<Rightarrow> lockoutDecision \<Rightarrow> managedSecretActionResponse" where
  "applyManagementLockout res decision =
     res\<lparr>mxOutcome := ''lockout_active'', mxNextAction := ''wait_or_clear_lockout'', mxValue := [], mxApplied := False,
       mxLockoutActive := True, mxLockoutScope := ldScope decision, mxRetryAfterSeconds := ldRetryAfterSeconds decision\<rparr>"

definition managementLockoutAudit :: "'z golib_scheme \<Rightarrow> managedSecretActionRequest \<Rightarrow> 'm backend_scheme \<Rightarrow> 'm backend_scheme" where
  "managementLockoutAudit L req b = audit_ignored L ''management_lockout'' (maRef req) ''lockout_active'' (maServiceID req) (maRequestID req) b"

text \<open>The answer is \<open>Some\<close> when the scope is locked.\<close>

definition managementLockoutActive ::
  "'z golib_scheme \<Rightarrow> managedSecretActionRequest \<Rightarrow> string \<Rightarrow> managedSecretActionResponse \<Rightarrow> 'm backend_scheme
    \<Rightarrow> managedSecretActionResponse option \<times> 'm backend_scheme" where
  "managementLockoutActive L req operation res b =
     (let r = active (managementLockoutScope req operation) (bNow b) (bLockouts b); b1 = b\<lparr>bLockouts := snd r\<rparr> in
      if \<not> ldActive (fst r) then (None, b1)
      else (Some (applyManagementLockout res (fst r)), managementLockoutAudit L req b1))"

definition recordManagementPolicyDenied ::
  "'z golib_scheme \<Rightarrow> managedSecretActionRequest \<Rightarrow> string \<Rightarrow> managedSecretActionResponse \<Rightarrow> 'm backend_scheme
    \<Rightarrow> managedSecretActionResponse \<times> 'm backend_scheme" where
  "recordManagementPolicyDenied L req operation res b =
     (let r = recordFailure (managementLockoutScope req operation) (bNow b) (bLockouts b); b1 = b\<lparr>bLockouts := snd r\<rparr> in
      if snd (fst r) then (applyManagementLockout res (fst (fst r)), managementLockoutAudit L req b1) else (res, b1))"

definition recordManagementSuccess :: "managedSecretActionRequest \<Rightarrow> string \<Rightarrow> 'm backend_scheme \<Rightarrow> 'm backend_scheme" where
  "recordManagementSuccess req operation b = b\<lparr>bLockouts := recordSuccess (managementLockoutScope req operation) (bLockouts b)\<rparr>"

definition dryRunMode :: "string \<Rightarrow> string" where
  "dryRunMode operation = (if operation = ''policy'' then ''preview'' else ''dry-run'')"

definition validateManagedAction :: "managedSecretActionRequest \<Rightarrow> bool \<Rightarrow> gerror option" where
  "validateManagedAction req requireReason =
     (if \<not> validSecretRef (maRef req) then Some errInvalidRef
      else if requireReason \<and> trimSpace (maReason req) = [] then Some errPolicyDenied
      else None)"

definition auditManaged ::
  "'z golib_scheme \<Rightarrow> string \<Rightarrow> string \<Rightarrow> managedSecretActionRequest \<Rightarrow> 'm backend_scheme \<Rightarrow> 'm backend_scheme" where
  "auditManaged L operation outcome req b = audit_ignored L operation (maRef req) outcome (maServiceID req) (maRequestID req) b"

subsection \<open>Reveal\<close>

definition revealRequest :: "managedSecretActionRequest \<Rightarrow> resolveRequest" where
  "revealRequest req = \<lparr>rqRequestID = maRequestID req, rqWorkspaceID = [], rqServiceID = maServiceID req, rqIdentityLease = None,
     rqPurpose = ''managed_reveal'', rqSecrets = None, rqRefs = [maRef req]\<rparr>"

text \<open>A refusal of a reveal: one that is a policy denial counts against the scope and may lock it.\<close>

definition revealRefused ::
  "'z golib_scheme \<Rightarrow> managedSecretActionRequest \<Rightarrow> managedSecretActionResponse \<Rightarrow> bool \<Rightarrow> string \<Rightarrow> gerror \<Rightarrow> 'm backend_scheme
    \<Rightarrow> 'm backend_scheme actionResult" where
  "revealRefused L req res denied outcome err b =
     (let res1 = res\<lparr>mxOutcome := outcome, mxNextAction := nextActionForManagedOutcome outcome\<rparr>;
          r = (if denied then recordManagementPolicyDenied L req ''reveal'' res1 b else (res1, b)) in
      if mxLockoutActive (fst r) then ((fst r, Some errLockoutActive), snd r)
      else ((fst r, Some err), auditManaged L ''management_reveal'' outcome req (snd r)))"

definition revealManagedSecret ::
  "'z golib_scheme \<Rightarrow> registryIO \<Rightarrow> managedSecretActionRequest \<Rightarrow> 'm backend_scheme \<Rightarrow> 'm backend_scheme actionResult" where
  "revealManagedSecret L io req b =
     (let res = baseManagedActionResponse req ''reveal'' ''apply'';
          lock = managementLockoutActive L req ''reveal'' res b; b1 = snd lock in
      case fst lock of Some refusal \<Rightarrow> ((refusal, Some errLockoutActive), b1)
      | None \<Rightarrow>
          (case validateManagedAction req True of
             Some err \<Rightarrow> revealRefused L req res (err = errPolicyDenied) (outcomeForError err) err b1
           | None \<Rightarrow>
               let rs = resolve L (sourceIO.truncate io) (revealRequest req) b1; results = rsResults (fst rs); b2 = snd rs in
               if length results \<noteq> 1 \<or> rrOutcome (hd results) \<noteq> ''ready'' then
                 let outcome = (if length results = 1 then rrOutcome (hd results) else ''missing_ref'') in
                 revealRefused L req res (outcome = ''policy_denied'') outcome (outcomeError outcome) b2
               else
                 ((res\<lparr>mxOutcome := ''ready'', mxValue := rrValue (hd results), mxTTLSeconds := revealTTLSeconds,
                     mxAuditStatus := ''audit_recorded'', mxMetadata := rrMetadata (hd results)\<rparr>, None),
                  auditManaged L ''management_reveal'' ''ready'' req (recordManagementSuccess req ''reveal'' b2))))"

subsection \<open>Dry runs and policies\<close>

text \<open>What the dry runs and the policy operations share: the reference is checked and its record looked up.\<close>

definition withManagedRecord ::
  "'z golib_scheme \<Rightarrow> registryIO \<Rightarrow> managedSecretActionRequest \<Rightarrow> string \<Rightarrow> managedSecretActionResponse
    \<Rightarrow> (managedSecretRecord \<Rightarrow> 'm backend_scheme \<Rightarrow> 'm backend_scheme actionResult) \<Rightarrow> 'm backend_scheme \<Rightarrow> 'm backend_scheme actionResult" where
  "withManagedRecord L io req auditOperation res continue b =
     (case validateManagedAction req False of
        Some err \<Rightarrow> ((res\<lparr>mxOutcome := ''invalid_ref'', mxNextAction := ''provide_valid_ref''\<rparr>, Some err),
          auditManaged L auditOperation ''invalid_ref'' req b)
      | None \<Rightarrow> (case managedRecord L io (maRef req) b of
          Inl err \<Rightarrow> let outcome = outcomeForError err in
            ((res\<lparr>mxOutcome := outcome, mxNextAction := nextActionForManagedOutcome outcome\<rparr>, Some err),
             auditManaged L auditOperation outcome req b)
        | Inr record \<Rightarrow> continue record b))"

definition managedDryRun ::
  "'z golib_scheme \<Rightarrow> registryIO \<Rightarrow> managedSecretActionRequest \<Rightarrow> string \<Rightarrow> 'm backend_scheme \<Rightarrow> 'm backend_scheme actionResult" where
  "managedDryRun L io req operation b =
     (let res = baseManagedActionResponse req operation (dryRunMode operation); op = ''management_'' @ operation @ ''_dry_run'' in
      withManagedRecord L io req op res
        (\<lambda>record b1. ((res\<lparr>mxOutcome := ''dry_run_ready'', mxRequiresConfirmation := True, mxRecord := Some record,
             mxAuditStatus := ''audit_ready'', mxNextAction := ''confirm_and_apply_with_audit_reason''\<rparr>, None),
           auditManaged L op ''dry_run_ready'' req b1)) b)"

definition managedEditDryRun ::
  "'z golib_scheme \<Rightarrow> registryIO \<Rightarrow> managedSecretActionRequest \<Rightarrow> 'm backend_scheme \<Rightarrow> 'm backend_scheme actionResult" where
  "managedEditDryRun L io req b = managedDryRun L io req ''edit'' b"

definition managedResetDryRun ::
  "'z golib_scheme \<Rightarrow> registryIO \<Rightarrow> managedSecretActionRequest \<Rightarrow> 'm backend_scheme \<Rightarrow> 'm backend_scheme actionResult" where
  "managedResetDryRun L io req b = managedDryRun L io req ''reset'' b"

definition policyUnsupported :: "managedSecretActionResponse \<Rightarrow> managedSecretRecord \<Rightarrow> managedSecretActionResponse" where
  "policyUnsupported res record =
     res\<lparr>mxOutcome := ''unsupported'', mxRecord := Some record, mxAuditStatus := ''audit_recorded'',
       mxNextAction := ''wait_for_policy_binding_persistence'', mxUnsupportedCapability := ''policy_binding_persistence''\<rparr>"

definition managedPolicyPreview ::
  "'z golib_scheme \<Rightarrow> registryIO \<Rightarrow> managedSecretActionRequest \<Rightarrow> 'm backend_scheme \<Rightarrow> 'm backend_scheme actionResult" where
  "managedPolicyPreview L io req b =
     (let res = baseManagedActionResponse req ''policy'' ''preview'' in
      withManagedRecord L io req ''management_policy_preview'' res
        (\<lambda>record b1. ((policyUnsupported res record, None), auditManaged L ''management_policy_preview'' ''unsupported'' req b1)) b)"

definition managedPolicyApply ::
  "'z golib_scheme \<Rightarrow> registryIO \<Rightarrow> managedSecretActionRequest \<Rightarrow> 'm backend_scheme \<Rightarrow> 'm backend_scheme actionResult" where
  "managedPolicyApply L io req b =
     (let res = baseManagedActionResponse req ''policy'' ''apply'' in
      withManagedRecord L io req ''management_policy_apply'' res
        (\<lambda>record b1. ((policyUnsupported res record, Some errUnsupportedProvider),
           auditManaged L ''management_policy_apply'' ''unsupported'' req b1)) b)"

subsection \<open>Edit and reset\<close>

definition managedWriteRequest :: "managedSecretActionRequest \<Rightarrow> string \<Rightarrow> writeSecretRequest" where
  "managedWriteRequest req operation =
     \<lparr>wqRef = maRef req, wqValue = maValue req, wqMetadata = [(''sourceId'', ''management:'' @ operation)]\<rparr>"

text \<open>The entry that the record of the answer is made from has only its reference and its metadata.\<close>

definition writtenEntry :: "string \<Rightarrow> SecretMetadata \<Rightarrow> secretEntry" where
  "writtenEntry ref metadata = \<lparr>seRef = ref, seMetadata = metadata,
     sePayload = \<lparr>spAlg = [], spKeyID = [], spKeyVersion = [], spNonce = [], spCiphertext = []\<rparr>, seKV = None\<rparr>"

definition managedWriteApply ::
  "'z golib_scheme \<Rightarrow> managedSecretActionRequest \<Rightarrow> string \<Rightarrow> 'm backend_scheme \<Rightarrow> 'm backend_scheme actionResult" where
  "managedWriteApply L req operation b =
     (let res = baseManagedActionResponse req operation ''apply'';
          lock = managementLockoutActive L req operation res b; b1 = snd lock in
      case fst lock of Some refusal \<Rightarrow> ((refusal, Some errLockoutActive), b1)
      | None \<Rightarrow>
          if validateManagedAction req True \<noteq> None \<or> \<not> maConfirm req \<or> trimSpace (maValue req) = [] then
            let r = recordManagementPolicyDenied L req operation
                  (res\<lparr>mxOutcome := ''policy_denied'', mxNextAction := ''run_dry_run_confirm_reason_and_value''\<rparr>) b1;
                b2 = auditManaged L (''management_'' @ operation @ ''_apply'') (mxOutcome (fst r)) req (snd r) in
            ((fst r, Some (if mxLockoutActive (fst r) then errLockoutActive else errPolicyDenied)), b2)
          else
            let w = writeSecret L (managedWriteRequest req operation) b1; written = fst (fst w) in
            (case snd (fst w) of
               Some err \<Rightarrow> let outcome = outcomeForError err in
                 ((res\<lparr>mxOutcome := outcome, mxNextAction := nextActionForManagedOutcome outcome\<rparr>, Some err), snd w)
             | None \<Rightarrow>
                 ((res\<lparr>mxOutcome := ''applied'', mxApplied := True, mxAuditStatus := ''audit_recorded'', mxMetadata := Some (wrMetadata written),
                     mxRecord := Some (managedRecordFromLocalEntry (maRef req) (writtenEntry (maRef req) (wrMetadata written)))\<rparr>, None),
                  auditManaged L (''management_'' @ operation @ ''_apply'') ''applied'' req (recordManagementSuccess req operation (snd w)))))"

definition managedEditApply :: "'z golib_scheme \<Rightarrow> managedSecretActionRequest \<Rightarrow> 'm backend_scheme \<Rightarrow> 'm backend_scheme actionResult" where
  "managedEditApply L req b = managedWriteApply L req ''edit'' b"

definition managedResetApply :: "'z golib_scheme \<Rightarrow> managedSecretActionRequest \<Rightarrow> 'm backend_scheme \<Rightarrow> 'm backend_scheme actionResult" where
  "managedResetApply L req b = managedWriteApply L req ''reset'' b"

subsection \<open>Provisioning\<close>

definition firstGeneratedValuePolicy ::
  "generatedValuePolicyMetadata \<Rightarrow> generatedValuePolicyMetadata \<Rightarrow> generatedValuePolicyMetadata" where
  "firstGeneratedValuePolicy candidate fallback =
     \<lparr>gvKind = orDefault (trimSpace (gvKind candidate)) (gvKind fallback),
      gvLengthClass = orDefault (trimSpace (gvLengthClass candidate)) (gvLengthClass fallback),
      gvEntropyClass = orDefault (trimSpace (gvEntropyClass candidate)) (gvEntropyClass fallback),
      gvRotationPolicy = orDefault (trimSpace (gvRotationPolicy candidate)) (gvRotationPolicy fallback)\<rparr>"

definition normalizeProvisioningGenerationMode :: "string \<Rightarrow> string" where
  "normalizeProvisioningGenerationMode mode = orDefault (trimSpace mode) ''caller_provided''"

definition validProvisioningGenerationMode :: "string \<Rightarrow> bool" where
  "validProvisioningGenerationMode mode \<longleftrightarrow> mode \<in> {''caller_provided'', ''broker_generated''}"

definition validBrokerGeneratedProvisioningOperation :: "string \<Rightarrow> bool" where
  "validBrokerGeneratedProvisioningOperation operation \<longleftrightarrow> operation \<in> {''create'', ''update'', ''rotate''}"

definition randomBytes :: "nat \<Rightarrow> 'm backend_scheme \<Rightarrow> string option \<times> 'm backend_scheme" where
  "randomBytes n b =
     ((case bRandom b of [] \<Rightarrow> Some (replicate n (CHR 0x00))
       | None # _ \<Rightarrow> None
       | Some r # _ \<Rightarrow> Some (take n (r @ replicate n (CHR 0x00)))),
      b\<lparr>bRandom := tl (bRandom b)\<rparr>)"

definition provisioningLength :: "generatedValuePolicyMetadata \<Rightarrow> nat option" where
  "provisioningLength p =
     (let c = trimSpace (gvLengthClass p) in
      if c \<in> {[], ''policy_default'', ''32_bytes''} then Some 32
      else if c = ''16_bytes'' then Some 16
      else if c = ''64_bytes'' then Some 64
      else None)"

definition generateBrokerProvisioningValue ::
  "'z golib_scheme \<Rightarrow> generatedValuePolicyMetadata \<Rightarrow> 'm backend_scheme \<Rightarrow> (gerror + string) \<times> 'm backend_scheme" where
  "generateBrokerProvisioningValue L p b =
     (case provisioningLength p of None \<Rightarrow> (Inl errPolicyDenied, b)
      | Some n \<Rightarrow>
          if trimSpace (gvEntropyClass p) \<notin> {[], ''policy_default'', ''cryptographic''} then (Inl errPolicyDenied, b)
          else let r = randomBytes n b in
            (case fst r of None \<Rightarrow> Inl errBackendDegraded | Some buf \<Rightarrow> Inr (b64RawURLEncode L buf), snd r))"

definition provisioningMode :: "provisioningOperationRequest \<Rightarrow> string" where
  "provisioningMode req =
     (if poRequireBrokerGenerate req then ''broker_generated'' else normalizeProvisioningGenerationMode (poGenerationMode req))"

definition baseProvisioningResponse :: "provisioningOperationRequest \<Rightarrow> string \<Rightarrow> string \<Rightarrow> provisioningOperationResponse" where
  "baseProvisioningResponse req mode service =
     (let ref = trimSpace (poRef req) in
      \<lparr>pnServiceID = serviceID, pnAPIVersion = apiVersion, pnRequestID = poRequestID req, pnOwnerServiceID = ownerFromRef ref,
       pnNamespace = namespaceFromRef ref, pnRef = ref, pnOperation = normalizeWritebackOperation (poOperation req), pnMode = mode,
       pnGenerationMode = provisioningMode req, pnOutcome = ''pending'', pnApplied = False, pnRequiresConfirmation = False,
       pnWritebackEndpoint = [], pnNextAction = [], pnAuditStatus = ''audit_pending'', pnPolicyResult = ''unknown'',
       pnProvisionedState = [], pnLastOutcome = [],
       pnGeneratedValuePolicy = firstGeneratedValuePolicy (poGeneratedValuePolicy req) (defaultGeneratedValuePolicy ref),
       pnUnsupportedCapability = [], pnAffectedRefs = safeList [ref], pnAffectedServices = safeList [firstNonEmpty service (ownerFromRef ref)]\<rparr>)"

definition planProvisioningOperation ::
  "'z golib_scheme \<Rightarrow> registryIO \<Rightarrow> provisioningOperationRequest \<Rightarrow> 'm backend_scheme \<Rightarrow> 'm backend_scheme provisioningResult" where
  "planProvisioningOperation L io req b =
     (let res = baseProvisioningResponse req ''plan'' (poServiceID req); ref = pnRef res;
          finish = (\<lambda>r err. ((r, err), audit_ignored L ''provisioning_plan'' ref (pnOutcome r) (poServiceID req) (poRequestID req) b)) in
      if \<not> validSecretRef ref \<or> \<not> validWritebackOperation (pnOperation res) \<or> \<not> validProvisioningGenerationMode (pnGenerationMode res) then
        finish (res\<lparr>pnOutcome := ''invalid_ref'', pnNextAction := ''provide_valid_ref_operation_and_generation_mode''\<rparr>) (Some errInvalidRef)
      else
        let ls = listProvisioningStatus L io [] ref b in
        (case snd ls of
           Some err \<Rightarrow> let outcome = outcomeForError err in
             finish (res\<lparr>pnOutcome := outcome, pnNextAction := nextActionForProvisioningOutcome outcome\<rparr>) (Some err)
         | None \<Rightarrow>
             let res1 = (case peResults (fst ls) of
                   [one] \<Rightarrow> res\<lparr>pnProvisionedState := psProvisionedState one, pnLastOutcome := psLastOutcome one, pnPolicyResult := psPolicyResult one\<rparr>
                 | _ \<Rightarrow> res) in
             if pnGenerationMode res = ''broker_generated'' then
               finish (res1\<lparr>pnOutcome := ''ready'', pnRequiresConfirmation := True, pnPolicyResult := ''allowed'', pnAuditStatus := ''audit_ready'',
                 pnNextAction := ''call_broker_generated_apply_with_signed_identity_policy_and_audit_reason''\<rparr>) None
             else
               finish (res1\<lparr>pnOutcome := ''ready'', pnRequiresConfirmation := True, pnWritebackEndpoint := ''/v1/writeback'',
                 pnNextAction := ''submit_signed_writeback_with_value_and_audit_reason'', pnAuditStatus := ''audit_ready'',
                 pnPolicyResult := (if pnPolicyResult res1 = ''unknown'' then ''allowed'' else pnPolicyResult res1)\<rparr>) None))"

definition provisioningCaptureRequest :: "provisioningOperationRequest \<Rightarrow> string \<Rightarrow> generatedSecretCaptureRequest" where
  "provisioningCaptureRequest req value =
     (let ref = trimSpace (poRef req); operation = normalizeWritebackOperation (poOperation req) in
      \<lparr>gqRequestID = poRequestID req, gqIdentity = poIdentity req, gqIdentityLease = poIdentityLease req, gqPolicy = poPolicy req,
       gqSecrets = poSecrets req, gqOperation = operation, gqNamespace = namespaceFromRef ref, gqRef = refName ref, gqValue = value,
       gqMetadata = [(''sourceId'', ''broker-generated:'' @ firstNonEmpty (firstNonEmpty (wiServiceID (poIdentity req)) (poServiceID req)) (ownerFromRef ref))],
       gqRefreshRequired = (operation = ''rotate'' \<or> operation = ''update''), gqReconnectRequired = False, gqInvalidateRefs = [ref],
       gqSourceAuthRequired = False\<rparr>)"

definition applyProvisioningOperation ::
  "'z golib_scheme \<Rightarrow> provisioningOperationRequest \<Rightarrow> 'm backend_scheme \<Rightarrow> 'm backend_scheme provisioningResult" where
  "applyProvisioningOperation L req b =
     (let res = baseProvisioningResponse req ''apply'' (firstNonEmpty (poServiceID req) (wiServiceID (poIdentity req))); ref = pnRef res;
          finish = (\<lambda>r err b'. ((r, err), audit_ignored L ''provisioning_apply'' ref (pnOutcome r)
            (firstNonEmpty (wiServiceID (poIdentity req)) (poServiceID req)) (poRequestID req) b')) in
      if \<not> validSecretRef ref \<or> \<not> validWritebackOperation (pnOperation res) \<or> \<not> validProvisioningGenerationMode (pnGenerationMode res)
         \<or> \<not> validBrokerGeneratedProvisioningOperation (pnOperation res) then
        finish (res\<lparr>pnOutcome := ''invalid_ref'', pnNextAction := ''provide_valid_ref_operation_and_generation_mode''\<rparr>) (Some errInvalidRef) b
      else if pnGenerationMode res \<noteq> ''broker_generated'' then
        finish (res\<lparr>pnOutcome := ''unsupported'', pnPolicyResult := ''unsupported'', pnAuditStatus := ''audit_ready'',
          pnUnsupportedCapability := ''caller_provided_apply'', pnNextAction := ''use_signed_writeback_endpoint_for_caller_provided_values''\<rparr>)
          (Some errUnsupportedProvider) b
      else if \<not> poConfirm req \<or> trimSpace (poReason req) = [] then
        finish (res\<lparr>pnOutcome := ''policy_denied'', pnPolicyResult := ''denied'', pnAuditStatus := ''audit_required'',
          pnNextAction := ''confirm_with_audit_reason''\<rparr>) (Some errPolicyDenied) b
      else attempt (generateBrokerProvisioningValue L (pnGeneratedValuePolicy res) b)
        (\<lambda>_ b1. finish (res\<lparr>pnOutcome := ''policy_denied'', pnPolicyResult := ''denied'', pnAuditStatus := ''audit_ready'',
            pnNextAction := ''provide_supported_generated_value_policy''\<rparr>) (Some errPolicyDenied) b1)
        (\<lambda>value b1.
           let c = captureGeneratedSecret L (provisioningCaptureRequest req value) b1; outcome = grOutcome (fst (fst c));
               res1 = res\<lparr>pnLastOutcome := outcome, pnProvisionedState := provisioningStateForOutcome outcome\<rparr> in
           (case snd (fst c) of
              Some err \<Rightarrow>
                finish (res1\<lparr>pnOutcome := outcome, pnPolicyResult := policyResultForProvisioningOutcome outcome, pnAuditStatus := ''audit_recorded'',
                  pnNextAction := nextActionForProvisioningOutcome outcome\<rparr>) (Some err) (snd c)
            | None \<Rightarrow>
                finish (res1\<lparr>pnOutcome := ''applied'', pnApplied := True, pnPolicyResult := ''allowed'', pnAuditStatus := ''audit_recorded'',
                  pnProvisionedState := ''ready'', pnLastOutcome := outcome, pnNextAction := ''refresh_service_or_continue_startup''\<rparr>) None (snd c))))"

subsection \<open>Endpoints\<close>

definition writeManagementError :: "gerror \<Rightarrow> string \<Rightarrow> string \<Rightarrow> 'r reply" where
  "writeManagementError err outcome message =
     writeAPIError (if errorIs err errInvalidRef then 400 else 503) (outcomeForError err) message outcome (nextActionForManagedOutcome outcome)"

definition writeManagementActionError :: "gerror \<Rightarrow> managedSecretActionResponse \<Rightarrow> managedSecretActionResponse reply" where
  "writeManagementActionError err res =
     Json (if errorIs err errInvalidRef then 400 else if errorIs err errMissingRef then 404 else if errorIs err errPolicyDenied then 403
       else if errorIs err errLockoutActive then 423 else if errorIs err errSourceAuthRequired then 424
       else if errorIs err errUnsupportedProvider then 501 else 503) res"

definition provisioningStatusHandler ::
  "'z golib_scheme \<Rightarrow> registryIO \<Rightarrow> string \<Rightarrow> httpRequest \<Rightarrow> string \<Rightarrow> string \<Rightarrow> 'm backend_scheme
    \<Rightarrow> provisioningStatusResponse reply \<times> 'm backend_scheme" where
  "provisioningStatusHandler L io token r search ref b =
     (if hMethod r \<noteq> ''GET'' then (writeAPIError 405 ''method_not_allowed'' ''Use GET /v1/provisioning/status.'' ''invalid_ref'' [], b)
      else check (require L token r b) (\<lambda>refusal b1. (refusal, b1))
        (\<lambda>b1. let ls = listProvisioningStatus L io search ref b1 in
           (case snd ls of Some err \<Rightarrow> writeManagementError err (peOutcome (fst ls)) ''Provisioning status failed closed.''
            | None \<Rightarrow> Json 200 (fst ls), b1)))"

definition provisioningPlanHandler ::
  "'z golib_scheme \<Rightarrow> registryIO \<Rightarrow> string \<Rightarrow> httpRequest \<Rightarrow> provisioningOperationRequest decoded \<Rightarrow> 'm backend_scheme
    \<Rightarrow> provisioningOperationResponse reply \<times> 'm backend_scheme" where
  "provisioningPlanHandler L io token r body b =
     (if hMethod r \<noteq> ''POST'' then
        (writeAPIError 405 ''method_not_allowed'' ''Use POST /v1/provisioning/operations/plan.'' ''invalid_ref'' [], b)
      else check (require L token r b) (\<lambda>refusal b1. (refusal, b1))
        (\<lambda>b1. case body of BodyTooLarge \<Rightarrow> (writeDecodeError True, b1) | BodyMalformed \<Rightarrow> (writeDecodeError False, b1)
         | Decoded req \<Rightarrow> let h = planProvisioningOperation L io req b1 in
             (Json (case snd (fst h) of None \<Rightarrow> 200
                | Some err \<Rightarrow> if errorIs err errInvalidRef then 400 else if errorIs err errLocked then 503
                    else if errorIs err errUnsupportedProvider then 501 else 503) (fst (fst h)), snd h)))"

text \<open>The lease is checked against a request of the reference's parts; what the check makes of that request is dropped.\<close>

definition provisioningLeaseRequest :: "provisioningOperationRequest \<Rightarrow> generatedSecretCaptureRequest" where
  "provisioningLeaseRequest req =
     (let ref = trimSpace (poRef req) in
      \<lparr>gqRequestID = [], gqIdentity = poIdentity req, gqIdentityLease = poIdentityLease req,
       gqPolicy = \<lparr>wpAllowedNamespaces = [], wpAllowedOperations = []\<rparr>, gqSecrets = None,
       gqOperation = normalizeWritebackOperation (poOperation req), gqNamespace = namespaceFromRef ref, gqRef = refName ref, gqValue = [],
       gqMetadata = [], gqRefreshRequired = False, gqReconnectRequired = False, gqInvalidateRefs = [], gqSourceAuthRequired = False\<rparr>)"

definition provisioningApplyHandler ::
  "'z golib_scheme \<Rightarrow> string \<Rightarrow> transportPeerIdentity option \<Rightarrow> httpRequest \<Rightarrow> provisioningOperationRequest decoded \<Rightarrow> 'm backend_scheme
    \<Rightarrow> provisioningOperationResponse reply \<times> 'm backend_scheme" where
  "provisioningApplyHandler L token ctx r body b =
     (if hMethod r \<noteq> ''POST'' then
        (writeAPIError 405 ''method_not_allowed'' ''Use POST /v1/provisioning/operations/apply.'' ''invalid_ref'' [], b)
      else check (require L token r b) (\<lambda>refusal b1. (refusal, b1))
        (\<lambda>b1. case body of BodyTooLarge \<Rightarrow> (writeDecodeError True, b1) | BodyMalformed \<Rightarrow> (writeDecodeError False, b1)
         | Decoded req \<Rightarrow>
             let run = (\<lambda>b2. let h = applyProvisioningOperation L req b2 in
               (Json (case snd (fst h) of None \<Rightarrow> 200
                  | Some err \<Rightarrow> if errorIs err errInvalidRef then 400 else if errorIs err errPolicyDenied then 403
                      else if errorIs err errUnsupportedProvider then 501 else 503) (fst (fst h)), snd h)) in
             if poRequireBrokerGenerate req \<or> normalizeProvisioningGenerationMode (poGenerationMode req) = ''broker_generated'' then
               attempt (authorizeWritebackLaunchLease L (provisioningLeaseRequest req) (launchLeaseSigningKey token b1)
                   (transportPeerIdentityFromContext L ctx) b1)
                 (\<lambda>err b2. (writeLaunchIdentityAPIError err, b2)) (\<lambda>_ b2. run b2)
             else run b1))"

definition managedSecretsHandler ::
  "'z golib_scheme \<Rightarrow> registryIO \<Rightarrow> string \<Rightarrow> httpRequest \<Rightarrow> string \<Rightarrow> 'm backend_scheme
    \<Rightarrow> managedSecretsResponse reply \<times> 'm backend_scheme" where
  "managedSecretsHandler L io token r search b =
     (if hMethod r \<noteq> ''GET'' then (writeAPIError 405 ''method_not_allowed'' ''Use GET /v1/management/secrets.'' ''invalid_ref'' [], b)
      else check (require L token r b) (\<lambda>refusal b1. (refusal, b1))
        (\<lambda>b1. let ls = listManagedSecrets L io search False b1 in
           (case snd ls of Some err \<Rightarrow> writeManagementError err (mlOutcome (fst ls)) ''List managed secrets failed.''
            | None \<Rightarrow> Json 200 (fst ls), b1)))"

definition valueSearchHandler ::
  "'z golib_scheme \<Rightarrow> registryIO \<Rightarrow> string \<Rightarrow> httpRequest \<Rightarrow> string \<Rightarrow> 'm backend_scheme
    \<Rightarrow> managedSecretsResponse reply \<times> 'm backend_scheme" where
  "valueSearchHandler L io token r query b =
     (if hMethod r \<noteq> ''GET'' then
        (writeAPIError 405 ''method_not_allowed'' ''Use GET /v1/management/secrets/value-search.'' ''invalid_ref'' [], b)
      else check (require L token r b) (\<lambda>refusal b1. (refusal, b1))
        (\<lambda>b1. let ls = listManagedSecrets L io query True b1 in
           (case snd ls of Some err \<Rightarrow> writeManagementError err (mlOutcome (fst ls)) ''Value search failed closed.''
            | None \<Rightarrow> Json 200 (fst ls), b1)))"

definition registerManagedAction ::
  "'z golib_scheme \<Rightarrow> string \<Rightarrow> string \<Rightarrow> (managedSecretActionRequest \<Rightarrow> 'm backend_scheme \<Rightarrow> 'm backend_scheme actionResult)
    \<Rightarrow> httpRequest \<Rightarrow> managedSecretActionRequest decoded \<Rightarrow> 'm backend_scheme \<Rightarrow> managedSecretActionResponse reply \<times> 'm backend_scheme" where
  "registerManagedAction L token path handler r body b =
     (if hMethod r \<noteq> ''POST'' then (writeAPIError 405 ''method_not_allowed'' (''Use POST '' @ path @ ''.'') ''invalid_ref'' [], b)
      else check (require L token r b) (\<lambda>refusal b1. (refusal, b1))
        (\<lambda>b1. case body of BodyTooLarge \<Rightarrow> (writeDecodeError True, b1) | BodyMalformed \<Rightarrow> (writeDecodeError False, b1)
         | Decoded req \<Rightarrow> let h = handler req b1 in
             (case snd (fst h) of Some err \<Rightarrow> writeManagementActionError err (fst (fst h)) | None \<Rightarrow> Json 200 (fst (fst h)), snd h)))"

definition managedActionHandlers ::
  "'z golib_scheme \<Rightarrow> registryIO \<Rightarrow> (string \<times> (managedSecretActionRequest \<Rightarrow> 'm backend_scheme \<Rightarrow> 'm backend_scheme actionResult)) list" where
  "managedActionHandlers L io =
     [(''/v1/management/secrets/reveal'', revealManagedSecret L io), (''/v1/management/secrets/edit/dry-run'', managedEditDryRun L io),
      (''/v1/management/secrets/edit/apply'', managedEditApply L), (''/v1/management/secrets/reset/dry-run'', managedResetDryRun L io),
      (''/v1/management/secrets/reset/apply'', managedResetApply L), (''/v1/management/secrets/policy/preview'', managedPolicyPreview L io),
      (''/v1/management/secrets/policy/apply'', managedPolicyApply L io)]"

end
