(* ===== verification/Management_Facts.thy ===== *)
theory Management_Facts
  imports Secrets_Management Broker_Runs "HOL-Library.Multiset"
begin

text \<open>
  Facts about managed secrets: what an edit or a reset can do to the store, that a locked scope lets nothing
  through, where a provisioned value goes, and that the catalogue shows every reference once.
\<close>

subsection \<open>What the management operations leave alone\<close>

definition actionFrame :: "'m backend_scheme \<Rightarrow> 'm backend_scheme \<Rightarrow> bool" where
  "actionFrame b b' \<longleftrightarrow> bDisk b' = bDisk b \<and> bMasterKey b' = bMasterKey b \<and> bSources b' = bSources b \<and> bNow b' = bNow b"

lemma frame_refl [simp]: "actionFrame b b"
  by (simp add: actionFrame_def)

lemma frame_vault: "actionFrame b b' \<Longrightarrow> vault L b' = vault L b"
  by (rule vault_cong) (simp_all add: actionFrame_def)

lemma frame_locks [simp]: "actionFrame b (b'\<lparr>bLockouts := l\<rparr>) = actionFrame b b'"
  by (simp add: actionFrame_def)

lemma frame_audits [simp]:
  "actionFrame b (audit_ignored L op ref oc svc rid b') = actionFrame b b'" "actionFrame b (auditManaged L op oc req b') = actionFrame b b'"
  "actionFrame b (managementLockoutAudit L req b') = actionFrame b b'"
  by (simp_all add: actionFrame_def auditManaged_def managementLockoutAudit_def)

lemma frame_lockout_calls [simp]:
  "actionFrame b (snd (managementLockoutActive L req op res b')) = actionFrame b b'"
  "actionFrame b (snd (recordManagementPolicyDenied L req op res b')) = actionFrame b b'"
  "actionFrame b (recordManagementSuccess req op b') = actionFrame b b'"
  by (simp_all add: managementLockoutActive_def recordManagementPolicyDenied_def recordManagementSuccess_def Let_def)

lemma frame_resolve [simp]: "bNow (snd (resolve L io req b)) = bNow b \<Longrightarrow> actionFrame b' (snd (resolve L io req b)) = actionFrame b' b"
  using resolveAll_keeps [of L io req "loadStore b" "rqRefs req" b] by (simp add: actionFrame_def resolve_def Let_def)

subsection \<open>Edit and reset\<close>

definition managedScopeLocked :: "managedSecretActionRequest \<Rightarrow> string \<Rightarrow> 'm backend_scheme \<Rightarrow> bool" where
  "managedScopeLocked req operation b \<longleftrightarrow> (\<exists>s. bLockouts b = Some s \<and> locked s (managementLockoutScope req operation) (bNow b))"

lemma managementLockout_iff: "fst (managementLockoutActive L req op res b) = None \<longleftrightarrow> \<not> managedScopeLocked req op b"
  by (cases "bLockouts b")
    (simp_all add: managementLockoutActive_def managedScopeLocked_def active_iff_locked active_def noDecision_def Let_def case_prod_unfold)

definition writeAdmitted :: "managedSecretActionRequest \<Rightarrow> bool" where
  "writeAdmitted req \<longleftrightarrow> validSecretRef (maRef req) \<and> trimSpace (maReason req) \<noteq> [] \<and> maConfirm req \<and> trimSpace (maValue req) \<noteq> []"

lemma writeAdmitted_iff:
  "\<not> (validateManagedAction req True \<noteq> None \<or> \<not> maConfirm req \<or> trimSpace (maValue req) = []) \<longleftrightarrow> writeAdmitted req"
  by (auto simp: validateManagedAction_def writeAdmitted_def)

lemma managedWrite_cases:
  fixes b :: "'m backend_scheme"
  assumes "managedWriteApply L req op b = c"
  obtains (refused) "snd (fst c) \<noteq> None" "actionFrame b (snd c)" "\<not> mxApplied (fst (fst c))"
  | (written) b1 where "actionFrame b b1" "\<not> managedScopeLocked req op b" "writeAdmitted req"
      "snd (fst c) = snd (fst (writeSecret L (managedWriteRequest req op) b1))"
      "bDisk (snd c) = bDisk (snd (writeSecret L (managedWriteRequest req op) b1))" "bMasterKey (snd c) = bMasterKey b"
      "bSources (snd c) = bSources b" "mxApplied (fst (fst c)) \<longleftrightarrow> snd (fst c) = None"
proof -
  let ?res = "baseManagedActionResponse req op ''apply''"
  let ?lock = "managementLockoutActive L req op ?res b"
  have base: "\<not> mxApplied ?res" by (simp add: baseManagedActionResponse_def)
  show ?thesis
  proof (cases "fst ?lock")
    case (Some answer)
    then have "\<not> mxApplied answer" "fst c = (answer, Some errLockoutActive)" "snd c = snd ?lock"
      using assms by (auto simp: managedWriteApply_def managementLockoutActive_def applyManagementLockout_def Let_def split: if_splits)
    then show ?thesis using refused by simp
  next
    case None
    then have free: "\<not> managedScopeLocked req op b" by (simp add: managementLockout_iff)
    show ?thesis
    proof (cases "writeAdmitted req")
      case False
      then show ?thesis
        using assms None base refused by (auto simp: managedWriteApply_def Let_def writeAdmitted_iff [symmetric]
            recordManagementPolicyDenied_def applyManagementLockout_def split: if_splits)
    next
      case True
      let ?w = "writeSecret L (managedWriteRequest req op) (snd ?lock)"
      have "\<not> (validateManagedAction req True \<noteq> None \<or> \<not> maConfirm req \<or> trimSpace (maValue req) = [])"
        using True writeAdmitted_iff by blast
      then have "snd (fst c) = snd (fst ?w)" "bDisk (snd c) = bDisk (snd ?w)" "bMasterKey (snd c) = bMasterKey (snd ?w)"
          "bSources (snd c) = bSources (snd ?w)" "mxApplied (fst (fst c)) \<longleftrightarrow> snd (fst c) = None"
        using assms None base
        by (cases "snd (fst ?w)"; auto simp: managedWriteApply_def Let_def auditManaged_def recordManagementSuccess_def)+
      then show ?thesis using written [of "snd ?lock"] free True frame_lockout_calls(1) [of b L req op ?res b]
        by (simp add: actionFrame_def)
    qed
  qed
qed

definition managedEffect :: "managedSecretActionRequest \<Rightarrow> (string \<rightharpoonup> string) \<Rightarrow> string \<rightharpoonup> string" where
  "managedEffect req v = v(trimSpace (maRef req) \<mapsto> maValue req)"

lemma managedWriteRequest_sel [simp]:
  "wqRef (managedWriteRequest req op) = maRef req" "wqValue (managedWriteRequest req op) = maValue req"
  by (simp_all add: managedWriteRequest_def)

lemma managedWrite_vault:
  assumes "lib_ok L" "managedWriteApply L req op b = c"
  shows "(vault L (snd c) = managedEffect req (vault L b) \<and> \<not> managedScopeLocked req op b \<and> writeAdmitted req)
    \<or> (snd (fst c) \<noteq> None \<and> vault L (snd c) = vault L b)"
proof (cases rule: managedWrite_cases [OF assms(2), case_names refused written])
  case refused
  then show ?thesis using frame_vault by blast
next
  case (written b1)
  let ?w = "writeSecret L (managedWriteRequest req op) b1"
  have "vault L (snd c) = vault L (snd ?w)"
    using written(1,5,6) by (intro vault_cong) (simp_all add: actionFrame_def)
  then show ?thesis
    using writeSecret_vault [OF assms(1), of "managedWriteRequest req op" b1] written(2-4) frame_vault [OF written(1), of L]
    by (auto simp: managedEffect_def)
qed

lemma managedWrite_locked:
  assumes "managedWriteApply L req op b = c" "isLocked b"
  shows "vault L (snd c) = vault L b"
proof (cases rule: managedWrite_cases [OF assms(1), case_names refused written])
  case refused
  then show ?thesis using frame_vault by blast
next
  case (written b1)
  have "isLocked b1" using written(1) assms(2) by (simp add: actionFrame_def isLocked_def)
  then have "bDisk (snd (writeSecret L (managedWriteRequest req op) b1)) = bDisk b1"
    by (simp add: writeSecret_def Let_def)
  then show ?thesis using written(1,5,6) by (intro vault_cong) (simp_all add: actionFrame_def)
qed

interpretation edit_op: atomic_op "vault L" "\<lambda>req. managedWriteApply L req op" "\<lambda>r. snd r = None" managedEffect "\<lambda>_. lib_ok L"
proof
  show "lib_ok L \<Longrightarrow> snd (fst (managedWriteApply L a op s)) = None \<Longrightarrow>
      vault L (snd (managedWriteApply L a op s)) = managedEffect a (vault L s)" for a and s :: "'c backend_scheme"
    using managedWrite_vault [OF _ refl, of L a op s] by auto
  show "lib_ok L \<Longrightarrow> snd (fst (managedWriteApply L a op s)) \<noteq> None \<Longrightarrow>
      vault L (snd (managedWriteApply L a op s)) = vault L s
      \<or> vault L (snd (managedWriteApply L a op s)) = managedEffect a (vault L s)" for a and s :: "'c backend_scheme"
    using managedWrite_vault [OF _ refl, of L a op s] by auto
qed

text \<open>
  Property C30. Editing or resetting a managed secret refines one update of the map from references to values: a
  call that succeeds (and only such a call says \<open>applied\<close>) makes the update, one that fails has made it or left
  the map, and the map changes only if the broker is unlocked, the reference is well formed, a reason, a value and
  the confirmation are given, and the scope of the service and the reference is not locked out.
\<close>

theorem managed_write_refines_vault:
  assumes "lib_ok L" "managedWriteApply L req op b = ((res, err), b')"
  shows "(err = None \<longrightarrow> vault L b' = managedEffect req (vault L b)) \<and> (mxApplied res \<longrightarrow> err = None)
    \<and> (vault L b' = vault L b \<or> vault L b' = managedEffect req (vault L b))
    \<and> (vault L b' \<noteq> vault L b \<longrightarrow> \<not> isLocked b \<and> writeAdmitted req \<and> \<not> managedScopeLocked req op b)"
proof -
  have "mxApplied res \<longrightarrow> err = None"
    by (cases rule: managedWrite_cases [OF assms(2), case_names refused written]) simp_all
  then show ?thesis
    using managedWrite_vault [OF assms] managedWrite_locked [OF assms(2)] edit_op.run_atomic [OF assms(1), where a = req and s = b and op = op] assms(2) by auto
qed

definition demoEdit :: managedSecretActionRequest where
  "demoEdit = \<lparr>maRequestID = ''r'', maServiceID = ''op'', maRef = '' services/api/db'', maReason = ''leak'', maValue = ''v2'',
     maPolicy = [], maConfirm = True\<rparr>"

lemma demoEdit_admitted: "writeAdmitted demoEdit"
  by code_simp

lemma demoEdit_free: "\<not> managedScopeLocked demoEdit op demoBackend"
  by (simp add: managedScopeLocked_def demoBackend_locks locked_def newLockoutStore_def)

lemma managedWrite_faultless:
  fixes b :: "'m backend_scheme"
  assumes "faultless b" "writeAdmitted req" "\<not> managedScopeLocked req op b"
  shows "snd (fst (managedWriteApply L req op b)) = None"
proof -
  let ?b1 = "snd (managementLockoutActive L req op (baseManagedActionResponse req op ''apply'') b)"
  have k: "faultless ?b1"
    using assms(1,3) managementLockout_iff [of L req op "baseManagedActionResponse req op ''apply''" b]
    by (auto simp: managementLockoutActive_def faultless_def isLocked_def Let_def split: if_splits)
  have v: "validSecretRef (wqRef (managedWriteRequest req op))" using assms(2) by (simp add: writeAdmitted_def)
  have "\<not> (validateManagedAction req True \<noteq> None \<or> \<not> maConfirm req \<or> trimSpace (maValue req) = [])"
    using assms(2) writeAdmitted_iff by blast
  then show ?thesis
    using writeSecret_faultless(1) [OF k v, of L] assms(3) managementLockout_iff [of L req op "baseManagedActionResponse req op ''apply''" b]
    by (simp add: managedWriteApply_def Let_def)
qed

lemma demoEdit_runs:
  "managedWriteApply L demoEdit op demoBackend
     = ((fst (fst (managedWriteApply L demoEdit op demoBackend)), None), snd (managedWriteApply L demoEdit op demoBackend))"
  using managedWrite_faultless [OF demo_faultless demoEdit_admitted demoEdit_free, of L op] by (simp add: prod_eq_iff)

theorem managed_write_refines_vault_witness:
  "vault toy_lib (snd (managedWriteApply toy_lib demoEdit ''edit'' demoBackend)) ''services/api/db'' = Some ''v2''"
proof -
  have "managedEffect demoEdit (vault toy_lib demoBackend) ''services/api/db'' = Some ''v2''" by code_simp
  then show ?thesis
    using managed_write_refines_vault [OF toy_lib_ok demoEdit_runs [of toy_lib "''edit''"]] by simp
qed

subsection \<open>Reveal\<close>

lemma resolve_vault:
  assumes "\<not> isLocked b" "validSecretRef r" "vault L b (trimSpace r) = Some v" "rqSecrets req = None" "rqRefs req = [r]"
    and "\<not> srFound (resolveKind L io (bSources b) (trimSpace r) ''openbao'')"
  obtains x where "rsResults (fst (resolve L io req b)) = [x]" "rrOutcome x = ''ready''" "rrValue x = v"
proof -
  obtain e where e: "map_of (secretsOf (bDisk b)) (trimSpace r) = Some e" "decrypt L b (sePayload e) = Inr v"
    using assms(3) by (auto simp: vault_def split: option.splits sum.splits)
  then obtain s where s: "loadStore b = Inr s" "map_of (stSecrets s) (trimSpace r) = Some e"
    by (auto simp: secretsOf_def loadStore_def split: diskState.splits)
  let ?x = "answerFor L io req (loadStore b) b r"
  have "rrOutcome ?x = ''ready'' \<and> rrValue ?x = v"
    using assms s e(2) by (simp add: answerFor_def resolveOne_def resolveDefault_def resolveLocal_def emptyResult_def Let_def)
  then show ?thesis
    using that [of ?x] assms(5) by (simp add: resolve_def Let_def answerFor_def)
qed

lemma resolve_now [simp, store_frame]: "bNow (snd (resolve L io req b)) = bNow b"
proof -
  have one: "bNow (snd (resolveOne L io req ld r b)) = bNow b" for ld r and b :: "'m backend_scheme"
    by (simp add: resolveOne_def auditPolicyDecision_def resolveDefault_def resolveFromSource_def auditSourceLifecycle_def Let_def
        split: sum.split option.split)
  have "bNow (snd (resolveAll L io req ld rs b)) = bNow b" for ld rs and b :: "'m backend_scheme"
    by (induction rs arbitrary: b) (simp_all add: Let_def one)
  then show ?thesis by (simp add: resolve_def Let_def)
qed

lemma reveal_frame: "actionFrame b (snd (revealManagedSecret L io req b))"
  by (auto simp: revealManagedSecret_def revealRefused_def Let_def split: option.split)

text \<open>An open scope, a reason and a stored value: the reveal answers the value.\<close>

lemma reveal_vault:
  assumes "\<not> managedScopeLocked req ''reveal'' b" "validSecretRef (maRef req)" "trimSpace (maReason req) \<noteq> []" "\<not> isLocked b"
    and "vault L b (trimSpace (maRef req)) = Some v"
    and "\<not> srFound (resolveKind L (sourceIO.truncate io) (bSources b) (trimSpace (maRef req)) ''openbao'')"
  shows "snd (fst (revealManagedSecret L io req b)) = None" "mxValue (fst (fst (revealManagedSecret L io req b))) = v"
    "mxTTLSeconds (fst (fst (revealManagedSecret L io req b))) = revealTTLSeconds"
proof -
  let ?b1 = "snd (managementLockoutActive L req ''reveal'' (baseManagedActionResponse req ''reveal'' ''apply'') b)"
  have lock: "fst (managementLockoutActive L req ''reveal'' (baseManagedActionResponse req ''reveal'' ''apply'') b) = None"
    using assms(1) by (simp add: managementLockout_iff)
  have fr: "actionFrame b ?b1" by simp
  have ok: "validateManagedAction req True = None" using assms(2,3) by (simp add: validateManagedAction_def)
  have "\<not> isLocked ?b1" "vault L ?b1 (trimSpace (maRef req)) = Some v"
      "\<not> srFound (resolveKind L (sourceIO.truncate io) (bSources ?b1) (trimSpace (maRef req)) ''openbao'')"
    using fr frame_vault [OF fr, of L] assms(4-6) by (simp_all add: actionFrame_def isLocked_def)
  then obtain x where x: "rsResults (fst (resolve L (sourceIO.truncate io) (revealRequest req) ?b1)) = [x]" "rrOutcome x = ''ready''" "rrValue x = v"
    using resolve_vault [of ?b1 "maRef req" L v "revealRequest req" "sourceIO.truncate io"] assms(2) by (auto simp: revealRequest_def)
  show "snd (fst (revealManagedSecret L io req b)) = None" "mxValue (fst (fst (revealManagedSecret L io req b))) = v"
    "mxTTLSeconds (fst (fst (revealManagedSecret L io req b))) = revealTTLSeconds"
    using lock ok x by (simp_all add: revealManagedSecret_def Let_def)
qed

lemma managedWrite_keeps:
  assumes "managedWriteApply L req op b = c"
  shows "bSources (snd c) = bSources b" "bMasterKey (snd c) = bMasterKey b"
  by (cases rule: managedWrite_cases [OF assms, case_names refused written]; simp add: actionFrame_def)+

text \<open>
  Property C31. What an edit or a reset has written is what a reveal of the reference answers, for sixty seconds,
  provided the reveal gives a reason, its own scope is not locked out and no enabled OpenBao source maps the
  reference (such a source goes before the local store); every other reference keeps its value.
\<close>

theorem edit_then_reveal:
  assumes "lib_ok L" "managedWriteApply L req op b = ((res, None), b')"
    and "trimSpace (maRef rv) = trimSpace (maRef req)" "trimSpace (maReason rv) \<noteq> []" "\<not> managedScopeLocked rv ''reveal'' b'"
    and "\<not> srFound (resolveKind L (sourceIO.truncate io) (bSources b) (trimSpace (maRef req)) ''openbao'')"
  shows "snd (fst (revealManagedSecret L io rv b')) = None
    \<and> mxValue (fst (fst (revealManagedSecret L io rv b'))) = maValue req
    \<and> mxTTLSeconds (fst (fst (revealManagedSecret L io rv b'))) = 60
    \<and> (\<forall>r. r \<noteq> trimSpace (maRef req) \<longrightarrow> vault L b' r = vault L b r)
    \<and> vault L (snd (revealManagedSecret L io rv b')) = vault L b'"
proof -
  have w: "vault L b' = managedEffect req (vault L b)" "writeAdmitted req"
    using managedWrite_vault [OF assms(1,2)] by auto
  have k: "bSources b' = bSources b" "bMasterKey b' = bMasterKey b" using managedWrite_keeps [OF assms(2)] by simp_all
  have "\<not> isLocked b"
  proof (cases rule: managedWrite_cases [OF assms(2), case_names refused written])
    case (written b1)
    have "\<not> isLocked b1" using written(3,4) by (auto simp: writeSecret_def Let_def writeAdmitted_def split: if_splits)
    then show ?thesis using written(1) by (simp add: actionFrame_def isLocked_def)
  qed simp
  then have ul: "\<not> isLocked b'" using k(2) by (simp add: isLocked_def)
  have v: "validSecretRef (maRef rv)" using w(2) assms(3) validSecretRef_trim by (metis writeAdmitted_def)
  have val: "vault L b' (trimSpace (maRef rv)) = Some (maValue req)" using w(1) assms(3) by (simp add: managedEffect_def)
  have src: "\<not> srFound (resolveKind L (sourceIO.truncate io) (bSources b') (trimSpace (maRef rv)) ''openbao'')"
    using assms(3,6) k(1) by simp
  show ?thesis
    using reveal_vault [OF assms(5) v assms(4) ul val src] w(1) frame_vault [OF reveal_frame [of b' L io rv], of L]
    by (simp add: revealTTLSeconds_def managedEffect_def)
qed

definition demoRegistryIO :: registryIO where
  "demoRegistryIO = \<lparr>getenv = getenv demoIO, ioResolve = ioResolve demoIO, goQuote = goQuote demoIO, parseURL = (\<lambda>_. None),
     isLoopbackIP = (\<lambda>_. False), httpClientBuilds = (\<lambda>_. True)\<rparr>"

lemma demoEdit_locks: "bLockouts (snd (managedWriteApply L demoEdit op demoBackend)) = Some newLockoutStore"
proof -
  have n: "bLockouts (snd (managementLockoutActive L demoEdit op res demoBackend)) = Some newLockoutStore" for res
    by (simp add: managementLockoutActive_def active_def activeLocked_def newLockoutStore_def noDecision_def demoBackend_locks Let_def)
  have "fst (managementLockoutActive L demoEdit op res demoBackend) = None" for res
    using demoEdit_free by (simp add: managementLockout_iff)
  moreover have "\<not> (validateManagedAction demoEdit True \<noteq> None \<or> \<not> maConfirm demoEdit \<or> trimSpace (maValue demoEdit) = [])"
    using demoEdit_admitted writeAdmitted_iff by blast
  moreover have "snd (fst (managedWriteApply L demoEdit op demoBackend)) = None"
    using demoEdit_runs [of L op] by (metis fst_conv snd_conv)
  ultimately show ?thesis using n
    by (auto simp: managedWriteApply_def Let_def auditManaged_def recordManagementSuccess_def recordSuccess_def newLockoutStore_def
        split: option.splits)
qed

theorem edit_then_reveal_witness:
  "mxValue (fst (fst (revealManagedSecret toy_lib demoRegistryIO demoEdit (snd (managedWriteApply toy_lib demoEdit ''edit'' demoBackend))))) = ''v2''"
proof -
  have "\<not> managedScopeLocked demoEdit ''reveal'' (snd (managedWriteApply toy_lib demoEdit ''edit'' demoBackend))"
    by (simp add: managedScopeLocked_def demoEdit_locks locked_def newLockoutStore_def)
  moreover have "trimSpace (maReason demoEdit) \<noteq> []" using demoEdit_admitted by (simp add: writeAdmitted_def)
  moreover have "\<not> srFound (resolveKind toy_lib (sourceIO.truncate demoRegistryIO) (bSources demoBackend) (trimSpace (maRef demoEdit)) ''openbao'')"
    by code_simp
  moreover have "maValue demoEdit = ''v2''" by (simp add: demoEdit_def)
  ultimately show ?thesis
    using edit_then_reveal [OF toy_lib_ok demoEdit_runs [of toy_lib "''edit''"] refl, of demoRegistryIO] by simp
qed

subsection \<open>Lockouts of edits\<close>

text \<open>A refused edit counts one failure against its scope, whether or not the scope is locked.\<close>

lemma failure_after_active: "snd (recordFailureIn scope now (snd (activeLocked scope now s))) = snd (recordFailureIn scope now s)"
  by (auto simp: recordFailureIn_def activeLocked_def noDecision_def lockoutDecisionFor_def Let_def AList.delete_idem split: option.split)

lemma refused_edit:
  assumes "\<not> writeAdmitted req" "bLockouts b = Some s"
  shows "bLockouts (snd (managedWriteApply L req op b)) = Some (snd (recordFailureIn (managementLockoutScope req op) (bNow b) s))"
    and "actionFrame b (snd (managedWriteApply L req op b))"
proof -
  let ?res = "baseManagedActionResponse req op ''apply''"
  let ?lock = "managementLockoutActive L req op ?res b"
  let ?scope = "managementLockoutScope req op"
  have w: "validateManagedAction req True \<noteq> None \<or> \<not> maConfirm req \<or> trimSpace (maValue req) = []"
    using assms(1) writeAdmitted_iff by blast
  have l: "bLockouts (snd ?lock) = Some (snd (activeLocked ?scope (bNow b) s))" "bNow (snd ?lock) = bNow b"
    using assms(2) by (simp_all add: managementLockoutActive_def managementLockoutAudit_def active_def case_prod_unfold Let_def)
  show "bLockouts (snd (managedWriteApply L req op b)) = Some (snd (recordFailureIn ?scope (bNow b) s))"
  proof (cases "fst ?lock")
    case None
    then show ?thesis using w l
      by (simp add: managedWriteApply_def Let_def recordManagementPolicyDenied_def managementLockoutAudit_def auditManaged_def
          recordFailure_def case_prod_unfold failure_after_active)
  next
    case (Some answer)
    then have "locked s ?scope (bNow b)"
      using assms(2) managementLockout_iff [of L req op ?res b] by (simp add: managedScopeLocked_def)
    then have "snd (recordFailureIn ?scope (bNow b) s) = s" "snd (activeLocked ?scope (bNow b) s) = s"
      by (auto simp: failure_locked locked_def activeLocked_def)
    then show ?thesis using Some l by (simp add: managedWriteApply_def Let_def)
  qed
  show "actionFrame b (snd (managedWriteApply L req op b))"
    using w by (auto simp: managedWriteApply_def Let_def split: option.split)
qed

text \<open>A run of edits, each with the time at which it is made.\<close>

definition editRun ::
  "'z golib_scheme \<Rightarrow> string \<Rightarrow> (time \<times> managedSecretActionRequest) list \<Rightarrow> 'm backend_scheme \<Rightarrow> 'm backend_scheme" where
  "editRun L op calls b = fold (\<lambda>(t, req) b. snd (managedWriteApply L req op (b\<lparr>bNow := t\<rparr>))) calls b"

lemma editRun_refused:
  fixes b :: "'b backend_scheme"
  assumes "\<forall>(t, req) \<in> set calls. \<not> writeAdmitted req \<and> managementLockoutScope req op = scope" "bLockouts b = Some s"
  shows "bLockouts (editRun L op calls b) = Some (failAll scope (map fst calls) s)" "vault L (editRun L op calls b) = vault L b"
  using assms
proof (induction calls arbitrary: b s)
  case Nil
  { case 1 then show ?case by (simp add: editRun_def failAll_def) }
  { case 2 then show ?case by (simp add: editRun_def) }
next
  case (Cons c calls)
  obtain t req where c: "c = (t, req)" by fastforce
  have run: "editRun L op (c # calls) x = editRun L op calls (snd (managedWriteApply L req op (x\<lparr>bNow := t\<rparr>)))" for x :: "'b backend_scheme"
    by (simp add: editRun_def c)
  { case 1
    then have r: "\<not> writeAdmitted req" "managementLockoutScope req op = scope" "bLockouts (b\<lparr>bNow := t\<rparr>) = Some s" by (auto simp: c)
    show ?case unfolding run
      using Cons.IH(1) [OF _ refused_edit(1) [OF r(1,3), of L op]] 1(1) r(2) by (simp add: c failAll_def) }
  { case 2
    then have r: "\<not> writeAdmitted req" "managementLockoutScope req op = scope" "bLockouts (b\<lparr>bNow := t\<rparr>) = Some s" by (auto simp: c)
    have "vault L (snd (managedWriteApply L req op (b\<lparr>bNow := t\<rparr>))) = vault L (b\<lparr>bNow := t\<rparr>)" by (rule frame_vault [OF refused_edit(2) [OF r(1,3)]])
    also have "\<dots> = vault L b" by (rule vault_cong) simp_all
    finally show ?case unfolding run using Cons.IH(2) [OF _ refused_edit(1) [OF r(1,3), of L op]] 2(1) by simp }
qed

text \<open>
  Property C32. Edits (or resets) of a scope that are refused for a bad reference, a missing reason, a missing value
  or a missing confirmation lock the scope: with fewer than the threshold it stays open; after threshold-many, every
  request of the scope, also one that has everything, is refused as locked out until one cooldown after the last
  refusal, and none of these requests changes the value of any reference.
\<close>

theorem refused_edits_lock_scope:
  assumes "lockInv s" "bLockouts b = Some s" "map_of (entries s) (managementLockoutScope req op) = None"
    and "\<forall>(t, r) \<in> set calls. 0 < t \<and> \<not> writeAdmitted r \<and> managementLockoutScope r op = managementLockoutScope req op"
    and "int (length calls) \<le> threshold s" "0 < now"
  shows "(managedScopeLocked req op ((editRun L op calls b)\<lparr>bNow := now\<rparr>)
      \<longleftrightarrow> int (length calls) = threshold s \<and> now < fst (last calls) + cooldown s)
    \<and> (managedScopeLocked req op ((editRun L op calls b)\<lparr>bNow := now\<rparr>) \<longrightarrow>
        (let c = managedWriteApply L req op ((editRun L op calls b)\<lparr>bNow := now\<rparr>) in
         snd (fst c) = Some errLockoutActive \<and> \<not> mxApplied (fst (fst c)) \<and> vault L (snd c) = vault L b))"
proof -
  let ?b = "(editRun L op calls b)\<lparr>bNow := now\<rparr>"
  let ?scope = "managementLockoutScope req op"
  have c: "1 \<le> threshold s" "0 < cooldown s" "\<forall>t \<in> set (map fst calls). 0 < t" using assms(1,4) by (auto simp: lockInv_def)
  have r: "bLockouts (editRun L op calls b) = Some (failAll ?scope (map fst calls) s)" "vault L (editRun L op calls b) = vault L b"
    by (rule editRun_refused; use assms(2,4) in fastforce)+
  have v: "vault L ?b = vault L b" using r(2) vault_cong [of ?b "editRun L op calls b" L] by simp
  have iff: "managedScopeLocked req op ?b \<longleftrightarrow> int (length calls) = threshold s \<and> now < fst (last calls) + cooldown s"
  proof (cases "int (length calls) = threshold s")
    case True
    then have "calls \<noteq> []" using c(1) by auto
    then show ?thesis using failAll_locks [OF assms(3) c(1,2) _ c(3)] True r(1)
      by (simp add: managedScopeLocked_def locked_def last_map)
  next
    case False
    then have "int (length (map fst calls)) < threshold s" using assms(5) by simp
    from failAll_counting [OF assms(3) c(1,2) this c(3)] show ?thesis using False r(1) assms(6)
      by (auto simp: managedScopeLocked_def locked_def split: if_splits)
  qed
  have "snd (fst (managedWriteApply L req op ?b)) = Some errLockoutActive \<and> \<not> mxApplied (fst (fst (managedWriteApply L req op ?b)))
      \<and> vault L (snd (managedWriteApply L req op ?b)) = vault L b" if "managedScopeLocked req op ?b"
  proof -
    let ?lock = "managementLockoutActive L req op (baseManagedActionResponse req op ''apply'') ?b"
    have "fst ?lock \<noteq> None" using that managementLockout_iff [of L req op "baseManagedActionResponse req op ''apply''" ?b] by blast
    then obtain answer where a: "fst ?lock = Some answer" by blast
    then have "\<not> mxApplied answer"
      by (auto simp: managementLockoutActive_def applyManagementLockout_def Let_def split: if_splits)
    moreover have "vault L (snd ?lock) = vault L b" 
      using frame_vault [of ?b "snd ?lock" L] v by simp
    ultimately show ?thesis using a by (simp add: managedWriteApply_def Let_def)
  qed
  then show ?thesis using iff by (simp add: Let_def)
qed

text \<open>Three edits without the confirmation, and then one with it.\<close>

theorem refused_edits_lock_scope_witness:
  "snd (fst (managedWriteApply toy_lib demoEdit ''edit''
      ((editRun toy_lib ''edit'' (map (\<lambda>t. (t, demoEdit\<lparr>maConfirm := False\<rparr>)) [10, 11, 12]) demoBackend)\<lparr>bNow := 20\<rparr>))) = Some errLockoutActive"
proof -
  have n: "bLockouts demoBackend = Some newLockoutStore" by (rule demoBackend_locks)
  have "\<not> writeAdmitted (demoEdit\<lparr>maConfirm := False\<rparr>)" by (simp add: writeAdmitted_def)
  moreover have "managementLockoutScope (demoEdit\<lparr>maConfirm := False\<rparr>) ''edit'' = managementLockoutScope demoEdit ''edit''"
    by (simp add: managementLockoutScope_def)
  ultimately show ?thesis
    using refused_edits_lock_scope [OF inv_new n, of demoEdit "''edit''" "map (\<lambda>t. (t, demoEdit\<lparr>maConfirm := False\<rparr>)) [10, 11, 12]" 20 toy_lib]
    by (simp add: newLockoutStore_def localAPILockoutThreshold_def localAPILockoutCooldown_def Let_def)
qed

subsection \<open>Where a provisioned value goes\<close>

text \<open>Printing ASCII characters other than the space.\<close>

definition graphicText :: "string \<Rightarrow> bool" where
  "graphicText s \<longleftrightarrow> list_all (\<lambda>c. \<not> digit7 c \<and> \<not> isSpaceRune [c]) s"

lemma trimRunes_graphic: "list_all (\<lambda>r. \<not> isSpaceRune r) rs \<Longrightarrow> trimRunes rs = rs"
proof -
  have id: "dropWhile P xs = xs" if "list_all (\<lambda>r. \<not> P r) xs" for P and xs :: "string list"
    using that by (cases xs) simp_all
  assume a: "list_all (\<lambda>r. \<not> isSpaceRune r) rs"
  then have "list_all (\<lambda>r. \<not> isSpaceRune r) (rev rs)" by (simp add: list_all_iff)
  then show "trimRunes rs = rs" using a by (simp add: trimRunes_def id)
qed

lemma trimSpace_graphic: "graphicText s \<Longrightarrow> trimSpace s = s"
  by (simp add: trimSpace_def graphicText_def go_runes_ascii ascii_def list_all_iff trimRunes_graphic concat_map_singleton)

lemma graphic_append [simp]: "graphicText (s @ t) \<longleftrightarrow> graphicText s \<and> graphicText t"
  by (simp add: graphicText_def)

lemma graphic_slash [simp]: "graphicText (CHR ''/'' # s) \<longleftrightarrow> graphicText s"
  by (simp add: graphicText_def isSpaceRune_def)

lemma graphic_sub: "graphicText s \<Longrightarrow> set t \<subseteq> set s \<Longrightarrow> graphicText t"
  by (auto simp: graphicText_def list_all_iff)

lemma hasPrefix_one: "hasPrefix s [c] \<longleftrightarrow> s \<noteq> [] \<and> hd s = c"
  by (cases s) (auto simp: hasPrefix_def)

lemma hasSuffix_one: "hasSuffix s [c] \<longleftrightarrow> s \<noteq> [] \<and> last s = c"
  by (cases s rule: rev_cases) (auto simp: hasSuffix_def)

lemma valid_trimmed:
  assumes "validSecretRef r" "trimSpace r = r"
  shows "trimSlash r = r" "r \<noteq> []" "hd r \<noteq> CHR ''/''" "last r \<noteq> CHR ''/''"
proof -
  show n: "r \<noteq> []" "hd r \<noteq> CHR ''/''" "last r \<noteq> CHR ''/''"
    using assms by (auto simp: validSecretRef_def Let_def hasPrefix_one hasSuffix_one split: if_splits)
  show "trimSlash r = r" by (rule trimSlash_id [OF n])
qed

lemma splitOn_parts: "p \<in> set (splitOn d s) \<Longrightarrow> set p \<subseteq> set s"
proof (induction s arbitrary: p)
  case (Cons c s)
  show ?case using Cons.prems Cons.IH by (auto split: if_splits list.splits) blast+
qed simp

lemma splitOn_last_nonempty:
  assumes "validSecretRef r" "trimSpace r = r" "p \<in> set (splitOn (CHR ''/'') r)" shows "p \<noteq> []"
  using assms by (auto simp: validSecretRef_def Let_def list_all_iff split: if_splits)

text \<open>Where a reference is stored when it was split in namespace and name.\<close>

definition provisionedRef :: "string \<Rightarrow> string" where
  "provisionedRef ref = (if CHR ''/'' \<in> set ref then ref else ref @ ''/'' @ ref)"

lemma split_ref:
  assumes "validSecretRef r" "trimSpace r = r"
  shows "namespaceFromRef r @ ''/'' @ refName r = provisionedRef r" "set (namespaceFromRef r) \<subseteq> set r" "set (refName r) \<subseteq> set r"
    "CHR ''/'' \<notin> set (refName r)" "refName r \<noteq> []"
proof -
  let ?ps = "splitOn (CHR ''/'') r"
  note t = valid_trimmed(1) [OF assms]
  show n: "refName r \<noteq> []"
    using splitOn_last_nonempty [OF assms, of "last ?ps"] by (simp add: refName_def t Let_def)
  show s: "set (refName r) \<subseteq> set r" using splitOn_parts [of "last ?ps" "CHR ''/''" r] by (simp add: refName_def t Let_def)
  have free: "CHR ''/'' \<notin> set p" if "p \<in> set ?ps" for p
    using that by (induction r arbitrary: p) (auto split: if_splits list.splits)
  show "CHR ''/'' \<notin> set (refName r)" using free [of "last ?ps"] by (simp add: refName_def t Let_def)
  show "namespaceFromRef r @ ''/'' @ refName r = provisionedRef r" "set (namespaceFromRef r) \<subseteq> set r"
  proof (atomize (full), cases "CHR ''/'' \<in> set r")
    case False
    then show "namespaceFromRef r @ ''/'' @ refName r = provisionedRef r \<and> set (namespaceFromRef r) \<subseteq> set r"
      by (simp add: namespaceFromRef_def refName_def t Let_def splitOn_free provisionedRef_def)
  next
    case True
    have l: "\<not> length ?ps \<le> 1"
    proof
      assume "length ?ps \<le> 1"
      then obtain p where "?ps = [p]" by (cases ?ps) (auto simp: le_Suc_eq)
      then show False using join_split [of "CHR ''/''" r] free [of p] True by simp
    qed
    then have b: "butlast ?ps \<noteq> []" by (cases ?ps rule: rev_cases) auto
    have "joinWith ''/'' (butlast ?ps @ [last ?ps]) = joinWith ''/'' (butlast ?ps) @ ''/'' @ last ?ps"
      using joinWith_append [OF b, of "[last ?ps]" "''/''"] by simp
    then have j: "joinWith ''/'' (butlast ?ps) @ ''/'' @ last ?ps = r" using join_split [of "CHR ''/''" r] by simp
    have ns: "namespaceFromRef r = joinWith ''/'' (butlast ?ps)" using l by (simp add: namespaceFromRef_def t Let_def)
    have "set (joinWith ''/'' (butlast ?ps)) \<subseteq> set (joinWith ''/'' (butlast ?ps) @ ''/'' @ last ?ps)" by auto
    then have "set (namespaceFromRef r) \<subseteq> set r" unfolding ns j .
    then show "namespaceFromRef r @ ''/'' @ refName r = provisionedRef r \<and> set (namespaceFromRef r) \<subseteq> set r"
      using True j ns by (simp add: refName_def t Let_def provisionedRef_def)
  qed
qed

lemma provisioning_target_ref:
  assumes "validSecretRef (poRef req)" "graphicText (trimSpace (poRef req))"
  shows "grRef (captureResponse (provisioningCaptureRequest req v)) = provisionedRef (trimSpace (poRef req))"
    "trimSpace (provisionedRef (trimSpace (poRef req))) = provisionedRef (trimSpace (poRef req))"
proof -
  let ?r = "trimSpace (poRef req)"
  have v: "validSecretRef ?r" "trimSpace ?r = ?r" using assms(1) by simp_all
  note sp = split_ref [OF v]
  have g: "graphicText (namespaceFromRef ?r)" "graphicText (refName ?r)" using graphic_sub [OF assms(2)] sp(2,3) by blast+
  then show "trimSpace (provisionedRef ?r) = provisionedRef ?r"
    by (intro trimSpace_graphic) (simp flip: sp(1))
  have "trimSlash (refName ?r) = refName ?r"
    using sp(4,5) by (intro trimSlash_id) (auto dest: hd_in_set last_in_set)
  moreover have "trimSlash (provisionedRef ?r) = provisionedRef ?r"
    using valid_trimmed(2-4) [OF v] by (intro trimSlash_id) (auto simp: provisionedRef_def)
  ultimately show "grRef (captureResponse (provisioningCaptureRequest req v)) = provisionedRef ?r"
    using g by (simp add: captureResponse_def provisioningCaptureRequest_def Let_def trimSpace_graphic flip: sp(1))
qed

lemma randomBytes_length: "fst (randomBytes n b) = Some bytes \<Longrightarrow> length bytes = n"
  by (auto simp: randomBytes_def split: list.splits option.splits)

lemma generated_value:
  assumes "fst (generateBrokerProvisioningValue L p b) = Inr v"
  obtains bytes where "v = b64RawURLEncode L bytes" "length bytes \<in> {16, 32, 64}"
proof -
  obtain n bytes where "provisioningLength p = Some n" "fst (randomBytes n b) = Some bytes" "v = b64RawURLEncode L bytes"
    using assms by (auto simp: generateBrokerProvisioningValue_def Let_def split: option.splits if_splits)
  moreover from this(1) have "n \<in> {16, 32, 64}" by (auto simp: provisioningLength_def Let_def split: if_splits)
  ultimately show ?thesis using that randomBytes_length by blast
qed

lemma generated_frame: "actionFrame b (snd (generateBrokerProvisioningValue L p b))"
  by (simp add: generateBrokerProvisioningValue_def randomBytes_def actionFrame_def Let_def split: option.split)

text \<open>A provisioning is refused without effect, or it is a capture of a fresh value.\<close>

lemma provisioning_cases:
  assumes "applyProvisioningOperation L req b = c"
  obtains (refused) "snd (fst c) \<noteq> None" "\<not> pnApplied (fst (fst c))" "actionFrame b (snd c)"
  | (captured) b1 v where "actionFrame b b1" "fst (generateBrokerProvisioningValue L (pnGeneratedValuePolicy
        (baseProvisioningResponse req ''apply'' (firstNonEmpty (poServiceID req) (wiServiceID (poIdentity req))))) b) = Inr v"
      "snd (fst c) = snd (fst (captureGeneratedSecret L (provisioningCaptureRequest req v) b1))"
      "bDisk (snd c) = bDisk (snd (captureGeneratedSecret L (provisioningCaptureRequest req v) b1))"
      "bMasterKey (snd c) = bMasterKey (snd (captureGeneratedSecret L (provisioningCaptureRequest req v) b1))"
      "pnApplied (fst (fst c)) \<longleftrightarrow> snd (fst c) = None" "pnRef (fst (fst c)) = trimSpace (poRef req)" "validSecretRef (poRef req)"
      "validBrokerGeneratedProvisioningOperation (normalizeWritebackOperation (poOperation req))" "poConfirm req" "trimSpace (poReason req) \<noteq> []"
proof -
  let ?res = "baseProvisioningResponse req ''apply'' (firstNonEmpty (poServiceID req) (wiServiceID (poIdentity req)))"
  let ?g = "generateBrokerProvisioningValue L (pnGeneratedValuePolicy ?res) b"
  have base: "\<not> pnApplied ?res" "pnRef ?res = trimSpace (poRef req)" "pnOperation ?res = normalizeWritebackOperation (poOperation req)"
    by (simp_all add: baseProvisioningResponse_def Let_def)
  let ?bad = "\<not> validSecretRef (pnRef ?res) \<or> \<not> validWritebackOperation (pnOperation ?res) \<or> \<not> validProvisioningGenerationMode (pnGenerationMode ?res)
     \<or> \<not> validBrokerGeneratedProvisioningOperation (pnOperation ?res)"
  let ?stop = "?bad \<or> pnGenerationMode ?res \<noteq> ''broker_generated'' \<or> \<not> poConfirm req \<or> trimSpace (poReason req) = []"
  show ?thesis
  proof (cases "?stop \<or> (\<exists>e. fst ?g = Inl e)")
    case True
    then show ?thesis
      using assms base refused generated_frame [of b L "pnGeneratedValuePolicy ?res"]
      by (auto simp: applyProvisioningOperation_def Let_def split: if_splits)
  next
    case False
    then obtain v where v: "fst ?g = Inr v" by (cases "fst ?g") auto
    let ?c = "captureGeneratedSecret L (provisioningCaptureRequest req v) (snd ?g)"
    have "snd (fst c) = snd (fst ?c)" "bDisk (snd c) = bDisk (snd ?c)" "bMasterKey (snd c) = bMasterKey (snd ?c)"
        "pnApplied (fst (fst c)) \<longleftrightarrow> snd (fst c) = None" "pnRef (fst (fst c)) = trimSpace (poRef req)"
      using assms False v base by (cases "snd (fst ?c)"; auto simp: applyProvisioningOperation_def Let_def)+
    then show ?thesis
      using captured [of "snd ?g" v] v False base generated_frame [of b L "pnGeneratedValuePolicy ?res"] by auto
  qed
qed

lemma normalizeOperation_idem [simp]: "normalizeWritebackOperation (normalizeWritebackOperation op) = normalizeWritebackOperation op"
proof -
  have "trimSpace ''create'' = ''create''" by code_simp
  then show ?thesis by (simp add: normalizeWritebackOperation_def Let_def)
qed


definition demoProvision :: "string \<Rightarrow> provisioningOperationRequest" where
  "demoProvision ref = \<lparr>poRequestID = ''q'', poServiceID = ''api'', poRef = ref, poOperation = ''create'', poGenerationMode = ''broker_generated'',
     poReason = ''setup'', poConfirm = True, poIdentity = \<lparr>wiServiceID = ''api'', wiExpiresAt = []\<rparr>, poIdentityLease = None,
     poPolicy = \<lparr>wpAllowedNamespaces = [''*''], wpAllowedOperations = [''create'']\<rparr>, poSecrets = None,
     poGeneratedValuePolicy = \<lparr>gvKind = [], gvLengthClass = ''16_bytes'', gvEntropyClass = [], gvRotationPolicy = []\<rparr>,
     poRequiresWriteback = False, poRequireBrokerGenerate = True\<rparr>"

lemma demoProvision_runs:
  "snd (fst (applyProvisioningOperation toy_lib (demoProvision ''token'') demoBackend)) = None"
proof -
  let ?v = "replicate 16 (CHR 0x00)"
  let ?q = "provisioningCaptureRequest (demoProvision ''token'') ?v"
  let ?p = "pnGeneratedValuePolicy (baseProvisioningResponse (demoProvision ''token'') ''apply''
      (firstNonEmpty (poServiceID (demoProvision ''token'')) (wiServiceID (poIdentity (demoProvision ''token'')))))"
  let ?b = "snd (generateBrokerProvisioningValue toy_lib ?p demoBackend)"
  have r: "bRandom demoBackend = []" using demo_faultless by (simp add: faultless_def)
  have len: "provisioningLength ?p = Some 16" "trimSpace (gvEntropyClass ?p) \<in> {[], ''policy_default'', ''cryptographic''}" by code_simp+
  have v: "fst (generateBrokerProvisioningValue toy_lib ?p demoBackend) = Inr ?v"
    using len r by (simp add: generateBrokerProvisioningValue_def randomBytes_def toy_lib_def Let_def)
  have b: "bLockouts ?b = Some newLockoutStore" "faultless ?b"
    using len r demoBackend_locks demo_faultless
    by (simp_all add: generateBrokerProvisioningValue_def randomBytes_def faultless_def isLocked_def Let_def)
  have "validSecretRef (grNamespace (captureResponse ?q))" "validSecretRef (grRef (captureResponse ?q))"
      "validWritebackOperation (grOperation (captureResponse ?q))" "grOwnerServiceID (captureResponse ?q) \<noteq> []"
      "trimSpace (wiExpiresAt (gqIdentity ?q)) = []"
      "namespaceAllowed (grNamespace (captureResponse ?q)) (wpAllowedNamespaces (gqPolicy ?q))"
      "operationAllowed (grOperation (captureResponse ?q)) (wpAllowedOperations (gqPolicy ?q))" "trimSlash (trimSpace (gqRef ?q)) \<noteq> []"
    by code_simp+
  moreover have "scopeFree f res ?b" "gqSecrets ?q = None" "\<not> gqSourceAuthRequired ?q" for f res
    using b(1) by (simp_all add: scopeFree_def locked_def newLockoutStore_def provisioningCaptureRequest_def demoProvision_def Let_def)
  ultimately have "captureGeneratedSecret toy_lib ?q ?b = captureStore toy_lib ?q (captureResponse ?q) ?b" "validSecretRef (grRef (captureResponse ?q))"
    using capture_fresh [OF b(1), of toy_lib ?q] by (simp_all add: captureAdmitted_def Let_def)
  then have c: "snd (fst (captureGeneratedSecret toy_lib ?q ?b)) = None" using captureStore_faultless(1) [OF b(2)] by simp
  have g: "validSecretRef (trimSpace (poRef (demoProvision ''token'')))" "normalizeWritebackOperation (poOperation (demoProvision ''token'')) = ''create''"
      "poConfirm (demoProvision ''token'')" "trimSpace (poReason (demoProvision ''token'')) \<noteq> []" "poRequireBrokerGenerate (demoProvision ''token'')"
    by code_simp+
  show ?thesis
    using g v c by (simp add: applyProvisioningOperation_def baseProvisioningResponse_def provisioningMode_def validWritebackOperation_def
        validProvisioningGenerationMode_def validBrokerGeneratedProvisioningOperation_def Let_def)
qed


subsection \<open>The catalogue\<close>

text \<open>All records of the listing, before the query is applied.\<close>

definition allRecords :: "'z golib_scheme \<Rightarrow> registryIO \<Rightarrow> localStoreFile \<Rightarrow> sourceConfig list \<Rightarrow> managedSecretRecord list" where
  "allRecords L io store sources =
     map (\<lambda>(ref, entry). managedRecordFromLocalEntry ref entry) (stSecrets store)
     @ map (\<lambda>(ref, t). managedRecordFromTombstone ref t) (filter (\<lambda>(_, t). tsState t = ''decommissioned'') (stTombstones store))
     @ concat (map (\<lambda>source. map (\<lambda>(ref, _). managedRecordFromSource L io ref source)
         (filter (\<lambda>(ref, _). map_of (stSecrets store) ref = None) (cfRefs source))) (enabledSources sources))"

lemma matches_empty: "managedRecordMatches L r []"
  by (simp add: managedRecordMatches_def toLower_def stringsMap_def)

lemma concat_map_if: "concat (map (\<lambda>x. if P (f x) then [f x] else []) xs) = filter P (map f xs)"
  by (induction xs) simp_all

lemma local_filter: "localRecords L b store query False
    = filter (\<lambda>r. managedRecordMatches L r query) (map (\<lambda>(ref, entry). managedRecordFromLocalEntry ref entry) (stSecrets store))"
  by (induction "stSecrets store" arbitrary: store) (auto simp: localRecords_def Let_def concat_map_if [symmetric] case_prod_unfold)

lemma tombstone_filter: "tombstoneRecords L store query False
    = filter (\<lambda>r. managedRecordMatches L r query)
        (map (\<lambda>(ref, t). managedRecordFromTombstone ref t) (filter (\<lambda>(_, t). tsState t = ''decommissioned'') (stTombstones store)))"
proof -
  have "concat (map (\<lambda>(ref, t). if tsState t \<noteq> ''decommissioned'' then []
      else let record = managedRecordFromTombstone ref t in if managedRecordMatches L record query then [record] else []) ts)
    = filter (\<lambda>r. managedRecordMatches L r query)
        (map (\<lambda>(ref, t). managedRecordFromTombstone ref t) (filter (\<lambda>(_, t). tsState t = ''decommissioned'') ts))" for ts
    by (induction ts) (auto simp: Let_def)
  then show ?thesis by (simp add: tombstoneRecords_def)
qed

lemma source_filter: "sourceRecords L io store query False = (\<lambda>source.
    filter (\<lambda>r. managedRecordMatches L r query) (map (\<lambda>(ref, _). managedRecordFromSource L io ref source)
        (filter (\<lambda>(ref, _). map_of (stSecrets store) ref = None) (cfRefs source))))"
proof -
  have "concat (map (\<lambda>(ref, _). if map_of (stSecrets store) ref \<noteq> None then []
      else let record = managedRecordFromSource L io ref source in
        if \<not> False \<and> managedRecordMatches L record query then [record]
        else if False \<and> sourceSupportsValueSearch L (cfKind source) \<and> sourceValueMatches L io source ref query then [record] else []) rs)
    = filter (\<lambda>r. managedRecordMatches L r query) (map (\<lambda>(ref, _). managedRecordFromSource L io ref source)
        (filter (\<lambda>(ref, _). map_of (stSecrets store) ref = None) rs))" for rs :: "sourceRefConfig gomap" and source
    by (induction rs) (auto simp: Let_def)
  then show ?thesis by (simp add: sourceRecords_def fun_eq_iff)
qed

lemma listing_filter:
  assumes "\<not> isLocked b" "loadStore b = Inr store"
  shows "mlResults (fst (listManagedSecrets L io query False b))
    = filter (\<lambda>r. managedRecordMatches L r query) (sort_key msRef (allRecords L io store (bSources b)))"
  using assms
  by (simp add: listManagedSecrets_def Let_def filter_sort local_filter tombstone_filter source_filter allRecords_def filter_concat comp_def)

lemma managed_record_listed:
  assumes "managedRecord L io ref b = Inr record" "loadStore b = Inr store"
  shows "record \<in> set (allRecords L io store (bSources b))" "msRef record = ref"
proof -
  consider (stored) entry where "map_of (stSecrets store) ref = Some entry" "record = managedRecordFromLocalEntry ref entry"
    | (mapped) source where "map_of (stSecrets store) ref = None" "source \<in> set (enabledSources (bSources b))" "map_of (cfRefs source) ref \<noteq> None"
        "record = managedRecordFromSource L io ref source"
    using assms find_Some_mem by (fastforce simp: managedRecord_def split: if_splits option.splits)
  then show "record \<in> set (allRecords L io store (bSources b))" "msRef record = ref"
    by (atomize (full), cases)
      (force simp: allRecords_def managedRecordFromLocalEntry_def managedRecordFromSource_def Let_def dest: map_of_SomeD)+
qed

text \<open>
  Property C34. The listing for a query is the listing for the empty query restricted to the records that match it.
  The latter is sorted by reference and shows each stored secret once, each decommissioned tombstone once, and for each
  enabled source each reference that is not stored; every record that the management operations work on is in it.
\<close>

theorem catalogue_complete:
  assumes "\<not> isLocked b" "loadStore b = Inr store"
  shows "mlResults (fst (listManagedSecrets L io query False b))
      = filter (\<lambda>r. managedRecordMatches L r query) (mlResults (fst (listManagedSecrets L io [] False b)))
    \<and> sorted (map msRef (mlResults (fst (listManagedSecrets L io [] False b))))
    \<and> mset (mlResults (fst (listManagedSecrets L io [] False b))) = mset (allRecords L io store (bSources b))
    \<and> (\<forall>ref record. managedRecord L io ref b = Inr record \<longrightarrow> record \<in> set (mlResults (fst (listManagedSecrets L io [] False b))) \<and> msRef record = ref)"
  using managed_record_listed [OF _ assms(2)] by (auto simp: listing_filter [OF assms(1,2)] matches_empty)

definition demoCatalogue :: backend where
  "demoCatalogue = demoBackend\<lparr>bDisk := Stored ((freshStore 1)\<lparr>stSecrets := [(''services/api/db'', writtenEntry ''services/api/db'' zeroMetadata)]\<rparr>)\<rparr>"

theorem catalogue_complete_witness:
  "map msRef (mlResults (fst (listManagedSecrets toy_lib demoRegistryIO [] False demoCatalogue))) = [''services/api/db'']"
proof -
  let ?s = "(freshStore 1)\<lparr>stSecrets := [(''services/api/db'', writtenEntry ''services/api/db'' zeroMetadata)]\<rparr>"
  have b: "\<not> isLocked demoCatalogue" "loadStore demoCatalogue = Inr ?s"
    using demo_faultless by (simp_all add: demoCatalogue_def faultless_def isLocked_def loadStore_def)
  have "bSources demoCatalogue = []" by (simp add: demoCatalogue_def demoBackend_def lockState.defs)
  then have "allRecords toy_lib demoRegistryIO ?s (bSources demoCatalogue) = [managedRecordFromLocalEntry ''services/api/db'' (writtenEntry ''services/api/db'' zeroMetadata)]"
    by (simp add: allRecords_def freshStore_def enabledSources_def)
  then have "mset (mlResults (fst (listManagedSecrets toy_lib demoRegistryIO [] False demoCatalogue)))
      = {#managedRecordFromLocalEntry ''services/api/db'' (writtenEntry ''services/api/db'' zeroMetadata)#}"
    using catalogue_complete [OF b, of toy_lib demoRegistryIO "[]"] by simp
  then show ?thesis by (simp add: managedRecordFromLocalEntry_def)
qed

end
