(* ===== verification/Rotation_Plan.thy ===== *)
theory Rotation_Plan
  imports Managed_Catalog
begin

text \<open>
  The dry run of a credential rotation (\<open>rotation_plan.go\<close>): for each selected reference whether it can be rotated,
  the summary of the plan and its overall outcome.
\<close>

definition rotationPlanStaleAfterSeconds :: int where "rotationPlanStaleAfterSeconds = 300"

record rotationDryRunRequest =
  rdRequestID :: string
  rdServiceID :: string
  rdOperationID :: string
  rdRefs :: "string list"
  rdReason :: string

record rotationPlanItem =
  riRef :: string
  riSourceID :: string
  riProviderKind :: string
  riOwnerServiceID :: string
  riCapability :: string
  riCapabilityResult :: string
  riPolicyResult :: string
  riAuditRequirement :: string
  riRisk :: string
  riExpectedAction :: string
  riOutcome :: string
  riNextAction :: string
  riOperationID :: string
  riIdempotencyKey :: string

record rotationPlanSummary =
  rySelectedCount :: int
  ryReadyCount :: int
  ryDeniedCount :: int
  ryUnsupportedCount :: int
  ryBlockedCount :: int
  ryHighRiskCount :: int

record rotationDryRunResponse =
  rzServiceID :: string
  rzAPIVersion :: string
  rzRequestID :: string
  rzOperationID :: string
  rzOperation :: string
  rzMode :: string
  rzOutcome :: string
  rzApplied :: bool
  rzRequiresConfirmation :: bool
  rzAuditStatus :: string
  rzStaleAfterSeconds :: int
  rzNextAction :: string
  rzResults :: "rotationPlanItem list"
  rzSummary :: rotationPlanSummary
  rzAffectedRefs :: "string list"
  rzAffectedServices :: "string list"

definition rotationOperationID :: "'z golib_scheme \<Rightarrow> rotationDryRunRequest \<Rightarrow> string" where
  "rotationOperationID L req =
     (let id = safeOperationToken L (rdOperationID req) in
      if id \<noteq> [] then id
      else let id = safeOperationToken L (rdRequestID req) in if id \<noteq> [] then ''rotation-'' @ id else ''rotation-dry-run'')"

definition rotationIdempotencyKey :: "'z golib_scheme \<Rightarrow> string \<Rightarrow> string \<Rightarrow> string" where
  "rotationIdempotencyKey L operationID ref = operationID @ '':'' @ hashAuditRef L (trimSpace ref)"

definition rotationCapabilityResult :: "managedSecretRecord \<Rightarrow> string" where
  "rotationCapabilityResult record =
     (if list_ex (\<lambda>c. c = ''reset'' \<or> c = ''rotate'' \<or> c = ''rotate/reset'') (msCapabilities record) then ''supported'' else ''unsupported'')"

definition policyResultForOutcome :: "string \<Rightarrow> string" where
  "policyResultForOutcome outcome =
     (if outcome \<in> {''dry_run_ready'', ''ready''} then ''allowed'' else if outcome \<in> {''policy_denied'', ''invalid_ref''} then ''denied''
      else ''unknown'')"

definition capabilityResultForOutcome :: "string \<Rightarrow> string" where
  "capabilityResultForOutcome outcome =
     (if outcome \<in> {''missing_ref'', ''invalid_ref''} then ''invalid''
      else if outcome \<in> {''locked'', ''source_auth_required'', ''degraded''} then ''blocked'' else ''unsupported'')"

definition rotationPlanItemFor ::
  "'z golib_scheme \<Rightarrow> registryIO \<Rightarrow> rotationDryRunRequest \<Rightarrow> string \<Rightarrow> string \<Rightarrow> 'm backend_scheme \<Rightarrow> rotationPlanItem" where
  "rotationPlanItemFor L io req operationID ref b =
     (let item = \<lparr>riRef = trimSpace ref, riSourceID = ''unknown'', riProviderKind = ''unknown'', riOwnerServiceID = ownerFromRef ref,
            riCapability = ''rotate/reset'', riCapabilityResult = ''unknown'', riPolicyResult = ''allowed'', riAuditRequirement = ''required'',
            riRisk = ''medium'', riExpectedAction = ''generate_or_accept_replacement_inside_broker'', riOutcome = ''dry_run_ready'',
            riNextAction = [], riOperationID = operationID, riIdempotencyKey = rotationIdempotencyKey L operationID ref\<rparr> in
      if \<not> validSecretRef ref then
        item\<lparr>riCapabilityResult := ''invalid'', riPolicyResult := ''denied'', riOutcome := ''invalid_ref'', riNextAction := ''fix_ref''\<rparr>
      else case managedRecord L io ref b of
        Inl err \<Rightarrow>
          let outcome = outcomeForError err in
          item\<lparr>riOutcome := outcome, riNextAction := nextActionForManagedOutcome outcome, riPolicyResult := policyResultForOutcome outcome,
            riCapabilityResult := capabilityResultForOutcome outcome\<rparr>
      | Inr record \<Rightarrow>
          let item = item\<lparr>riSourceID := msSourceID record, riProviderKind := msProviderKind record,
                riOwnerServiceID := msOwnerServiceID record, riCapabilityResult := rotationCapabilityResult record\<rparr> in
          if containsStr (toLower L ref) ''deny'' then
            item\<lparr>riPolicyResult := ''denied'', riOutcome := ''policy_denied'', riNextAction := ''review_policy''\<rparr>
          else if riCapabilityResult item \<noteq> ''supported'' then
            item\<lparr>riPolicyResult := ''unknown'', riOutcome := ''unsupported'', riNextAction := ''inspect_provider_capabilities''\<rparr>
          else item\<lparr>riNextAction := ''confirm_with_operation_id_audit_reason_and_fresh_plan''\<rparr>)"

definition emptySummary :: rotationPlanSummary where
  "emptySummary = \<lparr>rySelectedCount = 0, ryReadyCount = 0, ryDeniedCount = 0, ryUnsupportedCount = 0, ryBlockedCount = 0, ryHighRiskCount = 0\<rparr>"

fun summarize_loop :: "rotationPlanSummary \<Rightarrow> rotationPlanItem list \<Rightarrow> rotationPlanSummary" where
  "summarize_loop summary [] = summary"
| "summarize_loop summary (item # items) =
     (let o' = riOutcome item;
          s = (if o' = ''dry_run_ready'' then summary\<lparr>ryReadyCount := ryReadyCount summary + 1\<rparr>
               else if o' \<in> {''policy_denied'', ''invalid_ref''} then summary\<lparr>ryDeniedCount := ryDeniedCount summary + 1\<rparr>
               else if o' = ''unsupported'' then summary\<lparr>ryUnsupportedCount := ryUnsupportedCount summary + 1\<rparr>
               else summary\<lparr>ryBlockedCount := ryBlockedCount summary + 1\<rparr>) in
      summarize_loop (if riRisk item = ''high'' then s\<lparr>ryHighRiskCount := ryHighRiskCount s + 1\<rparr> else s) items)"

definition summarizeRotationPlan :: "rotationPlanItem list \<Rightarrow> rotationPlanSummary" where
  "summarizeRotationPlan items = summarize_loop (emptySummary\<lparr>rySelectedCount := int (length items)\<rparr>) items"

definition rotationAggregateOutcome :: "rotationPlanSummary \<Rightarrow> string" where
  "rotationAggregateOutcome summary =
     (if rySelectedCount summary = 0 then ''invalid_ref''
      else if ryReadyCount summary = rySelectedCount summary then ''dry_run_ready''
      else if ryReadyCount summary > 0 then ''partial_failure''
      else if ryDeniedCount summary > 0 then ''policy_denied''
      else if ryUnsupportedCount summary > 0 then ''unsupported''
      else ''degraded'')"

definition rotationNextAction :: "string \<Rightarrow> string" where
  "rotationNextAction outcome =
     (if outcome = ''dry_run_ready'' then ''confirm_with_operation_id_audit_reason_and_fresh_plan''
      else if outcome = ''partial_failure'' then ''review_denied_unsupported_or_blocked_refs''
      else if outcome = ''policy_denied'' then ''review_policy''
      else if outcome = ''unsupported'' then ''inspect_provider_capabilities''
      else if outcome = ''locked'' then ''unlock_broker''
      else nextActionForManagedOutcome outcome)"

type_synonym 'm rotationPlanResult = "(rotationDryRunResponse \<times> gerror option) \<times> 'm"

definition rotationDryRun ::
  "'z golib_scheme \<Rightarrow> registryIO \<Rightarrow> rotationDryRunRequest \<Rightarrow> 'm backend_scheme \<Rightarrow> 'm backend_scheme rotationPlanResult" where
  "rotationDryRun L io req b =
     (let operationID = rotationOperationID L req; refs = safeList (rdRefs req);
          res = \<lparr>rzServiceID = serviceID, rzAPIVersion = apiVersion, rzRequestID = rdRequestID req, rzOperationID = operationID,
            rzOperation = ''credential_rotation'', rzMode = ''dry-run'', rzOutcome = ''pending'', rzApplied = False, rzRequiresConfirmation = True,
            rzAuditStatus = ''audit_pending'', rzStaleAfterSeconds = rotationPlanStaleAfterSeconds, rzNextAction = [], rzResults = [],
            rzSummary = emptySummary, rzAffectedRefs = refs, rzAffectedServices = safeList [rdServiceID req]\<rparr>;
          finish = (\<lambda>ref r err. ((r, err), audit_ignored L ''credential_rotation_dry_run'' ref (rzOutcome r) (rdServiceID req) (rdRequestID req) b)) in
      if refs = [] then finish [] (res\<lparr>rzOutcome := ''invalid_ref'', rzNextAction := ''select_refs''\<rparr>) (Some errInvalidRef)
      else if isLocked b then finish [] (res\<lparr>rzOutcome := ''locked'', rzNextAction := ''unlock_broker''\<rparr>) (Some errLocked)
      else
        let refs = sort refs; items = map (\<lambda>ref. rotationPlanItemFor L io req operationID ref b) refs;
            summary = summarizeRotationPlan items; outcome = rotationAggregateOutcome summary in
        finish (joinWith '','' refs)
          (res\<lparr>rzResults := items, rzSummary := summary, rzOutcome := outcome, rzAuditStatus := ''audit_ready'', rzNextAction := rotationNextAction outcome\<rparr>)
          (if outcome = ''dry_run_ready'' \<or> outcome = ''partial_failure'' then None
           else if outcome = ''unsupported'' then Some errUnsupportedProvider else Some (outcomeError outcome)))"

definition writeRotationActionError :: "gerror \<Rightarrow> rotationDryRunResponse \<Rightarrow> rotationDryRunResponse reply" where
  "writeRotationActionError err res =
     Json (if errorIs err errInvalidRef then 400 else if errorIs err errMissingRef then 404 else if errorIs err errPolicyDenied then 403
       else if errorIs err errUnsupportedProvider then 501 else 503) res"

definition rotationDryRunHandler ::
  "'z golib_scheme \<Rightarrow> registryIO \<Rightarrow> string \<Rightarrow> httpRequest \<Rightarrow> rotationDryRunRequest decoded \<Rightarrow> 'm backend_scheme
    \<Rightarrow> rotationDryRunResponse reply \<times> 'm backend_scheme" where
  "rotationDryRunHandler L io token r body b =
     (if hMethod r \<noteq> ''POST'' then
        (writeAPIError 405 ''method_not_allowed'' ''Use POST /v1/management/secrets/rotation/dry-run.'' ''invalid_ref'' [], b)
      else check (require L token r b) (\<lambda>refusal b1. (refusal, b1))
        (\<lambda>b1. case body of BodyTooLarge \<Rightarrow> (writeDecodeError True, b1) | BodyMalformed \<Rightarrow> (writeDecodeError False, b1)
         | Decoded req \<Rightarrow> let h = rotationDryRun L io req b1 in
             (case snd (fst h) of Some err \<Rightarrow> writeRotationActionError err (fst (fst h)) | None \<Rightarrow> Json 200 (fst (fst h)), snd h)))"

subsection \<open>The summary\<close>

lemma summarize_counts:
  "rySelectedCount (summarize_loop s items) = rySelectedCount s"
  "ryReadyCount (summarize_loop s items) = ryReadyCount s + int (length (filter (\<lambda>i. riOutcome i = ''dry_run_ready'') items))"
  "ryReadyCount (summarize_loop s items) + ryDeniedCount (summarize_loop s items) + ryUnsupportedCount (summarize_loop s items)
     + ryBlockedCount (summarize_loop s items)
   = ryReadyCount s + ryDeniedCount s + ryUnsupportedCount s + ryBlockedCount s + int (length items)"
  by (induction s items rule: summarize_loop.induct) (auto simp: Let_def)

text \<open>
  The summary counts every selected reference once, and the plan is ready as a whole exactly when there is a
  reference and each is ready.
\<close>

lemma rotation_plan_summary:
  assumes "s = summarizeRotationPlan items"
  shows "rySelectedCount s = int (length items)"
    "ryReadyCount s + ryDeniedCount s + ryUnsupportedCount s + ryBlockedCount s = int (length items)"
    "rotationAggregateOutcome s = ''dry_run_ready'' \<longleftrightarrow> items \<noteq> [] \<and> (\<forall>i \<in> set items. riOutcome i = ''dry_run_ready'')"
proof -
  let ?s0 = "emptySummary\<lparr>rySelectedCount := int (length items)\<rparr>"
  have z: "rySelectedCount ?s0 = int (length items)" "ryReadyCount ?s0 = 0" "ryDeniedCount ?s0 = 0" "ryUnsupportedCount ?s0 = 0" "ryBlockedCount ?s0 = 0"
    by (simp_all add: emptySummary_def)
  have s: "s = summarize_loop ?s0 items" by (simp add: assms summarizeRotationPlan_def)
  show n: "rySelectedCount s = int (length items)" unfolding s summarize_counts(1) by (rule z(1))
  show "ryReadyCount s + ryDeniedCount s + ryUnsupportedCount s + ryBlockedCount s = int (length items)"
    unfolding s summarize_counts(3) z by simp
  have "length (filter (\<lambda>i. riOutcome i = ''dry_run_ready'') items) = length items \<longleftrightarrow> (\<forall>i \<in> set items. riOutcome i = ''dry_run_ready'')"
  proof (induction items)
    case (Cons i items)
    have "length (filter (\<lambda>i. riOutcome i = ''dry_run_ready'') items) \<noteq> Suc (length items)"
      using length_filter_le [of "\<lambda>i. riOutcome i = ''dry_run_ready''" items] by linarith
    then show ?case using Cons by auto
  qed simp
  moreover have "ryReadyCount s = int (length (filter (\<lambda>i. riOutcome i = ''dry_run_ready'') items))"
    unfolding s summarize_counts(2) z by simp
  ultimately have "ryReadyCount s = rySelectedCount s \<longleftrightarrow> (\<forall>i \<in> set items. riOutcome i = ''dry_run_ready'')" using n by simp
  then show "rotationAggregateOutcome s = ''dry_run_ready'' \<longleftrightarrow> items \<noteq> [] \<and> (\<forall>i \<in> set items. riOutcome i = ''dry_run_ready'')"
    using n by (simp add: rotationAggregateOutcome_def)
qed

end
