(* ===== verification/Provider_Config.thy ===== *)
theory Provider_Config
  imports Operation_Manifest Launch_Lease
begin

text \<open>
  Providers and their configuration (\<open>provider_config_migration.go\<close>, first half): what each kind of provider can do,
  the status of the configured ones, and the validation and the storing of a new configuration. The sources that
  are in force are \<open>bSources\<close>; the file they are saved to, the report on its permissions and the registered
  migration executors are a record of their own, which the operations take and return with the state of the broker.
\<close>

subsection \<open>Capabilities\<close>

record providerCapability =
  pcProviderKind :: string
  pcDisplayName :: string
  pcSupported :: bool
  pcCapabilities :: "string list"
  pcOperations :: "OperationCapability list"
  pcLimitations :: "string list"

record providerCapabilitiesResponse =
  plServiceID :: string
  plAPIVersion :: string
  plContractVersion :: string
  plManifestVersion :: string
  plOutcome :: string
  plCapabilities :: "providerCapability list"

record providerConfigStatus =
  pfProviderID :: string
  pfProviderKind :: string
  pfDisplayName :: string
  pfState :: string
  pfOutcome :: string
  pfCredentialHandle :: string
  pfAddress :: string
  pfNamespaces :: "string list"
  pfCapabilities :: "string list"
  pfOperations :: "OperationCapability list"
  pfNextAction :: string
  pfAuditStatus :: string

record providerConfigStatusResponse =
  pjServiceID :: string
  pjAPIVersion :: string
  pjContractVersion :: string
  pjManifestVersion :: string
  pjOutcome :: string
  pjCurrentProvider :: providerConfigStatus
  pjProviders :: "providerConfigStatus list"

record providerConfigRequest =
  pxRequestID :: string
  pxServiceID :: string
  pxProviderID :: string
  pxProviderKind :: string
  pxDisplayName :: string
  pxAddress :: string
  pxCredentialRef :: string
  pxCredentialValue :: string
  pxNamespaces :: "string list"
  pxOperationID :: string
  pxReason :: string
  pxConfirm :: bool
  pxValidationMode :: string
  pxRollbackStrategy :: string

record providerConfigActionResponse =
  pyServiceID :: string
  pyAPIVersion :: string
  pyRequestID :: string
  pyOperationID :: string
  pyOperation :: string
  pyOutcome :: string
  pyApplied :: bool
  pyRequiresConfirmation :: bool
  pyAuditStatus :: string
  pyNextAction :: string
  pyProvider :: providerConfigStatus
  pyUnsupportedCapability :: string

definition providerCapabilityTable :: "'z golib_scheme \<Rightarrow> providerCapability list" where
  "providerCapabilityTable L =
     (let row = (\<lambda>kind name caps limitation. \<lparr>pcProviderKind = kind, pcDisplayName = name, pcSupported = True,
                   pcCapabilities = caps, pcOperations = [], pcLimitations = [limitation]\<rparr>);
          kindCaps = capabilitiesForSourceKind L;
          readOnly = ''read-only; cannot be migration target'' in
      [row ''local-encrypted-store'' ''Local encrypted store'' (kindCaps ''local-encrypted-store'') ''local-first development backend'',
       row ''vault'' ''Vault'' (kindCaps ''vault'')
         ''remote write, rotation, policy apply, and migration target apply require a configured provider operation path'',
       row ''openbao'' ''OpenBao'' (kindCaps ''openbao'')
         ''remote write, rotation, policy apply, and migration target apply require a configured provider operation path'',
       row ''env'' ''Environment variables'' [''read'', ''health'', ''migration_source''] readOnly,
       row ''file'' ''File source'' [''read'', ''health'', ''migration_source''] readOnly,
       row ''exec'' ''Exec source'' [''read'', ''reveal'', ''health'', ''audit'', ''migration_source''] readOnly,
       row ''onepassword-cli'' ''1Password CLI'' (kindCaps ''onepassword-cli'') readOnly,
       row ''bitwarden-bws'' ''Bitwarden/BWS'' (kindCaps ''bitwarden-bws'') ''migration target apply requires a configured remote write path'',
       row ''aws-secrets-manager'' ''AWS Secrets Manager'' (kindCaps ''aws-secrets-manager'')
         ''remote write, rotation, and migration apply require a configured AWS operation path''])"

definition defaultProviderCapabilities :: "'z golib_scheme \<Rightarrow> providerCapability list" where
  "defaultProviderCapabilities L =
     map (\<lambda>c. c\<lparr>pcOperations := providerOperationCapabilitiesForKind L (pcProviderKind c)\<rparr>) (providerCapabilityTable L)"

definition providerCapabilitiesByKind :: "'z golib_scheme \<Rightarrow> string \<Rightarrow> providerCapability" where
  "providerCapabilitiesByKind L kind =
     (case find (\<lambda>c. pcProviderKind c = kind) (defaultProviderCapabilities L) of Some c \<Rightarrow> c
      | None \<Rightarrow> \<lparr>pcProviderKind = kind, pcDisplayName = kind, pcSupported = False, pcCapabilities = [''health''],
          pcOperations = providerOperationCapabilitiesForKind L kind, pcLimitations = [''unsupported provider kind'']\<rparr>)"

definition providerCapabilitiesResponseOf :: "'z golib_scheme \<Rightarrow> providerCapabilitiesResponse" where
  "providerCapabilitiesResponseOf L = \<lparr>plServiceID = serviceID, plAPIVersion = apiVersion, plContractVersion = contractVersion,
     plManifestVersion = operationManifestVersion, plOutcome = ''ready'', plCapabilities = defaultProviderCapabilities L\<rparr>"

subsection \<open>Status\<close>

definition safeProviderAddress :: "'z golib_scheme \<Rightarrow> registryIO \<Rightarrow> string \<Rightarrow> string" where
  "safeProviderAddress L io address0 =
     (let address = trimSpace address0 in
      if address = [] then []
      else case parseURL io address of None \<Rightarrow> []
      | Some p \<Rightarrow> if (puScheme p \<noteq> ''http'' \<and> puScheme p \<noteq> ''https'') \<or> puHostname p = [] then []
          else toLower L (puScheme p) @ ''://'' @ puHost p)"

definition credentialKinds :: "string set" where
  "credentialKinds = {''vault'', ''openbao'', ''bitwarden-bws'', ''aws-secrets-manager''}"

definition providerAddressForSource :: "'z golib_scheme \<Rightarrow> registryIO \<Rightarrow> SourceStatus \<Rightarrow> 'm backend_scheme \<Rightarrow> string" where
  "providerAddressForSource L io source b =
     (case find (\<lambda>c. cfSourceID c = stSourceID source) (bSources b) of Some c \<Rightarrow> safeProviderAddress L io (cfAddress c) | None \<Rightarrow> [])"

definition providerStatusFromSource ::
  "'z golib_scheme \<Rightarrow> registryIO \<Rightarrow> string list \<Rightarrow> SourceStatus \<Rightarrow> 'm backend_scheme \<Rightarrow> providerConfigStatus" where
  "providerStatusFromSource L io executors source b =
     (let handle = (if stKind source \<in> credentialKinds then ''configured-ref-or-env'' else []);
          handle = (if stSourceID source = ''local'' then (if isLocked b then ''missing'' else ''local-master-key'') else handle);
          auditStatus = firstNonEmpty (stAuditStatus source) ''audit_available'' in
      \<lparr>pfProviderID = stSourceID source, pfProviderKind = stKind source, pfDisplayName = stDisplayName source,
       pfState = stState source, pfOutcome = stOutcome source, pfCredentialHandle = handle,
       pfAddress = providerAddressForSource L io source b, pfNamespaces = safeList (stNamespaces source),
       pfCapabilities = pcCapabilities (providerCapabilitiesByKind L (stKind source)),
       pfOperations = connectionProviderOperations executors (stSourceID source) (stLifecycle source) auditStatus
         (providerOperationCapabilitiesForSource L (stKind source) (stLifecycle source) auditStatus),
       pfNextAction = stNextAction source, pfAuditStatus = auditStatus\<rparr>)"

definition providerStatuses ::
  "'z golib_scheme \<Rightarrow> registryIO \<Rightarrow> string list \<Rightarrow> sourceConfigSecurity \<Rightarrow> 'm backend_scheme \<Rightarrow> providerConfigStatus list" where
  "providerStatuses L io executors security b =
     map (\<lambda>source. providerStatusFromSource L io executors source b) (sgSources (defaultSourceRegistry L io executors security b))"

definition providerConfigStatusResponseOf ::
  "'z golib_scheme \<Rightarrow> registryIO \<Rightarrow> string list \<Rightarrow> sourceConfigSecurity \<Rightarrow> 'm backend_scheme \<Rightarrow> providerConfigStatusResponse" where
  "providerConfigStatusResponseOf L io executors security b =
     (let providers = providerStatuses L io executors security b in
      \<lparr>pjServiceID = serviceID, pjAPIVersion = apiVersion, pjContractVersion = contractVersion,
       pjManifestVersion = operationManifestVersion, pjOutcome = ''ready'', pjCurrentProvider = hd providers, pjProviders = providers\<rparr>)"

definition providerStatusWithOperations :: "'z golib_scheme \<Rightarrow> providerConfigStatus \<Rightarrow> providerConfigStatus" where
  "providerStatusWithOperations L status =
     (let outcome = (if pfOutcome status = ''applied'' then ''ready'' else pfOutcome status) in
      status\<lparr>pfOperations := providerOperationCapabilitiesForSource L (pfProviderKind status) (normalizeSourceLifecycle outcome)
        (pfAuditStatus status)\<rparr>)"

definition lookupProvider ::
  "'z golib_scheme \<Rightarrow> registryIO \<Rightarrow> string list \<Rightarrow> sourceConfigSecurity \<Rightarrow> string \<Rightarrow> 'm backend_scheme \<Rightarrow> providerConfigStatus" where
  "lookupProvider L io executors security providerID b =
     (case find (\<lambda>p. pfProviderID p = providerID) (pjProviders (providerConfigStatusResponseOf L io executors security b)) of
        Some provider \<Rightarrow> provider
      | None \<Rightarrow>
          let kind = (if containsStr providerID ''vault'' then ''vault'' else providerID) in
          providerStatusWithOperations L
            \<lparr>pfProviderID = providerID, pfProviderKind = kind, pfDisplayName = providerID, pfState = ''unsupported'',
             pfOutcome = ''unsupported'', pfCredentialHandle = [], pfAddress = [], pfNamespaces = [],
             pfCapabilities = pcCapabilities (providerCapabilitiesByKind L kind), pfOperations = [], pfNextAction = [],
             pfAuditStatus = ''audit_available''\<rparr>)"

subsection \<open>Checking a configuration\<close>

definition credentialHandle :: "string \<Rightarrow> string" where
  "credentialHandle ref = (if trimSpace ref = [] then [] else ''ref:'' @ trimSpace ref)"

text \<open>A name of upper case letters, digits and underscores. The bytes of a rune outside ASCII are none of these.\<close>

definition providerCredentialEnvName :: "string \<Rightarrow> bool" where
  "providerCredentialEnvName value =
     (let v = trimSpace value; upper = (\<lambda>c. CHR ''A'' \<le> c \<and> c \<le> CHR ''Z'') in
      v \<noteq> [] \<and> upper (hd v) \<and> list_all (\<lambda>c. upper c \<or> (CHR ''0'' \<le> c \<and> c \<le> CHR ''9'') \<or> c = CHR ''_'') v)"

definition providerStatusFromConfigRequest ::
  "'z golib_scheme \<Rightarrow> registryIO \<Rightarrow> providerConfigRequest \<Rightarrow> providerConfigStatus \<times> gerror option" where
  "providerStatusFromConfigRequest L io req =
     (let providerID = trimSpace (pxProviderID req); kind = trimSpace (pxProviderKind req);
          capability = providerCapabilitiesByKind L kind;
          status = \<lparr>pfProviderID = providerID, pfProviderKind = kind, pfDisplayName = firstNonEmpty (pxDisplayName req) kind,
            pfState = [], pfOutcome = [], pfCredentialHandle = credentialHandle (pxCredentialRef req),
            pfAddress = safeProviderAddress L io (pxAddress req), pfNamespaces = safeList (pxNamespaces req),
            pfCapabilities = pcCapabilities capability, pfOperations = [], pfNextAction = [], pfAuditStatus = ''audit_available''\<rparr>;
          refuse = (\<lambda>state outcome err. (providerStatusWithOperations L (status\<lparr>pfState := state, pfOutcome := outcome\<rparr>), Some err)) in
      if providerID = [] \<or> kind = [] \<or> \<not> validSecretRef providerID then refuse ''config_error'' ''invalid_ref'' errInvalidRef
      else if trimSpace (pxCredentialValue req) \<noteq> [] then refuse ''denied'' ''policy_denied'' errPolicyDenied
      else if \<not> pcSupported capability then refuse ''unsupported'' ''unsupported'' errUnsupportedProvider
      else if kind \<in> credentialKinds \<and> trimSpace (pxCredentialRef req) = [] then
        refuse ''auth_required'' ''source_auth_required'' errSourceAuthRequired
      else if kind \<in> credentialKinds \<and> pfAddress status = [] then refuse ''config_error'' ''invalid_ref'' errInvalidRef
      else (providerStatusWithOperations L
              (status\<lparr>pfState := ''connected'', pfOutcome := ''ready'',
                 pfNamespaces := (if pfNamespaces status = [] then [''*''] else pfNamespaces status)\<rparr>), None))"

definition providerNextAction :: "string \<Rightarrow> string" where
  "providerNextAction outcome =
     (if outcome = ''source_auth_required'' then ''provide_credential_ref_or_reconnect_provider''
      else if outcome = ''unsupported'' then ''select_supported_provider''
      else if outcome = ''invalid_ref'' then ''fix_provider_configuration''
      else if outcome = ''policy_denied'' then ''remove_plaintext_credentials_and_confirm_with_audit_reason''
      else if outcome = ''locked'' then ''unlock_broker''
      else nextActionForManagedOutcome outcome)"

definition emptyProviderStatus :: providerConfigStatus where
  "emptyProviderStatus = \<lparr>pfProviderID = [], pfProviderKind = [], pfDisplayName = [], pfState = [], pfOutcome = [],
     pfCredentialHandle = [], pfAddress = [], pfNamespaces = [], pfCapabilities = [], pfOperations = [], pfNextAction = [],
     pfAuditStatus = []\<rparr>"

definition baseProviderConfigResponse :: "providerConfigRequest \<Rightarrow> string \<Rightarrow> providerConfigActionResponse" where
  "baseProviderConfigResponse req operation =
     \<lparr>pyServiceID = serviceID, pyAPIVersion = apiVersion, pyRequestID = pxRequestID req, pyOperationID = pxOperationID req,
      pyOperation = operation, pyOutcome = ''pending'', pyApplied = False, pyRequiresConfirmation = (operation = ''configure''),
      pyAuditStatus = ''audit_pending'', pyNextAction = [], pyProvider = emptyProviderStatus, pyUnsupportedCapability = []\<rparr>"

type_synonym 'm configResult = "(providerConfigActionResponse \<times> gerror option) \<times> 'm backend_scheme"

definition finalizeProviderConfigAudit ::
  "'z golib_scheme \<Rightarrow> string \<Rightarrow> providerConfigRequest \<Rightarrow> providerConfigActionResponse \<Rightarrow> gerror option \<Rightarrow> 'm backend_scheme
    \<Rightarrow> 'm configResult" where
  "finalizeProviderConfigAudit L operation req res operationErr b =
     (let unavailable = (res\<lparr>pyOutcome := ''audit_unavailable'', pyApplied := False, pyAuditStatus := ''audit_unavailable'',
            pyProvider := (pyProvider res)\<lparr>pfAuditStatus := ''audit_unavailable''\<rparr>, pyNextAction := ''restore_audit_and_retry''\<rparr>,
            Some errProviderAuditUnavailable) in
      if trimSpace (bAuditPath b) = [] then (unavailable, b)
      else check (audit L operation (pxProviderID req) (pyOutcome res) (pxServiceID req) (pxRequestID req) b)
        (\<lambda>_ b1. (unavailable, b1))
        (\<lambda>b1. ((res\<lparr>pyAuditStatus := ''audit_recorded''\<rparr>, operationErr), b1)))"

definition validateProviderConfig ::
  "'z golib_scheme \<Rightarrow> registryIO \<Rightarrow> providerConfigRequest \<Rightarrow> 'm backend_scheme \<Rightarrow> 'm configResult" where
  "validateProviderConfig L io req b =
     (let st = providerStatusFromConfigRequest L io req;
          res = (baseProviderConfigResponse req ''validate'')\<lparr>pyProvider := fst st\<rparr> in
      case snd st of
        Some err \<Rightarrow> let outcome = outcomeForError err in
          finalizeProviderConfigAudit L ''provider_config_validate'' req
            (res\<lparr>pyOutcome := outcome, pyNextAction := providerNextAction outcome\<rparr>) (Some err) b
      | None \<Rightarrow> finalizeProviderConfigAudit L ''provider_config_validate'' req (res\<lparr>pyOutcome := ''ready''\<rparr>) None b)"

subsection \<open>Storing a configuration\<close>

text \<open>
  The executors that are registered, the path of the source file as it was given and as it is by default, what the
  file holds (nothing before the first save), the faults of its saves, and the report on its permissions.
\<close>

record 'x providerState =
  pkExecutors :: "'x gomap"
  pkSourcesPath :: string
  pkDefaultPath :: string
  pkFile :: "sourceConfig list option"
  pkSaveFaults :: "saveFault list"
  pkStat :: statResult
  pkOS :: string
  pkSecurity :: sourceConfigSecurity

definition registerProviderMigrationExecutor :: "string \<Rightarrow> 'x \<Rightarrow> 'x gomap \<Rightarrow> 'x gomap" where
  "registerProviderMigrationExecutor providerID executor executors =
     (if trimSpace providerID = [] then executors else AList.update (trimSpace providerID) executor executors)"

definition registerLocalStoreMigrationExecutor :: "'x \<Rightarrow> 'x gomap \<Rightarrow> 'x gomap" where
  "registerLocalStoreMigrationExecutor executor executors =
     registerProviderMigrationExecutor ''local-encrypted-store'' executor (registerProviderMigrationExecutor ''local'' executor executors)"

text \<open>\<open>remote\<close> builds the executor of a Vault, OpenBao or AWS source, which talks to a server.\<close>

definition migrationExecutorBuilds :: "'z golib_scheme \<Rightarrow> registryIO \<Rightarrow> sourceConfig \<Rightarrow> bool" where
  "migrationExecutorBuilds L io source =
     (let kind = toLower L (trimSpace (cfKind source)) in
      cfEnableMigrationTarget source
      \<and> (if kind \<in> {''vault'', ''openbao''} then vaultExecutorValid L io source
         else kind = ''aws-secrets-manager'' \<and> awsExecutorValid L io source))"

definition configureProviderMigrationExecutors ::
  "'z golib_scheme \<Rightarrow> registryIO \<Rightarrow> (sourceConfig \<Rightarrow> 'x) \<Rightarrow> 'x \<Rightarrow> sourceConfig list \<Rightarrow> 'x gomap \<Rightarrow> 'x gomap" where
  "configureProviderMigrationExecutors L io remote localExecutor sources executors =
     fold (\<lambda>source exs. if migrationExecutorBuilds L io source
                        then registerProviderMigrationExecutor (cfSourceID source) (remote source) exs else exs)
       (enabledSources sources) (registerLocalStoreMigrationExecutor localExecutor executors)"

definition providerSourceFromValidatedRequest :: "providerConfigRequest \<Rightarrow> providerConfigStatus \<Rightarrow> sourceConfig" where
  "providerSourceFromValidatedRequest req status =
     (let named = providerCredentialEnvName (pxCredentialRef req) in
      \<lparr>cfSourceID = trimSpace (pxProviderID req), cfKind = trimSpace (pxProviderKind req),
       cfDisplayName = firstNonEmpty (pxDisplayName req) (firstNonEmpty (pfDisplayName status) (pxProviderKind req)),
       cfEnabled = True, cfCritical = False, cfPriority = 0, cfNamespaces = pfNamespaces status, cfTrustedDirs = [],
       cfAllowSymlinkCommand = False, cfAllowExecInProduction = False, cfProduction = False, cfEnableMigrationTarget = False,
       cfAddress = pfAddress status, cfRegion = [], cfAccountID = [], cfAccessKeyIDEnv = [], cfSecretAccessKeyEnv = [],
       cfSessionTokenEnv = [], cfToken = [], cfTokenEnv = (if named then trimSpace (pxCredentialRef req) else []),
       cfCredentialRef = (if named then [] else trimSpace (pxCredentialRef req)), cfMount = [], cfRefs = []\<rparr>)"

text \<open>Writing the file; an error after the new file is in place is an error all the same.\<close>

definition saveSourceConfig :: "string \<Rightarrow> sourceConfig list \<Rightarrow> 'x providerState \<Rightarrow> gerror option \<times> 'x providerState" where
  "saveSourceConfig path cfg p =
     (if trimSpace path = [] then (Some errIO, p)
      else let p1 = p\<lparr>pkSaveFaults := tl (pkSaveFaults p)\<rparr> in
        case pkSaveFaults p of
          SaveFails # _ \<Rightarrow> (Some errIO, p1)
        | SavePublishedFails # _ \<Rightarrow> (Some errPublished, p1\<lparr>pkFile := Some cfg\<rparr>)
        | _ \<Rightarrow> (None, p1\<lparr>pkFile := Some cfg\<rparr>))"

text \<open>
  \<open>current := b.sources\<close> copies the slice header, so replacing an element writes into the list that is in force,
  also if the save fails; an appended element is seen only after \<open>b.sources = current\<close>.
\<close>

fun replaceSource :: "sourceConfig \<Rightarrow> sourceConfig list \<Rightarrow> sourceConfig list option" where
  "replaceSource source [] = None"
| "replaceSource source (existing # rest) =
     (if cfSourceID existing = cfSourceID source then Some (source # rest)
      else map_option (Cons existing) (replaceSource source rest))"

definition persistProviderSource ::
  "'z golib_scheme \<Rightarrow> registryIO \<Rightarrow> (sourceConfig \<Rightarrow> 'x) \<Rightarrow> 'x \<Rightarrow> sourceConfig \<Rightarrow> 'x providerState \<times> 'm backend_scheme
    \<Rightarrow> gerror option \<times> 'x providerState \<times> 'm backend_scheme" where
  "persistProviderSource L io remote localExecutor source s =
     (let given = trimSpace (pkSourcesPath (fst s));
          path = orDefault given (pkDefaultPath (fst s));
          p = (if given = [] then (fst s)\<lparr>pkSourcesPath := path\<rparr> else fst s); b = snd s;
          replaced = replaceSource source (bSources b);
          current = (case replaced of Some cfg \<Rightarrow> cfg | None \<Rightarrow> bSources b @ [source]);
          b1 = (case replaced of Some cfg \<Rightarrow> b\<lparr>bSources := cfg\<rparr> | None \<Rightarrow> b) in
      check (saveSourceConfig path current p)
        (\<lambda>err p1. (Some err, p1, b1))
        (\<lambda>p1. (None,
           p1\<lparr>pkSecurity := inspectSourceConfigSecurity L (pkOS p1) path (pkStat p1),
              pkExecutors := configureProviderMigrationExecutors L io remote localExecutor current (pkExecutors p1)\<rparr>,
           b1\<lparr>bSources := current\<rparr>)))"

definition applyProviderConfig ::
  "'z golib_scheme \<Rightarrow> registryIO \<Rightarrow> (sourceConfig \<Rightarrow> 'x) \<Rightarrow> 'x \<Rightarrow> providerConfigRequest \<Rightarrow> 'x providerState \<times> 'm backend_scheme
    \<Rightarrow> (providerConfigActionResponse \<times> gerror option) \<times> 'x providerState \<times> 'm backend_scheme" where
  "applyProviderConfig L io remote localExecutor req s =
     (let st = providerStatusFromConfigRequest L io req;
          res = (baseProviderConfigResponse req ''configure'')\<lparr>pyProvider := fst st\<rparr>;
          finish = (\<lambda>answer err s'. let f = finalizeProviderConfigAudit L ''provider_config_apply'' req answer err (snd s') in
             (fst f, fst s', snd f)) in
      case snd st of
        Some err \<Rightarrow> let outcome = outcomeForError err in
          finish (res\<lparr>pyOutcome := outcome, pyNextAction := providerNextAction outcome\<rparr>) (Some err) s
      | None \<Rightarrow>
          if \<not> pxConfirm req \<or> trimSpace (pxReason req) = [] \<or> trimSpace (pxOperationID req) = [] then
            finish (res\<lparr>pyOutcome := ''policy_denied'', pyNextAction := ''confirm_with_operation_id_and_audit_reason''\<rparr>)
              (Some errPolicyDenied) s
          else if isLocked (snd s) then
            finish (res\<lparr>pyOutcome := ''locked'', pyApplied := False, pyNextAction := ''unlock_broker''\<rparr>) (Some errLocked) s
          else if equalFold L (trimSpace (pxProviderID req)) ''local'' \<or> equalFold L (trimSpace (pxProviderKind req)) ''local-encrypted-store'' then
            finish (res\<lparr>pyOutcome := ''invalid_ref'', pyApplied := False, pyNextAction := ''select_supported_provider''\<rparr>) (Some errInvalidRef) s
          else check (persistProviderSource L io remote localExecutor (providerSourceFromValidatedRequest req (fst st)) s)
            (\<lambda>_ s1. finish (res\<lparr>pyOutcome := ''degraded'', pyApplied := False, pyNextAction := ''retry_or_inspect_source''\<rparr>)
               (Some errBackendDegraded) s1)
            (\<lambda>s1. finish (res\<lparr>pyApplied := True, pyRequiresConfirmation := False, pyOutcome := ''ready'',
                 pyNextAction := ''inspect_provider_status'',
                 pyProvider := lookupProvider L io (map fst (pkExecutors (fst s1))) (pkSecurity (fst s1)) (pxProviderID req) (snd s1)\<rparr>)
               None s1))"

subsection \<open>Endpoints\<close>

definition providerCapabilitiesHandler :: "'z golib_scheme \<Rightarrow> httpRequest \<Rightarrow> providerCapabilitiesResponse reply" where
  "providerCapabilitiesHandler L r =
     (if hMethod r \<noteq> ''GET'' then writeAPIError 405 ''method_not_allowed'' ''Use GET /v1/providers/capabilities.'' ''invalid_ref'' []
      else Json 200 (providerCapabilitiesResponseOf L))"

definition providerConfigStatusHandler ::
  "'z golib_scheme \<Rightarrow> registryIO \<Rightarrow> string \<Rightarrow> httpRequest \<Rightarrow> 'x providerState \<times> 'm backend_scheme
    \<Rightarrow> providerConfigStatusResponse reply \<times> 'm backend_scheme" where
  "providerConfigStatusHandler L io token r s =
     (if hMethod r \<noteq> ''GET'' then
        (writeAPIError 405 ''method_not_allowed'' ''Use GET /v1/providers/config/status.'' ''invalid_ref'' [], snd s)
      else check (require L token r (snd s)) (\<lambda>refusal b1. (refusal, b1))
        (\<lambda>b1. (Json 200 (providerConfigStatusResponseOf L io (map fst (pkExecutors (fst s))) (pkSecurity (fst s)) b1), b1)))"

definition writeProviderActionError :: "gerror \<Rightarrow> providerConfigActionResponse \<Rightarrow> providerConfigActionResponse reply" where
  "writeProviderActionError err res =
     Json (if errorIs err errInvalidRef then 400 else if errorIs err errPolicyDenied then 403
           else if errorIs err errSourceAuthRequired then 424 else if errorIs err errUnsupportedProvider then 501 else 503) res"

definition registerProviderConfigAction ::
  "'z golib_scheme \<Rightarrow> string \<Rightarrow> string
    \<Rightarrow> (providerConfigRequest \<Rightarrow> 'x providerState \<times> 'm backend_scheme
         \<Rightarrow> (providerConfigActionResponse \<times> gerror option) \<times> 'x providerState \<times> 'm backend_scheme)
    \<Rightarrow> httpRequest \<Rightarrow> providerConfigRequest decoded \<Rightarrow> 'x providerState \<times> 'm backend_scheme
    \<Rightarrow> providerConfigActionResponse reply \<times> 'x providerState \<times> 'm backend_scheme" where
  "registerProviderConfigAction L token path handler r body s =
     (if hMethod r \<noteq> ''POST'' then (writeAPIError 405 ''method_not_allowed'' (''Use POST '' @ path @ ''.'') ''invalid_ref'' [], s)
      else check (require L token r (snd s)) (\<lambda>refusal b1. (refusal, fst s, b1))
        (\<lambda>b1. case body of BodyTooLarge \<Rightarrow> (writeDecodeError True, fst s, b1) | BodyMalformed \<Rightarrow> (writeDecodeError False, fst s, b1)
         | Decoded req \<Rightarrow> let h = handler req (fst s, b1) in
             (case snd (fst h) of Some err \<Rightarrow> writeProviderActionError err (fst (fst h)) | None \<Rightarrow> Json 200 (fst (fst h)), snd h)))"

definition providerConfigHandlers ::
  "'z golib_scheme \<Rightarrow> registryIO \<Rightarrow> (sourceConfig \<Rightarrow> 'x) \<Rightarrow> 'x
    \<Rightarrow> (string \<times> (providerConfigRequest \<Rightarrow> 'x providerState \<times> 'm backend_scheme
         \<Rightarrow> (providerConfigActionResponse \<times> gerror option) \<times> 'x providerState \<times> 'm backend_scheme)) list" where
  "providerConfigHandlers L io remote localExecutor =
     [(''/v1/providers/config/validate'', \<lambda>req s. let v = validateProviderConfig L io req (snd s) in (fst v, fst s, snd v)),
      (''/v1/providers/config/apply'', applyProviderConfig L io remote localExecutor)]"

subsection \<open>What a stored configuration does\<close>

lemma find_configured:
  assumes "st \<in> set (pjProviders (providerConfigStatusResponseOf L io executors security b))"
  shows "pfProviderID st = ''local'' \<or> (\<exists>source \<in> set (bSources b). pfProviderID st = cfSourceID source)"
  using assms by (auto simp: providerConfigStatusResponseOf_def providerStatuses_def defaultSourceRegistry_def
      providerStatusFromSource_def localSourceStatus_def configuredSourceStatus_def Let_def)

lemma replaceSource_cases:
  "case replaceSource source cfg of
     None \<Rightarrow> cfSourceID source \<notin> cfSourceID ` set cfg
   | Some cfg' \<Rightarrow> map cfSourceID cfg' = map cfSourceID cfg \<and> find (\<lambda>c. cfSourceID c = cfSourceID source) cfg' = Some source
       \<and> cfSourceID source \<in> cfSourceID ` set cfg"
  by (induction cfg) (auto split: option.splits)

lemma finalize_sel [simp]:
  "bSources (snd (finalizeProviderConfigAudit L op req res err b)) = bSources b"
  "bDisk (snd (finalizeProviderConfigAudit L op req res err b)) = bDisk b"
  "bMasterKey (snd (finalizeProviderConfigAudit L op req res err b)) = bMasterKey b"
  by (auto simp: finalizeProviderConfigAudit_def Let_def check_def split: option.splits)

end
