(* ===== verification/Provider_Migration.thy ===== *)
theory Provider_Migration
  imports Provider_Config Broker_Runs
begin

text \<open>
  Migrating secrets to another provider (\<open>provider_config_migration.go\<close>, second half,
  \<open>provider_operation_executor.go\<close>, \<open>local_store_migration_executor.go\<close>): the plan, and its execution, which keeps
  a ledger in the store so that a call with the same operation id goes on where the last one stopped. An executor
  writes a value to its provider and verifies it there. The executor of the local store is modelled; that of a
  remote provider is a parameter, and the server behind it is a part of the state the model knows nothing of.
\<close>

subsection \<open>Requests, answers and executors\<close>

record providerMigrationWriteRequest =
  xwOperationID :: string
  xwIdempotencyKey :: string
  xwTargetProviderID :: string
  xwRef :: string
  xwValue :: string

record providerMigrationVerifyRequest =
  xvOperationID :: string
  xvIdempotencyKey :: string
  xvTargetProviderID :: string
  xvRef :: string
  xvExpectedValue :: string

record 's providerMigrationExecutor =
  exWrite :: "providerMigrationWriteRequest \<Rightarrow> 's \<Rightarrow> string \<times> 's"
  exVerify :: "providerMigrationVerifyRequest \<Rightarrow> 's \<Rightarrow> string \<times> 's"

record migrationPlanRequest =
  mwRequestID :: string
  mwServiceID :: string
  mwOperationID :: string
  mwSourceProviderID :: string
  mwTargetProviderID :: string
  mwRefs :: "string list"
  mwReason :: string
  mwConfirm :: bool

record migrationItemStatus =
  mtRef :: string
  mtSourceProviderID :: string
  mtTargetProviderID :: string
  mtOwnerServiceID :: string
  mtState :: string
  mtOutcome :: string
  mtRisk :: string
  mtExpectedAction :: string
  mtPolicyResult :: string
  mtAuditRequirement :: string
  mtRecovery :: string
  mtVerified :: bool
  mtAttempts :: int

record migrationPlanResponse =
  mzServiceID :: string
  mzAPIVersion :: string
  mzRequestID :: string
  mzOperationID :: string
  mzOperation :: string
  mzOutcome :: string
  mzApplied :: bool
  mzRequiresConfirmation :: bool
  mzAuditStatus :: string
  mzNextAction :: string
  mzSourceProviderID :: string
  mzTargetProviderID :: string
  mzResults :: "migrationItemStatus list"
  mzRollback :: string

subsection \<open>The plan\<close>

definition providerCanPlanMigrationTarget :: "'z golib_scheme \<Rightarrow> string \<Rightarrow> bool" where
  "providerCanPlanMigrationTarget L kind =
     (kind = ''local-encrypted-store''
      \<or> (case adapterContractForKind L kind of None \<Rightarrow> False
         | Some contract \<Rightarrow> adapterHasCapability contract CapMigration \<and> adapterHasCapability contract CapWrite))"

definition providerCanApplyMigrationTarget :: "string \<Rightarrow> bool" where
  "providerCanApplyMigrationTarget kind = (kind = ''local-encrypted-store'')"

definition providerUsesRemoteMutationPath :: "'z golib_scheme \<Rightarrow> string \<Rightarrow> bool" where
  "providerUsesRemoteMutationPath L kind = (providerCanPlanMigrationTarget L kind \<and> \<not> providerCanApplyMigrationTarget kind)"

definition migrationRiskForTarget :: "'z golib_scheme \<Rightarrow> string \<Rightarrow> string" where
  "migrationRiskForTarget L kind = (if providerUsesRemoteMutationPath L kind then ''medium'' else ''low'')"

definition migrationExpectedActionForTarget :: "'z golib_scheme \<Rightarrow> string \<Rightarrow> bool \<Rightarrow> string \<Rightarrow> string" where
  "migrationExpectedActionForTarget L kind app forcedOutcome =
     (if app \<and> forcedOutcome = ''unsupported'' then ''implement_provider_operation_executor''
      else if forcedOutcome \<noteq> [] then providerNextAction forcedOutcome
      else if providerUsesRemoteMutationPath L kind then
        (if app then ''implement_provider_operation_executor'' else ''write_value_to_remote_provider_after_revalidation'')
      else ''copy_value_inside_broker'')"

definition migrationRecoveryForTarget :: "'z golib_scheme \<Rightarrow> string \<Rightarrow> string" where
  "migrationRecoveryForTarget L kind =
     (if providerUsesRemoteMutationPath L kind then ''source_retained_until_target_verification_succeeds''
      else ''retry_after_fix_or_restore_from_backup'')"

definition providerMigrationOutcome :: "providerConfigStatus \<Rightarrow> string" where
  "providerMigrationOutcome target =
     (if pfOutcome target = ''source_auth_required'' then ''source_auth_required''
      else if pfOutcome target = ''locked'' then ''locked''
      else if pfOutcome target \<noteq> ''ready'' then pfOutcome target
      else ''unsupported'')"

definition migrationAggregateOutcome :: "migrationItemStatus list \<Rightarrow> string" where
  "migrationAggregateOutcome items =
     (if items = [] then ''ready''
      else let denied = list_ex (\<lambda>i. mtOutcome i = ''policy_denied'' \<or> mtOutcome i = ''invalid_ref'') items;
               failed = list_ex (\<lambda>i. \<not> (mtOutcome i = ''policy_denied'' \<or> mtOutcome i = ''invalid_ref'')
                 \<and> mtOutcome i \<noteq> ''dry_run_ready'' \<and> mtOutcome i \<noteq> ''migrated'') items in
        if denied \<or> failed then ''partial_failure'' else ''dry_run_ready'')"

definition outcomeErrorForProvider :: "string \<Rightarrow> gerror" where
  "outcomeErrorForProvider outcome =
     (if outcome = ''source_auth_required'' then errSourceAuthRequired
      else if outcome = ''locked'' then errLocked
      else if outcome = ''invalid_ref'' then errInvalidRef
      else if outcome = ''policy_denied'' then errPolicyDenied
      else if outcome \<in> {''degraded'', ''source_unavailable'', ''missing_ref''} then errBackendDegraded
      else errUnsupportedProvider)"

text \<open>The provider a migration reads from is the local store unless the request names another one.\<close>

definition migrationSourceID :: "string \<Rightarrow> string" where
  "migrationSourceID sourceProviderID = firstNonEmpty (trimSpace sourceProviderID) ''local''"

definition localMigrationSource :: "string \<Rightarrow> bool" where
  "localMigrationSource source \<longleftrightarrow> source = ''local'' \<or> source = ''local-encrypted-store''"

definition migrationSourceRefs ::
  "'z golib_scheme \<Rightarrow> registryIO \<Rightarrow> string list \<Rightarrow> sourceConfigSecurity \<Rightarrow> string \<Rightarrow> 'm backend_scheme \<Rightarrow> string list \<times> string" where
  "migrationSourceRefs L io executors security sourceProviderID b =
     (let source = migrationSourceID sourceProviderID in
      if localMigrationSource source then
        (case loadStore b of Inl err \<Rightarrow> ([], outcomeForError err) | Inr store \<Rightarrow> (map fst (stSecrets store), ''ready''))
      else let status = lookupProvider L io executors security source b in
        if pfOutcome status \<noteq> ''ready'' then ([], providerMigrationOutcome status)
        else (case find (\<lambda>s. cfSourceID s = source) (enabledSources (bSources b)) of
                Some s \<Rightarrow> (map fst (cfRefs s), ''ready'') | None \<Rightarrow> ([], ''ready'')))"

definition migrationSourceOutcome ::
  "'z golib_scheme \<Rightarrow> registryIO \<Rightarrow> string list \<Rightarrow> sourceConfigSecurity \<Rightarrow> string \<Rightarrow> string \<Rightarrow> 'm backend_scheme \<Rightarrow> string" where
  "migrationSourceOutcome L io executors security sourceProviderID ref b =
     (let source = migrationSourceID sourceProviderID in
      if localMigrationSource source then
        (case loadStore b of Inl err \<Rightarrow> ''degraded''
         | Inr store \<Rightarrow> if map_of (stSecrets store) ref = None then ''missing_ref'' else ''ready'')
      else let status = lookupProvider L io executors security source b in
        if pfOutcome status \<noteq> ''ready'' then providerMigrationOutcome status
        else (case find (\<lambda>s. cfSourceID s = source) (enabledSources (bSources b)) of
                Some s \<Rightarrow> if map_of (cfRefs s) ref = None then ''missing_ref'' else ''ready'' | None \<Rightarrow> ''missing_ref''))"

definition migrationItem ::
  "'z golib_scheme \<Rightarrow> registryIO \<Rightarrow> string list \<Rightarrow> sourceConfigSecurity \<Rightarrow> migrationPlanRequest \<Rightarrow> providerConfigStatus \<Rightarrow> bool \<Rightarrow> string
    \<Rightarrow> 'm backend_scheme \<Rightarrow> string \<Rightarrow> migrationItemStatus" where
  "migrationItem L io executors security req target app forcedOutcome b ref =
     (let item = \<lparr>mtRef = ref, mtSourceProviderID = firstNonEmpty (mwSourceProviderID req) ''local'',
            mtTargetProviderID = mwTargetProviderID req, mtOwnerServiceID = ownerFromRef ref, mtState = [], mtOutcome = [],
            mtRisk = migrationRiskForTarget L (pfProviderKind target),
            mtExpectedAction = migrationExpectedActionForTarget L (pfProviderKind target) app forcedOutcome,
            mtPolicyResult = ''allowed'', mtAuditRequirement = ''required'',
            mtRecovery = migrationRecoveryForTarget L (pfProviderKind target), mtVerified = False, mtAttempts = 0\<rparr>;
          sourceOutcome = migrationSourceOutcome L io executors security (mtSourceProviderID item) ref b;
          item1 =
            (if forcedOutcome \<noteq> [] then item\<lparr>mtState := ''failed'', mtOutcome := forcedOutcome, mtPolicyResult := ''denied''\<rparr>
             else if \<not> validSecretRef ref then item\<lparr>mtState := ''denied'', mtOutcome := ''invalid_ref'', mtPolicyResult := ''denied''\<rparr>
             else if sourceOutcome \<noteq> ''ready'' then
               item\<lparr>mtState := ''failed'', mtOutcome := sourceOutcome, mtPolicyResult := ''denied'', mtExpectedAction := providerNextAction sourceOutcome\<rparr>
             else if containsStr (toLower L ref) ''deny'' then
               item\<lparr>mtState := ''denied'', mtOutcome := ''policy_denied'', mtPolicyResult := ''denied''\<rparr>
             else if \<not> app then item\<lparr>mtState := ''planned'', mtOutcome := ''dry_run_ready''\<rparr>
             else item\<lparr>mtState := ''migrated'', mtOutcome := ''migrated''\<rparr>) in
      if pfProviderKind target = ''local-encrypted-store'' \<and> mtOutcome item1 = ''dry_run_ready''
      then item1\<lparr>mtExpectedAction := ''verify_local_target_idempotency''\<rparr> else item1)"

definition migrationItems ::
  "'z golib_scheme \<Rightarrow> registryIO \<Rightarrow> string list \<Rightarrow> sourceConfigSecurity \<Rightarrow> migrationPlanRequest \<Rightarrow> providerConfigStatus \<Rightarrow> bool \<Rightarrow> string
    \<Rightarrow> 'm backend_scheme \<Rightarrow> migrationItemStatus list" where
  "migrationItems L io executors security req target app forcedOutcome b =
     map (migrationItem L io executors security req target app forcedOutcome b) (sort (safeList (mwRefs req)))"

definition providerMigrationPlanFingerprint :: "'z golib_scheme \<Rightarrow> migrationPlanRequest \<Rightarrow> string" where
  "providerMigrationPlanFingerprint L req =
     hashAuditRef L (joinWith [CHR 0x0A] [firstNonEmpty (mwSourceProviderID req) ''local'', trimSpace (mwTargetProviderID req),
       joinWith [CHR 0x0A] (sort (safeList (mwRefs req)))])"

definition providerMigrationItemIdempotencyKey :: "'z golib_scheme \<Rightarrow> string \<Rightarrow> string \<Rightarrow> string \<Rightarrow> string" where
  "providerMigrationItemIdempotencyKey L operationID targetProviderID ref =
     hashAuditRef L (joinWith [CHR 0x0A] [trimSpace operationID, trimSpace targetProviderID, trimSpace ref])"

definition providerMigrationPlanConflicts :: "'z golib_scheme \<Rightarrow> migrationPlanRequest \<Rightarrow> 'm backend_scheme \<Rightarrow> gerror + bool" where
  "providerMigrationPlanConflicts L req b =
     (case loadStore b of Inl err \<Rightarrow> Inl err
      | Inr store \<Rightarrow> (case map_of (stMigrations store) (trimSpace (mwOperationID req)) of None \<Rightarrow> Inr False
         | Some operation \<Rightarrow> Inr (moPlanFingerprint operation \<noteq> providerMigrationPlanFingerprint L req)))"

subsection \<open>Outcomes of the executor\<close>

definition normalizeProviderExecutorWriteOutcome :: "string \<Rightarrow> string" where
  "normalizeProviderExecutorWriteOutcome outcome =
     (if trimSpace outcome \<in> {''applied'', ''source_auth_required'', ''rate_limited'', ''source_unavailable'', ''policy_denied'',
        ''conflict'', ''invalid_ref'', ''degraded''} then trimSpace outcome else ''degraded'')"

definition normalizeProviderExecutorVerifyOutcome :: "string \<Rightarrow> string" where
  "normalizeProviderExecutorVerifyOutcome outcome =
     (if trimSpace outcome \<in> {''verified'', ''source_auth_required'', ''rate_limited'', ''source_unavailable'', ''policy_denied'',
        ''degraded'', ''verification_failed''} then trimSpace outcome else ''verification_failed'')"

definition providerMigrationRetryAction :: "string \<Rightarrow> string" where
  "providerMigrationRetryAction outcome =
     (if outcome = ''source_auth_required'' then ''refresh_provider_auth_and_retry''
      else if outcome = ''rate_limited'' then ''retry_after_provider_backoff''
      else if outcome \<in> {''verification_failed'', ''verification_pending''} then ''retry_target_verification''
      else if outcome = ''conflict'' then ''refresh_target_version_and_retry''
      else if outcome = ''invalid_ref'' then ''fix_target_mapping''
      else if outcome \<in> {''source_unavailable'', ''degraded''} then ''restore_provider_availability_and_retry''
      else if outcome = ''unsupported'' then ''implement_provider_operation_executor''
      else ''review_failed_ref_and_retry'')"

definition providerMigrationApplyOutcome :: "migrationItemStatus list \<Rightarrow> string" where
  "providerMigrationApplyOutcome items =
     (if list_ex (\<lambda>i. mtOutcome i \<noteq> ''migrated'' \<or> \<not> mtVerified i) items then ''partial_failure'' else ''applied'')"

definition applyPersistedMigrationStatus :: "migrationItemStatus \<Rightarrow> providerMigrationOperationItem \<Rightarrow> migrationItemStatus" where
  "applyPersistedMigrationStatus status item =
     (let status1 = status\<lparr>mtState := miState item, mtOutcome := miOutcome item, mtVerified := miVerified item, mtAttempts := miAttempts item\<rparr> in
      if miVerified item then status1\<lparr>mtExpectedAction := ''none'', mtRecovery := ''source_retained_after_target_verification''\<rparr>
      else status1\<lparr>mtExpectedAction := providerMigrationRetryAction (miOutcome item)\<rparr>)"

definition failedMigrationOperationItem :: "providerMigrationOperationItem \<Rightarrow> string \<Rightarrow> string \<Rightarrow> time \<Rightarrow> providerMigrationOperationItem" where
  "failedMigrationOperationItem item ref outcome now =
     item\<lparr>miRef := ref, miState := ''failed'', miOutcome := outcome, miUpdatedAt := now\<rparr>"

definition migrationExecutionFailure :: "migrationPlanResponse \<Rightarrow> string \<Rightarrow> string \<Rightarrow> migrationPlanResponse" where
  "migrationExecutionFailure res outcome nextAction = res\<lparr>mzOutcome := outcome, mzApplied := False, mzNextAction := nextAction\<rparr>"

subsection \<open>Execution\<close>

definition persistProviderMigrationOperation ::
  "providerMigrationOperation \<Rightarrow> localStoreFile \<Rightarrow> 'm backend_scheme
    \<Rightarrow> gerror option \<times> localStoreFile \<times> providerMigrationOperation \<times> 'm backend_scheme" where
  "persistProviderMigrationOperation operation store b =
     (case loadStore b of Inl err \<Rightarrow> (Some err, store, operation, b)
      | Inr current0 \<Rightarrow>
          let operation1 = operation\<lparr>moUpdatedAt := bNow b\<rparr>;
              current = current0\<lparr>stMigrations := AList.update (moOperationID operation1) operation1 (stMigrations current0),
                stUpdatedAt := bNow b\<rparr>;
              w = saveStore current b in
          (fst w, current, operation1, snd w))"

definition localMigrationSourceValue ::
  "'z golib_scheme \<Rightarrow> localStoreFile \<Rightarrow> string \<Rightarrow> string \<Rightarrow> 'm backend_scheme \<Rightarrow> string \<times> string" where
  "localMigrationSourceValue L store sourceProviderID ref b =
     (if \<not> localMigrationSource (migrationSourceID sourceProviderID) then ([], ''unsupported'')
      else case map_of (stSecrets store) ref of None \<Rightarrow> ([], ''missing_ref'')
      | Some entry \<Rightarrow> (case decrypt L b (sePayload entry) of Inl _ \<Rightarrow> ([], ''degraded'') | Inr value \<Rightarrow> (value, ''ready'')))"

definition zeroMigrationItem :: providerMigrationOperationItem where
  "zeroMigrationItem = \<lparr>miRef = [], miState = [], miOutcome = [], miWriteApplied = False, miVerified = False, miAttempts = 0,
     miVerificationAttempts = 0, miUpdatedAt = 0\<rparr>"

text \<open>
  One item: its status, whether the ledger could be kept, and the copies of the store and the operation the loop
  works with. \<open>keepItem\<close> puts an item into the operation and saves it.
\<close>

type_synonym 'm itemResult = "migrationItemStatus \<times> bool \<times> localStoreFile \<times> providerMigrationOperation \<times> 'm backend_scheme"

definition keepItem ::
  "string \<Rightarrow> providerMigrationOperationItem \<Rightarrow> migrationItemStatus \<Rightarrow> localStoreFile \<Rightarrow> providerMigrationOperation \<Rightarrow> 'm backend_scheme
    \<Rightarrow> 'm itemResult" where
  "keepItem ref item status store operation b =
     (let w = persistProviderMigrationOperation (operation\<lparr>moItems := AList.update ref item (moItems operation)\<rparr>) store b in
      (status, fst w = None, snd w))"

definition verifyItem ::
  "'z golib_scheme \<Rightarrow> 'm backend_scheme providerMigrationExecutor \<Rightarrow> string \<Rightarrow> string \<Rightarrow> providerMigrationOperationItem \<Rightarrow> migrationItemStatus
    \<Rightarrow> localStoreFile \<Rightarrow> providerMigrationOperation \<Rightarrow> 'm backend_scheme \<Rightarrow> 'm itemResult" where
  "verifyItem L executor operationID value persisted status store operation b =
     (let v = exVerify executor \<lparr>xvOperationID = operationID,
              xvIdempotencyKey = providerMigrationItemIdempotencyKey L operationID (moTargetProviderID operation) (mtRef status),
              xvTargetProviderID = moTargetProviderID operation, xvRef = mtRef status, xvExpectedValue = value\<rparr> b;
          outcome = normalizeProviderExecutorVerifyOutcome (fst v);
          tried = persisted\<lparr>miVerificationAttempts := miVerificationAttempts persisted + 1, miUpdatedAt := bNow b\<rparr>;
          item = (if outcome = ''verified'' then tried\<lparr>miVerified := True, miState := ''migrated'', miOutcome := ''migrated''\<rparr>
                  else tried\<lparr>miState := ''failed'', miOutcome := outcome\<rparr>) in
      keepItem (mtRef status) item (applyPersistedMigrationStatus status item) store operation (snd v))"

definition executeItem ::
  "'z golib_scheme \<Rightarrow> 'm backend_scheme providerMigrationExecutor \<Rightarrow> string \<Rightarrow> migrationItemStatus \<Rightarrow> localStoreFile
    \<Rightarrow> providerMigrationOperation \<Rightarrow> 'm backend_scheme \<Rightarrow> 'm itemResult" where
  "executeItem L executor operationID status store operation b =
     (let ref = mtRef status;
          persisted = (case map_of (moItems operation) ref of Some item \<Rightarrow> item | None \<Rightarrow> zeroMigrationItem) in
      if mtOutcome status \<noteq> ''dry_run_ready'' then (status, True, store, operation, b)
      else if miVerified persisted then (applyPersistedMigrationStatus status persisted, True, store, operation, b)
      else
        let source = localMigrationSourceValue L store (moSourceProviderID operation) ref b in
        if snd source \<noteq> ''ready'' then
          let item = failedMigrationOperationItem persisted ref (snd source) (bNow b) in
          keepItem ref item (applyPersistedMigrationStatus status item) store operation b
        else if miWriteApplied persisted then verifyItem L executor operationID (fst source) persisted status store operation b
        else
          let w = exWrite executor \<lparr>xwOperationID = operationID,
                xwIdempotencyKey = providerMigrationItemIdempotencyKey L operationID (moTargetProviderID operation) ref,
                xwTargetProviderID = moTargetProviderID operation, xwRef = ref, xwValue = fst source\<rparr> b;
              outcome = normalizeProviderExecutorWriteOutcome (fst w);
              tried = persisted\<lparr>miRef := ref, miAttempts := miAttempts persisted + 1, miUpdatedAt := bNow b\<rparr> in
          if outcome \<noteq> ''applied'' then
            let item = tried\<lparr>miState := ''failed'', miOutcome := outcome\<rparr> in
            keepItem ref item (applyPersistedMigrationStatus status item) store operation (snd w)
          else
            let item = tried\<lparr>miWriteApplied := True, miState := ''verifying'', miOutcome := ''verification_pending''\<rparr>;
                (_, kept, store1, operation1, b1) = keepItem ref item status store operation (snd w) in
            if \<not> kept then (status, False, store1, operation1, b1)
            else verifyItem L executor operationID (fst source) item status store1 operation1 b1)"

fun executeItems ::
  "'z golib_scheme \<Rightarrow> 'm backend_scheme providerMigrationExecutor \<Rightarrow> string \<Rightarrow> migrationItemStatus list \<Rightarrow> localStoreFile
    \<Rightarrow> providerMigrationOperation \<Rightarrow> 'm backend_scheme
    \<Rightarrow> migrationItemStatus list \<times> bool \<times> localStoreFile \<times> providerMigrationOperation \<times> 'm backend_scheme" where
  "executeItems L executor operationID [] store operation b = ([], True, store, operation, b)"
| "executeItems L executor operationID (status # rest) store operation b =
     (let (status1, kept, store1, operation1, b1) = executeItem L executor operationID status store operation b in
      if \<not> kept then (status1 # rest, False, store1, operation1, b1)
      else let r = executeItems L executor operationID rest store1 operation1 b1 in (status1 # fst r, snd r))"

type_synonym 'm migrationResult = "(migrationPlanResponse \<times> gerror option) \<times> 'm backend_scheme"

text \<open>The end of an execution: the outcome of the items, kept in the ledger if it is new.\<close>

definition finishMigration ::
  "migrationPlanResponse \<Rightarrow> migrationItemStatus list \<Rightarrow> localStoreFile \<Rightarrow> providerMigrationOperation \<Rightarrow> 'm backend_scheme \<Rightarrow> 'm migrationResult" where
  "finishMigration res results store operation b =
     (let outcome = providerMigrationApplyOutcome results;
          res1 = res\<lparr>mzResults := results, mzOutcome := outcome, mzApplied := (outcome = ''applied''), mzRequiresConfirmation := False,
            mzNextAction := (if outcome = ''applied'' then mzNextAction res else ''retry_failed_refs_after_fix'')\<rparr> in
      if moOutcome operation = outcome then ((res1, None), b)
      else let w = persistProviderMigrationOperation (operation\<lparr>moOutcome := outcome\<rparr>) store b; b1 = snd (snd (snd w)) in
        if fst w \<noteq> None then ((migrationExecutionFailure res1 ''degraded'' ''retry_or_inspect_source'', Some errBackendDegraded), b1)
        else ((res1, None), b1))"

text \<open>Executing the items of an operation that is in the ledger.\<close>

definition runMigration ::
  "'z golib_scheme \<Rightarrow> 'm backend_scheme providerMigrationExecutor \<Rightarrow> string \<Rightarrow> migrationPlanResponse \<Rightarrow> localStoreFile
    \<Rightarrow> providerMigrationOperation \<Rightarrow> 'm backend_scheme \<Rightarrow> 'm migrationResult" where
  "runMigration L executor operationID res store operation b =
     (let (results, kept, store1, operation1, b1) = executeItems L executor operationID (mzResults res) store operation b in
      if \<not> kept then
        ((migrationExecutionFailure (res\<lparr>mzResults := results\<rparr>) ''degraded'' ''retry_or_inspect_source'', Some errBackendDegraded), b1)
      else finishMigration res results store1 operation1 b1)"

definition newMigrationOperation :: "'z golib_scheme \<Rightarrow> migrationPlanRequest \<Rightarrow> time \<Rightarrow> providerMigrationOperation" where
  "newMigrationOperation L req now =
     \<lparr>moOperationID = trimSpace (mwOperationID req), moPlanFingerprint = providerMigrationPlanFingerprint L req,
      moSourceProviderID = firstNonEmpty (mwSourceProviderID req) ''local'', moTargetProviderID = trimSpace (mwTargetProviderID req),
      moOutcome = ''in_progress'', moItems = [], moCreatedAt = now, moUpdatedAt = now\<rparr>"

definition executeProviderMigration ::
  "'z golib_scheme \<Rightarrow> registryIO \<Rightarrow> string list \<Rightarrow> sourceConfigSecurity \<Rightarrow> migrationPlanRequest \<Rightarrow> providerConfigStatus
    \<Rightarrow> 'm backend_scheme providerMigrationExecutor \<Rightarrow> migrationPlanResponse \<Rightarrow> 'm backend_scheme \<Rightarrow> 'm migrationResult" where
  "executeProviderMigration L io executors security req0 target executor res0 b =
     (let req = req0\<lparr>mwRefs := sort (safeList (mwRefs req0))\<rparr>;
          res = res0\<lparr>mzResults := migrationItems L io executors security req target False [] b\<rparr>;
          operationID = trimSpace (mwOperationID req);
          degraded = (migrationExecutionFailure res ''degraded'' ''retry_or_inspect_source'', Some errBackendDegraded) in
      case loadStore b of Inl _ \<Rightarrow> (degraded, b)
      | Inr store \<Rightarrow>
          (case map_of (stMigrations store) operationID of
             Some operation \<Rightarrow>
               if moPlanFingerprint operation \<noteq> providerMigrationPlanFingerprint L req then
                 ((res\<lparr>mzOutcome := ''conflict'', mzNextAction := ''create_new_operation_id_for_changed_plan'', mzApplied := False,
                     mzResults := map (\<lambda>i. i\<lparr>mtState := ''failed'', mtOutcome := ''conflict'', mtPolicyResult := ''denied''\<rparr>) (mzResults res)\<rparr>,
                   Some errMigrationPlanConflict), b)
               else runMigration L executor operationID res store operation b
           | None \<Rightarrow>
               let operation = newMigrationOperation L req (bNow b);
                   store1 = store\<lparr>stMigrations := AList.update operationID operation (stMigrations store), stUpdatedAt := bNow b\<rparr> in
               check (saveStore store1 b) (\<lambda>_ b1. (degraded, b1)) (\<lambda>b1. runMigration L executor operationID res store1 operation b1)))"

subsection \<open>The operations\<close>

text \<open>The plan, and what to do with it: \<open>migrationBase\<close> is the answer before anything is checked.\<close>

definition migrationBase :: "migrationPlanRequest \<Rightarrow> string \<Rightarrow> bool \<Rightarrow> migrationPlanResponse" where
  "migrationBase req operation app =
     \<lparr>mzServiceID = serviceID, mzAPIVersion = apiVersion, mzRequestID = mwRequestID req, mzOperationID = mwOperationID req,
      mzOperation = operation, mzOutcome = [], mzApplied = False, mzRequiresConfirmation = (\<not> app), mzAuditStatus = ''audit_pending'',
      mzNextAction = [], mzSourceProviderID = firstNonEmpty (mwSourceProviderID req) ''local'',
      mzTargetProviderID = trimSpace (mwTargetProviderID req), mzResults = [],
      mzRollback = ''restore from encrypted backup or rerun migration for denied/failed refs after fixing provider state''\<rparr>"

definition applyMigrationPlan ::
  "'z golib_scheme \<Rightarrow> registryIO \<Rightarrow> 'm backend_scheme providerMigrationExecutor gomap \<Rightarrow> sourceConfigSecurity \<Rightarrow> migrationPlanRequest
    \<Rightarrow> providerConfigStatus \<Rightarrow> migrationPlanResponse \<Rightarrow> 'm backend_scheme \<Rightarrow> 'm migrationResult" where
  "applyMigrationPlan L io executors security req target res b =
     (let failed = (\<lambda>outcome. migrationItems L io (map fst executors) security req target True outcome b) in
      case providerMigrationPlanConflicts L req b of
        Inl _ \<Rightarrow> ((res\<lparr>mzOutcome := ''degraded'', mzNextAction := ''retry_or_inspect_source''\<rparr>, Some errBackendDegraded), b)
      | Inr True \<Rightarrow> ((res\<lparr>mzOutcome := ''conflict'', mzNextAction := ''create_new_operation_id_for_changed_plan'',
            mzResults := failed ''conflict''\<rparr>, Some errMigrationPlanConflict), b)
      | Inr False \<Rightarrow>
          (case map_of executors (trimSpace (mwTargetProviderID req)) of
             None \<Rightarrow> ((res\<lparr>mzOutcome := ''unsupported'', mzNextAction := ''implement_provider_operation_executor'',
                 mzResults := failed ''unsupported''\<rparr>, Some errUnsupportedProvider), b)
           | Some executor \<Rightarrow>
               let unaudited = (\<lambda>b1. ((res\<lparr>mzOutcome := ''audit_unavailable'', mzAuditStatus := ''audit_unavailable'',
                     mzNextAction := ''restore_audit_and_retry'',
                     mzResults := migrationItems L io (map fst executors) security req target True ''audit_unavailable'' b1\<rparr>,
                   Some errProviderAuditUnavailable), b1)) in
               if trimSpace (bAuditPath b) = [] then unaudited b
               else check (audit L ''provider_migration_apply_authorized'' (mwTargetProviderID req) ''ready'' (mwServiceID req) (mwRequestID req) b)
                 (\<lambda>_ b1. unaudited b1)
                 (\<lambda>b1. executeProviderMigration L io (map fst executors) security req target executor res b1)))"

definition buildMigrationPlan ::
  "'z golib_scheme \<Rightarrow> registryIO \<Rightarrow> 'm backend_scheme providerMigrationExecutor gomap \<Rightarrow> sourceConfigSecurity \<Rightarrow> migrationPlanRequest
    \<Rightarrow> string \<Rightarrow> bool \<Rightarrow> 'm backend_scheme \<Rightarrow> 'm migrationResult" where
  "buildMigrationPlan L io executors security req operation app b =
     (let res = migrationBase req operation app in
      if trimSpace (mwTargetProviderID req) = [] \<or> \<not> validSecretRef (mwTargetProviderID req) then
        ((res\<lparr>mzOutcome := ''invalid_ref'', mzNextAction := ''select_target_provider''\<rparr>, Some errInvalidRef), b)
      else if app \<and> (\<not> mwConfirm req \<or> trimSpace (mwReason req) = [] \<or> trimSpace (mwOperationID req) = []) then
        ((res\<lparr>mzOutcome := ''policy_denied'', mzNextAction := ''confirm_with_operation_id_and_audit_reason''\<rparr>, Some errPolicyDenied), b)
      else if isLocked b then ((res\<lparr>mzOutcome := ''locked'', mzNextAction := ''unlock_broker''\<rparr>, Some errLocked), b)
      else
        let target = lookupProvider L io (map fst executors) security (mwTargetProviderID req) b in
        if \<not> providerCanPlanMigrationTarget L (pfProviderKind target) \<or> pfOutcome target \<noteq> ''ready'' then
          let outcome = providerMigrationOutcome target in
          ((res\<lparr>mzOutcome := outcome, mzNextAction := providerNextAction outcome,
              mzResults := migrationItems L io (map fst executors) security req target app outcome b\<rparr>, Some (outcomeErrorForProvider outcome)), b)
        else
          let source = migrationSourceRefs L io (map fst executors) security (firstNonEmpty (mwSourceProviderID req) ''local'') b;
              everything = safeList (mwRefs req) = [] in
          if everything \<and> snd source \<noteq> ''ready'' then
            ((res\<lparr>mzOutcome := snd source, mzNextAction := providerNextAction (snd source)\<rparr>, Some (outcomeErrorForProvider (snd source))), b)
          else
            let req1 = (if everything then req\<lparr>mwRefs := fst source\<rparr> else req) in
            if app then applyMigrationPlan L io executors security req1 target res b
            else
              let items = migrationItems L io (map fst executors) security req1 target app [] b; outcome = migrationAggregateOutcome items in
              ((res\<lparr>mzResults := items, mzOutcome := outcome,
                  mzNextAction := (if outcome = ''partial_failure'' \<or> outcome = ''policy_denied'' then ''review_denied_or_failed_refs'' else [])\<rparr>,
                None), b))"

definition finalizeMigrationAudit ::
  "'z golib_scheme \<Rightarrow> string \<Rightarrow> migrationPlanRequest \<Rightarrow> 'm migrationResult \<Rightarrow> 'm migrationResult" where
  "finalizeMigrationAudit L operation req r =
     (let res = fst (fst r); b = snd r;
          unavailable = (res\<lparr>mzOutcome := ''audit_unavailable'', mzApplied := False, mzAuditStatus := ''audit_unavailable'',
            mzNextAction := ''restore_audit_and_retry'',
            mzResults := map (\<lambda>i. i\<lparr>mtState := ''failed'', mtOutcome := ''audit_unavailable'', mtPolicyResult := ''denied''\<rparr>) (mzResults res)\<rparr>,
            Some errProviderAuditUnavailable) in
      if trimSpace (bAuditPath b) = [] then (unavailable, b)
      else check (audit L operation (mwTargetProviderID req) (mzOutcome res) (mwServiceID req) (mwRequestID req) b)
        (\<lambda>_ b1. (unavailable, b1))
        (\<lambda>b1. ((res\<lparr>mzAuditStatus := ''audit_recorded''\<rparr>, snd (fst r)), b1)))"

definition migrationDryRun ::
  "'z golib_scheme \<Rightarrow> registryIO \<Rightarrow> 'm backend_scheme providerMigrationExecutor gomap \<Rightarrow> sourceConfigSecurity \<Rightarrow> migrationPlanRequest
    \<Rightarrow> 'm backend_scheme \<Rightarrow> 'm migrationResult" where
  "migrationDryRun L io executors security req b =
     finalizeMigrationAudit L ''provider_migration_dry_run'' req
       (buildMigrationPlan L io executors security req ''migration_dry_run'' False b)"

definition migrationApply ::
  "'z golib_scheme \<Rightarrow> registryIO \<Rightarrow> 'm backend_scheme providerMigrationExecutor gomap \<Rightarrow> sourceConfigSecurity \<Rightarrow> migrationPlanRequest
    \<Rightarrow> 'm backend_scheme \<Rightarrow> 'm migrationResult" where
  "migrationApply L io executors security req b =
     finalizeMigrationAudit L ''provider_migration_apply'' req
       (buildMigrationPlan L io executors security req ''migration_apply'' True b)"

definition writeMigrationActionError :: "gerror \<Rightarrow> migrationPlanResponse \<Rightarrow> migrationPlanResponse reply" where
  "writeMigrationActionError err res =
     Json (if errorIs err errInvalidRef then 400 else if errorIs err errPolicyDenied then 403
           else if errorIs err errMigrationPlanConflict then 409 else if errorIs err errUnsupportedProvider then 501 else 503) res"

definition registerMigrationAction ::
  "'z golib_scheme \<Rightarrow> string \<Rightarrow> string \<Rightarrow> (migrationPlanRequest \<Rightarrow> 'm backend_scheme \<Rightarrow> 'm migrationResult)
    \<Rightarrow> httpRequest \<Rightarrow> migrationPlanRequest decoded \<Rightarrow> 'm backend_scheme \<Rightarrow> migrationPlanResponse reply \<times> 'm backend_scheme" where
  "registerMigrationAction L token path handler r body b =
     (if hMethod r \<noteq> ''POST'' then (writeAPIError 405 ''method_not_allowed'' (''Use POST '' @ path @ ''.'') ''invalid_ref'' [], b)
      else check (require L token r b) (\<lambda>refusal b1. (refusal, b1))
        (\<lambda>b1. case body of BodyTooLarge \<Rightarrow> (writeDecodeError True, b1) | BodyMalformed \<Rightarrow> (writeDecodeError False, b1)
         | Decoded req \<Rightarrow> let h = handler req b1 in
             (case snd (fst h) of Some err \<Rightarrow> writeMigrationActionError err (fst (fst h)) | None \<Rightarrow> Json 200 (fst (fst h)), snd h)))"

subsection \<open>The executor of the local store\<close>

definition localExecutorEntry :: "'z golib_scheme \<Rightarrow> string \<Rightarrow> secretPayload \<Rightarrow> localStoreFile \<Rightarrow> time \<Rightarrow> secretEntry" where
  "localExecutorEntry L ref payload store now =
     \<lparr>seRef = ref,
      seMetadata = \<lparr>smSourceID = localStoreSource, smVersion = formatNano L now,
        smCreatedAt = (case map_of (stSecrets store) ref of Some e \<Rightarrow> smCreatedAt (seMetadata e) | None \<Rightarrow> now), smUpdatedAt = now\<rparr>,
      sePayload = payload, seKV = None\<rparr>"

definition localStoreWrite :: "'z golib_scheme \<Rightarrow> providerMigrationWriteRequest \<Rightarrow> 'm backend_scheme \<Rightarrow> string \<times> 'm backend_scheme" where
  "localStoreWrite L req b =
     (if isLocked b then (''locked'', b)
      else let ref = trimSpace (xwRef req) in
        if \<not> validSecretRef ref \<or> xwValue req = [] then (''invalid_ref'', b)
        else case loadStore b of Inl _ \<Rightarrow> (''degraded'', b)
        | Inr store0 \<Rightarrow>
            let store = stampKey L (bMasterKey b) store0 in
            attempt (encrypt L (xwValue req) b) (\<lambda>_ b1. (''degraded'', b1))
              (\<lambda>payload b1.
                 check (saveStore (store\<lparr>stSecrets := AList.update ref (localExecutorEntry L ref payload store (bNow b)) (stSecrets store),
                     stUpdatedAt := bNow b\<rparr>) b1)
                   (\<lambda>_ b2. (''degraded'', b2)) (\<lambda>b2. (''applied'', b2))))"

definition localStoreVerify :: "'z golib_scheme \<Rightarrow> providerMigrationVerifyRequest \<Rightarrow> 'm backend_scheme \<Rightarrow> string \<times> 'm backend_scheme" where
  "localStoreVerify L req b =
     (case loadStore b of Inl _ \<Rightarrow> (''degraded'', b)
      | Inr store \<Rightarrow>
          (case map_of (stSecrets store) (trimSpace (xvRef req)) of None \<Rightarrow> (''verification_failed'', b)
           | Some entry \<Rightarrow>
               (case decrypt L b (sePayload entry) of Inl _ \<Rightarrow> (''degraded'', b)
                | Inr value \<Rightarrow> (if value \<noteq> xvExpectedValue req then ''verification_failed'' else ''verified'', b))))"

definition localStoreMigrationExecutor :: "'z golib_scheme \<Rightarrow> 'm backend_scheme providerMigrationExecutor" where
  "localStoreMigrationExecutor L = \<lparr>exWrite = localStoreWrite L, exVerify = localStoreVerify L\<rparr>"

end
