(* ===== verification/Migration_Facts.thy ===== *)
theory Migration_Facts
  imports Provider_Migration
begin

text \<open>
  Facts about provider migrations: no migration changes the value of a secret, a migration that was applied is
  final, and what an interrupted one can get stuck in.
\<close>

subsection \<open>The contract of an executor\<close>

definition secretsKept :: "'z golib_scheme \<Rightarrow> 'm backend_scheme \<Rightarrow> 'm backend_scheme \<Rightarrow> bool" where
  "secretsKept L b b' \<longleftrightarrow> vault L b' = vault L b \<and> bMasterKey b' = bMasterKey b"

lemma kept_refl [simp]: "secretsKept L b b"
  by (simp add: secretsKept_def)

lemma kept_trans [trans]: "secretsKept L b b1 \<Longrightarrow> secretsKept L b1 b2 \<Longrightarrow> secretsKept L b b2"
  by (simp add: secretsKept_def)

lemma kept_disk: "bDisk b' = bDisk b \<Longrightarrow> bMasterKey b' = bMasterKey b \<Longrightarrow> secretsKept L b b'"
  by (simp add: secretsKept_def vault_cong [of b' b])

lemma kept_secrets:
  "bMasterKey b' = bMasterKey b \<Longrightarrow> secretsOf (bDisk b') = secretsOf (bDisk b) \<Longrightarrow> secretsKept L b b'"
  by (auto simp: secretsKept_def vault_def fun_eq_iff decrypt_cong [of b' b] split: option.split)

text \<open>An executor may not change a secret of the broker: writing a value where it already is changes no value.\<close>

locale migration_executor =
  fixes L :: "'z golib_scheme" and executor :: "'m backend_scheme providerMigrationExecutor" and lawful :: bool
  assumes write_keeps: "lawful \<Longrightarrow> trimSpace (xwRef w) = xwRef w \<Longrightarrow> vault L b (xwRef w) = Some (xwValue w)
      \<Longrightarrow> secretsKept L b (snd (exWrite executor w b))"
    and verify_keeps: "lawful \<Longrightarrow> secretsKept L b (snd (exVerify executor v b))"

text \<open>A remote executor leaves the broker alone; what it does is in the part of the state behind the broker's fields.\<close>

definition leavesBroker :: "'m backend_scheme providerMigrationExecutor \<Rightarrow> bool" where
  "leavesBroker executor \<longleftrightarrow> (\<forall>w b. backend.truncate (snd (exWrite executor w b)) = backend.truncate b)
     \<and> (\<forall>v b. backend.truncate (snd (exVerify executor v b)) = backend.truncate b)"

lemma truncate_fields:
  assumes "backend.truncate b' = backend.truncate b"
  shows "bDisk b' = bDisk b" "bMasterKey b' = bMasterKey b" "bNow b' = bNow b" "bSources b' = bSources b" "bAuditPath b' = bAuditPath b"
  using assms by (simp_all add: backend.defs)

lemma remote_contract: "leavesBroker executor \<Longrightarrow> migration_executor L executor lawful"
  by unfold_locales (use truncate_fields(1,2) in \<open>blast intro: kept_disk dest: leavesBroker_def [THEN iffD1]\<close>)+

lemma localStoreWrite_keeps:
  assumes "lib_ok L" "trimSpace (xwRef w) = xwRef w" "vault L b (xwRef w) = Some (xwValue w)"
  shows "secretsKept L b (snd (localStoreWrite L w b))"
proof (cases "isLocked b \<or> \<not> validSecretRef (xwRef w) \<or> xwValue w = [] \<or> is_err (loadStore b) \<or> is_err (fst (encrypt L (xwValue w) b))")
  case True
  then show ?thesis
    by (auto simp: localStoreWrite_def Let_def assms(2) attempt_def is_err_def split: sum.splits intro!: kept_disk)
next
  case False
  then obtain s p where s: "loadStore b = Inr s" and p: "fst (encrypt L (xwValue w) b) = Inr p"
    by (auto simp: is_err_def split: sum.splits)
  let ?b1 = "snd (encrypt L (xwValue w) b)"
  let ?s = "stampKey L (bMasterKey b) s"
  let ?new = "?s\<lparr>stSecrets := AList.update (xwRef w) (localExecutorEntry L (xwRef w) p ?s (bNow b)) (stSecrets ?s), stUpdatedAt := bNow b\<rparr>"
  have b': "snd (localStoreWrite L w b) = snd (saveStore ?new ?b1)"
    using False s p by (auto simp: localStoreWrite_def Let_def assms(2) check_def split: option.split)
  from save_disk(2) [of ?new ?b1] show ?thesis
  proof
    assume d: "bDisk (snd (saveStore ?new ?b1)) = Stored ?new"
    have "vault L (snd (saveStore ?new ?b1)) = (vault L b)(xwRef w \<mapsto> xwValue w)"
    proof (rule vault_stored [OF d])
      have "sePayload (localExecutorEntry L (xwRef w) p ?s (bNow b)) = p" by (simp add: localExecutorEntry_def)
      then show "decrypt L b (sePayload (localExecutorEntry L (xwRef w) p ?s (bNow b))) = Inr (xwValue w)"
        using decrypt_encrypt [OF assms(1) p refl] by simp
    qed (simp_all add: secretsOf_load [OF s])
    also have "\<dots> = vault L b" using assms(3) by (simp add: fun_upd_idem)
    finally show ?thesis by (simp add: b' secretsKept_def)
  qed (simp add: b' kept_disk)
qed

lemma localStoreVerify_same [simp]: "snd (localStoreVerify L v b) = b"
  by (simp add: localStoreVerify_def Let_def split: sum.split option.split)

interpretation local_store: migration_executor L "localStoreMigrationExecutor L" "lib_ok L"
  by unfold_locales (simp_all add: localStoreMigrationExecutor_def localStoreWrite_keeps)

subsection \<open>The loop over the items\<close>

text \<open>The copy of the store the loop reads from shows only values that are in the vault.\<close>

definition copyHonest :: "'z golib_scheme \<Rightarrow> localStoreFile \<Rightarrow> 'm backend_scheme \<Rightarrow> bool" where
  "copyHonest L store b \<longleftrightarrow>
     (\<forall>r e v. map_of (stSecrets store) r = Some e \<longrightarrow> decrypt L b (sePayload e) = Inr v \<longrightarrow> vault L b r = Some v)"

lemma honest_load: "loadStore b = Inr store \<Longrightarrow> copyHonest L store b"
  by (simp add: copyHonest_def vault_def secretsOf_load)

lemma honest_kept: "copyHonest L store b \<Longrightarrow> secretsKept L b b' \<Longrightarrow> copyHonest L store b'"
  by (simp add: copyHonest_def secretsKept_def decrypt_cong [of b' b])

lemma honest_secrets: "copyHonest L store b \<Longrightarrow> stSecrets store' = stSecrets store \<Longrightarrow> copyHonest L store' b"
  by (simp add: copyHonest_def)

lemma persist_keeps:
  fixes b :: "'m backend_scheme"
  assumes "persistProviderMigrationOperation operation store b = (err, store', operation', b')"
  shows "secretsKept L b b'" "copyHonest L store b \<Longrightarrow> copyHonest L store' b'"
proof -
  have "secretsKept L b b' \<and> (copyHonest L store b \<longrightarrow> copyHonest L store' b')"
  proof (cases "loadStore b")
    case (Inl e)
    then show ?thesis using assms by (simp add: persistProviderMigrationOperation_def)
  next
    case (Inr current)
    let ?op = "operation\<lparr>moUpdatedAt := bNow b\<rparr>"
    let ?new = "current\<lparr>stMigrations := AList.update (moOperationID ?op) ?op (stMigrations current), stUpdatedAt := bNow b\<rparr>"
    have eq: "store' = ?new" "b' = snd (saveStore ?new b)"
      using assms Inr by (auto simp: persistProviderMigrationOperation_def Let_def)
    have k: "secretsKept L b b'"
      using save_disk(2) [of ?new b] by (intro kept_secrets) (auto simp: eq secretsOf_load [OF Inr] secretsOf_def)
    have "copyHonest L ?new b" by (rule honest_secrets [OF honest_load [OF Inr]]) simp
    then show ?thesis using k honest_kept eq(1) by blast
  qed
  then show "secretsKept L b b'" "copyHonest L store b \<Longrightarrow> copyHonest L store' b'" by blast+
qed

lemma keepItem_keeps:
  assumes "keepItem ref item status store operation b = (status', kept, store', operation', b')"
  shows "secretsKept L b b'" "copyHonest L store b \<Longrightarrow> copyHonest L store' b'"
  using assms persist_keeps [of "operation\<lparr>moItems := AList.update ref item (moItems operation)\<rparr>" store b _ store' operation' b' L]
  by (auto simp: keepItem_def Let_def prod_eq_iff)

context migration_executor
begin

lemma verifyItem_keeps:
  assumes "lawful" "verifyItem L executor operationID value persisted status store operation b = (status', kept, store', operation', b')"
    and "copyHonest L store b"
  shows "secretsKept L b b' \<and> copyHonest L store' b'"
proof -
  note v = verify_keeps [OF assms(1)]
  note unfolded = assms(2) [unfolded verifyItem_def Let_def]
  show ?thesis
    using kept_trans [OF v keepItem_keeps(1) [OF unfolded]] keepItem_keeps(2) [OF unfolded honest_kept [OF assms(3) v]] by blast
qed

lemma executeItem_keeps:
  assumes "lawful" "trimSpace (mtRef status) = mtRef status" "copyHonest L store b"
    and "executeItem L executor operationID status store operation b = (status', kept, store', operation', b')"
  shows "secretsKept L b b' \<and> copyHonest L store' b'"
proof -
  define persisted where "persisted = (case map_of (moItems operation) (mtRef status) of Some item \<Rightarrow> item | None \<Rightarrow> zeroMigrationItem)"
  define source where "source = localMigrationSourceValue L store (moSourceProviderID operation) (mtRef status) b"
  show ?thesis
  proof (cases "mtOutcome status \<noteq> ''dry_run_ready'' \<or> miVerified persisted")
    case True
    then show ?thesis using assms(3,4) by (auto simp: executeItem_def Let_def persisted_def split: if_splits)
  next
    case go: False
    note eq = assms(4) [unfolded executeItem_def Let_def, folded persisted_def, folded source_def]
    show ?thesis
    proof (cases "snd source = ''ready''")
      case False
      then show ?thesis using eq go keepItem_keeps assms(3) by auto
    next
      case True
      then have v: "vault L b (mtRef status) = Some (fst source)"
        using assms(3) by (auto simp: source_def localMigrationSourceValue_def copyHonest_def split: if_splits option.splits sum.splits)
      show ?thesis
      proof (cases "miWriteApplied persisted")
        case True
        then show ?thesis using eq go \<open>snd source = ''ready''\<close> verifyItem_keeps [OF assms(1) _ assms(3)] by auto
      next
        case False
        define req where "req = \<lparr>xwOperationID = operationID,
            xwIdempotencyKey = providerMigrationItemIdempotencyKey L operationID (moTargetProviderID operation) (mtRef status),
            xwTargetProviderID = moTargetProviderID operation, xwRef = mtRef status, xwValue = fst source\<rparr>"
        define b1 where "b1 = snd (exWrite executor req b)"
        have k: "secretsKept L b b1" unfolding b1_def
          by (rule write_keeps [OF assms(1)]) (simp_all add: req_def assms(2) v)
        note honest = honest_kept [OF assms(3) k]
        note step = eq [folded req_def, folded b1_def] go True False
        show ?thesis
        proof (cases "normalizeProviderExecutorWriteOutcome (fst (exWrite executor req b)) = ''applied''")
          case False
          then show ?thesis using step keepItem_keeps(1) [of _ _ _ store operation b1 status' kept store' operation' b' L]
              keepItem_keeps(2) [of _ _ _ store operation b1 status' kept store' operation' b' L] honest kept_trans [OF k] by auto
        next
          case True
          define item where "item = persisted\<lparr>miRef := mtRef status, miAttempts := miAttempts persisted + 1, miUpdatedAt := bNow b,
              miWriteApplied := True, miState := ''verifying'', miOutcome := ''verification_pending''\<rparr>"
          obtain st2 kept2 store2 operation2 b2 where r2: "keepItem (mtRef status) item status store operation b1 = (st2, kept2, store2, operation2, b2)"
            by (metis prod_cases5)
          note k2 = kept_trans [OF k keepItem_keeps(1) [OF r2]] and h2 = keepItem_keeps(2) [OF r2 honest]
          show ?thesis
          proof (cases kept2)
            case False
            then show ?thesis using step True k2 h2 r2 by (simp add: item_def)
          next
            case kept2: True
            then have "verifyItem L executor operationID (fst source) item status store2 operation2 b2 = (status', kept, store', operation', b')"
              using step True r2 by (simp add: item_def)
            from verifyItem_keeps [OF assms(1) this h2] show ?thesis using kept_trans [OF k2] by blast
          qed
        qed
      qed
    qed
  qed
qed

lemma executeItems_keeps:
  assumes "lawful" "\<forall>status \<in> set items. trimSpace (mtRef status) = mtRef status" "copyHonest L store b"
    and "executeItems L executor operationID items store operation b = (results, kept, store', operation', b')"
  shows "secretsKept L b b'"
  using assms(2-)
proof (induction items arbitrary: store operation b results)
  case (Cons status rest)
  obtain status1 kept1 store1 operation1 b1 where r: "executeItem L executor operationID status store operation b
      = (status1, kept1, store1, operation1, b1)" by (metis prod_cases5)
  have one: "secretsKept L b b1 \<and> copyHonest L store1 b1"
    by (rule executeItem_keeps [OF assms(1) _ Cons.prems(2) r]) (use Cons.prems(1) in simp)
  show ?case
  proof (cases kept1)
    case False
    then show ?thesis using Cons.prems(3) r one by simp
  next
    case True
    then obtain results1 where "executeItems L executor operationID rest store1 operation1 b1 = (results1, kept, store', operation', b')"
      using Cons.prems(3) r by (auto simp: Let_def prod_eq_iff)
    from Cons.IH [OF _ _ this] one Cons.prems(1) show ?thesis using kept_trans by auto
  qed
qed simp

lemma runMigration_keeps:
  assumes "lawful" "\<forall>status \<in> set (mzResults res). trimSpace (mtRef status) = mtRef status" "copyHonest L store b"
  shows "secretsKept L b (snd (runMigration L executor operationID res store operation b))"
proof -
  obtain results kept store1 operation1 b1 where r: "executeItems L executor operationID (mzResults res) store operation b
      = (results, kept, store1, operation1, b1)" by (metis prod_cases5)
  have k: "secretsKept L b b1" by (rule executeItems_keeps [OF assms(1,2,3) r])
  obtain err st op b2 where w: "persistProviderMigrationOperation (operation1\<lparr>moOutcome := providerMigrationApplyOutcome results\<rparr>) store1 b1
      = (err, st, op, b2)" by (metis prod_cases4)
  have "snd (finishMigration res results store1 operation1 b1) \<in> {b1, b2}"
    by (simp add: finishMigration_def Let_def w)
  then show ?thesis using k kept_trans [OF k persist_keeps(1) [OF w]] by (auto simp: runMigration_def r)
qed

lemma executeProviderMigration_keeps:
  assumes "lawful"
  shows "secretsKept L b (snd (executeProviderMigration L io executors security req target executor res b))"
proof (cases "loadStore b")
  case (Inr store)
  let ?req = "req\<lparr>mwRefs := sort (safeList (mwRefs req))\<rparr>"
  let ?res = "res\<lparr>mzResults := migrationItems L io executors security ?req target False [] b\<rparr>"
  have trimmed: "\<forall>status \<in> set (mzResults ?res). trimSpace (mtRef status) = mtRef status"
    by (auto simp: migrationItems_def migrationItem_def Let_def safeList_eq)
  note run = runMigration_keeps [OF assms trimmed]
  show ?thesis
  proof (cases "map_of (stMigrations store) (trimSpace (mwOperationID ?req))")
    case (Some operation)
    then show ?thesis using run [OF honest_load [OF Inr]] by (simp add: executeProviderMigration_def Inr Let_def)
  next
    case None
    let ?op = "newMigrationOperation L ?req (bNow b)"
    let ?store = "store\<lparr>stMigrations := AList.update (trimSpace (mwOperationID ?req)) ?op (stMigrations store), stUpdatedAt := bNow b\<rparr>"
    have k: "secretsKept L b (snd (saveStore ?store b))"
      using save_disk(2) [of ?store b] by (intro kept_secrets) (auto simp: secretsOf_load [OF Inr] secretsOf_def)
    have "copyHonest L ?store b" by (rule honest_secrets [OF honest_load [OF Inr]]) simp
    note run = run [OF honest_kept [OF this k], THEN kept_trans [OF k]]
    show ?thesis
    proof (cases "fst (saveStore ?store b)")
      case (Some e)
      then show ?thesis using k None by (simp add: executeProviderMigration_def Inr Let_def)
    next
      case ok: None
      then show ?thesis using run [of "trimSpace (mwOperationID ?req)" ?op] None by (simp add: executeProviderMigration_def Inr Let_def)
    qed
  qed
qed (simp add: executeProviderMigration_def Let_def)

end

subsection \<open>The whole operation\<close>

lemma kept_audit [simp]: "secretsKept L b (snd (audit L op ref oc svc rid b))"
  by (rule kept_disk) simp_all

lemma configured_executor:
  fixes remote :: "sourceConfig \<Rightarrow> 'x"
  assumes "map_of (configureProviderMigrationExecutors L io remote localExecutor sources []) providerID = Some executor"
  shows "executor = localExecutor \<or> executor \<in> range remote"
proof -
  define good :: "'x gomap \<Rightarrow> bool" where "good exs \<longleftrightarrow> (\<forall>k e. map_of exs k = Some e \<longrightarrow> e = localExecutor \<or> e \<in> range remote)" for exs
  have registered: "good (registerProviderMigrationExecutor k e exs)" if "good exs" "e = localExecutor \<or> e \<in> range remote" for k e exs
    using that by (auto simp: good_def registerProviderMigrationExecutor_def)
  have "good (configureProviderMigrationExecutors L io remote localExecutor sources [])"
    unfolding configureProviderMigrationExecutors_def registerLocalStoreMigrationExecutor_def
  proof (rule fold_invariant [where P = good and Q = "\<lambda>_. True"])
    have "good []" by (simp add: good_def)
    then show "good (registerProviderMigrationExecutor ''local-encrypted-store'' localExecutor
        (registerProviderMigrationExecutor ''local'' localExecutor []))" by (intro registered) simp_all
  qed (simp_all add: registered)
  then show ?thesis using assms by (auto simp: good_def)
qed

lemma finalize_disk [simp]: "bDisk (snd (finalizeMigrationAudit L op req r)) = bDisk (snd r)"
  "bMasterKey (snd (finalizeMigrationAudit L op req r)) = bMasterKey (snd r)"
  by (auto simp: finalizeMigrationAudit_def Let_def check_def split: option.split)

text \<open>A plan reaches the executor only if it is confirmed, the broker is unlocked and the authorization is on the audit log.\<close>

definition migrationAdmitted :: "migrationPlanRequest \<Rightarrow> 'm backend_scheme \<Rightarrow> bool" where
  "migrationAdmitted req b \<longleftrightarrow> validSecretRef (mwTargetProviderID req) \<and> mwConfirm req \<and> trimSpace (mwReason req) \<noteq> []
     \<and> trimSpace (mwOperationID req) \<noteq> [] \<and> \<not> isLocked b"

lemma applyMigrationPlan_cases:
  fixes b :: "'m backend_scheme"
  assumes "applyMigrationPlan L io executors security req target res b = r"
  obtains (refused) "snd (fst r) \<noteq> None" "mzApplied (fst (fst r)) = mzApplied res"
      "snd r = b \<or> snd r = snd (audit L ''provider_migration_apply_authorized'' (mwTargetProviderID req) ''ready'' (mwServiceID req) (mwRequestID req) b)"
  | (executed) executor b1 where "map_of executors (trimSpace (mwTargetProviderID req)) = Some executor"
      "audit L ''provider_migration_apply_authorized'' (mwTargetProviderID req) ''ready'' (mwServiceID req) (mwRequestID req) b = (None, b1)"
      "trimSpace (bAuditPath b) \<noteq> []"
      "r = executeProviderMigration L io (map fst executors) security req target executor res b1"
proof -
  let ?audit = "audit L ''provider_migration_apply_authorized'' (mwTargetProviderID req) ''ready'' (mwServiceID req) (mwRequestID req) b"
  show ?thesis
  proof (cases "providerMigrationPlanConflicts L req b = Inr False \<and> trimSpace (bAuditPath b) \<noteq> [] \<and> fst ?audit = None
      \<and> map_of executors (trimSpace (mwTargetProviderID req)) \<noteq> None")
    case True
    then obtain executor where e: "map_of executors (trimSpace (mwTargetProviderID req)) = Some executor" by blast
    have "?audit = (None, snd ?audit)" using True by (metis prod.collapse)
    then show ?thesis using executed [OF e, of "snd ?audit"] True e assms by (simp add: applyMigrationPlan_def Let_def)
  next
    case False
    then show ?thesis using assms
      by (intro refused) (auto simp: applyMigrationPlan_def Let_def check_def split: sum.splits bool.splits option.splits if_splits)
  qed
qed

text \<open>The request with the references it stands for: those it names, or all references of the source.\<close>

definition plannedRequest ::
  "'z golib_scheme \<Rightarrow> registryIO \<Rightarrow> string list \<Rightarrow> sourceConfigSecurity \<Rightarrow> migrationPlanRequest \<Rightarrow> 'm backend_scheme \<Rightarrow> migrationPlanRequest" where
  "plannedRequest L io executors security req b =
     (if safeList (mwRefs req) = []
      then req\<lparr>mwRefs := fst (migrationSourceRefs L io executors security (firstNonEmpty (mwSourceProviderID req) ''local'') b)\<rparr> else req)"

lemma buildMigrationPlan_cases:
  fixes b :: "'m backend_scheme"
  assumes "buildMigrationPlan L io executors security req op True b = r"
  obtains (refused) "snd (fst r) \<noteq> None" "\<not> mzApplied (fst (fst r))" "snd r = b"
  | (planned) "migrationAdmitted req b"
      "r = applyMigrationPlan L io executors security (plannedRequest L io (map fst executors) security req b)
        (lookupProvider L io (map fst executors) security (mwTargetProviderID req) b) (migrationBase req op True) b"
proof (cases "migrationAdmitted req b")
  case False
  then consider "\<not> validSecretRef (mwTargetProviderID req)"
    | "validSecretRef (mwTargetProviderID req)" "\<not> mwConfirm req \<or> trimSpace (mwReason req) = [] \<or> trimSpace (mwOperationID req) = []"
    | "validSecretRef (mwTargetProviderID req)" "mwConfirm req" "trimSpace (mwReason req) \<noteq> []" "trimSpace (mwOperationID req) \<noteq> []" "isLocked b"
    by (auto simp: migrationAdmitted_def)
  then have "snd (fst r) \<noteq> None \<and> \<not> mzApplied (fst (fst r)) \<and> snd r = b"
    by cases (simp_all add: assms [symmetric] buildMigrationPlan_def migrationBase_def Let_def)
  then show ?thesis using refused by blast
next
  case True
  then have t: "trimSpace (mwTargetProviderID req) \<noteq> []" by (auto simp: migrationAdmitted_def validSecretRef_def Let_def)
  let ?target = "lookupProvider L io (map fst executors) security (mwTargetProviderID req) b"
  let ?unplannable = "\<not> providerCanPlanMigrationTarget L (pfProviderKind ?target) \<or> pfOutcome ?target \<noteq> ''ready''"
  let ?unreadable = "safeList (mwRefs req) = []
      \<and> snd (migrationSourceRefs L io (map fst executors) security (firstNonEmpty (mwSourceProviderID req) ''local'') b) \<noteq> ''ready''"
  note built = assms [symmetric] True [unfolded migrationAdmitted_def] t
  show ?thesis
  proof (cases "?unplannable \<or> ?unreadable")
    case True
    have "snd (fst r) \<noteq> None \<and> \<not> mzApplied (fst (fst r)) \<and> snd r = b"
    proof (cases ?unplannable)
      case True
      with built show ?thesis by (simp add: buildMigrationPlan_def migrationBase_def Let_def)
    next
      case False
      with built \<open>?unplannable \<or> ?unreadable\<close> show ?thesis by (simp add: buildMigrationPlan_def migrationBase_def Let_def)
    qed
    then show ?thesis using refused by blast
  next
    case False
    have "r = applyMigrationPlan L io executors security (plannedRequest L io (map fst executors) security req b) ?target (migrationBase req op True) b"
      using built False by (cases "safeList (mwRefs req) = []") (simp_all add: buildMigrationPlan_def plannedRequest_def Let_def)
    then show ?thesis using planned True by blast
  qed
qed

lemma plannedRequest_sel [simp]:
  "mwOperationID (plannedRequest L io executors security req b) = mwOperationID req"
  "mwTargetProviderID (plannedRequest L io executors security req b) = mwTargetProviderID req"
  "mwServiceID (plannedRequest L io executors security req b) = mwServiceID req"
  "mwRequestID (plannedRequest L io executors security req b) = mwRequestID req"
  "mwSourceProviderID (plannedRequest L io executors security req b) = mwSourceProviderID req"
  "safeList (mwRefs req) \<noteq> [] \<Longrightarrow> plannedRequest L io executors security req b = req"
  by (simp_all add: plannedRequest_def)

text \<open>What an execution that says \<open>applied\<close> answers.\<close>

definition allMigrated :: "migrationPlanResponse \<Rightarrow> bool" where
  "allMigrated res \<longleftrightarrow> (\<forall>i \<in> set (mzResults res). mtOutcome i = ''migrated'' \<and> mtVerified i)"

lemma finishMigration_applied:
  assumes "finishMigration res results store operation b = ((res', err), b')" "mzApplied res'"
  shows "err = None" "allMigrated res'" "mzResults res' = results" "mzOutcome res' = ''applied''"
    "moOutcome operation = ''applied'' \<and> b' = b
     \<or> (\<exists>st op. persistProviderMigrationOperation (operation\<lparr>moOutcome := ''applied''\<rparr>) store b = (None, st, op, b'))"
  using assms
  by (auto simp: finishMigration_def allMigrated_def providerMigrationApplyOutcome_def Let_def list_ex_iff prod_eq_iff
      migrationExecutionFailure_def split: if_splits)

lemma runMigration_applied:
  assumes "runMigration L executor operationID res store operation b = ((res', err), b')" "mzApplied res'"
  obtains results store1 operation1 b1 where
    "executeItems L executor operationID (mzResults res) store operation b = (results, True, store1, operation1, b1)"
    "finishMigration res results store1 operation1 b1 = ((res', err), b')"
proof -
  obtain results kept store1 operation1 b1 where r: "executeItems L executor operationID (mzResults res) store operation b
      = (results, kept, store1, operation1, b1)" by (metis prod_cases5)
  then have "kept" using assms by (cases kept) (auto simp: runMigration_def migrationExecutionFailure_def)
  then show ?thesis using that r assms(1) by (simp add: runMigration_def)
qed

lemma execute_applied:
  assumes "executeProviderMigration L io executors security req target executor res b = ((res', err), b')" "mzApplied res'"
  obtains req1 res1 store operation b1 where
    "req1 = req\<lparr>mwRefs := sort (safeList (mwRefs req))\<rparr>"
    "res1 = res\<lparr>mzResults := migrationItems L io executors security req1 target False [] b\<rparr>"
    "loadStore b1 = Inr store" "map_of (stMigrations store) (trimSpace (mwOperationID req)) = Some operation"
    "moPlanFingerprint operation = providerMigrationPlanFingerprint L req1"
    "b1 = b \<or> operation = newMigrationOperation L req1 (bNow b)"
    "runMigration L executor (trimSpace (mwOperationID req)) res1 store operation b1 = ((res', err), b')"
proof -
  let ?req = "req\<lparr>mwRefs := sort (safeList (mwRefs req))\<rparr>"
  let ?res = "res\<lparr>mzResults := migrationItems L io executors security ?req target False [] b\<rparr>"
  obtain store where s: "loadStore b = Inr store"
    using assms by (cases "loadStore b") (auto simp: executeProviderMigration_def migrationExecutionFailure_def Let_def)
  show ?thesis
  proof (cases "map_of (stMigrations store) (trimSpace (mwOperationID req))")
    case (Some operation)
    then show ?thesis using that [OF refl refl s Some] assms by (auto simp: executeProviderMigration_def s Let_def split: if_splits)
  next
    case None
    let ?op = "newMigrationOperation L ?req (bNow b)"
    let ?store = "store\<lparr>stMigrations := AList.update (trimSpace (mwOperationID req)) ?op (stMigrations store), stUpdatedAt := bNow b\<rparr>"
    have ok: "fst (saveStore ?store b) = None"
      using assms None by (cases "fst (saveStore ?store b)") (auto simp: executeProviderMigration_def s Let_def migrationExecutionFailure_def)
    have "loadStore (snd (saveStore ?store b)) = Inr ?store" using save_disk(1) [OF ok] by (simp add: loadStore_def)
    then show ?thesis
      using that [OF refl refl, of "snd (saveStore ?store b)" ?store ?op] ok assms None
      by (simp add: executeProviderMigration_def s Let_def newMigrationOperation_def)
  qed
qed

lemma migrationApply_keeps:
  fixes b :: "'m backend_scheme"
  assumes "\<forall>executor \<in> ran (map_of executors). migration_executor L executor lawful" "lawful"
  shows "secretsKept L b (snd (migrationApply L io executors security req b))"
proof -
  obtain r where r: "buildMigrationPlan L io executors security req ''migration_apply'' True b = r" by blast
  have "secretsKept L b (snd r)"
  proof (cases rule: buildMigrationPlan_cases [OF r, case_names refused planned])
    case planned
    show ?thesis
    proof (cases rule: applyMigrationPlan_cases [OF planned(2) [symmetric], case_names refused executed])
      case (executed executor b1)
      have "migration_executor L executor lawful" using assms(1) executed(1) by (auto simp: ran_def)
      note run = migration_executor.executeProviderMigration_keeps [OF this assms(2)]
      have "secretsKept L b b1" using kept_audit executed(2) by (metis snd_conv)
      then show ?thesis unfolding executed(4) by (rule kept_trans [OF _ run])
    next
      case refused
      then show ?thesis by auto
    qed
  qed simp
  then show ?thesis by (simp add: migrationApply_def r secretsKept_def vault_cong [OF finalize_disk])
qed

lemma finalize_applied:
  assumes "finalizeMigrationAudit L op req r = ((res, err), b')" "mzApplied res"
  shows "err = snd (fst r)" "mzApplied (fst (fst r))" "mzResults res = mzResults (fst (fst r))"
  using assms by (auto simp: finalizeMigrationAudit_def Let_def check_def split: if_splits option.splits)

lemma migrationApply_applied:
  fixes b :: "'m backend_scheme"
  assumes "migrationApply L io executors security req b = ((res, err), b')" "mzApplied res"
  obtains executor b1 r where "migrationAdmitted req b"
    "audit L ''provider_migration_apply_authorized'' (mwTargetProviderID req) ''ready'' (mwServiceID req) (mwRequestID req) b = (None, b1)"
    "executeProviderMigration L io (map fst executors) security (plannedRequest L io (map fst executors) security req b)
       (lookupProvider L io (map fst executors) security (mwTargetProviderID req) b) executor (migrationBase req ''migration_apply'' True) b1 = r"
    "err = snd (fst r)" "mzApplied (fst (fst r))" "mzResults res = mzResults (fst (fst r))" "bDisk b' = bDisk (snd r)"
proof -
  obtain r where r: "buildMigrationPlan L io executors security req ''migration_apply'' True b = r" by blast
  note fin = assms(1) [unfolded migrationApply_def r]
  note applied = finalize_applied [OF fin assms(2)]
  have d: "bDisk b' = bDisk (snd r)" using finalize_disk(1) [of L "''provider_migration_apply''" req r] fin by simp
  show ?thesis
  proof (cases rule: buildMigrationPlan_cases [OF r, case_names refused planned])
    case planned
    show ?thesis
    proof (cases rule: applyMigrationPlan_cases [OF planned(2) [symmetric], case_names refused executed])
      case refused
      then show ?thesis using applied by (simp add: migrationBase_def)
    next
      case (executed executor b1)
      then show ?thesis using that [OF planned(1), of b1 executor r] applied d by simp
    qed
  next
    case refused
    then show ?thesis using applied by simp
  qed
qed

text \<open>The run behind an answer that says \<open>applied\<close>.\<close>

lemma applied_run:
  fixes b :: "'m backend_scheme"
  assumes "migrationApply L io executors security req b = ((res, err), b')" "mzApplied res"
  obtains executor req1 items store operation results store1 operation1 and b1 b2 b3 b4 :: "'m backend_scheme" where
    "migrationAdmitted req b"
    "audit L ''provider_migration_apply_authorized'' (mwTargetProviderID req) ''ready'' (mwServiceID req) (mwRequestID req) b = (None, b1)"
    "req1 = (plannedRequest L io (map fst executors) security req b)
       \<lparr>mwRefs := sort (safeList (mwRefs (plannedRequest L io (map fst executors) security req b)))\<rparr>"
    "items = migrationItems L io (map fst executors) security req1
       (lookupProvider L io (map fst executors) security (mwTargetProviderID req) b) False [] b1"
    "loadStore b2 = Inr store" "map_of (stMigrations store) (trimSpace (mwOperationID req)) = Some operation"
    "moPlanFingerprint operation = providerMigrationPlanFingerprint L req1"
    "b2 = b1 \<or> operation = newMigrationOperation L req1 (bNow b1)"
    "executeItems L executor (trimSpace (mwOperationID req)) items store operation b2 = (results, True, store1, operation1, b3)"
    "moOutcome operation1 = ''applied'' \<and> b4 = b3
     \<or> (\<exists>st op. persistProviderMigrationOperation (operation1\<lparr>moOutcome := ''applied''\<rparr>) store1 b3 = (None, st, op, b4))"
    "mzResults res = results" "bDisk b' = bDisk b4" "err = None" "allMigrated res"
proof -
  obtain executor r and b1 :: "'m backend_scheme" where adm: "migrationAdmitted req b"
    and a: "audit L ''provider_migration_apply_authorized'' (mwTargetProviderID req) ''ready'' (mwServiceID req) (mwRequestID req) b = (None, b1)"
    and run: "executeProviderMigration L io (map fst executors) security (plannedRequest L io (map fst executors) security req b)
       (lookupProvider L io (map fst executors) security (mwTargetProviderID req) b) executor (migrationBase req ''migration_apply'' True) b1 = r"
    and r: "err = snd (fst r)" "mzApplied (fst (fst r))" "mzResults res = mzResults (fst (fst r))" "bDisk b' = bDisk (snd r)"
    by (rule migrationApply_applied [OF assms]) blast
  have e: "r = ((fst (fst r), snd (fst r)), snd r)" by simp
  show ?thesis
  proof (cases rule: execute_applied [OF trans [OF run e] r(2), case_names execute])
    case (execute req1 res1 store operation b2)
    obtain results store1 operation1 b3 where
      items: "executeItems L executor (trimSpace (mwOperationID req)) (mzResults res1) store operation b2 = (results, True, store1, operation1, b3)"
      and fin: "finishMigration res1 results store1 operation1 b3 = ((fst (fst r), snd (fst r)), snd r)"
      by (rule runMigration_applied [OF execute(7) [unfolded plannedRequest_sel] r(2)]) blast
    note fin = finishMigration_applied [OF fin r(2)]
    show ?thesis
      by (rule that [OF adm a execute(1) _ execute(3) _ execute(5,6) items fin(5)])
        (use execute fin r in \<open>simp_all add: allMigrated_def\<close>)
  qed
qed


subsection \<open>The ledger\<close>

text \<open>The operation the loop works with is the one on disk, and a reference it has verified stays verified.\<close>

definition ledgerSync :: "localStoreFile \<Rightarrow> providerMigrationOperation \<Rightarrow> 'm backend_scheme \<Rightarrow> bool" where
  "ledgerSync store operation b \<longleftrightarrow> loadStore b = Inr store \<and> map_of (stMigrations store) (moOperationID operation) = Some operation"

definition verifiedIn :: "providerMigrationOperation \<Rightarrow> string \<Rightarrow> bool" where
  "verifiedIn operation ref \<longleftrightarrow> (\<exists>item. map_of (moItems operation) ref = Some item \<and> miVerified item \<and> miOutcome item = ''migrated'')"

definition sameOperation :: "providerMigrationOperation \<Rightarrow> providerMigrationOperation \<Rightarrow> bool" where
  "sameOperation o1 o2 \<longleftrightarrow> moOperationID o2 = moOperationID o1 \<and> moPlanFingerprint o2 = moPlanFingerprint o1
     \<and> (\<forall>ref. verifiedIn o1 ref \<longrightarrow> verifiedIn o2 ref)"

lemma same_refl [simp]: "sameOperation operation operation"
  by (simp add: sameOperation_def)

lemma same_trans [trans]: "sameOperation o1 o2 \<Longrightarrow> sameOperation o2 o3 \<Longrightarrow> sameOperation o1 o3"
  by (simp add: sameOperation_def)

lemma persist_sync:
  assumes "persistProviderMigrationOperation operation store b = (None, store', operation', b')"
  shows "operation' = operation\<lparr>moUpdatedAt := bNow b\<rparr>" "ledgerSync store' operation' b'"
proof -
  obtain current where c: "loadStore b = Inr current" using assms by (cases "loadStore b") (auto simp: persistProviderMigrationOperation_def)
  show op: "operation' = operation\<lparr>moUpdatedAt := bNow b\<rparr>" using assms c by (auto simp: persistProviderMigrationOperation_def Let_def)
  let ?new = "current\<lparr>stMigrations := AList.update (moOperationID operation') operation' (stMigrations current), stUpdatedAt := bNow b\<rparr>"
  have w: "fst (saveStore ?new b) = None" "store' = ?new" "b' = snd (saveStore ?new b)"
    using assms c op by (auto simp: persistProviderMigrationOperation_def Let_def)
  show "ledgerSync store' operation' b'" using save_disk(1) [OF w(1)] w(2,3) by (simp add: ledgerSync_def loadStore_def)
qed

lemma keepItem_sync:
  assumes "keepItem ref item status store operation b = (status', True, store', operation', b')"
  shows "status' = status" "ledgerSync store' operation' b'" "moItems operation' = AList.update ref item (moItems operation)"
    "moOperationID operation' = moOperationID operation" "moPlanFingerprint operation' = moPlanFingerprint operation"
  using assms persist_sync [of "operation\<lparr>moItems := AList.update ref item (moItems operation)\<rparr>" store b store' operation' b']
  by (auto simp: keepItem_def Let_def prod_eq_iff)

lemma keepItem_same:
  assumes "keepItem ref item status store operation b = (status', True, store', operation', b')"
    and "verifiedIn operation ref \<longrightarrow> miVerified item \<and> miOutcome item = ''migrated''"
  shows "sameOperation operation operation'"
  using keepItem_sync(3-5) [OF assms(1)] assms(2) by (simp add: sameOperation_def verifiedIn_def)

text \<open>What an item whose status says \<open>verified\<close> has in the ledger.\<close>

definition itemDone :: "migrationItemStatus \<Rightarrow> providerMigrationOperation \<Rightarrow> migrationItemStatus \<Rightarrow> bool" where
  "itemDone status operation' status' \<longleftrightarrow> mtRef status' = mtRef status
     \<and> (mtOutcome status' = ''migrated'' \<and> mtVerified status' \<and> \<not> mtVerified status \<longrightarrow> verifiedIn operation' (mtRef status))
     \<and> (mtVerified status' \<and> \<not> mtVerified status \<longrightarrow> mtOutcome status = ''dry_run_ready'')"

lemma verifyItem_sync:
  assumes "verifyItem L executor operationID value persisted status store operation b = (status', True, store', operation', b')"
    and "\<not> verifiedIn operation (mtRef status)" "\<not> miVerified persisted" "mtOutcome status = ''dry_run_ready''"
  shows "ledgerSync store' operation' b' \<and> sameOperation operation operation' \<and> itemDone status operation' status'"
proof -
  note unfolded = assms(1) [unfolded verifyItem_def Let_def]
  note k = keepItem_sync [OF unfolded] and s = keepItem_same [OF unfolded]
  show ?thesis using k s assms(2-4)
    by (auto simp: itemDone_def verifiedIn_def applyPersistedMigrationStatus_def Let_def)
qed

lemma executeItem_sync:
  assumes "executeItem L executor operationID status store operation b = (status', True, store', operation', b')" "ledgerSync store operation b"
  shows "ledgerSync store' operation' b' \<and> sameOperation operation operation' \<and> itemDone status operation' status'"
proof -
  define persisted where "persisted = (case map_of (moItems operation) (mtRef status) of Some item \<Rightarrow> item | None \<Rightarrow> zeroMigrationItem)"
  define source where "source = localMigrationSourceValue L store (moSourceProviderID operation) (mtRef status) b"
  note eq = assms(1) [unfolded executeItem_def Let_def, folded persisted_def, folded source_def]
  show ?thesis
  proof (cases "mtOutcome status \<noteq> ''dry_run_ready'' \<or> miVerified persisted")
    case True
    then show ?thesis using eq assms(2)
      by (auto simp: itemDone_def verifiedIn_def persisted_def applyPersistedMigrationStatus_def zeroMigrationItem_def Let_def
          split: if_splits option.splits)
  next
    case go: False
    then have fresh: "\<not> verifiedIn operation (mtRef status)" by (auto simp: verifiedIn_def persisted_def)
    have fail: ?thesis if k: "keepItem (mtRef status) item (applyPersistedMigrationStatus status item) store operation b1 = (status', True, store', operation', b')"
      "\<not> miVerified item" for item b1
      using keepItem_sync [OF k(1)] keepItem_same [OF k(1)] fresh k(2) by (auto simp: itemDone_def applyPersistedMigrationStatus_def Let_def)
    show ?thesis
    proof (cases "snd source = ''ready''")
      case False
      then show ?thesis using eq go by (intro fail) (auto simp: failedMigrationOperationItem_def)
    next
      case ready: True
      show ?thesis
      proof (cases "miWriteApplied persisted")
        case True
        have "verifyItem L executor operationID (fst source) persisted status store operation b = (status', True, store', operation', b')"
          using eq go ready True by simp
        from verifyItem_sync [OF this fresh] go show ?thesis by simp
      next
        case False
        define w where "w = exWrite executor \<lparr>xwOperationID = operationID,
            xwIdempotencyKey = providerMigrationItemIdempotencyKey L operationID (moTargetProviderID operation) (mtRef status),
            xwTargetProviderID = moTargetProviderID operation, xwRef = mtRef status, xwValue = fst source\<rparr> b"
        define tried where "tried = persisted\<lparr>miRef := mtRef status, miAttempts := miAttempts persisted + 1, miUpdatedAt := bNow b\<rparr>"
        note step = eq [folded w_def, folded tried_def] go ready False
        show ?thesis
        proof (cases "normalizeProviderExecutorWriteOutcome (fst w) = ''applied''")
          case False
          then show ?thesis using step by (intro fail) (auto simp: tried_def)
        next
          case True
          define item where "item = tried\<lparr>miWriteApplied := True, miState := ''verifying'', miOutcome := ''verification_pending''\<rparr>"
          obtain st2 kept2 store2 operation2 b2 where r2: "keepItem (mtRef status) item status store operation (snd w) = (st2, kept2, store2, operation2, b2)"
            by (metis prod_cases5)
          then have kept2 and v: "verifyItem L executor operationID (fst source) item status store2 operation2 b2 = (status', True, store', operation', b')"
            using step True by (auto simp: item_def split: if_splits)
          then have r2: "keepItem (mtRef status) item status store operation (snd w) = (st2, True, store2, operation2, b2)" using r2 by simp
          have item: "\<not> miVerified item" using go by (simp add: item_def tried_def)
          have "\<not> verifiedIn operation2 (mtRef status)" using keepItem_sync(3) [OF r2] item by (simp add: verifiedIn_def)
          from verifyItem_sync [OF v this item] go show ?thesis
            using keepItem_same [OF r2] fresh by (auto intro: same_trans)
        qed
      qed
    qed
  qed
qed

lemma verified_same: "sameOperation o1 o2 \<Longrightarrow> itemDone status o1 status' \<Longrightarrow> itemDone status o2 status'"
  by (simp add: sameOperation_def itemDone_def)

lemma executeItems_sync:
  assumes "executeItems L executor operationID items store operation b = (results, True, store', operation', b')" "ledgerSync store operation b"
  shows "ledgerSync store' operation' b' \<and> sameOperation operation operation' \<and> list_all2 (\<lambda>status. itemDone status operation') items results"
  using assms
proof (induction items arbitrary: store operation b results)
  case (Cons status rest)
  obtain status1 kept1 store1 operation1 b1 where r: "executeItem L executor operationID status store operation b
      = (status1, kept1, store1, operation1, b1)" by (metis prod_cases5)
  with Cons.prems(1) have kept1 by (cases kept1) auto
  then obtain results1 where rest: "executeItems L executor operationID rest store1 operation1 b1 = (results1, True, store', operation', b')"
      "results = status1 # results1"
    using Cons.prems(1) r by (auto simp: Let_def prod_eq_iff)
  have one: "ledgerSync store1 operation1 b1 \<and> sameOperation operation operation1 \<and> itemDone status operation1 status1"
    by (rule executeItem_sync [OF _ Cons.prems(2)]) (use r \<open>kept1\<close> in simp)
  from Cons.IH [OF rest(1)] one show ?case using rest(2) same_trans verified_same by auto
qed simp

subsection \<open>A migration that was applied is final\<close>

lemma lookupProvider_cong:
  assumes "bMasterKey b' = bMasterKey b" "bSources b' = bSources b" "bAuditPath b' = bAuditPath b"
  shows "lookupProvider L io executors security providerID b' = lookupProvider L io executors security providerID b"
proof -
  have same: "isLocked b' = isLocked b" "auditStatusForBackend b' = auditStatusForBackend b"
    using assms by (simp_all add: isLocked_def auditStatusForBackend_def)
  have "localSourceStatus L executors b' = localSourceStatus L executors b"
      "configuredSourceStatus L io executors b' = configuredSourceStatus L io executors b"
      "providerStatusFromSource L io executors st b' = providerStatusFromSource L io executors st b" for st
    unfolding localSourceStatus_def configuredSourceStatus_def [abs_def] providerStatusFromSource_def providerAddressForSource_def same assms
    by (rule refl)+
  then have "providerStatuses L io executors security b' = providerStatuses L io executors security b"
    by (simp only: providerStatuses_def defaultSourceRegistry_def assms(2))
  then show ?thesis by (simp only: lookupProvider_def providerConfigStatusResponseOf_def)
qed

lemma migrationItems_audit:
  "migrationItems L io executors security req target app forced (snd (audit L op ref oc svc rid b))
   = migrationItems L io executors security req target app forced b"
proof -
  let ?b = "snd (audit L op ref oc svc rid b)"
  have load: "loadStore ?b = loadStore b" by (simp add: loadStore_def split: diskState.split)
  have look: "lookupProvider L io executors security s ?b = lookupProvider L io executors security s b" for s
    by (rule lookupProvider_cong) simp_all
  have "migrationSourceOutcome L io executors security s r ?b = migrationSourceOutcome L io executors security s r b" for s r
    unfolding migrationSourceOutcome_def load look audit_keeps_backend by (rule refl)
  then show ?thesis by (simp add: migrationItems_def migrationItem_def)
qed

lemma verified_items_skip:
  assumes "\<forall>status \<in> set items. mtOutcome status = ''dry_run_ready'' \<longrightarrow> verifiedIn operation (mtRef status)"
  shows "executeItems L executor operationID items store operation b
    = (map (\<lambda>status. if mtOutcome status = ''dry_run_ready''
                    then applyPersistedMigrationStatus status (the (map_of (moItems operation) (mtRef status))) else status) items,
       True, store, operation, b)"
  using assms
proof (induction items)
  case (Cons status items)
  have "executeItem L executor operationID status store operation b
      = (if mtOutcome status = ''dry_run_ready'' then applyPersistedMigrationStatus status (the (map_of (moItems operation) (mtRef status))) else status,
         True, store, operation, b)"
    using Cons.prems by (auto simp: executeItem_def Let_def verifiedIn_def)
  then show ?case using Cons by simp
qed simp

text \<open>The ledger of a file that has an operation, applied, with every reference of a plan verified.\<close>

definition appliedLedger :: "'z golib_scheme \<Rightarrow> migrationPlanRequest \<Rightarrow> diskState \<Rightarrow> bool" where
  "appliedLedger L req d \<longleftrightarrow> (\<exists>s operation. d = Stored s \<and> map_of (stMigrations s) (trimSpace (mwOperationID req)) = Some operation
     \<and> moPlanFingerprint operation = providerMigrationPlanFingerprint L (req\<lparr>mwRefs := sort (safeList (mwRefs req))\<rparr>)
     \<and> moOutcome operation = ''applied'' \<and> (\<forall>ref \<in> set (safeList (mwRefs req)). verifiedIn operation ref))"

lemma safeList_sorted: "safeList (sort (safeList xs)) = sort (safeList xs)"
proof -
  have clean: "safeList ys = ys" if "\<forall>y \<in> set ys. trimSpace y = y \<and> y \<noteq> []" for ys
    using that by (induction ys) auto
  show ?thesis by (rule clean) (auto simp: safeList_eq)
qed

lemma itemRefs: "map mtRef (migrationItems L io executors security req target app forced b) = sort (safeList (mwRefs req))"
proof -
  have "mtRef (migrationItem L io executors security req target app forced b ref) = ref" for ref
    by (simp add: migrationItem_def Let_def)
  then show ?thesis by (simp add: migrationItems_def comp_def)
qed

lemma items_unverified: "i \<in> set (migrationItems L io executors security req target False [] b) \<Longrightarrow> \<not> mtVerified i"
proof -
  have "\<not> mtVerified (migrationItem L io executors security req target False [] b ref)" for ref
    by (simp add: migrationItem_def Let_def)
  then show "i \<in> set (migrationItems L io executors security req target False [] b) \<Longrightarrow> \<not> mtVerified i"
    by (auto simp: migrationItems_def)
qed

lemma applied_execute:
  assumes "appliedLedger L req (bDisk b)"
    and "\<forall>i \<in> set (migrationItems L io executors security (req\<lparr>mwRefs := sort (safeList (mwRefs req))\<rparr>) target False [] b). mtOutcome i = ''dry_run_ready''"
  obtains res' where "\<And>executor. executeProviderMigration L io executors security req target executor res b = ((res', None), b)" "mzApplied res'"
proof -
  let ?req = "req\<lparr>mwRefs := sort (safeList (mwRefs req))\<rparr>"
  let ?items = "migrationItems L io executors security ?req target False [] b"
  obtain s operation where d: "bDisk b = Stored s" "map_of (stMigrations s) (trimSpace (mwOperationID req)) = Some operation"
      "moPlanFingerprint operation = providerMigrationPlanFingerprint L ?req" "moOutcome operation = ''applied''"
    and v: "\<forall>ref \<in> set (safeList (mwRefs req)). verifiedIn operation ref"
    using assms(1) by (auto simp: appliedLedger_def)
  have refs: "\<forall>i \<in> set ?items. verifiedIn operation (mtRef i)"
  proof
    fix i assume "i \<in> set ?items"
    then have "mtRef i \<in> set (map mtRef ?items)" by simp
    then show "verifiedIn operation (mtRef i)" using v unfolding itemRefs by (simp add: safeList_sorted)
  qed
  define results where "results = map (\<lambda>status. if mtOutcome status = ''dry_run_ready''
      then applyPersistedMigrationStatus status (the (map_of (moItems operation) (mtRef status))) else status) ?items"
  have skip: "executeItems L executor (trimSpace (mwOperationID req)) ?items s operation b = (results, True, s, operation, b)" for executor
    unfolding results_def by (rule verified_items_skip) (use refs in simp)
  have "mtOutcome i = ''migrated'' \<and> mtVerified i" if "i \<in> set results" for i
    using that refs assms(2) by (fastforce simp: results_def verifiedIn_def applyPersistedMigrationStatus_def Let_def)
  then have out: "providerMigrationApplyOutcome results = ''applied''" by (auto simp: providerMigrationApplyOutcome_def list_ex_iff)
  have load: "loadStore b = Inr s" using d(1) by (simp add: loadStore_def)
  show ?thesis
    by (rule that [of "res\<lparr>mzResults := results, mzOutcome := ''applied'', mzApplied := True, mzRequiresConfirmation := False\<rparr>"])
      (simp_all add: executeProviderMigration_def load d(2-4) runMigration_def skip finishMigration_def out Let_def)
qed

lemma applied_ledger:
  fixes b :: "'m backend_scheme"
  assumes "migrationApply L io executors security req b = ((res, err), b')" "mzApplied res" "safeList (mwRefs req) \<noteq> []"
    and "\<forall>s k operation. bDisk b = Stored s \<longrightarrow> map_of (stMigrations s) k = Some operation \<longrightarrow> moOperationID operation = k"
  shows "appliedLedger L req (bDisk b')"
proof (cases rule: applied_run [OF assms(1,2), case_names run])
  case (run executor req1 items store operation results store1 operation1 b1 b2 b3 b4)
  have b1: "b1 = snd (audit L ''provider_migration_apply_authorized'' (mwTargetProviderID req) ''ready'' (mwServiceID req) (mwRequestID req) b)"
    using run(2) by simp
  have req1: "req1 = req\<lparr>mwRefs := sort (safeList (mwRefs req))\<rparr>" using run(3) assms(3) by simp
  have id: "moOperationID operation = trimSpace (mwOperationID req)" using run(8)
  proof
    assume "b2 = b1"
    then have "loadStore b = Inr store \<or> stMigrations store = []"
      using run(5) by (auto simp: b1 loadStore_def freshStore_def split: diskState.splits)
    then show ?thesis using run(6) assms(4) by (auto simp: loadStore_def freshStore_def split: diskState.splits)
  qed (simp add: newMigrationOperation_def req1)
  then have sync: "ledgerSync store operation b2" using run(5,6) by (simp add: ledgerSync_def)
  note end_sync = executeItems_sync [OF run(9) sync]
  have verified: "\<forall>ref \<in> set (safeList (mwRefs req)). verifiedIn operation1 ref"
  proof
    fix ref assume "ref \<in> set (safeList (mwRefs req))"
    moreover have "map mtRef items = sort (safeList (mwRefs req))" by (simp add: run(4) itemRefs req1 safeList_sorted sorted_sort_id)
    ultimately obtain k where k: "k < length items" "mtRef (items ! k) = ref"
      by (metis in_set_conv_nth length_map nth_map set_sort)
    then have "k < length results" "itemDone (items ! k) operation1 (results ! k)" using end_sync by (auto simp: list_all2_conv_all_nth)
    moreover have "\<not> mtVerified (items ! k)" using items_unverified [of "items ! k"] k(1) run(4) nth_mem by blast
    moreover have "mtOutcome (results ! k) = ''migrated'' \<and> mtVerified (results ! k)"
      using run(11,14) \<open>k < length results\<close> by (auto simp: allMigrated_def)
    ultimately show "verifiedIn operation1 ref" using k(2) by (simp add: itemDone_def)
  qed
  obtain operation2 store2 where final: "ledgerSync store2 operation2 b4" "moOutcome operation2 = ''applied''" "moItems operation2 = moItems operation1"
      "moOperationID operation2 = moOperationID operation1" "moPlanFingerprint operation2 = moPlanFingerprint operation1"
    using run(10)
  proof (elim disjE conjE exE)
    assume "moOutcome operation1 = ''applied''" "b4 = b3"
    then show thesis using that [of store1 operation1] end_sync by simp
  next
    fix st op assume "persistProviderMigrationOperation (operation1\<lparr>moOutcome := ''applied''\<rparr>) store1 b3 = (None, st, op, b4)"
    from persist_sync [OF this] show thesis using that [of st op] by simp
  qed
  obtain s where "bDisk b4 = Stored s" "s = store2"
    using final(1) by (auto simp: ledgerSync_def loadStore_def freshStore_def split: diskState.splits)
  then show ?thesis
    using final end_sync id run(7,12) verified req1
    by (auto simp: appliedLedger_def ledgerSync_def sameOperation_def verifiedIn_def)
qed

lemma applyMigrationPlan_final:
  assumes "appliedLedger L req (bDisk b)" "map fst executors2 = map fst executors1"
    and "\<forall>i \<in> set (migrationItems L io (map fst executors1) security (req\<lparr>mwRefs := sort (safeList (mwRefs req))\<rparr>) target False [] b).
      mtOutcome i = ''dry_run_ready''"
  shows "applyMigrationPlan L io executors2 security req target res b = applyMigrationPlan L io executors1 security req target res b"
    "bDisk (snd (applyMigrationPlan L io executors1 security req target res b)) = bDisk b"
    "snd (fst (applyMigrationPlan L io executors1 security req target res b)) = None
      \<Longrightarrow> mzApplied (fst (fst (applyMigrationPlan L io executors1 security req target res b)))"
proof -
  define b1 where "b1 = snd (audit L ''provider_migration_apply_authorized'' (mwTargetProviderID req) ''ready'' (mwServiceID req) (mwRequestID req) b)"
  obtain res' where run: "\<And>executor. executeProviderMigration L io (map fst executors1) security req target executor res b1 = ((res', None), b1)"
      "mzApplied res'"
    by (rule applied_execute [where b = b1 and L = L and io = io and executors = "map fst executors1" and security = security
          and target = target and req = req and res = res]) (use assms(1,3) in \<open>simp_all add: b1_def migrationItems_audit\<close>)
  have key: "map_of executors2 k = None \<longleftrightarrow> map_of executors1 k = None" for k
    using assms(2) by (metis list.set_map map_of_eq_None_iff)
  note run = run [unfolded b1_def]
  show "applyMigrationPlan L io executors2 security req target res b = applyMigrationPlan L io executors1 security req target res b"
    using key [of "trimSpace (mwTargetProviderID req)"]
    by (auto simp: applyMigrationPlan_def Let_def check_def run assms(2) split: sum.split bool.split option.split)
  show "bDisk (snd (applyMigrationPlan L io executors1 security req target res b)) = bDisk b"
    "snd (fst (applyMigrationPlan L io executors1 security req target res b)) = None
      \<Longrightarrow> mzApplied (fst (fst (applyMigrationPlan L io executors1 security req target res b)))"
    using run(2) by (auto simp: applyMigrationPlan_def Let_def check_def run(1) split: sum.splits bool.splits option.splits if_splits)
qed

lemma finalize_ok: "snd (fst (finalizeMigrationAudit L op req r)) = None \<Longrightarrow> snd (fst r) = None
    \<and> mzApplied (fst (fst (finalizeMigrationAudit L op req r))) = mzApplied (fst (fst r))"
  by (auto simp: finalizeMigrationAudit_def Let_def check_def split: if_splits option.splits)

text \<open>
  Property C36. A migration that was applied is final: the same request sent again, to a broker with the same file,
  leaves the file as it is and calls no executor (whatever the registered executors would do, the answer and the
  state are the same), and it is answered with \<open>applied\<close> or an error, as long as its references can be planned.
\<close>

theorem applied_migration_is_final:
  fixes b :: "'m backend_scheme" and c :: "'n backend_scheme"
  assumes "migrationApply L io executors security req b = ((res, err), b')" "mzApplied res" "safeList (mwRefs req) \<noteq> []"
    and "\<forall>s k operation. bDisk b = Stored s \<longrightarrow> map_of (stMigrations s) k = Some operation \<longrightarrow> moOperationID operation = k"
    and "bDisk c = bDisk b'" "map fst other = map fst registered"
    and "\<forall>i \<in> set (migrationItems L io (map fst registered) protection (req\<lparr>mwRefs := sort (safeList (mwRefs req))\<rparr>)
          (lookupProvider L io (map fst registered) protection (mwTargetProviderID req) c) False [] c). mtOutcome i = ''dry_run_ready''"
  shows "bDisk (snd (migrationApply L io registered protection req c)) = bDisk c
    \<and> migrationApply L io other protection req c = migrationApply L io registered protection req c
    \<and> (snd (fst (migrationApply L io registered protection req c)) = None
         \<longrightarrow> mzApplied (fst (fst (migrationApply L io registered protection req c))))"
proof -
  have "appliedLedger L req (bDisk c)" using applied_ledger [OF assms(1-4)] assms(5) by simp
  note final = applyMigrationPlan_final [OF this assms(6,7), of "migrationBase req ''migration_apply'' True"]
  obtain r where r: "buildMigrationPlan L io registered protection req ''migration_apply'' True c = r" by blast
  have "bDisk (snd r) = bDisk c \<and> (snd (fst r) = None \<longrightarrow> mzApplied (fst (fst r)))"
    by (cases rule: buildMigrationPlan_cases [OF r, case_names refused planned]) (use final(2,3) assms(3) in simp_all)
  moreover have "buildMigrationPlan L io other protection req ''migration_apply'' True c = r"
  proof -
    have explicit: "(safeList (mwRefs req) = []) = False" using assms(3) by simp
    show ?thesis unfolding r [symmetric] buildMigrationPlan_def Let_def assms(6) explicit simp_thms if_True if_False final(1) by (rule TrueI)
  qed
  ultimately show ?thesis using finalize_ok [of L "''provider_migration_apply''" req r] by (auto simp: migrationApply_def r)
qed

subsection \<open>Three things that get lost\<close>

text \<open>
  Once a write was applied, the loop never writes the item again: if the secret changes before the target is verified,
  every later call verifies the new value against the old one at the target.
\<close>

lemma applied_write_not_repeated:
  assumes "map_of (moItems operation) (mtRef status) = Some item" "miWriteApplied item"
  shows "executeItem L (executor\<lparr>exWrite := write\<rparr>) operationID status store operation b
    = executeItem L executor operationID status store operation b"
  using assms by (simp add: executeItem_def verifyItem_def Let_def)

text \<open>Copying a secret onto itself, a migration from the local store to the local store, drops its key-value versions.\<close>

lemma local_copy_drops_versions:
  fixes b :: "'m backend_scheme"
  assumes "localStoreWrite L w b = (''applied'', b')"
  obtains s e where "bDisk b' = Stored s" "map_of (stSecrets s) (trimSpace (xwRef w)) = Some e" "seKV e = None"
  using assms
  by (auto simp: localStoreWrite_def localExecutorEntry_def Let_def attempt_def check_def split: if_splits sum.splits option.splits
      dest!: save_disk(1))

text \<open>A configuration that replaces one is in force although it could not be saved and the answer is \<open>degraded\<close>.\<close>

lemma unsaved_configuration_in_force:
  assumes "replaceSource source (bSources (snd s)) = Some cfg" "pkSaveFaults (fst s) = SaveFails # faults"
  shows "fst (persistProviderSource L io remote localExecutor source s) = Some errIO"
    "bSources (snd (snd (persistProviderSource L io remote localExecutor source s))) = cfg"
    "pkFile (fst (snd (persistProviderSource L io remote localExecutor source s))) = pkFile (fst s)"
  using assms by (simp_all add: persistProviderSource_def saveSourceConfig_def check_def Let_def)

subsection \<open>A local migration with nothing in its way\<close>

lemma persist_ready:
  fixes b :: "'m backend_scheme"
  assumes "ready L b"
  obtains store' b' where
    "persistProviderMigrationOperation operation store b = (None, store', operation\<lparr>moUpdatedAt := bNow b\<rparr>, b')" "ready L b'"
proof -
  obtain current where c: "loadStore b = Inr current" using assms load_readable [of b] by (auto simp: ready_def faultless_def)
  let ?op = "operation\<lparr>moUpdatedAt := bNow b\<rparr>"
  let ?new = "current\<lparr>stMigrations := AList.update (moOperationID ?op) ?op (stMigrations current), stUpdatedAt := bNow b\<rparr>"
  have "fst (saveStore ?new b) = None" using assms save_faultless(1) [of b ?new] by (simp add: ready_def faultless_def)
  then show ?thesis using that [of ?new "snd (saveStore ?new b)"] save_ready [OF assms, of ?new] c
    by (simp add: persistProviderMigrationOperation_def Let_def)
qed

lemma keepItem_ready:
  fixes b :: "'m backend_scheme"
  assumes "ready L b"
  obtains store' operation' b' where "keepItem ref item status store operation b = (status, True, store', operation', b')" "ready L b'"
    "moItems operation' = AList.update ref item (moItems operation)" "moSourceProviderID operation' = moSourceProviderID operation"
proof -
  obtain store' b' where "persistProviderMigrationOperation (operation\<lparr>moItems := AList.update ref item (moItems operation)\<rparr>) store b
      = (None, store', operation\<lparr>moItems := AList.update ref item (moItems operation), moUpdatedAt := bNow b\<rparr>, b')" "ready L b'"
    by (rule persist_ready [OF assms, of "operation\<lparr>moItems := AList.update ref item (moItems operation)\<rparr>" store]) simp
  then show ?thesis using that by (simp add: keepItem_def)
qed

lemma localStoreWrite_ready:
  fixes b :: "'m backend_scheme"
  assumes "ready L b" "validSecretRef (xwRef w)" "xwValue w \<noteq> []"
  obtains b' where "localStoreWrite L w b = (''applied'', b')" "ready L b'"
proof -
  obtain s where s: "loadStore b = Inr s" using assms(1) load_readable [of b] by (auto simp: ready_def faultless_def)
  obtain p where p: "fst (encrypt L (xwValue w) b) = Inr p"
    using assms(1) encrypt_faultless(1) [of b L "xwValue w"] by (auto simp: ready_def faultless_def)
  note e = encrypt_ready [OF assms(1), of L "xwValue w"]
  have save: "fst (saveStore x (snd (encrypt L (xwValue w) b))) = None" for x
    by (rule save_faultless(1)) (use e in \<open>simp add: ready_def faultless_def\<close>)
  have "validSecretRef (trimSpace (xwRef w))" "\<not> isLocked b" using assms(1,2) by (simp_all add: validSecretRef_def Let_def ready_def faultless_def)
  then show ?thesis using that save_ready [OF e] assms(3) s p save by (simp add: localStoreWrite_def Let_def)
qed

lemma localStoreVerify_ready:
  assumes "ready L b" "vault L b (trimSpace (xvRef v)) = Some (xvExpectedValue v)"
  shows "localStoreVerify L v b = (''verified'', b)"
proof -
  obtain s where s: "loadStore b = Inr s" using assms(1) load_readable [of b] by (auto simp: ready_def faultless_def)
  then show ?thesis using assms(2)
    by (auto simp: localStoreVerify_def vault_def secretsOf_load [OF s] split: option.splits sum.splits)
qed

text \<open>What holds between two items: every reference still has its value, and what the ledger has is verified.\<close>

definition migrationGoing ::
  "'z golib_scheme \<Rightarrow> string set \<Rightarrow> localStoreFile \<Rightarrow> providerMigrationOperation \<Rightarrow> 'm backend_scheme \<Rightarrow> bool" where
  "migrationGoing L refs store operation b \<longleftrightarrow> ready L b \<and> loadStore b = Inr store \<and> copyHonest L store b
     \<and> (\<forall>ref \<in> refs. \<exists>v. vault L b ref = Some v \<and> v \<noteq> []) \<and> localMigrationSource (migrationSourceID (moSourceProviderID operation))
     \<and> (\<forall>ref item. map_of (moItems operation) ref = Some item \<longrightarrow> miVerified item \<and> miOutcome item = ''migrated'')"

lemma going_source:
  assumes "migrationGoing L refs store operation b" "ref \<in> refs"
  obtains v where "localMigrationSourceValue L store (moSourceProviderID operation) ref b = (v, ''ready'')" "vault L b ref = Some v" "v \<noteq> []"
proof -
  obtain v where v: "vault L b ref = Some v" "v \<noteq> []" using assms by (auto simp: migrationGoing_def)
  moreover have "stSecrets store = secretsOf (bDisk b)" using secretsOf_load [of b store] assms(1) by (simp add: migrationGoing_def)
  ultimately have "localMigrationSourceValue L store (moSourceProviderID operation) ref b = (v, ''ready'')"
    using assms(1) by (auto simp: localMigrationSourceValue_def migrationGoing_def vault_def split: option.splits sum.splits)
  then show ?thesis using that v by blast
qed

lemma executeItem_going:
  fixes b :: "'m backend_scheme"
  assumes "lib_ok L" "migrationGoing L refs store operation b" "mtRef status \<in> refs" "mtOutcome status = ''dry_run_ready''"
    and "validSecretRef (mtRef status)" "trimSpace (mtRef status) = mtRef status"
  obtains status' store' operation' b' where
    "executeItem L (localStoreMigrationExecutor L) operationID status store operation b = (status', True, store', operation', b')"
    "migrationGoing L refs store' operation' b'" "mtOutcome status' = ''migrated''" "mtVerified status'"
proof (cases "map_of (moItems operation) (mtRef status)")
  case (Some item)
  then have "miVerified item" "miOutcome item = ''migrated''" using assms(2) by (auto simp: migrationGoing_def)
  then show ?thesis using that [of "applyPersistedMigrationStatus status item" store operation b] Some assms(2,4)
    by (simp add: executeItem_def applyPersistedMigrationStatus_def Let_def)
next
  case None
  let ?ref = "mtRef status" and ?src = "moSourceProviderID operation"
  obtain v where v: "localMigrationSourceValue L store ?src ?ref b = (v, ''ready'')" "vault L b ?ref = Some v" "v \<noteq> []"
    using going_source [OF assms(2,3)] by blast
  define w where "w = \<lparr>xwOperationID = operationID,
      xwIdempotencyKey = providerMigrationItemIdempotencyKey L operationID (moTargetProviderID operation) ?ref,
      xwTargetProviderID = moTargetProviderID operation, xwRef = ?ref, xwValue = v\<rparr>"
  have rb: "ready L b" using assms(2) by (simp add: migrationGoing_def)
  obtain b1 where b1: "localStoreWrite L w b = (''applied'', b1)" "ready L b1"
    using localStoreWrite_ready [OF rb, of w] assms(5) v(3) by (auto simp: w_def)
  have k1: "secretsKept L b b1" using localStoreWrite_keeps [OF assms(1), of w b] b1(1) assms(6) v(2) by (simp add: w_def)
  define item where "item = zeroMigrationItem\<lparr>miRef := ?ref, miAttempts := miAttempts zeroMigrationItem + 1, miUpdatedAt := bNow b,
      miWriteApplied := True, miState := ''verifying'', miOutcome := ''verification_pending''\<rparr>"
  obtain store2 operation2 b2 where b2: "keepItem ?ref item status store operation b1 = (status, True, store2, operation2, b2)" "ready L b2"
      "moItems operation2 = AList.update ?ref item (moItems operation)" "moSourceProviderID operation2 = ?src"
    by (rule keepItem_ready [OF b1(2)])
  have k2: "secretsKept L b b2" by (rule kept_trans [OF k1 keepItem_keeps(1) [OF b2(1)]])
  define x where "x = \<lparr>xvOperationID = operationID,
      xvIdempotencyKey = providerMigrationItemIdempotencyKey L operationID (moTargetProviderID operation2) ?ref,
      xvTargetProviderID = moTargetProviderID operation2, xvRef = ?ref, xvExpectedValue = v\<rparr>"
  have verified: "localStoreVerify L x b2 = (''verified'', b2)"
    by (rule localStoreVerify_ready [OF b2(2)]) (use k2 v(2) assms(6) in \<open>simp add: x_def secretsKept_def\<close>)
  define completed where "completed = item\<lparr>miVerificationAttempts := miVerificationAttempts item + 1, miUpdatedAt := bNow b2, miVerified := True,
      miState := ''migrated'', miOutcome := ''migrated''\<rparr>"
  obtain store3 operation3 b3 where b3: "keepItem ?ref completed (applyPersistedMigrationStatus status completed) store2 operation2 b2
        = (applyPersistedMigrationStatus status completed, True, store3, operation3, b3)" "ready L b3"
      "moItems operation3 = AList.update ?ref completed (moItems operation2)" "moSourceProviderID operation3 = moSourceProviderID operation2"
    by (rule keepItem_ready [OF b2(2)])
  have k3: "secretsKept L b b3" by (rule kept_trans [OF k2 keepItem_keeps(1) [OF b3(1)]])
  have load: "loadStore b3 = Inr store3" using keepItem_sync(2) [OF b3(1)] by (simp add: ledgerSync_def)
  have fine: "normalizeProviderExecutorWriteOutcome ''applied'' = ''applied''" "normalizeProviderExecutorVerifyOutcome ''verified'' = ''verified''"
    by code_simp+
  have "verifyItem L (localStoreMigrationExecutor L) operationID v item status store2 operation2 b2
      = (applyPersistedMigrationStatus status completed, True, store3, operation3, b3)"
    using b3(1) by (simp add: verifyItem_def localStoreMigrationExecutor_def x_def [symmetric] verified fine completed_def [symmetric] Let_def)
  then have "executeItem L (localStoreMigrationExecutor L) operationID status store operation b
      = (applyPersistedMigrationStatus status completed, True, store3, operation3, b3)"
    using b1(1) b2(1) None assms(4) v(1)
    by (simp add: executeItem_def localStoreMigrationExecutor_def w_def [symmetric] fine item_def [simplified zeroMigrationItem_def, simplified, symmetric] zeroMigrationItem_def Let_def)
  then show ?thesis
  proof (rule that)
    show "migrationGoing L refs store3 operation3 b3"
      using assms(2) k3 load b3(2-4) b2(3,4) honest_load [OF load] by (auto simp: migrationGoing_def secretsKept_def completed_def split: if_splits)
  qed (simp_all add: applyPersistedMigrationStatus_def completed_def Let_def)
qed

lemma executeItems_going:
  fixes b :: "'m backend_scheme"
  assumes "lib_ok L" "migrationGoing L refs store operation b"
    and "\<forall>i \<in> set items. mtRef i \<in> refs \<and> mtOutcome i = ''dry_run_ready'' \<and> validSecretRef (mtRef i) \<and> trimSpace (mtRef i) = mtRef i"
  obtains results store' operation' b' where
    "executeItems L (localStoreMigrationExecutor L) operationID items store operation b = (results, True, store', operation', b')"
    "ready L b'" "\<forall>i \<in> set results. mtOutcome i = ''migrated'' \<and> mtVerified i"
  using assms(2,3)
proof (induction items arbitrary: store operation b thesis)
  case Nil
  then show ?case by (simp add: migrationGoing_def)
next
  case (Cons status items)
  have "mtRef status \<in> refs" "mtOutcome status = ''dry_run_ready''" "validSecretRef (mtRef status)" "trimSpace (mtRef status) = mtRef status"
    using Cons.prems(3) by simp_all
  then obtain status1 store1 operation1 b1 where
    one: "executeItem L (localStoreMigrationExecutor L) operationID status store operation b = (status1, True, store1, operation1, b1)"
      "migrationGoing L refs store1 operation1 b1" "mtOutcome status1 = ''migrated''" "mtVerified status1"
    by (rule executeItem_going [OF assms(1) Cons.prems(2)])
  show ?case
  proof (rule Cons.IH [OF _ one(2)])
    fix results store' operation' b'
    assume "executeItems L (localStoreMigrationExecutor L) operationID items store1 operation1 b1 = (results, True, store', operation', b')"
      "ready L b'" "\<forall>i \<in> set results. mtOutcome i = ''migrated'' \<and> mtVerified i"
    then show thesis using Cons.prems(1) [of "status1 # results" store' operation' b'] one by simp
  qed (use Cons.prems(3) in simp)
qed

lemma lookup_local:
  assumes "\<not> isLocked b"
  shows "pfProviderKind (lookupProvider L io executors security ''local'' b) = ''local-encrypted-store''"
    "pfOutcome (lookupProvider L io executors security ''local'' b) = ''ready''"
proof -
  have "trimSpace ''ready'' = ''ready''" by code_simp
  then show "pfProviderKind (lookupProvider L io executors security ''local'' b) = ''local-encrypted-store''"
    "pfOutcome (lookupProvider L io executors security ''local'' b) = ''ready''"
    using assms by (simp_all add: lookupProvider_def providerConfigStatusResponseOf_def providerStatuses_def defaultSourceRegistry_def localSourceStatus_def
      providerStatusFromSource_def normalizeSourceLifecycle_def orDefault_def Let_def)
qed

lemma runMigration_going:
  fixes b :: "'m backend_scheme"
  assumes "lib_ok L" "migrationGoing L refs store operation b"
    and "\<forall>i \<in> set (mzResults res). mtRef i \<in> refs \<and> mtOutcome i = ''dry_run_ready'' \<and> validSecretRef (mtRef i) \<and> trimSpace (mtRef i) = mtRef i"
  obtains res' b' where "runMigration L (localStoreMigrationExecutor L) operationID res store operation b = ((res', None), b')"
    "mzApplied res'" "mzOutcome res' = ''applied''" "ready L b'"
proof -
  obtain results store1 operation1 b1 where
    run: "executeItems L (localStoreMigrationExecutor L) operationID (mzResults res) store operation b = (results, True, store1, operation1, b1)"
      "ready L b1" "\<forall>i \<in> set results. mtOutcome i = ''migrated'' \<and> mtVerified i"
    by (rule executeItems_going [OF assms])
  then have out: "providerMigrationApplyOutcome results = ''applied''" by (auto simp: providerMigrationApplyOutcome_def list_ex_iff)
  obtain store2 b2 where saved: "persistProviderMigrationOperation (operation1\<lparr>moOutcome := ''applied''\<rparr>) store1 b1
      = (None, store2, operation1\<lparr>moOutcome := ''applied'', moUpdatedAt := bNow b1\<rparr>, b2)" "ready L b2"
    by (rule persist_ready [OF run(2), of "operation1\<lparr>moOutcome := ''applied''\<rparr>" store1]) simp
  show ?thesis
    by (rule that [of "res\<lparr>mzResults := results, mzOutcome := ''applied'', mzApplied := True, mzRequiresConfirmation := False\<rparr>"
          "if moOutcome operation1 = ''applied'' then b1 else b2"])
      (use saved in \<open>simp_all add: runMigration_def run(1,2) finishMigration_def out Let_def\<close>)
qed

text \<open>The references of a plan that can be copied inside the broker.\<close>

definition copyable :: "'z golib_scheme \<Rightarrow> 'm backend_scheme \<Rightarrow> string \<Rightarrow> bool" where
  "copyable L b ref \<longleftrightarrow> validSecretRef ref \<and> \<not> containsStr (toLower L ref) ''deny'' \<and> (\<exists>v. vault L b ref = Some v \<and> v \<noteq> [])"

lemma copyable_items:
  assumes "\<forall>ref \<in> set (safeList (mwRefs req)). copyable L b ref" "localMigrationSource (migrationSourceID (firstNonEmpty (mwSourceProviderID req) ''local''))"
    and "i \<in> set (migrationItems L io executors security req target False [] b)"
  shows "mtRef i \<in> set (safeList (mwRefs req)) \<and> mtOutcome i = ''dry_run_ready'' \<and> validSecretRef (mtRef i) \<and> trimSpace (mtRef i) = mtRef i"
proof -
  obtain ref where ref: "ref \<in> set (safeList (mwRefs req))" "i = migrationItem L io executors security req target False [] b ref"
    using assms(3) by (auto simp: migrationItems_def)
  then have c: "copyable L b ref" using assms(1) by blast
  then have "map_of (secretsOf (bDisk b)) ref \<noteq> None" by (auto simp: copyable_def vault_def split: option.splits)
  then have "migrationSourceOutcome L io executors security (firstNonEmpty (mwSourceProviderID req) ''local'') ref b = ''ready''"
    using assms(2) by (auto simp: migrationSourceOutcome_def loadStore_def secretsOf_def split: diskState.splits)
  then show ?thesis using c ref(1) by (simp add: ref(2) migrationItem_def copyable_def Let_def) (auto simp: safeList_eq)
qed

lemma execute_local:
  fixes b :: "'m backend_scheme"
  assumes "lib_ok L" "ready L b" "\<forall>ref \<in> set (safeList (mwRefs req)). copyable L b ref" "localMigrationSource (migrationSourceID (firstNonEmpty (mwSourceProviderID req) ''local''))"
    and "\<forall>s. bDisk b = Stored s \<longrightarrow> map_of (stMigrations s) (trimSpace (mwOperationID req)) = None"
  obtains res' b' where "executeProviderMigration L io executors security req target (localStoreMigrationExecutor L) res b = ((res', None), b')"
    "mzApplied res'" "mzOutcome res' = ''applied''" "ready L b'"
proof -
  let ?req = "req\<lparr>mwRefs := sort (safeList (mwRefs req))\<rparr>" and ?id = "trimSpace (mwOperationID req)"
  let ?res = "res\<lparr>mzResults := migrationItems L io executors security ?req target False [] b\<rparr>"
  let ?op = "newMigrationOperation L ?req (bNow b)"
  obtain s where s: "loadStore b = Inr s" using assms(2) load_readable [of b] by (auto simp: ready_def faultless_def)
  then have new: "map_of (stMigrations s) ?id = None" using assms(5) by (auto simp: loadStore_def freshStore_def split: diskState.splits)
  let ?store = "s\<lparr>stMigrations := AList.update ?id ?op (stMigrations s), stUpdatedAt := bNow b\<rparr>"
  let ?b = "snd (saveStore ?store b)"
  have ok: "fst (saveStore ?store b) = None" using assms(2) save_faultless(1) [of b ?store] by (simp add: ready_def faultless_def)
  have r: "ready L ?b" by (rule save_ready [OF assms(2)])
  have load: "loadStore ?b = Inr ?store" using save_disk(1) [OF ok] by (simp add: loadStore_def)
  have k: "vault L ?b = vault L b"
    using kept_secrets [of ?b b L] save_disk(1) [OF ok] by (simp add: secretsOf_load [OF s] secretsOf_def secretsKept_def)
  have refs: "set (safeList (mwRefs ?req)) = set (safeList (mwRefs req))" by (simp add: safeList_sorted)
  have "migrationGoing L (set (safeList (mwRefs req))) ?store ?op ?b"
    using assms(3,4) r load k honest_load [OF load] by (auto simp: migrationGoing_def copyable_def newMigrationOperation_def)
  moreover have "\<forall>i \<in> set (mzResults ?res). mtRef i \<in> set (safeList (mwRefs req)) \<and> mtOutcome i = ''dry_run_ready''
      \<and> validSecretRef (mtRef i) \<and> trimSpace (mtRef i) = mtRef i"
    using copyable_items [of ?req L b] assms(3,4) refs by simp
  ultimately obtain res' b' where run: "runMigration L (localStoreMigrationExecutor L) ?id ?res ?store ?op ?b = ((res', None), b')"
      "mzApplied res'" "mzOutcome res' = ''applied''" "ready L b'"
    by (rule runMigration_going [OF assms(1)])
  then show ?thesis using that s new ok by (simp add: executeProviderMigration_def Let_def)
qed

text \<open>A confirmed migration to the local store is applied if its references can be copied and its operation id is new.\<close>

lemma local_migration_applies:
  fixes b :: "'m backend_scheme"
  assumes "lib_ok L" "ready L b" "migrationAdmitted req b" "mwTargetProviderID req = ''local''"
    and "localMigrationSource (migrationSourceID (firstNonEmpty (mwSourceProviderID req) ''local''))" "safeList (mwRefs req) \<noteq> []"
    and "\<forall>ref \<in> set (safeList (mwRefs req)). copyable L b ref" "map_of executors ''local'' = Some (localStoreMigrationExecutor L)"
    and "\<forall>s. bDisk b = Stored s \<longrightarrow> map_of (stMigrations s) (trimSpace (mwOperationID req)) = None"
    and "list_all ascii [mwServiceID req, mwRequestID req]"
  shows "mzApplied (fst (fst (migrationApply L io executors security req b)))"
proof -
  let ?audit = "audit L ''provider_migration_apply_authorized'' ''local'' ''ready'' (mwServiceID req) (mwRequestID req) b"
  let ?b = "snd ?audit"
  let ?target = "lookupProvider L io (map fst executors) security ''local'' b"
  have unlocked: "\<not> isLocked b" and path: "trimSpace (bAuditPath b) \<noteq> []" using assms(2) by (simp_all add: ready_def faultless_def auditCalm_def)
  have local: "trimSpace ''local'' = ''local''" by code_simp
  have a: "fst ?audit = None" "ready L ?b"
    using audit_ready [OF assms(1,2), of "''provider_migration_apply_authorized''" "''local''" "''ready''"] assms(10) by (simp_all add: ascii_def)
  have v: "vault L ?b = vault L b" using kept_audit [of L b] by (simp add: secretsKept_def)
  obtain res' b' where run: "executeProviderMigration L io (map fst executors) security req ?target (localStoreMigrationExecutor L)
        (migrationBase req ''migration_apply'' True) ?b = ((res', None), b')" "mzApplied res'" "mzOutcome res' = ''applied''" "ready L b'"
    by (rule execute_local [OF assms(1) a(2), where req = req and io = io and executors = "map fst executors" and security = security
          and target = ?target and res = "migrationBase req ''migration_apply'' True"]) (use assms(5,7,9) v in \<open>simp_all add: copyable_def\<close>)
  have noconflict: "providerMigrationPlanConflicts L req b = Inr False"
    using assms(2,9) load_readable [of b]
    by (auto simp: providerMigrationPlanConflicts_def ready_def faultless_def loadStore_def freshStore_def split: diskState.splits option.splits)
  have "applyMigrationPlan L io executors security req ?target (migrationBase req ''migration_apply'' True) b = ((res', None), b')"
    using assms(4,8) noconflict path a(1) run(1) by (simp add: applyMigrationPlan_def local Let_def)
  then have build: "buildMigrationPlan L io executors security req ''migration_apply'' True b = ((res', None), b')"
    using assms(3,4,6) lookup_local [OF unlocked, of L io "map fst executors" security]
    by (simp add: buildMigrationPlan_def migrationAdmitted_def providerCanPlanMigrationTarget_def local Let_def)
  have "trimSpace (bAuditPath b') \<noteq> []" using run(4) by (simp add: ready_def auditCalm_def)
  moreover have "fst (audit L ''provider_migration_apply'' ''local'' ''applied'' (mwServiceID req) (mwRequestID req) b') = None"
    using audit_ready(1) [OF assms(1) run(4), of "''provider_migration_apply''" "''local''" "''applied''"] assms(10) by (simp add: ascii_def)
  ultimately show ?thesis using run(2,3) assms(4) by (simp add: migrationApply_def build finalizeMigrationAudit_def)
qed

subsection \<open>A concrete migration\<close>

definition demoMigrationIO :: registryIO where
  "demoMigrationIO = \<lparr>getenv = getenv demoIO, ioResolve = ioResolve demoIO, goQuote = goQuote demoIO, parseURL = (\<lambda>_. None),
     isLoopbackIP = (\<lambda>_. False), httpClientBuilds = (\<lambda>_. True)\<rparr>"

definition demoMigration :: migrationPlanRequest where
  "demoMigration = \<lparr>mwRequestID = ''r1'', mwServiceID = ''api'', mwOperationID = ''m1'', mwSourceProviderID = [],
     mwTargetProviderID = ''local'', mwRefs = [''k''], mwReason = ''move'', mwConfirm = True\<rparr>"

definition demoExecutors :: "backend providerMigrationExecutor gomap" where
  "demoExecutors = [(''local'', localStoreMigrationExecutor toy_lib)]"

text \<open>A broker that holds one secret, and an executor that does nothing.\<close>

definition demoHolding :: backend where
  "demoHolding = demoBackend\<lparr>bDisk := Stored ((freshStore 3)\<lparr>stSecrets := [(''k'',
     \<lparr>seRef = ''k'', seMetadata = zeroMetadata, sePayload = \<lparr>spAlg = ''AES-256-GCM'', spKeyID = ''mk'', spKeyVersion = ''v1'',
        spNonce = b64Encode toy_lib (replicate 12 (CHR 0x00)),
        spCiphertext = b64Encode toy_lib (gcmSeal toy_lib (sha256 toy_lib ''master'') (replicate 12 (CHR 0x00)) ''v'')\<rparr>, seKV = None\<rparr>)]\<rparr>)\<rparr>"

definition idleExecutor :: "'m backend_scheme providerMigrationExecutor" where
  "idleExecutor = \<lparr>exWrite = (\<lambda>_ b. (''degraded'', b)), exVerify = (\<lambda>_ b. (''degraded'', b))\<rparr>"

lemma demo_holding:
  "ready toy_lib demoHolding" "vault toy_lib demoHolding ''k'' = Some ''v''" "copyable toy_lib demoHolding ''k''"
proof -
  have k: "trimSpace ''master'' \<noteq> []" "trimSpace ''audit.jsonl'' \<noteq> []" "scFailed (scanChain toy_lib (readAuditEvents toy_lib [])) = 0" by code_simp+
  have f: "bAuditPath demoHolding = ''audit.jsonl''" "bAuditFaults demoHolding = []" "\<not> bAuditTorn demoHolding" "bAuditLog demoHolding = []"
    "bMasterKey demoHolding = ''master''" "bRandom demoHolding = []" "bSaveFaults demoHolding = []" "\<forall>e. bDisk demoHolding \<noteq> Unreadable e"
    by (simp_all add: demoHolding_def demoBackend_def demoLock_def demoAudit_def lockState.defs auditState.defs)
  show "ready toy_lib demoHolding" using f k by (simp add: ready_def auditCalm_def faultless_def isLocked_def)
  show v: "vault toy_lib demoHolding ''k'' = Some ''v''" by code_simp
  have "validSecretRef ''k''" "\<not> containsStr (toLower toy_lib ''k'') ''deny''" by code_simp+
  then show "copyable toy_lib demoHolding ''k''" using v by (simp add: copyable_def)
qed

lemma demo_migration:
  "migrationAdmitted demoMigration demoHolding" "safeList (mwRefs demoMigration) = [''k'']" "mwTargetProviderID demoMigration = ''local''"
  "localMigrationSource (migrationSourceID (firstNonEmpty (mwSourceProviderID demoMigration) ''local''))"
  "bDisk demoHolding = Stored s \<Longrightarrow> stMigrations s = []"
proof -
  have l: "\<not> isLocked demoHolding" using demo_holding(1) by (simp add: ready_def faultless_def)
  have "validSecretRef ''local''" "trimSpace ''move'' \<noteq> []" "trimSpace ''m1'' \<noteq> []" by code_simp+
  then show "migrationAdmitted demoMigration demoHolding" using l by (simp add: migrationAdmitted_def demoMigration_def)
  show "safeList (mwRefs demoMigration) = [''k'']" "localMigrationSource (migrationSourceID (firstNonEmpty (mwSourceProviderID demoMigration) ''local''))"
    by code_simp+
  show "bDisk demoHolding = Stored s \<Longrightarrow> stMigrations s = []" by (auto simp: demoHolding_def freshStore_def)
qed (simp add: demoMigration_def)

lemma demo_applied: "mzApplied (fst (fst (migrationApply toy_lib demoMigrationIO demoExecutors noSecurity demoMigration demoHolding)))"
  by (rule local_migration_applies [OF toy_lib_ok demo_holding(1) demo_migration(1,3,4)])
    (use demo_migration(2,5) demo_holding(3) in \<open>auto simp: demoExecutors_def demoMigration_def ascii_def\<close>)


theorem applied_migration_is_final_witness:
  "migrationApply toy_lib demoMigrationIO [(''local'', idleExecutor)] noSecurity demoMigration
     (snd (migrationApply toy_lib demoMigrationIO demoExecutors noSecurity demoMigration demoHolding))
   = migrationApply toy_lib demoMigrationIO demoExecutors noSecurity demoMigration
     (snd (migrationApply toy_lib demoMigrationIO demoExecutors noSecurity demoMigration demoHolding))"
proof -
  let ?run = "migrationApply toy_lib demoMigrationIO demoExecutors noSecurity demoMigration demoHolding"
  let ?req = "demoMigration\<lparr>mwRefs := sort (safeList (mwRefs demoMigration))\<rparr>"
  have "\<forall>executor \<in> ran (map_of demoExecutors). migration_executor toy_lib executor (lib_ok toy_lib)"
    using local_store.migration_executor_axioms [of toy_lib] by (auto simp: demoExecutors_def ran_def)
  then have "secretsKept toy_lib demoHolding (snd ?run)" by (rule migrationApply_keeps [OF _ toy_lib_ok])
  then have v: "vault toy_lib (snd ?run) = vault toy_lib demoHolding" by (simp add: secretsKept_def)
  have refs: "safeList (mwRefs ?req) = [''k'']" by code_simp
  have "\<forall>ref \<in> set (safeList (mwRefs ?req)). copyable toy_lib (snd ?run) ref"
    using demo_holding(3) v refs by (simp add: copyable_def)
  have "\<forall>i \<in> set (migrationItems toy_lib demoMigrationIO (map fst demoExecutors) noSecurity ?req
      (lookupProvider toy_lib demoMigrationIO (map fst demoExecutors) noSecurity (mwTargetProviderID demoMigration) (snd ?run)) False [] (snd ?run)).
      mtOutcome i = ''dry_run_ready''"
    using copyable_items [OF \<open>\<forall>ref \<in> set (safeList (mwRefs ?req)). copyable toy_lib (snd ?run) ref\<close>] demo_migration(4) by simp
  from applied_migration_is_final [where b = demoHolding and b' = "snd ?run" and res = "fst (fst ?run)" and err = "snd (fst ?run)"
      and other = "[(''local'', idleExecutor)]", OF _ demo_applied _ _ refl _ this]
  show ?thesis using demo_migration(2,5) by (simp add: demoExecutors_def)
qed

end
